(* ===== verification/Prelude.thy ===== *)
theory Prelude
  imports Main "HOL-Library.AList" "HOL-Library.List_Lexorder" "HOL-Library.Char_ord"
begin

text \<open>
  Shared vocabulary of the development: the Python exceptions as values, results as sums,
  insertion-ordered dictionaries, and the list operations of the language that the sources
  use (\<open>dict.fromkeys\<close>, \<open>len(xs) != len(set(xs))\<close>, \<open>sorted\<close>).  The lemmas are declared
  so that \<open>simp\<close> and \<open>auto\<close> carry them into the component theories.
\<close>

section \<open>Exceptions as values\<close>

text \<open>
  The six wire codes of \<open>ServiceErrorCode\<close> and the exceptions that the modelled code raises:
  \<open>ServiceFault(code)\<close>, \<open>ConditionFailed\<close>, \<open>WorkflowRunUnavailable\<close>, \<open>ValueError\<close> (pydantic's
  \<open>ValidationError\<close> is a subclass of it), the \<open>KeyError\<close> of a dictionary read, the
  \<open>ArithmeticError\<close> of the decimal module (\<open>InvalidOperation\<close>), the \<open>PermissionError\<close> of a material change, and any other
  exception (a timeout, or whatever injected code raises).  \<open>Pdf_Error\<close> stands for the \<open>PDFWriteError\<close> classes by their code,
  \<open>Source_Binding\<close> for the controller's \<open>SourceBindingError\<close>.
\<close>

datatype service_error_code =
  VALIDATION | UNAUTHORIZED | NOT_FOUND | CONFLICT | CAPABILITY | EXECUTION

datatype pdf_error_code =
    Pdf_Unsupported_Uri | Pdf_Conflict | Pdf_Read | Pdf_Placement | Pdf_Font | Pdf_Write | Pdf_Invalid_Result

datatype fault =
    Service_Fault service_error_code
  | Pdf_Error pdf_error_code
  | Source_Binding
  | Condition_Failed
  | Run_Unavailable
  | Value_Error
  | Key_Error
  | Arithmetic_Error
  | Permission_Error
  | Other_Exception

text \<open>What \<open>except ValueError\<close> catches; three of the PDF errors are value errors too.\<close>

definition is_value_error :: "fault \<Rightarrow> bool" where
  "is_value_error e =
     (case e of Value_Error \<Rightarrow> True | Pdf_Error c \<Rightarrow> c \<in> {Pdf_Unsupported_Uri, Pdf_Conflict, Pdf_Placement} | _ \<Rightarrow> False)"

definition is_pdf_error :: "fault \<Rightarrow> bool" where
  "is_pdf_error e = (case e of Pdf_Error c \<Rightarrow> True | _ \<Rightarrow> False)"

lemma is_value_error_simps [simp]:
  "is_value_error Value_Error" "is_value_error (Pdf_Error c) \<longleftrightarrow> c \<in> {Pdf_Unsupported_Uri, Pdf_Conflict, Pdf_Placement}"
  "\<not> is_value_error Key_Error" "\<not> is_value_error (Service_Fault c')" "\<not> is_value_error Source_Binding"
  by (simp_all add: is_value_error_def)

type_synonym 'a result = "fault + 'a"

type_synonym uuid = nat
type_synonym digest = string

text \<open>Sequencing: the first exception wins, as an unhandled \<open>raise\<close> does.\<close>

definition bind_result :: "'e + 'a \<Rightarrow> ('a \<Rightarrow> 'e + 'b) \<Rightarrow> 'e + 'b" where
  "bind_result m f = (case m of Inl e \<Rightarrow> Inl e | Inr x \<Rightarrow> f x)"

definition ensure :: "bool \<Rightarrow> 'e \<Rightarrow> 'e + unit" where
  "ensure b e = (if b then Inr () else Inl e)"

definition on_error :: "'e + 'a \<Rightarrow> ('e \<Rightarrow> 'f + 'a) \<Rightarrow> 'f + 'a" where
  "on_error m h = (case m of Inl e \<Rightarrow> h e | Inr x \<Rightarrow> Inr x)"

definition some_or :: "'e \<Rightarrow> 'a option \<Rightarrow> 'e + 'a" where
  "some_or e v = (case v of None \<Rightarrow> Inl e | Some x \<Rightarrow> Inr x)"

definition is_ok :: "'e + 'a \<Rightarrow> bool" where
  "is_ok m = (case m of Inl _ \<Rightarrow> False | Inr _ \<Rightarrow> True)"

lemma bind_result_simps [simp]:
  "bind_result (Inl e) f = Inl e"
  "bind_result (Inr x) f = f x"
  by (simp_all add: bind_result_def)

lemma bind_result_eq_Inr [simp]:
  "bind_result m f = Inr y \<longleftrightarrow> (\<exists>x. m = Inr x \<and> f x = Inr y)"
  by (cases m) simp_all

lemma bind_result_eq_Inl:
  "bind_result m f = Inl e \<longleftrightarrow> m = Inl e \<or> (\<exists>x. m = Inr x \<and> f x = Inl e)"
  by (cases m) simp_all

lemma bind_result_assoc:
  "bind_result (bind_result m f) g = bind_result m (\<lambda>x. bind_result (f x) g)"
  by (cases m) simp_all

lemma ensure_simps [simp]:
  "ensure True e = Inr ()"
  "ensure False e = Inl e"
  "ensure b e = Inr u \<longleftrightarrow> b"
  "ensure b e = Inl e' \<longleftrightarrow> \<not> b \<and> e = e'"
  by (auto simp: ensure_def)

lemma on_error_simps [simp]:
  "on_error (Inl e) h = h e"
  "on_error (Inr x) h = Inr x"
  by (simp_all add: on_error_def)

lemma on_error_eq_Inr:
  "on_error m h = Inr y \<longleftrightarrow> m = Inr y \<or> (\<exists>e. m = Inl e \<and> h e = Inr y)"
  by (cases m) auto

lemma some_or_simps [simp]:
  "some_or e None = Inl e"
  "some_or e (Some x) = Inr x"
  "some_or e v = Inr y \<longleftrightarrow> v = Some y"
  "some_or e v = Inl e' \<longleftrightarrow> v = None \<and> e = e'"
  by (auto simp: some_or_def split: option.splits)

lemma is_ok_simps [simp]:
  "is_ok (Inr x)"
  "\<not> is_ok (Inl e)"
  by (simp_all add: is_ok_def)

lemma is_ok_iff: "is_ok m \<longleftrightarrow> (\<exists>x. m = Inr x)"
  by (cases m) simp_all

text \<open>
  \<open>all(...)\<close>, \<open>any(...)\<close> and a filtering comprehension over a test that may raise: left to right, and no
  further than the answer needs.
\<close>

fun all_result :: "('a \<Rightarrow> 'e + bool) \<Rightarrow> 'a list \<Rightarrow> 'e + bool" where
  "all_result f [] = Inr True"
| "all_result f (x # xs) = bind_result (f x) (\<lambda>b. if b then all_result f xs else Inr False)"

fun any_result :: "('a \<Rightarrow> 'e + bool) \<Rightarrow> 'a list \<Rightarrow> 'e + bool" where
  "any_result f [] = Inr False"
| "any_result f (x # xs) = bind_result (f x) (\<lambda>b. if b then Inr True else any_result f xs)"

fun filter_result :: "('a \<Rightarrow> 'e + bool) \<Rightarrow> 'a list \<Rightarrow> 'e + 'a list" where
  "filter_result f [] = Inr []"
| "filter_result f (x # xs) = bind_result (f x) (\<lambda>b. bind_result (filter_result f xs) (\<lambda>ys. Inr (if b then x # ys else ys)))"

fun map_result :: "('a \<Rightarrow> 'e + 'b) \<Rightarrow> 'a list \<Rightarrow> 'e + 'b list" where
  "map_result f [] = Inr []"
| "map_result f (x # xs) = bind_result (f x) (\<lambda>y. bind_result (map_result f xs) (\<lambda>ys. Inr (y # ys)))"

definition and_result :: "bool \<Rightarrow> ('e + bool) \<Rightarrow> 'e + bool" where
  "and_result b m = (if b then m else Inr False)"

lemma all_result_True: "all_result f xs = Inr True \<longleftrightarrow> (\<forall>x \<in> set xs. f x = Inr True)"
  by (induction xs) auto

lemma any_result_True: "any_result f xs = Inr True \<Longrightarrow> \<exists>x \<in> set xs. f x = Inr True"
  by (induction xs) (auto split: if_splits)

lemma filter_result_set: "filter_result f xs = Inr ys \<Longrightarrow> set ys = {x \<in> set xs. f x = Inr True}"
  by (induction xs arbitrary: ys) (auto split: if_splits)

lemma map_result_Inr: "map_result f xs = Inr ys \<longleftrightarrow> list_all2 (\<lambda>x y. f x = Inr y) xs ys"
  by (induction xs arbitrary: ys) (auto simp: list_all2_Cons1)

lemma and_result_simps [simp]:
  "and_result True m = m"
  "and_result False m = Inr False"
  "and_result b m = Inr True \<longleftrightarrow> b \<and> m = Inr True"
  by (simp_all add: and_result_def)

section \<open>Insertion-ordered dictionaries\<close>

text \<open>
  A Python \<open>dict\<close> iterates in insertion order and keeps the position of a key it overwrites.
  The association lists of the library with \<^const>\<open>AList.update\<close> do exactly that; a read
  is \<^const>\<open>map_of\<close>.
\<close>

type_synonym ('k, 'v) dict = "('k \<times> 'v) list"

abbreviation dict_get :: "('k, 'v) dict \<Rightarrow> 'k \<Rightarrow> 'v option" where
  "dict_get \<equiv> map_of"

abbreviation dict_set :: "'k \<Rightarrow> 'v \<Rightarrow> ('k, 'v) dict \<Rightarrow> ('k, 'v) dict" where
  "dict_set \<equiv> AList.update"

abbreviation dict_ok :: "('k, 'v) dict \<Rightarrow> bool" where
  "dict_ok d \<equiv> distinct (map fst d)"

lemma dict_get_set [simp]: "dict_get (dict_set k v d) k' = (if k' = k then Some v else dict_get d k')"
  by (simp add: update_conv')

lemma dict_get_iff: "dict_ok d \<Longrightarrow> dict_get d k = Some v \<longleftrightarrow> (k, v) \<in> set d"
  by (rule map_of_eq_Some_iff)

lemma dict_ok_set [simp, intro]: "dict_ok d \<Longrightarrow> dict_ok (dict_set k v d)"
  by (rule distinct_update)

lemma dict_get_None_iff: "dict_get d k = None \<longleftrightarrow> k \<notin> fst ` set d"
  by (rule map_of_eq_None_iff)

text \<open>
  The contract a client of a dictionary relies on, and its instance: what a lookup returns
  after a store, and that a store keeps the keys unique.
\<close>

locale dictionary =
  fixes get :: "'d \<Rightarrow> 'k \<Rightarrow> 'v option"
    and put :: "'k \<Rightarrow> 'v \<Rightarrow> 'd \<Rightarrow> 'd"
    and ok :: "'d \<Rightarrow> bool"
  assumes get_put: "get (put k v d) k' = (if k' = k then Some v else get d k')"
    and ok_put: "ok d \<Longrightarrow> ok (put k v d)"
begin

lemma get_put_same: "get (put k v d) k = Some v"
  by (simp add: get_put)

lemma get_put_other: "k' \<noteq> k \<Longrightarrow> get (put k v d) k' = get d k'"
  by (simp add: get_put)

lemma put_preserves_all:
  assumes "\<And>k v. get d k = Some v \<Longrightarrow> P k v" and "P k v"
    and "get (put k v d) k' = Some v'"
  shows "P k' v'"
  using assms by (auto simp: get_put split: if_splits)

lemma put_grows: "get d k \<noteq> None \<Longrightarrow> get (put k' v d) k \<noteq> None"
  by (simp add: get_put)

end

interpretation alist_dict: dictionary dict_get dict_set dict_ok
  by unfold_locales simp_all

section \<open>List idioms of the sources\<close>

text \<open>\<open>tuple(dict.fromkeys(xs))\<close>: the first occurrence of every element, in order.\<close>

fun fromkeys :: "'a list \<Rightarrow> 'a list" where
  "fromkeys [] = []"
| "fromkeys (x # xs) = x # removeAll x (fromkeys xs)"

lemma set_fromkeys [simp]: "set (fromkeys xs) = set xs"
  by (induction xs) auto

lemma distinct_fromkeys [simp]: "distinct (fromkeys xs)"
  by (induction xs) (simp_all add: distinct_removeAll)

lemma fromkeys_distinct [simp]: "distinct xs \<Longrightarrow> fromkeys xs = xs"
  by (induction xs) (simp_all add: removeAll_id)

lemma fromkeys_eq_Nil [simp]: "fromkeys xs = [] \<longleftrightarrow> xs = []"
  by (cases xs) simp_all

text \<open>\<open>len(xs) == len(set(xs))\<close> is distinctness.\<close>

lemma len_set_distinct: "card (set xs) = length xs \<longleftrightarrow> distinct xs"
  using card_distinct distinct_card by metis

text \<open>\<open>sorted(xs, key=f)\<close> is stable, as \<^const>\<open>sort_key\<close> is.\<close>

lemma set_take_sort_key: "set (take n (sort_key f xs)) \<subseteq> set xs"
  using set_take_subset [of n "sort_key f xs"] by simp

lemma take_all_sort_key: "length xs \<le> n \<Longrightarrow> set (take n (sort_key f xs)) = set xs"
  by simp

section \<open>Transition systems\<close>

text \<open>
  Every stateful component below is a step relation with an invariant.  The induction over its
  runs is made once: a predicate kept by each step holds in every later state, and a step that
  never lowers a measure never lowers it over a run.
\<close>

locale transition_system =
  fixes step :: "'s \<Rightarrow> 's \<Rightarrow> bool"
    and inv :: "'s \<Rightarrow> bool"
  assumes step_inv: "step s t \<Longrightarrow> inv s \<Longrightarrow> inv t"
begin

lemma run_inv: "step\<^sup>*\<^sup>* s t \<Longrightarrow> inv s \<Longrightarrow> inv t"
  by (induction rule: rtranclp_induct) (auto intro: step_inv)

lemma run_preserves:
  assumes "step\<^sup>*\<^sup>* s t" and "inv s" and "P s"
    and "\<And>x y. step x y \<Longrightarrow> inv x \<Longrightarrow> P x \<Longrightarrow> P y"
  shows "P t"
  using assms(1)
proof (induction rule: rtranclp_induct)
  case base
  show ?case by (rule assms(3))
next
  case (step y z)
  have "inv y" using step.hyps(1) assms(2) by (rule run_inv)
  then show ?case using step.hyps(2) step.IH assms(4) by blast
qed

lemma run_monotone:
  fixes f :: "'s \<Rightarrow> int"
  assumes "step\<^sup>*\<^sup>* s t" and "inv s"
    and "\<And>x y. step x y \<Longrightarrow> inv x \<Longrightarrow> f x \<le> f y"
  shows "f s \<le> f t"
  using assms(1,2)
proof (rule run_preserves)
  show "f s \<le> f s" by simp
next
  fix x y assume "step x y" "inv x" "f s \<le> f x"
  then show "f s \<le> f y" using assms(3) by fastforce
qed

end

text \<open>The facts and simplification rules of the components, collected as they are proved.\<close>

named_theorems job_simps "characteristic equations of the job control plane"
named_theorems store_pres "preservation of the job store invariant"
named_theorems factor_simps "characteristic equations of the factor engine"
named_theorems ledger_simps "characteristic equations of the run ledger"

end
