(* ===== verification/Service_Contracts.thy ===== *)
theory Service_Contracts
  imports Prelude
begin

text \<open>
  The wire contracts of \<open>domain/service_contracts.py\<close> and \<open>domain/job_contracts.py\<close> that the
  job control plane passes around, with their pydantic validators as boolean functions, and the
  pure admission checks of \<open>application/service_guards.py\<close> on principals and idempotency.
  Hashing (\<open>content_digest\<close>, \<open>hashlib.sha256\<close>) is a function argument of the operations that use it.
\<close>

section \<open>Field patterns\<close>

definition is_alnum :: "char \<Rightarrow> bool" where
  "is_alnum c = (let n = of_char c :: nat
     in 48 \<le> n \<and> n \<le> 57 \<or> 65 \<le> n \<and> n \<le> 90 \<or> 97 \<le> n \<and> n \<le> 122)"

text \<open>\<open>OpaqueID\<close>: a letter or digit, then at most 127 letters, digits, dots, underscores, hyphens.\<close>

definition opaque_id :: "string \<Rightarrow> bool" where
  "opaque_id s = (case s of [] \<Rightarrow> False
     | c # cs \<Rightarrow> is_alnum c \<and> length cs \<le> 127
         \<and> list_all (\<lambda>d. is_alnum d \<or> d = CHR ''.'' \<or> d = CHR ''_'' \<or> d = CHR ''-'') cs)"

text \<open>\<open>Digest\<close>: sixty-four lower-case hexadecimal digits.\<close>

definition digest_pattern :: "string \<Rightarrow> bool" where
  "digest_pattern s = (length s = 64
     \<and> list_all (\<lambda>c. let n = of_char c :: nat in 48 \<le> n \<and> n \<le> 57 \<or> 97 \<le> n \<and> n \<le> 102) s)"

section \<open>References and actors\<close>

datatype document_purpose =
  P_criteria | P_forms | P_reference | P_brief | P_template

record document_reference =
  doc_case_id :: string
  doc_document_id :: string
  doc_version :: string
  doc_content_hash :: digest
  doc_purpose :: document_purpose

record revision_reference =
  rev_case_id :: string
  rev_revision_id :: string
  rev_material_digest :: digest

record run_reference =
  rr_run_id :: uuid
  rr_revision :: revision_reference
  rr_attempt_id :: "uuid option"
  rr_runtime_session_id :: "string option"

text \<open>\<open>RunReference.separate_session\<close> and the \<open>min_length\<close> of the session identifier.\<close>

definition run_reference_valid :: "run_reference \<Rightarrow> bool" where
  "run_reference_valid r = (rr_runtime_session_id r \<noteq> Some []
     \<and> (rr_runtime_session_id r \<noteq> None \<longrightarrow> rr_attempt_id r \<noteq> None))"

datatype actor_kind = A_human | A_system | A_model

record actor_reference =
  actor_id :: string
  actor_kind :: actor_kind

datatype permission = P_REVIEW | P_CONFIRM | P_CORRECT | P_APPROVE_RULES | P_APPROVE_MATERIAL | P_PUBLISH

record service_problem =
  problem_code :: service_error_code

section \<open>Submissions\<close>

record review_submission =
  sub_revision :: revision_reference
  sub_documents :: "document_reference list"
  sub_idempotency_key :: string

definition document_reference_valid :: "document_reference \<Rightarrow> bool" where
  "document_reference_valid d = (opaque_id (doc_case_id d) \<and> opaque_id (doc_document_id d)
     \<and> opaque_id (doc_version d) \<and> digest_pattern (doc_content_hash d))"

definition revision_reference_valid :: "revision_reference \<Rightarrow> bool" where
  "revision_reference_valid r = (opaque_id (rev_case_id r) \<and> opaque_id (rev_revision_id r)
     \<and> digest_pattern (rev_material_digest r))"

text \<open>\<open>ReviewSubmission\<close>: the field constraints and \<open>same_case\<close>.\<close>

definition review_submission_valid :: "review_submission \<Rightarrow> bool" where
  "review_submission_valid s =
     (revision_reference_valid (sub_revision s)
      \<and> list_all document_reference_valid (sub_documents s)
      \<and> 2 \<le> length (sub_documents s)
      \<and> opaque_id (sub_idempotency_key s)
      \<and> distinct (map doc_document_id (sub_documents s))
      \<and> list_all (\<lambda>d. doc_case_id d = rev_case_id (sub_revision s)) (sub_documents s))"

section \<open>Principals and idempotency\<close>

record principal =
  pr_actor :: actor_reference
  pr_case_ids :: "string list"
  pr_permissions :: "permission list"

definition principal_require :: "principal \<Rightarrow> string \<Rightarrow> permission \<Rightarrow> unit result" where
  "principal_require p case_id perm =
     ensure (case_id \<in> set (pr_case_ids p) \<and> perm \<in> set (pr_permissions p))
       (Service_Fault UNAUTHORIZED)"

record idempotency_record =
  idem_principal_id :: string
  idem_key :: string
  idem_payload_digest :: digest
  idem_run_id :: uuid

text \<open>
  \<open>submission_digest\<close>: the documents are sorted by identifier and the idempotency key is replaced
  by a constant before hashing; the argument is \<open>content_digest\<close>.  Identifiers are ASCII, so the
  lexicographic order on \<open>string\<close> is Python's.
\<close>

definition canonical_submission :: "review_submission \<Rightarrow> review_submission" where
  "canonical_submission s =
     s\<lparr>sub_documents := sort_key doc_document_id (sub_documents s),
       sub_idempotency_key := ''canonical-payload''\<rparr>"

definition submission_digest :: "(review_submission \<Rightarrow> digest) \<Rightarrow> review_submission \<Rightarrow> digest" where
  "submission_digest content_digest s = content_digest (canonical_submission s)"

definition check_idempotency ::
  "(review_submission \<Rightarrow> digest) \<Rightarrow> idempotency_record \<Rightarrow> principal \<Rightarrow> review_submission \<Rightarrow> uuid result"
  where
  "check_idempotency content_digest rec p s =
     bind_result (principal_require p (rev_case_id (sub_revision s)) P_REVIEW) (\<lambda>_.
       if idem_principal_id rec \<noteq> actor_id (pr_actor p) \<or> idem_key rec \<noteq> sub_idempotency_key s
       then Inl (Service_Fault UNAUTHORIZED)
       else if idem_payload_digest rec \<noteq> submission_digest content_digest s
       then Inl (Service_Fault CONFLICT)
       else Inr (idem_run_id rec))"

lemma principal_require_ok [simp]:
  "principal_require p c perm = Inr u \<longleftrightarrow> c \<in> set (pr_case_ids p) \<and> perm \<in> set (pr_permissions p)"
  by (simp add: principal_require_def)

lemma check_idempotency_Inr:
  "check_idempotency cd rec p s = Inr r \<longleftrightarrow>
     rev_case_id (sub_revision s) \<in> set (pr_case_ids p) \<and> P_REVIEW \<in> set (pr_permissions p)
     \<and> idem_principal_id rec = actor_id (pr_actor p) \<and> idem_key rec = sub_idempotency_key s
     \<and> idem_payload_digest rec = submission_digest cd s \<and> r = idem_run_id rec"
  by (auto simp: check_idempotency_def)

text \<open>Two lists that are permutations of each other with distinct keys sort to the same list.\<close>

lemma sort_key_permutation_eq:
  assumes "set xs = set ys" and "distinct (map f xs)" and "distinct (map f ys)"
  shows "sort_key f xs = sort_key f ys"
proof (rule map_inj_on [where f = f])
  have "distinct (map f (sort_key f zs))" if "distinct (map f zs)" for zs
    using that by (simp add: distinct_map)
  then have "map f (sort_key f xs) = map f (sort_key f ys)"
    using assms by (intro sorted_distinct_set_unique) (auto simp: sorted_sort_key)
  then show "map f (sort_key f xs) = map f (sort_key f ys)" .
  show "inj_on f (set (sort_key f xs) \<union> set (sort_key f ys))"
    using assms by (simp add: distinct_map)
qed

text \<open>
  The payload identity of a submission depends neither on the order in which the documents
  are listed nor on the idempotency key: two valid submissions of one revision with the same set of
  documents have the same digest, whatever the hash function is.
\<close>

theorem submission_digest_order_independent:
  assumes "review_submission_valid s" and "review_submission_valid t"
    and "sub_revision s = sub_revision t" and "set (sub_documents s) = set (sub_documents t)"
  shows "submission_digest cd s = submission_digest cd t"
proof -
  have "sort_key doc_document_id (sub_documents s) = sort_key doc_document_id (sub_documents t)"
    using assms by (intro sort_key_permutation_eq) (auto simp: review_submission_valid_def)
  with assms(3) show ?thesis
    by (cases s; cases t) (simp add: submission_digest_def canonical_submission_def)
qed

text \<open>A concrete submission, used by the witnesses of this and of later theories.\<close>

definition demo_document :: "string \<Rightarrow> document_reference" where
  "demo_document n = \<lparr>doc_case_id = ''case1'', doc_document_id = n, doc_version = ''v1'',
     doc_content_hash = replicate 64 CHR ''0'', doc_purpose = P_criteria\<rparr>"

definition demo_submission :: review_submission where
  "demo_submission = \<lparr>sub_revision = \<lparr>rev_case_id = ''case1'', rev_revision_id = ''r1'',
       rev_material_digest = replicate 64 CHR ''0''\<rparr>,
     sub_documents = [demo_document ''b'', demo_document ''a''], sub_idempotency_key = ''key''\<rparr>"

definition demo_principal :: principal where
  "demo_principal = \<lparr>pr_actor = \<lparr>actor_id = ''alice'', actor_kind = A_human\<rparr>,
     pr_case_ids = [''case1''], pr_permissions = [P_REVIEW]\<rparr>"

lemma demo_valid: "review_submission_valid demo_submission"
  by (simp add: demo_submission_def demo_document_def review_submission_valid_def revision_reference_valid_def
      document_reference_valid_def opaque_id_def digest_pattern_def is_alnum_def Let_def list_all_iff)

theorem submission_digest_order_independent_witness:
  "submission_digest (\<lambda>s. concat (map doc_document_id (sub_documents s))) demo_submission
   = submission_digest (\<lambda>s. concat (map doc_document_id (sub_documents s)))
       (demo_submission\<lparr>sub_documents := [demo_document ''a'', demo_document ''b''], sub_idempotency_key := ''again''\<rparr>)"
proof (rule submission_digest_order_independent [OF demo_valid])
  show "review_submission_valid (demo_submission\<lparr>sub_documents := [demo_document ''a'', demo_document ''b''],
      sub_idempotency_key := ''again''\<rparr>)"
    by (simp add: demo_submission_def demo_document_def review_submission_valid_def revision_reference_valid_def
        document_reference_valid_def opaque_id_def digest_pattern_def is_alnum_def Let_def list_all_iff)
qed (auto simp: demo_submission_def)

section \<open>Job statuses and the authorized status view\<close>

datatype job_status =
  QUEUED | DISPATCHED | RUNNING | WAITING_FOR_HUMAN | RETRYABLE_FAILED | FAILED | SUCCEEDED | CANCELLED

definition terminal_statuses :: "job_status set" where
  "terminal_statuses = {FAILED, SUCCEEDED, CANCELLED}"

definition lease_holding_statuses :: "job_status set" where
  "lease_holding_statuses = {RUNNING}"

definition cancel_pending_statuses :: "job_status set" where
  "cancel_pending_statuses = {RUNNING} \<union> terminal_statuses"

datatype execution_status = X_QUEUED | X_RUNNING | X_SUCCEEDED | X_FAILED

fun wire_status :: "job_status \<Rightarrow> execution_status" where
  "wire_status QUEUED = X_QUEUED"
| "wire_status DISPATCHED = X_QUEUED"
| "wire_status RUNNING = X_RUNNING"
| "wire_status WAITING_FOR_HUMAN = X_SUCCEEDED"
| "wire_status RETRYABLE_FAILED = X_RUNNING"
| "wire_status FAILED = X_FAILED"
| "wire_status SUCCEEDED = X_SUCCEEDED"
| "wire_status CANCELLED = X_FAILED"

record job_status_view =
  v_case_id :: string
  v_job_id :: uuid
  v_job_status :: job_status
  v_current_run :: "run_reference option"
  v_attempt_count :: int
  v_result_version :: int
  v_cancel_requested :: bool
  v_open_task_ids :: "uuid list"
  v_problem :: "service_problem option"

text \<open>\<open>JobStatusView\<close>: the \<open>ge=0\<close> fields and the validator \<open>honest_status\<close>.\<close>

definition honest_status :: "job_status_view \<Rightarrow> bool" where
  "honest_status v =
     (0 \<le> v_attempt_count v \<and> 0 \<le> v_result_version v
      \<and> ((v_job_status v \<in> {FAILED, CANCELLED}) = (v_problem v \<noteq> None))
      \<and> \<not> (v_job_status v = SUCCEEDED \<and> v_result_version v < 1)
      \<and> \<not> (v_job_status v = WAITING_FOR_HUMAN \<and> v_open_task_ids v = [])
      \<and> \<not> (v_cancel_requested v \<and> v_job_status v \<notin> cancel_pending_statuses)
      \<and> distinct (v_open_task_ids v)
      \<and> (case v_current_run v of None \<Rightarrow> True
           | Some r \<Rightarrow> rev_case_id (rr_revision r) = v_case_id v))"

record job_acceptance =
  acc_case_id :: string
  acc_job_id :: uuid
  acc_run :: run_reference

text \<open>\<open>JobAcceptance.same_case\<close>; the status of an acceptance is pinned to \<open>QUEUED\<close> by its type.\<close>

definition job_acceptance_valid :: "job_acceptance \<Rightarrow> bool" where
  "job_acceptance_valid a =
     (rev_case_id (rr_revision (acc_run a)) = acc_case_id a
      \<and> rr_attempt_id (acc_run a) = None \<and> rr_runtime_session_id (acc_run a) = None)"

lemma status_sets [simp]:
  "st \<in> terminal_statuses \<longleftrightarrow> st = FAILED \<or> st = SUCCEEDED \<or> st = CANCELLED"
  "st \<in> cancel_pending_statuses \<longleftrightarrow> st = RUNNING \<or> st = FAILED \<or> st = SUCCEEDED \<or> st = CANCELLED"
  "st \<in> lease_holding_statuses \<longleftrightarrow> st = RUNNING"
  by (auto simp: terminal_statuses_def cancel_pending_statuses_def lease_holding_statuses_def)

end
