(* ===== verification/Job_State.thy ===== *)
theory Job_State
  imports Service_Contracts
begin

text \<open>
  \<open>application/job_state.py\<close>: the one authority for durable job status changes.  The events, the
  bounded execution policy, the facts a transition reads and the decided transition are the
  source's types; \<open>next_state\<close> has its guards in the source's order.  The lemmas give the status
  graph, the pre-emption by a recorded cancel, the ceilings on attempts and lease takeovers and
  the bounds of the retry delay.
\<close>

section \<open>Events and policy\<close>

datatype job_event =
    SUBMIT | DISPATCH_SUCCEEDED | DISPATCH_FAILED | CLAIM | HEARTBEAT | LEASE_EXPIRED | NEEDS_HUMAN
  | PUBLISH_RESULT | RETRYABLE_ERROR | PERMANENT_ERROR | SCHEDULE_RETRY | HUMAN_RESPONSE_COMMITTED
  | HUMAN_REJECTED | CANCEL | CANCEL_ACKNOWLEDGED

definition lease_bound_events :: "job_event set" where
  "lease_bound_events =
     {HEARTBEAT, NEEDS_HUMAN, PUBLISH_RESULT, RETRYABLE_ERROR, PERMANENT_ERROR, CANCEL_ACKNOWLEDGED}"

definition claimable_statuses :: "job_status set" where
  "claimable_statuses = {QUEUED, DISPATCHED, RETRYABLE_FAILED}"

definition cancellable_statuses :: "job_status set" where
  "cancellable_statuses = {QUEUED, DISPATCHED, WAITING_FOR_HUMAN, RETRYABLE_FAILED}"

record job_policy =
  lease_seconds :: int
  heartbeat_seconds :: int
  visibility_timeout_seconds :: int
  max_attempts :: int
  max_lease_takeovers :: int
  backoff_base_seconds :: int
  backoff_cap_seconds :: int

definition default_policy :: job_policy where
  "default_policy = \<lparr>lease_seconds = 120, heartbeat_seconds = 30, visibility_timeout_seconds = 180,
     max_attempts = 5, max_lease_takeovers = 3, backoff_base_seconds = 30, backoff_cap_seconds = 900\<rparr>"

text \<open>\<open>JobPolicy.__post_init__\<close>: the constructor raises unless these hold.\<close>

definition job_policy_valid :: "job_policy \<Rightarrow> bool" where
  "job_policy_valid p =
     (\<not> min (lease_seconds p) (min (heartbeat_seconds p) (backoff_base_seconds p)) < 1
      \<and> \<not> min (max_attempts p) (max_lease_takeovers p) < 1
      \<and> \<not> heartbeat_seconds p * 3 > lease_seconds p
      \<and> \<not> visibility_timeout_seconds p \<le> lease_seconds p
      \<and> \<not> backoff_cap_seconds p < backoff_base_seconds p)"

lemma job_policy_validD:
  assumes "job_policy_valid p"
  shows "1 \<le> lease_seconds p" "1 \<le> heartbeat_seconds p" "1 \<le> backoff_base_seconds p"
    "1 \<le> max_attempts p" "1 \<le> max_lease_takeovers p" "0 < max_attempts p" "0 < max_lease_takeovers p"
    "backoff_base_seconds p \<le> backoff_cap_seconds p"
  using assms by (auto simp: job_policy_valid_def not_less)

text \<open>\<open>base << shift\<close> is multiplication by a power of two; the shift is capped at 32.\<close>

definition backoff_seconds :: "job_policy \<Rightarrow> int \<Rightarrow> int result" where
  "backoff_seconds p attempt =
     (if attempt < 1 then Inl Value_Error
      else let shift = min (attempt - 1) 32
           in Inr (min (backoff_base_seconds p * 2 ^ nat shift) (backoff_cap_seconds p)))"

section \<open>Facts and transitions\<close>

record job_facts =
  f_status :: job_status
  f_attempt_count :: int
  f_lease_takeover_count :: int
  f_cancel_requested :: bool
  f_has_open_tasks :: bool

record transition =
  t_status :: job_status
  t_attempt_delta :: int
  t_takeover_delta :: int
  t_release_lease :: bool
  t_enqueue_outbox :: bool
  t_request_cancel :: bool
  t_requires_lease :: bool

definition plain_transition :: "job_status \<Rightarrow> transition" where
  "plain_transition st = \<lparr>t_status = st, t_attempt_delta = 0, t_takeover_delta = 0,
     t_release_lease = False, t_enqueue_outbox = False, t_request_cancel = False,
     t_requires_lease = False\<rparr>"

definition cancel_preempted :: "bool \<Rightarrow> transition" where
  "cancel_preempted lease =
     (plain_transition CANCELLED)\<lparr>t_release_lease := True, t_requires_lease := lease\<rparr>"

definition initial_transition :: transition where
  "initial_transition = (plain_transition QUEUED)\<lparr>t_enqueue_outbox := True\<rparr>"

abbreviation conflict :: "'a result" where
  "conflict \<equiv> Inl (Service_Fault CONFLICT)"

text \<open>One equation per event, in the order of the source's tests, after the common guards.\<close>

fun event_transition :: "job_facts \<Rightarrow> job_event \<Rightarrow> job_policy \<Rightarrow> transition result" where
  "event_transition f DISPATCH_SUCCEEDED p =
     (if f_status f \<noteq> QUEUED then conflict else Inr (plain_transition DISPATCHED))"
| "event_transition f DISPATCH_FAILED p = Inr (plain_transition (f_status f))"
| "event_transition f CLAIM p =
     (if f_status f \<notin> claimable_statuses then conflict else Inr (plain_transition RUNNING))"
| "event_transition f HEARTBEAT p = Inr ((plain_transition RUNNING)\<lparr>t_requires_lease := True\<rparr>)"
| "event_transition f LEASE_EXPIRED p =
     (if f_status f \<noteq> RUNNING then conflict
      else if f_cancel_requested f then Inr (cancel_preempted False)
      else let exhausted = f_lease_takeover_count f + 1 \<ge> max_lease_takeovers p
           in Inr ((plain_transition (if exhausted then FAILED else QUEUED))
                    \<lparr>t_takeover_delta := 1, t_release_lease := True,
                     t_enqueue_outbox := \<not> exhausted\<rparr>))"
| "event_transition f NEEDS_HUMAN p =
     (if f_cancel_requested f then Inr (cancel_preempted True)
      else if \<not> f_has_open_tasks f then conflict
      else Inr ((plain_transition WAITING_FOR_HUMAN)
                 \<lparr>t_release_lease := True, t_requires_lease := True\<rparr>))"
| "event_transition f PUBLISH_RESULT p =
     Inr ((plain_transition SUCCEEDED)\<lparr>t_release_lease := True, t_requires_lease := True\<rparr>)"
| "event_transition f RETRYABLE_ERROR p =
     (if f_cancel_requested f then Inr (cancel_preempted True)
      else let exhausted = f_attempt_count f + 1 \<ge> max_attempts p
           in Inr ((plain_transition (if exhausted then FAILED else RETRYABLE_FAILED))
                    \<lparr>t_attempt_delta := 1, t_release_lease := True, t_requires_lease := True\<rparr>))"
| "event_transition f PERMANENT_ERROR p =
     Inr ((plain_transition FAILED)\<lparr>t_release_lease := True, t_requires_lease := True\<rparr>)"
| "event_transition f SCHEDULE_RETRY p =
     (if f_status f \<noteq> RETRYABLE_FAILED then conflict
      else Inr ((plain_transition QUEUED)\<lparr>t_enqueue_outbox := True\<rparr>))"
| "event_transition f HUMAN_REJECTED p =
     (if f_status f \<noteq> WAITING_FOR_HUMAN then conflict
      else Inr (plain_transition (if f_has_open_tasks f then WAITING_FOR_HUMAN else FAILED)))"
| "event_transition f HUMAN_RESPONSE_COMMITTED p =
     (if f_status f \<noteq> WAITING_FOR_HUMAN then conflict
      else Inr ((plain_transition QUEUED)\<lparr>t_enqueue_outbox := True\<rparr>))"
| "event_transition f CANCEL p =
     (if f_status f = RUNNING then Inr ((plain_transition RUNNING)\<lparr>t_request_cancel := True\<rparr>)
      else if f_status f \<notin> cancellable_statuses then conflict
      else Inr ((plain_transition CANCELLED)\<lparr>t_release_lease := True\<rparr>))"
| "event_transition f CANCEL_ACKNOWLEDGED p =
     (if \<not> f_cancel_requested f then conflict
      else Inr ((plain_transition CANCELLED)\<lparr>t_release_lease := True, t_requires_lease := True\<rparr>))"
| "event_transition f SUBMIT p = conflict"

definition next_state :: "job_facts \<Rightarrow> job_event \<Rightarrow> job_policy \<Rightarrow> transition result" where
  "next_state f e p =
     (if f_attempt_count f < 0 \<or> f_lease_takeover_count f < 0 then Inl Value_Error
      else if f_status f \<in> terminal_statuses then conflict
      else if e = SUBMIT then conflict
      else if e \<in> lease_bound_events \<and> f_status f \<noteq> RUNNING then conflict
      else event_transition f e p)"

lemma event_sets [simp]:
  "e \<in> lease_bound_events \<longleftrightarrow> e = HEARTBEAT \<or> e = NEEDS_HUMAN \<or> e = PUBLISH_RESULT
     \<or> e = RETRYABLE_ERROR \<or> e = PERMANENT_ERROR \<or> e = CANCEL_ACKNOWLEDGED"
  "st \<in> claimable_statuses \<longleftrightarrow> st = QUEUED \<or> st = DISPATCHED \<or> st = RETRYABLE_FAILED"
  "st \<in> cancellable_statuses \<longleftrightarrow> st = QUEUED \<or> st = DISPATCHED \<or> st = WAITING_FOR_HUMAN
     \<or> st = RETRYABLE_FAILED"
  by (auto simp: lease_bound_events_def claimable_statuses_def cancellable_statuses_def)

lemma plain_transition_sel [simp]:
  "t_status (plain_transition st) = st"
  "t_attempt_delta (plain_transition st) = 0"
  "t_takeover_delta (plain_transition st) = 0"
  "t_release_lease (plain_transition st) = False"
  "t_enqueue_outbox (plain_transition st) = False"
  "t_request_cancel (plain_transition st) = False"
  "t_requires_lease (plain_transition st) = False"
  by (simp_all add: plain_transition_def)

lemma cancel_preempted_sel [simp]:
  "t_status (cancel_preempted b) = CANCELLED"
  "t_attempt_delta (cancel_preempted b) = 0"
  "t_takeover_delta (cancel_preempted b) = 0"
  "t_release_lease (cancel_preempted b) = True"
  "t_enqueue_outbox (cancel_preempted b) = False"
  "t_request_cancel (cancel_preempted b) = False"
  "t_requires_lease (cancel_preempted b) = b"
  by (simp_all add: cancel_preempted_def)

lemma next_state_InrD:
  assumes "next_state f e p = Inr t"
  shows "0 \<le> f_attempt_count f" "0 \<le> f_lease_takeover_count f" "f_status f \<notin> terminal_statuses"
    "e \<noteq> SUBMIT" "e \<in> lease_bound_events \<Longrightarrow> f_status f = RUNNING" "event_transition f e p = Inr t"
  using assms by (auto simp: next_state_def split: if_splits)

section \<open>The status graph\<close>

text \<open>
  The abstract specification: which statuses an event may connect.  The delta fields, the lease
  and the outbox are details that the decided transition adds.
\<close>

inductive status_step :: "job_status \<Rightarrow> job_event \<Rightarrow> job_status \<Rightarrow> bool" where
  dispatched: "status_step QUEUED DISPATCH_SUCCEEDED DISPATCHED"
| deferred: "st \<notin> terminal_statuses \<Longrightarrow> status_step st DISPATCH_FAILED st"
| claimed: "st \<in> claimable_statuses \<Longrightarrow> status_step st CLAIM RUNNING"
| alive: "status_step RUNNING HEARTBEAT RUNNING"
| reclaimed: "st \<in> {QUEUED, FAILED, CANCELLED} \<Longrightarrow> status_step RUNNING LEASE_EXPIRED st"
| parked: "st \<in> {WAITING_FOR_HUMAN, CANCELLED} \<Longrightarrow> status_step RUNNING NEEDS_HUMAN st"
| published: "status_step RUNNING PUBLISH_RESULT SUCCEEDED"
| errored: "st \<in> {RETRYABLE_FAILED, FAILED, CANCELLED} \<Longrightarrow> status_step RUNNING RETRYABLE_ERROR st"
| rejected_payload: "status_step RUNNING PERMANENT_ERROR FAILED"
| retried: "status_step RETRYABLE_FAILED SCHEDULE_RETRY QUEUED"
| human_rejected: "st \<in> {WAITING_FOR_HUMAN, FAILED} \<Longrightarrow> status_step WAITING_FOR_HUMAN HUMAN_REJECTED st"
| resumed: "status_step WAITING_FOR_HUMAN HUMAN_RESPONSE_COMMITTED QUEUED"
| cancel_noted: "status_step RUNNING CANCEL RUNNING"
| cancelled: "st \<in> cancellable_statuses \<Longrightarrow> status_step st CANCEL CANCELLED"
| acknowledged: "status_step RUNNING CANCEL_ACKNOWLEDGED CANCELLED"

inductive_simps status_step_from_terminal:
  "status_step FAILED e st" "status_step SUCCEEDED e st" "status_step CANCELLED e st"

lemma next_state_refines_status_step:
  assumes "next_state f e p = Inr t"
  shows "status_step (f_status f) e (t_status t)"
  using next_state_InrD [OF assms]
  by (cases e) (auto simp: Let_def intro!: status_step.intros split: if_splits)

lemma status_step_realised:
  assumes "status_step st e st'"
  shows "\<exists>f t. f_status f = st \<and> next_state f e default_policy = Inr t \<and> t_status t = st'"
proof -
  let ?f = "\<lparr>f_status = st, f_attempt_count = (if st' = FAILED then 4 else 0),
     f_lease_takeover_count = (if st' = FAILED then 2 else 0),
     f_cancel_requested = (st' = CANCELLED), f_has_open_tasks = (st' \<noteq> FAILED)\<rparr>"
  have "\<exists>t. next_state ?f e default_policy = Inr t \<and> t_status t = st'"
    using assms
    by (cases rule: status_step.cases) (auto simp: next_state_def default_policy_def)
  then show ?thesis by (intro exI [of _ ?f]) simp
qed

text \<open>
  C23.  The decision function implements the status graph exactly: a decided transition is an edge
  of the graph, and every edge of the graph is decided for some facts under the default policy.
\<close>

theorem next_state_status_graph:
  "status_step st e st' \<longleftrightarrow>
     (\<exists>f p t. f_status f = st \<and> next_state f e p = Inr t \<and> t_status t = st')"
  using next_state_refines_status_step status_step_realised by blast

text \<open>
  Terminal statuses absorb nothing: for every event and policy a failed, succeeded or
  cancelled job with well-formed counters answers with the version-conflict fault.
\<close>

theorem terminal_rejects_every_event:
  assumes "f_status f \<in> terminal_statuses"
    and "0 \<le> f_attempt_count f" and "0 \<le> f_lease_takeover_count f"
  shows "next_state f e p = Inl (Service_Fault CONFLICT)"
  using assms by (simp add: next_state_def)

theorem terminal_rejects_every_event_witness:
  "next_state \<lparr>f_status = SUCCEEDED, f_attempt_count = 2, f_lease_takeover_count = 0,
     f_cancel_requested = True, f_has_open_tasks = False\<rparr> PUBLISH_RESULT default_policy
   = Inl (Service_Fault CONFLICT)"
  by (rule terminal_rejects_every_event) simp_all

section \<open>Cancellation\<close>

lemma cancel_preempts:
  assumes "f_cancel_requested f" and "f_status f = RUNNING" and "next_state f e p = Inr t"
  shows "t_status t \<in> cancel_pending_statuses" "\<not> t_enqueue_outbox t"
  using next_state_InrD [OF assms(3)] assms(1,2)
  by (cases e; auto split: if_splits)+

text \<open>
  A recorded cancel outranks every path that hands the work forward: from a running job under
  notice each event that is not refused leads to a status in which a pending cancel may stand, it
  enqueues no new dispatch round, and the only way to succeed is the publication by the attempt
  that was already running.
\<close>

theorem cancel_preempts_new_work:
  assumes "f_cancel_requested f" and "f_status f = RUNNING" and "next_state f e p = Inr t"
  shows "t_status t \<in> cancel_pending_statuses \<and> \<not> t_enqueue_outbox t
     \<and> (t_status t = SUCCEEDED \<longrightarrow> e = PUBLISH_RESULT)"
  using cancel_preempts [OF assms] next_state_InrD [OF assms(3)] assms(1,2)
  by (cases e) auto

theorem cancel_preempts_new_work_witness:
  "t_status (cancel_preempted False) \<in> cancel_pending_statuses
     \<and> \<not> t_enqueue_outbox (cancel_preempted False)"
proof -
  let ?f = "\<lparr>f_status = RUNNING, f_attempt_count = 0, f_lease_takeover_count = 0,
     f_cancel_requested = True, f_has_open_tasks = False\<rparr>"
  have "next_state ?f LEASE_EXPIRED default_policy = Inr (cancel_preempted False)"
    by (simp add: next_state_def)
  from cancel_preempts_new_work [OF _ _ this] show ?thesis by simp
qed

section \<open>Ceilings\<close>

text \<open>
  What the counters of a job satisfy between two events: both are non-negative and within the
  policy's ceilings, and strictly below them while the job can still be worked on; a job that
  waits for its retry has failed at least once.
\<close>

definition within_ceilings :: "job_policy \<Rightarrow> job_facts \<Rightarrow> bool" where
  "within_ceilings p f =
     (0 \<le> f_attempt_count f \<and> 0 \<le> f_lease_takeover_count f
      \<and> f_attempt_count f \<le> max_attempts p \<and> f_lease_takeover_count f \<le> max_lease_takeovers p
      \<and> (f_status f \<notin> terminal_statuses \<longrightarrow>
           f_attempt_count f < max_attempts p \<and> f_lease_takeover_count f < max_lease_takeovers p)
      \<and> (f_status f = RETRYABLE_FAILED \<longrightarrow> 1 \<le> f_attempt_count f))"

definition apply_transition :: "job_facts \<Rightarrow> transition \<Rightarrow> job_facts" where
  "apply_transition f t =
     f\<lparr>f_status := t_status t,
       f_attempt_count := f_attempt_count f + t_attempt_delta t,
       f_lease_takeover_count := f_lease_takeover_count f + t_takeover_delta t,
       f_cancel_requested := f_cancel_requested f \<or> t_request_cancel t\<rparr>"

lemma within_ceilings_step:
  assumes "within_ceilings p f" and "next_state f e p = Inr t"
  shows "within_ceilings p (apply_transition f t)"
  using next_state_InrD [OF assms(2)] assms(1)
  by (cases e) (auto simp: within_ceilings_def apply_transition_def Let_def split: if_splits)

inductive job_steps :: "job_policy \<Rightarrow> job_facts \<Rightarrow> job_event list \<Rightarrow> job_facts \<Rightarrow> bool" where
  none: "job_steps p f [] f"
| some: "next_state f e p = Inr t \<Longrightarrow> job_steps p ((apply_transition f t)\<lparr>f_has_open_tasks := h\<rparr>) es g
     \<Longrightarrow> job_steps p f (e # es) g"

lemma within_ceilings_open_tasks [simp]:
  "within_ceilings p (f\<lparr>f_has_open_tasks := h\<rparr>) = within_ceilings p f"
  by (simp add: within_ceilings_def)

lemma job_steps_within_ceilings:
  "job_steps p f es g \<Longrightarrow> within_ceilings p f \<Longrightarrow> within_ceilings p g"
  by (induction rule: job_steps.induct) (simp_all add: within_ceilings_step)

lemma apply_transition_counts:
  assumes "next_state f e p = Inr t"
  shows "f_attempt_count (apply_transition f t) \<ge> f_attempt_count f"
    "f_lease_takeover_count (apply_transition f t) \<ge> f_lease_takeover_count f"
    "e = LEASE_EXPIRED \<Longrightarrow> \<not> f_cancel_requested f \<Longrightarrow>
       f_lease_takeover_count (apply_transition f t) = f_lease_takeover_count f + 1"
    "e = RETRYABLE_ERROR \<Longrightarrow> \<not> f_cancel_requested f \<Longrightarrow>
       f_attempt_count (apply_transition f t) = f_attempt_count f + 1"
  using next_state_InrD [OF assms]
  by (cases e; auto simp: apply_transition_def Let_def split: if_splits)+

text \<open>Failures that consume a ceiling, and the room a job has left for them.\<close>

definition failures :: "job_event list \<Rightarrow> int" where
  "failures es = int (length (filter (\<lambda>e. e = LEASE_EXPIRED \<or> e = RETRYABLE_ERROR) es))"

definition room :: "job_policy \<Rightarrow> job_facts \<Rightarrow> int" where
  "room p f = (if f_status f \<in> terminal_statuses then 0
     else (max_attempts p - f_attempt_count f) + (max_lease_takeovers p - f_lease_takeover_count f))"

lemma room_nonneg: "within_ceilings p f \<Longrightarrow> 0 \<le> room p f"
  by (auto simp: within_ceilings_def room_def)

lemma room_step:
  assumes "within_ceilings p f" and "next_state f e p = Inr t"
  shows "room p (apply_transition f t) + (if e = LEASE_EXPIRED \<or> e = RETRYABLE_ERROR then 1 else 0)
     \<le> room p f"
  using next_state_InrD [OF assms(2)] assms(1)
  by (cases e) (auto simp: within_ceilings_def apply_transition_def room_def Let_def split: if_splits)

lemma room_open_tasks [simp]: "room p (f\<lparr>f_has_open_tasks := h\<rparr>) = room p f"
  by (simp add: room_def)

lemma failures_bounded_by_room:
  "job_steps p f es g \<Longrightarrow> within_ceilings p f \<Longrightarrow> failures es \<le> room p f"
proof (induction rule: job_steps.induct)
  case (none p f)
  then show ?case by (simp add: failures_def room_nonneg)
next
  case (some f e p t h es g)
  have "failures es \<le> room p (apply_transition f t)"
    using some.IH some.prems within_ceilings_step [OF some.prems some.hyps(1)] by simp
  with room_step [OF some.prems some.hyps(1)] show ?case
    by (auto simp: failures_def split: if_splits)
qed

text \<open>
  C22.  Execution is bounded: along any sequence of accepted events of a fresh job, however crashes,
  retries, human responses and cancellations interleave, the lease expiries and retryable errors
  together number at most \<open>max_attempts + max_lease_takeovers\<close>, and both counters stay within the
  policy's ceilings.
\<close>

theorem failures_are_bounded:
  assumes "job_steps p \<lparr>f_status = QUEUED, f_attempt_count = 0, f_lease_takeover_count = 0,
      f_cancel_requested = False, f_has_open_tasks = False\<rparr> es g"
    and "job_policy_valid p"
  shows "failures es \<le> max_attempts p + max_lease_takeovers p
     \<and> f_attempt_count g \<le> max_attempts p \<and> f_lease_takeover_count g \<le> max_lease_takeovers p"
proof -
  have "within_ceilings p \<lparr>f_status = QUEUED, f_attempt_count = 0, f_lease_takeover_count = 0,
      f_cancel_requested = False, f_has_open_tasks = False\<rparr>" (is "within_ceilings p ?f")
    using job_policy_validD [OF assms(2)] by (simp add: within_ceilings_def)
  from failures_bounded_by_room [OF assms(1) this] job_steps_within_ceilings [OF assms(1) this]
  show ?thesis by (simp add: room_def within_ceilings_def)
qed

theorem failures_are_bounded_witness:
  "\<exists>g. job_steps default_policy \<lparr>f_status = QUEUED, f_attempt_count = 0, f_lease_takeover_count = 0,
      f_cancel_requested = False, f_has_open_tasks = False\<rparr> [CLAIM, LEASE_EXPIRED, CLAIM] g
     \<and> f_lease_takeover_count g = 1 \<and> f_lease_takeover_count g \<le> max_lease_takeovers default_policy"
proof -
  have steps: "job_steps default_policy \<lparr>f_status = QUEUED, f_attempt_count = 0, f_lease_takeover_count = 0,
      f_cancel_requested = False, f_has_open_tasks = False\<rparr> [CLAIM, LEASE_EXPIRED, CLAIM]
      \<lparr>f_status = RUNNING, f_attempt_count = 0, f_lease_takeover_count = 1,
       f_cancel_requested = False, f_has_open_tasks = False\<rparr>"
    by (rule job_steps.some [where h = False], simp add: next_state_def default_policy_def,
        rule job_steps.some [where h = False], simp add: next_state_def default_policy_def apply_transition_def,
        rule job_steps.some [where h = False], simp add: next_state_def default_policy_def apply_transition_def,
        simp add: apply_transition_def job_steps.none)
  have "job_policy_valid default_policy" by (simp add: job_policy_valid_def default_policy_def)
  from failures_are_bounded [OF steps this] steps show ?thesis by auto
qed

section \<open>Backoff\<close>

text \<open>
  For a valid policy and a one-based attempt the retry delay exists, lies between the base and
  the cap, and does not shrink with the attempt; a zero or negative attempt is refused.
\<close>

theorem backoff_seconds_bounds:
  assumes "job_policy_valid p"
  shows "(attempt < 1 \<longrightarrow> backoff_seconds p attempt = Inl Value_Error)
     \<and> (1 \<le> attempt \<longrightarrow> (\<exists>d. backoff_seconds p attempt = Inr d
           \<and> backoff_base_seconds p \<le> d \<and> d \<le> backoff_cap_seconds p
           \<and> (\<forall>d'. backoff_seconds p (attempt + 1) = Inr d' \<longrightarrow> d \<le> d')))"
proof -
  have base: "1 \<le> backoff_base_seconds p" and cap: "backoff_base_seconds p \<le> backoff_cap_seconds p"
    using job_policy_validD [OF assms] by simp_all
  have ge: "backoff_base_seconds p \<le> backoff_base_seconds p * 2 ^ n" for n
    using base mult_left_mono [of 1 "2 ^ n :: int" "backoff_base_seconds p"] by simp
  have mono: "backoff_base_seconds p * 2 ^ m \<le> backoff_base_seconds p * 2 ^ n" if "m \<le> n" for m n :: nat
    using base that by (intro mult_left_mono power_increasing) auto
  have "nat (min (attempt - 1) 32) \<le> nat (min (attempt + 1 - 1) 32)" by simp
  from mono [OF this] ge [of "nat (min (attempt - 1) 32)"] cap show ?thesis
    by (auto simp: backoff_seconds_def Let_def min_le_iff_disj)
qed

theorem backoff_seconds_bounds_witness:
  "\<exists>d. backoff_seconds default_policy 3 = Inr d \<and> 30 \<le> d \<and> d \<le> 900"
proof -
  have "job_policy_valid default_policy" by (simp add: job_policy_valid_def default_policy_def)
  from backoff_seconds_bounds [OF this, of 3] show ?thesis by (auto simp: default_policy_def)
qed

end
