(* ===== verification/Job_Store.thy ===== *)
theory Job_Store
  imports Job_State
begin

text \<open>
  \<open>adapters/local/job_store.py\<close> and the records of \<open>ports/jobs.py\<close>: the reference implementation
  of the durable job store, with the semantics of its conditional writes.  Every public operation
  runs under one lock, so it is one function from a store to a fault or a new store; identifiers
  drawn with \<open>uuid4()\<close> are arguments (\<open>fresh\<close>), and so is the hash function of the idempotency
  partition.  A dictionary read that would raise \<open>KeyError\<close> yields that fault; the invariant shows
  that it never does.
\<close>

section \<open>Records of the port\<close>

record job_record =
  jr_job_id :: uuid
  jr_case_id :: string
  jr_principal_id :: string
  jr_status :: job_status
  jr_current_run :: run_reference
  jr_attempt_count :: int
  jr_lease_takeover_count :: int
  jr_result_version :: int
  jr_cancel_requested :: bool
  jr_open_task_ids :: "uuid list"
  jr_problem :: "service_problem option"

record claimed_attempt =
  ca_job_id :: uuid
  ca_run_id :: uuid
  ca_attempt_id :: uuid
  ca_owner :: uuid
  ca_fencing_token :: int
  ca_expected_result_version :: int
  ca_lease_expires_at :: int

record heartbeat_state =
  hb_lease_expires_at :: int
  hb_cancel_requested :: bool

record dispatch_record =
  dr_job_id :: uuid
  dr_run_id :: uuid
  dr_outbox_seq :: int
  dr_dispatch_token :: uuid
  dr_available_at :: int
  dr_dispatch_attempts :: int

record expired_lease =
  xl_job_id :: uuid
  xl_run_id :: uuid
  xl_fencing_token :: int
  xl_lease_expires_at :: int

datatype workflow_status = W_RECEIVED | W_NEEDS_REVIEW | W_VERIFIED | W_COMPLETED | W_FAILED

datatype artifact_status =
  Not_Requested | Unavailable | Unsupported_Contexts | Simulated | Written

record result_reference =
  ref_run_id :: uuid
  ref_result_version :: int
  ref_fencing_token :: int
  ref_execution_status :: execution_status
  ref_business_status :: "workflow_status option"
  ref_artifact_status :: artifact_status
  ref_result_digest :: digest
  ref_artifact_ids :: "uuid list"
  ref_finding_count :: int

section \<open>Stored items\<close>

record job =
  j_job_id :: uuid
  j_case_id :: string
  j_principal_id :: string
  j_status :: job_status
  j_current_run_id :: uuid
  j_attempt_count :: int
  j_lease_takeover_count :: int
  j_cancel_requested :: bool
  j_open_task_ids :: "uuid list"
  j_problem :: "service_problem option"
  j_outbox_seq :: int
  j_created_at :: int
  j_updated_at :: int

record run =
  r_run_id :: uuid
  r_revision :: revision_reference
  r_documents :: "document_reference list"
  r_payload_digest :: digest
  r_fencing_token :: int
  r_result_version :: int
  r_lease_owner :: "uuid option"
  r_lease_expires_at :: "int option"
  r_attempt_id :: "uuid option"
  r_run_status :: job_status

datatype dispatch_state = Pending | Sent | Abandoned

record outbox_entry =
  o_job_id :: uuid
  o_run_id :: uuid
  o_outbox_seq :: int
  o_dispatch_token :: uuid
  o_available_at :: int
  o_dispatch_attempts :: int
  o_dispatch_state :: dispatch_state

datatype attempt_outcome = Attempt_Running | Attempt_Closed job_event

record attempt =
  a_job_id :: uuid
  a_run_id :: uuid
  a_attempt_id :: uuid
  a_fencing_token :: int
  a_owner :: uuid
  a_claimed_at :: int
  a_outcome :: attempt_outcome

record job_store =
  s_policy :: job_policy
  s_jobs :: "(uuid, job) dict"
  s_runs :: "(uuid \<times> uuid, run) dict"
  s_outbox :: "(uuid \<times> int, outbox_entry) dict"
  s_attempts :: "attempt list"
  s_idempotency :: "(string, idempotency_record) dict"
  s_results :: "(uuid \<times> int, result_reference) dict"

definition empty_store :: "job_policy \<Rightarrow> job_store" where
  "empty_store p = \<lparr>s_policy = p, s_jobs = [], s_runs = [], s_outbox = [], s_attempts = [],
     s_idempotency = [], s_results = []\<rparr>"

definition new_run :: "uuid \<Rightarrow> revision_reference \<Rightarrow> document_reference list \<Rightarrow> digest \<Rightarrow> run" where
  "new_run rid revision docs dig = \<lparr>r_run_id = rid, r_revision = revision, r_documents = docs,
     r_payload_digest = dig, r_fencing_token = 0, r_result_version = 0, r_lease_owner = None,
     r_lease_expires_at = None, r_attempt_id = None, r_run_status = QUEUED\<rparr>"

abbreviation put_job :: "job \<Rightarrow> job_store \<Rightarrow> job_store" where
  "put_job j s \<equiv> s\<lparr>s_jobs := dict_set (j_job_id j) j (s_jobs s)\<rparr>"

abbreviation put_run :: "uuid \<Rightarrow> run \<Rightarrow> job_store \<Rightarrow> job_store" where
  "put_run jid r s \<equiv> s\<lparr>s_runs := dict_set (jid, r_run_id r) r (s_runs s)\<rparr>"

section \<open>Reads\<close>

definition make_record :: "job \<Rightarrow> run \<Rightarrow> job_record" where
  "make_record j r = \<lparr>jr_job_id = j_job_id j, jr_case_id = j_case_id j,
     jr_principal_id = j_principal_id j, jr_status = j_status j,
     jr_current_run = \<lparr>rr_run_id = r_run_id r, rr_revision = r_revision r,
        rr_attempt_id = (if j_status j = RUNNING then r_attempt_id r else None),
        rr_runtime_session_id = None\<rparr>,
     jr_attempt_count = j_attempt_count j, jr_lease_takeover_count = j_lease_takeover_count j,
     jr_result_version = r_result_version r, jr_cancel_requested = j_cancel_requested j,
     jr_open_task_ids = j_open_task_ids j, jr_problem = j_problem j\<rparr>"

definition job_record_of :: "job_store \<Rightarrow> job \<Rightarrow> job_record result" where
  "job_record_of s j =
     bind_result (some_or Key_Error (dict_get (s_runs s) (j_job_id j, j_current_run_id j)))
       (\<lambda>r. Inr (make_record j r))"

definition job_facts_of :: "job \<Rightarrow> job_facts" where
  "job_facts_of j = \<lparr>f_status = j_status j, f_attempt_count = j_attempt_count j,
     f_lease_takeover_count = j_lease_takeover_count j, f_cancel_requested = j_cancel_requested j,
     f_has_open_tasks = (j_open_task_ids j \<noteq> [])\<rparr>"

definition read_job :: "job_store \<Rightarrow> uuid \<Rightarrow> job_record option result" where
  "read_job s jid = (case dict_get (s_jobs s) jid of None \<Rightarrow> Inr None
     | Some j \<Rightarrow> bind_result (job_record_of s j) (\<lambda>r. Inr (Some r)))"

definition read_result_reference :: "job_store \<Rightarrow> uuid \<Rightarrow> int \<Rightarrow> result_reference option" where
  "read_result_reference s rid v = dict_get (s_results s) (rid, v)"

section \<open>Submission\<close>

text \<open>\<open>idempotency_partition\<close>: the hash of the caller's key, prefixed by the principal.\<close>

definition idempotency_partition :: "(string \<Rightarrow> string) \<Rightarrow> string \<Rightarrow> string \<Rightarrow> string" where
  "idempotency_partition sha256 principal_id key = ''IDEM#'' @ principal_id @ ''#'' @ sha256 key"

definition run_owner :: "job_store \<Rightarrow> uuid \<Rightarrow> uuid result" where
  "run_owner s rid = (case find (\<lambda>((_, stored), _). stored = rid) (s_runs s) of
     None \<Rightarrow> Inl Condition_Failed | Some ((jid, _), _) \<Rightarrow> Inr jid)"

text \<open>\<open>_enqueue\<close> bumps the job's sequence number and stores a pending round under it.\<close>

definition enqueue :: "job \<Rightarrow> uuid \<Rightarrow> int \<Rightarrow> uuid \<Rightarrow> job_store \<Rightarrow> job_store" where
  "enqueue j rid available fresh s =
     (let q = j_outbox_seq j + 1 in
      (put_job (j\<lparr>j_outbox_seq := q\<rparr>) s)
        \<lparr>s_outbox := dict_set (j_job_id j, q)
          \<lparr>o_job_id = j_job_id j, o_run_id = rid, o_outbox_seq = q, o_dispatch_token = fresh,
           o_available_at = available, o_dispatch_attempts = 0, o_dispatch_state = Pending\<rparr>
          (s_outbox s)\<rparr>)"

text \<open>The record an operation returns is read back from the store it has just written.\<close>

definition reply :: "uuid \<Rightarrow> job_store \<Rightarrow> (job_record \<times> job_store) result" where
  "reply jid s = bind_result (some_or Key_Error (dict_get (s_jobs s) jid))
     (\<lambda>j. bind_result (job_record_of s j) (\<lambda>r. Inr (r, s)))"

definition submitted_job :: "principal \<Rightarrow> review_submission \<Rightarrow> uuid \<Rightarrow> uuid \<Rightarrow> int \<Rightarrow> job" where
  "submitted_job p sub jid rid now =
     \<lparr>j_job_id = jid, j_case_id = rev_case_id (sub_revision sub),
      j_principal_id = actor_id (pr_actor p), j_status = t_status initial_transition,
      j_current_run_id = rid, j_attempt_count = 0, j_lease_takeover_count = 0,
      j_cancel_requested = False, j_open_task_ids = [], j_problem = None,
      j_outbox_seq = 0, j_created_at = now, j_updated_at = now\<rparr>"

text \<open>The four writes of a submission: run, job, idempotency record, first dispatch round.\<close>

definition submitted_store :: "principal \<Rightarrow> review_submission \<Rightarrow> digest \<Rightarrow> string \<Rightarrow> uuid \<Rightarrow> uuid \<Rightarrow> int \<Rightarrow>
    uuid \<Rightarrow> job_store \<Rightarrow> job_store" where
  "submitted_store p sub dig part_key jid rid now fresh s =
     (let j = submitted_job p sub jid rid now;
          s2 = put_job j (put_run jid (new_run rid (sub_revision sub) (sub_documents sub) dig) s);
          s3 = s2\<lparr>s_idempotency := dict_set part_key
            \<lparr>idem_principal_id = actor_id (pr_actor p), idem_key = sub_idempotency_key sub,
             idem_payload_digest = dig, idem_run_id = rid\<rparr> (s_idempotency s2)\<rparr>
      in enqueue j rid now fresh s3)"

definition create_job ::
  "(string \<Rightarrow> string) \<Rightarrow> (review_submission \<Rightarrow> digest) \<Rightarrow> principal \<Rightarrow> review_submission \<Rightarrow>
   uuid \<Rightarrow> uuid \<Rightarrow> int \<Rightarrow> uuid \<Rightarrow> job_store \<Rightarrow> ((job_record \<times> bool) \<times> job_store) result" where
  "create_job sha256 content_digest p sub jid rid now fresh s =
     bind_result (ensure (review_submission_valid sub) Value_Error) (\<lambda>_.
     let dig = submission_digest content_digest sub;
         part_key = idempotency_partition sha256 (actor_id (pr_actor p)) (sub_idempotency_key sub)
     in case dict_get (s_idempotency s) part_key of
          Some stored \<Rightarrow>
            bind_result (check_idempotency content_digest stored p sub) (\<lambda>existing_run.
            bind_result (run_owner s existing_run) (\<lambda>owner.
            bind_result (reply owner s) (\<lambda>(r, s'). Inr ((r, False), s'))))
        | None \<Rightarrow>
            bind_result (principal_require p (rev_case_id (sub_revision sub)) P_REVIEW) (\<lambda>_.
            bind_result (ensure (dict_get (s_jobs s) jid = None \<and> dict_get (s_runs s) (jid, rid) = None)
              Condition_Failed) (\<lambda>_.
            bind_result (reply jid (submitted_store p sub dig part_key jid rid now fresh s))
              (\<lambda>(r, s'). Inr ((r, True), s')))))"

section \<open>Execution\<close>

text \<open>Losing a race is not the caller's error: \<open>except ServiceFault: raise ConditionFailed\<close>.\<close>

definition lost_race :: "'a result \<Rightarrow> 'a result" where
  "lost_race m = on_error m (\<lambda>e. case e of Service_Fault _ \<Rightarrow> Inl Condition_Failed | _ \<Rightarrow> Inl e)"

lemma lost_race_Inr [simp]: "lost_race m = Inr x \<longleftrightarrow> m = Inr x"
  by (cases m) (auto simp: lost_race_def split: fault.splits)

lemma lost_race_simps [simp]: "lost_race (Inr x) = Inr x" "lost_race conflict = Inl Condition_Failed"
  by (simp_all add: lost_race_def)

definition claim :: "uuid \<Rightarrow> uuid \<Rightarrow> uuid \<Rightarrow> int \<Rightarrow> int \<Rightarrow> uuid \<Rightarrow> job_store \<Rightarrow>
    (claimed_attempt \<times> job_store) result" where
  "claim jid rid owner lease now fresh s =
     (if lease < 1 then Inl Value_Error
      else case (dict_get (s_jobs s) jid, dict_get (s_runs s) (jid, rid)) of
        (Some j, Some r) \<Rightarrow>
          if j_current_run_id j \<noteq> rid then Inl Condition_Failed
          else if (case r_lease_expires_at r of None \<Rightarrow> False | Some t \<Rightarrow> t > now) then Inl Condition_Failed
          else bind_result (lost_race (next_state (job_facts_of j) CLAIM (s_policy s))) (\<lambda>t.
            let token = r_fencing_token r + 1;
                r' = r\<lparr>r_fencing_token := token, r_lease_owner := Some owner,
                       r_lease_expires_at := Some (now + lease), r_attempt_id := Some fresh,
                       r_run_status := t_status t\<rparr>;
                j' = j\<lparr>j_status := t_status t, j_updated_at := now\<rparr>;
                s1 = put_job j' (put_run jid r' s);
                s2 = s1\<lparr>s_attempts := s_attempts s1 @
                  [\<lparr>a_job_id = jid, a_run_id = rid, a_attempt_id = fresh, a_fencing_token = token,
                    a_owner = owner, a_claimed_at = now, a_outcome = Attempt_Running\<rparr>]\<rparr>
            in Inr (\<lparr>ca_job_id = jid, ca_run_id = rid, ca_attempt_id = fresh, ca_owner = owner,
                      ca_fencing_token = token, ca_expected_result_version = r_result_version r,
                      ca_lease_expires_at = now + lease\<rparr>, s2))
      | _ \<Rightarrow> Inl Condition_Failed)"

definition authority :: "claimed_attempt \<Rightarrow> job_store \<Rightarrow> (job \<times> run) result" where
  "authority a s =
     (case (dict_get (s_jobs s) (ca_job_id a), dict_get (s_runs s) (ca_job_id a, ca_run_id a)) of
        (Some j, Some r) \<Rightarrow>
          if r_lease_owner r \<noteq> Some (ca_owner a) \<or> r_fencing_token r \<noteq> ca_fencing_token a
             \<or> r_attempt_id r \<noteq> Some (ca_attempt_id a) \<or> j_status j \<noteq> RUNNING
          then Inl Condition_Failed else Inr (j, r)
      | _ \<Rightarrow> Inl Condition_Failed)"

definition heartbeat :: "claimed_attempt \<Rightarrow> int \<Rightarrow> int \<Rightarrow> job_store \<Rightarrow>
    (heartbeat_state \<times> job_store) result" where
  "heartbeat a lease now s =
     (if lease < 1 then Inl Value_Error
      else bind_result (authority a s) (\<lambda>(j, r).
           bind_result (next_state (job_facts_of j) HEARTBEAT (s_policy s)) (\<lambda>_.
           let r' = r\<lparr>r_lease_expires_at := Some (now + lease)\<rparr>
           in Inr (\<lparr>hb_lease_expires_at = now + lease, hb_cancel_requested = j_cancel_requested j\<rparr>,
                   put_job (j\<lparr>j_updated_at := now\<rparr>) (put_run (ca_job_id a) r' s)))))"

definition finish_events :: "job_event set" where
  "finish_events = {PUBLISH_RESULT, NEEDS_HUMAN, RETRYABLE_ERROR, PERMANENT_ERROR, CANCEL_ACKNOWLEDGED}"

definition cancelled_problem :: service_problem where
  "cancelled_problem = \<lparr>problem_code = CONFLICT\<rparr>"

definition release_lease :: "bool \<Rightarrow> run \<Rightarrow> run" where
  "release_lease b r = (if b then r\<lparr>r_lease_owner := None, r_lease_expires_at := None,
     r_attempt_id := None\<rparr> else r)"

definition close_attempt :: "claimed_attempt \<Rightarrow> job_event \<Rightarrow> attempt list \<Rightarrow> attempt list" where
  "close_attempt a e = map (\<lambda>x. if a_attempt_id x = ca_attempt_id a
     then x\<lparr>a_outcome := Attempt_Closed e\<rparr> else x)"

text \<open>\<open>_commit_result\<close>: compare-and-set on the attempt's token and expected version, append-only.\<close>

definition commit_result :: "run \<Rightarrow> claimed_attempt \<Rightarrow> result_reference option \<Rightarrow> job_store \<Rightarrow>
    (run \<times> job_store) result" where
  "commit_result r a ref s =
     (case ref of None \<Rightarrow> Inl Value_Error
      | Some x \<Rightarrow>
          if ref_run_id x \<noteq> ca_run_id a \<or> ref_fencing_token x \<noteq> ca_fencing_token a
             \<or> r_result_version r \<noteq> ca_expected_result_version a
             \<or> ref_result_version x \<noteq> ca_expected_result_version a + 1
          then Inl Condition_Failed
          else if dict_get (s_results s) (ref_run_id x, ref_result_version x) \<noteq> None
          then Inl Condition_Failed
          else Inr (r\<lparr>r_result_version := ref_result_version x\<rparr>,
                    s\<lparr>s_results := dict_set (ref_run_id x, ref_result_version x) x (s_results s)\<rparr>))"

definition finish_problem :: "job_status \<Rightarrow> service_problem option \<Rightarrow> service_problem option" where
  "finish_problem st problem =
     (if st = CANCELLED then Some cancelled_problem
      else if st \<notin> {FAILED, CANCELLED} then None else problem)"

definition commit_for_event :: "job_event \<Rightarrow> run \<Rightarrow> claimed_attempt \<Rightarrow> result_reference option \<Rightarrow>
    job_store \<Rightarrow> (run \<times> job_store) result" where
  "commit_for_event e r a ref s =
     (if e = PUBLISH_RESULT then commit_result r a ref s
      else if ref \<noteq> None then Inl Value_Error else Inr (r, s))"

text \<open>The writes of \<open>finish\<close> after all its checks: the job, the released run, the attempt log.\<close>

definition finished_job :: "transition \<Rightarrow> service_problem option \<Rightarrow> uuid list \<Rightarrow> int \<Rightarrow> job \<Rightarrow> job" where
  "finished_job t problem tasks now j =
     j\<lparr>j_attempt_count := j_attempt_count j + t_attempt_delta t,
       j_status := t_status t,
       j_problem := finish_problem (t_status t) problem,
       j_open_task_ids := (if t_status t = CANCELLED then [] else fromkeys tasks),
       j_updated_at := now\<rparr>"

definition finished_store :: "claimed_attempt \<Rightarrow> job_event \<Rightarrow> transition \<Rightarrow> job \<Rightarrow> run \<Rightarrow> job_store \<Rightarrow> job_store" where
  "finished_store a e t j r s =
     (let s2 = put_job j (put_run (ca_job_id a)
                 (release_lease (t_release_lease t) (r\<lparr>r_run_status := t_status t\<rparr>)) s)
      in s2\<lparr>s_attempts := close_attempt a e (s_attempts s2)\<rparr>)"

definition finish :: "claimed_attempt \<Rightarrow> job_event \<Rightarrow> int \<Rightarrow> service_problem option \<Rightarrow> uuid list \<Rightarrow>
    result_reference option \<Rightarrow> job_store \<Rightarrow> (job_record \<times> job_store) result" where
  "finish a e now problem tasks ref s =
     bind_result (ensure (e \<in> finish_events) Value_Error) (\<lambda>_.
     bind_result (authority a s) (\<lambda>(j, r).
     bind_result (next_state ((job_facts_of j)\<lparr>f_has_open_tasks := (tasks \<noteq> [])\<rparr>) e (s_policy s)) (\<lambda>t.
     bind_result (commit_for_event e r a ref s) (\<lambda>(r1, s1).
     bind_result (ensure (\<not> (t_status t = FAILED \<and> problem = None)) Value_Error) (\<lambda>_.
     reply (ca_job_id a) (finished_store a e t (finished_job t problem tasks now j) r1 s1))))))"

text \<open>The writes of \<open>expire_lease\<close>: the reclaimed job, the released run, a fresh dispatch round.\<close>

definition expired_job :: "transition \<Rightarrow> int \<Rightarrow> job \<Rightarrow> job" where
  "expired_job t now j =
     (let j1 = j\<lparr>j_lease_takeover_count := j_lease_takeover_count j + t_takeover_delta t,
                 j_status := t_status t, j_updated_at := now\<rparr>;
          j2 = (if t_status t = FAILED then j1\<lparr>j_problem := Some \<lparr>problem_code = EXECUTION\<rparr>\<rparr> else j1)
      in if t_status t = CANCELLED
         then j2\<lparr>j_problem := Some cancelled_problem, j_open_task_ids := []\<rparr> else j2)"

definition lease_reclaimable :: "expired_lease \<Rightarrow> int \<Rightarrow> job \<Rightarrow> run \<Rightarrow> bool" where
  "lease_reclaimable x now j r =
     (\<not> (r_fencing_token r \<noteq> xl_fencing_token x
         \<or> (case r_lease_expires_at r of None \<Rightarrow> True | Some t \<Rightarrow> t > now)
         \<or> j_status j \<noteq> RUNNING))"

definition expired_store :: "expired_lease \<Rightarrow> int \<Rightarrow> uuid \<Rightarrow> transition \<Rightarrow> job \<Rightarrow> run \<Rightarrow> job_store \<Rightarrow> job_store" where
  "expired_store x now fresh t j r s =
     (let s1 = put_job j (put_run (xl_job_id x)
                 (release_lease (t_release_lease t) (r\<lparr>r_run_status := t_status t\<rparr>)) s)
      in if t_enqueue_outbox t then enqueue j (xl_run_id x) now fresh s1 else s1)"

definition expire_lease :: "expired_lease \<Rightarrow> int \<Rightarrow> uuid \<Rightarrow> job_store \<Rightarrow> (job_record \<times> job_store) result" where
  "expire_lease x now fresh s =
     bind_result (some_or Condition_Failed (dict_get (s_jobs s) (xl_job_id x))) (\<lambda>j.
     bind_result (some_or Condition_Failed (dict_get (s_runs s) (xl_job_id x, xl_run_id x))) (\<lambda>r.
     bind_result (ensure (lease_reclaimable x now j r) Condition_Failed) (\<lambda>_.
     bind_result (next_state (job_facts_of j) LEASE_EXPIRED (s_policy s)) (\<lambda>t.
     reply (xl_job_id x) (expired_store x now fresh t (expired_job t now j) r s)))))"

section \<open>Caller and reconciler\<close>

text \<open>The writes of \<open>cancel\<close>: a running job is flagged, any other cancellable job is closed.\<close>

definition cancelled_store :: "uuid \<Rightarrow> int \<Rightarrow> transition \<Rightarrow> job \<Rightarrow> run \<Rightarrow> job_store \<Rightarrow> job_store" where
  "cancelled_store jid now t j r s =
     (if t_request_cancel t
      then put_job (j\<lparr>j_cancel_requested := True, j_updated_at := now\<rparr>) s
      else put_job (j\<lparr>j_status := t_status t, j_problem := Some cancelled_problem,
                      j_open_task_ids := [], j_updated_at := now\<rparr>)
             (put_run jid (release_lease (t_release_lease t) (r\<lparr>r_run_status := t_status t\<rparr>)) s))"

definition cancel :: "uuid \<Rightarrow> int \<Rightarrow> job_store \<Rightarrow> (job_record \<times> job_store) result" where
  "cancel jid now s =
     bind_result (some_or Condition_Failed (dict_get (s_jobs s) jid)) (\<lambda>j.
     bind_result (next_state (job_facts_of j) CANCEL (s_policy s)) (\<lambda>t.
     bind_result (some_or Key_Error (dict_get (s_runs s) (jid, j_current_run_id j))) (\<lambda>r.
     reply jid (cancelled_store jid now t j r s))))"

definition schedule_retry :: "uuid \<Rightarrow> int \<Rightarrow> int \<Rightarrow> uuid \<Rightarrow> job_store \<Rightarrow> (job_record \<times> job_store) result" where
  "schedule_retry jid available now fresh s =
     bind_result (some_or Condition_Failed (dict_get (s_jobs s) jid)) (\<lambda>j.
     bind_result (lost_race (next_state (job_facts_of j) SCHEDULE_RETRY (s_policy s))) (\<lambda>t.
     bind_result (some_or Key_Error (dict_get (s_runs s) (jid, j_current_run_id j))) (\<lambda>r.
     let j' = j\<lparr>j_status := t_status t, j_problem := None, j_updated_at := now\<rparr>;
         s1 = put_job j' (put_run jid (r\<lparr>r_run_status := t_status t\<rparr>) s)
     in reply jid (enqueue j' (j_current_run_id j') available fresh s1))))"

definition rejected_job :: "uuid \<Rightarrow> transition \<Rightarrow> int \<Rightarrow> job \<Rightarrow> job" where
  "rejected_job task t now j =
     j\<lparr>j_open_task_ids := filter (\<lambda>x. x \<noteq> task) (j_open_task_ids j), j_status := t_status t,
       j_problem := (if t_status t = FAILED then Some \<lparr>problem_code = CONFLICT\<rparr> else None),
       j_updated_at := now\<rparr>"

definition reject_human_task :: "uuid \<Rightarrow> uuid \<Rightarrow> uuid \<Rightarrow> int \<Rightarrow> job_store \<Rightarrow> (job_record \<times> job_store) result" where
  "reject_human_task jid rid task now s =
     bind_result (some_or Condition_Failed (dict_get (s_jobs s) jid)) (\<lambda>j.
     bind_result (ensure (j_current_run_id j = rid \<and> task \<in> set (j_open_task_ids j)) Condition_Failed) (\<lambda>_.
     bind_result (next_state ((job_facts_of j)\<lparr>f_has_open_tasks :=
          (filter (\<lambda>x. x \<noteq> task) (j_open_task_ids j) \<noteq> [])\<rparr>) HUMAN_REJECTED (s_policy s)) (\<lambda>t.
     bind_result (some_or Key_Error (dict_get (s_runs s) (jid, rid))) (\<lambda>r.
     reply jid (put_job (rejected_job task t now j) (put_run jid (r\<lparr>r_run_status := t_status t\<rparr>) s))))))"

text \<open>A response produces a new revision and therefore a new run; it never revives the old one.\<close>

definition resumable :: "uuid \<Rightarrow> run_reference \<Rightarrow> job \<Rightarrow> run \<Rightarrow> job_store \<Rightarrow> bool" where
  "resumable jid run j current s =
     (\<not> (rr_run_id run = r_run_id current \<or> dict_get (s_runs s) (jid, rr_run_id run) \<noteq> None
         \<or> rr_revision run = r_revision current \<or> rev_case_id (rr_revision run) \<noteq> j_case_id j
         \<or> rr_attempt_id run \<noteq> None))"

definition resumed_job :: "run_reference \<Rightarrow> transition \<Rightarrow> int \<Rightarrow> job \<Rightarrow> job" where
  "resumed_job run t now j =
     j\<lparr>j_current_run_id := rr_run_id run, j_status := t_status t, j_open_task_ids := [], j_updated_at := now\<rparr>"

definition resume_after_human :: "uuid \<Rightarrow> run_reference \<Rightarrow> int \<Rightarrow> uuid \<Rightarrow> job_store \<Rightarrow>
    (job_record \<times> job_store) result" where
  "resume_after_human jid run now fresh s =
     bind_result (some_or Condition_Failed (dict_get (s_jobs s) jid)) (\<lambda>j.
     bind_result (some_or Key_Error (dict_get (s_runs s) (jid, j_current_run_id j))) (\<lambda>current.
     bind_result (ensure (resumable jid run j current s) Condition_Failed) (\<lambda>_.
     bind_result (next_state (job_facts_of j) HUMAN_RESPONSE_COMMITTED (s_policy s)) (\<lambda>t.
     reply jid (enqueue (resumed_job run t now j) (rr_run_id run) now fresh
       (put_job (resumed_job run t now j) (put_run jid
         (new_run (rr_run_id run) (rr_revision run) (r_documents current) (r_payload_digest current)) s)))))))"

section \<open>Outbox\<close>

definition pending_entry :: "dispatch_record \<Rightarrow> job_store \<Rightarrow> outbox_entry result" where
  "pending_entry d s =
     bind_result (some_or Condition_Failed (dict_get (s_outbox s) (dr_job_id d, dr_outbox_seq d))) (\<lambda>e.
     if o_dispatch_token e \<noteq> dr_dispatch_token d \<or> o_dispatch_state e \<noteq> Pending
     then Inl Condition_Failed else Inr e)"

definition set_entry :: "dispatch_record \<Rightarrow> outbox_entry \<Rightarrow> job_store \<Rightarrow> job_store" where
  "set_entry d e s = s\<lparr>s_outbox := dict_set (dr_job_id d, dr_outbox_seq d) e (s_outbox s)\<rparr>"

definition mark_dispatched :: "dispatch_record \<Rightarrow> int \<Rightarrow> job_store \<Rightarrow> (job_record \<times> job_store) result" where
  "mark_dispatched d now s =
     bind_result (pending_entry d s) (\<lambda>e.
     bind_result (some_or Condition_Failed (dict_get (s_jobs s) (dr_job_id d))) (\<lambda>j.
     bind_result (if j_status j = QUEUED
        then bind_result (next_state (job_facts_of j) DISPATCH_SUCCEEDED (s_policy s)) (\<lambda>t.
             bind_result (some_or Key_Error (dict_get (s_runs s) (j_job_id j, o_run_id e))) (\<lambda>r.
             Inr (put_job (j\<lparr>j_status := t_status t, j_updated_at := now\<rparr>)
               (put_run (j_job_id j) (r\<lparr>r_run_status := t_status t\<rparr>)
                 (set_entry d (e\<lparr>o_dispatch_state := Sent\<rparr>) s)))))
        else Inr (put_job (j\<lparr>j_updated_at := now\<rparr>) (set_entry d (e\<lparr>o_dispatch_state := Sent\<rparr>) s))) (\<lambda>s'.
     reply (dr_job_id d) s')))"

definition reschedule_dispatch :: "dispatch_record \<Rightarrow> int \<Rightarrow> job_store \<Rightarrow> (bool \<times> job_store) result" where
  "reschedule_dispatch d available s =
     bind_result (pending_entry d s) (\<lambda>e.
     bind_result (some_or Key_Error (dict_get (s_jobs s) (dr_job_id d))) (\<lambda>j.
     if j_status j \<in> terminal_statuses
     then Inr (False, set_entry d (e\<lparr>o_dispatch_state := Abandoned\<rparr>) s)
     else bind_result (next_state (job_facts_of j) DISPATCH_FAILED (s_policy s)) (\<lambda>_.
          Inr (True, set_entry d (e\<lparr>o_available_at := available,
            o_dispatch_attempts := o_dispatch_attempts e + 1\<rparr>) s))))"

definition dispatch_record_of :: "outbox_entry \<Rightarrow> dispatch_record" where
  "dispatch_record_of e = \<lparr>dr_job_id = o_job_id e, dr_run_id = o_run_id e,
     dr_outbox_seq = o_outbox_seq e, dr_dispatch_token = o_dispatch_token e,
     dr_available_at = o_available_at e, dr_dispatch_attempts = o_dispatch_attempts e\<rparr>"

text \<open>\<open>sort(key=(available_at, outbox_seq))\<close>: two stable sorts, the minor key first.\<close>

definition pending_dispatches :: "int \<Rightarrow> int \<Rightarrow> job_store \<Rightarrow> dispatch_record list result" where
  "pending_dispatches now limit s =
     (if limit < 1 then Inl Value_Error
      else let due = filter (\<lambda>e. o_dispatch_state e = Pending \<and> o_available_at e \<le> now)
                       (map snd (s_outbox s));
               ordered = sort_key o_available_at (sort_key o_outbox_seq due)
           in Inr (map dispatch_record_of (take (nat limit) ordered)))"

definition lease_expired :: "int \<Rightarrow> run \<Rightarrow> bool" where
  "lease_expired now r = (case r_lease_expires_at r of None \<Rightarrow> False | Some t \<Rightarrow> t \<le> now)"

definition lease_deadline :: "run \<Rightarrow> int" where
  "lease_deadline r = (case r_lease_expires_at r of None \<Rightarrow> 0 | Some t \<Rightarrow> t)"

definition expired_lease_of :: "(uuid \<times> uuid) \<times> run \<Rightarrow> expired_lease" where
  "expired_lease_of = (\<lambda>((jid, _), r). \<lparr>xl_job_id = jid, xl_run_id = r_run_id r,
     xl_fencing_token = r_fencing_token r, xl_lease_expires_at = lease_deadline r\<rparr>)"

definition expired_leases :: "int \<Rightarrow> int \<Rightarrow> job_store \<Rightarrow> expired_lease list result" where
  "expired_leases now limit s =
     (if limit < 1 then Inl Value_Error
      else if list_ex (\<lambda>((jid, _), r). lease_expired now r \<and> dict_get (s_jobs s) jid = None) (s_runs s)
      then Inl Key_Error
      else let expired = filter (\<lambda>((jid, _), r). lease_expired now r
                  \<and> map_option j_status (dict_get (s_jobs s) jid) = Some RUNNING) (s_runs s)
           in Inr (map expired_lease_of (take (nat limit) (sort_key (\<lambda>(_, r). lease_deadline r) expired))))"

fun collect_results :: "'a result list \<Rightarrow> 'a list result" where
  "collect_results [] = Inr []"
| "collect_results (x # xs) = bind_result x (\<lambda>y. bind_result (collect_results xs) (\<lambda>ys. Inr (y # ys)))"

definition stranded_retryables :: "int \<Rightarrow> int \<Rightarrow> job_store \<Rightarrow> job_record list result" where
  "stranded_retryables before limit s =
     (if limit < 1 then Inl Value_Error
      else let stranded = filter (\<lambda>j. j_status j = RETRYABLE_FAILED \<and> j_updated_at j \<le> before)
                            (map snd (s_jobs s))
           in collect_results (map (job_record_of s) (take (nat limit) (sort_key j_updated_at stranded))))"

definition terminal_jobs :: "job_store \<Rightarrow> uuid list" where
  "terminal_jobs s = map fst (filter (\<lambda>(_, j). j_status j \<in> terminal_statuses) (s_jobs s))"

end
