(* ===== verification/Job_Store_Inv.thy ===== *)
theory Job_Store_Inv
  imports Job_Store
begin

text \<open>
  The invariant of the job store and its preservation by every operation of
  \<open>adapters/local/job_store.py\<close>.  The invariant says that the dictionaries agree with each other,
  that exactly the current run of a running job holds a lease, that a queued or dispatched job owns
  a dispatch round for its current run, that the counters are within the policy's ceilings and that
  the status of every job is honest.  One general lemma covers a change to one job and one of its
  runs; each operation is an instance of it.
\<close>

section \<open>The invariant\<close>

definition lease_held :: "run \<Rightarrow> bool" where
  "lease_held r = (r_lease_owner r \<noteq> None \<and> r_lease_expires_at r \<noteq> None \<and> r_attempt_id r \<noteq> None)"

definition lease_free :: "run \<Rightarrow> bool" where
  "lease_free r = (r_lease_owner r = None \<and> r_lease_expires_at r = None \<and> r_attempt_id r = None)"

definition owns_round :: "job_store \<Rightarrow> uuid \<Rightarrow> uuid \<Rightarrow> dispatch_state set \<Rightarrow> bool" where
  "owns_round s jid rid states =
     (\<exists>q e. dict_get (s_outbox s) (jid, q) = Some e \<and> o_run_id e = rid \<and> o_dispatch_state e \<in> states)"

text \<open>What a job says of itself.\<close>

definition job_honest :: "job_policy \<Rightarrow> job \<Rightarrow> bool" where
  "job_honest p j =
     (within_ceilings p (job_facts_of j)
      \<and> ((j_status j \<in> {FAILED, CANCELLED}) = (j_problem j \<noteq> None))
      \<and> (j_status j = WAITING_FOR_HUMAN \<longrightarrow> j_open_task_ids j \<noteq> [])
      \<and> (j_cancel_requested j \<longrightarrow> j_status j \<in> cancel_pending_statuses)
      \<and> distinct (j_open_task_ids j) \<and> 0 \<le> j_outbox_seq j)"

text \<open>What the store owes a job: its current run, a committed result, a dispatch round.\<close>

definition job_backed :: "job_store \<Rightarrow> uuid \<Rightarrow> job \<Rightarrow> bool" where
  "job_backed s jid j =
     (j_job_id j = jid
      \<and> (\<exists>r. dict_get (s_runs s) (jid, j_current_run_id j) = Some r
           \<and> (j_status j = SUCCEEDED \<longrightarrow> 1 \<le> r_result_version r))
      \<and> (j_status j = QUEUED \<longrightarrow> owns_round s jid (j_current_run_id j) {Pending})
      \<and> (j_status j = DISPATCHED \<longrightarrow> owns_round s jid (j_current_run_id j) {Pending, Sent}))"

definition run_ok :: "job_store \<Rightarrow> uuid \<Rightarrow> uuid \<Rightarrow> run \<Rightarrow> bool" where
  "run_ok s jid rid r =
     (r_run_id r = rid \<and> 0 \<le> r_fencing_token r \<and> 0 \<le> r_result_version r
      \<and> (\<forall>v. 1 \<le> v \<and> v \<le> r_result_version r \<longrightarrow> dict_get (s_results s) (rid, v) \<noteq> None)
      \<and> (\<exists>j. dict_get (s_jobs s) jid = Some j \<and> rev_case_id (r_revision r) = j_case_id j
           \<and> (if j_status j = RUNNING \<and> j_current_run_id j = rid then lease_held r else lease_free r)))"

definition entry_ok :: "job_store \<Rightarrow> uuid \<Rightarrow> int \<Rightarrow> outbox_entry \<Rightarrow> bool" where
  "entry_ok s jid q e =
     (o_job_id e = jid \<and> o_outbox_seq e = q \<and> 1 \<le> q \<and> 0 \<le> o_dispatch_attempts e
      \<and> dict_get (s_runs s) (jid, o_run_id e) \<noteq> None
      \<and> (\<exists>j. dict_get (s_jobs s) jid = Some j \<and> q \<le> j_outbox_seq j))"

definition result_ok :: "uuid \<Rightarrow> int \<Rightarrow> result_reference \<Rightarrow> bool" where
  "result_ok rid v x = (ref_run_id x = rid \<and> ref_result_version x = v \<and> 1 \<le> v)"

definition attempt_key :: "attempt \<Rightarrow> (uuid \<times> uuid) \<times> int" where
  "attempt_key a = ((a_job_id a, a_run_id a), a_fencing_token a)"

definition attempts_ok :: "job_store \<Rightarrow> bool" where
  "attempts_ok s =
     (distinct (map attempt_key (s_attempts s))
      \<and> (\<forall>a \<in> set (s_attempts s). \<exists>r. dict_get (s_runs s) (a_job_id a, a_run_id a) = Some r
           \<and> a_fencing_token a \<le> r_fencing_token r))"

definition keys_ok :: "job_store \<Rightarrow> bool" where
  "keys_ok s = (dict_ok (s_jobs s) \<and> dict_ok (s_runs s) \<and> dict_ok (s_outbox s)
     \<and> dict_ok (s_idempotency s) \<and> dict_ok (s_results s))"

definition store_inv :: "job_store \<Rightarrow> bool" where
  "store_inv s =
     (job_policy_valid (s_policy s) \<and> keys_ok s \<and> attempts_ok s
      \<and> (\<forall>jid j. dict_get (s_jobs s) jid = Some j \<longrightarrow> job_honest (s_policy s) j \<and> job_backed s jid j)
      \<and> (\<forall>jid rid r. dict_get (s_runs s) (jid, rid) = Some r \<longrightarrow> run_ok s jid rid r)
      \<and> (\<forall>jid q e. dict_get (s_outbox s) (jid, q) = Some e \<longrightarrow> entry_ok s jid q e)
      \<and> (\<forall>rid v x. dict_get (s_results s) (rid, v) = Some x \<longrightarrow> result_ok rid v x)
      \<and> (\<forall>k x. dict_get (s_idempotency s) k = Some x \<longrightarrow>
           (\<exists>jid. dict_get (s_runs s) (jid, idem_run_id x) \<noteq> None)))"

lemma store_invD:
  assumes "store_inv s"
  shows "job_policy_valid (s_policy s)" "keys_ok s" "attempts_ok s"
    "dict_get (s_jobs s) jid = Some j \<Longrightarrow> job_honest (s_policy s) j"
    "dict_get (s_jobs s) jid = Some j \<Longrightarrow> job_backed s jid j"
    "dict_get (s_runs s) (jid, rid) = Some r \<Longrightarrow> run_ok s jid rid r"
    "dict_get (s_outbox s) (jid, q) = Some e \<Longrightarrow> entry_ok s jid q e"
    "dict_get (s_results s) (rid, v) = Some x \<Longrightarrow> result_ok rid v x"
    "dict_get (s_idempotency s) k = Some y \<Longrightarrow> \<exists>jid. dict_get (s_runs s) (jid, idem_run_id y) \<noteq> None"
  using assms by (auto simp: store_inv_def)

lemma empty_store_inv: "job_policy_valid p \<Longrightarrow> store_inv (empty_store p)"
  by (simp add: store_inv_def empty_store_def keys_ok_def attempts_ok_def)

section \<open>Changing one job and one run\<close>

text \<open>
  \<open>changes s jid j' rid r' s'\<close>: the store \<open>s'\<close> differs from \<open>s\<close> in the job \<open>jid\<close>, in its run \<open>rid\<close>,
  in dispatch rounds of that job, and possibly by further results, attempts and idempotency keys.
\<close>

definition changes :: "job_store \<Rightarrow> uuid \<Rightarrow> job \<Rightarrow> uuid \<Rightarrow> run \<Rightarrow> job_store \<Rightarrow> bool" where
  "changes s jid j' rid r' s' =
     (s_policy s' = s_policy s \<and> keys_ok s'
      \<and> (\<forall>k. dict_get (s_jobs s') k = (if k = jid then Some j' else dict_get (s_jobs s) k))
      \<and> (\<forall>k. dict_get (s_runs s') k = (if k = (jid, rid) then Some r' else dict_get (s_runs s) k))
      \<and> (\<forall>k q. k \<noteq> jid \<longrightarrow> dict_get (s_outbox s') (k, q) = dict_get (s_outbox s) (k, q))
      \<and> (\<forall>k. dict_get (s_results s) k \<noteq> None \<longrightarrow> dict_get (s_results s') k = dict_get (s_results s) k))"

lemma changesD:
  assumes "changes s jid j' rid r' s'"
  shows "s_policy s' = s_policy s" "keys_ok s'"
    "dict_get (s_jobs s') k = (if k = jid then Some j' else dict_get (s_jobs s) k)"
    "dict_get (s_runs s') l = (if l = (jid, rid) then Some r' else dict_get (s_runs s) l)"
    "k \<noteq> jid \<Longrightarrow> dict_get (s_outbox s') (k, q) = dict_get (s_outbox s) (k, q)"
    "dict_get (s_results s) m \<noteq> None \<Longrightarrow> dict_get (s_results s') m = dict_get (s_results s) m"
  using assms unfolding changes_def by blast+

text \<open>
  What stays true of the rest of the store: the owner of the run keeps its case and never lowers
  its sequence number, the run keeps its identity, its case and never lowers its token, and no
  other run of the job gains or loses a lease.
\<close>

definition compatible :: "job_store \<Rightarrow> uuid \<Rightarrow> job \<Rightarrow> uuid \<Rightarrow> run \<Rightarrow> bool" where
  "compatible s jid j' rid r' =
     ((\<forall>j. dict_get (s_jobs s) jid = Some j \<longrightarrow> j_case_id j = j_case_id j' \<and> j_outbox_seq j \<le> j_outbox_seq j'
         \<and> (j_status j = RUNNING \<longrightarrow> j_current_run_id j = rid))
      \<and> (j_status j' = RUNNING \<longrightarrow> j_current_run_id j' = rid)
      \<and> (\<forall>r. dict_get (s_runs s) (jid, rid) = Some r \<longrightarrow> r_fencing_token r \<le> r_fencing_token r')
      \<and> (dict_get (s_jobs s) jid = None \<longrightarrow> (\<forall>rid. dict_get (s_runs s) (jid, rid) = None)))"

lemma changes_other_job:
  assumes inv: "store_inv s" and ch: "changes s jid j' rid r' s'"
    and k: "k \<noteq> jid" and j: "dict_get (s_jobs s') k = Some j"
  shows "job_honest (s_policy s') j \<and> job_backed s' k j"
proof -
  have "dict_get (s_jobs s) k = Some j" using j k changesD(3) [OF ch] by simp
  with inv have "job_honest (s_policy s) j" "job_backed s k j" by (auto dest: store_invD)
  moreover have "owns_round s' k rid' sts = owns_round s k rid' sts" for rid' sts
    using changesD(5) [OF ch k] by (simp add: owns_round_def)
  ultimately show ?thesis
    using k changesD(1,4) [OF ch] by (simp add: job_backed_def)
qed

lemma changes_other_run:
  assumes inv: "store_inv s" and ch: "changes s jid j' rid r' s'" and co: "compatible s jid j' rid r'"
    and k: "(k, l) \<noteq> (jid, rid)" and r: "dict_get (s_runs s') (k, l) = Some r"
  shows "run_ok s' k l r"
proof -
  have r0: "dict_get (s_runs s) (k, l) = Some r" using r k changesD(4) [OF ch] by (simp split: if_splits)
  with inv have ok: "run_ok s k l r" by (auto dest: store_invD)
  have res: "dict_get (s_results s) m \<noteq> None \<Longrightarrow> dict_get (s_results s') m \<noteq> None" for m
    using changesD(6) [OF ch, of m] by simp
  show ?thesis
  proof (cases "k = jid")
    case False
    with ok res changesD(3) [OF ch, of k] show ?thesis by (auto simp: run_ok_def)
  next
    case True
    with k have l: "l \<noteq> rid" by simp
    from ok True obtain j where "dict_get (s_jobs s) jid = Some j" by (auto simp: run_ok_def)
    with ok True l co res changesD(3) [OF ch, of jid] show ?thesis
      by (auto simp: run_ok_def compatible_def split: if_splits)
  qed
qed

lemma changes_entry:
  assumes inv: "store_inv s" and ch: "changes s jid j' rid r' s'" and co: "compatible s jid j' rid r'"
    and e: "dict_get (s_outbox s) (k, q) = Some e"
  shows "entry_ok s' k q e"
proof -
  from inv e have "entry_ok s k q e" by (auto dest: store_invD)
  with co changesD(3,4) [OF ch] show ?thesis
    by (fastforce simp: entry_ok_def compatible_def split: if_splits)
qed

lemma changes_attempts:
  assumes inv: "store_inv s" and ch: "changes s jid j' rid r' s'" and co: "compatible s jid j' rid r'"
    and same: "map attempt_key (s_attempts s') = map attempt_key (s_attempts s)"
  shows "attempts_ok s'"
proof -
  have old: "attempts_ok s" using inv by (rule store_invD)
  have "\<exists>r. dict_get (s_runs s') (a_job_id a, a_run_id a) = Some r \<and> a_fencing_token a \<le> r_fencing_token r"
    if "a \<in> set (s_attempts s')" for a
  proof -
    have "attempt_key a \<in> set (map attempt_key (s_attempts s))"
      using that same by (metis imageI image_set)
    then obtain b where "b \<in> set (s_attempts s)" "attempt_key a = attempt_key b" by auto
    then obtain r where "dict_get (s_runs s) (a_job_id a, a_run_id a) = Some r"
      "a_fencing_token a \<le> r_fencing_token r"
      using old by (force simp: attempts_ok_def attempt_key_def)
    then show ?thesis
      using co changesD(4) [OF ch] by (fastforce simp: compatible_def)
  qed
  with old same show ?thesis by (simp add: attempts_ok_def)
qed

lemma store_inv_changes:
  assumes inv: "store_inv s" and ch: "changes s jid j' rid r' s'" and co: "compatible s jid j' rid r'"
    and job: "job_honest (s_policy s) j'" "job_backed s' jid j'"
    and run: "run_ok s' jid rid r'"
    and entries: "\<And>q e. dict_get (s_outbox s') (jid, q) = Some e \<Longrightarrow>
        dict_get (s_outbox s) (jid, q) = Some e \<or> entry_ok s' jid q e"
    and results: "\<And>k v x. dict_get (s_results s') (k, v) = Some x \<Longrightarrow>
        dict_get (s_results s) (k, v) = Some x \<or> result_ok k v x"
    and attempts: "attempts_ok s'"
    and idem: "\<And>k x. dict_get (s_idempotency s') k = Some x \<Longrightarrow>
        dict_get (s_idempotency s) k = Some x \<or> idem_run_id x = rid"
  shows "store_inv s'"
  unfolding store_inv_def
proof (intro conjI allI impI)
  show "job_policy_valid (s_policy s')" "keys_ok s'"
    using inv changesD(1,2) [OF ch] by (auto dest: store_invD)
  show "attempts_ok s'" by (rule attempts)
next
  fix k j assume k: "dict_get (s_jobs s') k = Some j"
  then have "job_honest (s_policy s') j \<and> job_backed s' k j"
    using changes_other_job [OF inv ch _ k] job changesD(1,3) [OF ch] by (cases "k = jid") auto
  then show "job_honest (s_policy s') j" "job_backed s' k j" by simp_all
next
  fix k l r assume "dict_get (s_runs s') (k, l) = Some r"
  then show "run_ok s' k l r"
    using changes_other_run [OF inv ch co] run changesD(4) [OF ch] by (cases "(k, l) = (jid, rid)") auto
next
  fix k q e assume "dict_get (s_outbox s') (k, q) = Some e"
  then show "entry_ok s' k q e"
    using changes_entry [OF inv ch co] entries changesD(5) [OF ch] by (cases "k = jid") (blast, simp)
next
  fix k v x assume "dict_get (s_results s') (k, v) = Some x"
  then show "result_ok k v x" using results inv by (blast dest: store_invD)
next
  fix k x assume "dict_get (s_idempotency s') k = Some x"
  then have "dict_get (s_idempotency s) k = Some x \<or> idem_run_id x = rid" by (rule idem)
  then show "\<exists>jid. dict_get (s_runs s') (jid, idem_run_id x) \<noteq> None"
  proof
    assume "dict_get (s_idempotency s) k = Some x"
    with store_invD(9) [OF inv] obtain jid' where "dict_get (s_runs s) (jid', idem_run_id x) \<noteq> None"
      by blast
    then show ?thesis using changesD(4) [OF ch] by (intro exI [of _ jid']) auto
  next
    assume "idem_run_id x = rid"
    then show ?thesis using changesD(4) [OF ch] by (intro exI [of _ jid]) simp
  qed
qed

section \<open>Preservation, operation by operation\<close>

lemma replyD:
  assumes "reply jid s = Inr (x, s')"
  shows "s' = s" "\<exists>j r. dict_get (s_jobs s) jid = Some j
     \<and> dict_get (s_runs s) (j_job_id j, j_current_run_id j) = Some r \<and> x = make_record j r"
  using assms by (auto simp: reply_def job_record_of_def)

lemma reply_ok:
  assumes "store_inv s" and "dict_get (s_jobs s) jid = Some j"
  shows "\<exists>r. dict_get (s_runs s) (jid, j_current_run_id j) = Some r
     \<and> reply jid s = Inr (make_record j r, s)"
  using store_invD(5) [OF assms] assms(2)
  by (auto simp: job_backed_def reply_def job_record_of_def)

lemma keys_okD:
  "keys_ok s \<Longrightarrow> dict_ok (s_jobs s)" "keys_ok s \<Longrightarrow> dict_ok (s_runs s)" "keys_ok s \<Longrightarrow> dict_ok (s_outbox s)"
  "keys_ok s \<Longrightarrow> dict_ok (s_idempotency s)" "keys_ok s \<Longrightarrow> dict_ok (s_results s)"
  by (simp_all add: keys_ok_def)

lemmas inv_keys = store_invD(2) [THEN keys_okD(1)] store_invD(2) [THEN keys_okD(2)]
  store_invD(2) [THEN keys_okD(3)] store_invD(2) [THEN keys_okD(4)] store_invD(2) [THEN keys_okD(5)]

lemma job_of_run:
  assumes "store_inv s" and "dict_get (s_runs s) (jid, rid) = Some r"
  obtains j where "dict_get (s_jobs s) jid = Some j" "rev_case_id (r_revision r) = j_case_id j"
    "r_run_id r = rid" "j_job_id j = jid"
  using store_invD(6) [OF assms] store_invD(5) [OF assms(1)]
  by (auto simp: run_ok_def job_backed_def)

lemma current_run:
  assumes "store_inv s" and "dict_get (s_jobs s) jid = Some j"
  obtains r where "dict_get (s_runs s) (jid, j_current_run_id j) = Some r"
    "r_run_id r = j_current_run_id j" "rev_case_id (r_revision r) = j_case_id j"
    "j_status j = SUCCEEDED \<longrightarrow> 1 \<le> r_result_version r"
    "if j_status j = RUNNING then lease_held r else lease_free r"
    "0 \<le> r_fencing_token r" "0 \<le> r_result_version r"
    "\<forall>v. 1 \<le> v \<and> v \<le> r_result_version r \<longrightarrow> dict_get (s_results s) (j_current_run_id j, v) \<noteq> None"
proof -
  from store_invD(5) [OF assms] obtain r where
    r: "dict_get (s_runs s) (jid, j_current_run_id j) = Some r"
    "j_status j = SUCCEEDED \<longrightarrow> 1 \<le> r_result_version r" by (auto simp: job_backed_def)
  with store_invD(6) [OF assms(1) r(1)] assms(2) show ?thesis
    by (intro that [of r]) (auto simp: run_ok_def)
qed

text \<open>
  The common shape of a status change: the current run \<open>r\<close> of job \<open>j\<close> becomes \<open>r'\<close>, the job becomes
  \<open>j'\<close>, a result may be appended and the attempt log relabelled.  The dispatch rounds do not change.
\<close>

lemma store_inv_status_change:
  assumes inv: "store_inv s" and j: "dict_get (s_jobs s) jid = Some j"
    and r: "dict_get (s_runs s) (jid, j_current_run_id j) = Some r"
    and jj: "j_job_id j' = jid" "j_case_id j' = j_case_id j" "j_current_run_id j' = j_current_run_id j"
      "j_outbox_seq j' = j_outbox_seq j" "job_honest (s_policy s) j'"
    and rr: "r_run_id r' = r_run_id r" "r_revision r' = r_revision r"
      "r_fencing_token r \<le> r_fencing_token r'" "0 \<le> r_result_version r'"
      "\<forall>v. 1 \<le> v \<and> v \<le> r_result_version r' \<longrightarrow> dict_get (s_results s) (j_current_run_id j, v) \<noteq> None"
      "if j_status j' = RUNNING then lease_held r' else lease_free r'"
    and succ: "j_status j' = SUCCEEDED \<longrightarrow> 1 \<le> r_result_version r'"
    and rounds: "j_status j' = QUEUED \<longrightarrow> owns_round s jid (j_current_run_id j) {Pending}"
      "j_status j' = DISPATCHED \<longrightarrow> owns_round s jid (j_current_run_id j) {Pending, Sent}"
  shows "store_inv (put_job j' (put_run jid r' s))"
proof -
  from current_run [OF inv j] r obtain
    rok: "r_run_id r = j_current_run_id j" "rev_case_id (r_revision r) = j_case_id j"
      "0 \<le> r_fencing_token r"
    by (metis option.inject)
  have ch: "changes s jid j' (j_current_run_id j) r' (put_job j' (put_run jid r' s))"
    using inv_keys [OF inv] jj rr rok by (simp add: changes_def keys_ok_def)
  have co: "compatible s jid j' (j_current_run_id j) r'"
    using j r jj rr by (simp add: compatible_def)
  show ?thesis
  proof (rule store_inv_changes [OF inv ch co jj(5)])
    show "job_backed (put_job j' (put_run jid r' s)) jid j'"
      using jj rr rok succ rounds by (simp add: job_backed_def owns_round_def)
    show "run_ok (put_job j' (put_run jid r' s)) jid (j_current_run_id j) r'"
      using jj rr rok by (simp add: run_ok_def)
    show "attempts_ok (put_job j' (put_run jid r' s))"
      by (rule changes_attempts [OF inv ch co]) simp
  qed simp_all
qed

lemma store_inv_enqueue:
  assumes inv: "store_inv s" and co: "compatible s jid j' rid r'"
    and jj: "j_job_id j' = jid" "j_current_run_id j' = rid" "j_status j' = QUEUED" "job_honest (s_policy s) j'"
    and rr: "r_run_id r' = rid" "rev_case_id (r_revision r') = j_case_id j'" "0 \<le> r_fencing_token r'"
      "0 \<le> r_result_version r'" "lease_free r'"
      "\<forall>v. 1 \<le> v \<and> v \<le> r_result_version r' \<longrightarrow> dict_get (s_results s) (rid, v) \<noteq> None"
  shows "store_inv (enqueue j' rid available fresh (put_job j' (put_run jid r' s)))"
proof -
  let ?j = "j'\<lparr>j_outbox_seq := j_outbox_seq j' + 1\<rparr>"
  let ?s = "enqueue j' rid available fresh (put_job j' (put_run jid r' s))"
  have ch: "changes s jid ?j rid r' ?s"
    using inv_keys [OF inv] jj rr by (simp add: changes_def keys_ok_def enqueue_def Let_def)
  have co': "compatible s jid ?j rid r'"
    using co by (auto simp: compatible_def)
  have honest: "job_honest (s_policy s) ?j"
    using jj(4) by (simp add: job_honest_def job_facts_of_def)
  show ?thesis
  proof (rule store_inv_changes [OF inv ch co' honest])
    show "job_backed ?s jid ?j"
      using jj rr by (auto simp: job_backed_def owns_round_def enqueue_def Let_def)
    show "run_ok ?s jid rid r'"
      using jj rr by (simp add: run_ok_def enqueue_def Let_def)
    show "attempts_ok ?s"
      by (rule changes_attempts [OF inv ch co']) (simp add: enqueue_def Let_def)
    fix q e assume "dict_get (s_outbox ?s) (jid, q) = Some e"
    then show "dict_get (s_outbox s) (jid, q) = Some e \<or> entry_ok ?s jid q e"
      using jj rr by (auto simp: entry_ok_def enqueue_def Let_def job_honest_def split: if_splits)
  qed (simp_all add: enqueue_def Let_def)
qed

lemma frame_attempts [simp]:
  "job_backed (s\<lparr>s_attempts := as\<rparr>) = job_backed s" "run_ok (s\<lparr>s_attempts := as\<rparr>) = run_ok s"
  "entry_ok (s\<lparr>s_attempts := as\<rparr>) = entry_ok s" "keys_ok (s\<lparr>s_attempts := as\<rparr>) = keys_ok s"
  by (simp_all add: fun_eq_iff job_backed_def owns_round_def run_ok_def entry_ok_def keys_ok_def)

lemma store_inv_attempts:
  assumes "store_inv s" and "map attempt_key as = map attempt_key (s_attempts s)"
  shows "store_inv (s\<lparr>s_attempts := as\<rparr>)"
proof -
  have "attempts_ok (s\<lparr>s_attempts := as\<rparr>)"
  proof -
    have "\<exists>r. dict_get (s_runs s) (a_job_id a, a_run_id a) = Some r \<and> a_fencing_token a \<le> r_fencing_token r"
      if "a \<in> set as" for a
    proof -
      have "attempt_key a \<in> attempt_key ` set (s_attempts s)"
        using that assms(2) by (metis imageI list.set_map)
      then show ?thesis using store_invD(3) [OF assms(1)] by (force simp: attempts_ok_def attempt_key_def)
    qed
    with assms store_invD(3) [OF assms(1)] show ?thesis by (simp add: attempts_ok_def)
  qed
  with assms(1) show ?thesis by (simp add: store_inv_def)
qed

lemma frame_idempotency [simp]:
  "job_backed (s\<lparr>s_idempotency := d\<rparr>) = job_backed s" "run_ok (s\<lparr>s_idempotency := d\<rparr>) = run_ok s"
  "entry_ok (s\<lparr>s_idempotency := d\<rparr>) = entry_ok s" "attempts_ok (s\<lparr>s_idempotency := d\<rparr>) = attempts_ok s"
  by (simp_all add: fun_eq_iff job_backed_def owns_round_def run_ok_def entry_ok_def attempts_ok_def)

lemma frame_results [simp]:
  "job_backed (s\<lparr>s_results := d\<rparr>) = job_backed s" "entry_ok (s\<lparr>s_results := d\<rparr>) = entry_ok s"
  "attempts_ok (s\<lparr>s_results := d\<rparr>) = attempts_ok s"
  by (simp_all add: fun_eq_iff job_backed_def owns_round_def entry_ok_def attempts_ok_def)

lemma run_ok_append_result:
  "run_ok s jid rid r \<Longrightarrow> run_ok (s\<lparr>s_results := dict_set k x (s_results s)\<rparr>) jid rid r"
  by (simp add: run_ok_def del: map_of_eq_Some_iff)

lemma store_inv_append_result:
  assumes "store_inv s" and "result_ok rid v x"
  shows "store_inv (s\<lparr>s_results := dict_set (rid, v) x (s_results s)\<rparr>)"
proof -
  have "keys_ok (s\<lparr>s_results := dict_set (rid, v) x (s_results s)\<rparr>)"
    using inv_keys [OF assms(1)] by (simp add: keys_ok_def)
  with assms show ?thesis
    by (auto simp: store_inv_def run_ok_append_result simp del: map_of_eq_Some_iff)
qed

lemma store_inv_idempotency:
  assumes "store_inv s" and "dict_get (s_runs s) (jid, idem_run_id x) \<noteq> None"
  shows "store_inv (s\<lparr>s_idempotency := dict_set k x (s_idempotency s)\<rparr>)"
proof -
  have "keys_ok (s\<lparr>s_idempotency := dict_set k x (s_idempotency s)\<rparr>)"
    using inv_keys [OF assms(1)] by (simp add: keys_ok_def)
  with assms show ?thesis
    by (auto simp: store_inv_def simp del: map_of_eq_Some_iff)
qed

lemma job_facts_of_sel [simp]:
  "f_status (job_facts_of j) = j_status j"
  "f_attempt_count (job_facts_of j) = j_attempt_count j"
  "f_lease_takeover_count (job_facts_of j) = j_lease_takeover_count j"
  "f_cancel_requested (job_facts_of j) = j_cancel_requested j"
  "f_has_open_tasks (job_facts_of j) = (j_open_task_ids j \<noteq> [])"
  by (simp_all add: job_facts_of_def)

lemma release_lease_sel [simp]:
  "r_run_id (release_lease b r) = r_run_id r"
  "r_revision (release_lease b r) = r_revision r"
  "r_documents (release_lease b r) = r_documents r"
  "r_payload_digest (release_lease b r) = r_payload_digest r"
  "r_fencing_token (release_lease b r) = r_fencing_token r"
  "r_result_version (release_lease b r) = r_result_version r"
  "r_run_status (release_lease b r) = r_run_status r"
  "lease_free (release_lease True r)"
  "lease_free (release_lease b r) \<longleftrightarrow> b \<or> lease_free r"
  by (simp_all add: release_lease_def lease_free_def)

lemma lease_run_status [simp]:
  "lease_free (r\<lparr>r_run_status := st\<rparr>) = lease_free r"
  "lease_held (r\<lparr>r_run_status := st\<rparr>) = lease_held r"
  "lease_free (r\<lparr>r_result_version := v\<rparr>) = lease_free r"
  by (simp_all add: lease_free_def lease_held_def)

text \<open>A decided transition keeps what a job says of itself honest, given the problem and the tasks.\<close>

lemma job_honest_transition:
  assumes "job_honest p j" and "next_state f e p = Inr t" and "f = (job_facts_of j)\<lparr>f_has_open_tasks := h\<rparr>"
    and "j_status j' = t_status t" and "j_attempt_count j' = j_attempt_count j + t_attempt_delta t"
    and "j_lease_takeover_count j' = j_lease_takeover_count j + t_takeover_delta t"
    and "j_cancel_requested j' = (j_cancel_requested j \<or> t_request_cancel t)"
    and "(t_status t \<in> {FAILED, CANCELLED}) = (j_problem j' \<noteq> None)"
    and "t_status t = WAITING_FOR_HUMAN \<longrightarrow> j_open_task_ids j' \<noteq> []"
    and "distinct (j_open_task_ids j')" and "0 \<le> j_outbox_seq j'"
  shows "job_honest p j'"
proof -
  have w: "within_ceilings p f" using assms(1,3) by (simp add: job_honest_def)
  have "within_ceilings p (apply_transition f t)" by (rule within_ceilings_step [OF w assms(2)])
  then have "within_ceilings p (job_facts_of j')"
    using assms(3-6) by (simp add: within_ceilings_def apply_transition_def)
  moreover have "j_cancel_requested j' \<longrightarrow> j_status j' \<in> cancel_pending_statuses"
  proof
    assume c: "j_cancel_requested j'"
    show "j_status j' \<in> cancel_pending_statuses"
    proof (cases "j_cancel_requested j")
      case True
      with assms(1) have "j_status j \<in> cancel_pending_statuses" by (simp add: job_honest_def)
      with next_state_InrD(3) [OF assms(2)] assms(3) have "f_status f = RUNNING" by auto
      with True cancel_preempts [OF _ _ assms(2)] assms(3,4) show ?thesis by simp
    next
      case False
      with c assms(7) have "t_request_cancel t" by simp
      then have "t_status t = RUNNING"
        using next_state_InrD(6) [OF assms(2)] by (cases e) (auto simp: Let_def split: if_splits)
      with assms(4) show ?thesis by simp
    qed
  qed
  ultimately show ?thesis using assms(4,8-11) by (simp add: job_honest_def)
qed

subsection \<open>Claim and heartbeat\<close>

lemma claimE:
  assumes "claim jid rid owner lease now fresh s = Inr (a, s')"
  obtains j r where "dict_get (s_jobs s) jid = Some j" "dict_get (s_runs s) (jid, rid) = Some r"
    "1 \<le> lease" "j_current_run_id j = rid" "j_status j \<in> claimable_statuses"
    "next_state (job_facts_of j) CLAIM (s_policy s) = Inr (plain_transition RUNNING)"
    "a = \<lparr>ca_job_id = jid, ca_run_id = rid, ca_attempt_id = fresh, ca_owner = owner,
       ca_fencing_token = r_fencing_token r + 1, ca_expected_result_version = r_result_version r,
       ca_lease_expires_at = now + lease\<rparr>"
    "s' = (put_job (j\<lparr>j_status := RUNNING, j_updated_at := now\<rparr>)
       (put_run jid (r\<lparr>r_fencing_token := r_fencing_token r + 1, r_lease_owner := Some owner,
          r_lease_expires_at := Some (now + lease), r_attempt_id := Some fresh,
          r_run_status := RUNNING\<rparr>) s))
       \<lparr>s_attempts := s_attempts s @ [\<lparr>a_job_id = jid, a_run_id = rid, a_attempt_id = fresh,
          a_fencing_token = r_fencing_token r + 1, a_owner = owner, a_claimed_at = now,
          a_outcome = Attempt_Running\<rparr>]\<rparr>"
proof -
  from assms obtain j r t where
    *: "dict_get (s_jobs s) jid = Some j" "dict_get (s_runs s) (jid, rid) = Some r" "\<not> lease < 1"
      "j_current_run_id j = rid" "next_state (job_facts_of j) CLAIM (s_policy s) = Inr t"
    by (auto simp: claim_def split: if_splits option.splits)
  have t: "t = plain_transition RUNNING" and st: "j_status j \<in> claimable_statuses"
    using next_state_InrD(6) [OF *(5)] by (auto split: if_splits)
  from assms * t show ?thesis
    by (intro that [OF *(1,2) _ *(4) st]) (auto simp: claim_def Let_def split: if_splits option.splits)
qed

lemma claim_inv [store_pres]:
  assumes "claim jid rid owner lease now fresh s = Inr (a, s')" and inv: "store_inv s"
  shows "store_inv s'"
  using assms(1)
proof (rule claimE)
  fix j :: job and r :: run
  let ?j = "j\<lparr>j_status := RUNNING, j_updated_at := now\<rparr>"
  let ?r = "r\<lparr>r_fencing_token := r_fencing_token r + 1, r_lease_owner := Some owner,
    r_lease_expires_at := Some (now + lease), r_attempt_id := Some fresh, r_run_status := RUNNING\<rparr>"
  assume j: "dict_get (s_jobs s) jid = Some j" and r: "dict_get (s_runs s) (jid, rid) = Some r"
    and cur: "j_current_run_id j = rid" and st: "j_status j \<in> claimable_statuses"
    and n: "next_state (job_facts_of j) CLAIM (s_policy s) = Inr (plain_transition RUNNING)"
    and s': "s' = (put_job ?j (put_run jid ?r s))
       \<lparr>s_attempts := s_attempts s @ [\<lparr>a_job_id = jid, a_run_id = rid, a_attempt_id = fresh,
          a_fencing_token = r_fencing_token r + 1, a_owner = owner, a_claimed_at = now,
          a_outcome = Attempt_Running\<rparr>]\<rparr>"
  from store_invD(4,5) [OF inv j] have hon: "job_honest (s_policy s) j" and jid: "j_job_id j = jid"
    by (auto simp: job_backed_def)
  from st hon have "job_honest (s_policy s) ?j"
    by (intro job_honest_transition [OF hon n, of "j_open_task_ids j \<noteq> []"])
      (auto simp: job_honest_def job_facts_of_def)
  then have base: "store_inv (put_job ?j (put_run jid ?r s))"
    using store_invD(6) [OF inv r] jid cur j r
    by (intro store_inv_status_change [OF inv j]) (auto simp: run_ok_def lease_held_def simp del: map_of_eq_Some_iff)
  have old: "attempts_ok s" by (rule store_invD(3) [OF inv])
  then have "((jid, rid), r_fencing_token r + 1) \<notin> set (map attempt_key (s_attempts s))"
    using r by (force simp: attempts_ok_def attempt_key_def)
  with old r have "attempts_ok s'"
    unfolding s' using store_invD(6) [OF inv r]
    by (fastforce simp: attempts_ok_def attempt_key_def run_ok_def)
  with base show "store_inv s'" unfolding s' by (simp add: store_inv_def)
qed

lemma authorityD:
  assumes "authority a s = Inr (j, r)"
  shows "dict_get (s_jobs s) (ca_job_id a) = Some j" "dict_get (s_runs s) (ca_job_id a, ca_run_id a) = Some r"
    "r_lease_owner r = Some (ca_owner a)" "r_fencing_token r = ca_fencing_token a"
    "r_attempt_id r = Some (ca_attempt_id a)" "j_status j = RUNNING"
  using assms by (auto simp: authority_def split: option.splits if_splits)

text \<open>Only the current run of a job can have authority.\<close>

lemma authority_current:
  assumes "store_inv s" and "authority a s = Inr (j, r)"
  shows "j_current_run_id j = ca_run_id a" "j_job_id j = ca_job_id a" "r_run_id r = ca_run_id a"
    "0 \<le> r_result_version r" "lease_held r"
    "\<forall>v. 1 \<le> v \<and> v \<le> r_result_version r \<longrightarrow> dict_get (s_results s) (ca_run_id a, v) \<noteq> None"
proof -
  note au = authorityD [OF assms(2)]
  have "run_ok s (ca_job_id a) (ca_run_id a) r" by (rule store_invD(6) [OF assms(1) au(2)])
  with au show "j_current_run_id j = ca_run_id a" "r_run_id r = ca_run_id a"
    "0 \<le> r_result_version r" "lease_held r"
    "\<forall>v. 1 \<le> v \<and> v \<le> r_result_version r \<longrightarrow> dict_get (s_results s) (ca_run_id a, v) \<noteq> None"
    by (auto simp: run_ok_def lease_free_def split: if_splits)
  from store_invD(5) [OF assms(1) au(1)] show "j_job_id j = ca_job_id a" by (simp add: job_backed_def)
qed

lemma heartbeat_inv [store_pres]:
  assumes "heartbeat a lease now s = Inr (h, s')" and inv: "store_inv s"
  shows "store_inv s'"
proof -
  from assms(1) obtain j r where au: "authority a s = Inr (j, r)"
    and s': "s' = put_job (j\<lparr>j_updated_at := now\<rparr>)
      (put_run (ca_job_id a) (r\<lparr>r_lease_expires_at := Some (now + lease)\<rparr>) s)"
    by (auto simp: heartbeat_def Let_def split: if_splits)
  note d = authorityD [OF au] authority_current [OF inv au]
  have "job_honest (s_policy s) (j\<lparr>j_updated_at := now\<rparr>)"
    using store_invD(4) [OF inv d(1)] by (simp add: job_honest_def job_facts_of_def)
  with d show ?thesis
    unfolding s'
    by (intro store_inv_status_change [OF inv d(1)]) (auto simp: lease_held_def simp del: map_of_eq_Some_iff)
qed

subsection \<open>Finishing an attempt\<close>

lemma commit_resultD:
  assumes "commit_result r a ref s = Inr (r1, s1)"
  shows "\<exists>x. ref = Some x \<and> ref_run_id x = ca_run_id a \<and> ref_fencing_token x = ca_fencing_token a
     \<and> ref_result_version x = r_result_version r + 1 \<and> r_result_version r = ca_expected_result_version a
     \<and> dict_get (s_results s) (ca_run_id a, r_result_version r + 1) = None
     \<and> r1 = r\<lparr>r_result_version := r_result_version r + 1\<rparr>
     \<and> s1 = s\<lparr>s_results := dict_set (ca_run_id a, r_result_version r + 1) x (s_results s)\<rparr>"
  using assms by (auto simp: commit_result_def split: option.splits if_splits)

lemma commit_for_event_Inr:
  "commit_for_event e r a ref s = Inr (r1, s1) \<longleftrightarrow>
     (if e = PUBLISH_RESULT then commit_result r a ref s = Inr (r1, s1) else ref = None \<and> r1 = r \<and> s1 = s)"
  by (auto simp: commit_for_event_def)

lemma finishE:
  assumes "finish a e now problem tasks ref s = Inr (x, s')"
  obtains j r t r1 s1 where "authority a s = Inr (j, r)" "e \<in> finish_events"
    "next_state ((job_facts_of j)\<lparr>f_has_open_tasks := (tasks \<noteq> [])\<rparr>) e (s_policy s) = Inr t"
    "commit_for_event e r a ref s = Inr (r1, s1)"
    "t_status t = FAILED \<longrightarrow> problem \<noteq> None"
    "s' = finished_store a e t (finished_job t problem tasks now j) r1 s1"
    "reply (ca_job_id a) s' = Inr (x, s')"
proof -
  from assms obtain j r t r1 s1 where
    *: "authority a s = Inr (j, r)" "e \<in> finish_events"
      "next_state ((job_facts_of j)\<lparr>f_has_open_tasks := (tasks \<noteq> [])\<rparr>) e (s_policy s) = Inr t"
      "commit_for_event e r a ref s = Inr (r1, s1)" "t_status t = FAILED \<longrightarrow> problem \<noteq> None"
      "reply (ca_job_id a) (finished_store a e t (finished_job t problem tasks now j) r1 s1) = Inr (x, s')"
    by (auto simp: finish_def)
  with replyD(1) [OF *(6)] show ?thesis by (intro that [OF *(1-5)]) auto
qed

lemma attempt_key_close [simp]: "map attempt_key (close_attempt a e as) = map attempt_key as"
  by (induction as) (auto simp: close_attempt_def attempt_key_def)

lemma finish_status:
  assumes "next_state f e p = Inr t" and "e \<in> finish_events"
  shows "t_status t \<notin> {QUEUED, DISPATCHED, RUNNING}" "t_takeover_delta t = 0" "\<not> t_request_cancel t"
    "t_status t = SUCCEEDED \<longleftrightarrow> e = PUBLISH_RESULT"
    "t_status t = WAITING_FOR_HUMAN \<Longrightarrow> f_has_open_tasks f"
  using next_state_InrD(6) [OF assms(1)] assms(2)
  by (cases e; auto simp: finish_events_def Let_def split: if_splits)+

lemma finish_releases:
  assumes "next_state f e p = Inr t" and "e \<in> finish_events"
  shows "t_release_lease t"
  using next_state_InrD(6) [OF assms(1)] assms(2)
  by (cases e) (auto simp: finish_events_def Let_def split: if_splits)

lemma commit_for_event_inv:
  assumes "commit_for_event e r a ref s = Inr (r1, s1)" and inv: "store_inv s"
    and au: "authority a s = Inr (j, r)"
  shows "store_inv s1" "s_policy s1 = s_policy s" "s_jobs s1 = s_jobs s" "s_runs s1 = s_runs s"
    "s_outbox s1 = s_outbox s" "s_attempts s1 = s_attempts s" "s_idempotency s1 = s_idempotency s"
    "r_run_id r1 = r_run_id r" "r_revision r1 = r_revision r" "r_fencing_token r1 = r_fencing_token r"
    "0 \<le> r_result_version r1" "e = PUBLISH_RESULT \<Longrightarrow> 1 \<le> r_result_version r1"
    "\<forall>v. 1 \<le> v \<and> v \<le> r_result_version r1 \<longrightarrow> dict_get (s_results s1) (ca_run_id a, v) \<noteq> None"
    "\<And>k y. dict_get (s_results s) k = Some y \<Longrightarrow> dict_get (s_results s1) k = Some y"
proof -
  note d = authorityD [OF au] authority_current [OF inv au]
  have "store_inv s1 \<and> s_policy s1 = s_policy s \<and> s_jobs s1 = s_jobs s \<and> s_runs s1 = s_runs s
     \<and> s_outbox s1 = s_outbox s \<and> s_attempts s1 = s_attempts s \<and> s_idempotency s1 = s_idempotency s
     \<and> r_run_id r1 = r_run_id r \<and> r_revision r1 = r_revision r \<and> r_fencing_token r1 = r_fencing_token r
     \<and> 0 \<le> r_result_version r1 \<and> (e = PUBLISH_RESULT \<longrightarrow> 1 \<le> r_result_version r1)
     \<and> (\<forall>v. 1 \<le> v \<and> v \<le> r_result_version r1 \<longrightarrow> dict_get (s_results s1) (ca_run_id a, v) \<noteq> None)
     \<and> (\<forall>k y. dict_get (s_results s) k = Some y \<longrightarrow> dict_get (s_results s1) k = Some y)"
  proof (cases "e = PUBLISH_RESULT")
    case True
    with assms(1) commit_resultD [of r a ref s r1 s1] obtain y where
      y: "ref_run_id y = ca_run_id a" "ref_result_version y = r_result_version r + 1"
        "dict_get (s_results s) (ca_run_id a, r_result_version r + 1) = None"
        "r1 = r\<lparr>r_result_version := r_result_version r + 1\<rparr>"
        "s1 = s\<lparr>s_results := dict_set (ca_run_id a, r_result_version r + 1) y (s_results s)\<rparr>"
      by (auto simp: commit_for_event_Inr)
    have "store_inv s1"
      unfolding y(5) using y(1,2) d by (intro store_inv_append_result [OF inv]) (simp add: result_ok_def)
    with d y show ?thesis by (auto simp del: map_of_eq_Some_iff)
  next
    case False
    with assms d show ?thesis by (simp add: commit_for_event_Inr)
  qed
  then show "store_inv s1" "s_policy s1 = s_policy s" "s_jobs s1 = s_jobs s" "s_runs s1 = s_runs s"
    "s_outbox s1 = s_outbox s" "s_attempts s1 = s_attempts s" "s_idempotency s1 = s_idempotency s"
    "r_run_id r1 = r_run_id r" "r_revision r1 = r_revision r" "r_fencing_token r1 = r_fencing_token r"
    "0 \<le> r_result_version r1" "e = PUBLISH_RESULT \<Longrightarrow> 1 \<le> r_result_version r1"
    "\<forall>v. 1 \<le> v \<and> v \<le> r_result_version r1 \<longrightarrow> dict_get (s_results s1) (ca_run_id a, v) \<noteq> None"
    "\<And>k y. dict_get (s_results s) k = Some y \<Longrightarrow> dict_get (s_results s1) k = Some y"
    by blast+
qed

lemma finished_job_sel [simp]:
  "j_job_id (finished_job t pr ts now j) = j_job_id j" "j_case_id (finished_job t pr ts now j) = j_case_id j"
  "j_current_run_id (finished_job t pr ts now j) = j_current_run_id j"
  "j_outbox_seq (finished_job t pr ts now j) = j_outbox_seq j" "j_status (finished_job t pr ts now j) = t_status t"
  "j_principal_id (finished_job t pr ts now j) = j_principal_id j"
  by (simp_all add: finished_job_def)

lemma finish_inv [store_pres]:
  assumes "finish a e now problem tasks ref s = Inr (x, s')" and inv: "store_inv s"
  shows "store_inv s'"
  using assms(1)
proof (rule finishE)
  fix j :: job and r :: run and t :: transition and r1 :: run and s1 :: job_store
  let ?j = "finished_job t problem tasks now j"
  let ?r = "release_lease (t_release_lease t) (r1\<lparr>r_run_status := t_status t\<rparr>)"
  assume au: "authority a s = Inr (j, r)" and e: "e \<in> finish_events"
    and n: "next_state ((job_facts_of j)\<lparr>f_has_open_tasks := (tasks \<noteq> [])\<rparr>) e (s_policy s) = Inr t"
    and c: "commit_for_event e r a ref s = Inr (r1, s1)"
    and pr: "t_status t = FAILED \<longrightarrow> problem \<noteq> None"
    and s': "s' = finished_store a e t ?j r1 s1"
  note d = authorityD [OF au] authority_current [OF inv au]
  note st = finish_status [OF n e] finish_releases [OF n e]
  note s1 = commit_for_event_inv [OF c inv au]
  have hon: "job_honest (s_policy s) ?j"
    using store_invD(4) [OF inv d(1)] pr st
    by (intro job_honest_transition [OF store_invD(4) [OF inv d(1)] n refl])
      (auto simp: finish_problem_def finished_job_def job_honest_def)
  have "store_inv (put_job ?j (put_run (ca_job_id a) ?r s1))"
    using d st s1 hon
    by (intro store_inv_status_change [OF s1(1), of "ca_job_id a" j r])
      (auto simp del: map_of_eq_Some_iff)
  then show "store_inv s'"
    unfolding s' finished_store_def Let_def by (rule store_inv_attempts) simp
qed

subsection \<open>Lease expiry, cancellation, retry\<close>

lemma expire_leaseE:
  assumes "expire_lease x now fresh s = Inr (y, s')"
  obtains j r t where "dict_get (s_jobs s) (xl_job_id x) = Some j"
    "dict_get (s_runs s) (xl_job_id x, xl_run_id x) = Some r" "lease_reclaimable x now j r"
    "next_state (job_facts_of j) LEASE_EXPIRED (s_policy s) = Inr t"
    "s' = expired_store x now fresh t (expired_job t now j) r s" "reply (xl_job_id x) s' = Inr (y, s')"
proof -
  from assms obtain j r t where
    *: "dict_get (s_jobs s) (xl_job_id x) = Some j" "dict_get (s_runs s) (xl_job_id x, xl_run_id x) = Some r"
      "lease_reclaimable x now j r" "next_state (job_facts_of j) LEASE_EXPIRED (s_policy s) = Inr t"
      "reply (xl_job_id x) (expired_store x now fresh t (expired_job t now j) r s) = Inr (y, s')"
    by (auto simp: expire_lease_def)
  with replyD(1) [OF *(5)] show ?thesis by (intro that [OF *(1-4)]) auto
qed

lemma expire_transition:
  assumes "next_state f LEASE_EXPIRED p = Inr t"
  shows "t_release_lease t" "t_status t \<in> {QUEUED, FAILED, CANCELLED}" "t_enqueue_outbox t \<longleftrightarrow> t_status t = QUEUED"
    "t_attempt_delta t = 0" "\<not> t_request_cancel t"
  using next_state_InrD(6) [OF assms] by (auto simp: Let_def split: if_splits)

lemma expired_job_sel [simp]:
  "j_job_id (expired_job t now j) = j_job_id j" "j_case_id (expired_job t now j) = j_case_id j"
  "j_current_run_id (expired_job t now j) = j_current_run_id j"
  "j_outbox_seq (expired_job t now j) = j_outbox_seq j" "j_status (expired_job t now j) = t_status t"
  "j_attempt_count (expired_job t now j) = j_attempt_count j"
  "j_lease_takeover_count (expired_job t now j) = j_lease_takeover_count j + t_takeover_delta t"
  "j_cancel_requested (expired_job t now j) = j_cancel_requested j"
  "j_principal_id (expired_job t now j) = j_principal_id j"
  "j_open_task_ids (expired_job t now j) = (if t_status t = CANCELLED then [] else j_open_task_ids j)"
  "j_problem (expired_job t now j) = (if t_status t = FAILED then Some \<lparr>problem_code = EXECUTION\<rparr>
     else if t_status t = CANCELLED then Some cancelled_problem else j_problem j)"
  by (simp_all add: expired_job_def Let_def)

lemma expire_lease_inv [store_pres]:
  assumes "expire_lease x now fresh s = Inr (y, s')" and inv: "store_inv s"
  shows "store_inv s'"
  using assms(1)
proof (rule expire_leaseE)
  fix j :: job and r :: run and t :: transition
  let ?j = "expired_job t now j"
  let ?r = "release_lease (t_release_lease t) (r\<lparr>r_run_status := t_status t\<rparr>)"
  assume j: "dict_get (s_jobs s) (xl_job_id x) = Some j"
    and r: "dict_get (s_runs s) (xl_job_id x, xl_run_id x) = Some r" and rec: "lease_reclaimable x now j r"
    and n: "next_state (job_facts_of j) LEASE_EXPIRED (s_policy s) = Inr t"
    and s': "s' = expired_store x now fresh t ?j r s"
  have run: "run_ok s (xl_job_id x) (xl_run_id x) r" by (rule store_invD(6) [OF inv r])
  have st: "j_status j = RUNNING" using rec by (simp add: lease_reclaimable_def)
  have cur: "j_current_run_id j = xl_run_id x"
    using run rec j by (auto simp: run_ok_def lease_reclaimable_def lease_free_def split: if_splits option.splits)
  have jid: "j_job_id j = xl_job_id x" using store_invD(5) [OF inv j] by (simp add: job_backed_def)
  have hon: "job_honest (s_policy s) ?j"
    using store_invD(4) [OF inv j] st expire_transition [OF n]
    by (intro job_honest_transition [OF store_invD(4) [OF inv j] n, of "j_open_task_ids j \<noteq> []"])
      (auto simp: job_honest_def job_facts_of_def)
  show "store_inv s'"
  proof (cases "t_enqueue_outbox t")
    case True
    have "store_inv (enqueue ?j (xl_run_id x) now fresh (put_job ?j (put_run (xl_job_id x) ?r s)))"
    proof (rule store_inv_enqueue [OF inv _ _ _ _ hon])
      show "compatible s (xl_job_id x) ?j (xl_run_id x) ?r"
        using j r cur by (simp add: compatible_def)
    qed (use run j cur jid expire_transition [OF n] True in \<open>auto simp: run_ok_def\<close>)
    with True show ?thesis by (simp add: s' expired_store_def)
  next
    case False
    have "store_inv (put_job ?j (put_run (xl_job_id x) ?r s))"
      using run j r cur jid hon expire_transition [OF n] False
      by (intro store_inv_status_change [OF inv j]) (auto simp: run_ok_def simp del: map_of_eq_Some_iff)
    with False show ?thesis by (simp add: s' expired_store_def)
  qed
qed

lemma store_inv_put_job:
  assumes inv: "store_inv s" and j: "dict_get (s_jobs s) jid = Some j"
    and jj: "j_job_id j' = jid" "j_case_id j' = j_case_id j" "j_current_run_id j' = j_current_run_id j"
      "j_outbox_seq j' = j_outbox_seq j" "j_status j' = j_status j" "job_honest (s_policy s) j'"
  shows "store_inv (put_job j' s)"
proof -
  obtain r where r: "dict_get (s_runs s) (jid, j_current_run_id j) = Some r" using current_run [OF inv j] by blast
  have keys: "keys_ok (put_job j' s)" using inv_keys [OF inv] by (simp add: keys_ok_def)
  have ch: "changes s jid j' (j_current_run_id j) r (put_job j' s)"
    using keys r jj by (simp add: changes_def)
  have co: "compatible s jid j' (j_current_run_id j) r"
    using j r jj by (simp add: compatible_def)
  show ?thesis
  proof (rule store_inv_changes [OF inv ch co jj(6)])
    show "job_backed (put_job j' s) jid j'"
      using store_invD(5) [OF inv j] jj by (simp add: job_backed_def owns_round_def)
    show "run_ok (put_job j' s) jid (j_current_run_id j) r"
      using store_invD(6) [OF inv r] j jj by (simp add: run_ok_def)
    show "attempts_ok (put_job j' s)"
      by (rule changes_attempts [OF inv ch co]) simp
  qed simp_all
qed

lemma cancelE:
  assumes "cancel jid now s = Inr (x, s')"
  obtains j r t where "dict_get (s_jobs s) jid = Some j" "dict_get (s_runs s) (jid, j_current_run_id j) = Some r"
    "next_state (job_facts_of j) CANCEL (s_policy s) = Inr t" "s' = cancelled_store jid now t j r s"
    "reply jid s' = Inr (x, s')"
proof -
  from assms obtain j r t where
    *: "dict_get (s_jobs s) jid = Some j" "dict_get (s_runs s) (jid, j_current_run_id j) = Some r"
      "next_state (job_facts_of j) CANCEL (s_policy s) = Inr t"
      "reply jid (cancelled_store jid now t j r s) = Inr (x, s')"
    by (auto simp: cancel_def)
  with replyD(1) [OF *(4)] show ?thesis by (intro that [OF *(1-3)]) auto
qed

lemma cancel_transition:
  assumes "next_state f CANCEL p = Inr t"
  shows "t_request_cancel t \<longleftrightarrow> f_status f = RUNNING" "t_attempt_delta t = 0" "t_takeover_delta t = 0"
    "f_status f = RUNNING \<Longrightarrow> t_status t = RUNNING"
    "f_status f \<noteq> RUNNING \<Longrightarrow> t_status t = CANCELLED \<and> t_release_lease t"
  using next_state_InrD(6) [OF assms] by (auto split: if_splits)

lemma cancel_inv [store_pres]:
  assumes "cancel jid now s = Inr (x, s')" and inv: "store_inv s"
  shows "store_inv s'"
  using assms(1)
proof (rule cancelE)
  fix j :: job and r :: run and t :: transition
  assume j: "dict_get (s_jobs s) jid = Some j" and r: "dict_get (s_runs s) (jid, j_current_run_id j) = Some r"
    and n: "next_state (job_facts_of j) CANCEL (s_policy s) = Inr t" and s': "s' = cancelled_store jid now t j r s"
  have hon: "job_honest (s_policy s) j" by (rule store_invD(4) [OF inv j])
  have jid: "j_job_id j = jid" using store_invD(5) [OF inv j] by (simp add: job_backed_def)
  note t = cancel_transition [OF n, simplified]
  show "store_inv s'"
  proof (cases "j_status j = RUNNING")
    case True
    let ?j = "j\<lparr>j_cancel_requested := True, j_updated_at := now\<rparr>"
    have "job_honest (s_policy s) ?j"
      using hon True by (simp add: job_honest_def job_facts_of_def within_ceilings_def)
    then have "store_inv (put_job ?j s)"
      using jid by (intro store_inv_put_job [OF inv j]) simp_all
    with True t show ?thesis by (simp add: s' cancelled_store_def)
  next
    case False
    let ?j = "j\<lparr>j_status := t_status t, j_problem := Some cancelled_problem, j_open_task_ids := [],
      j_updated_at := now\<rparr>"
    let ?r = "release_lease (t_release_lease t) (r\<lparr>r_run_status := t_status t\<rparr>)"
    have "job_honest (s_policy s) ?j"
      using hon False t
      by (intro job_honest_transition [OF hon n, of "j_open_task_ids j \<noteq> []"])
        (auto simp: job_honest_def job_facts_of_def)
    then have "store_inv (put_job ?j (put_run jid ?r s))"
      using store_invD(6) [OF inv r] False t jid r
      by (intro store_inv_status_change [OF inv j]) (auto simp: run_ok_def simp del: map_of_eq_Some_iff)
    with False t show ?thesis by (simp add: s' cancelled_store_def)
  qed
qed

lemma schedule_retryE:
  assumes "schedule_retry jid available now fresh s = Inr (x, s')"
  obtains j r where "dict_get (s_jobs s) jid = Some j" "dict_get (s_runs s) (jid, j_current_run_id j) = Some r"
    "j_status j = RETRYABLE_FAILED"
    "next_state (job_facts_of j) SCHEDULE_RETRY (s_policy s) = Inr ((plain_transition QUEUED)\<lparr>t_enqueue_outbox := True\<rparr>)"
    "s' = enqueue (j\<lparr>j_status := QUEUED, j_problem := None, j_updated_at := now\<rparr>) (j_current_run_id j)
       available fresh (put_job (j\<lparr>j_status := QUEUED, j_problem := None, j_updated_at := now\<rparr>)
         (put_run jid (r\<lparr>r_run_status := QUEUED\<rparr>) s))"
    "reply jid s' = Inr (x, s')"
proof -
  from assms obtain j r t where
    *: "dict_get (s_jobs s) jid = Some j" "dict_get (s_runs s) (jid, j_current_run_id j) = Some r"
      "next_state (job_facts_of j) SCHEDULE_RETRY (s_policy s) = Inr t"
      "reply jid (enqueue (j\<lparr>j_status := t_status t, j_problem := None, j_updated_at := now\<rparr>) (j_current_run_id j)
         available fresh (put_job (j\<lparr>j_status := t_status t, j_problem := None, j_updated_at := now\<rparr>)
           (put_run jid (r\<lparr>r_run_status := t_status t\<rparr>) s))) = Inr (x, s')"
    by (auto simp: schedule_retry_def Let_def)
  have t: "t = (plain_transition QUEUED)\<lparr>t_enqueue_outbox := True\<rparr>" "j_status j = RETRYABLE_FAILED"
    using next_state_InrD(6) [OF *(3)] by (auto split: if_splits)
  with * replyD(1) [OF *(4)] show ?thesis by (intro that [OF *(1,2)]) auto
qed

lemma schedule_retry_inv [store_pres]:
  assumes "schedule_retry jid available now fresh s = Inr (x, s')" and inv: "store_inv s"
  shows "store_inv s'"
  using assms(1)
proof (rule schedule_retryE)
  fix j :: job and r :: run
  let ?j = "j\<lparr>j_status := QUEUED, j_problem := None, j_updated_at := now\<rparr>"
  assume j: "dict_get (s_jobs s) jid = Some j" and r: "dict_get (s_runs s) (jid, j_current_run_id j) = Some r"
    and st: "j_status j = RETRYABLE_FAILED"
    and n: "next_state (job_facts_of j) SCHEDULE_RETRY (s_policy s) = Inr ((plain_transition QUEUED)\<lparr>t_enqueue_outbox := True\<rparr>)"
    and s': "s' = enqueue ?j (j_current_run_id j) available fresh
       (put_job ?j (put_run jid (r\<lparr>r_run_status := QUEUED\<rparr>) s))"
  have jid: "j_job_id j = jid" using store_invD(5) [OF inv j] by (simp add: job_backed_def)
  have hon: "job_honest (s_policy s) ?j"
    using store_invD(4) [OF inv j] st
    by (intro job_honest_transition [OF store_invD(4) [OF inv j] n, of "j_open_task_ids j \<noteq> []"])
      (auto simp: job_honest_def job_facts_of_def)
  show "store_inv s'"
    unfolding s'
  proof (rule store_inv_enqueue [OF inv _ _ _ _ hon])
    show "compatible s jid ?j (j_current_run_id j) (r\<lparr>r_run_status := QUEUED\<rparr>)"
      using j r by (simp add: compatible_def)
  qed (use store_invD(6) [OF inv r] j jid st in \<open>auto simp: run_ok_def\<close>)
qed

subsection \<open>Human responses\<close>

lemma rejected_job_sel [simp]:
  "j_job_id (rejected_job task t now j) = j_job_id j" "j_case_id (rejected_job task t now j) = j_case_id j"
  "j_current_run_id (rejected_job task t now j) = j_current_run_id j"
  "j_outbox_seq (rejected_job task t now j) = j_outbox_seq j" "j_status (rejected_job task t now j) = t_status t"
  by (simp_all add: rejected_job_def)

lemma reject_human_taskE:
  assumes "reject_human_task jid rid task now s = Inr (x, s')"
  obtains j r t where "dict_get (s_jobs s) jid = Some j" "dict_get (s_runs s) (jid, rid) = Some r"
    "j_current_run_id j = rid" "task \<in> set (j_open_task_ids j)"
    "next_state ((job_facts_of j)\<lparr>f_has_open_tasks := (filter (\<lambda>x. x \<noteq> task) (j_open_task_ids j) \<noteq> [])\<rparr>)
       HUMAN_REJECTED (s_policy s) = Inr t"
    "s' = put_job (rejected_job task t now j) (put_run jid (r\<lparr>r_run_status := t_status t\<rparr>) s)"
    "reply jid s' = Inr (x, s')"
proof -
  from assms obtain j r t where
    *: "dict_get (s_jobs s) jid = Some j" "dict_get (s_runs s) (jid, rid) = Some r"
      "j_current_run_id j = rid" "task \<in> set (j_open_task_ids j)"
      "next_state ((job_facts_of j)\<lparr>f_has_open_tasks := (filter (\<lambda>x. x \<noteq> task) (j_open_task_ids j) \<noteq> [])\<rparr>)
         HUMAN_REJECTED (s_policy s) = Inr t"
      "reply jid (put_job (rejected_job task t now j) (put_run jid (r\<lparr>r_run_status := t_status t\<rparr>) s)) = Inr (x, s')"
    unfolding reject_human_task_def by (auto simp only: bind_result_eq_Inr some_or_simps ensure_simps)
  from replyD(1) [OF *(6)] *(6) show ?thesis by (intro that [OF *(1-5)]) simp_all
qed

lemma reject_transition:
  assumes "next_state f HUMAN_REJECTED p = Inr t"
  shows "t = plain_transition (if f_has_open_tasks f then WAITING_FOR_HUMAN else FAILED)"
    "f_status f = WAITING_FOR_HUMAN"
  using next_state_InrD(6) [OF assms] by (auto split: if_splits)

lemma reject_human_task_inv [store_pres]:
  assumes "reject_human_task jid rid task now s = Inr (x, s')" and inv: "store_inv s"
  shows "store_inv s'"
  using assms(1)
proof (rule reject_human_taskE)
  fix j :: job and r :: run and t :: transition
  let ?rest = "filter (\<lambda>x. x \<noteq> task) (j_open_task_ids j)"
  assume j: "dict_get (s_jobs s) jid = Some j" and r: "dict_get (s_runs s) (jid, rid) = Some r"
    and cur: "j_current_run_id j = rid"
    and n: "next_state ((job_facts_of j)\<lparr>f_has_open_tasks := (?rest \<noteq> [])\<rparr>) HUMAN_REJECTED (s_policy s) = Inr t"
    and s': "s' = put_job (rejected_job task t now j) (put_run jid (r\<lparr>r_run_status := t_status t\<rparr>) s)"
  have jid: "j_job_id j = jid" using store_invD(5) [OF inv j] by (simp add: job_backed_def)
  note t = reject_transition [OF n, simplified]
  have st: "t_status t = (if ?rest \<noteq> [] then WAITING_FOR_HUMAN else FAILED)" "t_attempt_delta t = 0"
    "t_takeover_delta t = 0" "t_request_cancel t = False"
    by (subst t(1), simp)+
  have dis: "distinct ?rest" "0 \<le> j_outbox_seq j"
    using store_invD(4) [OF inv j] by (auto simp: job_honest_def)
  have "job_honest (s_policy s) (rejected_job task t now j)"
    by (rule job_honest_transition [OF store_invD(4) [OF inv j] n refl])
      (use st dis in \<open>simp_all add: rejected_job_def split: if_splits\<close>)
  then show "store_inv s'"
    unfolding s' using store_invD(6) [OF inv r] j r jid cur st t(2)
    by (intro store_inv_status_change [OF inv j]) (auto simp: run_ok_def simp del: map_of_eq_Some_iff)
qed

lemma resume_after_humanE:
  assumes "resume_after_human jid run now fresh s = Inr (x, s')"
  obtains j r t where "dict_get (s_jobs s) jid = Some j" "dict_get (s_runs s) (jid, j_current_run_id j) = Some r"
    "resumable jid run j r s" "next_state (job_facts_of j) HUMAN_RESPONSE_COMMITTED (s_policy s) = Inr t"
    "s' = enqueue (resumed_job run t now j) (rr_run_id run) now fresh (put_job (resumed_job run t now j)
       (put_run jid (new_run (rr_run_id run) (rr_revision run) (r_documents r) (r_payload_digest r)) s))"
    "reply jid s' = Inr (x, s')"
proof -
  from assms obtain j r t where
    *: "dict_get (s_jobs s) jid = Some j" "dict_get (s_runs s) (jid, j_current_run_id j) = Some r"
      "resumable jid run j r s" "next_state (job_facts_of j) HUMAN_RESPONSE_COMMITTED (s_policy s) = Inr t"
      "reply jid (enqueue (resumed_job run t now j) (rr_run_id run) now fresh (put_job (resumed_job run t now j)
         (put_run jid (new_run (rr_run_id run) (rr_revision run) (r_documents r) (r_payload_digest r)) s))) = Inr (x, s')"
    unfolding resume_after_human_def by (auto simp only: bind_result_eq_Inr some_or_simps ensure_simps)
  from replyD(1) [OF *(5)] *(5) show ?thesis by (intro that [OF *(1-4)]) simp_all
qed

lemma resume_transition:
  assumes "next_state f HUMAN_RESPONSE_COMMITTED p = Inr t"
  shows "t = (plain_transition QUEUED)\<lparr>t_enqueue_outbox := True\<rparr>" "f_status f = WAITING_FOR_HUMAN"
  using next_state_InrD(6) [OF assms] by (auto split: if_splits)

lemma new_run_sel [simp]:
  "r_run_id (new_run rid rv ds d) = rid" "r_revision (new_run rid rv ds d) = rv"
  "r_fencing_token (new_run rid rv ds d) = 0" "r_result_version (new_run rid rv ds d) = 0"
  "lease_free (new_run rid rv ds d)" "r_run_status (new_run rid rv ds d) = QUEUED"
  by (simp_all add: new_run_def lease_free_def)

lemma resume_after_human_inv [store_pres]:
  assumes "resume_after_human jid run now fresh s = Inr (x, s')" and inv: "store_inv s"
  shows "store_inv s'"
  using assms(1)
proof (rule resume_after_humanE)
  fix j :: job and r :: run and t :: transition
  let ?j = "resumed_job run t now j"
  let ?r = "new_run (rr_run_id run) (rr_revision run) (r_documents r) (r_payload_digest r)"
  assume j: "dict_get (s_jobs s) jid = Some j" and res: "resumable jid run j r s"
    and n: "next_state (job_facts_of j) HUMAN_RESPONSE_COMMITTED (s_policy s) = Inr t"
    and s': "s' = enqueue ?j (rr_run_id run) now fresh (put_job ?j (put_run jid ?r s))"
  have jid: "j_job_id j = jid" using store_invD(5) [OF inv j] by (simp add: job_backed_def)
  note t = resume_transition [OF n, simplified]
  have hon: "job_honest (s_policy s) ?j"
    using store_invD(4) [OF inv j] t
    by (intro job_honest_transition [OF store_invD(4) [OF inv j] n, of "j_open_task_ids j \<noteq> []"])
      (auto simp: job_honest_def job_facts_of_def resumed_job_def)
  show "store_inv s'"
    unfolding s'
  proof (rule store_inv_enqueue [OF inv _ _ _ _ hon])
    show "compatible s jid ?j (rr_run_id run) ?r"
      using j t res by (auto simp: compatible_def resumed_job_def resumable_def)
  qed (use jid t res in \<open>auto simp: resumed_job_def resumable_def\<close>)
qed

subsection \<open>Submission\<close>

lemma submitted_store_alt:
  "submitted_store p sub dig part_key jid rid now fresh s =
     (enqueue (submitted_job p sub jid rid now) rid now fresh
       (put_job (submitted_job p sub jid rid now)
         (put_run jid (new_run rid (sub_revision sub) (sub_documents sub) dig) s)))
       \<lparr>s_idempotency := dict_set part_key
            \<lparr>idem_principal_id = actor_id (pr_actor p), idem_key = sub_idempotency_key sub,
             idem_payload_digest = dig, idem_run_id = rid\<rparr> (s_idempotency s)\<rparr>"
  by (simp add: submitted_store_def enqueue_def Let_def)

lemma create_jobE:
  assumes "create_job h cd p sub jid rid now fresh s = Inr ((x, created), s')"
  obtains (replayed) stored owner where "\<not> created" "s' = s"
      "dict_get (s_idempotency s) (idempotency_partition h (actor_id (pr_actor p)) (sub_idempotency_key sub)) = Some stored"
      "check_idempotency cd stored p sub = Inr (idem_run_id stored)" "run_owner s (idem_run_id stored) = Inr owner"
      "reply owner s = Inr (x, s)"
    | (created) "created" "review_submission_valid sub"
      "dict_get (s_idempotency s) (idempotency_partition h (actor_id (pr_actor p)) (sub_idempotency_key sub)) = None"
      "rev_case_id (sub_revision sub) \<in> set (pr_case_ids p)" "P_REVIEW \<in> set (pr_permissions p)"
      "dict_get (s_jobs s) jid = None" "dict_get (s_runs s) (jid, rid) = None"
      "s' = submitted_store p sub (submission_digest cd sub)
         (idempotency_partition h (actor_id (pr_actor p)) (sub_idempotency_key sub)) jid rid now fresh s"
      "reply jid s' = Inr (x, s')"
proof (cases "dict_get (s_idempotency s) (idempotency_partition h (actor_id (pr_actor p)) (sub_idempotency_key sub))")
  case None
  with assms show ?thesis
    by (intro created) (auto simp: create_job_def Let_def dest: replyD(1))
next
  case (Some stored)
  with assms obtain owner where "\<not> created" "check_idempotency cd stored p sub = Inr (idem_run_id stored)"
      "run_owner s (idem_run_id stored) = Inr owner" "reply owner s = Inr (x, s')"
    by (auto simp: create_job_def Let_def check_idempotency_Inr)
  with replyD(1) [OF this(4)] Some show ?thesis by (intro replayed) auto
qed

lemma submitted_job_sel [simp]:
  "j_job_id (submitted_job p sub jid rid now) = jid" "j_current_run_id (submitted_job p sub jid rid now) = rid"
  "j_status (submitted_job p sub jid rid now) = QUEUED" "j_outbox_seq (submitted_job p sub jid rid now) = 0"
  "j_case_id (submitted_job p sub jid rid now) = rev_case_id (sub_revision sub)"
  by (simp_all add: submitted_job_def initial_transition_def)

lemma submitted_job_honest: "job_policy_valid pol \<Longrightarrow> job_honest pol (submitted_job p sub jid rid now)"
  using job_policy_validD [of pol]
  by (simp add: job_honest_def submitted_job_def initial_transition_def job_facts_of_def within_ceilings_def)

lemma no_job_no_run:
  assumes "store_inv s" and "dict_get (s_jobs s) jid = None"
  shows "dict_get (s_runs s) (jid, rid) = None"
  using store_invD(6) [OF assms(1), of jid rid] assms(2)
  by (cases "dict_get (s_runs s) (jid, rid)") (auto simp: run_ok_def)

lemma create_job_inv [store_pres]:
  assumes "create_job h cd p sub jid rid now fresh s = Inr (x, s')" and inv: "store_inv s"
  shows "store_inv s'"
proof -
  obtain y c where x: "x = (y, c)" by (cases x)
  from assms(1) [unfolded x] show ?thesis
  proof (cases rule: create_jobE)
    case (replayed stored owner)
    with inv show ?thesis by simp
  next
    case created
    have "store_inv (enqueue (submitted_job p sub jid rid now) rid now fresh
       (put_job (submitted_job p sub jid rid now)
         (put_run jid (new_run rid (sub_revision sub) (sub_documents sub) (submission_digest cd sub)) s)))"
      using created(6) no_job_no_run [OF inv created(6)] submitted_job_honest [OF store_invD(1) [OF inv]]
      by (intro store_inv_enqueue [OF inv]) (auto simp: compatible_def)
    from store_inv_idempotency [OF this, of jid "\<lparr>idem_principal_id = actor_id (pr_actor p),
        idem_key = sub_idempotency_key sub, idem_payload_digest = submission_digest cd sub, idem_run_id = rid\<rparr>"]
    show ?thesis
      by (simp add: created(8) submitted_store_alt enqueue_def Let_def del: map_of_eq_Some_iff)
  qed
qed

subsection \<open>Outbox\<close>

lemma pending_entry_Inr:
  "pending_entry d s = Inr e \<longleftrightarrow> dict_get (s_outbox s) (dr_job_id d, dr_outbox_seq d) = Some e
     \<and> o_dispatch_token e = dr_dispatch_token d \<and> o_dispatch_state e = Pending"
  by (auto simp: pending_entry_def)

lemma owns_round_set_entry:
  assumes e: "dict_get (s_outbox s) (dr_job_id d, dr_outbox_seq d) = Some e" and "o_run_id e' = o_run_id e"
    and round: "owns_round s k rid old" and "old \<subseteq> new"
    and "o_dispatch_state e \<in> old \<longrightarrow> o_dispatch_state e' \<in> new"
  shows "owns_round (set_entry d e' s) k rid new"
proof -
  from round obtain q x where x: "dict_get (s_outbox s) (k, q) = Some x" "o_run_id x = rid" "o_dispatch_state x \<in> old"
    by (auto simp: owns_round_def)
  let ?x = "if (k, q) = (dr_job_id d, dr_outbox_seq d) then e' else x"
  have "dict_get (s_outbox (set_entry d e' s)) (k, q) = Some ?x" using x(1) by (simp add: set_entry_def)
  moreover have "o_run_id ?x = rid" "o_dispatch_state ?x \<in> new" using x e assms(2,4,5) by auto
  ultimately show ?thesis unfolding owns_round_def by blast
qed

text \<open>A round of an existing job is replaced by another round of the same run.\<close>

lemma store_inv_set_entry:
  assumes inv: "store_inv s" and e: "dict_get (s_outbox s) (dr_job_id d, dr_outbox_seq d) = Some e"
    and j: "dict_get (s_jobs s) (dr_job_id d) = Some j"
    and same: "o_job_id e' = o_job_id e" "o_run_id e' = o_run_id e" "o_outbox_seq e' = o_outbox_seq e"
      "0 \<le> o_dispatch_attempts e'"
    and state: "j_status j = QUEUED \<longrightarrow> o_dispatch_state e' = o_dispatch_state e"
      "j_status j = DISPATCHED \<longrightarrow> o_dispatch_state e' \<in> {Pending, Sent}"
  shows "store_inv (set_entry d e' s)"
proof -
  let ?s = "set_entry d e' s"
  obtain r where r: "dict_get (s_runs s) (dr_job_id d, j_current_run_id j) = Some r"
    using current_run [OF inv j] by blast
  have ok: "entry_ok s (dr_job_id d) (dr_outbox_seq d) e" by (rule store_invD(7) [OF inv e])
  have ch: "changes s (dr_job_id d) j (j_current_run_id j) r ?s"
    using inv_keys [OF inv] j r by (simp add: changes_def keys_ok_def set_entry_def)
  have co: "compatible s (dr_job_id d) j (j_current_run_id j) r"
    using j r by (simp add: compatible_def)
  have round: "owns_round s k rid sts \<Longrightarrow> o_dispatch_state e' \<in> sts \<or> o_dispatch_state e \<notin> sts
      \<Longrightarrow> owns_round ?s k rid sts" for k rid sts
    using owns_round_set_entry [OF e same(2)] by blast
  show ?thesis
  proof (rule store_inv_changes [OF inv ch co store_invD(4) [OF inv j]])
    show "job_backed ?s (dr_job_id d) j"
      using store_invD(5) [OF inv j] state round by (auto simp: job_backed_def set_entry_def)
    show "run_ok ?s (dr_job_id d) (j_current_run_id j) r"
      using store_invD(6) [OF inv r] by (simp add: run_ok_def set_entry_def)
    show "attempts_ok ?s"
      by (rule changes_attempts [OF inv ch co]) (simp add: set_entry_def)
    fix q x assume "dict_get (s_outbox ?s) (dr_job_id d, q) = Some x"
    then show "dict_get (s_outbox s) (dr_job_id d, q) = Some x \<or> entry_ok ?s (dr_job_id d) q x"
      using ok same by (auto simp: set_entry_def entry_ok_def split: if_splits)
  qed (simp_all add: set_entry_def)
qed

lemma reschedule_dispatch_inv [store_pres]:
  assumes "reschedule_dispatch d available s = Inr (b, s')" and inv: "store_inv s"
  shows "store_inv s'"
proof -
  from assms(1) obtain e j where
    e: "dict_get (s_outbox s) (dr_job_id d, dr_outbox_seq d) = Some e" "o_dispatch_state e = Pending"
    and j: "dict_get (s_jobs s) (dr_job_id d) = Some j"
    and s': "s' = set_entry d (if j_status j \<in> terminal_statuses then e\<lparr>o_dispatch_state := Abandoned\<rparr>
       else e\<lparr>o_available_at := available, o_dispatch_attempts := o_dispatch_attempts e + 1\<rparr>) s"
    by (auto simp: reschedule_dispatch_def pending_entry_Inr split: if_splits)
  show ?thesis
    unfolding s' by (rule store_inv_set_entry [OF inv e(1) j])
      (use e store_invD(7) [OF inv e(1)] in \<open>auto simp: entry_ok_def\<close>)
qed

text \<open>The writes of \<open>mark_dispatched\<close> on a job that is still queued.\<close>

lemma store_inv_dispatched:
  assumes inv: "store_inv s" and e: "dict_get (s_outbox s) (dr_job_id d, dr_outbox_seq d) = Some e"
    and pend: "o_dispatch_state e = Pending"
    and j: "dict_get (s_jobs s) (dr_job_id d) = Some j" and st: "j_status j = QUEUED"
    and r: "dict_get (s_runs s) (dr_job_id d, o_run_id e) = Some r"
    and n: "next_state (job_facts_of j) DISPATCH_SUCCEEDED (s_policy s) = Inr t"
  shows "store_inv (put_job (j\<lparr>j_status := t_status t, j_updated_at := now\<rparr>)
     (put_run (dr_job_id d) (r\<lparr>r_run_status := t_status t\<rparr>) (set_entry d (e\<lparr>o_dispatch_state := Sent\<rparr>) s)))"
    (is "store_inv ?s")
proof -
  let ?j = "j\<lparr>j_status := t_status t, j_updated_at := now\<rparr>" and ?r = "r\<lparr>r_run_status := t_status t\<rparr>"
  have t: "t = plain_transition DISPATCHED"
    using next_state_InrD(6) [OF n] by (auto split: if_splits)
  have jid: "j_job_id j = dr_job_id d" using store_invD(5) [OF inv j] by (simp add: job_backed_def)
  have rok: "run_ok s (dr_job_id d) (o_run_id e) r" by (rule store_invD(6) [OF inv r])
  then have rid: "r_run_id r = o_run_id e" by (simp add: run_ok_def)
  have hon: "job_honest (s_policy s) ?j"
    using store_invD(4) [OF inv j] st t
    by (intro job_honest_transition [OF store_invD(4) [OF inv j] n, of "j_open_task_ids j \<noteq> []"])
      (auto simp: job_honest_def job_facts_of_def)
  have ch: "changes s (dr_job_id d) ?j (o_run_id e) ?r ?s"
    using inv_keys [OF inv] jid rid by (simp add: changes_def keys_ok_def set_entry_def)
  have co: "compatible s (dr_job_id d) ?j (o_run_id e) ?r"
    using j r st t by (simp add: compatible_def)
  have "owns_round s (dr_job_id d) (j_current_run_id j) {Pending}"
    using store_invD(5) [OF inv j] st by (simp add: job_backed_def)
  then have "owns_round (set_entry d (e\<lparr>o_dispatch_state := Sent\<rparr>) s) (dr_job_id d) (j_current_run_id j) {Pending, Sent}"
    by (rule owns_round_set_entry [OF e, rotated]) simp_all
  then have round: "owns_round ?s (dr_job_id d) (j_current_run_id j) {Pending, Sent}"
    by (simp add: owns_round_def)
  show ?thesis
  proof (rule store_inv_changes [OF inv ch co hon])
    show "job_backed ?s (dr_job_id d) ?j"
      using store_invD(5) [OF inv j] round t rid by (auto simp: job_backed_def set_entry_def)
    show "run_ok ?s (dr_job_id d) (o_run_id e) ?r"
      using rok j st t jid by (auto simp: run_ok_def set_entry_def simp del: map_of_eq_Some_iff)
    show "attempts_ok ?s"
      by (rule changes_attempts [OF inv ch co]) (simp add: set_entry_def)
    fix q x assume "dict_get (s_outbox ?s) (dr_job_id d, q) = Some x"
    then show "dict_get (s_outbox s) (dr_job_id d, q) = Some x \<or> entry_ok ?s (dr_job_id d) q x"
      using store_invD(7) [OF inv e] j rid jid
      by (auto simp: set_entry_def entry_ok_def split: if_splits)
  qed (simp_all add: set_entry_def)
qed

lemma mark_dispatched_inv [store_pres]:
  assumes "mark_dispatched d now s = Inr (x, s')" and inv: "store_inv s"
  shows "store_inv s'"
proof -
  from assms(1) obtain e j s1 where
    e: "dict_get (s_outbox s) (dr_job_id d, dr_outbox_seq d) = Some e" "o_dispatch_state e = Pending"
    and j: "dict_get (s_jobs s) (dr_job_id d) = Some j"
    and s1: "(if j_status j = QUEUED
        then bind_result (next_state (job_facts_of j) DISPATCH_SUCCEEDED (s_policy s)) (\<lambda>t.
             bind_result (some_or Key_Error (dict_get (s_runs s) (j_job_id j, o_run_id e))) (\<lambda>r.
             Inr (put_job (j\<lparr>j_status := t_status t, j_updated_at := now\<rparr>)
               (put_run (j_job_id j) (r\<lparr>r_run_status := t_status t\<rparr>)
                 (set_entry d (e\<lparr>o_dispatch_state := Sent\<rparr>) s)))))
        else Inr (put_job (j\<lparr>j_updated_at := now\<rparr>) (set_entry d (e\<lparr>o_dispatch_state := Sent\<rparr>) s))) = Inr s1"
    and rep: "reply (dr_job_id d) s1 = Inr (x, s')"
    unfolding mark_dispatched_def
    by (auto simp only: bind_result_eq_Inr some_or_simps ensure_simps pending_entry_Inr)
  have jid: "j_job_id j = dr_job_id d" using store_invD(5) [OF inv j] by (simp add: job_backed_def)
  have "store_inv s1"
  proof (cases "j_status j = QUEUED")
    case True
    with s1 obtain t r where "next_state (job_facts_of j) DISPATCH_SUCCEEDED (s_policy s) = Inr t"
      "dict_get (s_runs s) (dr_job_id d, o_run_id e) = Some r"
      "s1 = put_job (j\<lparr>j_status := t_status t, j_updated_at := now\<rparr>)
         (put_run (dr_job_id d) (r\<lparr>r_run_status := t_status t\<rparr>) (set_entry d (e\<lparr>o_dispatch_state := Sent\<rparr>) s))"
      by (auto simp: jid)
    with store_inv_dispatched [OF inv e j True] show ?thesis by blast
  next
    case False
    let ?s = "set_entry d (e\<lparr>o_dispatch_state := Sent\<rparr>) s"
    have "store_inv ?s"
      by (rule store_inv_set_entry [OF inv e(1) j])
        (use e False store_invD(7) [OF inv e(1)] in \<open>auto simp: entry_ok_def\<close>)
    moreover have "dict_get (s_jobs ?s) (dr_job_id d) = Some j" "s_policy ?s = s_policy s"
      using j by (simp_all add: set_entry_def)
    ultimately have "store_inv (put_job (j\<lparr>j_updated_at := now\<rparr>) ?s)"
      using jid store_invD(4) [OF inv j]
      by (intro store_inv_put_job) (auto simp: job_honest_def job_facts_of_def)
    with False s1 show ?thesis by simp
  qed
  with replyD(1) [OF rep] show ?thesis by simp
qed

end
