(* ===== verification/Job_Runs.thy ===== *)
theory Job_Runs
  imports Job_Store_Inv
begin

text \<open>
  Runs of the job store: any interleaving of callers, dispatchers, workers and reconcilers is a
  sequence of the store's atomic operations.  The step relation has one rule per operation; what
  never goes backwards along a run (identities, counters, fencing tokens, results, rounds) is one
  reflexive and transitive relation that every operation is shown to respect.
\<close>

section \<open>Steps\<close>

inductive store_step :: "job_store \<Rightarrow> job_store \<Rightarrow> bool" where
  create: "create_job h cd p sub jid rid now fresh s = Inr (x, t) \<Longrightarrow> store_step s t"
| claim: "claim jid rid owner lease now fresh s = Inr (a, t) \<Longrightarrow> store_step s t"
| heartbeat: "heartbeat a lease now s = Inr (b, t) \<Longrightarrow> store_step s t"
| finish: "finish a e now problem tasks ref s = Inr (x, t) \<Longrightarrow> store_step s t"
| expire: "expire_lease l now fresh s = Inr (x, t) \<Longrightarrow> store_step s t"
| cancel: "cancel jid now s = Inr (x, t) \<Longrightarrow> store_step s t"
| retry: "schedule_retry jid available now fresh s = Inr (x, t) \<Longrightarrow> store_step s t"
| reject: "reject_human_task jid rid task now s = Inr (x, t) \<Longrightarrow> store_step s t"
| resume: "resume_after_human jid run now fresh s = Inr (x, t) \<Longrightarrow> store_step s t"
| dispatched: "mark_dispatched d now s = Inr (x, t) \<Longrightarrow> store_step s t"
| rescheduled: "reschedule_dispatch d available s = Inr (b, t) \<Longrightarrow> store_step s t"

lemma store_step_inv: "store_step s t \<Longrightarrow> store_inv s \<Longrightarrow> store_inv t"
  by (cases rule: store_step.cases) (auto intro: store_pres)

interpretation job_system: transition_system store_step store_inv
  by unfold_locales (rule store_step_inv)

section \<open>What never goes backwards\<close>

definition status_path :: "job_status \<Rightarrow> job_status \<Rightarrow> bool" where
  "status_path = (\<lambda>a b. \<exists>e. status_step a e b)\<^sup>*\<^sup>*"

definition job_frozen :: "job \<Rightarrow> job \<Rightarrow> bool" where
  "job_frozen j j' = (j' = j\<lparr>j_updated_at := j_updated_at j'\<rparr>)"

definition job_evolves :: "job \<Rightarrow> job \<Rightarrow> bool" where
  "job_evolves j j' =
     (j_job_id j' = j_job_id j \<and> j_case_id j' = j_case_id j \<and> j_principal_id j' = j_principal_id j
      \<and> j_attempt_count j \<le> j_attempt_count j' \<and> j_lease_takeover_count j \<le> j_lease_takeover_count j'
      \<and> j_outbox_seq j \<le> j_outbox_seq j' \<and> (j_cancel_requested j \<longrightarrow> j_cancel_requested j')
      \<and> status_path (j_status j) (j_status j')
      \<and> (j_status j \<in> terminal_statuses \<longrightarrow> job_frozen j j'))"

definition run_evolves :: "run \<Rightarrow> run \<Rightarrow> bool" where
  "run_evolves r r' =
     (r_run_id r' = r_run_id r \<and> r_revision r' = r_revision r \<and> r_documents r' = r_documents r
      \<and> r_payload_digest r' = r_payload_digest r \<and> r_result_version r \<le> r_result_version r'
      \<and> r_fencing_token r \<le> r_fencing_token r'
      \<and> (r_fencing_token r' = r_fencing_token r \<longrightarrow> lease_free r'
           \<or> \<not> lease_free r \<and> r_lease_owner r' = r_lease_owner r \<and> r_attempt_id r' = r_attempt_id r))"

definition entry_evolves :: "outbox_entry \<Rightarrow> outbox_entry \<Rightarrow> bool" where
  "entry_evolves e e' =
     (o_job_id e' = o_job_id e \<and> o_run_id e' = o_run_id e \<and> o_outbox_seq e' = o_outbox_seq e
      \<and> o_dispatch_token e' = o_dispatch_token e \<and> o_dispatch_attempts e \<le> o_dispatch_attempts e'
      \<and> (o_dispatch_state e = Pending \<or> o_dispatch_state e' = o_dispatch_state e))"

definition evolves :: "job_store \<Rightarrow> job_store \<Rightarrow> bool" where
  "evolves s t =
     (s_policy t = s_policy s
      \<and> (\<forall>k j. dict_get (s_jobs s) k = Some j \<longrightarrow> (\<exists>j'. dict_get (s_jobs t) k = Some j' \<and> job_evolves j j'))
      \<and> (\<forall>k r. dict_get (s_runs s) k = Some r \<longrightarrow> (\<exists>r'. dict_get (s_runs t) k = Some r' \<and> run_evolves r r'))
      \<and> (\<forall>k rid j r. dict_get (s_jobs s) k = Some j \<longrightarrow> j_status j \<in> terminal_statuses \<longrightarrow>
           dict_get (s_runs s) (k, rid) = Some r \<longrightarrow>
           map_option r_result_version (dict_get (s_runs t) (k, rid)) = Some (r_result_version r))
      \<and> (\<forall>k e. dict_get (s_outbox s) k = Some e \<longrightarrow> (\<exists>e'. dict_get (s_outbox t) k = Some e' \<and> entry_evolves e e'))
      \<and> (\<forall>k x. dict_get (s_results s) k = Some x \<longrightarrow> dict_get (s_results t) k = Some x)
      \<and> (\<forall>k x. dict_get (s_idempotency s) k = Some x \<longrightarrow> dict_get (s_idempotency t) k = Some x))"

lemma evolvesD:
  assumes "evolves s t"
  shows "s_policy t = s_policy s"
    "dict_get (s_jobs s) jid = Some j \<Longrightarrow> \<exists>j'. dict_get (s_jobs t) jid = Some j' \<and> job_evolves j j'"
    "dict_get (s_runs s) k = Some r \<Longrightarrow> \<exists>r'. dict_get (s_runs t) k = Some r' \<and> run_evolves r r'"
    "dict_get (s_outbox s) l = Some e \<Longrightarrow> \<exists>e'. dict_get (s_outbox t) l = Some e' \<and> entry_evolves e e'"
    "dict_get (s_results s) m = Some x \<Longrightarrow> dict_get (s_results t) m = Some x"
    "dict_get (s_idempotency s) i = Some y \<Longrightarrow> dict_get (s_idempotency t) i = Some y"
    "dict_get (s_jobs s) jid = Some j \<Longrightarrow> j_status j \<in> terminal_statuses \<Longrightarrow> dict_get (s_runs s) (jid, rid) = Some r \<Longrightarrow>
      map_option r_result_version (dict_get (s_runs t) (jid, rid)) = Some (r_result_version r)"
  using assms unfolding evolves_def by blast+

lemma status_path_refl [simp, intro]: "status_path st st"
  by (simp add: status_path_def)

lemma status_path_step: "status_step st e st' \<Longrightarrow> status_path st st'"
  by (auto simp: status_path_def)

lemma status_path_trans: "status_path a b \<Longrightarrow> status_path b c \<Longrightarrow> status_path a c"
  by (simp add: status_path_def)

lemma status_path_terminal: "status_path st st' \<Longrightarrow> st \<in> terminal_statuses \<Longrightarrow> st' = st"
  unfolding status_path_def
  by (induction rule: rtranclp_induct) (auto simp: status_step_from_terminal)

lemma job_frozen_refl [simp, intro]: "job_frozen j j" "job_frozen j (j\<lparr>j_updated_at := now\<rparr>)"
  by (simp_all add: job_frozen_def)

lemma job_frozen_trans: "job_frozen a b \<Longrightarrow> job_frozen b c \<Longrightarrow> job_frozen a c"
  unfolding job_frozen_def by (cases a, cases b, cases c) simp

lemma job_frozenD:
  assumes "job_frozen j j'"
  shows "j_status j' = j_status j" "j_current_run_id j' = j_current_run_id j"
    "j_problem j' = j_problem j" "j_cancel_requested j' = j_cancel_requested j"
  using assms unfolding job_frozen_def by (cases j, cases j', simp)+

lemma evolves_parts_refl [simp, intro]: "job_evolves j j" "run_evolves r r" "entry_evolves e e"
  by (simp_all add: job_evolves_def run_evolves_def entry_evolves_def)

lemma job_evolves_trans: "job_evolves a b \<Longrightarrow> job_evolves b c \<Longrightarrow> job_evolves a c"
  using status_path_trans [of "j_status a" "j_status b" "j_status c"] job_frozen_trans [of a b c] job_frozenD(1) [of a b]
  by (simp add: job_evolves_def)

lemma run_evolves_trans: "run_evolves a b \<Longrightarrow> run_evolves b c \<Longrightarrow> run_evolves a c"
  by (auto simp: run_evolves_def)

lemma entry_evolves_trans: "entry_evolves a b \<Longrightarrow> entry_evolves b c \<Longrightarrow> entry_evolves a c"
  by (auto simp: entry_evolves_def)

lemma evolves_refl [simp, intro]: "evolves s s"
  by (auto simp: evolves_def)

lemma evolves_trans [trans]:
  assumes st: "evolves s t" and tu: "evolves t u"
  shows "evolves s u"
  unfolding evolves_def
proof (intro conjI allI impI)
  show "s_policy u = s_policy s" using evolvesD(1) [OF st] evolvesD(1) [OF tu] by simp
next
  fix k j assume "dict_get (s_jobs s) k = Some j"
  with evolvesD(2) [OF st] evolvesD(2) [OF tu] show "\<exists>j'. dict_get (s_jobs u) k = Some j' \<and> job_evolves j j'"
    by (metis job_evolves_trans)
next
  fix k r assume "dict_get (s_runs s) k = Some r"
  with evolvesD(3) [OF st] evolvesD(3) [OF tu] show "\<exists>r'. dict_get (s_runs u) k = Some r' \<and> run_evolves r r'"
    by (metis run_evolves_trans)
next
  fix k rid j r
  assume j: "dict_get (s_jobs s) k = Some j" "j_status j \<in> terminal_statuses" and r: "dict_get (s_runs s) (k, rid) = Some r"
  from evolvesD(7) [OF st j r] obtain r1 where r1: "dict_get (s_runs t) (k, rid) = Some r1"
    "r_result_version r1 = r_result_version r" by auto
  from evolvesD(2) [OF st j(1)] j(2) obtain j1 where "dict_get (s_jobs t) k = Some j1" "j_status j1 \<in> terminal_statuses"
    by (auto simp: job_evolves_def dest: job_frozenD)
  from evolvesD(7) [OF tu this r1(1)] r1(2)
  show "map_option r_result_version (dict_get (s_runs u) (k, rid)) = Some (r_result_version r)" by simp
next
  fix k e assume "dict_get (s_outbox s) k = Some e"
  with evolvesD(4) [OF st] evolvesD(4) [OF tu] show "\<exists>e'. dict_get (s_outbox u) k = Some e' \<and> entry_evolves e e'"
    by (metis entry_evolves_trans)
next
  fix k x assume "dict_get (s_results s) k = Some x"
  then show "dict_get (s_results u) k = Some x" by (intro evolvesD(5) [OF tu] evolvesD(5) [OF st])
next
  fix k x assume "dict_get (s_idempotency s) k = Some x"
  then show "dict_get (s_idempotency u) k = Some x" by (intro evolvesD(6) [OF tu] evolvesD(6) [OF st])
qed

section \<open>The writes respect it\<close>

lemma evolves_put_job:
  "(\<And>j. dict_get (s_jobs s) (j_job_id j') = Some j \<Longrightarrow> job_evolves j j') \<Longrightarrow> evolves s (put_job j' s)"
  by (auto simp: evolves_def)

lemma evolves_put_run:
  assumes "\<And>r. dict_get (s_runs s) (jid, r_run_id r') = Some r \<Longrightarrow> run_evolves r r'"
    and "\<And>r j. dict_get (s_runs s) (jid, r_run_id r') = Some r \<Longrightarrow> dict_get (s_jobs s) jid = Some j \<Longrightarrow>
      j_status j \<in> terminal_statuses \<Longrightarrow> r_result_version r' = r_result_version r"
  shows "evolves s (put_run jid r' s)"
  using assms by (auto simp: evolves_def)

lemma evolves_set_entry:
  "(\<And>e. dict_get (s_outbox s) (dr_job_id d, dr_outbox_seq d) = Some e \<Longrightarrow> entry_evolves e e')
     \<Longrightarrow> evolves s (set_entry d e' s)"
  by (auto simp: evolves_def set_entry_def)

lemma evolves_attempts [simp, intro]: "evolves s (s\<lparr>s_attempts := as\<rparr>)"
  by (auto simp: evolves_def)

lemma evolves_attempts_iff [simp]: "evolves s (t\<lparr>s_attempts := as\<rparr>) = evolves s t"
  by (simp add: evolves_def)

lemma evolves_idempotency: "dict_get (s_idempotency s) k = None \<Longrightarrow>
    evolves s (s\<lparr>s_idempotency := dict_set k x (s_idempotency s)\<rparr>)"
  by (auto simp: evolves_def)

lemma evolves_update:
  assumes "\<And>j. dict_get (s_jobs s) (j_job_id j') = Some j \<Longrightarrow> job_evolves j j'"
    and "\<And>r. dict_get (s_runs s) (jid, r_run_id r') = Some r \<Longrightarrow> run_evolves r r'"
    and "\<And>r j. dict_get (s_runs s) (jid, r_run_id r') = Some r \<Longrightarrow> dict_get (s_jobs s) jid = Some j \<Longrightarrow>
      j_status j \<in> terminal_statuses \<Longrightarrow> r_result_version r' = r_result_version r"
  shows "evolves s (put_job j' (put_run jid r' s))"
  using assms by (intro evolves_trans [OF evolves_put_run evolves_put_job]) auto

lemma next_round_fresh:
  assumes "store_inv s" and "\<And>j. dict_get (s_jobs s) jid = Some j \<Longrightarrow> j_outbox_seq j \<le> n"
  shows "dict_get (s_outbox s) (jid, n + 1) = None"
proof (cases "dict_get (s_outbox s) (jid, n + 1)")
  case (Some e)
  from store_invD(7) [OF assms(1) this] assms(2) show ?thesis by (fastforce simp: entry_ok_def)
qed

lemma evolves_enqueue:
  assumes inv: "store_inv s" and q: "j_status j' = QUEUED"
    and j: "\<And>j. dict_get (s_jobs s) (j_job_id j') = Some j \<Longrightarrow> job_evolves j j'"
    and r: "\<And>r. dict_get (s_runs s) (j_job_id j', r_run_id r') = Some r \<Longrightarrow> run_evolves r r'"
    and v: "\<And>r. dict_get (s_runs s) (j_job_id j', r_run_id r') = Some r \<Longrightarrow> r_result_version r' = r_result_version r"
  shows "evolves s (enqueue j' rid available fresh (put_job j' (put_run (j_job_id j') r' s)))"
proof -
  have fresh: "dict_get (s_outbox s) (j_job_id j', j_outbox_seq j' + 1) = None"
    using j by (intro next_round_fresh [OF inv]) (auto simp: job_evolves_def)
  have "evolves s (put_job j' (put_run (j_job_id j') r' s))" using j r v by (rule evolves_update)
  also have "evolves \<dots> (enqueue j' rid available fresh \<dots>)"
    using fresh q by (auto simp: evolves_def enqueue_def Let_def job_evolves_def)
  finally show ?thesis .
qed

section \<open>The operations respect it\<close>

lemma job_evolves_next_state:
  assumes "next_state f e p = Inr t" and "f_status f = j_status j"
    and "j_job_id j' = j_job_id j" "j_case_id j' = j_case_id j" "j_principal_id j' = j_principal_id j"
      "j_attempt_count j' = j_attempt_count j + t_attempt_delta t"
      "j_lease_takeover_count j' = j_lease_takeover_count j + t_takeover_delta t"
      "j_outbox_seq j \<le> j_outbox_seq j'" "j_cancel_requested j \<longrightarrow> j_cancel_requested j'"
      "j_status j' = t_status t"
  shows "job_evolves j j'"
  using assms apply_transition_counts(1,2) [OF assms(1)] next_state_InrD(3) [OF assms(1)]
    status_path_step [OF next_state_refines_status_step [OF assms(1)]]
  by (simp add: job_evolves_def apply_transition_def)

named_theorems store_evolves "operations that respect the evolution order"

lemma heartbeat_evolves [store_evolves]:
  assumes "heartbeat a lease now s = Inr (h, s')" and inv: "store_inv s"
  shows "evolves s s'"
proof -
  from assms(1) obtain j r where au: "authority a s = Inr (j, r)"
    and s': "s' = put_job (j\<lparr>j_updated_at := now\<rparr>)
      (put_run (ca_job_id a) (r\<lparr>r_lease_expires_at := Some (now + lease)\<rparr>) s)"
    by (auto simp: heartbeat_def Let_def split: if_splits)
  note d = authorityD [OF au] authority_current [OF inv au]
  from d show ?thesis
    unfolding s' by (intro evolves_update) (auto simp: job_evolves_def run_evolves_def lease_free_def lease_held_def)
qed

lemma claim_evolves [store_evolves]:
  assumes "claim jid rid owner lease now fresh s = Inr (a, s')" and inv: "store_inv s"
  shows "evolves s s'"
  using assms(1)
proof (rule claimE)
  fix j :: job and r :: run
  let ?j = "j\<lparr>j_status := RUNNING, j_updated_at := now\<rparr>"
  let ?r = "r\<lparr>r_fencing_token := r_fencing_token r + 1, r_lease_owner := Some owner,
    r_lease_expires_at := Some (now + lease), r_attempt_id := Some fresh, r_run_status := RUNNING\<rparr>"
  assume j: "dict_get (s_jobs s) jid = Some j" and r: "dict_get (s_runs s) (jid, rid) = Some r"
    and n: "next_state (job_facts_of j) CLAIM (s_policy s) = Inr (plain_transition RUNNING)"
    and s': "s' = (put_job ?j (put_run jid ?r s))
       \<lparr>s_attempts := s_attempts s @ [\<lparr>a_job_id = jid, a_run_id = rid, a_attempt_id = fresh,
          a_fencing_token = r_fencing_token r + 1, a_owner = owner, a_claimed_at = now,
          a_outcome = Attempt_Running\<rparr>]\<rparr>"
  have "j_job_id j = jid" "r_run_id r = rid"
    using store_invD(5) [OF inv j] store_invD(6) [OF inv r] by (auto simp: job_backed_def run_ok_def)
  then have "evolves s (put_job ?j (put_run jid ?r s))"
    using j r by (intro evolves_update) (auto simp: run_evolves_def intro: job_evolves_next_state [OF n])
  then show "evolves s s'" by (simp add: s')
qed

lemma run_evolves_release:
  assumes "r_run_id r1 = r_run_id r" "r_revision r1 = r_revision r" "r_documents r1 = r_documents r"
    "r_payload_digest r1 = r_payload_digest r" "r_result_version r \<le> r_result_version r1"
    "r_fencing_token r1 = r_fencing_token r"
    "lease_free r1 \<or> \<not> lease_free r \<and> r_lease_owner r1 = r_lease_owner r \<and> r_attempt_id r1 = r_attempt_id r"
  shows "run_evolves r (release_lease b (r1\<lparr>r_run_status := st\<rparr>))"
  using assms by (auto simp: run_evolves_def release_lease_def lease_free_def)

lemma finished_job_counts [simp]:
  "j_attempt_count (finished_job t pr ts now j) = j_attempt_count j + t_attempt_delta t"
  "j_lease_takeover_count (finished_job t pr ts now j) = j_lease_takeover_count j"
  "j_cancel_requested (finished_job t pr ts now j) = j_cancel_requested j"
  by (simp_all add: finished_job_def)

lemma commit_for_event_run:
  assumes "commit_for_event e r a ref s = Inr (r1, s1)"
  shows "r_documents r1 = r_documents r" "r_payload_digest r1 = r_payload_digest r"
    "r_result_version r \<le> r_result_version r1" "lease_free r1 = lease_free r"
    "r_lease_owner r1 = r_lease_owner r" "r_attempt_id r1 = r_attempt_id r"
  using assms commit_resultD [of r a ref s r1 s1]
  by (auto simp: commit_for_event_Inr split: if_splits)

lemma finish_evolves [store_evolves]:
  assumes "finish a e now problem tasks ref s = Inr (x, s')" and inv: "store_inv s"
  shows "evolves s s'"
  using assms(1)
proof (rule finishE)
  fix j :: job and r :: run and t :: transition and r1 :: run and s1 :: job_store
  let ?j = "finished_job t problem tasks now j"
  let ?r = "release_lease (t_release_lease t) (r1\<lparr>r_run_status := t_status t\<rparr>)"
  assume au: "authority a s = Inr (j, r)" and e: "e \<in> finish_events"
    and n: "next_state ((job_facts_of j)\<lparr>f_has_open_tasks := (tasks \<noteq> [])\<rparr>) e (s_policy s) = Inr t"
    and c: "commit_for_event e r a ref s = Inr (r1, s1)" and s': "s' = finished_store a e t ?j r1 s1"
  note d = authorityD [OF au] authority_current [OF inv au]
  note s1 = commit_for_event_inv [OF c inv au] commit_for_event_run [OF c]
  have "evolves s s1" using s1 by (auto simp: evolves_def)
  have je: "job_evolves j ?j"
    using finish_status(2) [OF n e] by (intro job_evolves_next_state [OF n]) simp_all
  have re: "run_evolves r ?r" using s1 by (intro run_evolves_release) auto
  note \<open>evolves s s1\<close>
  also have "evolves s1 (put_job ?j (put_run (ca_job_id a) ?r s1))"
    using d s1 je re by (intro evolves_update) simp_all
  finally show "evolves s s'" by (simp add: s' finished_store_def Let_def)
qed

lemma expire_lease_evolves [store_evolves]:
  assumes "expire_lease x now fresh s = Inr (y, s')" and inv: "store_inv s"
  shows "evolves s s'"
  using assms(1)
proof (rule expire_leaseE)
  fix j :: job and r :: run and t :: transition
  let ?j = "expired_job t now j"
  let ?r = "release_lease (t_release_lease t) (r\<lparr>r_run_status := t_status t\<rparr>)"
  assume j: "dict_get (s_jobs s) (xl_job_id x) = Some j"
    and r: "dict_get (s_runs s) (xl_job_id x, xl_run_id x) = Some r"
    and n: "next_state (job_facts_of j) LEASE_EXPIRED (s_policy s) = Inr t"
    and s': "s' = expired_store x now fresh t ?j r s"
  have ids: "j_job_id j = xl_job_id x" "r_run_id r = xl_run_id x"
    using store_invD(5) [OF inv j] store_invD(6) [OF inv r] by (auto simp: job_backed_def run_ok_def)
  have je: "job_evolves j ?j"
    using expire_transition [OF n] by (intro job_evolves_next_state [OF n]) auto
  have re: "run_evolves r ?r" by (rule run_evolves_release) simp_all
  have "evolves s (enqueue ?j (xl_run_id x) now fresh (put_job ?j (put_run (xl_job_id x) ?r s)))"
    if "t_enqueue_outbox t"
    using evolves_enqueue [OF inv, of ?j ?r "xl_run_id x" now fresh] that expire_transition(3) [OF n] je re j r ids
    by (simp add: expired_job_sel)
  moreover have "evolves s (put_job ?j (put_run (xl_job_id x) ?r s))"
    using je re j r ids by (intro evolves_update) simp_all
  ultimately show "evolves s s'" by (simp add: s' expired_store_def Let_def)
qed

lemma cancel_evolves [store_evolves]:
  assumes "cancel jid now s = Inr (x, s')" and inv: "store_inv s"
  shows "evolves s s'"
  using assms(1)
proof (rule cancelE)
  fix j :: job and r :: run and t :: transition
  assume j: "dict_get (s_jobs s) jid = Some j" and r: "dict_get (s_runs s) (jid, j_current_run_id j) = Some r"
    and n: "next_state (job_facts_of j) CANCEL (s_policy s) = Inr t" and s': "s' = cancelled_store jid now t j r s"
  have ids: "j_job_id j = jid" "r_run_id r = j_current_run_id j"
    using store_invD(5) [OF inv j] store_invD(6) [OF inv r] by (auto simp: job_backed_def run_ok_def)
  note t = cancel_transition [OF n]
  have "evolves s (put_job (j\<lparr>j_cancel_requested := True, j_updated_at := now\<rparr>) s)"
    using j ids next_state_InrD(3) [OF n] by (intro evolves_put_job) (auto simp: job_evolves_def)
  moreover have "evolves s (put_job (j\<lparr>j_status := t_status t, j_problem := Some cancelled_problem,
      j_open_task_ids := [], j_updated_at := now\<rparr>)
      (put_run jid (release_lease (t_release_lease t) (r\<lparr>r_run_status := t_status t\<rparr>)) s))"
    using j r ids t by (intro evolves_update) (auto intro!: run_evolves_release job_evolves_next_state [OF n])
  ultimately show "evolves s s'" by (simp add: s' cancelled_store_def)
qed

lemma schedule_retry_evolves [store_evolves]:
  assumes "schedule_retry jid available now fresh s = Inr (x, s')" and inv: "store_inv s"
  shows "evolves s s'"
  using assms(1)
proof (rule schedule_retryE)
  fix j :: job and r :: run
  let ?j = "j\<lparr>j_status := QUEUED, j_problem := None, j_updated_at := now\<rparr>"
  let ?r = "r\<lparr>r_run_status := QUEUED\<rparr>"
  assume j: "dict_get (s_jobs s) jid = Some j" and r: "dict_get (s_runs s) (jid, j_current_run_id j) = Some r"
    and n: "next_state (job_facts_of j) SCHEDULE_RETRY (s_policy s) = Inr ((plain_transition QUEUED)\<lparr>t_enqueue_outbox := True\<rparr>)"
    and s': "s' = enqueue ?j (j_current_run_id j) available fresh (put_job ?j (put_run jid ?r s))"
  have ids: "j_job_id j = jid" "r_run_id r = j_current_run_id j"
    using store_invD(5) [OF inv j] store_invD(6) [OF inv r] by (auto simp: job_backed_def run_ok_def)
  have je: "job_evolves j ?j" by (intro job_evolves_next_state [OF n]) simp_all
  have re: "run_evolves r ?r" by (simp add: run_evolves_def)
  show "evolves s s'"
    using evolves_enqueue [OF inv, of ?j ?r "j_current_run_id j" available fresh] je re j r ids
    by (simp add: s')
qed

lemma reject_human_task_evolves [store_evolves]:
  assumes "reject_human_task jid rid task now s = Inr (x, s')" and inv: "store_inv s"
  shows "evolves s s'"
  using assms(1)
proof (rule reject_human_taskE)
  fix j :: job and r :: run and t :: transition
  assume j: "dict_get (s_jobs s) jid = Some j" and r: "dict_get (s_runs s) (jid, rid) = Some r"
    and n: "next_state ((job_facts_of j)\<lparr>f_has_open_tasks := (filter (\<lambda>x. x \<noteq> task) (j_open_task_ids j) \<noteq> [])\<rparr>)
       HUMAN_REJECTED (s_policy s) = Inr t"
    and s': "s' = put_job (rejected_job task t now j) (put_run jid (r\<lparr>r_run_status := t_status t\<rparr>) s)"
  have ids: "j_job_id j = jid" "r_run_id r = rid"
    using store_invD(5) [OF inv j] store_invD(6) [OF inv r] by (auto simp: job_backed_def run_ok_def)
  have "t_attempt_delta t = 0" "t_takeover_delta t = 0" by (subst reject_transition [OF n], simp)+
  then have je: "job_evolves j (rejected_job task t now j)"
    by (intro job_evolves_next_state [OF n]) (simp_all add: rejected_job_def)
  have re: "run_evolves r (r\<lparr>r_run_status := t_status t\<rparr>)" by (simp add: run_evolves_def)
  show "evolves s s'" unfolding s' using je re j r ids by (intro evolves_update) simp_all
qed

lemma resume_after_human_evolves [store_evolves]:
  assumes "resume_after_human jid run now fresh s = Inr (x, s')" and inv: "store_inv s"
  shows "evolves s s'"
  using assms(1)
proof (rule resume_after_humanE)
  fix j :: job and r :: run and t :: transition
  let ?j = "resumed_job run t now j"
  let ?r = "new_run (rr_run_id run) (rr_revision run) (r_documents r) (r_payload_digest r)"
  assume j: "dict_get (s_jobs s) jid = Some j" and res: "resumable jid run j r s"
    and n: "next_state (job_facts_of j) HUMAN_RESPONSE_COMMITTED (s_policy s) = Inr t"
    and s': "s' = enqueue ?j (rr_run_id run) now fresh (put_job ?j (put_run jid ?r s))"
  have ids: "j_job_id j = jid" using store_invD(5) [OF inv j] by (simp add: job_backed_def)
  have je: "job_evolves j ?j"
    using resume_transition [OF n] by (intro job_evolves_next_state [OF n]) (simp_all add: resumed_job_def)
  then have "j_job_id ?j = jid" using ids by (simp add: job_evolves_def)
  with evolves_enqueue [OF inv, of ?j ?r "rr_run_id run" now fresh] je j res resume_transition(1) [OF n] show "evolves s s'"
    by (simp add: s' resumable_def resumed_job_def)
qed

lemma create_job_evolves [store_evolves]:
  assumes "create_job h cd p sub jid rid now fresh s = Inr (x, s')" and inv: "store_inv s"
  shows "evolves s s'"
proof -
  obtain y c where x: "x = (y, c)" by (cases x)
  from assms(1) [unfolded x] show ?thesis
  proof (cases rule: create_jobE)
    case (replayed stored owner)
    then show ?thesis by simp
  next
    case created
    let ?r = "new_run rid (sub_revision sub) (sub_documents sub) (submission_digest cd sub)"
    let ?t = "enqueue (submitted_job p sub jid rid now) rid now fresh
       (put_job (submitted_job p sub jid rid now) (put_run jid ?r s))"
    have "evolves s ?t"
      using created(6,7) evolves_enqueue [OF inv, of "submitted_job p sub jid rid now" ?r rid now fresh] by simp
    also have "evolves ?t s'"
      using created(3) evolves_idempotency [of ?t]
      by (simp add: created(8) submitted_store_alt enqueue_def Let_def)
    finally show ?thesis .
  qed
qed

lemma reschedule_dispatch_evolves [store_evolves]:
  assumes "reschedule_dispatch d available s = Inr (b, s')"
  shows "evolves s s'"
  using assms
  by (auto simp: reschedule_dispatch_def pending_entry_Inr entry_evolves_def intro!: evolves_set_entry split: if_splits)

lemma mark_dispatched_evolves [store_evolves]:
  assumes "mark_dispatched d now s = Inr (x, s')" and inv: "store_inv s"
  shows "evolves s s'"
proof -
  from assms(1) obtain e j where
    e: "dict_get (s_outbox s) (dr_job_id d, dr_outbox_seq d) = Some e" "o_dispatch_state e = Pending"
    and j: "dict_get (s_jobs s) (dr_job_id d) = Some j"
    and cases: "s' = put_job (j\<lparr>j_updated_at := now\<rparr>) (set_entry d (e\<lparr>o_dispatch_state := Sent\<rparr>) s)
      \<or> (\<exists>t r. next_state (job_facts_of j) DISPATCH_SUCCEEDED (s_policy s) = Inr t
           \<and> dict_get (s_runs s) (j_job_id j, o_run_id e) = Some r
           \<and> s' = put_job (j\<lparr>j_status := t_status t, j_updated_at := now\<rparr>)
               (put_run (j_job_id j) (r\<lparr>r_run_status := t_status t\<rparr>) (set_entry d (e\<lparr>o_dispatch_state := Sent\<rparr>) s)))"
    unfolding mark_dispatched_def
    by (auto simp: pending_entry_Inr dest!: replyD(1) split: if_splits)
  have jid: "j_job_id j = dr_job_id d" using store_invD(5) [OF inv j] by (simp add: job_backed_def)
  let ?s = "set_entry d (e\<lparr>o_dispatch_state := Sent\<rparr>) s"
  have same: "s_jobs ?s = s_jobs s" "s_runs ?s = s_runs s" by (simp_all add: set_entry_def)
  have "evolves s ?s" using e by (intro evolves_set_entry) (simp add: entry_evolves_def)
  also have "evolves ?s s'"
    using cases
  proof
    assume "s' = put_job (j\<lparr>j_updated_at := now\<rparr>) ?s"
    then show ?thesis
      using j jid same evolves_put_job [of ?s "j\<lparr>j_updated_at := now\<rparr>"] by (simp add: job_evolves_def)
  next
    assume "\<exists>t r. next_state (job_facts_of j) DISPATCH_SUCCEEDED (s_policy s) = Inr t
           \<and> dict_get (s_runs s) (j_job_id j, o_run_id e) = Some r
           \<and> s' = put_job (j\<lparr>j_status := t_status t, j_updated_at := now\<rparr>)
               (put_run (j_job_id j) (r\<lparr>r_run_status := t_status t\<rparr>) ?s)"
    then obtain t r where n: "next_state (job_facts_of j) DISPATCH_SUCCEEDED (s_policy s) = Inr t"
      and r: "dict_get (s_runs s) (j_job_id j, o_run_id e) = Some r"
      and s': "s' = put_job (j\<lparr>j_status := t_status t, j_updated_at := now\<rparr>)
               (put_run (j_job_id j) (r\<lparr>r_run_status := t_status t\<rparr>) ?s)" by blast
    have "t = plain_transition DISPATCHED" using next_state_InrD(6) [OF n] by (auto split: if_splits)
    then have je: "job_evolves j (j\<lparr>j_status := t_status t, j_updated_at := now\<rparr>)"
      by (intro job_evolves_next_state [OF n]) simp_all
    have rid: "r_run_id r = o_run_id e" using store_invD(6) [OF inv r] by (simp add: run_ok_def)
    have re: "run_evolves r (r\<lparr>r_run_status := t_status t\<rparr>)" by (simp add: run_evolves_def)
    show ?thesis unfolding s' using je re j r jid rid same by (intro evolves_update) simp_all
  qed
  finally show ?thesis .
qed

lemma store_step_evolves: "store_step s t \<Longrightarrow> store_inv s \<Longrightarrow> evolves s t"
  by (cases rule: store_step.cases) (auto intro: store_evolves)

lemma run_evolves_store:
  assumes "store_step\<^sup>*\<^sup>* s t" and "store_inv s"
  shows "evolves s t"
  using assms by (rule job_system.run_preserves) (auto intro: evolves_trans store_step_evolves)

end
