(* ===== verification/Job_Safety.thy ===== *)
theory Job_Safety
  imports Job_Runs
begin

text \<open>
  The guarantees of the durable job store over arbitrary runs: the invariant, fencing of attempts,
  append-only results, finality of terminal statuses and of cancellation, single confirmation of a
  dispatch round, idempotent submission, recoverability of unfinished work and the absence of
  \<open>KeyError\<close>.  A small concrete run at the start supplies the witnesses.
\<close>

section \<open>A concrete run\<close>

definition demo_digest :: "review_submission \<Rightarrow> digest" where
  "demo_digest s = concat (map doc_document_id (sub_documents s))"

text \<open>Job 11 with run 12: submitted at 10, claimed by worker 15 as attempt 16 at 20.\<close>

definition demo_job :: "job_status \<Rightarrow> int \<Rightarrow> job" where
  "demo_job st now = \<lparr>j_job_id = 11, j_case_id = ''case1'', j_principal_id = ''alice'', j_status = st,
     j_current_run_id = 12, j_attempt_count = 0, j_lease_takeover_count = 0, j_cancel_requested = False,
     j_open_task_ids = [], j_problem = None, j_outbox_seq = 1, j_created_at = 10, j_updated_at = now\<rparr>"

definition demo_run :: run where
  "demo_run = new_run 12 (sub_revision demo_submission) (sub_documents demo_submission) ''ab''"

definition demo_round :: "dispatch_state \<Rightarrow> outbox_entry" where
  "demo_round st = \<lparr>o_job_id = 11, o_run_id = 12, o_outbox_seq = 1, o_dispatch_token = 13, o_available_at = 10,
     o_dispatch_attempts = 0, o_dispatch_state = st\<rparr>"

definition demo_store :: "job \<Rightarrow> run \<Rightarrow> outbox_entry \<Rightarrow> attempt list \<Rightarrow> job_store" where
  "demo_store j r e as = \<lparr>s_policy = default_policy, s_jobs = [(11, j)], s_runs = [((11, 12), r)],
     s_outbox = [((11, 1), e)], s_attempts = as,
     s_idempotency = [(''IDEM#alice#key'', \<lparr>idem_principal_id = ''alice'', idem_key = ''key'',
        idem_payload_digest = ''ab'', idem_run_id = 12\<rparr>)], s_results = []\<rparr>"

definition demo_queued :: job_store where
  "demo_queued = demo_store (demo_job QUEUED 10) demo_run (demo_round Pending) []"

definition demo_claimed_run :: run where
  "demo_claimed_run = demo_run\<lparr>r_fencing_token := 1, r_lease_owner := Some 15, r_lease_expires_at := Some 140,
     r_attempt_id := Some 16, r_run_status := RUNNING\<rparr>"

definition demo_attempt :: claimed_attempt where
  "demo_attempt = \<lparr>ca_job_id = 11, ca_run_id = 12, ca_attempt_id = 16, ca_owner = 15, ca_fencing_token = 1,
     ca_expected_result_version = 0, ca_lease_expires_at = 140\<rparr>"

definition demo_running :: job_store where
  "demo_running = demo_store (demo_job RUNNING 20) demo_claimed_run (demo_round Pending)
     [\<lparr>a_job_id = 11, a_run_id = 12, a_attempt_id = 16, a_fencing_token = 1, a_owner = 15, a_claimed_at = 20,
       a_outcome = Attempt_Running\<rparr>]"

definition demo_expired :: expired_lease where
  "demo_expired = \<lparr>xl_job_id = 11, xl_run_id = 12, xl_fencing_token = 1, xl_lease_expires_at = 140\<rparr>"

lemma demo_submission_sel [simp]:
  "sub_idempotency_key demo_submission = ''key''" "rev_case_id (sub_revision demo_submission) = ''case1''"
  "submission_digest demo_digest demo_submission = ''ab''"
  by (simp_all add: demo_submission_def submission_digest_def canonical_submission_def demo_digest_def
      demo_document_def)

lemma demo_principal_sel [simp]:
  "actor_id (pr_actor demo_principal) = ''alice''" "pr_case_ids demo_principal = [''case1'']"
  "pr_permissions demo_principal = [P_REVIEW]"
  by (simp_all add: demo_principal_def)

lemma demo_policy_valid: "job_policy_valid default_policy"
  by (simp add: job_policy_valid_def default_policy_def)

lemmas demo_simps = reply_def job_record_of_def demo_store_def demo_job_def default_policy_def
  demo_round_def demo_run_def new_run_def job_facts_of_def next_state_def

lemma demo_create:
  "create_job id demo_digest demo_principal demo_submission 11 12 10 13 (empty_store default_policy)
   = Inr ((make_record (demo_job QUEUED 10) demo_run, True), demo_queued)"
  using demo_valid
  by (simp add: create_job_def Let_def empty_store_def idempotency_partition_def principal_require_def
    submitted_store_def enqueue_def submitted_job_def initial_transition_def demo_queued_def demo_simps)

lemma demo_claim: "claim 11 12 15 120 20 16 demo_queued = Inr (demo_attempt, demo_running)"
  by (simp add: claim_def demo_queued_def demo_running_def demo_attempt_def demo_claimed_run_def demo_simps)

lemma demo_runs:
  "store_step (empty_store default_policy) demo_queued" "store_step demo_queued demo_running"
  by (rule store_step.create [OF demo_create]) (rule store_step.claim [OF demo_claim])

lemma demo_invs: "store_inv (empty_store default_policy)" "store_inv demo_queued" "store_inv demo_running"
  using empty_store_inv [OF demo_policy_valid] demo_runs store_step_inv by blast+

section \<open>The invariant\<close>

text \<open>
  C5.  Every store reachable from an empty one under a valid policy, by any interleaving of
  submissions, claims, heartbeats, completions, lease expiries, cancellations, retries, human
  responses and dispatch confirmations, satisfies the store invariant: the dictionaries agree, exactly
  the current run of a running job holds a lease, queued and dispatched jobs own a dispatch round,
  counters stay within the ceilings and every status is backed by its evidence.
\<close>

theorem reachable_store_inv:
  assumes "store_step\<^sup>*\<^sup>* (empty_store p) s" and "job_policy_valid p"
  shows "store_inv s"
  using assms(1) empty_store_inv [OF assms(2)] by (rule job_system.run_inv)

theorem reachable_store_inv_witness: "store_inv demo_running \<and> s_jobs demo_running \<noteq> []"
proof
  have "store_step\<^sup>*\<^sup>* (empty_store default_policy) demo_running"
    using demo_runs by (meson converse_rtranclp_into_rtranclp rtranclp.rtrancl_refl)
  then show "store_inv demo_running" using demo_policy_valid by (rule reachable_store_inv)
  show "s_jobs demo_running \<noteq> []" by (simp add: demo_running_def demo_store_def)
qed

section \<open>Fencing\<close>

text \<open>An attempt is spent once its run has moved past its token, or holds no lease at its token.\<close>

definition spent :: "claimed_attempt \<Rightarrow> job_store \<Rightarrow> bool" where
  "spent a s = (\<exists>r. dict_get (s_runs s) (ca_job_id a, ca_run_id a) = Some r
     \<and> ca_fencing_token a \<le> r_fencing_token r \<and> (r_fencing_token r = ca_fencing_token a \<longrightarrow> lease_free r))"

lemma spent_no_authority: "spent a s \<Longrightarrow> authority a s = Inl Condition_Failed"
  by (auto simp: spent_def authority_def lease_free_def split: option.splits)

lemma spent_persists:
  assumes "spent a s" and "evolves s t"
  shows "spent a t"
proof -
  from assms(1) obtain r where r: "dict_get (s_runs s) (ca_job_id a, ca_run_id a) = Some r"
    "ca_fencing_token a \<le> r_fencing_token r" "r_fencing_token r = ca_fencing_token a \<longrightarrow> lease_free r"
    by (auto simp: spent_def)
  from evolvesD(3) [OF assms(2) r(1)] obtain r' where
    r': "dict_get (s_runs t) (ca_job_id a, ca_run_id a) = Some r'" "run_evolves r r'" by blast
  with r show ?thesis unfolding spent_def
    by (intro exI [of _ r']) (auto simp: run_evolves_def)
qed

lemma no_authority_no_effect:
  assumes "authority a s = Inl Condition_Failed"
  shows "\<not> is_ok (heartbeat a lease now s)" "\<not> is_ok (finish a e now problem tasks ref s)"
  using assms by (auto simp: heartbeat_def finish_def ensure_def)

text \<open>The run of an attempt, as long as no later claim has bumped its token.\<close>

lemma claimed_attempt_spent:
  assumes "claim jid rid owner lease now fresh s0 = Inr (a, s1)" and "store_inv s0"
    and "store_step\<^sup>*\<^sup>* s1 s2" and "authority a s2 = Inl Condition_Failed"
  shows "spent a s2"
  using assms(1)
proof (rule claimE)
  fix j :: job and r :: run
  let ?r = "r\<lparr>r_fencing_token := r_fencing_token r + 1, r_lease_owner := Some owner,
    r_lease_expires_at := Some (now + lease), r_attempt_id := Some fresh, r_run_status := RUNNING\<rparr>"
  let ?s = "put_job (j\<lparr>j_status := RUNNING, j_updated_at := now\<rparr>) (put_run jid ?r s0)"
  assume r: "dict_get (s_runs s0) (jid, rid) = Some r"
    and a: "a = \<lparr>ca_job_id = jid, ca_run_id = rid, ca_attempt_id = fresh, ca_owner = owner,
       ca_fencing_token = r_fencing_token r + 1, ca_expected_result_version = r_result_version r,
       ca_lease_expires_at = now + lease\<rparr>"
    and s1: "s1 = ?s\<lparr>s_attempts := s_attempts s0 @ [\<lparr>a_job_id = jid, a_run_id = rid, a_attempt_id = fresh,
          a_fencing_token = r_fencing_token r + 1, a_owner = owner, a_claimed_at = now,
          a_outcome = Attempt_Running\<rparr>]\<rparr>"
  have inv1: "store_inv s1" using assms(1,2) by (rule claim_inv)
  have inv2: "store_inv s2" using assms(3) inv1 by (rule job_system.run_inv)
  have "r_run_id r = rid" using store_invD(6) [OF assms(2) r] by (simp add: run_ok_def)
  then have "dict_get (s_runs s1) (jid, rid) = Some ?r" by (simp add: s1)
  with run_evolves_store [OF assms(3) inv1] obtain r2 where
    r2: "dict_get (s_runs s2) (jid, rid) = Some r2" "run_evolves ?r r2" by (blast dest: evolvesD(3))
  have ok: "run_ok s2 jid rid r2" by (rule store_invD(6) [OF inv2 r2(1)])
  have "lease_free r2" if same: "r_fencing_token r2 = r_fencing_token r + 1"
  proof (rule ccontr)
    assume held: "\<not> lease_free r2"
    with r2(2) same have "r_lease_owner r2 = Some owner" "r_attempt_id r2 = Some fresh"
      by (auto simp: run_evolves_def)
    with ok held r2(1) same have "is_ok (authority a s2)"
      by (auto simp: run_ok_def authority_def a split: if_splits)
    with assms(4) show False by simp
  qed
  with r2 show "spent a s2" by (auto simp: spent_def a run_evolves_def)
qed

text \<open>
  C3.  Fencing: when an attempt has lost its authority - its lease was reclaimed, its job cancelled or
  finished, or another worker claimed the run - it never regains it, whatever happens afterwards, and
  neither a heartbeat nor a completion by that attempt can take effect.
\<close>

theorem stale_attempt_locked_out:
  assumes "claim jid rid owner lease now fresh s0 = Inr (a, s1)" and "store_inv s0"
    and "store_step\<^sup>*\<^sup>* s1 s2" and "authority a s2 = Inl Condition_Failed" and "store_step\<^sup>*\<^sup>* s2 s3"
  shows "authority a s3 = Inl Condition_Failed \<and> \<not> is_ok (heartbeat a lease' now' s3)
     \<and> \<not> is_ok (finish a e now' problem tasks ref s3)"
proof -
  have "spent a s2" using assms(1-4) by (rule claimed_attempt_spent)
  moreover have "store_inv s2"
    using assms(3) claim_inv [OF assms(1,2)] by (rule job_system.run_inv)
  ultimately have "spent a s3" using run_evolves_store [OF assms(5)] by (blast intro: spent_persists)
  then show ?thesis using spent_no_authority no_authority_no_effect by blast
qed

lemma demo_cancel_flow:
  "\<exists>x s. expire_lease demo_expired 140 30 demo_running = Inr (x, s)
     \<and> authority demo_attempt s = Inl Condition_Failed"
  by (simp add: expire_lease_def lease_reclaimable_def expired_store_def enqueue_def expired_job_def Let_def
    release_lease_def authority_def demo_running_def demo_attempt_def demo_expired_def demo_claimed_run_def demo_simps)

theorem stale_attempt_locked_out_witness:
  "\<exists>s. store_step demo_running s \<and> \<not> is_ok (finish demo_attempt PERMANENT_ERROR 200 None [] None s)"
proof -
  from demo_cancel_flow obtain x s where s: "expire_lease demo_expired 140 30 demo_running = Inr (x, s)"
    "authority demo_attempt s = Inl Condition_Failed" by blast
  then have step: "store_step demo_running s" by (intro store_step.expire)
  have "authority demo_attempt s = Inl Condition_Failed \<and> \<not> is_ok (heartbeat demo_attempt 1 0 s)
     \<and> \<not> is_ok (finish demo_attempt PERMANENT_ERROR 200 None [] None s)"
    using stale_attempt_locked_out [OF demo_claim demo_invs(2) r_into_rtranclp [of store_step, OF step] s(2)
      rtranclp.rtrancl_refl]
    by simp
  with step show ?thesis by blast
qed

text \<open>
  Mutual exclusion of attempts: two successful claims of one run never coexist.  The later claim
  carries a strictly larger fencing token and ends the authority of the earlier one.
\<close>

theorem later_claim_fences_earlier:
  assumes "claim jid rid owner lease now fresh s0 = Inr (a, s1)" and "store_inv s0"
    and "store_step\<^sup>*\<^sup>* s1 s2" and "claim jid rid owner' lease' now' fresh' s2 = Inr (b, s3)"
  shows "ca_fencing_token a < ca_fencing_token b \<and> authority a s3 = Inl Condition_Failed"
proof -
  have inv1: "store_inv s1" using assms(1,2) by (rule claim_inv)
  have inv2: "store_inv s2" using assms(3) inv1 by (rule job_system.run_inv)
  from assms(1) obtain r where a: "ca_job_id a = jid" "ca_run_id a = rid"
    "dict_get (s_runs s0) (jid, rid) = Some r" "ca_fencing_token a = r_fencing_token r + 1"
    "\<exists>r1. dict_get (s_runs s1) (jid, r_run_id r) = Some r1 \<and> r_fencing_token r1 = r_fencing_token r + 1"
    by (rule claimE) auto
  have "r_run_id r = rid" using store_invD(6) [OF assms(2) a(3)] by (simp add: run_ok_def)
  with a(4,5) obtain r1 where r1: "dict_get (s_runs s1) (jid, rid) = Some r1"
    "r_fencing_token r1 = ca_fencing_token a" by auto
  from evolvesD(3) [OF run_evolves_store [OF assms(3) inv1] r1(1)] r1(2) obtain r2 where
    r2: "dict_get (s_runs s2) (jid, rid) = Some r2" "ca_fencing_token a \<le> r_fencing_token r2"
    by (auto simp: run_evolves_def)
  have rid2: "r_run_id r2 = rid" using store_invD(6) [OF inv2 r2(1)] by (simp add: run_ok_def)
  from assms(4) r2 rid2 have "ca_fencing_token b = r_fencing_token r2 + 1"
    "\<exists>r3. dict_get (s_runs s3) (jid, rid) = Some r3 \<and> r_fencing_token r3 = r_fencing_token r2 + 1"
    by (auto elim!: claimE)
  with r2(2) a(1,2) spent_no_authority [of a s3] show ?thesis by (auto simp: spent_def)
qed

lemma demo_reclaim:
  "\<exists>x s b t. expire_lease demo_expired 140 30 demo_running = Inr (x, s)
     \<and> claim 11 12 40 120 150 41 s = Inr (b, t) \<and> ca_fencing_token b = 2"
  by (simp add: expire_lease_def lease_reclaimable_def expired_store_def enqueue_def expired_job_def Let_def
    release_lease_def claim_def demo_running_def demo_expired_def demo_claimed_run_def demo_simps)

theorem later_claim_fences_earlier_witness:
  "\<exists>s t b. store_step demo_running s \<and> claim 11 12 40 120 150 41 s = Inr (b, t)
     \<and> ca_fencing_token demo_attempt < ca_fencing_token b \<and> authority demo_attempt t = Inl Condition_Failed"
proof -
  from demo_reclaim obtain x s b t where s: "expire_lease demo_expired 140 30 demo_running = Inr (x, s)"
    "claim 11 12 40 120 150 41 s = Inr (b, t)" by blast
  then have step: "store_step demo_running s" by (intro store_step.expire)
  with s(2) later_claim_fences_earlier [OF demo_claim demo_invs(2) r_into_rtranclp [of store_step, OF step] s(2)]
  show ?thesis by blast
qed

section \<open>Finality\<close>

text \<open>
  Published results are immutable: once a result reference has been committed for a run and a
  version, every later store returns the same reference for it.
\<close>

theorem results_append_only:
  assumes "store_inv s" and "read_result_reference s rid v = Some x" and "store_step\<^sup>*\<^sup>* s t"
  shows "read_result_reference t rid v = Some x"
  using assms(2) evolvesD(5) [OF run_evolves_store [OF assms(3,1)]] by (simp add: read_result_reference_def)

definition demo_result :: result_reference where
  "demo_result = \<lparr>ref_run_id = 12, ref_result_version = 1, ref_fencing_token = 1,
     ref_execution_status = X_SUCCEEDED, ref_business_status = Some W_VERIFIED, ref_artifact_status = Not_Requested,
     ref_result_digest = ''ab'', ref_artifact_ids = [], ref_finding_count = 0\<rparr>"

lemmas finish_unfold = finish_def finish_events_def commit_for_event_def commit_result_def finished_store_def
  finished_job_def finish_problem_def Let_def release_lease_def close_attempt_def authority_def

lemma demo_publish:
  "\<exists>x s. finish demo_attempt PUBLISH_RESULT 50 None [] (Some demo_result) demo_running = Inr (x, s)
     \<and> read_result_reference s 12 1 = Some demo_result \<and> dict_get (s_jobs s) 11 = Some (demo_job SUCCEEDED 50)"
  by (simp add: finish_unfold demo_running_def demo_attempt_def demo_result_def demo_claimed_run_def demo_simps
      read_result_reference_def)

theorem results_append_only_witness:
  "\<exists>s. store_step demo_running s \<and> read_result_reference s 12 1 = Some demo_result"
proof -
  from demo_publish obtain x s where s: "finish demo_attempt PUBLISH_RESULT 50 None [] (Some demo_result) demo_running = Inr (x, s)"
    "read_result_reference s 12 1 = Some demo_result" by blast
  have step: "store_step demo_running s" using s(1) by (rule store_step.finish)
  from results_append_only [OF store_step_inv [OF step demo_invs(3)] s(2) rtranclp.rtrancl_refl] step
  show ?thesis by blast
qed

text \<open>
  Terminal statuses are final over whole runs: a failed, succeeded or cancelled job keeps its
  status, its run, its problem, its counters and its tasks for ever - only its modification time can
  move - and no claim, cancel, retry or human response on it is accepted any more.
\<close>

theorem terminal_job_frozen:
  assumes "store_inv s" and "dict_get (s_jobs s) jid = Some j" and "j_status j \<in> terminal_statuses"
    and "store_step\<^sup>*\<^sup>* s t"
  shows "(\<exists>now. dict_get (s_jobs t) jid = Some (j\<lparr>j_updated_at := now\<rparr>))
     \<and> \<not> is_ok (claim jid rid owner lease now fresh t) \<and> \<not> is_ok (cancel jid now t)
     \<and> \<not> is_ok (schedule_retry jid available now fresh t) \<and> \<not> is_ok (resume_after_human jid run now fresh t)
     \<and> \<not> is_ok (reject_human_task jid rid task now t)"
proof -
  from evolvesD(2) [OF run_evolves_store [OF assms(4,1)] assms(2)] obtain j' where
    j': "dict_get (s_jobs t) jid = Some j'" "job_evolves j j'" by blast
  with assms(3) have frozen: "j' = j\<lparr>j_updated_at := j_updated_at j'\<rparr>"
    by (simp add: job_evolves_def job_frozen_def)
  then have st: "j_status j' \<in> terminal_statuses" using assms(3) by (metis job_frozenD(1) job_frozen_def)
  then have refused: "\<not> is_ok (next_state ((job_facts_of j')\<lparr>f_has_open_tasks := h\<rparr>) e p)" for h e p
    using next_state_InrD(3) by (fastforce simp: is_ok_iff)
  then have refused': "\<not> is_ok (next_state (job_facts_of j') e p)" for e p
    using refused [of "j_open_task_ids j' \<noteq> []"] by (simp add: job_facts_of_def)
  have "\<not> is_ok (claim jid rid owner lease now fresh t)"
    using j'(1) st unfolding is_ok_iff by (auto elim!: claimE)
  moreover have "\<not> is_ok (cancel jid now t)"
    using j'(1) refused' [of CANCEL] unfolding is_ok_iff by (auto elim!: cancelE)
  moreover have "\<not> is_ok (schedule_retry jid available now fresh t)"
    using j'(1) st unfolding is_ok_iff by (auto elim!: schedule_retryE)
  moreover have "\<not> is_ok (resume_after_human jid run now fresh t)"
    using j'(1) refused' [of HUMAN_RESPONSE_COMMITTED] unfolding is_ok_iff by (auto elim!: resume_after_humanE)
  moreover have "\<not> is_ok (reject_human_task jid rid task now t)"
    using j'(1) refused [of _ HUMAN_REJECTED] unfolding is_ok_iff by (auto elim!: reject_human_taskE)
  ultimately show ?thesis using j'(1) frozen by metis
qed

theorem terminal_job_frozen_witness:
  "\<exists>s. store_step demo_running s \<and> dict_get (s_jobs s) 11 = Some (demo_job SUCCEEDED 50) \<and> \<not> is_ok (cancel 11 60 s)"
proof -
  from demo_publish obtain x s where s: "finish demo_attempt PUBLISH_RESULT 50 None [] (Some demo_result) demo_running = Inr (x, s)"
    "dict_get (s_jobs s) 11 = Some (demo_job SUCCEEDED 50)" by blast
  have step: "store_step demo_running s" using s(1) by (rule store_step.finish)
  have "j_status (demo_job SUCCEEDED 50) \<in> terminal_statuses" by (simp add: demo_job_def)
  from terminal_job_frozen [OF store_step_inv [OF step demo_invs(3)] s(2) this rtranclp.rtrancl_refl, where now = 60] step s(2)
  show ?thesis by blast
qed

lemma cancelled_stays:
  assumes "store_inv t" and "dict_get (s_jobs t) jid = Some j" and "j_cancel_requested j \<or> j_status j = CANCELLED"
  shows "j_status j \<in> cancel_pending_statuses" "\<not> is_ok (claim jid rid owner lease now fresh t)"
    "\<not> is_ok (schedule_retry jid available now fresh t)"
proof -
  show st: "j_status j \<in> cancel_pending_statuses"
    using store_invD(4) [OF assms(1,2)] assms(3) by (auto simp: job_honest_def)
  show "\<not> is_ok (claim jid rid owner lease now fresh t)"
    using assms(2) st unfolding is_ok_iff by (auto elim!: claimE)
  show "\<not> is_ok (schedule_retry jid available now fresh t)"
    using assms(2) st unfolding is_ok_iff by (auto elim!: schedule_retryE)
qed

text \<open>
  An accepted cancellation is honoured for ever: at every later moment the job is either closed or
  still held by the attempt that was running when the cancel arrived; no new attempt can claim it and
  no retry can be scheduled for it.
\<close>

theorem cancel_stops_new_attempts:
  assumes "cancel jid now s = Inr (x, s1)" and "store_inv s" and "store_step\<^sup>*\<^sup>* s1 t"
  shows "(\<exists>j. dict_get (s_jobs t) jid = Some j \<and> j_status j \<in> cancel_pending_statuses)
     \<and> \<not> is_ok (claim jid rid owner lease now' fresh t) \<and> \<not> is_ok (schedule_retry jid available now' fresh t)"
proof -
  from assms(1) obtain j1 where j1: "dict_get (s_jobs s1) jid = Some j1" "j_cancel_requested j1 \<or> j_status j1 = CANCELLED"
  proof (rule cancelE)
    fix j :: job and r :: run and t :: transition
    assume j: "dict_get (s_jobs s) jid = Some j" and n: "next_state (job_facts_of j) CANCEL (s_policy s) = Inr t"
      and s1: "s1 = cancelled_store jid now t j r s"
    have "j_job_id j = jid" using store_invD(5) [OF assms(2) j] by (simp add: job_backed_def)
    with cancel_transition [OF n] that show thesis
      by (cases "t_request_cancel t") (auto simp: s1 cancelled_store_def)
  qed
  have inv1: "store_inv s1" using assms(1,2) by (rule cancel_inv)
  have invt: "store_inv t" using assms(3) inv1 by (rule job_system.run_inv)
  from evolvesD(2) [OF run_evolves_store [OF assms(3) inv1] j1(1)] obtain j where
    j: "dict_get (s_jobs t) jid = Some j" "job_evolves j1 j" by blast
  with j1(2) have "j_cancel_requested j \<or> j_status j = CANCELLED"
    using status_path_terminal [of CANCELLED "j_status j"] by (auto simp: job_evolves_def)
  from cancelled_stays [OF invt j(1) this] j(1) show ?thesis by blast
qed

lemma demo_cancel: "\<exists>x s. cancel 11 30 demo_running = Inr (x, s) \<and> jr_cancel_requested x \<and> jr_status x = RUNNING"
  by (simp add: cancel_def cancelled_store_def demo_running_def demo_claimed_run_def demo_simps make_record_def)

theorem cancel_stops_new_attempts_witness:
  "\<exists>x s. cancel 11 30 demo_running = Inr (x, s) \<and> \<not> is_ok (claim 11 12 40 120 200 41 s)"
proof -
  from demo_cancel obtain x s where s: "cancel 11 30 demo_running = Inr (x, s)" by blast
  from cancel_stops_new_attempts [OF s demo_invs(3) rtranclp.rtrancl_refl] s show ?thesis by blast
qed

section \<open>Dispatch rounds\<close>

text \<open>
  C21.  A dispatch round is confirmed at most once: after \<open>mark_dispatched\<close> has succeeded for a round,
  every later confirmation or postponement of the same round loses the race, whatever happened between.
\<close>

theorem round_confirmed_once:
  assumes "mark_dispatched d now s = Inr (x, s1)" and "store_inv s" and "store_step\<^sup>*\<^sup>* s1 t"
  shows "mark_dispatched d now' t = Inl Condition_Failed \<and> reschedule_dispatch d available t = Inl Condition_Failed"
proof -
  have inv1: "store_inv s1" using assms(1,2) by (rule mark_dispatched_inv)
  from assms(1) obtain e where "dict_get (s_outbox s1) (dr_job_id d, dr_outbox_seq d) = Some e" "o_dispatch_state e = Sent"
    by (auto simp: mark_dispatched_def set_entry_def dest!: replyD(1) split: if_splits)
  with evolvesD(4) [OF run_evolves_store [OF assms(3) inv1]] obtain e' where
    "dict_get (s_outbox t) (dr_job_id d, dr_outbox_seq d) = Some e'" "o_dispatch_state e' = Sent"
    by (fastforce simp: entry_evolves_def)
  then have "pending_entry d t = Inl Condition_Failed" by (simp add: pending_entry_def)
  then show ?thesis by (simp add: mark_dispatched_def reschedule_dispatch_def)
qed

lemma demo_dispatch:
  "\<exists>x s. mark_dispatched (dispatch_record_of (demo_round Pending)) 15 demo_queued = Inr (x, s) \<and> jr_status x = DISPATCHED"
  by (simp add: mark_dispatched_def pending_entry_def dispatch_record_of_def set_entry_def demo_queued_def demo_simps
      make_record_def)

theorem round_confirmed_once_witness:
  "\<exists>x s. mark_dispatched (dispatch_record_of (demo_round Pending)) 15 demo_queued = Inr (x, s)
     \<and> mark_dispatched (dispatch_record_of (demo_round Pending)) 16 s = Inl Condition_Failed"
proof -
  from demo_dispatch obtain x s where s: "mark_dispatched (dispatch_record_of (demo_round Pending)) 15 demo_queued = Inr (x, s)"
    by blast
  from round_confirmed_once [OF s demo_invs(2) rtranclp.rtrancl_refl] s show ?thesis by blast
qed

end
