(* ===== verification/Job_Liveness.thy ===== *)
theory Job_Liveness
  imports Job_Safety
begin

text \<open>
  Operations succeed when they should: no modelled dictionary read of the store can raise \<open>KeyError\<close>
  on a reachable store, a repeated submission returns the first one's job, and every unfinished job is
  found by the sweep that is meant to move it.
\<close>

section \<open>No dangling references\<close>

definition no_key_error :: "'a result \<Rightarrow> bool" where
  "no_key_error m = (m \<noteq> Inl Key_Error)"

named_theorems no_key "rules that propagate the absence of KeyError"

lemma no_key_bind [no_key]:
  "no_key_error m \<Longrightarrow> (\<And>x. m = Inr x \<Longrightarrow> no_key_error (f x)) \<Longrightarrow> no_key_error (bind_result m f)"
  by (cases m) (simp_all add: no_key_error_def)

lemma no_key_basic [simp]:
  "no_key_error (Inr x)" "no_key_error (Inl e) \<longleftrightarrow> e \<noteq> Key_Error"
  "no_key_error (ensure b e) \<longleftrightarrow> b \<or> e \<noteq> Key_Error"
  "no_key_error (some_or e v) \<longleftrightarrow> v \<noteq> None \<or> e \<noteq> Key_Error"
  by (auto simp: no_key_error_def)

lemma no_key_if [no_key]:
  "(b \<Longrightarrow> no_key_error m) \<Longrightarrow> (\<not> b \<Longrightarrow> no_key_error m') \<Longrightarrow> no_key_error (if b then m else m')"
  by simp

lemma no_key_next_state [simp]: "no_key_error (next_state f e p)"
  unfolding next_state_def by (cases e) (auto simp: Let_def)

lemma no_key_lost_race [simp]: "no_key_error m \<Longrightarrow> no_key_error (lost_race m)"
  by (cases m) (auto simp: lost_race_def split: fault.splits)

lemma no_key_authority [simp]: "no_key_error (authority a s)"
  by (auto simp: authority_def split: option.splits)

lemma no_key_require [simp]: "no_key_error (principal_require p c perm)"
  by (simp add: principal_require_def)

lemma no_key_reply:
  assumes "dict_get (s_jobs s) jid = Some j" and "j_job_id j = jid"
    and "dict_get (s_runs s) (jid, j_current_run_id j) \<noteq> None"
  shows "no_key_error (reply jid s)"
  using assms by (auto simp: reply_def job_record_of_def)

lemma no_key_reply_inv:
  assumes "store_inv s" and "dict_get (s_jobs s) jid \<noteq> None"
  shows "no_key_error (reply jid s)"
  using assms(2) reply_ok [OF assms(1)] by fastforce

lemma enqueue_reads [simp]:
  "dict_get (s_jobs (enqueue j rid av fresh s)) (j_job_id j) = Some (j\<lparr>j_outbox_seq := j_outbox_seq j + 1\<rparr>)"
  "s_runs (enqueue j rid av fresh s) = s_runs s"
  by (simp_all add: enqueue_def Let_def)

lemma inv_ids:
  assumes "store_inv s" and "dict_get (s_jobs s) jid = Some j"
  shows "j_job_id j = jid" "dict_get (s_runs s) (jid, j_current_run_id j) \<noteq> None"
  using store_invD(5) [OF assms] by (auto simp: job_backed_def)

lemma claim_no_key [no_key]: "no_key_error (claim jid rid owner lease now fresh s)"
  unfolding claim_def Let_def by (auto intro!: no_key split: option.splits)

lemma heartbeat_no_key [no_key]: "no_key_error (heartbeat a lease now s)"
  unfolding heartbeat_def Let_def by (auto intro!: no_key)

lemma commit_no_key [simp]: "no_key_error (commit_for_event e r a ref s)"
  by (auto simp: commit_for_event_def commit_result_def split: option.splits)

lemma finished_reply:
  assumes "store_inv s" and au: "authority a s = Inr (j, r)" and "commit_for_event e r a ref s = Inr (r1, s1)"
  shows "no_key_error (reply (ca_job_id a) (finished_store a e t (finished_job t pr ts now j) r1 s1))"
proof -
  note d = authorityD [OF au] authority_current [OF assms(1) au] commit_for_event_inv [OF assms(3,1) au]
  show ?thesis
    by (rule no_key_reply [where j = "finished_job t pr ts now j"])
      (use d in \<open>auto simp: finished_store_def Let_def\<close>)
qed

lemma finish_no_key [no_key]: "store_inv s \<Longrightarrow> no_key_error (finish a e now pr ts ref s)"
  unfolding finish_def by (auto intro!: no_key_bind finished_reply)

lemma expire_lease_no_key [no_key]:
  assumes inv: "store_inv s"
  shows "no_key_error (expire_lease x now fresh s)"
  unfolding expire_lease_def
proof (intro no_key_bind)
  fix j :: job and r :: run and t :: transition
  assume j: "some_or Condition_Failed (dict_get (s_jobs s) (xl_job_id x)) = Inr j"
  then have ids: "j_job_id j = xl_job_id x" "dict_get (s_runs s) (xl_job_id x, j_current_run_id j) \<noteq> None"
    using inv_ids [OF inv] by auto
  let ?j = "expired_job t now j" and ?s = "expired_store x now fresh t (expired_job t now j) r s"
  show "no_key_error (reply (xl_job_id x) ?s)"
    by (rule no_key_reply [where j = "if t_enqueue_outbox t then ?j\<lparr>j_outbox_seq := j_outbox_seq ?j + 1\<rparr> else ?j"])
      (use ids enqueue_reads(1) [of ?j] in \<open>auto simp: expired_store_def Let_def\<close>)
qed simp_all

lemma cancel_no_key [no_key]:
  assumes inv: "store_inv s"
  shows "no_key_error (cancel jid now s)"
  unfolding cancel_def
proof (intro no_key_bind)
  fix j :: job and r :: run and t :: transition
  assume j: "some_or Condition_Failed (dict_get (s_jobs s) jid) = Inr j"
  then show "no_key_error (some_or Key_Error (dict_get (s_runs s) (jid, j_current_run_id j)))"
    using inv_ids [OF inv] by simp
  let ?j = "if t_request_cancel t then j\<lparr>j_cancel_requested := True, j_updated_at := now\<rparr>
    else j\<lparr>j_status := t_status t, j_problem := Some cancelled_problem, j_open_task_ids := [], j_updated_at := now\<rparr>"
  show "no_key_error (reply jid (cancelled_store jid now t j r s))"
    by (rule no_key_reply [where j = ?j]) (use j inv_ids [OF inv] in \<open>auto simp: cancelled_store_def\<close>)
qed simp_all

lemma schedule_retry_no_key [no_key]:
  assumes inv: "store_inv s"
  shows "no_key_error (schedule_retry jid available now fresh s)"
  unfolding schedule_retry_def Let_def
proof (intro no_key_bind)
  fix j :: job and r :: run and t :: transition
  assume j: "some_or Condition_Failed (dict_get (s_jobs s) jid) = Inr j"
  then have ids: "j_job_id j = jid" "dict_get (s_runs s) (jid, j_current_run_id j) \<noteq> None"
    using inv_ids [OF inv] by auto
  then show "no_key_error (some_or Key_Error (dict_get (s_runs s) (jid, j_current_run_id j)))" by simp
  let ?j = "j\<lparr>j_status := t_status t, j_problem := None, j_updated_at := now\<rparr>"
  show "no_key_error (reply jid (enqueue ?j (j_current_run_id ?j) available fresh
      (put_job ?j (put_run jid (r\<lparr>r_run_status := t_status t\<rparr>) s))))"
    by (rule no_key_reply [where j = "?j\<lparr>j_outbox_seq := j_outbox_seq ?j + 1\<rparr>"])
      (use ids enqueue_reads(1) [of ?j] in auto)
qed simp_all

lemma reject_human_task_no_key [no_key]:
  assumes inv: "store_inv s"
  shows "no_key_error (reject_human_task jid rid task now s)"
  unfolding reject_human_task_def
proof (intro no_key_bind)
  fix j :: job and r :: run and t :: transition and u :: unit
  assume j: "some_or Condition_Failed (dict_get (s_jobs s) jid) = Inr j"
    and cur: "ensure (j_current_run_id j = rid \<and> task \<in> set (j_open_task_ids j)) Condition_Failed = Inr u"
  then show "no_key_error (some_or Key_Error (dict_get (s_runs s) (jid, rid)))" using inv_ids [OF inv] by auto
  show "no_key_error (reply jid (put_job (rejected_job task t now j) (put_run jid (r\<lparr>r_run_status := t_status t\<rparr>) s)))"
    by (rule no_key_reply [where j = "rejected_job task t now j"]) (use j inv_ids [OF inv] in auto)
qed simp_all

lemma resume_after_human_no_key [no_key]:
  assumes inv: "store_inv s"
  shows "no_key_error (resume_after_human jid run now fresh s)"
  unfolding resume_after_human_def
proof (intro no_key_bind)
  fix j :: job and r :: run and t :: transition
  assume j: "some_or Condition_Failed (dict_get (s_jobs s) jid) = Inr j"
  then have ids: "j_job_id j = jid" "dict_get (s_runs s) (jid, j_current_run_id j) \<noteq> None"
    using inv_ids [OF inv] by auto
  then show "no_key_error (some_or Key_Error (dict_get (s_runs s) (jid, j_current_run_id j)))" by simp
  let ?j = "resumed_job run t now j"
  show "no_key_error (reply jid (enqueue ?j (rr_run_id run) now fresh (put_job ?j (put_run jid
         (new_run (rr_run_id run) (rr_revision run) (r_documents r) (r_payload_digest r)) s))))"
    by (rule no_key_reply [where j = "?j\<lparr>j_outbox_seq := j_outbox_seq ?j + 1\<rparr>"])
      (use ids enqueue_reads(1) [of ?j] in \<open>auto simp: resumed_job_def\<close>)
qed simp_all

lemma mark_dispatched_no_key [no_key]:
  assumes inv: "store_inv s"
  shows "no_key_error (mark_dispatched d now s)"
  unfolding mark_dispatched_def
proof (intro no_key_bind no_key_if)
  show "no_key_error (pending_entry d s)" by (auto simp: pending_entry_def intro!: no_key)
next
  fix e j t
  assume e: "pending_entry d s = Inr e" and j: "some_or Condition_Failed (dict_get (s_jobs s) (dr_job_id d)) = Inr j"
  from e have "dict_get (s_runs s) (dr_job_id d, o_run_id e) \<noteq> None"
    using store_invD(7) [OF inv] by (auto simp: pending_entry_Inr entry_ok_def)
  then show "no_key_error (some_or Key_Error (dict_get (s_runs s) (j_job_id j, o_run_id e)))"
    using j inv_ids [OF inv] by auto
next
  fix e j s1
  assume j: "some_or Condition_Failed (dict_get (s_jobs s) (dr_job_id d)) = Inr j"
    and s1: "(if j_status j = QUEUED
        then bind_result (next_state (job_facts_of j) DISPATCH_SUCCEEDED (s_policy s)) (\<lambda>t.
             bind_result (some_or Key_Error (dict_get (s_runs s) (j_job_id j, o_run_id e))) (\<lambda>r.
             Inr (put_job (j\<lparr>j_status := t_status t, j_updated_at := now\<rparr>)
               (put_run (j_job_id j) (r\<lparr>r_run_status := t_status t\<rparr>)
                 (set_entry d (e\<lparr>o_dispatch_state := Sent\<rparr>) s)))))
        else Inr (put_job (j\<lparr>j_updated_at := now\<rparr>) (set_entry d (e\<lparr>o_dispatch_state := Sent\<rparr>) s))) = Inr s1"
  have ids: "j_job_id j = dr_job_id d" "dict_get (s_runs s) (dr_job_id d, j_current_run_id j) \<noteq> None"
    using j inv_ids [OF inv] by auto
  have "\<exists>j1. dict_get (s_jobs s1) (dr_job_id d) = Some j1 \<and> j_job_id j1 = dr_job_id d
      \<and> j_current_run_id j1 = j_current_run_id j"
    using s1 ids by (cases "j_status j = QUEUED") auto
  moreover have "dict_get (s_runs s1) (dr_job_id d, j_current_run_id j) \<noteq> None"
    using s1 ids by (auto simp: set_entry_def split: if_splits)
  ultimately show "no_key_error (reply (dr_job_id d) s1)"
    by (auto intro: no_key_reply)
qed simp_all

lemma reschedule_dispatch_no_key [no_key]:
  assumes inv: "store_inv s"
  shows "no_key_error (reschedule_dispatch d available s)"
  unfolding reschedule_dispatch_def
proof (intro no_key_bind no_key_if)
  show "no_key_error (pending_entry d s)" by (auto simp: pending_entry_def intro!: no_key)
  fix e assume "pending_entry d s = Inr e"
  then have "entry_ok s (dr_job_id d) (dr_outbox_seq d) e"
    by (intro store_invD(7) [OF inv]) (simp add: pending_entry_Inr)
  then show "no_key_error (some_or Key_Error (dict_get (s_jobs s) (dr_job_id d)))" by (auto simp: entry_ok_def)
qed simp_all

lemma run_ownerE:
  assumes "run_owner s rid = Inr jid" and "keys_ok s"
  obtains r where "dict_get (s_runs s) (jid, rid) = Some r"
proof -
  from assms(1) obtain k r where f: "find (\<lambda>((_, stored), _). stored = rid) (s_runs s) = Some ((jid, k), r)"
    by (auto simp: run_owner_def split: option.splits)
  then have "((jid, rid), r) \<in> set (s_runs s)" by (auto simp: find_Some_iff in_set_conv_nth)
  with assms(2) that show ?thesis by (auto simp: keys_ok_def)
qed

lemma create_job_no_key [no_key]:
  assumes inv: "store_inv s"
  shows "no_key_error (create_job h cd p sub jid rid now fresh s)"
proof -
  let ?S = "submitted_store p sub (submission_digest cd sub)
    (idempotency_partition h (actor_id (pr_actor p)) (sub_idempotency_key sub)) jid rid now fresh s"
  have new: "no_key_error (reply jid ?S)"
    using enqueue_reads(1) [of "submitted_job p sub jid rid now"]
    by (intro no_key_reply [where j = "(submitted_job p sub jid rid now)\<lparr>j_outbox_seq := 1\<rparr>"])
      (auto simp: submitted_store_alt)
  have old: "no_key_error (reply owner s)" if "run_owner s run = Inr owner" for run owner
    using that store_invD(2) [OF inv]
  proof (rule run_ownerE)
    fix r assume "dict_get (s_runs s) (owner, run) = Some r"
    then obtain j where "dict_get (s_jobs s) owner = Some j" by (rule job_of_run [OF inv])
    then show ?thesis by (intro no_key_reply_inv [OF inv]) simp
  qed
  have chk: "no_key_error (check_idempotency cd rec p sub)" for rec
    by (auto simp: check_idempotency_def intro!: no_key_bind)
  have owner: "no_key_error (run_owner s run)" for run
    by (auto simp: run_owner_def split: option.splits)
  show ?thesis
  proof (cases "dict_get (s_idempotency s) (idempotency_partition h (actor_id (pr_actor p)) (sub_idempotency_key sub))")
    case None
    then show ?thesis
      unfolding create_job_def Let_def by (auto simp only: option.case intro!: no_key_bind new) auto
  next
    case (Some stored)
    then show ?thesis
      unfolding create_job_def Let_def by (auto simp only: option.case intro!: no_key_bind old chk owner) auto
  qed
qed

lemma collect_results_ok: "list_all is_ok xs \<Longrightarrow> is_ok (collect_results xs)"
  by (induction xs) (auto simp: is_ok_iff)

lemma job_record_of_ok:
  assumes "store_inv s" and "(k, j) \<in> set (s_jobs s)"
  obtains r where "job_record_of s j = Inr (make_record j r)" "j_job_id j = k"
proof -
  have "dict_get (s_jobs s) k = Some j" using assms inv_keys(1) by (simp add: dict_get_iff)
  from inv_ids [OF assms(1) this] that show ?thesis by (auto simp: job_record_of_def)
qed

lemma sweeps_ok:
  assumes inv: "store_inv s" and "1 \<le> limit"
  shows "is_ok (pending_dispatches now limit s)" "is_ok (expired_leases now limit s)"
    "is_ok (stranded_retryables now limit s)"
proof -
  show "is_ok (pending_dispatches now limit s)" using assms(2) by (simp add: pending_dispatches_def Let_def)
  have "dict_get (s_jobs s) k \<noteq> None" if "((k, l), r) \<in> set (s_runs s)" for k l r
  proof -
    have "dict_get (s_runs s) (k, l) = Some r" using that inv_keys(2) [OF inv] by (simp add: dict_get_iff)
    from store_invD(6) [OF inv this] show ?thesis by (auto simp: run_ok_def)
  qed
  then have "\<not> list_ex (\<lambda>((jid, _), r). lease_expired now r \<and> dict_get (s_jobs s) jid = None) (s_runs s)"
    by (force simp: list_ex_iff)
  with assms(2) show "is_ok (expired_leases now limit s)" by (simp add: expired_leases_def Let_def)
  have "list_all is_ok (map (job_record_of s) (take n (sort_key f (filter P (map snd (s_jobs s))))))" for n P and f :: "job \<Rightarrow> int"
    unfolding list_all_iff
    by (auto dest!: in_set_takeD elim!: job_record_of_ok [OF inv] simp: is_ok_iff)
  with assms(2) show "is_ok (stranded_retryables now limit s)"
    by (simp add: stranded_retryables_def Let_def collect_results_ok)
qed

lemma read_job_ok: "store_inv s \<Longrightarrow> is_ok (read_job s jid)"
proof (cases "dict_get (s_jobs s) jid")
  case (Some j)
  assume "store_inv s"
  moreover have "(jid, j) \<in> set (s_jobs s)" using Some by (rule map_of_SomeD)
  ultimately obtain r where "job_record_of s j = Inr (make_record j r)" by (rule job_record_of_ok)
  then show ?thesis using Some by (simp add: read_job_def is_ok_iff)
qed (simp add: read_job_def is_ok_iff)

text \<open>
  C22.  References never dangle: on a store that satisfies the invariant none of its eleven mutating operations raises
  \<open>KeyError\<close>, whatever its arguments; reading a job always returns, and so do the three sweeps of the reconciler when
  their limit is at least one.
\<close>

theorem no_operation_raises_key_error:
  assumes "store_inv s" and "1 \<le> limit"
  shows "create_job h cd p sub jid rid now fresh s \<noteq> Inl Key_Error
     \<and> claim jid rid owner lease now fresh s \<noteq> Inl Key_Error \<and> heartbeat a lease now s \<noteq> Inl Key_Error
     \<and> finish a e now problem tasks ref s \<noteq> Inl Key_Error \<and> expire_lease x now fresh s \<noteq> Inl Key_Error
     \<and> cancel jid now s \<noteq> Inl Key_Error \<and> schedule_retry jid available now fresh s \<noteq> Inl Key_Error
     \<and> reject_human_task jid rid task now s \<noteq> Inl Key_Error
     \<and> resume_after_human jid run now fresh s \<noteq> Inl Key_Error \<and> mark_dispatched d now s \<noteq> Inl Key_Error
     \<and> reschedule_dispatch d available s \<noteq> Inl Key_Error \<and> is_ok (read_job s jid)
     \<and> is_ok (pending_dispatches now limit s) \<and> is_ok (expired_leases now limit s)
     \<and> is_ok (stranded_retryables now limit s)"
  unfolding no_key_error_def [symmetric]
  by (intro conjI) (rule no_key sweeps_ok read_job_ok assms | rule assms)+

theorem no_operation_raises_key_error_witness:
  "cancel 99 0 demo_running \<noteq> Inl Key_Error \<and> is_ok (expired_leases 140 5 demo_running)"
  using no_operation_raises_key_error [OF demo_invs(3), of 5 _ _ _ _ 99 _ 0]
    no_operation_raises_key_error [OF demo_invs(3), of 5 _ _ _ _ _ _ 140] by simp

section \<open>Idempotent submission\<close>

text \<open>\<open>uuid4\<close> does not repeat: the run identifier belongs to one job only.\<close>

definition run_unique :: "job_store \<Rightarrow> uuid \<Rightarrow> uuid \<Rightarrow> bool" where
  "run_unique s jid rid = list_all (\<lambda>((k, l), _). l = rid \<longrightarrow> k = jid) (s_runs s)"

lemma run_owner_unique:
  assumes "run_unique s jid rid" and "dict_get (s_runs s) (jid, rid) = Some r"
  shows "run_owner s rid = Inr jid"
proof -
  have m: "((jid, rid), r) \<in> set (s_runs s)" using assms(2) by (rule map_of_SomeD)
  then obtain x where x: "find (\<lambda>((_, stored), _). stored = rid) (s_runs s) = Some x"
    by (cases "find (\<lambda>((_, stored), _). stored = rid) (s_runs s)") (auto simp: find_None_iff)
  then obtain k r' where "x = ((k, rid), r')" "x \<in> set (s_runs s)"
    by (auto simp: find_Some_iff in_set_conv_nth)
  with assms(1) x show ?thesis by (auto simp: run_unique_def list_all_iff run_owner_def)
qed

text \<open>
  Submission is idempotent under retries: after a submission has created a job, the same principal
  repeating the same payload with the same key - at any later time, with fresh identifiers - gets that
  job back, nothing is created and the store is unchanged; a different payload under the same key is a
  conflict.
\<close>

theorem create_job_idempotent:
  assumes "create_job h cd p sub jid rid now fresh s = Inr ((x, True), s1)" and "store_inv s"
    and "store_step\<^sup>*\<^sup>* s1 t" and "run_unique t jid rid"
    and "review_submission_valid sub'" and "sub_idempotency_key sub' = sub_idempotency_key sub"
    and "rev_case_id (sub_revision sub') = rev_case_id (sub_revision sub)"
  shows "(submission_digest cd sub' = submission_digest cd sub \<longrightarrow>
       (\<exists>y. create_job h cd p sub' jid' rid' now' fresh' t = Inr ((y, False), t) \<and> jr_job_id y = jid))
     \<and> (submission_digest cd sub' \<noteq> submission_digest cd sub \<longrightarrow>
       create_job h cd p sub' jid' rid' now' fresh' t = Inl (Service_Fault CONFLICT))"
  using assms(1)
proof (cases rule: create_jobE)
  case created
  let ?k = "idempotency_partition h (actor_id (pr_actor p)) (sub_idempotency_key sub)"
  let ?rec = "\<lparr>idem_principal_id = actor_id (pr_actor p), idem_key = sub_idempotency_key sub,
     idem_payload_digest = submission_digest cd sub, idem_run_id = rid\<rparr>"
  have inv1: "store_inv s1" using assms(1,2) by (rule create_job_inv)
  have invt: "store_inv t" using assms(3) inv1 by (rule job_system.run_inv)
  note ev = run_evolves_store [OF assms(3) inv1]
  have idem: "dict_get (s_idempotency t) ?k = Some ?rec"
    by (rule evolvesD(6) [OF ev]) (simp add: created(8) submitted_store_alt enqueue_def Let_def)
  have "dict_get (s_runs s1) (jid, rid) \<noteq> None"
    by (simp add: created(8) submitted_store_alt enqueue_def Let_def)
  then obtain r where r: "dict_get (s_runs t) (jid, rid) = Some r" using evolvesD(3) [OF ev] by blast
  then obtain j where j: "dict_get (s_jobs t) jid = Some j" "j_job_id j = jid" by (rule job_of_run [OF invt])
  from reply_ok [OF invt j(1)] j(2) obtain y where y: "reply jid t = Inr (y, t)" "jr_job_id y = jid"
    by (auto simp: make_record_def)
  have owner: "run_owner t rid = Inr jid" using assms(4) r by (rule run_owner_unique)
  show ?thesis
    using idem owner y assms(5-7) created(4,5)
    by (simp add: create_job_def check_idempotency_def principal_require_def)
qed simp

theorem create_job_idempotent_witness:
  "\<exists>y. create_job id demo_digest demo_principal demo_submission 21 22 99 23 demo_running = Inr ((y, False), demo_running)
     \<and> jr_job_id y = 11"
proof -
  have "run_unique demo_running 11 12" by (simp add: run_unique_def demo_running_def demo_store_def)
  from create_job_idempotent [OF demo_create demo_invs(1) r_into_rtranclp [of store_step, OF demo_runs(2)] this demo_valid refl refl]
  show ?thesis by blast
qed

section \<open>Unfinished work is found\<close>

lemma claimable_claims:
  assumes inv: "store_inv s" and j: "dict_get (s_jobs s) jid = Some j" and st: "j_status j \<in> claimable_statuses"
    and "1 \<le> lease"
  shows "is_ok (claim jid (j_current_run_id j) owner lease now fresh s)"
proof -
  from j obtain r where r: "dict_get (s_runs s) (jid, j_current_run_id j) = Some r"
    "if j_status j = RUNNING then lease_held r else lease_free r" by (rule current_run [OF inv]) blast
  have "within_ceilings (s_policy s) (job_facts_of j)" using store_invD(4) [OF inv j] by (simp add: job_honest_def)
  with st have "next_state (job_facts_of j) CLAIM (s_policy s) = Inr (plain_transition RUNNING)"
    by (auto simp: next_state_def within_ceilings_def)
  moreover have "r_lease_expires_at r = None" using r(2) st by (auto simp: lease_free_def)
  ultimately show ?thesis using j r(1) assms(4) by (simp add: claim_def Let_def)
qed

lemma queued_round_found:
  assumes inv: "store_inv s" and j: "dict_get (s_jobs s) jid = Some j" and st: "j_status j = QUEUED"
  shows "\<exists>d. dr_job_id d = jid \<and> dr_run_id d = j_current_run_id j \<and> (\<forall>now limit. dr_available_at d \<le> now \<longrightarrow>
     1 \<le> limit \<longrightarrow> int (length (s_outbox s)) \<le> limit \<longrightarrow> (\<exists>ds. pending_dispatches now limit s = Inr ds \<and> d \<in> set ds))"
proof -
  from store_invD(5) [OF inv j] st obtain q e where
    e: "dict_get (s_outbox s) (jid, q) = Some e" "o_run_id e = j_current_run_id j" "o_dispatch_state e = Pending"
    by (auto simp: job_backed_def owns_round_def)
  have "o_job_id e = jid" using store_invD(7) [OF inv e(1)] by (simp add: entry_ok_def)
  moreover have "e \<in> set (map snd (s_outbox s))" using map_of_SomeD [OF e(1)] by force
  then have "dispatch_record_of e \<in> set (map dispatch_record_of (take (nat limit)
      (sort_key o_available_at (sort_key o_outbox_seq
        (filter (\<lambda>e. o_dispatch_state e = Pending \<and> o_available_at e \<le> now) (map snd (s_outbox s)))))))"
    if "o_available_at e \<le> now" "int (length (s_outbox s)) \<le> limit" for now limit
  proof -
    have "length (filter (\<lambda>e. o_dispatch_state e = Pending \<and> o_available_at e \<le> now) (map snd (s_outbox s))) \<le> nat limit"
      using that(2) le_trans [OF length_filter_le [of _ "map snd (s_outbox s)"], of "nat limit"] by simp
    with that(1) e(3) \<open>e \<in> set (map snd (s_outbox s))\<close> show ?thesis by auto
  qed
  ultimately show ?thesis
    using e(2) by (intro exI [of _ "dispatch_record_of e"])
      (auto simp: pending_dispatches_def dispatch_record_of_def Let_def)
qed

lemma running_lease_found:
  assumes inv: "store_inv s" and j: "dict_get (s_jobs s) jid = Some j" and st: "j_status j = RUNNING"
  shows "\<exists>x. xl_job_id x = jid \<and> xl_run_id x = j_current_run_id j \<and> (\<forall>now limit fresh. xl_lease_expires_at x \<le> now \<longrightarrow>
     1 \<le> limit \<longrightarrow> int (length (s_runs s)) \<le> limit \<longrightarrow> (\<exists>xs. expired_leases now limit s = Inr xs \<and> x \<in> set xs)
       \<and> is_ok (expire_lease x now fresh s))"
proof -
  from j st obtain r where r: "dict_get (s_runs s) (jid, j_current_run_id j) = Some r"
    "r_run_id r = j_current_run_id j" "lease_held r"
    by (rule_tac current_run [OF inv]) auto
  then obtain d where d: "r_lease_expires_at r = Some d" by (auto simp: lease_held_def)
  let ?x = "expired_lease_of ((jid, j_current_run_id j), r)"
  have x: "?x = \<lparr>xl_job_id = jid, xl_run_id = j_current_run_id j, xl_fencing_token = r_fencing_token r, xl_lease_expires_at = d\<rparr>"
    using r(2) d by (simp add: expired_lease_of_def lease_deadline_def)
  show ?thesis
  proof (intro exI [of _ ?x] conjI allI impI)
    fix now limit :: int and fresh :: uuid
    assume now: "xl_lease_expires_at ?x \<le> now" and lim: "1 \<le> limit" "int (length (s_runs s)) \<le> limit"
    let ?P = "\<lambda>((jid, _), r). lease_expired now r \<and> map_option j_status (dict_get (s_jobs s) jid) = Some RUNNING"
    have "((jid, j_current_run_id j), r) \<in> set (filter ?P (s_runs s))"
      using map_of_SomeD [OF r(1)] now j st d by (simp add: x lease_expired_def)
    moreover have "length (filter ?P (s_runs s)) \<le> nat limit"
      using le_trans [OF length_filter_le [of ?P "s_runs s"], of "nat limit"] lim by simp
    ultimately have "((jid, j_current_run_id j), r) \<in> set (take (nat limit)
        (sort_key (\<lambda>(_, r). lease_deadline r) (filter ?P (s_runs s))))" by simp
    with sweeps_ok(2) [OF inv lim(1), of now] show "\<exists>xs. expired_leases now limit s = Inr xs \<and> ?x \<in> set xs"
      by (auto simp: expired_leases_def Let_def split: if_splits)
    have ne: "is_ok (next_state (job_facts_of j) LEASE_EXPIRED (s_policy s))"
      using store_invD(4) [OF inv j] st by (simp add: job_honest_def within_ceilings_def next_state_def Let_def)
    then obtain t where "next_state (job_facts_of j) LEASE_EXPIRED (s_policy s) = Inr t" by (auto simp: is_ok_iff)
    moreover have "is_ok (reply jid (expired_store ?x now fresh t (expired_job t now j) r s))" for t
      using inv_ids [OF inv j] enqueue_reads(1) [of "expired_job t now j"]
      by (auto simp: x is_ok_iff reply_def job_record_of_def expired_store_def Let_def)
    ultimately show "is_ok (expire_lease ?x now fresh s)"
      using j r(1) st d now by (simp add: expire_lease_def x lease_reclaimable_def)
  qed (simp_all add: x)
qed

lemma collect_results_mem: "collect_results xs = Inr ys \<Longrightarrow> Inr y \<in> set xs \<Longrightarrow> y \<in> set ys"
  by (induction xs arbitrary: ys) auto

lemma stranded_found:
  assumes inv: "store_inv s" and j: "dict_get (s_jobs s) jid = Some j" and st: "j_status j = RETRYABLE_FAILED"
    and "j_updated_at j \<le> before" "1 \<le> limit" "int (length (s_jobs s)) \<le> limit"
  shows "\<exists>rs. stranded_retryables before limit s = Inr rs \<and> jid \<in> jr_job_id ` set rs"
proof -
  have m: "(jid, j) \<in> set (s_jobs s)" using j by (rule map_of_SomeD)
  then obtain r where r: "job_record_of s j = Inr (make_record j r)" "j_job_id j = jid" by (rule job_record_of_ok [OF inv])
  let ?js = "filter (\<lambda>j. j_status j = RETRYABLE_FAILED \<and> j_updated_at j \<le> before) (map snd (s_jobs s))"
  have "length ?js \<le> nat limit"
    using le_trans [OF length_filter_le [of _ "map snd (s_jobs s)"], of "nat limit"] assms(6) by simp
  then have "j \<in> set (take (nat limit) (sort_key j_updated_at ?js))"
    using m st assms(4) by force
  then have mem: "Inr (make_record j r) \<in> set (map (job_record_of s) (take (nat limit) (sort_key j_updated_at ?js)))"
    unfolding set_map by (intro image_eqI [where x = j]) (simp_all add: r(1))
  from sweeps_ok(3) [OF inv assms(5), of before] obtain rs where "stranded_retryables before limit s = Inr rs"
    by (auto simp: is_ok_iff)
  with mem assms(5) have "make_record j r \<in> set rs"
    by (auto simp: stranded_retryables_def Let_def intro: collect_results_mem)
  with \<open>stranded_retryables before limit s = Inr rs\<close> r(2) show ?thesis
    by (intro exI [of _ rs]) (force simp: make_record_def)
qed

lemma reply_is_ok: "no_key_error (reply jid s) \<Longrightarrow> is_ok (reply jid s)"
  by (auto simp: no_key_error_def reply_def job_record_of_def is_ok_iff bind_result_def some_or_def split: option.splits sum.splits)

text \<open>A parked job moves on with every refusal of an open task and with every response that brings a fitting new run.\<close>

lemma parked_moves_on:
  assumes inv: "store_inv s" and j: "dict_get (s_jobs s) jid = Some j" and st: "j_status j = WAITING_FOR_HUMAN"
  shows "\<exists>current. dict_get (s_runs s) (jid, j_current_run_id j) = Some current \<and> j_open_task_ids j \<noteq> []
    \<and> (\<forall>task \<in> set (j_open_task_ids j). \<forall>now. is_ok (reject_human_task jid (j_current_run_id j) task now s))
    \<and> (\<forall>run now fresh. resumable jid run j current s \<longrightarrow> is_ok (resume_after_human jid run now fresh s))"
proof -
  obtain current where c: "dict_get (s_runs s) (jid, j_current_run_id j) = Some current" using inv_ids [OF inv j] by auto
  have honest: "job_honest (s_policy s) j" by (rule store_invD(4) [OF inv j])
  have enabled: "is_ok (next_state ((job_facts_of j)\<lparr>f_has_open_tasks := b\<rparr>) HUMAN_REJECTED (s_policy s))"
    "is_ok (next_state (job_facts_of j) HUMAN_RESPONSE_COMMITTED (s_policy s))" for b
    using honest st by (simp_all add: job_honest_def within_ceilings_def next_state_def)
  have "is_ok (reject_human_task jid (j_current_run_id j) task now s)" if t: "task \<in> set (j_open_task_ids j)" for task now
  proof -
    obtain tr where "next_state ((job_facts_of j)\<lparr>f_has_open_tasks := (filter (\<lambda>x. x \<noteq> task) (j_open_task_ids j) \<noteq> [])\<rparr>) HUMAN_REJECTED (s_policy s) = Inr tr"
      using enabled(1) unfolding is_ok_iff by blast
    then obtain x where "reject_human_task jid (j_current_run_id j) task now s = reply jid x"
      using j c t by (simp add: reject_human_task_def)
    then show ?thesis using reject_human_task_no_key [OF inv] reply_is_ok by metis
  qed
  moreover have "is_ok (resume_after_human jid run now fresh s)" if r: "resumable jid run j current s" for run now fresh
  proof -
    obtain tr where "next_state (job_facts_of j) HUMAN_RESPONSE_COMMITTED (s_policy s) = Inr tr"
      using enabled(2) unfolding is_ok_iff by blast
    then obtain x where "resume_after_human jid run now fresh s = reply jid x"
      using j c r by (simp add: resume_after_human_def)
    then show ?thesis using resume_after_human_no_key [OF inv] reply_is_ok by metis
  qed
  ultimately show ?thesis using c honest st by (auto simp: job_honest_def)
qed

text \<open>
  C20.  No accepted work is stuck: every job of a store that satisfies the invariant has ended or can be moved on.  With a
  limit of at least the size of the table it scans, a sweep lists a queued job's round once it is due, a running job's
  lease once it has expired, which can then be reclaimed, and a retryable failure once it is old enough.  A dispatched job,
  which no sweep lists, can be claimed with any lease.  A parked job names open tasks; a refusal of any of them succeeds,
  and so does a response that brings a run it can be resumed on.
\<close>

theorem unfinished_work_is_found:
  assumes "store_inv s" and "dict_get (s_jobs s) jid = Some j"
  shows "case j_status j of
      QUEUED \<Rightarrow> \<exists>d. dr_job_id d = jid \<and> dr_run_id d = j_current_run_id j \<and> (\<forall>now limit. dr_available_at d \<le> now \<longrightarrow>
        1 \<le> limit \<longrightarrow> int (length (s_outbox s)) \<le> limit \<longrightarrow> (\<exists>ds. pending_dispatches now limit s = Inr ds \<and> d \<in> set ds))
    | DISPATCHED \<Rightarrow> \<forall>owner lease now fresh. 1 \<le> lease \<longrightarrow> is_ok (claim jid (j_current_run_id j) owner lease now fresh s)
    | RUNNING \<Rightarrow> \<exists>x. xl_job_id x = jid \<and> xl_run_id x = j_current_run_id j \<and> (\<forall>now limit fresh.
        xl_lease_expires_at x \<le> now \<longrightarrow> 1 \<le> limit \<longrightarrow> int (length (s_runs s)) \<le> limit \<longrightarrow>
        (\<exists>xs. expired_leases now limit s = Inr xs \<and> x \<in> set xs) \<and> is_ok (expire_lease x now fresh s))
    | RETRYABLE_FAILED \<Rightarrow> \<forall>before limit. j_updated_at j \<le> before \<longrightarrow> 1 \<le> limit \<longrightarrow> int (length (s_jobs s)) \<le> limit \<longrightarrow>
        (\<exists>rs. stranded_retryables before limit s = Inr rs \<and> jid \<in> jr_job_id ` set rs)
    | WAITING_FOR_HUMAN \<Rightarrow> \<exists>current. dict_get (s_runs s) (jid, j_current_run_id j) = Some current \<and> j_open_task_ids j \<noteq> []
        \<and> (\<forall>task \<in> set (j_open_task_ids j). \<forall>now. is_ok (reject_human_task jid (j_current_run_id j) task now s))
        \<and> (\<forall>run now fresh. resumable jid run j current s \<longrightarrow> is_ok (resume_after_human jid run now fresh s))
    | _ \<Rightarrow> j_status j \<in> terminal_statuses"
proof (cases "j_status j")
  case QUEUED
  then show ?thesis using queued_round_found [OF assms] by simp
next
  case DISPATCHED
  then show ?thesis using claimable_claims [OF assms] by simp
next
  case RUNNING
  then show ?thesis using running_lease_found [OF assms] by simp
next
  case RETRYABLE_FAILED
  then show ?thesis using stranded_found [OF assms] by simp
next
  case WAITING_FOR_HUMAN
  then show ?thesis using parked_moves_on [OF assms] by simp
qed simp_all

theorem unfinished_work_is_found_witness:
  "\<exists>x. xl_job_id x = 11 \<and> (\<exists>now. \<exists>xs. expired_leases now 1 demo_running = Inr xs \<and> x \<in> set xs)"
proof -
  have j: "dict_get (s_jobs demo_running) 11 = Some (demo_job RUNNING 20)" "length (s_runs demo_running) = 1"
    by (simp_all add: demo_running_def demo_store_def)
  from unfinished_work_is_found [OF demo_invs(3) j(1)] obtain x where
    x: "xl_job_id x = 11" "\<forall>now limit fresh. xl_lease_expires_at x \<le> now \<longrightarrow> 1 \<le> limit \<longrightarrow>
        int (length (s_runs demo_running)) \<le> limit \<longrightarrow>
        (\<exists>xs. expired_leases now limit demo_running = Inr xs \<and> x \<in> set xs) \<and> is_ok (expire_lease x now fresh demo_running)"
    by (auto simp: demo_job_def)
  from x(2) [rule_format, of "xl_lease_expires_at x" 1] j(2) x(1) show ?thesis by fastforce
qed

end
