(* ===== verification/Review_Jobs.thy ===== *)
theory Review_Jobs
  imports Job_Liveness
begin

text \<open>
  \<open>application/review_jobs.py\<close> over the in-memory store, with the result bodies of
  \<open>InMemoryResultStore\<close>.  An operation that awaits the store more than once is not atomic: what other
  actors do in between is an argument \<open>env\<close>, a function on stores, and the theorems assume only that it
  is a run of store operations.  Such an operation returns its value or exception together with the
  store it leaves behind.  \<open>content_digest\<close>, \<open>sha256\<close>, the clock and the jitter are arguments.
\<close>

section \<open>Results and their bodies\<close>

text \<open>Findings, verification and artifact details are opaque to the control plane.\<close>

record 'd service_result =
  sr_run :: run_reference
  sr_result_version :: int
  sr_execution_status :: execution_status
  sr_business_status :: "workflow_status option"
  sr_artifact_status :: artifact_status
  sr_findings :: "'d list"
  sr_verification :: "'d option"
  sr_artifacts :: "(uuid \<times> 'd) list"
  sr_problem :: "service_problem option"
  sr_durable :: bool

definition honest_completion :: "'d service_result \<Rightarrow> bool" where
  "honest_completion r =
     (let written = (sr_artifact_status r = Written) in
      \<not> (sr_execution_status r \<in> {X_QUEUED, X_RUNNING}
          \<and> (sr_business_status r \<noteq> None \<or> sr_verification r \<noteq> None \<or> sr_problem r \<noteq> None
             \<or> sr_artifacts r \<noteq> [] \<or> sr_artifact_status r \<noteq> Not_Requested))
      \<and> \<not> (sr_execution_status r = X_SUCCEEDED \<and> (sr_business_status r = None \<or> sr_problem r \<noteq> None))
      \<and> \<not> (written \<noteq> (sr_artifacts r \<noteq> []) \<or> written \<noteq> (sr_business_status r = Some W_COMPLETED))
      \<and> \<not> (written \<and> sr_execution_status r \<noteq> X_SUCCEEDED)
      \<and> \<not> (sr_execution_status r = X_FAILED \<and> sr_problem r = None))"

text \<open>\<open>ServiceResult\<close>: its field constraints and \<open>honest_completion\<close>.\<close>

definition service_result_valid :: "'d service_result \<Rightarrow> bool" where
  "service_result_valid r = (run_reference_valid (sr_run r) \<and> 1 \<le> sr_result_version r
     \<and> length (sr_artifacts r) \<le> 1 \<and> honest_completion r)"

type_synonym 'd bodies = "(uuid \<times> int, 'd service_result) dict"

definition put_body :: "('d service_result \<Rightarrow> digest) \<Rightarrow> uuid \<Rightarrow> int \<Rightarrow> 'd service_result \<Rightarrow>
    'd bodies \<Rightarrow> (digest \<times> 'd bodies) result" where
  "put_body content_digest rid v body b =
     (if \<not> service_result_valid body then Inl Value_Error
      else if rr_run_id (sr_run body) \<noteq> rid \<or> sr_result_version body \<noteq> v then Inl (Service_Fault CONFLICT)
      else case dict_get b (rid, v) of
        Some stored \<Rightarrow> if content_digest stored \<noteq> content_digest body then Inl (Service_Fault CONFLICT)
          else Inr (content_digest body, dict_set (rid, v) body b)
      | None \<Rightarrow> Inr (content_digest body, dict_set (rid, v) body b))"

definition get_body :: "uuid \<Rightarrow> int \<Rightarrow> 'd bodies \<Rightarrow> 'd service_result option" where
  "get_body rid v b = dict_get b (rid, v)"

section \<open>Caller boundary\<close>

definition permanent_codes :: "service_error_code set" where
  "permanent_codes = {VALIDATION, UNAUTHORIZED, NOT_FOUND}"

definition status_view :: "job_record \<Rightarrow> job_status_view result" where
  "status_view r =
     (let v = \<lparr>v_case_id = jr_case_id r, v_job_id = jr_job_id r, v_job_status = jr_status r,
        v_current_run = Some (jr_current_run r), v_attempt_count = jr_attempt_count r,
        v_result_version = jr_result_version r, v_cancel_requested = jr_cancel_requested r,
        v_open_task_ids = jr_open_task_ids r, v_problem = jr_problem r\<rparr>
      in if honest_status v then Inr v else Inl Value_Error)"

definition result_reference_for :: "'d service_result \<Rightarrow> claimed_attempt \<Rightarrow> digest \<Rightarrow> result_reference" where
  "result_reference_for r a dig = \<lparr>ref_run_id = ca_run_id a, ref_result_version = sr_result_version r,
     ref_fencing_token = ca_fencing_token a, ref_execution_status = sr_execution_status r,
     ref_business_status = sr_business_status r, ref_artifact_status = sr_artifact_status r,
     ref_result_digest = dig, ref_artifact_ids = map fst (sr_artifacts r),
     ref_finding_count = int (length (sr_findings r))\<rparr>"

record submission_outcome =
  so_created :: bool
  so_status :: job_status_view
  so_acceptance :: "job_acceptance option"

text \<open>The value of an operation, or its exception, and the store it leaves.\<close>

definition settle :: "('a \<times> 's) result \<Rightarrow> 's \<Rightarrow> 'a result \<times> 's" where
  "settle m s = (case m of Inl e \<Rightarrow> (Inl e, s) | Inr (x, s') \<Rightarrow> (Inr x, s'))"

definition submit :: "(string \<Rightarrow> string) \<Rightarrow> (review_submission \<Rightarrow> digest) \<Rightarrow> principal \<Rightarrow> review_submission \<Rightarrow>
    uuid \<Rightarrow> uuid \<Rightarrow> int \<Rightarrow> uuid \<Rightarrow> job_store \<Rightarrow> submission_outcome result \<times> job_store" where
  "submit sha256 content_digest p sub jid rid now fresh s =
     (if \<not> review_submission_valid sub then (Inl Value_Error, s)
      else case create_job sha256 content_digest p sub jid rid now fresh s of
        Inl e \<Rightarrow> (Inl e, s)
      | Inr ((rec, created), s') \<Rightarrow>
          (bind_result (status_view rec) (\<lambda>view.
             if \<not> created then Inr \<lparr>so_created = False, so_status = view, so_acceptance = None\<rparr>
             else let acc = \<lparr>acc_case_id = v_case_id view, acc_job_id = v_job_id view, acc_run = jr_current_run rec\<rparr>
                  in bind_result (ensure (job_acceptance_valid acc) Value_Error) (\<lambda>_.
                     Inr \<lparr>so_created = True, so_status = view, so_acceptance = Some acc\<rparr>)), s'))"

definition authorized :: "principal \<Rightarrow> uuid \<Rightarrow> job_store \<Rightarrow> job_record result" where
  "authorized p jid s =
     bind_result (read_job s jid) (\<lambda>found. case found of
       None \<Rightarrow> Inl (Service_Fault NOT_FOUND)
     | Some rec \<Rightarrow>
         if jr_principal_id rec \<noteq> actor_id (pr_actor p) \<or> jr_case_id rec \<notin> set (pr_case_ids p)
         then Inl (Service_Fault NOT_FOUND)
         else bind_result (principal_require p (jr_case_id rec) P_REVIEW) (\<lambda>_. Inr rec))"

definition job_status_of :: "principal \<Rightarrow> uuid \<Rightarrow> job_store \<Rightarrow> job_status_view result" where
  "job_status_of p jid s = bind_result (authorized p jid s) status_view"

text \<open>Three reads: the record, the reference and the body; each may see a later store.\<close>

definition job_result :: "('d service_result \<Rightarrow> digest) \<Rightarrow> principal \<Rightarrow> uuid \<Rightarrow> job_store \<Rightarrow> job_store \<Rightarrow>
    'd bodies \<Rightarrow> 'd service_result result" where
  "job_result content_digest p jid s s1 b =
     bind_result (authorized p jid s) (\<lambda>rec.
       if jr_result_version rec < 1 then Inl (Service_Fault CONFLICT)
       else case (read_result_reference s1 (rr_run_id (jr_current_run rec)) (jr_result_version rec),
                  get_body (rr_run_id (jr_current_run rec)) (jr_result_version rec) b) of
         (Some ref, Some body) \<Rightarrow>
           if content_digest body \<noteq> ref_result_digest ref then Inl (Service_Fault EXECUTION) else Inr body
       | _ \<Rightarrow> Inl (Service_Fault EXECUTION))"

definition cancel_job :: "principal \<Rightarrow> uuid \<Rightarrow> int \<Rightarrow> (job_store \<Rightarrow> job_store) \<Rightarrow> job_store \<Rightarrow>
    job_status_view result \<times> job_store" where
  "cancel_job p jid now env s =
     (case authorized p jid s of Inl e \<Rightarrow> (Inl e, s)
      | Inr rec \<Rightarrow> (case cancel (jr_job_id rec) now (env s) of
            Inl Condition_Failed \<Rightarrow> (Inl (Service_Fault CONFLICT), env s)
          | Inl e \<Rightarrow> (Inl e, env s)
          | Inr (rec', s') \<Rightarrow> (status_view rec', s')))"

section \<open>Worker boundary\<close>

definition claim_job :: "job_policy \<Rightarrow> uuid \<Rightarrow> uuid \<Rightarrow> uuid \<Rightarrow> int \<Rightarrow> uuid \<Rightarrow> job_store \<Rightarrow>
    claimed_attempt result \<times> job_store" where
  "claim_job pol jid rid owner now fresh s = settle (claim jid rid owner (lease_seconds pol) now fresh s) s"

definition heartbeat_job :: "job_policy \<Rightarrow> claimed_attempt \<Rightarrow> int \<Rightarrow> job_store \<Rightarrow> heartbeat_state result \<times> job_store" where
  "heartbeat_job pol a now s = settle (heartbeat a (lease_seconds pol) now s) s"

definition publish :: "('d service_result \<Rightarrow> digest) \<Rightarrow> claimed_attempt \<Rightarrow> 'd service_result \<Rightarrow> int \<Rightarrow>
    (job_store \<Rightarrow> job_store) \<Rightarrow> job_store \<Rightarrow> 'd bodies \<Rightarrow> job_record result \<times> job_store \<times> 'd bodies" where
  "publish content_digest a r now env s b =
     (if \<not> service_result_valid r then (Inl Value_Error, s, b)
      else if rr_run_id (sr_run r) \<noteq> ca_run_id a \<or> sr_result_version r \<noteq> ca_expected_result_version a + 1
      then (Inl (Service_Fault CONFLICT), s, b)
      else case put_body content_digest (ca_run_id a) (sr_result_version r) r b of
        Inl e \<Rightarrow> (Inl e, s, b)
      | Inr (dig, b') \<Rightarrow>
          let (out, s') = settle (finish a PUBLISH_RESULT now None [] (Some (result_reference_for r a dig)) (env s)) (env s)
          in (out, s', b'))"

definition wait_for_human :: "claimed_attempt \<Rightarrow> uuid list \<Rightarrow> int \<Rightarrow> job_store \<Rightarrow> job_record result \<times> job_store" where
  "wait_for_human a tasks now s =
     (if tasks = [] then (Inl (Service_Fault CONFLICT), s)
      else settle (finish a NEEDS_HUMAN now None tasks None s) s)"

text \<open>\<open>_reschedule\<close>; the clock is read once for the delay and once for the write.\<close>

definition reschedule :: "job_policy \<Rightarrow> (int \<Rightarrow> int) \<Rightarrow> job_record \<Rightarrow> int \<Rightarrow> int \<Rightarrow> uuid \<Rightarrow> job_store \<Rightarrow>
    job_record result \<times> job_store" where
  "reschedule pol jitter rec clock1 clock2 fresh s =
     (case backoff_seconds pol (jr_attempt_count rec) of Inl e \<Rightarrow> (Inl e, s)
      | Inr delay \<Rightarrow> settle (schedule_retry (jr_job_id rec) (clock1 + delay + jitter delay) clock2 fresh s) s)"

definition fail_job :: "job_policy \<Rightarrow> (int \<Rightarrow> int) \<Rightarrow> claimed_attempt \<Rightarrow> service_error_code \<Rightarrow> bool \<Rightarrow> int \<Rightarrow> int \<Rightarrow> int \<Rightarrow>
    uuid \<Rightarrow> (job_store \<Rightarrow> job_store) \<Rightarrow> job_store \<Rightarrow> job_record result \<times> job_store" where
  "fail_job pol jitter a code retryable now clock1 clock2 fresh env s =
     (if retryable = (code \<in> permanent_codes) then (Inl Value_Error, s)
      else case finish a (if retryable then RETRYABLE_ERROR else PERMANENT_ERROR) now
                  (Some \<lparr>problem_code = code\<rparr>) [] None s of
        Inl e \<Rightarrow> (Inl e, s)
      | Inr (rec, s') \<Rightarrow>
          if jr_status rec \<noteq> RETRYABLE_FAILED then (Inr rec, s')
          else reschedule pol jitter rec clock1 clock2 fresh (env s'))"

definition acknowledge_cancel :: "claimed_attempt \<Rightarrow> int \<Rightarrow> job_store \<Rightarrow> job_record result \<times> job_store" where
  "acknowledge_cancel a now s = settle (finish a CANCEL_ACKNOWLEDGED now None [] None s) s"

definition resume :: "uuid \<Rightarrow> run_reference \<Rightarrow> int \<Rightarrow> uuid \<Rightarrow> job_store \<Rightarrow> job_record result \<times> job_store" where
  "resume jid run now fresh s = settle (resume_after_human jid run now fresh s) s"

section \<open>Reconciler\<close>

definition due_dispatches :: "int \<Rightarrow> int \<Rightarrow> job_store \<Rightarrow> dispatch_record list result" where
  "due_dispatches now limit s = pending_dispatches now limit s"

definition confirm_dispatch :: "dispatch_record \<Rightarrow> int \<Rightarrow> job_store \<Rightarrow> job_record result \<times> job_store" where
  "confirm_dispatch d now s = settle (mark_dispatched d now s) s"

definition defer_dispatch :: "job_policy \<Rightarrow> (int \<Rightarrow> int) \<Rightarrow> dispatch_record \<Rightarrow> int \<Rightarrow> job_store \<Rightarrow> bool result \<times> job_store" where
  "defer_dispatch pol jitter d now s =
     (case backoff_seconds pol (dr_dispatch_attempts d + 1) of Inl e \<Rightarrow> (Inl e, s)
      | Inr delay \<Rightarrow> settle (reschedule_dispatch d (now + delay + jitter delay) s) s)"

text \<open>\<open>reclaim_expired_leases\<close>: a lost race skips the candidate, any other exception ends the pass.\<close>

fun reclaim_each :: "int \<Rightarrow> (expired_lease \<Rightarrow> uuid) \<Rightarrow> (expired_lease \<Rightarrow> job_store \<Rightarrow> job_store) \<Rightarrow>
    expired_lease list \<Rightarrow> job_store \<Rightarrow> job_record list result \<times> job_store" where
  "reclaim_each now fresh env [] s = (Inr [], s)"
| "reclaim_each now fresh env (x # xs) s =
     (let s0 = env x s in
      case expire_lease x now (fresh x) s0 of
        Inl Condition_Failed \<Rightarrow> reclaim_each now fresh env xs s0
      | Inl e \<Rightarrow> (Inl e, s0)
      | Inr (rec, s1) \<Rightarrow>
          let (out, s2) = reclaim_each now fresh env xs s1
          in (bind_result out (\<lambda>rs. Inr (rec # rs)), s2))"

definition reclaim_expired_leases :: "int \<Rightarrow> int \<Rightarrow> (expired_lease \<Rightarrow> uuid) \<Rightarrow>
    (expired_lease \<Rightarrow> job_store \<Rightarrow> job_store) \<Rightarrow> job_store \<Rightarrow> job_record list result \<times> job_store" where
  "reclaim_expired_leases now limit fresh env s =
     (case expired_leases now limit s of Inl e \<Rightarrow> (Inl e, s)
      | Inr xs \<Rightarrow> reclaim_each now fresh env xs s)"

definition recover_retryable :: "job_policy \<Rightarrow> (int \<Rightarrow> int) \<Rightarrow> uuid \<Rightarrow> int \<Rightarrow> uuid \<Rightarrow> (job_store \<Rightarrow> job_store) \<Rightarrow>
    job_store \<Rightarrow> job_record option result \<times> job_store" where
  "recover_retryable pol jitter jid now fresh env s =
     (case read_job s jid of Inl e \<Rightarrow> (Inl e, s)
      | Inr None \<Rightarrow> (Inr None, s)
      | Inr (Some rec) \<Rightarrow>
          if jr_status rec \<noteq> RETRYABLE_FAILED then (Inr None, s)
          else let (out, s') = reschedule pol jitter rec now now fresh (env s)
               in (case out of Inl Condition_Failed \<Rightarrow> Inr None | Inl e \<Rightarrow> Inl e | Inr r \<Rightarrow> Inr (Some r), s'))"

fun recover_each :: "job_policy \<Rightarrow> (int \<Rightarrow> int) \<Rightarrow> int \<Rightarrow> (uuid \<Rightarrow> uuid) \<Rightarrow> (uuid \<Rightarrow> job_store \<Rightarrow> job_store) \<Rightarrow>
    job_record list \<Rightarrow> job_store \<Rightarrow> nat result \<times> job_store" where
  "recover_each pol jitter now fresh env [] s = (Inr 0, s)"
| "recover_each pol jitter now fresh env (r # rs) s =
     (let jid = jr_job_id r; (out, s1) = recover_retryable pol jitter jid now (fresh jid) (env jid) s in
      case out of Inl e \<Rightarrow> (Inl e, s1)
      | Inr found \<Rightarrow>
          let (rest, s2) = recover_each pol jitter now fresh env rs s1
          in (bind_result rest (\<lambda>n. Inr (if found \<noteq> None then n + 1 else n)), s2))"

definition recover_stranded_retryables :: "job_policy \<Rightarrow> (int \<Rightarrow> int) \<Rightarrow> int \<Rightarrow> int \<Rightarrow> (uuid \<Rightarrow> uuid) \<Rightarrow>
    (uuid \<Rightarrow> job_store \<Rightarrow> job_store) \<Rightarrow> job_store \<Rightarrow> nat result \<times> job_store" where
  "recover_stranded_retryables pol jitter now limit fresh env s =
     (case stranded_retryables (now - lease_seconds pol) limit s of Inl e \<Rightarrow> (Inl e, s)
      | Inr rs \<Rightarrow> recover_each pol jitter now fresh env rs s)"

end
