(* ===== verification/Review_Safety.thy ===== *)
theory Review_Safety
  imports Review_Jobs
begin

text \<open>
  Guarantees of the review job service: honest status views, jobs of other principals that look absent,
  published results that stay readable, failures that are always classified, and what an orphan body
  does to a later attempt.  The result store is used through a locale of the three laws that
  \<open>publish\<close> and \<open>result\<close> rely on.
\<close>

section \<open>The result store as an interface\<close>

locale result_store =
  fixes put :: "uuid \<Rightarrow> int \<Rightarrow> 'b \<Rightarrow> 's \<Rightarrow> (digest \<times> 's) result"
    and get :: "uuid \<Rightarrow> int \<Rightarrow> 's \<Rightarrow> 'b option"
    and dig :: "'b \<Rightarrow> digest"
  assumes put_get: "put r v x s = Inr (d, t) \<Longrightarrow> get r v t = Some x \<and> d = dig x"
    and put_other: "put r v x s = Inr (d, t) \<Longrightarrow> (r', v') \<noteq> (r, v) \<Longrightarrow> get r' v' t = get r' v' s"
    and put_pinned: "put r v x s = Inr (d, t) \<Longrightarrow> get r v s = Some y \<Longrightarrow> dig y = dig x"
begin

definition writes :: "'s \<Rightarrow> 's \<Rightarrow> bool" where
  "writes s t = (\<exists>r v x d. put r v x s = Inr (d, t))"

lemma write_keeps_digest:
  assumes "writes s t" and "get r v s = Some y"
  shows "\<exists>z. get r v t = Some z \<and> dig z = dig y"
proof -
  from assms(1) obtain r' v' x d where p: "put r' v' x s = Inr (d, t)" by (auto simp: writes_def)
  show ?thesis
  proof (cases "(r, v) = (r', v')")
    case True
    then show ?thesis using put_get [OF p] put_pinned [OF p, of y] assms(2) by auto
  next
    case False
    then show ?thesis using put_other [OF p False] assms(2) by auto
  qed
qed

lemma run_keeps_digest:
  assumes "writes\<^sup>*\<^sup>* s t" and "get r v s = Some y"
  shows "\<exists>z. get r v t = Some z \<and> dig z = dig y"
  using assms
  by (induction rule: rtranclp_induct) (auto dest: write_keeps_digest)

end

interpretation result_bodies: result_store "put_body content_digest" get_body content_digest
  for content_digest :: "'d service_result \<Rightarrow> digest"
  by unfold_locales (auto simp: put_body_def get_body_def split: if_splits option.splits)

section \<open>Status views\<close>

lemma record_view_honest:
  assumes inv: "store_inv s" and j: "dict_get (s_jobs s) jid = Some j"
    and r: "dict_get (s_runs s) (jid, j_current_run_id j) = Some r"
  shows "\<exists>v. status_view (make_record j r) = Inr v \<and> honest_status v \<and> v_job_status v = j_status j
     \<and> v_job_id v = jid \<and> v_case_id v = j_case_id j"
proof -
  have hon: "job_honest (s_policy s) j" by (rule store_invD(4) [OF inv j])
  have bk: "job_backed s jid j" by (rule store_invD(5) [OF inv j])
  have ok: "run_ok s jid (j_current_run_id j) r" by (rule store_invD(6) [OF inv r])
  let ?v = "\<lparr>v_case_id = j_case_id j, v_job_id = j_job_id j, v_job_status = j_status j,
    v_current_run = Some (jr_current_run (make_record j r)), v_attempt_count = j_attempt_count j,
    v_result_version = r_result_version r, v_cancel_requested = j_cancel_requested j,
    v_open_task_ids = j_open_task_ids j, v_problem = j_problem j\<rparr>"
  have "0 \<le> j_attempt_count j" using hon by (simp add: job_honest_def within_ceilings_def)
  moreover have "0 \<le> r_result_version r" "rev_case_id (r_revision r) = j_case_id j" using ok j by (auto simp: run_ok_def)
  moreover have "j_status j = SUCCEEDED \<longrightarrow> 1 \<le> r_result_version r" using bk r by (auto simp: job_backed_def)
  ultimately have "honest_status ?v" using hon by (simp add: honest_status_def job_honest_def make_record_def) linarith
  moreover have "status_view (make_record j r) = (if honest_status ?v then Inr ?v else Inl Value_Error)"
    by (simp add: status_view_def Let_def make_record_def)
  moreover have "j_job_id j = jid" using bk by (simp add: job_backed_def)
  ultimately show ?thesis by simp
qed

lemma read_job_inv:
  assumes inv: "store_inv s"
  shows "read_job s jid = (case dict_get (s_jobs s) jid of None \<Rightarrow> Inr None
     | Some j \<Rightarrow> (case dict_get (s_runs s) (jid, j_current_run_id j) of None \<Rightarrow> Inl Key_Error
         | Some r \<Rightarrow> Inr (Some (make_record j r))))"
  using inv_ids [OF inv] by (auto simp: read_job_def job_record_of_def some_or_def split: option.splits)

lemma authorizedE:
  assumes inv: "store_inv s"
  obtains (refused) e where "authorized p jid s = Inl e" "e \<in> {Service_Fault NOT_FOUND, Service_Fault UNAUTHORIZED}"
    | (granted) j r where "authorized p jid s = Inr (make_record j r)" "dict_get (s_jobs s) jid = Some j"
        "dict_get (s_runs s) (jid, j_current_run_id j) = Some r" "j_principal_id j = actor_id (pr_actor p)"
        "j_case_id j \<in> set (pr_case_ids p)" "P_REVIEW \<in> set (pr_permissions p)"
proof (cases "dict_get (s_jobs s) jid")
  case None
  then show ?thesis by (intro refused [of "Service_Fault NOT_FOUND"]) (simp_all add: authorized_def read_job_def)
next
  case (Some j)
  obtain r where r: "dict_get (s_runs s) (jid, j_current_run_id j) = Some r" using inv_ids(2) [OF inv Some] by auto
  have "read_job s jid = Inr (Some (make_record j r))" using read_job_inv [OF inv] Some r by simp
  then show ?thesis
    using Some r refused granted
    by (cases "j_principal_id j = actor_id (pr_actor p) \<and> j_case_id j \<in> set (pr_case_ids p)";
        cases "P_REVIEW \<in> set (pr_permissions p)")
      (auto simp: authorized_def make_record_def principal_require_def)
qed

text \<open>
  C24.  A status read never fabricates: over a store that satisfies the invariant it either refuses with
  not-found or unauthorized, or returns a view that passes the contract's own validator and shows the
  stored status of the caller's own job; the validator can never raise on stored data.
\<close>

theorem status_reads_are_honest:
  assumes "store_inv s"
  shows "case job_status_of p jid s of
      Inl e \<Rightarrow> e \<in> {Service_Fault NOT_FOUND, Service_Fault UNAUTHORIZED}
    | Inr v \<Rightarrow> honest_status v \<and> v_job_id v = jid \<and> (\<exists>j. dict_get (s_jobs s) jid = Some j
        \<and> v_job_status v = j_status j \<and> v_case_id v = j_case_id j \<and> j_principal_id j = actor_id (pr_actor p)
        \<and> j_case_id j \<in> set (pr_case_ids p) \<and> P_REVIEW \<in> set (pr_permissions p))"
  using assms
proof (rule authorizedE [where p = p and jid = jid])
  fix e assume "authorized p jid s = Inl e" "e \<in> {Service_Fault NOT_FOUND, Service_Fault UNAUTHORIZED}"
  then show ?thesis by (simp add: job_status_of_def)
next
  fix j r
  assume "authorized p jid s = Inr (make_record j r)" and j: "dict_get (s_jobs s) jid = Some j"
    and r: "dict_get (s_runs s) (jid, j_current_run_id j) = Some r"
    and "j_principal_id j = actor_id (pr_actor p)" "j_case_id j \<in> set (pr_case_ids p)" "P_REVIEW \<in> set (pr_permissions p)"
  with record_view_honest [OF assms j r] show ?thesis by (auto simp: job_status_of_def)
qed

theorem status_reads_are_honest_witness:
  "\<exists>v. job_status_of demo_principal 11 demo_running = Inr v \<and> honest_status v \<and> v_job_status v = RUNNING"
proof -
  have "authorized demo_principal 11 demo_running = Inr (make_record (demo_job RUNNING 20) demo_claimed_run)"
    by (simp add: authorized_def read_job_def demo_running_def demo_simps principal_require_def make_record_def
        demo_claimed_run_def)
  moreover have "is_ok (status_view (make_record (demo_job RUNNING 20) demo_claimed_run))"
    by (simp add: status_view_def make_record_def honest_status_def demo_claimed_run_def demo_simps)
  ultimately obtain v where "job_status_of demo_principal 11 demo_running = Inr v"
    by (auto simp: job_status_of_def is_ok_iff)
  with status_reads_are_honest [OF demo_invs(3), of 11 demo_principal] show ?thesis
    by (auto simp: demo_running_def demo_store_def demo_job_def)
qed

text \<open>
  Jobs of other principals look absent: when the job does not exist, belongs to someone else or
  lies in a case the caller cannot see, reading its status, fetching its result and cancelling it all
  answer not-found, and a refused cancel leaves the store as it was.
\<close>

theorem foreign_jobs_look_absent:
  assumes "store_inv s"
    and "\<And>j. dict_get (s_jobs s) jid = Some j \<Longrightarrow>
       j_principal_id j \<noteq> actor_id (pr_actor p) \<or> j_case_id j \<notin> set (pr_case_ids p)"
  shows "job_status_of p jid s = Inl (Service_Fault NOT_FOUND)
     \<and> job_result cd p jid s s1 b = Inl (Service_Fault NOT_FOUND)
     \<and> cancel_job p jid now env s = (Inl (Service_Fault NOT_FOUND), s)"
proof -
  have "authorized p jid s = Inl (Service_Fault NOT_FOUND)"
  proof (cases "dict_get (s_jobs s) jid")
    case (Some j)
    obtain r where "dict_get (s_runs s) (jid, j_current_run_id j) = Some r" using inv_ids(2) [OF assms(1) Some] by auto
    with Some assms(2) [OF Some] read_job_inv [OF assms(1), of jid] show ?thesis
      by (auto simp: authorized_def make_record_def)
  qed (simp add: authorized_def read_job_def)
  then show ?thesis by (simp add: job_status_of_def job_result_def cancel_job_def)
qed

theorem foreign_jobs_look_absent_witness:
  "job_status_of (demo_principal\<lparr>pr_actor := \<lparr>actor_id = ''bob'', actor_kind = A_human\<rparr>\<rparr>) 11 demo_running
   = Inl (Service_Fault NOT_FOUND)"
proof -
  have "j_principal_id j \<noteq> ''bob''" if "dict_get (s_jobs demo_running) 11 = Some j" for j
    using that by (auto simp: demo_running_def demo_store_def demo_job_def)
  then show ?thesis
    by (intro foreign_jobs_look_absent [THEN conjunct1, OF demo_invs(3)]) simp
qed

section \<open>Publication\<close>

lemma publishE:
  assumes "publish cd a r now env s b = (Inr rec, s1, b1)"
  obtains "put_body cd (ca_run_id a) (sr_result_version r) r b = Inr (cd r, b1)"
    "finish a PUBLISH_RESULT now None [] (Some (result_reference_for r a (cd r))) (env s) = Inr (rec, s1)"
  using assms
  by (auto simp: publish_def settle_def put_body_def Let_def split: if_splits option.splits sum.splits prod.splits)

lemma published_store:
  assumes "finish a PUBLISH_RESULT now None [] (Some ref) s = Inr (rec, s1)" and inv: "store_inv s"
  obtains j r where "dict_get (s_jobs s1) (ca_job_id a) = Some j" "j_status j = SUCCEEDED"
    "j_current_run_id j = ca_run_id a" "dict_get (s_runs s1) (ca_job_id a, ca_run_id a) = Some r"
    "r_result_version r = ref_result_version ref" "1 \<le> ref_result_version ref"
    "read_result_reference s1 (ca_run_id a) (ref_result_version ref) = Some ref" "rec = make_record j r"
  using assms(1)
proof (rule finishE)
  fix j r t r1 s2
  assume au: "authority a s = Inr (j, r)"
    and n: "next_state ((job_facts_of j)\<lparr>f_has_open_tasks := (([] :: uuid list) \<noteq> [])\<rparr>) PUBLISH_RESULT (s_policy s) = Inr t"
    and c: "commit_for_event PUBLISH_RESULT r a (Some ref) s = Inr (r1, s2)"
    and s1: "s1 = finished_store a PUBLISH_RESULT t (finished_job t None [] now j) r1 s2"
    and rep: "reply (ca_job_id a) s1 = Inr (rec, s1)"
  note d = authorityD [OF au] authority_current [OF inv au] commit_for_event_inv [OF c inv au]
  have t: "t_status t = SUCCEEDED" using finish_status(4) [OF n] by (simp add: finish_events_def)
  from c commit_resultD [of r a "Some ref" s r1 s2] have
    v: "ref_result_version ref = r_result_version r + 1" "r1 = r\<lparr>r_result_version := r_result_version r + 1\<rparr>"
    "s_results s2 = dict_set (ca_run_id a, r_result_version r + 1) ref (s_results s)"
    by (auto simp: commit_for_event_Inr)
  let ?j = "finished_job t None [] now j" and ?r = "release_lease (t_release_lease t) (r1\<lparr>r_run_status := t_status t\<rparr>)"
  have jobs: "dict_get (s_jobs s1) (ca_job_id a) = Some ?j" using d by (simp add: s1 finished_store_def Let_def)
  moreover have runs: "dict_get (s_runs s1) (ca_job_id a, ca_run_id a) = Some ?r"
    using d by (simp add: s1 finished_store_def Let_def)
  moreover have "read_result_reference s1 (ca_run_id a) (ref_result_version ref) = Some ref"
    using v by (simp add: s1 finished_store_def Let_def read_result_reference_def)
  moreover have "rec = make_record ?j ?r"
    using replyD(2) [OF rep] jobs runs d by simp
  ultimately show thesis using that [of ?j ?r] d v t by simp
qed

text \<open>
  C19.  What was published is what is served: once \<open>publish\<close> has returned, the owner of the job gets a
  body with exactly the published digest at every later time, through any interleaving of further store
  operations and body writes, whatever interfered between the body write and the commit.
\<close>

theorem published_result_is_served:
  assumes "publish cd a r now env s b = (Inr rec, s1, b1)" and "store_inv (env s)"
    and "store_step\<^sup>*\<^sup>* s1 t" and "store_step\<^sup>*\<^sup>* t t'" and "(result_store.writes (put_body cd))\<^sup>*\<^sup>* b1 b2"
    and "jr_principal_id rec = actor_id (pr_actor p)" and "jr_case_id rec \<in> set (pr_case_ids p)"
    and "P_REVIEW \<in> set (pr_permissions p)"
  shows "\<exists>body. job_result cd p (ca_job_id a) t t' b2 = Inr body \<and> cd body = cd r"
proof -
  let ?ref = "result_reference_for r a (cd r)"
  from assms(1) have put: "put_body cd (ca_run_id a) (sr_result_version r) r b = Inr (cd r, b1)"
    and fin: "finish a PUBLISH_RESULT now None [] (Some ?ref) (env s) = Inr (rec, s1)" by (auto elim: publishE)
  from published_store [OF fin assms(2)] obtain j rn where
    j: "dict_get (s_jobs s1) (ca_job_id a) = Some j" "j_status j = SUCCEEDED" "j_current_run_id j = ca_run_id a"
    and rn: "dict_get (s_runs s1) (ca_job_id a, ca_run_id a) = Some rn" "r_result_version rn = sr_result_version r"
      "1 \<le> sr_result_version r"
    and ref: "read_result_reference s1 (ca_run_id a) (sr_result_version r) = Some ?ref" and rec: "rec = make_record j rn"
    by (auto simp: result_reference_for_def)
  have inv1: "store_inv s1" using finish_inv [OF fin assms(2)] .
  have invt: "store_inv t" using assms(3) inv1 by (rule job_system.run_inv)
  note ev = run_evolves_store [OF assms(3) inv1]
  from evolvesD(2) [OF ev j(1)] j(2) obtain j' where j': "dict_get (s_jobs t) (ca_job_id a) = Some j'" "job_frozen j j'"
    "j_principal_id j' = j_principal_id j" "j_case_id j' = j_case_id j"
    by (auto simp: job_evolves_def)
  have cur: "j_current_run_id j' = ca_run_id a" "j_status j' = SUCCEEDED" using job_frozenD [OF j'(2)] j by auto
  from evolvesD(7) [OF ev j(1) _ rn(1)] j(2) obtain rt where
    rt: "dict_get (s_runs t) (ca_job_id a, ca_run_id a) = Some rt" "r_result_version rt = sr_result_version r"
    using rn(2) by auto
  have run_id: "r_run_id rt = ca_run_id a" using store_invD(6) [OF invt rt(1)] by (simp add: run_ok_def)
  have "authorized p (ca_job_id a) t = Inr (make_record j' rt)"
    using read_job_inv [OF invt, of "ca_job_id a"] j' cur rt assms(6-8) rec
    by (simp add: authorized_def make_record_def principal_require_def)
  moreover have "read_result_reference t' (ca_run_id a) (sr_result_version r) = Some ?ref"
    using evolvesD(5) [OF run_evolves_store [OF assms(4) invt]] evolvesD(5) [OF ev] ref
    by (simp add: read_result_reference_def)
  moreover obtain body where "get_body (ca_run_id a) (sr_result_version r) b2 = Some body" "cd body = cd r"
    using result_bodies.run_keeps_digest [OF assms(5)] result_bodies.put_get [OF put] by blast
  ultimately show ?thesis
    using rt run_id rn(3) by (simp add: job_result_def make_record_def result_reference_for_def)
qed

definition demo_body :: "nat service_result" where
  "demo_body = \<lparr>sr_run = \<lparr>rr_run_id = 12, rr_revision = sub_revision demo_submission, rr_attempt_id = Some 16,
       rr_runtime_session_id = None\<rparr>, sr_result_version = 1, sr_execution_status = X_SUCCEEDED,
     sr_business_status = Some W_VERIFIED, sr_artifact_status = Not_Requested, sr_findings = [], sr_verification = None,
     sr_artifacts = [], sr_problem = None, sr_durable = True\<rparr>"

definition demo_body_digest :: "nat service_result \<Rightarrow> digest" where
  "demo_body_digest r = (case rr_attempt_id (sr_run r) of None \<Rightarrow> ''none'' | Some n \<Rightarrow> replicate n CHR ''x'')"

lemma demo_body_valid: "service_result_valid demo_body"
  by (simp add: demo_body_def service_result_valid_def run_reference_valid_def honest_completion_def Let_def)

lemma demo_publish_body:
  "\<exists>rec s b. publish demo_body_digest demo_attempt demo_body 50 id demo_running [] = (Inr rec, s, b)
     \<and> jr_principal_id rec = ''alice'' \<and> jr_case_id rec = ''case1''"
  using demo_body_valid
  by (simp add: publish_def put_body_def settle_def demo_body_def result_reference_for_def finish_unfold
      demo_running_def demo_attempt_def demo_claimed_run_def demo_simps make_record_def)

theorem published_result_is_served_witness:
  "\<exists>t b body. job_result demo_body_digest demo_principal 11 t t b = Inr body
     \<and> demo_body_digest body = demo_body_digest demo_body"
proof -
  from demo_publish_body obtain rec t b where
    p: "publish demo_body_digest demo_attempt demo_body 50 id demo_running [] = (Inr rec, t, b)"
    "jr_principal_id rec = actor_id (pr_actor demo_principal)" "jr_case_id rec \<in> set (pr_case_ids demo_principal)"
    by auto
  have "ca_job_id demo_attempt = 11" by (simp add: demo_attempt_def)
  with published_result_is_served [OF p(1) _ rtranclp.rtrancl_refl rtranclp.rtrancl_refl rtranclp.rtrancl_refl p(2,3)]
    demo_invs(3) show ?thesis by auto
qed

lemma fenced_publish_writes:
  assumes "publish cd a r now env s b = (Inl Condition_Failed, s1, b1)"
  shows "put_body cd (ca_run_id a) (ca_expected_result_version a + 1) r b = Inr (cd r, b1)"
  using assms by (auto simp: publish_def put_body_def Let_def split: if_splits option.splits prod.splits)

text \<open>
  C26.  A body left behind blocks its successors.  When an attempt wrote its body and then lost its lease before the
  commit, so that the store refused it, or its process died between the two, then after any further body writes every
  publish on that run and version is decided by that body: a valid result with another digest is refused with a conflict
  and changes neither the store nor the bodies, whoever holds the lease; only a result with the digest of the body left
  behind reaches the commit.
\<close>

theorem orphan_body_blocks_publication:
  assumes "publish cd a0 orphan now0 env0 s0 b = (Inl Condition_Failed, s1, b1)
      \<or> put_body cd (ca_run_id a0) (ca_expected_result_version a0 + 1) orphan b = Inr (d, b1)"
    and "(result_store.writes (put_body cd))\<^sup>*\<^sup>* b1 b2"
    and "ca_run_id a = ca_run_id a0" and "ca_expected_result_version a = ca_expected_result_version a0"
    and "service_result_valid r" and "rr_run_id (sr_run r) = ca_run_id a" and "sr_result_version r = ca_expected_result_version a + 1"
  shows "publish cd a r now env s b2 =
    (if cd r \<noteq> cd orphan then (Inl (Service_Fault CONFLICT), s, b2)
     else case settle (finish a PUBLISH_RESULT now None [] (Some (result_reference_for r a (cd r))) (env s)) (env s) of
       (out, s') \<Rightarrow> (out, s', dict_set (ca_run_id a, sr_result_version r) r b2))"
proof -
  obtain d' where "put_body cd (ca_run_id a0) (ca_expected_result_version a0 + 1) orphan b = Inr (d', b1)"
    using assms(1) fenced_publish_writes by blast
  then have "get_body (ca_run_id a) (sr_result_version r) b1 = Some orphan" using assms(3,4,7) result_bodies.put_get by metis
  then obtain z where "get_body (ca_run_id a) (sr_result_version r) b2 = Some z" "cd z = cd orphan"
    using result_bodies.run_keeps_digest [OF assms(2)] by blast
  then show ?thesis using assms(5-7) by (simp add: publish_def put_body_def get_body_def)
qed

text \<open>An attempt whose lease another attempt has taken over, and the attempt that holds it now.\<close>

theorem orphan_body_blocks_publication_witness:
  "\<exists>orphan. service_result_valid orphan
     \<and> publish demo_body_digest (demo_attempt\<lparr>ca_fencing_token := ca_fencing_token demo_attempt - 1\<rparr>) orphan 50 id demo_running []
       = (Inl Condition_Failed, demo_running, [((12, 1), orphan)])
     \<and> publish demo_body_digest demo_attempt demo_body 50 id demo_running [((12, 1), orphan)]
       = (Inl (Service_Fault CONFLICT), demo_running, [((12, 1), orphan)])"
proof -
  let ?orphan = "demo_body\<lparr>sr_run := (sr_run demo_body)\<lparr>rr_attempt_id := Some 15\<rparr>\<rparr>"
  let ?stale = "demo_attempt\<lparr>ca_fencing_token := ca_fencing_token demo_attempt - 1\<rparr>"
  have v: "service_result_valid ?orphan"
    by (simp add: demo_body_def service_result_valid_def run_reference_valid_def honest_completion_def Let_def)
  have "demo_body_digest ?orphan = replicate 15 CHR ''x''" "demo_body_digest demo_body = replicate 16 CHR ''x''"
    by (simp_all add: demo_body_digest_def demo_body_def)
  then have dig: "demo_body_digest demo_body \<noteq> demo_body_digest ?orphan" by (simp add: replicate_eq_replicate)
  have a: "ca_run_id demo_attempt = 12" "ca_expected_result_version demo_attempt = 0" "rr_run_id (sr_run demo_body) = 12"
      "sr_result_version demo_body = 1" by (simp_all add: demo_attempt_def demo_body_def)
  have "finish ?stale PUBLISH_RESULT 50 None [] ref demo_running = Inl Condition_Failed" for ref
    by (simp add: finish_def finish_events_def authority_def demo_running_def demo_attempt_def demo_claimed_run_def demo_simps)
  then have left: "publish demo_body_digest ?stale ?orphan 50 id demo_running [] = (Inl Condition_Failed, demo_running, [((12, 1), ?orphan)])"
    using v a by (simp add: publish_def put_body_def settle_def)
  have "publish demo_body_digest demo_attempt demo_body 50 id demo_running [((12, 1), ?orphan)]
     = (Inl (Service_Fault CONFLICT), demo_running, [((12, 1), ?orphan)])"
    using dig orphan_body_blocks_publication [OF disjI1 [OF left] rtranclp.rtrancl_refl, of demo_attempt demo_body 50 id demo_running]
      demo_body_valid a by simp
  with v left show ?thesis by blast
qed

section \<open>Failures\<close>

lemma reply_total:
  assumes "no_key_error (reply jid s)"
  obtains rec where "reply jid s = Inr (rec, s)"
  using assms by (auto simp: no_key_error_def reply_def job_record_of_def bind_result_def some_or_def split: option.splits)

lemma finish_error_total:
  assumes inv: "store_inv s" and e: "e \<in> {RETRYABLE_ERROR, PERMANENT_ERROR}"
  shows "finish a e now (Some pr) [] None s = Inl Condition_Failed
     \<or> (\<exists>rec s'. finish a e now (Some pr) [] None s = Inr (rec, s'))"
proof (cases "authority a s")
  case (Inl f)
  then have "f = Condition_Failed" by (auto simp: authority_def split: option.splits if_splits)
  with Inl e show ?thesis by (auto simp: finish_def finish_events_def)
next
  case (Inr jr)
  obtain j r where au: "authority a s = Inr (j, r)" using Inr by (cases jr) simp
  note d = authorityD [OF au]
  have "within_ceilings (s_policy s) (job_facts_of j)" using store_invD(4) [OF inv d(1)] by (simp add: job_honest_def)
  then have "is_ok (next_state ((job_facts_of j)\<lparr>f_has_open_tasks := False\<rparr>) e (s_policy s))"
    using d(6) e by (auto simp: within_ceilings_def next_state_def Let_def)
  then obtain t where t: "next_state ((job_facts_of j)\<lparr>f_has_open_tasks := False\<rparr>) e (s_policy s) = Inr t"
    by (auto simp: is_ok_iff)
  have c: "commit_for_event e r a None s = Inr (r, s)" using e by (auto simp: commit_for_event_def)
  from finished_reply [OF inv au c] obtain rec where
    "reply (ca_job_id a) (finished_store a e t (finished_job t (Some pr) [] now j) r s)
       = Inr (rec, finished_store a e t (finished_job t (Some pr) [] now j) r s)" by (rule reply_total)
  with au t c e show ?thesis by (auto simp: finish_def finish_events_def)
qed

lemma finish_record:
  assumes "finish a e now pr tasks ref s = Inr (rec, s')" and inv: "store_inv s"
  obtains j r where "rec = make_record j r" "dict_get (s_jobs s') (ca_job_id a) = Some j" "job_honest (s_policy s') j"
    "j_job_id j = ca_job_id a"
proof -
  have inv': "store_inv s'" using assms by (rule finish_inv)
  from assms(1) have "reply (ca_job_id a) s' = Inr (rec, s')" by (rule finishE)
  from replyD(2) [OF this] obtain j r where "dict_get (s_jobs s') (ca_job_id a) = Some j" "rec = make_record j r" by blast
  with that store_invD(4,5) [OF inv'] show ?thesis by (auto simp: job_backed_def)
qed

lemma finish_error_status:
  assumes "finish a e now pr [] ref s = Inr (rec, s')" and "store_inv s" and "e \<in> {RETRYABLE_ERROR, PERMANENT_ERROR}"
  shows "jr_status rec \<in> {FAILED, CANCELLED, RETRYABLE_FAILED}"
  using assms(1)
proof (rule finishE)
  fix j r t r1 s1
  assume au: "authority a s = Inr (j, r)"
    and n: "next_state ((job_facts_of j)\<lparr>f_has_open_tasks := ([] \<noteq> ([] :: uuid list))\<rparr>) e (s_policy s) = Inr t"
    and s': "s' = finished_store a e t (finished_job t pr [] now j) r1 s1" and rep: "reply (ca_job_id a) s' = Inr (rec, s')"
  have "t_status t \<in> {FAILED, CANCELLED, RETRYABLE_FAILED}"
    using next_state_InrD(6) [OF n] assms(3) by (auto simp: Let_def split: if_splits)
  moreover have "jr_status rec = t_status t"
    using replyD(2) [OF rep] authority_current(2) [OF assms(2) au]
    by (auto simp: s' finished_store_def Let_def make_record_def)
  ultimately show ?thesis by simp
qed

lemma schedule_retry_total:
  assumes inv: "store_inv s"
  shows "schedule_retry jid av now fresh s = Inl Condition_Failed
     \<or> (\<exists>rec s'. schedule_retry jid av now fresh s = Inr (rec, s') \<and> jr_status rec = QUEUED)"
proof (cases "schedule_retry jid av now fresh s")
  case (Inl f)
  have "f = Condition_Failed"
  proof (rule ccontr)
    assume f: "f \<noteq> Condition_Failed"
    with Inl obtain j where j: "dict_get (s_jobs s) jid = Some j"
      by (cases "dict_get (s_jobs s) jid") (auto simp: schedule_retry_def)
    have "within_ceilings (s_policy s) (job_facts_of j)" using store_invD(4) [OF inv j] by (simp add: job_honest_def)
    then have "next_state (job_facts_of j) SCHEDULE_RETRY (s_policy s) \<noteq> Inl Value_Error"
      by (auto simp: next_state_def within_ceilings_def)
    moreover have "f \<noteq> Key_Error" using schedule_retry_no_key [OF inv] Inl by (metis no_key_error_def)
    ultimately show False
      using Inl f j
      by (auto simp: schedule_retry_def Let_def bind_result_eq_Inl lost_race_def on_error_def reply_def job_record_of_def
          next_state_def split: sum.splits if_splits)
  qed
  with Inl show ?thesis by simp
next
  case (Inr y)
  obtain rec s' where y: "y = (rec, s')" by (cases y)
  with Inr have "reply jid s' = Inr (rec, s')" and "\<exists>j. dict_get (s_jobs s') jid = Some j \<and> j_status j = QUEUED"
  proof -
    from Inr y have r: "schedule_retry jid av now fresh s = Inr (rec, s')" by simp
    then show "reply jid s' = Inr (rec, s')" by (rule schedule_retryE)
    from r show "\<exists>j. dict_get (s_jobs s') jid = Some j \<and> j_status j = QUEUED"
    proof (rule schedule_retryE)
      fix j :: job and rn :: run
      let ?j = "j\<lparr>j_status := QUEUED, j_problem := None, j_updated_at := now\<rparr>"
      assume j: "dict_get (s_jobs s) jid = Some j"
        and s': "s' = enqueue ?j (j_current_run_id j) av fresh (put_job ?j (put_run jid (rn\<lparr>r_run_status := QUEUED\<rparr>) s))"
      have "j_job_id ?j = jid" using inv_ids(1) [OF inv j] by simp
      with enqueue_reads(1) [of ?j] show ?thesis by (auto simp: s')
    qed
  qed
  with replyD(2) [of jid s' rec s'] have "jr_status rec = QUEUED" by (auto simp: make_record_def)
  with Inr y show ?thesis by blast
qed

lemma fail_job_outcomes:
  assumes "store_inv s" and "retryable = (code \<notin> permanent_codes)" and "\<And>t. store_step\<^sup>*\<^sup>* t (env t)"
  shows "fst (fail_job pol jitter a code retryable now c1 c2 fresh env s) = Inl Condition_Failed
     \<or> (\<exists>rec. fst (fail_job pol jitter a code retryable now c1 c2 fresh env s) = Inr rec
          \<and> jr_status rec \<in> {QUEUED, FAILED, CANCELLED})"
proof -
  let ?e = "if retryable then RETRYABLE_ERROR else PERMANENT_ERROR"
  let ?fin = "finish a ?e now (Some \<lparr>problem_code = code\<rparr>) [] None s"
  have fj: "fail_job pol jitter a code retryable now c1 c2 fresh env s =
     (case ?fin of Inl e \<Rightarrow> (Inl e, s) | Inr (rec, s') \<Rightarrow>
        if jr_status rec \<noteq> RETRYABLE_FAILED then (Inr rec, s') else reschedule pol jitter rec c1 c2 fresh (env s'))"
    using assms(2) by (simp add: fail_job_def)
  have e: "?e \<in> {RETRYABLE_ERROR, PERMANENT_ERROR}" by simp
  from finish_error_total [OF assms(1) e, of a now "\<lparr>problem_code = code\<rparr>"] show ?thesis
  proof (elim disjE exE)
    fix rec s' assume fin: "?fin = Inr (rec, s')"
    then have inv': "store_inv s'" using assms(1) by (rule finish_inv)
    from fin assms(1) obtain j r where jr: "rec = make_record j r" "job_honest (s_policy s') j"
      by (rule finish_record)
    show ?thesis
    proof (cases "jr_status rec = RETRYABLE_FAILED")
      case True
      then have "1 \<le> j_attempt_count j" using jr by (simp add: make_record_def job_honest_def within_ceilings_def)
      then obtain d where "backoff_seconds pol (jr_attempt_count rec) = Inr d"
        using jr(1) by (auto simp: backoff_seconds_def make_record_def Let_def)
      moreover have "store_inv (env s')" using assms(3) inv' by (rule job_system.run_inv)
      ultimately show ?thesis
        using schedule_retry_total [of "env s'" "jr_job_id rec" "c1 + d + jitter d" c2 fresh] fin True
        by (auto simp: fj reschedule_def settle_def)
    next
      case False
      have "jr_status rec \<in> {FAILED, CANCELLED, RETRYABLE_FAILED}"
        using fin assms(1) e by (rule finish_error_status)
      with False fin show ?thesis by (auto simp: fj)
    qed
  next
    assume "?fin = Inl Condition_Failed"
    then show ?thesis by (simp add: fj)
  qed
qed

text \<open>
  A worker's failure report is total: when retryability matches the error code, reporting it either
  loses the race for the attempt or ends in a queued, failed or cancelled job; no other exception can
  escape, in particular the backoff of the retry that follows is always defined, even when other actors
  interfere between ending the attempt and scheduling the retry.
\<close>

theorem fail_job_total:
  assumes "store_inv s" and "retryable = (code \<notin> permanent_codes)" and "\<And>t. store_step\<^sup>*\<^sup>* t (env t)"
  shows "fst (fail_job pol jitter a code retryable now c1 c2 fresh env s) = Inl Condition_Failed
     \<or> (\<exists>rec. fst (fail_job pol jitter a code retryable now c1 c2 fresh env s) = Inr rec
          \<and> jr_status rec \<in> {QUEUED, FAILED, CANCELLED})"
  using assms by (rule fail_job_outcomes)

theorem fail_job_total_witness:
  "fst (fail_job default_policy id demo_attempt EXECUTION True 60 60 60 70 id demo_running) = Inl Condition_Failed
   \<or> (\<exists>rec. fst (fail_job default_policy id demo_attempt EXECUTION True 60 60 60 70 id demo_running) = Inr rec
        \<and> jr_status rec \<in> {QUEUED, FAILED, CANCELLED})"
  by (rule fail_job_total [OF demo_invs(3)]) (simp_all add: permanent_codes_def)

end
