(* ===== verification/Outbox_Worker.thy ===== *)
theory Outbox_Worker
  imports Review_Safety
begin

text \<open>
  \<open>application/outbox.py\<close> and \<open>application/runtime_worker.py\<close>: the passes that move durable work
  to the queue and the worker that executes one message.  The queue sender, the execution of the
  review and the other actors are arguments: \<open>send\<close> says how handing a message to the queue ends, \<open>env n\<close>
  is what the others do at the n-th await, and the execution ends with a value or an exception.
\<close>

section \<open>Outbox dispatch\<close>

record dispatch_message =
  dm_job_id :: uuid
  dm_run_id :: uuid
  dm_outbox_seq :: int
  dm_dispatch_token :: uuid
  dm_enqueued_at :: int

record dispatch_outcome =
  do_sent :: nat
  do_deferred :: nat
  do_superseded :: nat
  do_abandoned :: nat

record reconcile_outcome =
  ro_dispatch :: dispatch_outcome
  ro_leases_reclaimed :: nat
  ro_retries_scheduled :: nat

definition dispatch_message_for :: "int \<Rightarrow> dispatch_record \<Rightarrow> dispatch_message" where
  "dispatch_message_for now d = \<lparr>dm_job_id = dr_job_id d, dm_run_id = dr_run_id d, dm_outbox_seq = dr_outbox_seq d,
     dm_dispatch_token = dr_dispatch_token d, dm_enqueued_at = now\<rparr>"

datatype send_outcome = Message_Sent | Transient_Refusal | Send_Raised fault

text \<open>
  One round: \<open>TransientDispatchError\<close> defers it, any other exception of the queue ends the pass; a message that was
  sent is confirmed; a confirmation that loses its race is counted, any other exception - and any exception of a
  deferral - ends the pass.
\<close>

fun dispatch_each :: "job_policy \<Rightarrow> (int \<Rightarrow> int) \<Rightarrow> int \<Rightarrow> (dispatch_message \<Rightarrow> send_outcome) \<Rightarrow> (dispatch_record \<Rightarrow> job_store \<Rightarrow> job_store)
    \<Rightarrow> dispatch_record list \<Rightarrow> dispatch_outcome \<Rightarrow> job_store \<Rightarrow> dispatch_outcome result \<times> job_store" where
  "dispatch_each pol jitter now send env [] out s = (Inr out, s)"
| "dispatch_each pol jitter now send env (d # ds) out s =
     (let s0 = env d s in
      case send (dispatch_message_for now d) of
        Send_Raised e \<Rightarrow> (Inl e, s0)
      | Message_Sent \<Rightarrow>
          (case confirm_dispatch d now s0 of
             (Inr _, s1) \<Rightarrow> dispatch_each pol jitter now send env ds (out\<lparr>do_sent := do_sent out + 1\<rparr>) s1
           | (Inl e, s1) \<Rightarrow>
               if e = Condition_Failed
               then dispatch_each pol jitter now send env ds (out\<lparr>do_superseded := do_superseded out + 1\<rparr>) s1
               else (Inl e, s1))
      | Transient_Refusal \<Rightarrow>
          (case defer_dispatch pol jitter d now s0 of
             (Inr kept, s1) \<Rightarrow> dispatch_each pol jitter now send env ds
               (if kept then out\<lparr>do_deferred := do_deferred out + 1\<rparr> else out\<lparr>do_abandoned := do_abandoned out + 1\<rparr>) s1
           | (Inl e, s1) \<Rightarrow> (Inl e, s1)))"

definition no_dispatches :: dispatch_outcome where
  "no_dispatches = \<lparr>do_sent = 0, do_deferred = 0, do_superseded = 0, do_abandoned = 0\<rparr>"

definition dispatch_once :: "job_policy \<Rightarrow> (int \<Rightarrow> int) \<Rightarrow> int \<Rightarrow> int \<Rightarrow> (dispatch_message \<Rightarrow> send_outcome) \<Rightarrow>
    (dispatch_record \<Rightarrow> job_store \<Rightarrow> job_store) \<Rightarrow> job_store \<Rightarrow> dispatch_outcome result \<times> job_store" where
  "dispatch_once pol jitter now limit send env s =
     (case due_dispatches now limit s of Inl e \<Rightarrow> (Inl e, s)
      | Inr ds \<Rightarrow> dispatch_each pol jitter now send env ds no_dispatches s)"

text \<open>\<open>JobReconciler.run_once\<close>: reclaim, then recover, then dispatch.\<close>

definition reconcile_once :: "job_policy \<Rightarrow> (int \<Rightarrow> int) \<Rightarrow> int \<Rightarrow> int \<Rightarrow> (dispatch_message \<Rightarrow> send_outcome) \<Rightarrow>
    (expired_lease \<Rightarrow> uuid) \<Rightarrow> (uuid \<Rightarrow> uuid) \<Rightarrow> (expired_lease \<Rightarrow> job_store \<Rightarrow> job_store) \<Rightarrow>
    (uuid \<Rightarrow> job_store \<Rightarrow> job_store) \<Rightarrow> (dispatch_record \<Rightarrow> job_store \<Rightarrow> job_store) \<Rightarrow> job_store \<Rightarrow>
    reconcile_outcome result \<times> job_store" where
  "reconcile_once pol jitter now limit send fresh1 fresh2 env1 env2 env3 s =
     (case reclaim_expired_leases now limit fresh1 env1 s of
        (Inl e, s1) \<Rightarrow> (Inl e, s1)
      | (Inr reclaimed, s1) \<Rightarrow>
         (case recover_stranded_retryables pol jitter now limit fresh2 env2 s1 of
            (Inl e, s2) \<Rightarrow> (Inl e, s2)
          | (Inr retries, s2) \<Rightarrow>
             (case dispatch_once pol jitter now limit send env3 s2 of
                (Inl e, s3) \<Rightarrow> (Inl e, s3)
              | (Inr dispatch, s3) \<Rightarrow>
                  (Inr \<lparr>ro_dispatch = dispatch, ro_leases_reclaimed = length reclaimed,
                        ro_retries_scheduled = retries\<rparr>, s3))))"

section \<open>The runtime worker\<close>

record 'd executed_review =
  ex_result :: "'d service_result option"
  ex_task_ids :: "uuid list"

text \<open>\<open>ExecutedReview.__post_init__\<close>: a result or persisted tasks, not both and not neither.\<close>

definition executed_review_valid :: "'d executed_review \<Rightarrow> bool" where
  "executed_review_valid x = ((ex_result x = None) \<noteq> (ex_task_ids x = []))"

datatype worker_outcome =
  Superseded | Was_Cancelled | Was_Published | Awaits_Human | Has_Failed | Retry_Scheduled | Raised fault

definition failure_outcome :: "job_record \<Rightarrow> worker_outcome" where
  "failure_outcome r = (if jr_status r = CANCELLED then Was_Cancelled
     else if jr_status r = FAILED then Has_Failed else Retry_Scheduled)"

text \<open>\<open>require_dispatch\<close>: what a model call inside the execution re-checks before it is sent.\<close>

definition require_dispatch :: "claimed_attempt \<Rightarrow> job_record \<Rightarrow> bool \<Rightarrow> int \<Rightarrow> int \<Rightarrow> job_store \<Rightarrow> unit result" where
  "require_dispatch a rec past_deadline now lease_expires s =
     bind_result (read_job s (jr_job_id rec)) (\<lambda>found.
       ensure (\<not> past_deadline \<and> now < lease_expires
         \<and> (case found of None \<Rightarrow> False
            | Some cur \<Rightarrow> jr_status cur = RUNNING \<and> \<not> jr_cancel_requested cur
                \<and> jr_current_run cur = jr_current_run rec \<and> jr_principal_id cur = jr_principal_id rec
                \<and> jr_case_id cur = jr_case_id rec \<and> jr_result_version cur = ca_expected_result_version a
                \<and> rr_attempt_id (jr_current_run cur) = Some (ca_attempt_id a)))
         Condition_Failed)"

text \<open>
  The three \<open>except\<close> clauses of \<open>process\<close>: a lost race ends the work silently, a service fault is
  classified by its code, and every other exception is a retryable execution failure.
\<close>

definition classify_failure :: "fault \<Rightarrow> service_error_code \<times> bool" where
  "classify_failure e = (case e of Service_Fault c \<Rightarrow> (c, c \<notin> {UNAUTHORIZED, NOT_FOUND, VALIDATION})
     | _ \<Rightarrow> (EXECUTION, True))"

definition report_failure :: "job_policy \<Rightarrow> (int \<Rightarrow> int) \<Rightarrow> claimed_attempt \<Rightarrow> int \<Rightarrow> uuid \<Rightarrow> (job_store \<Rightarrow> job_store) \<Rightarrow>
    service_error_code \<times> bool \<Rightarrow> job_store \<Rightarrow> worker_outcome \<times> job_store" where
  "report_failure pol jitter a now fresh env f s =
     (case fail_job pol jitter a (fst f) (snd f) now now now fresh env s of
        (Inr rec, s') \<Rightarrow> (failure_outcome rec, s')
      | (Inl e, s') \<Rightarrow> (if e = Condition_Failed then Superseded else Raised e, s'))"

definition worker_except :: "job_policy \<Rightarrow> (int \<Rightarrow> int) \<Rightarrow> claimed_attempt \<Rightarrow> int \<Rightarrow> uuid \<Rightarrow> (job_store \<Rightarrow> job_store) \<Rightarrow>
    fault \<Rightarrow> job_store \<Rightarrow> worker_outcome \<times> job_store" where
  "worker_except pol jitter a now fresh env e s =
     (if e = Condition_Failed then (Superseded, s)
      else report_failure pol jitter a now fresh env (classify_failure e) s)"

text \<open>
  The supervision loop, one element per turn: the deadline passes (\<open>TimeoutError\<close>), or a heartbeat is
  sent at a time, after interference; an empty list means the task is done.
\<close>

datatype beat = Deadline | Beat "job_store \<Rightarrow> job_store" int

fun supervise :: "job_policy \<Rightarrow> claimed_attempt \<Rightarrow> beat list \<Rightarrow> job_store \<Rightarrow> bool result \<times> job_store" where
  "supervise pol a [] s = (Inr False, s)"
| "supervise pol a (Deadline # _) s = (Inl Other_Exception, s)"
| "supervise pol a (Beat env now # bs) s =
     (case heartbeat_job pol a now (env s) of
        (Inl e, s1) \<Rightarrow> (Inl e, s1)
      | (Inr st, s1) \<Rightarrow>
          if hb_cancel_requested st
          then (case acknowledge_cancel a now s1 of (Inl e, s2) \<Rightarrow> (Inl e, s2) | (Inr _, s2) \<Rightarrow> (Inr True, s2))
          else supervise pol a bs s1)"

text \<open>After the execution: publish its result, stamped durable, or park the job on its tasks.\<close>

definition settle_execution :: "('d service_result \<Rightarrow> digest) \<Rightarrow> claimed_attempt \<Rightarrow> job_record \<Rightarrow>
    'd executed_review result \<Rightarrow> int \<Rightarrow> (job_store \<Rightarrow> job_store) \<Rightarrow> job_store \<Rightarrow> 'd bodies \<Rightarrow>
    worker_outcome result \<times> job_store \<times> 'd bodies" where
  "settle_execution content_digest a rec executed now env s b =
     (case executed of Inl e \<Rightarrow> (Inl e, s, b)
      | Inr x \<Rightarrow>
         (case ex_result x of
            Some r \<Rightarrow>
              if sr_run r \<noteq> jr_current_run rec then (Inl (Service_Fault VALIDATION), s, b)
              else if \<not> service_result_valid (r\<lparr>sr_durable := True\<rparr>) then (Inl Value_Error, s, b)
              else (case publish content_digest a (r\<lparr>sr_durable := True\<rparr>) now env s b of
                      (Inl e, s', b') \<Rightarrow> (Inl e, s', b') | (Inr _, s', b') \<Rightarrow> (Inr Was_Published, s', b'))
          | None \<Rightarrow>
              (case wait_for_human a (ex_task_ids x) now s of
                 (Inl e, s') \<Rightarrow> (Inl e, s', b) | (Inr _, s') \<Rightarrow> (Inr Awaits_Human, s', b))))"

text \<open>The body of the \<open>try\<close> after the claim.\<close>

definition work :: "job_policy \<Rightarrow> ('d service_result \<Rightarrow> digest) \<Rightarrow> dispatch_message \<Rightarrow> claimed_attempt \<Rightarrow>
    beat list \<Rightarrow> 'd executed_review result \<Rightarrow> int \<Rightarrow> (nat \<Rightarrow> job_store \<Rightarrow> job_store) \<Rightarrow> job_store \<Rightarrow> 'd bodies \<Rightarrow>
    worker_outcome result \<times> job_store \<times> 'd bodies" where
  "work pol content_digest m a beats executed now env s b =
     (let s0 = env 0 s in
      case read_job s0 (dm_job_id m) of Inl e \<Rightarrow> (Inl e, s0, b)
      | Inr None \<Rightarrow> (Inl Condition_Failed, s0, b)
      | Inr (Some rec) \<Rightarrow>
          if rr_run_id (jr_current_run rec) \<noteq> dm_run_id m then (Inl Condition_Failed, s0, b)
          else if jr_cancel_requested rec
          then (case acknowledge_cancel a now s0 of (Inl e, s1) \<Rightarrow> (Inl e, s1, b) | (Inr _, s1) \<Rightarrow> (Inr Was_Cancelled, s1, b))
          else (case supervise pol a beats s0 of
                  (Inl e, s1) \<Rightarrow> (Inl e, s1, b)
                | (Inr True, s1) \<Rightarrow> (Inr Was_Cancelled, s1, b)
                | (Inr False, s1) \<Rightarrow> settle_execution content_digest a rec executed now (env 1) s1 b))"

definition process :: "job_policy \<Rightarrow> (int \<Rightarrow> int) \<Rightarrow> ('d service_result \<Rightarrow> digest) \<Rightarrow> dispatch_message \<Rightarrow> uuid \<Rightarrow> uuid \<Rightarrow> uuid \<Rightarrow>
    beat list \<Rightarrow> 'd executed_review result \<Rightarrow> int \<Rightarrow> (nat \<Rightarrow> job_store \<Rightarrow> job_store) \<Rightarrow> job_store \<Rightarrow> 'd bodies \<Rightarrow>
    worker_outcome \<times> job_store \<times> 'd bodies" where
  "process pol jitter content_digest m owner fresh1 fresh2 beats executed now env s b =
     (case claim_job pol (dm_job_id m) (dm_run_id m) owner now fresh1 s of
        (Inl Condition_Failed, s1) \<Rightarrow> (Superseded, s1, b)
      | (Inl e, s1) \<Rightarrow> (Raised e, s1, b)
      | (Inr a, s1) \<Rightarrow>
         (case work pol content_digest m a beats executed now env s1 b of
            (Inr out, s2, b2) \<Rightarrow> (out, s2, b2)
          | (Inl e, s2, b2) \<Rightarrow>
              let (out, s3) = worker_except pol jitter a now fresh2 (env 2) e (env 3 s2) in (out, s3, b2)))"

end
