(* ===== verification/Worker_Safety.thy ===== *)
theory Worker_Safety
  imports Outbox_Worker
begin

text \<open>
  The passes and the worker as runs of the store: whatever the queue, the execution and the other
  actors do, they only take steps of the store, every due round is accounted for, and processing a
  message ends in one of its named outcomes.
\<close>

section \<open>Composite operations are runs\<close>

abbreviation reaches :: "job_store \<Rightarrow> job_store \<Rightarrow> bool" where
  "reaches \<equiv> store_step\<^sup>*\<^sup>*"

text \<open>What the other actors may do between two awaits: any run of the store's operations.\<close>

definition interference :: "(job_store \<Rightarrow> job_store) \<Rightarrow> bool" where
  "interference env = (\<forall>t. reaches t (env t))"

fun beat_interference :: "beat \<Rightarrow> bool" where
  "beat_interference Deadline = True"
| "beat_interference (Beat env now) = interference env"

lemma interferenceD: "interference env \<Longrightarrow> reaches t (env t)"
  by (simp add: interference_def)

lemma interference_id [simp]: "interference id" "interference (\<lambda>s. s)"
  by (simp_all add: interference_def)

named_theorems reach "composite operations only take steps of the store"

lemma settle_reaches:
  "(\<And>x s'. m = Inr (x, s') \<Longrightarrow> store_step s s') \<Longrightarrow> reaches s (snd (settle m s))"
  by (cases m) (auto simp: settle_def)

lemma service_reaches [reach]:
  "reaches s (snd (claim_job pol jid rid owner now fresh s))"
  "reaches s (snd (heartbeat_job pol a now s))"
  "reaches s (snd (wait_for_human a tasks now s))"
  "reaches s (snd (acknowledge_cancel a now s))"
  "reaches s (snd (reschedule pol jitter rec c1 c2 fresh s))"
  "reaches s (snd (confirm_dispatch d now s))"
  "reaches s (snd (defer_dispatch pol jitter d now s))"
  by (auto simp: claim_job_def heartbeat_job_def wait_for_human_def acknowledge_cancel_def reschedule_def
      confirm_dispatch_def defer_dispatch_def intro!: settle_reaches intro: store_step.intros split: sum.splits)

lemma fail_job_reaches [reach]:
  assumes "interference env"
  shows "reaches s (snd (fail_job pol jitter a code retryable now c1 c2 fresh env s))"
proof (cases "finish a (if retryable then RETRYABLE_ERROR else PERMANENT_ERROR) now (Some \<lparr>problem_code = code\<rparr>) [] None s")
  case (Inr y)
  obtain rec s' where y: "y = (rec, s')" by (cases y)
  have "reaches s s'" using Inr y store_step.finish by blast
  moreover have "reaches s' (snd (reschedule pol jitter rec c1 c2 fresh (env s')))"
    using interferenceD [OF assms] service_reaches(5) by (rule rtranclp_trans)
  ultimately show ?thesis using Inr y by (auto simp: fail_job_def)
qed (auto simp: fail_job_def)

lemma publish_reaches [reach]:
  assumes "interference env"
  shows "reaches s (fst (snd (publish cd a r now env s b)))"
proof -
  have "reaches s (snd (settle (finish a PUBLISH_RESULT now None [] (Some ref) (env s)) (env s)))" for ref
    using interferenceD [OF assms] by (rule rtranclp_trans) (intro settle_reaches, rule store_step.finish)
  then show ?thesis by (auto simp: publish_def Let_def split: sum.splits prod.splits) (metis snd_conv)
qed

lemma supervise_reaches:
  assumes "list_all beat_interference beats"
  shows "reaches s (snd (supervise pol a beats s))"
  using assms
proof (induction pol a beats s rule: supervise.induct)
  case (3 pol a env now bs s)
  have e: "reaches s (env s)" using 3(2) by (simp add: interferenceD)
  obtain o1 s1 where h: "heartbeat_job pol a now (env s) = (o1, s1)" by (cases "heartbeat_job pol a now (env s)")
  then have s1: "reaches s s1" using e service_reaches(2) [of "env s" pol a now] by (metis rtranclp_trans snd_conv)
  have ack: "reaches s (snd (acknowledge_cancel a now s1))" using s1 service_reaches(4) by (rule rtranclp_trans)
  have rest: "reaches s (snd (supervise pol a bs s1))" if "o1 = Inr st" "\<not> hb_cancel_requested st" for st
  proof -
    have "reaches s1 (snd (supervise pol a bs s1))" using 3 h that by simp
    with s1 show ?thesis by (rule rtranclp_trans)
  qed
  show ?case using h s1 ack rest by (auto split: sum.splits prod.splits)
qed auto

lemma settle_execution_reaches:
  assumes "interference env"
  shows "reaches s (fst (snd (settle_execution cd a rec executed now env s b)))"
proof (cases executed)
  case (Inr x)
  have "reaches s (fst (snd (case publish cd a r now env s b of
      (Inl e, s', b') \<Rightarrow> (Inl e, s', b') | (Inr y, s', b') \<Rightarrow> (Inr Was_Published, s', b'))))" for r
    using publish_reaches [OF assms, of s cd a r now b] by (cases "publish cd a r now env s b") (auto split: sum.splits)
  moreover have "reaches s (fst (snd (case wait_for_human a ts now s of
      (Inl e, s') \<Rightarrow> (Inl e, s', b) | (Inr y, s') \<Rightarrow> (Inr Awaits_Human, s', b))))" for ts
    using service_reaches(3) [of s a ts now] by (cases "wait_for_human a ts now s") (auto split: sum.splits)
  ultimately show ?thesis using Inr by (auto simp: settle_execution_def split: option.splits)
qed (simp add: settle_execution_def)

lemma work_reaches:
  assumes "\<And>n. interference (env n)" and "list_all beat_interference beats"
  shows "reaches s (fst (snd (work pol cd m a beats executed now env s b)))"
proof -
  let ?s = "env 0 s"
  have s0: "reaches s ?s" by (rule interferenceD [OF assms(1)])
  have ack: "reaches s (snd (acknowledge_cancel a now ?s))" using s0 service_reaches(4) by (rule rtranclp_trans)
  have sup: "reaches s (snd (supervise pol a beats ?s))"
    using s0 supervise_reaches [OF assms(2)] by (rule rtranclp_trans)
  have exe: "reaches s (fst (snd (settle_execution cd a rec executed now (env 1) (snd (supervise pol a beats ?s)) b)))" for rec
    using sup settle_execution_reaches [OF assms(1)] by (rule rtranclp_trans)
  show ?thesis
    using s0 ack sup exe
    by (auto simp: work_def Let_def split: sum.splits option.splits prod.splits bool.splits)
qed

section \<open>The worker\<close>

lemma claim_error:
  assumes "claim jid rid owner lease now fresh s = Inl e" and "store_inv s" and "1 \<le> lease"
  shows "e = Condition_Failed"
proof -
  have "next_state (job_facts_of j) CLAIM (s_policy s) \<noteq> Inl Value_Error" if "dict_get (s_jobs s) jid = Some j" for j
    using store_invD(4) [OF assms(2) that] by (auto simp: job_honest_def within_ceilings_def next_state_def)
  then show ?thesis
    using assms(1,3)
    by (auto simp: claim_def bind_result_eq_Inl lost_race_def on_error_def Let_def next_state_def
        split: if_splits option.splits sum.splits)
qed

lemma classify_failure_matches: "snd (classify_failure e) = (fst (classify_failure e) \<notin> permanent_codes)"
  by (cases e) (auto simp: classify_failure_def permanent_codes_def)

lemma worker_except_total:
  assumes "store_inv s" and "interference env"
  shows "\<forall>e'. fst (worker_except pol jitter a now fresh env e s) \<noteq> Raised e'"
    "reaches s (snd (worker_except pol jitter a now fresh env e s))"
proof -
  obtain code r where c: "classify_failure e = (code, r)" by fastforce
  then have r: "r = (code \<notin> permanent_codes)" using classify_failure_matches [of e] by simp
  let ?f = "fail_job pol jitter a code r now now now fresh env s"
  have tot: "fst ?f = Inl Condition_Failed \<or> (\<exists>rec. fst ?f = Inr rec)"
    using fail_job_outcomes [OF assms(1) r interferenceD [OF assms(2)], of pol jitter a now now now fresh] by blast
  have re: "reaches s (snd ?f)" by (rule fail_job_reaches [OF assms(2)])
  show "\<forall>e'. fst (worker_except pol jitter a now fresh env e s) \<noteq> Raised e'"
    using tot c by (cases ?f) (auto simp: worker_except_def report_failure_def failure_outcome_def split: if_splits)
  show "reaches s (snd (worker_except pol jitter a now fresh env e s))"
    using tot re c by (cases ?f) (auto simp: worker_except_def report_failure_def)
qed

text \<open>
  C21.  Processing a queue message is total: whatever the execution returns or raises, however the
  heartbeats fall and whatever other actors do meanwhile, the worker ends in one of its named outcomes -
  superseded, cancelled, published, waiting for a human, failed or retry scheduled - never with an
  escaped exception, and the store keeps its invariant.
\<close>

theorem worker_process_total:
  assumes "store_inv s" and "job_policy_valid pol" and "\<And>n. interference (env n)"
    and "list_all beat_interference beats"
  shows "case process pol jitter cd m owner fresh1 fresh2 beats executed now env s b of
     (out, s', b') \<Rightarrow> (\<forall>e. out \<noteq> Raised e) \<and> store_inv s'"
proof -
  obtain o1 s1 where cl: "claim_job pol (dm_job_id m) (dm_run_id m) owner now fresh1 s = (o1, s1)"
    by (cases "claim_job pol (dm_job_id m) (dm_run_id m) owner now fresh1 s")
  have s1: "reaches s s1" using service_reaches(1) [of s pol "dm_job_id m" "dm_run_id m" owner now fresh1] cl by simp
  have inv1: "store_inv s1" using s1 assms(1) by (rule job_system.run_inv)
  show ?thesis
  proof (cases o1)
    case (Inl e)
    then have "claim (dm_job_id m) (dm_run_id m) owner (lease_seconds pol) now fresh1 s = Inl e"
      using cl by (auto simp: claim_job_def settle_def split: sum.splits)
    then have "e = Condition_Failed" using assms(1) job_policy_validD(1) [OF assms(2)] by (rule claim_error)
    with cl Inl inv1 show ?thesis by (simp add: process_def)
  next
    case (Inr a)
    obtain o2 s2 b2 where w: "work pol cd m a beats executed now env s1 b = (o2, s2, b2)" by (metis prod_cases3)
    have "reaches s1 s2" using work_reaches [where env = env, OF assms(3,4), where s = s1 and pol = pol and cd = cd and m = m and a = a
        and executed = executed and now = now and b = b] w by simp
    then have inv2: "store_inv s2" using inv1 by (rule job_system.run_inv)
    then have inv3: "store_inv (env 3 s2)" by (rule job_system.run_inv [OF interferenceD [OF assms(3)]])
    have named: "o2 = Inr out \<Longrightarrow> out \<noteq> Raised e" for out e
      using w by (auto simp: work_def settle_execution_def Let_def split: sum.splits option.splits prod.splits if_splits bool.splits)
    show ?thesis
    proof (cases o2)
      case (Inl e)
      note ex = worker_except_total [OF inv3 assms(3) [of 2], of pol jitter a now fresh2 e]
      obtain o3 s3 where x: "worker_except pol jitter a now fresh2 (env 2) e (env 3 s2) = (o3, s3)" by fastforce
      have "store_inv s3" using ex(2) inv3 unfolding x snd_conv by (rule job_system.run_inv)
      with ex(1) x cl Inr w Inl show ?thesis by (simp add: process_def)
    next
      case Inr': (Inr out)
      with named inv2 cl Inr w show ?thesis by (auto simp: process_def)
    qed
  qed
qed

definition demo_message :: dispatch_message where
  "demo_message = dispatch_message_for 15 (dispatch_record_of (demo_round Pending))"

theorem worker_process_total_witness:
  "case process default_policy id demo_body_digest demo_message 15 16 17
      [Beat (\<lambda>s. snd (settle (cancel 11 30 s) s)) 40] (Inl Other_Exception :: nat executed_review result) 20 (\<lambda>_. id) demo_queued [] of
     (out, s', b') \<Rightarrow> (\<forall>e. out \<noteq> Raised e) \<and> store_inv s'"
proof (rule worker_process_total [OF demo_invs(2) demo_policy_valid])
  have "reaches s (snd (settle (cancel 11 30 s) s))" for s by (intro settle_reaches, rule store_step.cancel)
  then show "list_all beat_interference [Beat (\<lambda>s. snd (settle (cancel 11 30 s) s)) 40]"
    by (simp add: interference_def)
qed simp

section \<open>Dispatch passes\<close>

text \<open>What a pass reports: how many rounds it has dealt with.\<close>

definition rounds_counted :: "dispatch_outcome \<Rightarrow> nat" where
  "rounds_counted out = do_sent out + do_deferred out + do_superseded out + do_abandoned out"

lemma dispatch_each_accounts:
  assumes "\<And>d. interference (env d)"
  shows "reaches s (snd (dispatch_each pol jitter now send env ds out s))
     \<and> (\<forall>out'. fst (dispatch_each pol jitter now send env ds out s) = Inr out' \<longrightarrow>
          rounds_counted out' = rounds_counted out + length ds)"
  using assms
proof (induction pol jitter now send env ds out s rule: dispatch_each.induct)
  case (2 pol jitter now send env d ds out s)
  have e: "reaches s (env d s)" using 2(4) by (rule interferenceD)
  obtain o1 s1 where c: "confirm_dispatch d now (env d s) = (o1, s1)" by fastforce
  obtain o2 s2 where f: "defer_dispatch pol jitter d now (env d s) = (o2, s2)" by fastforce
  have s1: "reaches s s1" using e service_reaches(6) [of "env d s" d now] c by (metis rtranclp_trans snd_conv)
  have s2: "reaches s s2" using e service_reaches(7) [of "env d s" pol jitter d now] f by (metis rtranclp_trans snd_conv)
  note IH = 2(1-3) [OF refl, unfolded c f]
  show ?case
  proof (cases "send (dispatch_message_for now d)")
    case (Send_Raised e)
    then show ?thesis using e by (simp add: Let_def)
  next
    case Message_Sent
    then show ?thesis
      using IH(1,2) s1 c 2(4)
      by (auto simp: Let_def rounds_counted_def split: sum.splits intro: rtranclp_trans)
  next
    case Transient_Refusal
    then show ?thesis
      using IH(3) s2 f 2(4)
      by (auto simp: Let_def rounds_counted_def split: sum.splits intro: rtranclp_trans)
  qed
qed simp

text \<open>
  A dispatch pass accounts for its work: it only takes steps of the store, keeps the invariant, and
  when it returns, the sent, deferred, superseded and abandoned rounds together are exactly the rounds
  that were due.
\<close>

theorem dispatch_pass_accounts:
  assumes "store_inv s" and "\<And>d. interference (env d)" and "due_dispatches now limit s = Inr ds"
  shows "store_inv (snd (dispatch_once pol jitter now limit send env s))
     \<and> (\<forall>out. fst (dispatch_once pol jitter now limit send env s) = Inr out \<longrightarrow> rounds_counted out = length ds)"
  using dispatch_each_accounts [where env = env, OF assms(2), where s = s and pol = pol and jitter = jitter and now = now
      and send = send and ds = ds and out = no_dispatches] assms(1,3) job_system.run_inv
  by (auto simp: dispatch_once_def rounds_counted_def no_dispatches_def)

lemma demo_due: "due_dispatches 15 5 demo_queued = Inr [dispatch_record_of (demo_round Pending)]"
  by (simp add: due_dispatches_def pending_dispatches_def demo_queued_def demo_store_def demo_round_def)

theorem dispatch_pass_accounts_witness:
  "store_inv (snd (dispatch_once default_policy id 15 5 (\<lambda>_. Message_Sent) (\<lambda>_. id) demo_queued))"
  using dispatch_pass_accounts [OF demo_invs(2) _ demo_due, of "\<lambda>_. id" default_policy id "\<lambda>_. Message_Sent"] by simp

text \<open>
  C25.  A deferral that loses its race ends the whole pass: when the queue transiently refuses a round that another
  actor has settled in the meantime, the pass stops with that exception and none of the remaining rounds
  is offered to the queue.
\<close>

theorem lost_deferral_aborts_pass:
  assumes "send (dispatch_message_for now d) = Transient_Refusal" and "0 \<le> dr_dispatch_attempts d"
    and "pending_entry d (env d s) = Inl Condition_Failed"
  shows "dispatch_each pol jitter now send env (d # ds) out s = (Inl Condition_Failed, env d s)"
  using assms by (simp add: defer_dispatch_def backoff_seconds_def Let_def reschedule_dispatch_def settle_def)

theorem lost_deferral_aborts_pass_witness:
  "\<exists>s. store_inv s \<and> dispatch_each default_policy id 16 (\<lambda>_. Transient_Refusal) (\<lambda>_. id)
     [dispatch_record_of (demo_round Pending)] no_dispatches s = (Inl Condition_Failed, s)"
proof -
  from demo_dispatch obtain x s where
    s: "mark_dispatched (dispatch_record_of (demo_round Pending)) 15 demo_queued = Inr (x, s)" by blast
  then obtain e where "dict_get (s_outbox s) (dr_job_id (dispatch_record_of (demo_round Pending)),
      dr_outbox_seq (dispatch_record_of (demo_round Pending))) = Some e" "o_dispatch_state e = Sent"
    by (auto simp: mark_dispatched_def set_entry_def dest!: replyD(1) split: if_splits)
  then have "pending_entry (dispatch_record_of (demo_round Pending)) s = Inl Condition_Failed"
    by (simp add: pending_entry_def)
  with lost_deferral_aborts_pass [of "\<lambda>_. Transient_Refusal" 16 "dispatch_record_of (demo_round Pending)" "\<lambda>_. id" s default_policy id "[]" no_dispatches]
  show ?thesis
    using mark_dispatched_inv [OF s demo_invs(2)] by (auto simp: dispatch_record_of_def demo_round_def)
qed

subsection \<open>An undisturbed pass\<close>

definition round_key :: "dispatch_record \<Rightarrow> uuid \<times> int" where
  "round_key d = (dr_job_id d, dr_outbox_seq d)"

definition round_pending :: "job_store \<Rightarrow> dispatch_record \<Rightarrow> bool" where
  "round_pending s d = (is_ok (pending_entry d s) \<and> 0 \<le> dr_dispatch_attempts d)"

lemma confirm_pending:
  assumes inv: "store_inv s" and p: "round_pending s d"
  shows "is_ok (fst (confirm_dispatch d now s))"
    "round_key d' \<noteq> round_key d \<Longrightarrow> round_pending (snd (confirm_dispatch d now s)) d' = round_pending s d'"
proof -
  from p obtain e where e: "pending_entry d s = Inr e" by (auto simp: round_pending_def is_ok_iff)
  then have ok: "entry_ok s (dr_job_id d) (dr_outbox_seq d) e" by (intro store_invD(7) [OF inv]) (simp add: pending_entry_Inr)
  then obtain j where j: "dict_get (s_jobs s) (dr_job_id d) = Some j" by (auto simp: entry_ok_def)
  have jid: "j_job_id j = dr_job_id d" using inv_ids [OF inv j] by simp
  obtain r where r: "dict_get (s_runs s) (dr_job_id d, o_run_id e) = Some r" using ok by (auto simp: entry_ok_def)
  let ?e = "e\<lparr>o_dispatch_state := Sent\<rparr>"
  have "next_state (job_facts_of j) DISPATCH_SUCCEEDED (s_policy s) = Inr (plain_transition DISPATCHED)" if "j_status j = QUEUED"
    using store_invD(4) [OF inv j] that by (simp add: job_honest_def within_ceilings_def next_state_def)
  then have *: "\<exists>s1. mark_dispatched d now s = reply (dr_job_id d) s1 \<and> s_outbox s1 = s_outbox (set_entry d ?e s)"
    using e j jid r by (auto simp: mark_dispatched_def)
  then obtain s1 where s1: "mark_dispatched d now s = reply (dr_job_id d) s1" "s_outbox s1 = s_outbox (set_entry d ?e s)" by blast
  moreover have "no_key_error (reply (dr_job_id d) s1)" using mark_dispatched_no_key [OF inv] s1(1) by metis
  then obtain rec where rec: "reply (dr_job_id d) s1 = Inr (rec, s1)" by (rule reply_total)
  ultimately show "is_ok (fst (confirm_dispatch d now s))"
    "round_key d' \<noteq> round_key d \<Longrightarrow> round_pending (snd (confirm_dispatch d now s)) d' = round_pending s d'"
    by (auto simp: confirm_dispatch_def settle_def round_pending_def pending_entry_def set_entry_def round_key_def)
qed

lemma defer_pending:
  assumes inv: "store_inv s" and p: "round_pending s d"
  shows "is_ok (fst (defer_dispatch pol jitter d now s))"
    "round_key d' \<noteq> round_key d \<Longrightarrow> round_pending (snd (defer_dispatch pol jitter d now s)) d' = round_pending s d'"
proof -
  from p obtain e where e: "pending_entry d s = Inr e" by (auto simp: round_pending_def is_ok_iff)
  then have ok: "entry_ok s (dr_job_id d) (dr_outbox_seq d) e" by (intro store_invD(7) [OF inv]) (simp add: pending_entry_Inr)
  then obtain j where j: "dict_get (s_jobs s) (dr_job_id d) = Some j" by (auto simp: entry_ok_def)
  have "is_ok (next_state (job_facts_of j) DISPATCH_FAILED (s_policy s))" if "j_status j \<notin> terminal_statuses"
    using store_invD(4) [OF inv j] that by (simp add: job_honest_def within_ceilings_def next_state_def)
  then have "\<exists>b e'. reschedule_dispatch d av s = Inr (b, set_entry d e' s)" for av
    using e j by (auto simp: reschedule_dispatch_def is_ok_iff)
  moreover obtain delay where "backoff_seconds pol (dr_dispatch_attempts d + 1) = Inr delay"
    using p by (auto simp: backoff_seconds_def round_pending_def Let_def)
  ultimately obtain b e' where "defer_dispatch pol jitter d now s = (Inr b, set_entry d e' s)"
    by (auto simp: defer_dispatch_def settle_def) (metis (mono_tags, lifting) case_prod_conv old.sum.simps(6))
  then show "is_ok (fst (defer_dispatch pol jitter d now s))"
    "round_key d' \<noteq> round_key d \<Longrightarrow> round_pending (snd (defer_dispatch pol jitter d now s)) d' = round_pending s d'"
    by (auto simp: round_pending_def pending_entry_def set_entry_def round_key_def)
qed

lemma undisturbed_each:
  assumes "store_inv s" and "list_all (round_pending s) ds" and "distinct (map round_key ds)" and "\<And>m e. send m \<noteq> Send_Raised e"
  shows "is_ok (fst (dispatch_each pol jitter now send (\<lambda>_ t. t) ds out s))"
  using assms
proof (induction ds arbitrary: s out)
  case (Cons d ds)
  have p: "round_pending s d" using Cons.prems by simp
  have others: "\<And>d'. d' \<in> set ds \<Longrightarrow> round_key d' \<noteq> round_key d" using Cons.prems(3) by (auto simp: image_iff)
  obtain o1 s1 where c: "confirm_dispatch d now s = (o1, s1)" by fastforce
  obtain o2 s2 where f: "defer_dispatch pol jitter d now s = (o2, s2)" by fastforce
  have i1: "store_inv s1" using service_reaches(6) [of s d now] Cons.prems(1) unfolding c snd_conv by (rule job_system.run_inv)
  have i2: "store_inv s2" using service_reaches(7) [of s pol jitter d now] Cons.prems(1) unfolding f snd_conv by (rule job_system.run_inv)
  have "list_all (round_pending s1) ds" "list_all (round_pending s2) ds"
    using confirm_pending(2) [OF Cons.prems(1) p, of _ now] defer_pending(2) [OF Cons.prems(1) p, of _ pol jitter now]
      others Cons.prems(2) c f by (auto simp: list_all_iff)
  then show ?case
    using Cons.IH [OF i1] Cons.IH [OF i2] Cons.prems(3,4) c f
      confirm_pending(1) [OF Cons.prems(1) p, of now] defer_pending(1) [OF Cons.prems(1) p, of pol jitter now]
    by (cases "send (dispatch_message_for now d)") (auto simp: Let_def is_ok_iff)
qed simp

lemma due_rounds_pending:
  assumes inv: "store_inv s" and due: "due_dispatches now limit s = Inr ds"
  shows "list_all (round_pending s) ds" "distinct (map round_key ds)"
proof -
  let ?es = "map snd (s_outbox s)"
  let ?key = "\<lambda>e. (o_job_id e, o_outbox_seq e)"
  have ok: "entry_ok s (fst k) (snd k) e" if "(k, e) \<in> set (s_outbox s)" for k e
    using that store_invD(7) [OF inv] inv_keys(3) [OF inv] by (cases k) (simp add: dict_get_iff)
  then have keys: "map ?key ?es = map fst (s_outbox s)"
    by (auto simp: entry_ok_def)
  then have dist: "distinct ?es" "inj_on ?key (set ?es)"
    using inv_keys(3) [OF inv] by (metis distinct_map)+
  obtain xs where ds: "ds = map dispatch_record_of xs" and sub: "set xs \<subseteq> {e \<in> set ?es. o_dispatch_state e = Pending}"
    and dx: "distinct xs"
  proof
    let ?xs = "take (nat limit) (sort_key o_available_at (sort_key o_outbox_seq
      (filter (\<lambda>e. o_dispatch_state e = Pending \<and> o_available_at e \<le> now) ?es)))"
    show "ds = map dispatch_record_of ?xs"
      using due by (simp add: due_dispatches_def pending_dispatches_def Let_def split: if_splits)
    show "set ?xs \<subseteq> {e \<in> set ?es. o_dispatch_state e = Pending}" by (auto dest: in_set_takeD)
    show "distinct ?xs" using dist(1) by (intro distinct_take) (simp del: map_map)
  qed
  have "round_key (dispatch_record_of e) = ?key e" for e by (simp add: round_key_def dispatch_record_of_def)
  then have "map round_key ds = map ?key xs" by (simp add: ds)
  moreover have "inj_on ?key (set xs)" using dist(2) sub by (auto intro: inj_on_subset)
  ultimately show "distinct (map round_key ds)" using dx by (simp add: distinct_map)
  have "round_pending s (dispatch_record_of e)" if "e \<in> set xs" for e
  proof -
    from that sub obtain k where k: "(k, e) \<in> set (s_outbox s)" "o_dispatch_state e = Pending" by auto
    moreover have "dict_get (s_outbox s) k = Some e" using k inv_keys(3) [OF inv] by (simp add: dict_get_iff)
    ultimately show ?thesis using ok [OF k(1)]
      by (cases k) (simp add: round_pending_def pending_entry_def dispatch_record_of_def entry_ok_def)
  qed
  then show "list_all (round_pending s) ds" by (simp add: ds list_all_iff)
qed

text \<open>
  An undisturbed dispatch pass always returns: without interference no transient refusal of the queue, no
  finished job and no backoff can make it raise, whatever the due rounds are.
\<close>

theorem undisturbed_dispatch_returns:
  assumes "store_inv s" and "1 \<le> limit" and "\<And>m e. send m \<noteq> Send_Raised e"
  shows "is_ok (fst (dispatch_once pol jitter now limit send (\<lambda>_ t. t) s))"
proof -
  obtain ds where ds: "due_dispatches now limit s = Inr ds"
    using sweeps_ok(1) [OF assms(1,2)] by (auto simp: due_dispatches_def is_ok_iff)
  from undisturbed_each [OF assms(1) due_rounds_pending [OF assms(1) ds] assms(3)] ds show ?thesis
    by (simp add: dispatch_once_def)
qed

theorem undisturbed_dispatch_returns_witness:
  "is_ok (fst (dispatch_once default_policy id 15 5 (\<lambda>_. Transient_Refusal) (\<lambda>_ t. t) demo_queued))"
  by (rule undisturbed_dispatch_returns [OF demo_invs(2)]) simp_all

end
