(* ===== verification/Decimals.thy ===== *)
theory Decimals
  imports Prelude Complex_Main
begin

text \<open>
  The part of Python's \<open>decimal\<close> module that the deterministic rules use: finite decimals as a
  coefficient and an exponent, the infinities and not-a-number (quiet or signalling), the default context's
  precision of 28 digits with \<open>ROUND_HALF_EVEN\<close>, \<open>quantize\<close> with \<open>ROUND_HALF_UP\<close>, and the syntax
  accepted by the constructor.  A finite \<open>float\<close> is represented by the decimal of its shortest
  representation, which is what \<open>Decimal(str(x))\<close> yields.
\<close>

section \<open>Values\<close>

datatype special = Positive_Infinity | Negative_Infinity | Not_A_Number

datatype decimal = Dec int int | Special special

type_synonym pyfloat = decimal

fun is_finite :: "decimal \<Rightarrow> bool" where
  "is_finite (Dec c e) = True"
| "is_finite (Special k) = False"

definition pow10 :: "int \<Rightarrow> rat" where
  "pow10 e = (if 0 \<le> e then 10 ^ nat e else 1 / 10 ^ nat (- e))"

fun dec_value :: "decimal \<Rightarrow> rat" where
  "dec_value (Dec c e) = of_int c * pow10 e"
| "dec_value (Special k) = 0"

definition dec_less :: "decimal \<Rightarrow> decimal \<Rightarrow> bool" where
  "dec_less a b = (dec_value a < dec_value b)"

definition dec_le :: "decimal \<Rightarrow> decimal \<Rightarrow> bool" where
  "dec_le a b = (dec_value a \<le> dec_value b)"

definition dec_eq :: "decimal \<Rightarrow> decimal \<Rightarrow> bool" where
  "dec_eq a b = (is_finite a \<and> is_finite b \<and> dec_value a = dec_value b)"

lemma pow10_pos [simp]: "0 < pow10 e"
  by (simp add: pow10_def)

lemma pow10_nonneg [simp]: "0 \<le> pow10 e" "pow10 e \<noteq> 0"
  using pow10_pos [of e] by linarith+

lemma pow10_0 [simp]: "pow10 0 = 1"
  by (simp add: pow10_def)

lemma pow10_Suc: "pow10 (e + 1) = 10 * pow10 e"
proof (cases "0 \<le> e")
  case True
  then show ?thesis by (simp add: pow10_def nat_add_distrib)
next
  case False
  define n where "n = nat (- (e + 1))"
  have "nat (- e) = Suc n" using False by (simp add: n_def)
  then show ?thesis using False by (cases "e = -1") (simp_all add: pow10_def n_def)
qed

lemma pow10_add_nat: "pow10 (e + int n) = 10 ^ n * pow10 e"
proof (induction n)
  case (Suc n)
  have "pow10 (e + int (Suc n)) = pow10 (e + int n + 1)" by (simp add: algebra_simps)
  also have "\<dots> = 10 ^ Suc n * pow10 e" using Suc by (simp add: pow10_Suc)
  finally show ?case .
qed simp

lemma pow10_shift: "a \<le> b \<Longrightarrow> pow10 b = 10 ^ nat (b - a) * pow10 a"
  using pow10_add_nat [of a "nat (b - a)"] by simp

text \<open>
  The operations below are stated for finite operands, the only ones the callers pass on; a non-finite
  operand yields not-a-number.  Exponents are unbounded, and a zero has no sign.
\<close>

section \<open>Rounding to the precision of the context\<close>

fun digits10 :: "nat \<Rightarrow> nat" where
  "digits10 n = (if n < 10 then 1 else 1 + digits10 (n div 10))"

declare digits10.simps [simp del]

definition context_precision :: nat where
  "context_precision = 28"

definition round_half_even :: "nat \<Rightarrow> nat \<Rightarrow> nat" where
  "round_half_even n d =
     (let q = n div d; r = n mod d
      in if 2 * r < d then q else if d < 2 * r then q + 1 else if even q then q else q + 1)"

definition signed :: "int \<Rightarrow> nat \<Rightarrow> int" where
  "signed c n = (if c < 0 then - int n else int n)"

text \<open>\<open>_fix\<close>: drop the digits beyond the precision, half to even; a carry may need one digit more.\<close>

fun dec_fix :: "decimal \<Rightarrow> decimal" where
  "dec_fix (Special k) = Special k"
| "dec_fix (Dec c e) =
     (let n = nat \<bar>c\<bar>; len = digits10 n in
      if len \<le> context_precision then Dec c e
      else let k = len - context_precision; q = round_half_even n (10 ^ k) in
           if digits10 q \<le> context_precision then Dec (signed c q) (e + int k)
           else Dec (signed c (q div 10)) (e + int k + 1))"

fun dec_exact_add :: "decimal \<Rightarrow> decimal \<Rightarrow> decimal" where
  "dec_exact_add (Dec c e) (Dec c' e') =
     (let m = min e e' in Dec (c * 10 ^ nat (e - m) + c' * 10 ^ nat (e' - m)) m)"
| "dec_exact_add _ _ = Special Not_A_Number"

definition dec_add :: "decimal \<Rightarrow> decimal \<Rightarrow> decimal" where
  "dec_add a b = dec_fix (dec_exact_add a b)"

fun dec_neg :: "decimal \<Rightarrow> decimal" where
  "dec_neg (Dec c e) = Dec (- c) e"
| "dec_neg (Special k) = Special Not_A_Number"

definition dec_sub :: "decimal \<Rightarrow> decimal \<Rightarrow> decimal" where
  "dec_sub a b = dec_add a (dec_neg b)"

fun dec_abs :: "decimal \<Rightarrow> decimal" where
  "dec_abs (Dec c e) = dec_fix (Dec \<bar>c\<bar> e)"
| "dec_abs (Special k) = Special Not_A_Number"

fun dec_mul :: "decimal \<Rightarrow> decimal \<Rightarrow> decimal" where
  "dec_mul (Dec c e) (Dec c' e') = dec_fix (Dec (c * c') (e + e'))"
| "dec_mul _ _ = Special Not_A_Number"

text \<open>Division by a power of ten, the only division of the rules, moves the exponent.\<close>

fun dec_div_pow10 :: "decimal \<Rightarrow> int \<Rightarrow> decimal" where
  "dec_div_pow10 (Dec c e) k = dec_fix (Dec c (e - k))"
| "dec_div_pow10 (Special s) k = Special Not_A_Number"

definition dec_sum :: "decimal list \<Rightarrow> decimal" where
  "dec_sum xs = foldl dec_add (Dec 0 0) xs"

text \<open>
  \<open>quantize(quantum, ROUND_HALF_UP)\<close> reads only the exponent of its argument; a result of more than
  28 digits raises \<open>InvalidOperation\<close>.
\<close>

definition round_half_up :: "nat \<Rightarrow> nat \<Rightarrow> nat" where
  "round_half_up n d = (2 * n + d) div (2 * d)"

fun dec_quantize :: "decimal \<Rightarrow> decimal \<Rightarrow> decimal result" where
  "dec_quantize (Dec c e) (Dec qc qe) =
     (let n = nat \<bar>c\<bar>;
          m = (if qe \<le> e then n * 10 ^ nat (e - qe) else round_half_up n (10 ^ nat (qe - e)))
      in if digits10 m \<le> context_precision then Inr (Dec (signed c m) qe) else Inl Arithmetic_Error)"
| "dec_quantize _ _ = Inl Arithmetic_Error"

lemma dec_exact_add_value [simp]: "is_finite a \<Longrightarrow> is_finite b \<Longrightarrow> dec_value (dec_exact_add a b) = dec_value a + dec_value b"
proof (cases a; cases b)
  fix c e c' e' assume [simp]: "a = Dec c e" "b = Dec c' e'"
  have "pow10 e = 10 ^ nat (e - min e e') * pow10 (min e e')" "pow10 e' = 10 ^ nat (e' - min e e') * pow10 (min e e')"
    by (simp_all add: pow10_shift)
  then show ?thesis by (simp add: Let_def algebra_simps)
qed simp_all

lemma dec_fix_finite [simp]: "is_finite (dec_fix a) = is_finite a"
  by (cases a) (simp_all add: Let_def)

lemma dec_add_finite [simp]: "is_finite (dec_add a b) \<longleftrightarrow> is_finite a \<and> is_finite b"
  unfolding dec_add_def dec_fix_finite by (cases a; cases b) (simp_all add: Let_def)

lemma dec_sum_finite: "list_all is_finite xs \<Longrightarrow> is_finite (dec_sum xs)"
proof -
  have "is_finite a \<Longrightarrow> list_all is_finite xs \<Longrightarrow> is_finite (foldl dec_add a xs)" for a
    by (induction xs arbitrary: a) simp_all
  then show "list_all is_finite xs \<Longrightarrow> is_finite (dec_sum xs)" by (simp add: dec_sum_def)
qed

text \<open>A value that fits the precision is not changed by the context.\<close>

fun fits :: "decimal \<Rightarrow> bool" where
  "fits (Dec c e) = (digits10 (nat \<bar>c\<bar>) \<le> context_precision)"
| "fits (Special k) = False"

lemma dec_fix_fits [simp]: "fits a \<Longrightarrow> dec_fix a = a"
  by (cases a) (simp_all add: Let_def)

lemma signed_value: "c = signed c (nat \<bar>c\<bar>)"
  by (simp add: signed_def)

lemma signed_diff: "\<bar>of_int (signed c m) - of_int (signed c n)\<bar> = \<bar>(of_nat m - of_nat n :: rat)\<bar>"
  by (simp add: signed_def abs_minus_commute)

lemma abs_diff_half: "2 * y \<le> 2 * n + d \<Longrightarrow> 2 * n \<le> 2 * y + d \<Longrightarrow> \<bar>y - n\<bar> * 2 \<le> (d :: rat)"
  by (cases "n \<le> y") (simp_all add: abs_if)

lemma round_half_up_bound:
  assumes "0 < d"
  shows "\<bar>of_nat (round_half_up n d) * of_nat d - of_nat n\<bar> * 2 \<le> (of_nat d :: rat)"
proof -
  let ?q = "round_half_up n d"
  have "?q * (2 * d) \<le> 2 * n + d" unfolding round_half_up_def by (rule div_times_less_eq_dividend)
  moreover have "2 * n + d < ?q * (2 * d) + 2 * d"
    unfolding round_half_up_def using assms dividend_less_div_times [of "2 * d" "2 * n + d"] by simp
  ultimately have "2 * (?q * d) \<le> 2 * n + d" "2 * n < 2 * (?q * d) + d" by (simp_all add: algebra_simps)
  then have "2 * (of_nat (?q * d) :: rat) \<le> 2 * of_nat n + of_nat d" "2 * (of_nat n :: rat) \<le> 2 * of_nat (?q * d) + of_nat d"
    by (metis (mono_tags) of_nat_add of_nat_le_iff of_nat_mult of_nat_numeral less_imp_le)+
  then show ?thesis unfolding of_nat_mult by (rule abs_diff_half)
qed

lemma dec_quantize_bound:
  assumes "dec_quantize x q = Inr r"
  obtains c e qc qe m where "x = Dec c e" "q = Dec qc qe" "r = Dec m qe"
    "\<bar>dec_value r - dec_value x\<bar> * 2 \<le> pow10 qe" "qe \<le> e \<Longrightarrow> dec_value r = dec_value x"
proof (cases x; cases q)
  fix c e qc qe assume x: "x = Dec c e" and q: "q = Dec qc qe"
  let ?n = "nat \<bar>c\<bar>"
  let ?m = "if qe \<le> e then ?n * 10 ^ nat (e - qe) else round_half_up ?n (10 ^ nat (qe - e))"
  have r: "r = Dec (signed c ?m) qe" using assms x q by (auto simp: Let_def split: if_splits)
  have eq: "dec_value r = dec_value x" if "qe \<le> e"
    using that pow10_shift [OF that] by (simp add: r x signed_def)
  moreover have "\<bar>dec_value r - dec_value x\<bar> * 2 \<le> pow10 qe"
  proof (cases "qe \<le> e")
    case False
    let ?d = "10 ^ nat (qe - e) :: nat"
    have p: "pow10 qe = of_nat ?d * pow10 e" using False pow10_shift [of e qe] by simp
    have "dec_value r - dec_value x = (of_int (signed c (?m * ?d)) - of_int (signed c ?n)) * pow10 e"
      using False p by (simp add: r x signed_def algebra_simps)
    then have "\<bar>dec_value r - dec_value x\<bar> = \<bar>of_nat ?m * of_nat ?d - of_nat ?n\<bar> * pow10 e"
      using signed_diff [of c "?m * ?d" ?n] by (simp add: abs_mult)
    then have "\<bar>dec_value r - dec_value x\<bar> * 2 = (\<bar>of_nat ?m * of_nat ?d - of_nat ?n\<bar> * 2) * pow10 e"
      by simp
    also have "\<dots> \<le> of_nat ?d * pow10 e"
      using False round_half_up_bound [of ?d ?n] by (intro mult_right_mono) simp_all
    finally show ?thesis by (simp add: p)
  qed (simp add: eq)
  ultimately show ?thesis using that x q r by blast
qed (use assms in simp_all)

section \<open>The constructor's syntax\<close>

definition is_space :: "char \<Rightarrow> bool" where
  "is_space c = (let n = of_char c :: nat in n = 32 \<or> 9 \<le> n \<and> n \<le> 13 \<or> 28 \<le> n \<and> n \<le> 31)"

definition strip :: "string \<Rightarrow> string" where
  "strip s = rev (dropWhile is_space (rev (dropWhile is_space s)))"

definition is_digit :: "char \<Rightarrow> bool" where
  "is_digit c = (let n = of_char c :: nat in 48 \<le> n \<and> n \<le> 57)"

definition lower :: "char \<Rightarrow> char" where
  "lower c = (let n = of_char c :: nat in if 65 \<le> n \<and> n \<le> 90 then char_of (n + 32) else c)"

definition number_of_digits :: "string \<Rightarrow> int" where
  "number_of_digits ds = foldl (\<lambda>a c. 10 * a + (int (of_char c) - 48)) 0 ds"

definition split_sign :: "string \<Rightarrow> bool \<times> string" where
  "split_sign s = (case s of [] \<Rightarrow> (False, []) | c # cs \<Rightarrow>
     if c = CHR ''-'' then (True, cs) else if c = CHR ''+'' then (False, cs) else (False, s))"

definition parse_special :: "bool \<Rightarrow> string \<Rightarrow> special option" where
  "parse_special neg u = (let l = map lower u in
     if l = ''inf'' \<or> l = ''infinity'' then Some (if neg then Negative_Infinity else Positive_Infinity)
     else if take 3 l = ''nan'' \<and> list_all is_digit (drop 3 l) \<or> take 4 l = ''snan'' \<and> list_all is_digit (drop 4 l)
     then Some Not_A_Number else None)"

fun parse_exponent :: "string \<Rightarrow> int option" where
  "parse_exponent [] = Some 0"
| "parse_exponent (c # cs) =
     (if lower c \<noteq> CHR ''e'' then None
      else case split_sign cs of (neg, ds) \<Rightarrow>
        if ds = [] \<or> \<not> list_all is_digit ds then None
        else Some (if neg then - number_of_digits ds else number_of_digits ds))"

definition split_fraction :: "string \<Rightarrow> string \<times> string" where
  "split_fraction r = (case r of [] \<Rightarrow> ([], []) | c # cs \<Rightarrow>
     if c = CHR ''.'' then (takeWhile is_digit cs, dropWhile is_digit cs) else ([], r))"

text \<open>\<open>Decimal(text)\<close>; \<open>None\<close> is \<open>InvalidOperation\<close>.\<close>

definition parse_decimal :: "string \<Rightarrow> decimal option" where
  "parse_decimal text =
     (case split_sign (filter (\<lambda>c. c \<noteq> CHR ''_'') (strip text)) of (neg, u) \<Rightarrow>
       case parse_special neg u of Some k \<Rightarrow> Some (Special k)
       | None \<Rightarrow> let whole = takeWhile is_digit u; (frac, rest) = split_fraction (dropWhile is_digit u)
            in if whole = [] \<and> frac = [] then None
               else case parse_exponent rest of None \<Rightarrow> None
                    | Some e \<Rightarrow> let n = number_of_digits (whole @ frac)
                                in Some (Dec (if neg then - n else n) (e - int (length frac))))"

lemma parse_decimal_examples:
  "parse_decimal '' -12.50 '' = Some (Dec (- 1250) (- 2))"
  "parse_decimal ''1_000e3'' = Some (Dec 1000 3)"
  "parse_decimal ''Infinity'' = Some (Special Positive_Infinity)"
  "parse_decimal ''12a'' = None"
  "parse_decimal ''.'' = None"
  by code_simp+

text \<open>\<open>str(decimal)\<close>: plain notation unless the exponent is positive or the number is very small.\<close>

fun nat_string :: "nat \<Rightarrow> string" where
  "nat_string n = (if n < 10 then [char_of (48 + n)] else nat_string (n div 10) @ [char_of (48 + n mod 10)])"

declare nat_string.simps [simp del]

definition exponent_string :: "int \<Rightarrow> string" where
  "exponent_string e = (if e = 0 then [] else ''E'' @ (if e < 0 then ''-'' else ''+'') @ nat_string (nat \<bar>e\<bar>))"

fun dec_str :: "decimal \<Rightarrow> string" where
  "dec_str (Special Positive_Infinity) = ''Infinity''"
| "dec_str (Special Negative_Infinity) = ''-Infinity''"
| "dec_str (Special Not_A_Number) = ''NaN''"
| "dec_str (Dec c e) =
     (let ds = nat_string (nat \<bar>c\<bar>); n = int (length ds); left = e + n;
          dot = (if e \<le> 0 \<and> - 6 < left then left else 1);
          body = (if dot \<le> 0 then ''0.'' @ replicate (nat (- dot)) CHR ''0'' @ ds
                  else if n \<le> dot then ds @ replicate (nat (dot - n)) CHR ''0''
                  else take (nat dot) ds @ ''.'' @ drop (nat dot) ds)
      in (if c < 0 then ''-'' else []) @ body @ exponent_string (left - dot))"

lemma dec_str_examples:
  "dec_str (Dec (- 1250) (- 2)) = ''-12.50''"
  "dec_str (Dec 5 (- 3)) = ''0.005''"
  "dec_str (Dec 12 3) = ''1.2E+4''"
  "dec_str (Dec 7 0) = ''7''"
  by code_simp+

end
