(* ===== verification/Factor_Models.thy ===== *)
theory Factor_Models
  imports Decimals
begin

text \<open>
  \<open>domain/factor_models.py\<close>: grades, observations, interval and category bands, correction
  matrices, rules and rule sets with their validators.  A validated \<open>NormalizedValue\<close> is a datatype,
  because its validator makes the type tag and the Python type of the value agree.  The case folding
  of \<open>strip().casefold()\<close> is Unicode's and therefore an argument \<open>fold_text\<close>.  Dates are ordinals.
\<close>

section \<open>Values and observations\<close>

datatype grade = EXCELLENT | SLIGHTLY_SUPERIOR | NORMAL | SLIGHTLY_INFERIOR | INFERIOR

fun grade_value :: "grade \<Rightarrow> string" where
  "grade_value EXCELLENT = ''excellent''"
| "grade_value SLIGHTLY_SUPERIOR = ''slightly_superior''"
| "grade_value NORMAL = ''normal''"
| "grade_value SLIGHTLY_INFERIOR = ''slightly_inferior''"
| "grade_value INFERIOR = ''inferior''"

lemma grade_value_inject [simp]: "grade_value g = grade_value h \<longleftrightarrow> g = h"
  by (cases g; cases h) simp_all

datatype evaluation_status = E_VERIFIED | E_NEEDS_REVIEW | E_FAILED

text \<open>Statuses are ordered by severity; a summary takes the most severe one.\<close>

fun severity :: "evaluation_status \<Rightarrow> nat" where
  "severity E_VERIFIED = 0"
| "severity E_NEEDS_REVIEW = 1"
| "severity E_FAILED = 2"

instantiation evaluation_status :: linorder
begin

definition less_eq_evaluation_status :: "evaluation_status \<Rightarrow> evaluation_status \<Rightarrow> bool" where
  "less_eq_evaluation_status a b = (severity a \<le> severity b)"

definition less_evaluation_status :: "evaluation_status \<Rightarrow> evaluation_status \<Rightarrow> bool" where
  "less_evaluation_status a b = (severity a < severity b)"

instance
proof
  fix a b :: evaluation_status
  show "a \<le> b \<Longrightarrow> b \<le> a \<Longrightarrow> a = b"
    by (cases a; cases b) (simp_all add: less_eq_evaluation_status_def)
qed (auto simp: less_eq_evaluation_status_def less_evaluation_status_def)

end

lemma status_order [simp]: "E_VERIFIED \<le> s" "s \<le> E_FAILED" "s \<le> E_VERIFIED \<longleftrightarrow> s = E_VERIFIED"
  by (cases s; simp add: less_eq_evaluation_status_def)+

datatype value_content = Number_Value pyfloat | Text_Value string | Category_Value string | Boolean_Value bool

record normalized_value =
  nv_content :: value_content
  nv_unit :: "string option"

datatype coordinate_system = Ocr_Top_Left | Pdf_Bottom_Left

type_synonym box = "pyfloat \<times> pyfloat \<times> pyfloat \<times> pyfloat"

record evidence_ref =
  ev_document_id :: string
  ev_source_file :: "string option"
  ev_page :: int
  ev_block_ids :: "string list"
  ev_confidence :: pyfloat
  ev_bounding_box :: "box option"
  ev_coordinate_system :: "coordinate_system option"

record factor_observation =
  ob_raw_text :: "string option"
  ob_value :: "normalized_value option"
  ob_evidence :: "evidence_ref list"
  ob_confidence :: pyfloat

definition unit_interval :: "pyfloat \<Rightarrow> bool" where
  "unit_interval x = (is_finite x \<and> dec_le (Dec 0 0) x \<and> dec_le x (Dec 1 0))"

definition evidence_ref_valid :: "evidence_ref \<Rightarrow> bool" where
  "evidence_ref_valid e = (1 \<le> ev_page e \<and> unit_interval (ev_confidence e))"

definition value_finite :: "normalized_value \<Rightarrow> bool" where
  "value_finite v = (case nv_content v of Number_Value x \<Rightarrow> is_finite x | _ \<Rightarrow> True)"

definition observation_valid :: "factor_observation \<Rightarrow> bool" where
  "observation_valid x = (list_all evidence_ref_valid (ob_evidence x) \<and> unit_interval (ob_confidence x)
     \<and> (case ob_value x of None \<Rightarrow> True | Some v \<Rightarrow> value_finite v))"

section \<open>Rules\<close>

record rule_applicability =
  ap_jurisdiction :: string
  ap_land_use_category :: string
  ap_effective_from :: "nat option"
  ap_effective_to :: "nat option"

definition validate_dates :: "rule_applicability \<Rightarrow> bool" where
  "validate_dates a = (case (ap_effective_from a, ap_effective_to a) of
     (Some f, Some t) \<Rightarrow> \<not> t < f | _ \<Rightarrow> True)"

record interval_band =
  ib_grade :: grade
  ib_minimum :: "pyfloat option"
  ib_minimum_inclusive :: bool
  ib_maximum :: "pyfloat option"
  ib_maximum_inclusive :: bool

text \<open>\<open>allow_inf_nan=False\<close> and \<open>validate_bounds\<close>.\<close>

definition validate_bounds :: "interval_band \<Rightarrow> bool" where
  "validate_bounds b =
     ((case ib_minimum b of None \<Rightarrow> True | Some x \<Rightarrow> is_finite x)
      \<and> (case ib_maximum b of None \<Rightarrow> True | Some x \<Rightarrow> is_finite x)
      \<and> (case (ib_minimum b, ib_maximum b) of (Some lo, Some hi) \<Rightarrow> \<not> dec_le hi lo | _ \<Rightarrow> True))"

record category_band =
  cb_grade :: grade
  cb_values :: "string list"

type_synonym correction_matrix = "(string, (string, pyfloat) dict) dict"

datatype rule_kind = Numeric_Interval | Distance_Interval | Category_Rule | Presence_Distance

record factor_rule =
  fr_id :: string
  fr_factor_id :: string
  fr_kind :: rule_kind
  fr_unit :: "string option"
  fr_intervals :: "interval_band list"
  fr_categories :: "category_band list"
  fr_correction_matrix :: correction_matrix
  fr_critical :: bool

definition same_bound :: "pyfloat option \<Rightarrow> pyfloat option \<Rightarrow> bool" where
  "same_bound a b = (case (a, b) of (None, None) \<Rightarrow> True | (Some x, Some y) \<Rightarrow> dec_eq x y | _ \<Rightarrow> False)"

text \<open>The loop over neighbouring bands of \<open>_validate_intervals\<close>.\<close>

fun contiguous :: "interval_band list \<Rightarrow> bool" where
  "contiguous (p # c # rest) =
     (same_bound (ib_maximum p) (ib_minimum c)
      \<and> ib_maximum_inclusive p \<noteq> ib_minimum_inclusive c \<and> contiguous (c # rest))"
| "contiguous _ = True"

definition validate_intervals :: "interval_band list \<Rightarrow> bool" where
  "validate_intervals bs = (bs \<noteq> [] \<and> ib_minimum (hd bs) = None \<and> ib_maximum (last bs) = None \<and> contiguous bs)"

definition validate_matrix :: "correction_matrix \<Rightarrow> string set \<Rightarrow> bool" where
  "validate_matrix rows grades =
     (set (map fst rows) = grades \<and> list_all (\<lambda>(_, row). set (map fst row) = grades) rows)"

definition rule_aliases :: "(string \<Rightarrow> string) \<Rightarrow> factor_rule \<Rightarrow> string list" where
  "rule_aliases fold_text r = concat (map (\<lambda>b. map fold_text (cb_values b)) (fr_categories r))"

definition interval_grades :: "factor_rule \<Rightarrow> string set" where
  "interval_grades r = (\<lambda>b. grade_value (ib_grade b)) ` set (fr_intervals r)"

definition category_grades :: "factor_rule \<Rightarrow> string set" where
  "category_grades r = (\<lambda>b. grade_value (cb_grade b)) ` set (fr_categories r)"

definition validate_definition :: "(string \<Rightarrow> string) \<Rightarrow> factor_rule \<Rightarrow> bool" where
  "validate_definition fold_text r =
     (if fr_kind r \<in> {Numeric_Interval, Distance_Interval, Presence_Distance}
      then \<not> (fr_intervals r = [] \<or> (fr_categories r \<noteq> [] \<and> fr_kind r \<noteq> Presence_Distance))
           \<and> validate_intervals (fr_intervals r)
           \<and> (if fr_kind r = Presence_Distance
              then fr_categories r \<noteq> [] \<and> distinct (rule_aliases fold_text r)
                   \<and> validate_matrix (fr_correction_matrix r) (interval_grades r \<union> category_grades r)
              else validate_matrix (fr_correction_matrix r) (interval_grades r))
      else \<not> (fr_categories r = [] \<or> fr_intervals r \<noteq> []) \<and> distinct (rule_aliases fold_text r)
           \<and> validate_matrix (fr_correction_matrix r) (category_grades r))"

text \<open>A \<open>FactorRule\<close> as the constructor accepts it: its parts and its definition; a Python \<open>dict\<close> has unique keys.\<close>

definition factor_rule_valid :: "(string \<Rightarrow> string) \<Rightarrow> factor_rule \<Rightarrow> bool" where
  "factor_rule_valid fold_text r =
     (list_all validate_bounds (fr_intervals r) \<and> list_all (\<lambda>b. cb_values b \<noteq> []) (fr_categories r)
      \<and> dict_ok (fr_correction_matrix r) \<and> list_all (\<lambda>(_, row). dict_ok row) (fr_correction_matrix r)
      \<and> list_all (\<lambda>(_, row). list_all (\<lambda>(_, x). is_finite x) row) (fr_correction_matrix r)
      \<and> validate_definition fold_text r)"

record rule_source =
  rs_document_id :: string
  rs_content_hash :: string
  rs_pages :: "int list"

datatype rule_status = Candidate | Approved | Rejected

record factor_rule_set =
  frs_rule_set_id :: string
  frs_version :: string
  frs_status :: rule_status
  frs_applicability :: rule_applicability
  frs_source_document :: rule_source
  frs_rules :: "factor_rule list"

definition validate_unique_rules :: "factor_rule_set \<Rightarrow> bool" where
  "validate_unique_rules s = (distinct (map fr_id (frs_rules s)) \<and> distinct (map fr_factor_id (frs_rules s)))"

definition factor_rule_set_valid :: "(string \<Rightarrow> string) \<Rightarrow> factor_rule_set \<Rightarrow> bool" where
  "factor_rule_set_valid fold_text s =
     (frs_rules s \<noteq> [] \<and> list_all (factor_rule_valid fold_text) (frs_rules s)
      \<and> validate_dates (frs_applicability s) \<and> validate_unique_rules s)"

section \<open>Requests and results\<close>

record factor_pair =
  fp_factor_id :: string
  fp_target :: factor_observation
  fp_comparable :: factor_observation

record factor_evaluation_request =
  fe_case_id :: string
  fe_rule_set_id :: string
  fe_factors :: "factor_pair list"

definition request_valid :: "factor_evaluation_request \<Rightarrow> bool" where
  "request_valid q = list_all (\<lambda>p. observation_valid (fp_target p) \<and> observation_valid (fp_comparable p)) (fe_factors q)"

datatype side = Target_Side | Comparable_Side

text \<open>The messages of \<open>ObservationNeedsReview\<close> and of the engine, one constructor each.\<close>

datatype review_reason =
    Value_Missing side | Evidence_Missing side | Low_Confidence side pyfloat pyfloat | Not_Numeric side
  | Negative_Distance | No_Interval side | Not_Categorical side | Unknown_Category side string
  | Value_Not_Finite | Unit_Not_Declared | Unit_Missing string | Unit_Unsupported string string
  | Unknown_Factor string | Matrix_Lookup_Failed

datatype calculation_trace = No_Rule | Stopped_Before_Lookup | Matrix_Cell_Missing | Classified_And_Queried

record factor_evaluation_result =
  fv_factor_id :: string
  fv_target_grade :: "grade option"
  fv_comparable_grade :: "grade option"
  fv_adjustment_percent :: "pyfloat option"
  fv_rule_id :: "string option"
  fv_calculation_trace :: calculation_trace
  fv_status :: evaluation_status
  fv_warnings :: "review_reason list"

record evaluation_summary =
  su_total_adjustment_percent :: "pyfloat option"
  su_status :: evaluation_status

datatype scope = Regional | Individual

record comparison_context =
  cx_scope :: scope
  cx_target_id :: string
  cx_comparable_id :: string

record factor_review_result =
  fw_case_id :: string
  fw_rule_set_id :: string
  fw_rule_version :: string
  fw_context :: "comparison_context option"
  fw_case_version :: "string option"
  fw_source_hashes :: "(string, digest) dict"
  fw_results :: "factor_evaluation_result list"
  fw_summary :: evaluation_summary

end
