(* ===== verification/Documents.thy ===== *)
theory Documents
  imports Factor_Models
begin

text \<open>
  \<open>domain/document_models.py\<close> and \<open>document_identity\<close> of \<open>domain/pdf_types.py\<close>: the versioned
  source registry, citations into it and how they resolve.  Strings are lists of bytes (UTF-8).  A host
  in brackets is refused, as the standard library refuses every one but the unused \<open>IPvFuture\<close> form.
\<close>

section \<open>Document identities\<close>

fun split_on :: "char \<Rightarrow> string \<Rightarrow> string list" where
  "split_on c [] = [[]]"
| "split_on c (x # xs) = (if x = c then [] # split_on c xs
     else case split_on c xs of [] \<Rightarrow> [[x]] | p # ps \<Rightarrow> (x # p) # ps)"

fun join_with :: "string \<Rightarrow> string list \<Rightarrow> string" where
  "join_with s [] = []"
| "join_with s [p] = p"
| "join_with s (p # ps) = p @ s @ join_with s ps"

text \<open>\<open>posixpath.normpath\<close> of an absolute path; exactly two leading slashes are kept.\<close>

definition norm_component :: "string list \<Rightarrow> string \<Rightarrow> string list" where
  "norm_component done part =
     (if part = [] \<or> part = ''.'' then done
      else if part \<noteq> ''..'' \<or> (done \<noteq> [] \<and> last done = ''..'') then done @ [part] else butlast done)"

definition normpath :: "string \<Rightarrow> string" where
  "normpath path =
     (let slashes = (if take 2 path = ''//'' \<and> take 3 path \<noteq> ''///'' then ''//'' else ''/'')
      in slashes @ join_with ''/'' (foldl norm_component [] (split_on (CHR ''/'') path)))"

definition hex_digit :: "char \<Rightarrow> nat option" where
  "hex_digit c = (let n = of_char c :: nat in
     if 48 \<le> n \<and> n \<le> 57 then Some (n - 48) else if 65 \<le> n \<and> n \<le> 70 then Some (n - 55)
     else if 97 \<le> n \<and> n \<le> 102 then Some (n - 87) else None)"

fun unquote :: "string \<Rightarrow> string" where
  "unquote (p # a # b # rest) =
     (if p = CHR ''%'' then
        (case (hex_digit a, hex_digit b) of
           (Some x, Some y) \<Rightarrow> char_of (16 * x + y) # unquote rest
         | _ \<Rightarrow> p # unquote (a # b # rest))
      else p # unquote (a # b # rest))"
| "unquote s = s"

definition is_alpha :: "char \<Rightarrow> bool" where
  "is_alpha c = (let n = of_char c :: nat in 65 \<le> n \<and> n \<le> 90 \<or> 97 \<le> n \<and> n \<le> 122)"

definition is_scheme_char :: "char \<Rightarrow> bool" where
  "is_scheme_char c = (is_alpha c \<or> is_digit c \<or> c = CHR ''+'' \<or> c = CHR ''-'' \<or> c = CHR ''.'')"

text \<open>\<open>urlsplit\<close> of a text without query and fragment: scheme, host part and path.\<close>

definition split_scheme :: "string \<Rightarrow> string \<times> string" where
  "split_scheme url =
     (let s = takeWhile (\<lambda>c. c \<noteq> CHR '':'') url; rest = drop (length s) url
      in if rest \<noteq> [] \<and> s \<noteq> [] \<and> is_alpha (hd s) \<and> list_all is_scheme_char s
         then (map lower s, tl rest) else ([], url))"

definition split_netloc :: "string \<Rightarrow> string \<times> string" where
  "split_netloc url =
     (if take 2 url = ''//'' then (takeWhile (\<lambda>c. c \<noteq> CHR ''/'') (drop 2 url), dropWhile (\<lambda>c. c \<noteq> CHR ''/'') (drop 2 url))
      else ([], url))"

text \<open>A bracketed host counts as the malformed address that \<open>urlsplit\<close> rejects with a plain \<open>ValueError\<close>.\<close>

definition document_identity :: "string \<Rightarrow> (string \<times> string \<times> string) result" where
  "document_identity uri =
     (if uri = [] \<or> (\<exists>c \<in> set uri. (of_char c :: nat) < 33) \<or> CHR ''?'' \<in> set uri \<or> CHR ''#'' \<in> set uri then Inl (Pdf_Error Pdf_Unsupported_Uri)
      else case split_scheme uri of (scheme, url) \<Rightarrow> case split_netloc url of (netloc, path) \<Rightarrow>
        if CHR ''['' \<in> set netloc \<or> CHR '']'' \<in> set netloc then Inl Value_Error
        else if scheme = ''file'' \<and> (netloc = [] \<or> netloc = ''localhost'') then
          (let p = unquote path in
           if take 1 p \<noteq> ''/'' \<or> p = ''/'' \<or> char_of (0 :: nat) \<in> set p then Inl (Pdf_Error Pdf_Unsupported_Uri)
           else Inr (''file'', [], normpath p))
        else if scheme = ''s3'' \<and> netloc \<noteq> [] \<and> path \<noteq> [] \<and> path \<noteq> ''/'' then
          (if CHR ''@'' \<in> set netloc \<or> CHR '':'' \<in> set netloc \<or> CHR ''%'' \<in> set netloc \<or> CHR ''%'' \<in> set path
           then Inl (Pdf_Error Pdf_Unsupported_Uri) else Inr (''s3'', netloc, tl path))
        else Inl (Pdf_Error Pdf_Unsupported_Uri))"

lemma document_identity_examples:
  "document_identity ''file:///a/./b/../c%20d.pdf'' = Inr (''file'', [], ''/a/c d.pdf'')"
  "document_identity ''S3://bucket/k/../x'' = Inr (''s3'', ''bucket'', ''k/../x'')"
  "document_identity ''forms.pdf'' = Inl (Pdf_Error Pdf_Unsupported_Uri)"
  "document_identity ''file://host/x'' = Inl (Pdf_Error Pdf_Unsupported_Uri)"
  by code_simp+

section \<open>The source registry\<close>

datatype region_kind = Text_Region | Cell_Region | Selection_Region | Image_Region

datatype mark = Checked | Unchecked | Ambiguous

record source_region =
  sr_id :: string
  sr_kind :: region_kind
  sr_bbox :: box
  sr_text :: string
  sr_table_id :: "string option"
  sr_row :: "int option"
  sr_column :: "int option"
  sr_selection :: "mark option"

record source_page =
  sp_number :: int
  sp_width :: pyfloat
  sp_height :: pyfloat
  sp_rotation :: int
  sp_crop_box :: box
  sp_has_text :: bool
  sp_regions :: "source_region list"

datatype document_role = Criteria | Forms | Reference | Brief

record source_document =
  sd_document_id :: string
  sd_uri :: string
  sd_content_hash :: digest
  sd_version :: string
  sd_role :: document_role
  sd_document_date :: "string option"
  sd_pages :: "source_page list"

record source_citation =
  ct_document_id :: string
  ct_content_hash :: digest
  ct_version :: string
  ct_page :: int
  ct_region_id :: string
  ct_bbox :: box
  ct_excerpt :: string

record source_registry =
  sy_documents :: "source_document list"

definition region_inside :: "pyfloat \<Rightarrow> pyfloat \<Rightarrow> box \<Rightarrow> bool" where
  "region_inside w h b = (case b of (x0, y0, x1, y1) \<Rightarrow>
     list_all is_finite [x0, y0, x1, y1]
     \<and> dec_le (Dec 0 0) x0 \<and> dec_less x0 x1 \<and> dec_le x1 w \<and> dec_le (Dec 0 0) y0 \<and> dec_less y0 y1 \<and> dec_le y1 h)"

definition valid_regions :: "source_page \<Rightarrow> bool" where
  "valid_regions p = (1 \<le> sp_number p \<and> is_finite (sp_width p) \<and> dec_less (Dec 0 0) (sp_width p)
     \<and> is_finite (sp_height p) \<and> dec_less (Dec 0 0) (sp_height p) \<and> sp_rotation p \<in> {0, 90, 180, 270}
     \<and> distinct (map sr_id (sp_regions p))
     \<and> list_all (\<lambda>r. region_inside (sp_width p) (sp_height p) (sr_bbox r)) (sp_regions p))"

definition is_hex_digest :: "string \<Rightarrow> bool" where
  "is_hex_digest s = (length s = 64 \<and> list_all (\<lambda>c. is_digit c \<or> c \<in> set ''abcdef'') s)"

definition complete_pages :: "source_document \<Rightarrow> bool" where
  "complete_pages d = (is_hex_digest (sd_content_hash d) \<and> sd_version d \<noteq> [] \<and> sd_pages d \<noteq> []
     \<and> list_all valid_regions (sd_pages d) \<and> map sp_number (sd_pages d) = map int [1 ..< length (sd_pages d) + 1])"

definition unique_documents :: "source_registry \<Rightarrow> bool" where
  "unique_documents g = (sy_documents g \<noteq> [] \<and> list_all complete_pages (sy_documents g)
     \<and> distinct (map sd_document_id (sy_documents g)))"

definition citation_valid :: "source_citation \<Rightarrow> bool" where
  "citation_valid c = (1 \<le> ct_page c \<and> is_hex_digest (ct_content_hash c))"

text \<open>Everything but the location of the document is compared as it is.\<close>

definition same_identity_and_content :: "source_document \<Rightarrow> source_document \<Rightarrow> bool result" where
  "same_identity_and_content d e =
     bind_result (document_identity (sd_uri d)) (\<lambda>a. bind_result (document_identity (sd_uri e)) (\<lambda>b.
       Inr (a = b \<and> d\<lparr>sd_uri := []\<rparr> = e\<lparr>sd_uri := []\<rparr>)))"

section \<open>Resolving citations\<close>

text \<open>\<open>pattern in text\<close>.\<close>

fun contains_text :: "string \<Rightarrow> string \<Rightarrow> bool" where
  "contains_text [] p = (p = [])"
| "contains_text (c # cs) p = (take (length p) (c # cs) = p \<or> contains_text cs p)"

definition cites :: "source_document \<Rightarrow> source_citation \<Rightarrow> bool" where
  "cites d c = ((sd_document_id d, sd_content_hash d, sd_version d) = (ct_document_id c, ct_content_hash c, ct_version c))"

definition region_supports :: "source_region \<Rightarrow> source_citation \<Rightarrow> bool" where
  "region_supports r c = (sr_bbox r = ct_bbox c
     \<and> (sr_kind r \<in> {Image_Region, Cell_Region, Selection_Region} \<and> sr_text r = [] \<and> ct_excerpt c = []
        \<or> ct_excerpt c \<noteq> [] \<and> contains_text (sr_text r) (ct_excerpt c)))"

fun resolves_in :: "source_document list \<Rightarrow> source_citation \<Rightarrow> bool" where
  "resolves_in [] c = False"
| "resolves_in (d # ds) c =
     (if \<not> cites d c then resolves_in ds c
      else if int (length (sd_pages d)) < ct_page c then False
      else case find (\<lambda>r. sr_id r = ct_region_id c) (sp_regions (sd_pages d ! nat (ct_page c - 1))) of
             Some r \<Rightarrow> region_supports r c
           | None \<Rightarrow> resolves_in ds c)"

definition resolves :: "source_registry \<Rightarrow> source_citation \<Rightarrow> bool" where
  "resolves g c = resolves_in (sy_documents g) c"

lemma contains_text_iff: "contains_text t p \<longleftrightarrow> (\<exists>a b. t = a @ p @ b)"
proof (induction t)
  case (Cons c cs)
  have "take (length p) (c # cs) = p \<longleftrightarrow> (\<exists>b. c # cs = p @ b)"
    by (metis append_eq_conv_conj append_take_drop_id)
  then show ?case using Cons.IH by (auto simp: Cons_eq_append_conv)
qed simp

text \<open>What a resolved citation points at.\<close>

lemma resolves_in_region:
  assumes "resolves_in ds c" and "1 \<le> ct_page c"
  shows "\<exists>d \<in> set ds. cites d c \<and> ct_page c \<le> int (length (sd_pages d))
     \<and> (\<exists>r \<in> set (sp_regions (sd_pages d ! nat (ct_page c - 1))). sr_id r = ct_region_id c \<and> region_supports r c)"
  using assms by (induction ds) (auto split: if_splits option.splits simp: find_Some_iff)

end
