(* ===== verification/Rule_Engine.thy ===== *)
theory Rule_Engine
  imports Factor_Models
begin

text \<open>
  \<open>domain/models.py\<close> and \<open>domain/rule_engine.py\<close>: canonical fields, the deterministic \<open>sum\<close> and
  \<open>equals\<close> rules over them, and the shared \<open>calculate\<close>.  A finding keeps its status, severity,
  numbers and evidence; its prose message is represented by the reason it states.
\<close>

section \<open>The canonical case\<close>

datatype field_value = Field_Text string | Field_Int int | Field_Float pyfloat | Field_Bool bool

record extracted_field =
  xf_raw_value :: "string option"
  xf_value :: "field_value option"
  xf_evidence :: "evidence_ref list"

record canonical_case =
  cc_case_id :: string
  cc_schema_version :: string
  cc_fields :: "(string, extracted_field) dict"

datatype check_status = PASS | FAIL | NEEDS_REVIEW

datatype check_kind = Sum_Check | Equals_Check

datatype rule_severity = Info | Warning | Error

record rule_definition =
  rd_id :: string
  rd_kind :: check_kind
  rd_inputs :: "string list"
  rd_target :: string
  rd_tolerance :: pyfloat
  rd_severity :: rule_severity

text \<open>\<open>Field(ge=0.0)\<close> admits positive infinity but not not-a-number.\<close>

definition rule_definition_valid :: "rule_definition \<Rightarrow> bool" where
  "rule_definition_valid r = (rd_inputs r \<noteq> []
     \<and> (case rd_tolerance r of Dec c e \<Rightarrow> 0 \<le> c | Special k \<Rightarrow> k = Positive_Infinity))"

record rule_set =
  rst_version :: string
  rst_rules :: "rule_definition list"

datatype finding_message = Missing_Fields "string list" | Not_Numeric_Field | Passed_Within pyfloat | Differs

record finding =
  fi_rule_id :: string
  fi_rule_version :: string
  fi_status :: check_status
  fi_severity :: rule_severity
  fi_message :: finding_message
  fi_expected :: "string option"
  fi_actual :: "string option"
  fi_evidence :: "evidence_ref list"

record review_result =
  rr_case_id :: string
  rr_schema_version :: string
  rr_rule_version :: string
  rr_findings :: "finding list"

definition overall_status :: "review_result \<Rightarrow> check_status" where
  "overall_status r =
     (let statuses = fi_status ` set (rr_findings r) in
      if FAIL \<in> statuses then FAIL else if NEEDS_REVIEW \<in> statuses then NEEDS_REVIEW else PASS)"

section \<open>Calculation\<close>

definition calculate :: "check_kind \<Rightarrow> decimal list \<Rightarrow> decimal option \<Rightarrow> decimal result" where
  "calculate kind inputs quantum =
     (if inputs = [] \<or> \<not> list_all is_finite inputs then Inl Value_Error
      else let result = (if kind = Sum_Check then dec_sum inputs else hd inputs)
           in case quantum of None \<Rightarrow> Inr result | Some q \<Rightarrow> dec_quantize result q)"

definition has_value :: "extracted_field option \<Rightarrow> bool" where
  "has_value f = (case f of None \<Rightarrow> False
     | Some x \<Rightarrow> xf_value x \<noteq> None \<and> xf_value x \<noteq> Some (Field_Text []))"

definition normalize_text :: "string \<Rightarrow> string" where
  "normalize_text s =
     (let t = filter (\<lambda>c. c \<noteq> CHR '','') (strip s)
      in if t \<noteq> [] \<and> last t = CHR ''%'' then strip (butlast t) else t)"

definition to_decimal :: "extracted_field \<Rightarrow> decimal option" where
  "to_decimal f =
     (case xf_value f of None \<Rightarrow> None
      | Some (Field_Bool _) \<Rightarrow> None
      | Some (Field_Text s) \<Rightarrow> parse_decimal (normalize_text s)
      | Some (Field_Int i) \<Rightarrow> Some (Dec i 0)
      | Some (Field_Float x) \<Rightarrow> Some x)"

definition collect_evidence :: "canonical_case \<Rightarrow> string list \<Rightarrow> evidence_ref list" where
  "collect_evidence cs names =
     concat (map (\<lambda>n. case dict_get (cc_fields cs) n of None \<Rightarrow> [] | Some f \<Rightarrow> xf_evidence f) names)"

text \<open>
  \<open>abs(expected - actual) <= tolerance\<close> for a finite \<open>expected\<close>: an infinite \<open>actual\<close> is an
  infinite distance away, and ordering a not-a-number raises \<open>InvalidOperation\<close>.
\<close>

definition within_tolerance :: "decimal \<Rightarrow> decimal \<Rightarrow> decimal \<Rightarrow> bool result" where
  "within_tolerance expected actual tolerance =
     (case actual of
        Special k \<Rightarrow> if k = Not_A_Number then Inl Arithmetic_Error else Inr (\<not> is_finite tolerance)
      | Dec _ _ \<Rightarrow> Inr (\<not> is_finite tolerance \<or> dec_le (dec_abs (dec_sub expected actual)) tolerance))"

section \<open>Evaluation\<close>

text \<open>The field reads of the guarded block: \<open>None\<close> when a value is not unambiguously numeric.\<close>

fun decimals_of :: "canonical_case \<Rightarrow> string list \<Rightarrow> decimal list option" where
  "decimals_of cs [] = Some []"
| "decimals_of cs (n # ns) =
     Option.bind (Option.bind (dict_get (cc_fields cs) n) to_decimal) (\<lambda>x.
       Option.bind (decimals_of cs ns) (\<lambda>xs. Some (x # xs)))"

definition compare_rule :: "string \<Rightarrow> rule_definition \<Rightarrow> evidence_ref list \<Rightarrow> decimal list \<Rightarrow> decimal \<Rightarrow> finding result" where
  "compare_rule version r evidence inputs actual =
     bind_result (calculate (rd_kind r) inputs None) (\<lambda>expected.
     bind_result (within_tolerance expected actual (rd_tolerance r)) (\<lambda>b.
       Inr \<lparr>fi_rule_id = rd_id r, fi_rule_version = version, fi_status = (if b then PASS else FAIL),
            fi_severity = rd_severity r, fi_message = (if b then Passed_Within (rd_tolerance r) else Differs),
            fi_expected = Some (dec_str expected), fi_actual = Some (dec_str actual), fi_evidence = evidence\<rparr>))"

definition evaluate_rule :: "string \<Rightarrow> canonical_case \<Rightarrow> rule_definition \<Rightarrow> finding result" where
  "evaluate_rule version cs r =
     (let required_names = rd_inputs r @ [rd_target r];
          missing = filter (\<lambda>n. \<not> has_value (dict_get (cc_fields cs) n)) required_names;
          evidence = collect_evidence cs required_names;
          stopped = (\<lambda>m. \<lparr>fi_rule_id = rd_id r, fi_rule_version = version, fi_status = NEEDS_REVIEW,
             fi_severity = rd_severity r, fi_message = m, fi_expected = None, fi_actual = None, fi_evidence = evidence\<rparr>)
      in if missing \<noteq> [] then Inr (stopped (Missing_Fields missing))
         else case (decimals_of cs (rd_inputs r), Option.bind (dict_get (cc_fields cs) (rd_target r)) to_decimal) of
             (Some inputs, Some actual) \<Rightarrow> compare_rule version r evidence inputs actual
           | _ \<Rightarrow> Inr (stopped Not_Numeric_Field))"

definition rule_engine_evaluate :: "rule_set \<Rightarrow> canonical_case \<Rightarrow> review_result result" where
  "rule_engine_evaluate rs cs =
     bind_result (map_result (evaluate_rule (rst_version rs) cs) (rst_rules rs)) (\<lambda>findings.
       Inr \<lparr>rr_case_id = cc_case_id cs, rr_schema_version = cc_schema_version cs,
            rr_rule_version = rst_version rs, rr_findings = findings\<rparr>)"

section \<open>What a passing rule means\<close>

lemma calculate_exact:
  "calculate kind inputs None = Inr x \<longleftrightarrow>
     inputs \<noteq> [] \<and> list_all is_finite inputs \<and> x = (if kind = Sum_Check then dec_sum inputs else hd inputs)"
  by (auto simp: calculate_def Let_def)

lemma map_result_member: "map_result f xs = Inr ys \<Longrightarrow> x \<in> set xs \<Longrightarrow> \<exists>y \<in> set ys. f x = Inr y"
  by (induction xs arbitrary: ys) auto

lemma evaluate_rule_pass:
  assumes "evaluate_rule v cs r = Inr f" and "fi_status f = PASS"
  shows "\<exists>inputs actual. decimals_of cs (rd_inputs r) = Some inputs
     \<and> Option.bind (dict_get (cc_fields cs) (rd_target r)) to_decimal = Some actual
     \<and> compare_rule v r (collect_evidence cs (rd_inputs r @ [rd_target r])) inputs actual = Inr f"
  using assms
  by (cases "decimals_of cs (rd_inputs r)"; cases "Option.bind (dict_get (cc_fields cs) (rd_target r)) to_decimal")
    (auto simp: evaluate_rule_def Let_def split: if_splits simp del: Option.bind_eq_Some_conv)

lemma compare_rule_pass:
  assumes "compare_rule v r ev inputs actual = Inr f" and "fi_status f = PASS" and "is_finite (rd_tolerance r)"
  shows "list_all is_finite inputs \<and> is_finite actual
     \<and> dec_le (dec_abs (dec_sub (if rd_kind r = Sum_Check then dec_sum inputs else hd inputs) actual)) (rd_tolerance r)"
  using assms
  by (cases actual) (auto simp: compare_rule_def within_tolerance_def calculate_exact split: if_splits)

text \<open>
  C29.  An overall pass is earned by every rule: when the result of an evaluation is \<open>pass\<close>, each rule with a
  finite tolerance has all its input fields and its target field present and finite, and the calculated
  value lies within the tolerance of the observed one.
\<close>

theorem overall_pass_means_every_rule_holds:
  assumes "rule_engine_evaluate rs cs = Inr res" and "overall_status res = PASS"
    and "r \<in> set (rst_rules rs)" and "is_finite (rd_tolerance r)"
  shows "\<exists>inputs actual. decimals_of cs (rd_inputs r) = Some inputs
     \<and> Option.bind (dict_get (cc_fields cs) (rd_target r)) to_decimal = Some actual
     \<and> list_all is_finite inputs \<and> is_finite actual
     \<and> dec_le (dec_abs (dec_sub (if rd_kind r = Sum_Check then dec_sum inputs else hd inputs) actual)) (rd_tolerance r)"
proof -
  obtain f where f: "f \<in> set (rr_findings res)" "evaluate_rule (rst_version rs) cs r = Inr f"
    using assms(1,3) map_result_member by (fastforce simp: rule_engine_evaluate_def)
  have "fi_status f \<noteq> FAIL \<and> fi_status f \<noteq> NEEDS_REVIEW"
    using assms(2) f(1) by (force simp: overall_status_def Let_def split: if_splits)
  then have p: "fi_status f = PASS" by (cases "fi_status f") auto
  from evaluate_rule_pass [OF f(2) p] compare_rule_pass [OF _ p assms(4)] show ?thesis by blast
qed

definition demo_field :: "string \<Rightarrow> extracted_field" where
  "demo_field s = \<lparr>xf_raw_value = Some s, xf_value = Some (Field_Text s), xf_evidence = []\<rparr>"

definition demo_case :: "string \<Rightarrow> canonical_case" where
  "demo_case s = \<lparr>cc_case_id = ''C'', cc_schema_version = ''0.1.0'',
     cc_fields = [(''a'', demo_field ''1,200.5''), (''b'', demo_field s), (''t'', demo_field ''1201'')]\<rparr>"

definition demo_sum_rule :: rule_definition where
  "demo_sum_rule = \<lparr>rd_id = ''R'', rd_kind = Sum_Check, rd_inputs = [''a'', ''b''], rd_target = ''t'',
     rd_tolerance = Dec 0 0, rd_severity = Error\<rparr>"

lemma demo_parse:
  "parse_decimal (normalize_text ''1,200.5'') = Some (Dec 12005 (- 1))" "parse_decimal (normalize_text ''0.5 %'') = Some (Dec 5 (- 1))"
  "parse_decimal (normalize_text ''1201'') = Some (Dec 1201 0)" "parse_decimal (normalize_text ''NaN'') = Some (Special Not_A_Number)"
  by code_simp+

lemma demo_rule_passes:
  "\<exists>res. rule_engine_evaluate \<lparr>rst_version = ''1'', rst_rules = [demo_sum_rule]\<rparr> (demo_case ''0.5 %'') = Inr res \<and> overall_status res = PASS"
  by (simp add: rule_engine_evaluate_def evaluate_rule_def demo_sum_rule_def demo_case_def demo_field_def has_value_def Let_def
      to_decimal_def demo_parse compare_rule_def calculate_def within_tolerance_def dec_sum_def dec_add_def dec_sub_def
      dec_le_def pow10_def digits10.simps context_precision_def overall_status_def)

theorem overall_pass_means_every_rule_holds_witness:
  "\<exists>inputs. decimals_of (demo_case ''0.5 %'') (rd_inputs demo_sum_rule) = Some inputs \<and> list_all is_finite inputs"
proof -
  obtain res where "rule_engine_evaluate \<lparr>rst_version = ''1'', rst_rules = [demo_sum_rule]\<rparr> (demo_case ''0.5 %'') = Inr res"
    "overall_status res = PASS" using demo_rule_passes by blast
  from overall_pass_means_every_rule_holds [OF this, of demo_sum_rule] show ?thesis by (auto simp: demo_sum_rule_def)
qed





end
