(* ===== verification/Review_Contracts.thy ===== *)
theory Review_Contracts
  imports Documents Rule_Engine
begin

text \<open>
  \<open>domain/review_contracts.py\<close>, the case-level models at the end of \<open>domain/factor_models.py\<close>, and
  \<open>domain/confidence.py\<close>: inventory, observations and trusted policy as separate inputs with their
  validators, and the reviewer's confirmation of one side of a factor pair.  The digest of a
  confirmation is SHA-256 over canonical JSON and appears as an argument \<open>digest_of\<close> on the data it covers.
\<close>

section \<open>Inventory\<close>

record case_identity =
  ci_case_id :: string
  ci_version :: string
  ci_district :: string
  ci_zone :: string
  ci_land_use_category :: string
  ci_effective_date :: nat

datatype slot_value = Target_Grade | Comparable_Grade | Adjustment_Percent | Subtotal | Total

record review_slot =
  sl_id :: string
  sl_context :: comparison_context
  sl_factor_id :: "string option"
  sl_value :: slot_value
  sl_derivable_blank :: bool
  sl_evidence :: "source_citation list"

record inventory_context =
  ic_context :: comparison_context
  ic_factor_ids :: "string list"
  ic_evidence :: "source_citation list"

record empty_column =
  ec_id :: string
  ec_evidence :: "source_citation list"

record arithmetic_check =
  ac_id :: string
  ac_kind :: check_kind
  ac_inputs :: "string list"
  ac_target :: string
  ac_quantum :: decimal
  ac_tolerance :: decimal
  ac_evidence :: "source_citation list"

text \<open>\<open>quantum.normalize().as_tuple().digits\<close>, after the rounding of the context.\<close>

function strip_zeros :: "nat \<Rightarrow> nat" where
  "strip_zeros n = (if n \<noteq> 0 \<and> n mod 10 = 0 then strip_zeros (n div 10) else n)"
  by pat_completeness auto
termination by (relation "measure id") auto

declare strip_zeros.simps [simp del]

fun normalized_digits :: "decimal \<Rightarrow> nat option" where
  "normalized_digits d = (case dec_fix d of Dec c e \<Rightarrow> Some (strip_zeros (nat \<bar>c\<bar>)) | Special k \<Rightarrow> None)"

definition exact_equals :: "arithmetic_check \<Rightarrow> bool" where
  "exact_equals c = (ac_inputs c \<noteq> [] \<and> is_finite (ac_quantum c) \<and> dec_less (Dec 0 0) (ac_quantum c)
     \<and> is_finite (ac_tolerance c) \<and> dec_le (Dec 0 0) (ac_tolerance c)
     \<and> ac_evidence c \<noteq> [] \<and> list_all citation_valid (ac_evidence c)
     \<and> ac_target c \<notin> set (ac_inputs c) \<and> (ac_kind c = Equals_Check \<longrightarrow> length (ac_inputs c) = 1)
     \<and> normalized_digits (ac_quantum c) = Some 1)"

record review_inventory =
  iv_contexts :: "inventory_context list"
  iv_slots :: "review_slot list"
  iv_checks :: "arithmetic_check list"
  iv_empty_columns :: "empty_column list"
  iv_inspected_pages :: "(string, int list) dict"
  iv_inspected_tables :: "(string, string list) dict"
  iv_unresolved :: "string list"
  iv_unsupported :: "string list"

definition evidence_given :: "source_citation list \<Rightarrow> bool" where
  "evidence_given refs = (refs \<noteq> [] \<and> list_all citation_valid refs)"

definition context_valid :: "comparison_context \<Rightarrow> bool" where
  "context_valid c = (cx_target_id c \<noteq> [] \<and> cx_comparable_id c \<noteq> [])"

definition review_inventory_valid :: "review_inventory \<Rightarrow> bool" where
  "review_inventory_valid i = (iv_contexts i \<noteq> [] \<and> iv_slots i \<noteq> []
     \<and> list_all (\<lambda>c. context_valid (ic_context c) \<and> ic_factor_ids c \<noteq> [] \<and> evidence_given (ic_evidence c)) (iv_contexts i)
     \<and> list_all (\<lambda>s. context_valid (sl_context s) \<and> evidence_given (sl_evidence s)) (iv_slots i)
     \<and> list_all exact_equals (iv_checks i) \<and> list_all (\<lambda>c. evidence_given (ec_evidence c)) (iv_empty_columns i))"

section \<open>Observations and reliability\<close>

datatype observed_state = Present | Blank | Missing | Not_Present | Not_Applicable

datatype observed_unit = Percent_Points | Ratio | Grade_Unit

datatype observed_content = Observed_Text string | Observed_Decimal decimal

record observed_value =
  ov_slot_id :: string
  ov_state :: observed_state
  ov_value :: "observed_content option"
  ov_unit :: "observed_unit option"
  ov_raw_text :: string
  ov_evidence :: "source_citation list"

definition state_value :: "observed_value \<Rightarrow> bool" where
  "state_value v = ((ov_state v = Present) = (ov_value v \<noteq> None) \<and> list_all citation_valid (ov_evidence v)
     \<and> (case ov_value v of Some (Observed_Decimal d) \<Rightarrow> is_finite d | _ \<Rightarrow> True))"

record fact_confirmation =
  fc_reviewer :: string
  fc_input_digest :: digest

datatype confidence_kind = Unknown_Confidence | Localization_Only | Measured

datatype fact_provenance = Unknown_Provenance | Parser_Registry | Native_Extraction

datatype fact_method = Native_Numeric | Reviewer_Confirmed | Model_Proposed

datatype fact_selection = Selection_Checked | Selection_Unchecked | Selection_Ambiguous | Selection_Not_Applicable

record reliability =
  rl_confidence_kind :: confidence_kind
  rl_provenance :: fact_provenance
  rl_producer :: "string option"
  rl_confirmation :: "fact_confirmation option"
  rl_model_confidence :: "pyfloat option"
  rl_method :: fact_method
  rl_selection :: fact_selection
  rl_unresolved :: "string list"

definition reliability_valid :: "reliability \<Rightarrow> bool" where
  "reliability_valid r = (rl_producer r \<noteq> Some []
     \<and> (case rl_model_confidence r of None \<Rightarrow> True | Some x \<Rightarrow> unit_interval x)
     \<and> (case rl_confirmation r of None \<Rightarrow> True | Some c \<Rightarrow> fc_reviewer c \<noteq> [] \<and> is_hex_digest (fc_input_digest c)))"

section \<open>Policy and facts\<close>

record scoped_rules =
  sc_context :: comparison_context
  sc_rules :: factor_rule_set
  sc_source_version :: string
  sc_zone :: string
  sc_evidence :: "source_citation list"

record review_policy =
  pl_identity :: case_identity
  pl_registry :: source_registry
  pl_inventory :: review_inventory
  pl_rule_sets :: "scoped_rules list"

record evidenced_pair =
  ep_context :: comparison_context
  ep_pair :: factor_pair
  ep_target_sources :: "source_citation list"
  ep_comparable_sources :: "source_citation list"
  ep_target_reliability :: reliability
  ep_comparable_reliability :: reliability

record case_facts =
  cf_identity :: case_identity
  cf_pairs :: "evidenced_pair list"
  cf_observed :: "observed_value list"
  cf_unresolved :: "string list"

record review_material =
  rm_policy :: review_policy
  rm_facts :: case_facts

text \<open>\<open>getattr(pair, f"{side}_...")\<close>.\<close>

definition side_observation :: "evidenced_pair \<Rightarrow> side \<Rightarrow> factor_observation" where
  "side_observation p sd = (if sd = Target_Side then fp_target (ep_pair p) else fp_comparable (ep_pair p))"

definition side_sources :: "evidenced_pair \<Rightarrow> side \<Rightarrow> source_citation list" where
  "side_sources p sd = (if sd = Target_Side then ep_target_sources p else ep_comparable_sources p)"

definition side_reliability :: "evidenced_pair \<Rightarrow> side \<Rightarrow> reliability" where
  "side_reliability p sd = (if sd = Target_Side then ep_target_reliability p else ep_comparable_reliability p)"

definition set_side_reliability :: "side \<Rightarrow> reliability \<Rightarrow> evidenced_pair \<Rightarrow> evidenced_pair" where
  "set_side_reliability sd r p = (if sd = Target_Side then p\<lparr>ep_target_reliability := r\<rparr> else p\<lparr>ep_comparable_reliability := r\<rparr>)"

definition evidenced_pair_valid :: "evidenced_pair \<Rightarrow> bool" where
  "evidenced_pair_valid p = (context_valid (ep_context p)
     \<and> list_all (\<lambda>sd. observation_valid (side_observation p sd) \<and> list_all citation_valid (side_sources p sd)
          \<and> reliability_valid (side_reliability p sd)) [Target_Side, Comparable_Side])"

definition review_policy_valid :: "(string \<Rightarrow> string) \<Rightarrow> review_policy \<Rightarrow> bool" where
  "review_policy_valid fold_text pl = (unique_documents (pl_registry pl) \<and> review_inventory_valid (pl_inventory pl)
     \<and> pl_rule_sets pl \<noteq> []
     \<and> list_all (\<lambda>s. context_valid (sc_context s) \<and> factor_rule_set_valid fold_text (sc_rules s) \<and> evidence_given (sc_evidence s))
         (pl_rule_sets pl))"

definition case_facts_valid :: "case_facts \<Rightarrow> bool" where
  "case_facts_valid f = (list_all evidenced_pair_valid (cf_pairs f) \<and> list_all state_value (cf_observed f))"

definition review_material_valid :: "(string \<Rightarrow> string) \<Rightarrow> review_material \<Rightarrow> bool" where
  "review_material_valid fold_text m = (review_policy_valid fold_text (rm_policy m) \<and> case_facts_valid (rm_facts m))"

section \<open>Confirmation of one side\<close>

text \<open>The data under the digest; the method and the confirmation itself are excluded.\<close>

record confirmation_data =
  cd_context :: comparison_context
  cd_factor_id :: string
  cd_side :: side
  cd_observation :: factor_observation
  cd_sources :: "source_citation list"
  cd_reliability :: reliability

definition confirmation_data_of :: "evidenced_pair \<Rightarrow> side \<Rightarrow> confirmation_data" where
  "confirmation_data_of p sd =
     \<lparr>cd_context = ep_context p, cd_factor_id = fp_factor_id (ep_pair p), cd_side = sd,
      cd_observation = side_observation p sd, cd_sources = side_sources p sd,
      cd_reliability = (side_reliability p sd)\<lparr>rl_method := Native_Numeric, rl_confirmation := None\<rparr>\<rparr>"

definition confirmation_digest :: "(confirmation_data \<Rightarrow> digest) \<Rightarrow> evidenced_pair \<Rightarrow> side \<Rightarrow> digest" where
  "confirmation_digest digest_of p sd = digest_of (confirmation_data_of p sd)"

definition confirm_side :: "(confirmation_data \<Rightarrow> digest) \<Rightarrow> evidenced_pair \<Rightarrow> side \<Rightarrow> string \<Rightarrow> evidenced_pair result" where
  "confirm_side digest_of p sd reviewer =
     (let x = side_observation p sd; r = side_reliability p sd in
      if ob_value x = None \<or> ob_evidence x = [] \<or> side_sources p sd = [] \<or> rl_unresolved r \<noteq> []
         \<or> rl_selection r = Selection_Ambiguous \<or> rl_confidence_kind r = Unknown_Confidence
         \<or> rl_provenance r = Unknown_Provenance \<or> reviewer = []
      then Inl Value_Error
      else Inr (set_side_reliability sd
        (r\<lparr>rl_confirmation := Some \<lparr>fc_reviewer = reviewer, fc_input_digest = confirmation_digest digest_of p sd\<rparr>,
           rl_method := Reviewer_Confirmed\<rparr>) p))"

text \<open>The confirmation that the case review honours.\<close>

definition confirmation_holds :: "(confirmation_data \<Rightarrow> digest) \<Rightarrow> evidenced_pair \<Rightarrow> side \<Rightarrow> bool" where
  "confirmation_holds digest_of p sd =
     (let r = side_reliability p sd in
      (case rl_confirmation r of None \<Rightarrow> False | Some c \<Rightarrow> fc_input_digest c = confirmation_digest digest_of p sd)
      \<and> rl_confidence_kind r \<noteq> Unknown_Confidence \<and> rl_provenance r \<noteq> Unknown_Provenance)"

lemma side_after_set [simp]:
  "side_reliability (set_side_reliability sd r p) sd' = (if sd' = sd then r else side_reliability p sd')"
  "side_observation (set_side_reliability sd r p) sd' = side_observation p sd'"
  "side_sources (set_side_reliability sd r p) sd' = side_sources p sd'"
  "ep_context (set_side_reliability sd r p) = ep_context p" "ep_pair (set_side_reliability sd r p) = ep_pair p"
  by (cases sd; cases sd'; simp add: set_side_reliability_def side_reliability_def side_observation_def side_sources_def)+

text \<open>
  C31.  A confirmation binds what was confirmed.  After a successful \<open>confirm_side\<close> the confirmation is
  honoured; the measurements are untouched; and when nothing else has the digest of the confirmed data, no later pair that
  carries this confirmation is honoured unless its context, factor, observation, sources and
  reliability facts on that side are the confirmed ones.
\<close>

theorem confirmation_binds_material:
  assumes "confirm_side digest_of p sd reviewer = Inr p'" 
    and "\<And>d. digest_of d = digest_of (confirmation_data_of p sd) \<Longrightarrow> d = confirmation_data_of p sd"
  shows "confirmation_holds digest_of p' sd
     \<and> (\<forall>sd'. side_observation p' sd' = side_observation p sd' \<and> side_sources p' sd' = side_sources p sd')
     \<and> (\<forall>q. rl_confirmation (side_reliability q sd) = rl_confirmation (side_reliability p' sd) \<longrightarrow>
          confirmation_holds digest_of q sd \<longrightarrow> ep_context q = ep_context p \<and> fp_factor_id (ep_pair q) = fp_factor_id (ep_pair p)
            \<and> side_observation q sd = side_observation p sd \<and> side_sources q sd = side_sources p sd
            \<and> rl_confidence_kind (side_reliability q sd) = rl_confidence_kind (side_reliability p sd)
            \<and> rl_provenance (side_reliability q sd) = rl_provenance (side_reliability p sd)
            \<and> rl_selection (side_reliability q sd) = rl_selection (side_reliability p sd)
            \<and> rl_unresolved (side_reliability q sd) = rl_unresolved (side_reliability p sd))"
proof -
  let ?c = "\<lparr>fc_reviewer = reviewer, fc_input_digest = confirmation_digest digest_of p sd\<rparr>"
  have p': "p' = set_side_reliability sd ((side_reliability p sd)\<lparr>rl_confirmation := Some ?c, rl_method := Reviewer_Confirmed\<rparr>) p"
    and known: "rl_confidence_kind (side_reliability p sd) \<noteq> Unknown_Confidence" "rl_provenance (side_reliability p sd) \<noteq> Unknown_Provenance"
    using assms(1) by (auto simp: confirm_side_def Let_def split: if_splits)
  have "confirmation_data_of p' sd = confirmation_data_of p sd" by (simp add: p' confirmation_data_of_def)
  then have holds: "confirmation_holds digest_of p' sd"
    using known unfolding confirmation_holds_def confirmation_digest_def by (simp add: p' confirmation_digest_def)
  have "confirmation_data_of q sd = confirmation_data_of p sd"
    if "rl_confirmation (side_reliability q sd) = rl_confirmation (side_reliability p' sd)" "confirmation_holds digest_of q sd" for q
    using that by (intro assms(2)) (auto simp: p' confirmation_holds_def confirmation_digest_def Let_def)
  then have "ep_context q = ep_context p \<and> fp_factor_id (ep_pair q) = fp_factor_id (ep_pair p)
      \<and> side_observation q sd = side_observation p sd \<and> side_sources q sd = side_sources p sd
      \<and> (side_reliability q sd)\<lparr>rl_method := Native_Numeric, rl_confirmation := None\<rparr>
        = (side_reliability p sd)\<lparr>rl_method := Native_Numeric, rl_confirmation := None\<rparr>"
    if "rl_confirmation (side_reliability q sd) = rl_confirmation (side_reliability p' sd)" "confirmation_holds digest_of q sd" for q
    using that by (simp add: confirmation_data_of_def)
  moreover have "r\<lparr>rl_method := Native_Numeric, rl_confirmation := None\<rparr> = r'\<lparr>rl_method := Native_Numeric, rl_confirmation := None\<rparr> \<Longrightarrow>
      rl_confidence_kind r = rl_confidence_kind r' \<and> rl_provenance r = rl_provenance r' \<and> rl_selection r = rl_selection r'
      \<and> rl_unresolved r = rl_unresolved r'" for r r' :: reliability
    by (cases r; cases r') simp
  moreover have "\<forall>sd'. side_observation p' sd' = side_observation p sd' \<and> side_sources p' sd' = side_sources p sd'" by (simp add: p')
  ultimately show ?thesis using holds by blast
qed

definition demo_citation :: source_citation where
  "demo_citation = \<lparr>ct_document_id = ''D'', ct_content_hash = replicate 64 (CHR ''a''), ct_version = ''1'', ct_page = 1,
     ct_region_id = ''r'', ct_bbox = (Dec 0 0, Dec 0 0, Dec 1 0, Dec 1 0), ct_excerpt = ''6''\<rparr>"

definition demo_pair :: evidenced_pair where
  "demo_pair = (let x = \<lparr>ob_raw_text = Some ''6'', ob_value = Some \<lparr>nv_content = Number_Value (Dec 6 0), nv_unit = Some ''m''\<rparr>,
       ob_evidence = [\<lparr>ev_document_id = ''D'', ev_source_file = None, ev_page = 1, ev_block_ids = [], ev_confidence = Dec 9 (- 1),
         ev_bounding_box = None, ev_coordinate_system = None\<rparr>], ob_confidence = Dec 5 (- 1)\<rparr>;
     r = \<lparr>rl_confidence_kind = Localization_Only, rl_provenance = Parser_Registry, rl_producer = None, rl_confirmation = None,
       rl_model_confidence = None, rl_method = Model_Proposed, rl_selection = Selection_Not_Applicable, rl_unresolved = []\<rparr>
     in \<lparr>ep_context = \<lparr>cx_scope = Regional, cx_target_id = ''T'', cx_comparable_id = ''C''\<rparr>,
         ep_pair = \<lparr>fp_factor_id = ''f'', fp_target = x, fp_comparable = x\<rparr>,
         ep_target_sources = [demo_citation], ep_comparable_sources = [demo_citation],
         ep_target_reliability = r, ep_comparable_reliability = r\<rparr>)"

lemma demo_confirms: "\<exists>p'. confirm_side h demo_pair Target_Side ''reviewer'' = Inr p'"
  by (simp add: confirm_side_def demo_pair_def Let_def side_observation_def side_reliability_def side_sources_def)

text \<open>A digest that tells the confirmed data from everything else.\<close>

definition demo_confirmation_digest :: "confirmation_data \<Rightarrow> digest" where
  "demo_confirmation_digest d = (if d = confirmation_data_of demo_pair Target_Side then ''1'' else ''0'')"

theorem confirmation_binds_material_witness:
  "\<exists>p'. confirm_side demo_confirmation_digest demo_pair Target_Side ''reviewer'' = Inr p' \<and> confirmation_holds demo_confirmation_digest p' Target_Side"
proof -
  have unique: "demo_confirmation_digest d = demo_confirmation_digest (confirmation_data_of demo_pair Target_Side) \<Longrightarrow> d = confirmation_data_of demo_pair Target_Side" for d
    unfolding demo_confirmation_digest_def by (simp only: if_True refl split: if_splits) simp
  obtain p' where "confirm_side demo_confirmation_digest demo_pair Target_Side ''reviewer'' = Inr p'" using demo_confirms by blast
  with confirmation_binds_material [OF this unique] show ?thesis by blast
qed

end
