(* ===== verification/Workflow_Contracts.thy ===== *)
theory Workflow_Contracts
  imports Service_Contracts Review_Contracts
begin

text \<open>
  The controlled-workflow contracts of \<open>domain/service_contracts.py\<close>: material revisions, snapshots,
  budgets, allowed actions, proposals, tool receipts, decision events and the result of a bounded run.
  Every pydantic validator is a boolean function over the field constraints and the \<open>model_validator\<close>;
  constructing or revalidating a model raises \<open>ValueError\<close> exactly when it is false.  Fixed display texts
  are left out.  \<open>content_digest\<close> is an argument.
\<close>

section \<open>Material revisions\<close>

record rule_reference =
  ru_rule_set_id :: string
  ru_version :: string
  ru_context :: comparison_context
  ru_content_hash :: digest

datatype public_content = Public_Normalized normalized_value | Public_Text string | Public_Decimal decimal

record public_value =
  pv_state :: observed_state
  pv_value :: "public_content option"
  pv_raw_text :: string
  pv_unit :: "string option"
  pv_confidence :: "pyfloat option"
  pv_evidence :: "source_citation list"

record value_revision =
  vr_subject_id :: string
  vr_original :: public_value
  vr_proposed :: "public_value option"
  vr_corrected :: "public_value option"
  vr_corrected_by :: "actor_reference option"

datatype canonicalization = Review_Material_Json | Source_Documents_Json

record material_revision =
  mr_reference :: revision_reference
  mr_parent :: "revision_reference option"
  mr_documents :: "document_reference list"
  mr_rules :: "rule_reference list"
  mr_changes :: "value_revision list"
  mr_canonicalization :: canonicalization

definition option_ok :: "('a \<Rightarrow> bool) \<Rightarrow> 'a option \<Rightarrow> bool" where
  "option_ok P x = (case x of None \<Rightarrow> True | Some y \<Rightarrow> P y)"

lemma option_ok_simps [simp]:
  "option_ok P None"
  "option_ok P (Some x) = P x"
  by (simp_all add: option_ok_def)

definition rule_reference_valid :: "rule_reference \<Rightarrow> bool" where
  "rule_reference_valid r = (ru_rule_set_id r \<noteq> [] \<and> ru_version r \<noteq> [] \<and> context_valid (ru_context r)
     \<and> digest_pattern (ru_content_hash r))"

definition actor_reference_valid :: "actor_reference \<Rightarrow> bool" where
  "actor_reference_valid a = (actor_id a \<noteq> [])"

definition public_value_valid :: "public_value \<Rightarrow> bool" where
  "public_value_valid v = ((pv_state v = Present) = (pv_value v \<noteq> None)
     \<and> option_ok unit_interval (pv_confidence v)
     \<and> (case pv_value v of Some (Public_Decimal d) \<Rightarrow> is_finite d | Some (Public_Normalized n) \<Rightarrow> value_finite n | _ \<Rightarrow> True)
     \<and> list_all citation_valid (pv_evidence v))"

definition correction_actor :: "value_revision \<Rightarrow> bool" where
  "correction_actor v = (vr_subject_id v \<noteq> [] \<and> public_value_valid (vr_original v)
     \<and> option_ok public_value_valid (vr_proposed v) \<and> option_ok public_value_valid (vr_corrected v)
     \<and> option_ok actor_reference_valid (vr_corrected_by v)
     \<and> (vr_corrected v = None) = (vr_corrected_by v = None)
     \<and> option_ok (\<lambda>a. actor_kind a = A_human) (vr_corrected_by v))"

definition child_of :: "revision_reference \<Rightarrow> revision_reference \<Rightarrow> bool" where
  "child_of r p = (rev_case_id p = rev_case_id r \<and> rev_revision_id p \<noteq> rev_revision_id r
     \<and> rev_material_digest p \<noteq> rev_material_digest r)"

definition identities :: "(document_reference list \<Rightarrow> digest) \<Rightarrow> material_revision \<Rightarrow> bool" where
  "identities content_digest m =
     (revision_reference_valid (mr_reference m) \<and> option_ok revision_reference_valid (mr_parent m)
      \<and> 2 \<le> length (mr_documents m) \<and> list_all document_reference_valid (mr_documents m)
      \<and> list_all rule_reference_valid (mr_rules m) \<and> list_all correction_actor (mr_changes m)
      \<and> (mr_canonicalization m = Review_Material_Json \<longrightarrow> mr_rules m \<noteq> [])
      \<and> (mr_canonicalization m = Source_Documents_Json \<longrightarrow>
           mr_rules m = [] \<and> mr_changes m = [] \<and> mr_documents m = sort_key doc_document_id (mr_documents m)
           \<and> rev_material_digest (mr_reference m) = content_digest (sort_key doc_document_id (mr_documents m)))
      \<and> list_all (\<lambda>d. doc_case_id d = rev_case_id (mr_reference m)) (mr_documents m)
      \<and> distinct (map doc_document_id (mr_documents m))
      \<and> option_ok (child_of (mr_reference m)) (mr_parent m))"

definition run_valid :: "run_reference \<Rightarrow> bool" where
  "run_valid r = (run_reference_valid r \<and> revision_reference_valid (rr_revision r))"

section \<open>Budgets and snapshots\<close>

record budget =
  steps_remaining :: int
  model_calls_remaining :: int
  retries_remaining :: int
  time_remaining_ms :: "int option"

definition budget_valid :: "budget \<Rightarrow> bool" where
  "budget_valid b = (0 \<le> steps_remaining b \<and> 0 \<le> model_calls_remaining b \<and> 0 \<le> retries_remaining b
     \<and> option_ok (\<lambda>t. 0 \<le> t) (time_remaining_ms b))"

definition make_budget :: "int \<Rightarrow> int \<Rightarrow> int \<Rightarrow> int option \<Rightarrow> budget result" where
  "make_budget s m r t =
     (let b = \<lparr>steps_remaining = s, model_calls_remaining = m, retries_remaining = r, time_remaining_ms = t\<rparr>
      in if budget_valid b then Inr b else Inl Value_Error)"

datatype action_kind = K_EXTRACT | K_REFERENCE | K_HUMAN | K_REVIEW

datatype workflow_state =
  W_CRITERIA_PENDING | W_FORMS_PENDING | W_EXTRACTION_RETRYABLE | W_REFERENCE_AVAILABLE
  | W_RULES_AWAITING_APPROVAL | W_EVIDENCE_NEEDS_REVIEW | W_MATERIAL_READY | W_REVIEW_FAILED | W_VERIFIED
  | W_UNSUPPORTED_CONTEXTS | W_WAITING_FOR_HUMAN

datatype action_prerequisite =
  Q_CRITERIA_DOCUMENT | Q_FORMS_DOCUMENT | Q_AUTHORIZED_SOURCE | Q_CRITERIA_PARSED | Q_FORMS_PARSED
  | Q_EXTRACTION_RETRY_AVAILABLE | Q_REFERENCE_AVAILABLE | Q_RULES_AVAILABLE | Q_RULES_APPROVED
  | Q_CRITICAL_EVIDENCE_AVAILABLE | Q_MATERIAL_COMPLETE

record workflow_blocker =
  wb_blocker_id :: string
  wb_reason_code :: string
  wb_affected_subject_ids :: "string list"
  wb_evidence :: "source_citation list"

definition blocker_valid :: "workflow_blocker \<Rightarrow> bool" where
  "blocker_valid b = (opaque_id (wb_blocker_id b) \<and> opaque_id (wb_reason_code b)
     \<and> wb_affected_subject_ids b \<noteq> [] \<and> list_all opaque_id (wb_affected_subject_ids b)
     \<and> list_all citation_valid (wb_evidence b) \<and> distinct (wb_affected_subject_ids b))"

record workflow_snapshot =
  sn_state_version :: int
  sn_run :: run_reference
  sn_revision :: material_revision
  sn_state :: workflow_state
  sn_satisfied_prerequisites :: "action_prerequisite list"
  sn_unresolved_blockers :: "workflow_blocker list"
  sn_budget :: budget

definition exact_state :: "(document_reference list \<Rightarrow> digest) \<Rightarrow> workflow_snapshot \<Rightarrow> bool" where
  "exact_state content_digest s =
     (1 \<le> sn_state_version s \<and> run_valid (sn_run s) \<and> identities content_digest (sn_revision s)
      \<and> list_all blocker_valid (sn_unresolved_blockers s) \<and> budget_valid (sn_budget s)
      \<and> (mr_canonicalization (sn_revision s) = Source_Documents_Json \<longrightarrow>
           sn_state s \<in> {W_CRITERIA_PENDING, W_EXTRACTION_RETRYABLE, W_REFERENCE_AVAILABLE}
           \<and> set (sn_satisfied_prerequisites s) \<subseteq> {Q_CRITERIA_DOCUMENT, Q_FORMS_DOCUMENT, Q_AUTHORIZED_SOURCE,
               Q_EXTRACTION_RETRY_AVAILABLE, Q_REFERENCE_AVAILABLE})
      \<and> rr_revision (sn_run s) = mr_reference (sn_revision s)
      \<and> distinct (sn_satisfied_prerequisites s)
      \<and> distinct (map wb_blocker_id (sn_unresolved_blockers s)))"

section \<open>Allowed actions\<close>

record action_cost =
  ac_steps :: int
  ac_model_calls :: int
  ac_retries :: int

record allowed_action =
  aa_action_id :: string
  aa_action :: action_kind
  aa_permitted_states :: "workflow_state list"
  aa_permitted_document_purposes :: "document_purpose list"
  aa_revision :: revision_reference
  aa_rules :: "rule_reference list"
  aa_proposer_kinds :: "actor_kind list"
  aa_executor_kinds :: "actor_kind list"
  aa_prerequisites :: "action_prerequisite list"
  aa_cost :: action_cost

definition cost_valid :: "action_cost \<Rightarrow> bool" where
  "cost_valid c = (1 \<le> ac_steps c \<and> 0 \<le> ac_model_calls c \<and> 0 \<le> ac_retries c)"

definition source_action :: "action_kind \<Rightarrow> bool" where
  "source_action k = (k \<in> {K_EXTRACT, K_REFERENCE})"

definition bounded_authority :: "allowed_action \<Rightarrow> bool" where
  "bounded_authority a =
     (opaque_id (aa_action_id a) \<and> aa_permitted_states a \<noteq> [] \<and> revision_reference_valid (aa_revision a)
      \<and> list_all rule_reference_valid (aa_rules a)
      \<and> length (aa_proposer_kinds a) = 1 \<and> set (aa_proposer_kinds a) \<subseteq> {A_system, A_model}
      \<and> length (aa_executor_kinds a) = 1 \<and> set (aa_executor_kinds a) \<subseteq> {A_system} \<and> cost_valid (aa_cost a)
      \<and> (aa_rules a = [] \<longrightarrow> source_action (aa_action a))
      \<and> distinct (aa_permitted_states a) \<and> distinct (aa_permitted_document_purposes a)
      \<and> distinct (aa_proposer_kinds a) \<and> distinct (aa_executor_kinds a) \<and> distinct (aa_prerequisites a)
      \<and> source_action (aa_action a) = (aa_permitted_document_purposes a \<noteq> [])
      \<and> (aa_action a = K_REFERENCE \<longrightarrow> set (aa_permitted_document_purposes a) \<subseteq> {P_reference, P_brief})
      \<and> (aa_action a = K_EXTRACT \<longrightarrow> P_template \<notin> set (aa_permitted_document_purposes a))
      \<and> (A_model \<in> set (aa_proposer_kinds a)) = (0 < ac_model_calls (aa_cost a)))"

record allowed_action_set =
  as_policy_version :: string
  as_snapshot_digest :: digest
  as_revision :: revision_reference
  as_documents :: "document_reference list"
  as_rules :: "rule_reference list"
  as_actions :: "allowed_action list"

definition unambiguous_registry :: "allowed_action_set \<Rightarrow> bool" where
  "unambiguous_registry s =
     (opaque_id (as_policy_version s) \<and> digest_pattern (as_snapshot_digest s) \<and> revision_reference_valid (as_revision s)
      \<and> 2 \<le> length (as_documents s) \<and> list_all document_reference_valid (as_documents s)
      \<and> list_all rule_reference_valid (as_rules s) \<and> list_all bounded_authority (as_actions s)
      \<and> distinct (map aa_action_id (as_actions s)) \<and> distinct (map aa_action (as_actions s))
      \<and> list_all (\<lambda>d. doc_case_id d = rev_case_id (as_revision s)) (as_documents s)
      \<and> distinct (map doc_document_id (as_documents s))
      \<and> list_all (\<lambda>a. aa_revision a = as_revision s \<and> aa_rules a = as_rules s
           \<and> set (aa_permitted_document_purposes a) \<subseteq> set (map doc_purpose (as_documents s))) (as_actions s))"

definition document_key :: "document_reference \<Rightarrow> string \<times> string \<times> digest" where
  "document_key d = (doc_document_id d, doc_version d, doc_content_hash d)"

definition citation_key :: "source_citation \<Rightarrow> string \<times> string \<times> digest" where
  "citation_key c = (ct_document_id c, ct_version c, ct_content_hash c)"

record selector_input =
  si_snapshot :: workflow_snapshot
  si_allowed_actions :: allowed_action_set
  si_evidence :: "source_citation list"
  si_budget :: budget

text \<open>The two hashes the workflow takes: of a snapshot and of the ordered source references.\<close>

record digests =
  dg_snapshot :: "workflow_snapshot \<Rightarrow> digest"
  dg_documents :: "document_reference list \<Rightarrow> digest"

abbreviation snapshot_valid :: "digests \<Rightarrow> workflow_snapshot \<Rightarrow> bool" where
  "snapshot_valid dg \<equiv> exact_state (dg_documents dg)"

definition affordable :: "budget \<Rightarrow> action_cost \<Rightarrow> bool" where
  "affordable b c = (ac_steps c \<le> steps_remaining b \<and> ac_model_calls c \<le> model_calls_remaining b
     \<and> ac_retries c \<le> retries_remaining b)"

definition exact_authority :: "digests \<Rightarrow> selector_input \<Rightarrow> bool" where
  "exact_authority dg i =
     (let allowed = si_allowed_actions i; snapshot = si_snapshot i
      in snapshot_valid dg snapshot \<and> unambiguous_registry allowed \<and> list_all citation_valid (si_evidence i)
         \<and> budget_valid (si_budget i)
         \<and> si_budget i = sn_budget snapshot \<and> as_snapshot_digest allowed = dg_snapshot dg snapshot
         \<and> as_revision allowed = mr_reference (sn_revision snapshot)
         \<and> as_documents allowed = mr_documents (sn_revision snapshot)
         \<and> as_rules allowed = mr_rules (sn_revision snapshot)
         \<and> list_all (\<lambda>a. affordable (si_budget i) (aa_cost a)) (as_actions allowed)
         \<and> list_all (\<lambda>c. citation_key c \<in> set (map document_key (mr_documents (sn_revision snapshot)))) (si_evidence i))"

end
