(* ===== verification/Workflow_Events.thy ===== *)
theory Workflow_Events
  imports Workflow_Contracts
begin

text \<open>
  The second half of the controlled-workflow contracts: proposals and their arguments, tool outcomes and
  receipts, decision and selection-failure events, the human handoff, the result of a bounded run, and the
  pause and continuation around a human task.
\<close>

section \<open>Proposals\<close>

datatype action_arguments =
    Extract_Page (arg_document: document_reference) (arg_page: int) (arg_region: "source_citation option")
  | Inspect_Reference (arg_document: document_reference) (arg_page: int) (arg_section: "string option")
  | Request_Human_Review (arg_reason: string) (arg_question: string) (arg_subjects: "string list")
      (arg_evidence: "source_citation list")
  | Deterministic_Review (arg_revision: revision_reference) (arg_rules: "rule_reference list")

fun arguments_kind :: "action_arguments \<Rightarrow> action_kind" where
  "arguments_kind (Extract_Page _ _ _) = K_EXTRACT"
| "arguments_kind (Inspect_Reference _ _ _) = K_REFERENCE"
| "arguments_kind (Request_Human_Review _ _ _ _) = K_HUMAN"
| "arguments_kind (Deterministic_Review _ _) = K_REVIEW"

definition located_region :: "document_reference \<Rightarrow> int \<Rightarrow> source_citation option \<Rightarrow> bool" where
  "located_region d page region =
     (document_reference_valid d \<and> 1 \<le> page \<and> option_ok citation_valid region \<and> doc_purpose d \<noteq> P_template
      \<and> option_ok (\<lambda>c. citation_key c = document_key d \<and> ct_page c = page) region)"

definition reference_purpose :: "document_reference \<Rightarrow> int \<Rightarrow> string option \<Rightarrow> bool" where
  "reference_purpose d page section =
     (document_reference_valid d \<and> 1 \<le> page \<and> option_ok opaque_id section \<and> doc_purpose d \<in> {P_reference, P_brief})"

definition human_request_valid :: "string \<Rightarrow> string \<Rightarrow> string list \<Rightarrow> source_citation list \<Rightarrow> bool" where
  "human_request_valid reason question subjects evidence =
     (opaque_id reason \<and> question \<noteq> [] \<and> subjects \<noteq> [] \<and> list_all opaque_id subjects
      \<and> list_all citation_valid evidence \<and> distinct subjects)"

definition review_arguments_valid :: "revision_reference \<Rightarrow> rule_reference list \<Rightarrow> bool" where
  "review_arguments_valid revision rules =
     (revision_reference_valid revision \<and> rules \<noteq> [] \<and> list_all rule_reference_valid rules)"

fun arguments_valid :: "action_arguments \<Rightarrow> bool" where
  "arguments_valid (Extract_Page d p r) = located_region d p r"
| "arguments_valid (Inspect_Reference d p s) = reference_purpose d p s"
| "arguments_valid (Request_Human_Review c q xs es) = human_request_valid c q xs es"
| "arguments_valid (Deterministic_Review r rs) = review_arguments_valid r rs"

record action_proposal =
  ap_proposal_id :: uuid
  ap_run :: run_reference
  ap_action_id :: string
  ap_action :: action_kind
  ap_policy_version :: string
  ap_snapshot_digest :: digest
  ap_proposer :: actor_reference
  ap_model_id :: "string option"
  ap_prompt_version :: "string option"
  ap_input_tokens :: "int option"
  ap_output_tokens :: "int option"
  ap_latency_ms :: "int option"
  ap_attempt_count :: "int option"
  ap_arguments :: action_arguments

text \<open>The telemetry clauses of \<open>typed_proposal\<close>: complete for a model, absent otherwise.\<close>

definition telemetry_matches :: "action_proposal \<Rightarrow> bool" where
  "telemetry_matches p =
     (if actor_kind (ap_proposer p) = A_model
      then ap_model_id p \<noteq> None \<and> ap_prompt_version p \<noteq> None \<and> ap_latency_ms p \<noteq> None \<and> ap_attempt_count p \<noteq> None
        \<and> (ap_input_tokens p = None) = (ap_output_tokens p = None)
      else ap_model_id p = None \<and> ap_prompt_version p = None \<and> ap_latency_ms p = None \<and> ap_attempt_count p = None
        \<and> ap_input_tokens p = None \<and> ap_output_tokens p = None)"

definition typed_proposal :: "action_proposal \<Rightarrow> bool" where
  "typed_proposal p =
     (run_valid (ap_run p) \<and> opaque_id (ap_action_id p) \<and> opaque_id (ap_policy_version p)
      \<and> digest_pattern (ap_snapshot_digest p) \<and> actor_reference_valid (ap_proposer p)
      \<and> ap_model_id p \<noteq> Some [] \<and> option_ok opaque_id (ap_prompt_version p)
      \<and> option_ok (\<lambda>n. 0 \<le> n) (ap_input_tokens p) \<and> option_ok (\<lambda>n. 0 \<le> n) (ap_output_tokens p)
      \<and> option_ok (\<lambda>n. 0 \<le> n) (ap_latency_ms p) \<and> option_ok (\<lambda>n. 1 \<le> n) (ap_attempt_count p)
      \<and> arguments_valid (ap_arguments p)
      \<and> ap_action p = arguments_kind (ap_arguments p) \<and> actor_kind (ap_proposer p) \<in> {A_system, A_model}
      \<and> telemetry_matches p
      \<and> (case ap_arguments p of Deterministic_Review r _ \<Rightarrow> r = rr_revision (ap_run p) | _ \<Rightarrow> True))"

section \<open>Tool outcomes and events\<close>

datatype tool_status = Tool_Succeeded | Tool_Failed

record tool_outcome =
  to_outcome :: tool_status
  to_result_digest :: "digest option"
  to_problem :: "service_problem option"

definition outcome_evidence :: "tool_outcome \<Rightarrow> bool" where
  "outcome_evidence t = (option_ok digest_pattern (to_result_digest t)
     \<and> (to_outcome t = Tool_Succeeded \<longrightarrow> to_result_digest t \<noteq> None \<and> to_problem t = None)
     \<and> (to_outcome t = Tool_Failed \<longrightarrow> to_problem t \<noteq> None))"

record tool_receipt =
  tr_outcome :: tool_outcome
  tr_reason_code :: string
  tr_reviewer_summary :: string
  tr_affected_subject_ids :: "string list"
  tr_evidence :: "source_citation list"
  tr_linked_task_id :: "uuid option"
  tr_linked_response_key :: "string option"

definition exact_receipt :: "tool_receipt \<Rightarrow> bool" where
  "exact_receipt r =
     (outcome_evidence (tr_outcome r) \<and> opaque_id (tr_reason_code r) \<and> tr_reviewer_summary r \<noteq> []
      \<and> list_all opaque_id (tr_affected_subject_ids r) \<and> list_all citation_valid (tr_evidence r)
      \<and> option_ok opaque_id (tr_linked_response_key r)
      \<and> distinct (tr_affected_subject_ids r)
      \<and> (tr_linked_response_key r \<noteq> None \<longrightarrow> tr_linked_task_id r \<noteq> None))"

record budget_consumption =
  bc_steps :: int
  bc_model_calls :: int
  bc_retries :: int
  bc_elapsed_ms :: "int option"

definition consumption_valid :: "budget_consumption \<Rightarrow> bool" where
  "consumption_valid c = (0 \<le> bc_steps c \<and> 0 \<le> bc_model_calls c \<and> 0 \<le> bc_retries c
     \<and> option_ok (\<lambda>t. 0 \<le> t) (bc_elapsed_ms c))"

text \<open>The accounting clauses that decision events and selection failures share.\<close>

definition accounts_for :: "budget \<Rightarrow> budget \<Rightarrow> budget_consumption \<Rightarrow> bool" where
  "accounts_for before after c =
     (steps_remaining before - steps_remaining after = bc_steps c
      \<and> model_calls_remaining before - model_calls_remaining after = bc_model_calls c
      \<and> retries_remaining before - retries_remaining after = bc_retries c
      \<and> (case (time_remaining_ms before, time_remaining_ms after, bc_elapsed_ms c) of
           (None, None, None) \<Rightarrow> True
         | (Some t, Some u, Some e) \<Rightarrow> t - u = e
         | _ \<Rightarrow> False))"

datatype disposition = Rejected | Executed | Tool_Failure

record decision_event =
  de_event_id :: uuid
  de_parent_event_ids :: "uuid list"
  de_proposal :: action_proposal
  de_executor :: "actor_reference option"
  de_policy_version :: string
  de_state_before :: workflow_state
  de_state_after :: workflow_state
  de_disposition :: disposition
  de_executed_action :: "action_kind option"
  de_checked_prerequisites :: "action_prerequisite list"
  de_reason_code :: string
  de_reviewer_summary :: string
  de_affected_subject_ids :: "string list"
  de_evidence :: "source_citation list"
  de_tool_result :: "tool_outcome option"
  de_remaining_blockers :: "string list"
  de_linked_task_id :: "uuid option"
  de_linked_response_key :: "string option"
  de_budget_before :: budget
  de_budget_after :: budget
  de_budget_consumed :: budget_consumption

definition event_fields_valid :: "decision_event \<Rightarrow> bool" where
  "event_fields_valid e =
     (typed_proposal (de_proposal e) \<and> option_ok actor_reference_valid (de_executor e) \<and> opaque_id (de_policy_version e)
      \<and> opaque_id (de_reason_code e) \<and> de_reviewer_summary e \<noteq> [] \<and> list_all opaque_id (de_affected_subject_ids e)
      \<and> list_all citation_valid (de_evidence e) \<and> option_ok outcome_evidence (de_tool_result e)
      \<and> option_ok opaque_id (de_linked_response_key e) \<and> budget_valid (de_budget_before e)
      \<and> budget_valid (de_budget_after e) \<and> consumption_valid (de_budget_consumed e))"

definition disposition_honest :: "decision_event \<Rightarrow> bool" where
  "disposition_honest e =
     ((if de_disposition e = Rejected
       then de_executed_action e = None \<and> de_executor e = None \<and> de_tool_result e = None
         \<and> de_state_after e = de_state_before e \<and> bc_steps (de_budget_consumed e) = 0
       else de_executed_action e = Some (ap_action (de_proposal e)) \<and> de_executor e \<noteq> None \<and> de_tool_result e \<noteq> None)
      \<and> option_ok (\<lambda>t. to_outcome t = (if de_disposition e = Executed then Tool_Succeeded else Tool_Failed)) (de_tool_result e))"

definition actual_execution :: "decision_event \<Rightarrow> bool" where
  "actual_execution e =
     (event_fields_valid e
      \<and> de_event_id e \<notin> set (de_parent_event_ids e) \<and> distinct (de_parent_event_ids e)
      \<and> de_policy_version e = ap_policy_version (de_proposal e)
      \<and> option_ok (\<lambda>a. actor_kind a = A_system) (de_executor e)
      \<and> disposition_honest e
      \<and> (de_linked_response_key e \<noteq> None \<longrightarrow> de_linked_task_id e \<noteq> None)
      \<and> (de_linked_task_id e \<noteq> None \<longrightarrow> ap_action (de_proposal e) = K_HUMAN)
      \<and> (de_disposition e = Executed \<and> ap_action (de_proposal e) = K_HUMAN \<longrightarrow>
           de_linked_task_id e \<noteq> None \<and> de_state_after e = W_WAITING_FOR_HUMAN)
      \<and> distinct (de_checked_prerequisites e) \<and> distinct (de_affected_subject_ids e) \<and> distinct (de_remaining_blockers e)
      \<and> accounts_for (de_budget_before e) (de_budget_after e) (de_budget_consumed e))"

datatype selector_error_code =
  S_NO_ALLOWED_ACTION | S_AMBIGUOUS_ACTION | S_MISSING_ARGUMENT_SOURCE | S_INVALID_PROPOSAL | S_MALFORMED_OUTPUT
  | S_TRUNCATED_OUTPUT | S_REFUSED | S_TIMEOUT | S_IN_FLIGHT | S_THROTTLED | S_PROVIDER_ERROR | S_UNSUPPORTED_RESPONSE

record selection_failure_event =
  sf_event_id :: uuid
  sf_parent_event_ids :: "uuid list"
  sf_run :: run_reference
  sf_snapshot_digest :: digest
  sf_policy_version :: string
  sf_actor :: actor_reference
  sf_error_code :: selector_error_code
  sf_model_id :: "string option"
  sf_prompt_version :: "string option"
  sf_attempt_count :: "int option"
  sf_input_tokens :: "int option"
  sf_output_tokens :: "int option"
  sf_latency_ms :: int
  sf_budget_before :: budget
  sf_budget_after :: budget
  sf_budget_consumed :: budget_consumption
  sf_remaining_blockers :: "string list"

definition failed_selection :: "selection_failure_event \<Rightarrow> bool" where
  "failed_selection e =
     (run_valid (sf_run e) \<and> digest_pattern (sf_snapshot_digest e) \<and> opaque_id (sf_policy_version e)
      \<and> actor_reference_valid (sf_actor e) \<and> option_ok opaque_id (sf_prompt_version e)
      \<and> option_ok (\<lambda>n. 0 \<le> n) (sf_attempt_count e) \<and> option_ok (\<lambda>n. 0 \<le> n) (sf_input_tokens e)
      \<and> option_ok (\<lambda>n. 0 \<le> n) (sf_output_tokens e) \<and> 0 \<le> sf_latency_ms e
      \<and> budget_valid (sf_budget_before e) \<and> budget_valid (sf_budget_after e) \<and> consumption_valid (sf_budget_consumed e)
      \<and> list_all opaque_id (sf_remaining_blockers e)
      \<and> actor_kind (sf_actor e) \<in> {A_system, A_model}
      \<and> sf_event_id e \<notin> set (sf_parent_event_ids e) \<and> distinct (sf_parent_event_ids e)
      \<and> (sf_input_tokens e = None) = (sf_output_tokens e = None)
      \<and> (actor_kind (sf_actor e) = A_system \<longrightarrow> sf_model_id e = None \<and> sf_prompt_version e = None
           \<and> sf_input_tokens e = None \<and> sf_output_tokens e = None)
      \<and> bc_steps (sf_budget_consumed e) = 0
      \<and> accounts_for (sf_budget_before e) (sf_budget_after e) (sf_budget_consumed e))"

section \<open>Results of a bounded run\<close>

datatype failure_category =
  F_RETRYABLE_PROVIDER_TOOL | F_PERMANENT_MALFORMED_PROPOSAL | F_UNAUTHORIZED_SOURCE | F_MISSING_EVIDENCE
  | F_UNSUPPORTED_RULE_CONTEXT | F_DETERMINISTIC_REVIEW_BLOCKER | F_UNRESOLVED_EXECUTION

datatype workflow_termination =
  T_VERIFIED | T_WAITING_FOR_HUMAN | T_BUDGET_EXHAUSTED | T_NO_PROGRESS | T_PERMANENT_FAILURE

record human_review_handoff =
  ho_reason_code :: string
  ho_category :: failure_category
  ho_revision :: revision_reference
  ho_blockers :: "workflow_blocker list"
  ho_affected_subject_ids :: "string list"
  ho_evidence :: "source_citation list"
  ho_last_tool_outcome :: "tool_outcome option"
  ho_no_progress_fingerprint :: "digest option"

definition preserved_context :: "human_review_handoff \<Rightarrow> bool" where
  "preserved_context h =
     (opaque_id (ho_reason_code h) \<and> revision_reference_valid (ho_revision h) \<and> list_all blocker_valid (ho_blockers h)
      \<and> list_all opaque_id (ho_affected_subject_ids h) \<and> list_all citation_valid (ho_evidence h)
      \<and> option_ok outcome_evidence (ho_last_tool_outcome h) \<and> option_ok digest_pattern (ho_no_progress_fingerprint h)
      \<and> distinct (ho_affected_subject_ids h) \<and> distinct (map wb_blocker_id (ho_blockers h)))"

record bounded_workflow_result =
  bw_run :: run_reference
  bw_termination :: workflow_termination
  bw_events :: "decision_event list"
  bw_selection_failures :: "selection_failure_event list"
  bw_final_budget :: budget
  bw_handoff :: "human_review_handoff option"

definition completed_termination :: "workflow_termination \<Rightarrow> bool" where
  "completed_termination t = (t \<in> {T_VERIFIED, T_WAITING_FOR_HUMAN})"

definition terminal_shape :: "bounded_workflow_result \<Rightarrow> bool" where
  "terminal_shape r =
     (run_valid (bw_run r) \<and> list_all actual_execution (bw_events r) \<and> list_all failed_selection (bw_selection_failures r)
      \<and> budget_valid (bw_final_budget r) \<and> option_ok preserved_context (bw_handoff r)
      \<and> completed_termination (bw_termination r) = (bw_handoff r = None)
      \<and> list_all (\<lambda>e. ap_run (de_proposal e) = bw_run r) (bw_events r)
      \<and> list_all (\<lambda>e. sf_run e = bw_run r) (bw_selection_failures r)
      \<and> (bw_termination r = T_VERIFIED \<and> bw_events r \<noteq> [] \<longrightarrow> de_disposition (last (bw_events r)) = Executed))"

section \<open>Pause and continuation\<close>

text \<open>
  The causal check of \<open>WorkflowPause.waiting_only\<close>: events whose parents are all gone are removed
  round by round; a round that removes nothing is a cycle.
\<close>

function causal_rounds :: "(uuid \<times> uuid list) list \<Rightarrow> bool" where
  "causal_rounds pending =
     (if pending = [] then True
      else let ready = map fst (filter (\<lambda>(i, ps). ps = []) pending)
           in if ready = [] then False
              else causal_rounds (map (\<lambda>(i, ps). (i, filter (\<lambda>p. p \<notin> set ready) ps))
                     (filter (\<lambda>(i, ps). i \<notin> set ready) pending)))"
  by pat_completeness auto
termination
proof (relation "measure length", goal_cases)
  case 1
  then show ?case by simp
next
  case (2 pending ready)
  then obtain i ps where m: "(i, ps) \<in> set pending" "i \<in> set ready"
    by (metis (no_types, lifting) filter_is_subset imageE list.set_map neq_Nil_conv list.set_intros(1) subset_iff surj_pair fst_conv)
  then have "length (filter (\<lambda>(i, ps). i \<notin> set ready) pending) < length pending"
    by (intro length_filter_less [where x = "(i, ps)"]) auto
  then show ?case by simp
qed

declare causal_rounds.simps [simp del]

record workflow_pause =
  wp_pause_id :: uuid
  wp_result :: bounded_workflow_result
  wp_task_ids :: "uuid list"

definition causal_trace :: "bounded_workflow_result \<Rightarrow> (uuid \<times> uuid list) list" where
  "causal_trace r = map (\<lambda>e. (de_event_id e, de_parent_event_ids e)) (bw_events r)
     @ map (\<lambda>e. (sf_event_id e, sf_parent_event_ids e)) (bw_selection_failures r)"

definition waiting_only :: "workflow_pause \<Rightarrow> bool" where
  "waiting_only p =
     (let r = wp_result p; events = bw_events r; ids = map fst (causal_trace r)
      in terminal_shape r \<and> wp_task_ids p \<noteq> []
         \<and> bw_termination r = T_WAITING_FOR_HUMAN \<and> events \<noteq> [] \<and> de_disposition (last events) = Executed
         \<and> de_executed_action (last events) = Some K_HUMAN \<and> de_state_after (last events) = W_WAITING_FOR_HUMAN
         \<and> de_linked_task_id (last events) \<in> Some ` set (wp_task_ids p)
         \<and> bw_final_budget r = de_budget_after (last events) \<and> distinct (wp_task_ids p)
         \<and> distinct ids \<and> list_all (\<lambda>(i, ps). set ps \<subseteq> set ids) (causal_trace r)
         \<and> causal_rounds (causal_trace r))"

record workflow_continuation =
  wc_pause_id :: uuid
  wc_response_event_id :: uuid
  wc_task_id :: uuid
  wc_previous_run :: run_reference
  wc_next_run :: run_reference

definition fresh_run :: "workflow_continuation \<Rightarrow> bool" where
  "fresh_run c =
     (run_valid (wc_previous_run c) \<and> run_valid (wc_next_run c)
      \<and> rr_run_id (wc_previous_run c) \<noteq> rr_run_id (wc_next_run c)
      \<and> rev_case_id (rr_revision (wc_previous_run c)) = rev_case_id (rr_revision (wc_next_run c))
      \<and> rr_attempt_id (wc_next_run c) = None \<and> rr_runtime_session_id (wc_next_run c) = None)"

end
