(* ===== verification/Action_Policy.thy ===== *)
theory Action_Policy
  imports Workflow_Events
begin

text \<open>
  \<open>application/action_policy.py\<close>, \<open>admit_action\<close> of \<open>application/service_guards.py\<close> and the deterministic
  selector of \<open>adapters/local/action_selector.py\<close>: which actions trusted policy allows in a snapshot, when a
  proposal is admitted for execution, and the baseline that proposes the sole allowed action.
\<close>

section \<open>Exceptions of the workflow\<close>

record selection_error =
  se_code :: selector_error_code
  se_model_id :: "string option"
  se_prompt_version :: "string option"
  se_attempts :: int
  se_latency_ms :: int
  se_input_tokens :: "int option"
  se_output_tokens :: "int option"
  se_attempts_known :: bool
  se_event :: "selection_failure_event option"

definition selector_fault :: "selector_error_code \<Rightarrow> selection_error" where
  "selector_fault c = \<lparr>se_code = c, se_model_id = None, se_prompt_version = None, se_attempts = 0, se_latency_ms = 0,
     se_input_tokens = None, se_output_tokens = None, se_attempts_known = True, se_event = None\<rparr>"

text \<open>
  What selectors, tools and the coordinator raise.  \<open>Invalid_Model\<close> is pydantic's \<open>ValidationError\<close>, which
  the coordinator tells apart from other value errors; \<open>Cancelled\<close> stands for the exceptions outside
  \<open>Exception\<close>, such as the cancellation of a task.
\<close>

datatype raised =
  Selection_Failed selection_error | Deadline_Passed | External_Unknown | Invalid_Model | Raised fault | Cancelled

section \<open>The policy\<close>

record action_policy_rule =
  pl_action_id :: string
  pl_action :: action_kind
  pl_states :: "workflow_state list"
  pl_prerequisites :: "action_prerequisite list"
  pl_document_purposes :: "document_purpose list"
  pl_retry_cost :: int
  pl_requires_blockers :: bool

definition policy_rule :: "string \<Rightarrow> action_kind \<Rightarrow> workflow_state \<Rightarrow> action_prerequisite list \<Rightarrow> document_purpose list \<Rightarrow>
    int \<Rightarrow> bool \<Rightarrow> action_policy_rule" where
  "policy_rule i k s qs ps c b = \<lparr>pl_action_id = i, pl_action = k, pl_states = [s], pl_prerequisites = qs,
     pl_document_purposes = ps, pl_retry_cost = c, pl_requires_blockers = b\<rparr>"

definition default_action_rules :: "action_policy_rule list" where
  "default_action_rules =
     [policy_rule ''extract-criteria'' K_EXTRACT W_CRITERIA_PENDING [Q_CRITERIA_DOCUMENT] [P_criteria] 0 False,
      policy_rule ''extract-forms'' K_EXTRACT W_FORMS_PENDING [Q_CRITERIA_PARSED, Q_FORMS_DOCUMENT, Q_RULES_APPROVED]
        [P_forms] 0 False,
      policy_rule ''retry-localized-extraction'' K_EXTRACT W_EXTRACTION_RETRYABLE
        [Q_AUTHORIZED_SOURCE, Q_EXTRACTION_RETRY_AVAILABLE] [P_criteria, P_forms, P_reference, P_brief] 1 False,
      policy_rule ''inspect-versioned-reference'' K_REFERENCE W_REFERENCE_AVAILABLE
        [Q_AUTHORIZED_SOURCE, Q_REFERENCE_AVAILABLE] [P_reference, P_brief] 0 False,
      policy_rule ''request-rule-review'' K_HUMAN W_RULES_AWAITING_APPROVAL [Q_CRITERIA_PARSED, Q_RULES_AVAILABLE] [] 0 True,
      policy_rule ''request-evidence-review'' K_HUMAN W_EVIDENCE_NEEDS_REVIEW [Q_FORMS_PARSED] [] 0 True,
      policy_rule ''deterministic-review'' K_REVIEW W_MATERIAL_READY
        [Q_FORMS_PARSED, Q_RULES_APPROVED, Q_CRITICAL_EVIDENCE_AVAILABLE, Q_MATERIAL_COMPLETE] [] 0 False,
      policy_rule ''request-review-failure'' K_HUMAN W_REVIEW_FAILED [Q_MATERIAL_COMPLETE] [] 0 True,
      policy_rule ''request-unsupported-context-review'' K_HUMAN W_UNSUPPORTED_CONTEXTS [Q_MATERIAL_COMPLETE] [] 0 True]"

definition rule_registration :: "action_policy_rule \<Rightarrow> (workflow_state \<times> action_kind) list" where
  "rule_registration r = map (\<lambda>s. (s, pl_action r)) (pl_states r)"

definition policy_rule_valid :: "action_policy_rule \<Rightarrow> bool" where
  "policy_rule_valid r =
     (opaque_id (pl_action_id r) \<and> pl_states r \<noteq> [] \<and> distinct (pl_states r) \<and> distinct (pl_prerequisites r)
      \<and> distinct (pl_document_purposes r) \<and> 0 \<le> pl_retry_cost r
      \<and> source_action (pl_action r) = (pl_document_purposes r \<noteq> [])
      \<and> (pl_action r = K_REFERENCE \<longrightarrow> set (pl_document_purposes r) \<subseteq> {P_reference, P_brief})
      \<and> P_template \<notin> set (pl_document_purposes r))"

definition validate_registry :: "action_policy_rule list \<Rightarrow> bool" where
  "validate_registry rules =
     (distinct (map pl_action_id rules) \<and> list_all policy_rule_valid rules
      \<and> distinct (concat (map rule_registration rules)))"

record action_policy =
  po_proposer_kind :: actor_kind
  po_policy_version :: string
  po_rules :: "action_policy_rule list"

definition kind_suffix :: "actor_kind \<Rightarrow> string" where
  "kind_suffix k = (case k of A_human \<Rightarrow> ''human'' | A_system \<Rightarrow> ''system'' | A_model \<Rightarrow> ''model'')"

definition make_policy :: "actor_kind \<Rightarrow> string \<Rightarrow> action_policy_rule list \<Rightarrow> action_policy result" where
  "make_policy k version rules =
     (if k \<notin> {A_system, A_model} then Inl Value_Error
      else let v = version @ ''-'' @ kind_suffix k
           in if opaque_id v \<and> validate_registry rules
              then Inr \<lparr>po_proposer_kind = k, po_policy_version = v, po_rules = rules\<rparr> else Inl Value_Error)"

definition model_cost :: "action_policy \<Rightarrow> int" where
  "model_cost p = (if po_proposer_kind p = A_model then 1 else 0)"

definition rule_applies :: "action_policy \<Rightarrow> workflow_snapshot \<Rightarrow> action_policy_rule \<Rightarrow> bool" where
  "rule_applies p s r =
     (let b = sn_budget s
      in sn_state s \<in> set (pl_states r)
         \<and> set (pl_prerequisites r) \<subseteq> set (sn_satisfied_prerequisites s)
         \<and> \<not> (pl_requires_blockers r \<and> sn_unresolved_blockers s = [])
         \<and> \<not> (steps_remaining b < 1 \<or> model_calls_remaining b < model_cost p \<or> retries_remaining b < pl_retry_cost r
               \<or> time_remaining_ms b = Some 0))"

definition permitted_purposes :: "workflow_snapshot \<Rightarrow> action_policy_rule \<Rightarrow> document_purpose list" where
  "permitted_purposes s r =
     filter (\<lambda>p. p \<in> set (map doc_purpose (mr_documents (sn_revision s)))) (pl_document_purposes r)"

definition rule_action :: "action_policy \<Rightarrow> workflow_snapshot \<Rightarrow> action_policy_rule \<Rightarrow> allowed_action" where
  "rule_action p s r =
     \<lparr>aa_action_id = pl_action_id r, aa_action = pl_action r, aa_permitted_states = pl_states r,
      aa_permitted_document_purposes = permitted_purposes s r, aa_revision = mr_reference (sn_revision s),
      aa_rules = mr_rules (sn_revision s), aa_proposer_kinds = [po_proposer_kind p], aa_executor_kinds = [A_system],
      aa_prerequisites = pl_prerequisites r,
      aa_cost = \<lparr>ac_steps = 1, ac_model_calls = model_cost p, ac_retries = pl_retry_cost r\<rparr>\<rparr>"

definition rule_advertised :: "action_policy \<Rightarrow> workflow_snapshot \<Rightarrow> action_policy_rule \<Rightarrow> bool" where
  "rule_advertised p s r = (rule_applies p s r \<and> \<not> (pl_document_purposes r \<noteq> [] \<and> permitted_purposes s r = []))"

definition derive_rule :: "action_policy \<Rightarrow> workflow_snapshot \<Rightarrow> action_policy_rule \<Rightarrow> allowed_action option result" where
  "derive_rule p s r =
     (if \<not> rule_advertised p s r then Inr None
      else if bounded_authority (rule_action p s r) then Inr (Some (rule_action p s r)) else Inl Value_Error)"

definition derive :: "digests \<Rightarrow> action_policy \<Rightarrow> workflow_snapshot \<Rightarrow> allowed_action_set result" where
  "derive dg p s =
     (if \<not> snapshot_valid dg s then Inl Value_Error
      else bind_result (map_result (derive_rule p s) (po_rules p)) (\<lambda>xs.
        let found = \<lparr>as_policy_version = po_policy_version p, as_snapshot_digest = dg_snapshot dg s,
              as_revision = mr_reference (sn_revision s), as_documents = mr_documents (sn_revision s),
              as_rules = mr_rules (sn_revision s), as_actions = List.map_filter id xs\<rparr>
        in if unambiguous_registry found then Inr found else Inl Value_Error))"

section \<open>Admission\<close>

definition proposal_attempts :: "action_proposal \<Rightarrow> int option" where
  "proposal_attempts p = (if actor_kind (ap_proposer p) = A_model then ap_attempt_count p else None)"

definition required_model_calls :: "action_proposal \<Rightarrow> action_cost \<Rightarrow> int" where
  "required_model_calls p c = (case proposal_attempts p of Some n \<Rightarrow> n | None \<Rightarrow> ac_model_calls c)"

definition provider_retries :: "action_proposal \<Rightarrow> int" where
  "provider_retries p = (case proposal_attempts p of Some n \<Rightarrow> n - 1 | None \<Rightarrow> 0)"

definition matching_blockers :: "workflow_snapshot \<Rightarrow> string \<Rightarrow> string list \<Rightarrow> workflow_blocker list" where
  "matching_blockers s reason subjects =
     filter (\<lambda>b. wb_reason_code b = reason \<and> wb_affected_subject_ids b = subjects) (sn_unresolved_blockers s)"

definition source_permitted :: "workflow_snapshot \<Rightarrow> allowed_action \<Rightarrow> document_reference \<Rightarrow> bool" where
  "source_permitted s a d =
     (d \<in> set (mr_documents (sn_revision s)) \<and> doc_purpose d \<in> set (aa_permitted_document_purposes a))"

fun arguments_admitted :: "workflow_snapshot \<Rightarrow> allowed_action \<Rightarrow> action_arguments \<Rightarrow> bool" where
  "arguments_admitted s a (Extract_Page d _ _) = source_permitted s a d"
| "arguments_admitted s a (Inspect_Reference d _ _) = source_permitted s a d"
| "arguments_admitted s a (Deterministic_Review r rs) = (r = mr_reference (sn_revision s) \<and> rs = mr_rules (sn_revision s))"
| "arguments_admitted s a (Request_Human_Review reason _ subjects evidence) =
     (case matching_blockers s reason subjects of
        [b] \<Rightarrow> list_all (\<lambda>c. citation_key c \<in> set (map document_key (mr_documents (sn_revision s)))
                 \<and> c \<in> set (wb_evidence b)) evidence
      | _ \<Rightarrow> False)"

definition same_binding :: "digests \<Rightarrow> action_proposal \<Rightarrow> workflow_snapshot \<Rightarrow> allowed_action_set \<Rightarrow> bool" where
  "same_binding dg p s allowed =
     (ap_run p = sn_run s \<and> ap_snapshot_digest p = dg_snapshot dg s \<and> ap_policy_version p = as_policy_version allowed
      \<and> ap_snapshot_digest p = as_snapshot_digest allowed \<and> mr_reference (sn_revision s) = as_revision allowed
      \<and> mr_documents (sn_revision s) = as_documents allowed \<and> mr_rules (sn_revision s) = as_rules allowed)"

definition action_current :: "actor_reference \<Rightarrow> actor_reference \<Rightarrow> workflow_snapshot \<Rightarrow> allowed_action \<Rightarrow> bool" where
  "action_current proposer executor s a =
     (sn_state s \<in> set (aa_permitted_states a) \<and> set (aa_prerequisites a) \<subseteq> set (sn_satisfied_prerequisites s)
      \<and> actor_kind proposer \<in> set (aa_proposer_kinds a) \<and> actor_kind executor \<in> set (aa_executor_kinds a)
      \<and> aa_revision a = mr_reference (sn_revision s) \<and> aa_rules a = mr_rules (sn_revision s))"

definition budget_covers :: "budget \<Rightarrow> action_proposal \<Rightarrow> action_cost \<Rightarrow> bool" where
  "budget_covers b p c =
     (\<not> (steps_remaining b < ac_steps c \<or> model_calls_remaining b < required_model_calls p c
         \<or> retries_remaining b < ac_retries c + provider_retries p))"

definition proposed_actions :: "action_proposal \<Rightarrow> allowed_action_set \<Rightarrow> allowed_action list" where
  "proposed_actions p allowed =
     filter (\<lambda>a. aa_action_id a = ap_action_id p \<and> aa_action a = ap_action p) (as_actions allowed)"

definition admit_action :: "digests \<Rightarrow> action_proposal \<Rightarrow> actor_reference \<Rightarrow> actor_reference \<Rightarrow> workflow_snapshot \<Rightarrow>
    allowed_action_set \<Rightarrow> unit result" where
  "admit_action dg p proposer executor s allowed =
     bind_result (ensure (typed_proposal p \<and> snapshot_valid dg s \<and> unambiguous_registry allowed) Value_Error) (\<lambda>_.
     bind_result (ensure (ap_proposer p = proposer) (Service_Fault UNAUTHORIZED)) (\<lambda>_.
     bind_result (ensure (same_binding dg p s allowed) (Service_Fault CONFLICT)) (\<lambda>_.
       case proposed_actions p allowed of
         [a] \<Rightarrow>
           bind_result (ensure (action_current proposer executor s a) (Service_Fault UNAUTHORIZED)) (\<lambda>_.
           bind_result (ensure (budget_covers (sn_budget s) p (aa_cost a)) (Service_Fault CAPABILITY)) (\<lambda>_.
             ensure (arguments_admitted s a (ap_arguments p)) (Service_Fault UNAUTHORIZED)))
       | _ \<Rightarrow> Inl (Service_Fault UNAUTHORIZED))))"

section \<open>The deterministic selector\<close>

definition find_citation :: "selector_input \<Rightarrow> allowed_action \<Rightarrow> (source_citation \<times> document_reference) option" where
  "find_citation i a =
     (let documents = map (\<lambda>d. (document_key d, d))
            (filter (\<lambda>d. doc_purpose d \<in> set (aa_permitted_document_purposes a)) (mr_documents (sn_revision (si_snapshot i))))
      in case filter (\<lambda>c. citation_key c \<in> set (map fst documents)) (si_evidence i) of
           [] \<Rightarrow> None
         | c # _ \<Rightarrow> map_option (\<lambda>d. (c, d)) (map_of (rev documents) (citation_key c)))"

definition make_arguments :: "action_arguments \<Rightarrow> raised + action_arguments" where
  "make_arguments a = (if arguments_valid a then Inr a else Inl Invalid_Model)"

definition selector_arguments :: "selector_input \<Rightarrow> allowed_action \<Rightarrow> raised + action_arguments" where
  "selector_arguments i a =
     (let s = si_snapshot i
      in case aa_action a of
           K_REVIEW \<Rightarrow> make_arguments (Deterministic_Review (mr_reference (sn_revision s)) (mr_rules (sn_revision s)))
         | K_HUMAN \<Rightarrow>
             (case sn_unresolved_blockers s of
                [] \<Rightarrow> Inl (Selection_Failed (selector_fault S_MISSING_ARGUMENT_SOURCE))
              | b # _ \<Rightarrow> make_arguments (Request_Human_Review (wb_reason_code b)
                  (''Review the unresolved '' @ wb_reason_code b @ '' blocker.'') (wb_affected_subject_ids b) (wb_evidence b)))
         | K_EXTRACT \<Rightarrow>
             (case find_citation i a of
                None \<Rightarrow> Inl (Selection_Failed (selector_fault S_MISSING_ARGUMENT_SOURCE))
              | Some (c, d) \<Rightarrow> make_arguments (Extract_Page d (ct_page c) (Some c)))
         | K_REFERENCE \<Rightarrow>
             (case find_citation i a of
                None \<Rightarrow> Inl (Selection_Failed (selector_fault S_MISSING_ARGUMENT_SOURCE))
              | Some (c, d) \<Rightarrow> make_arguments (Inspect_Reference d (ct_page c) None)))"

definition sole_proposal :: "uuid \<Rightarrow> actor_reference \<Rightarrow> selector_input \<Rightarrow> allowed_action \<Rightarrow> action_arguments \<Rightarrow> action_proposal" where
  "sole_proposal u actor i a args =
     \<lparr>ap_proposal_id = u, ap_run = sn_run (si_snapshot i), ap_action_id = aa_action_id a, ap_action = aa_action a,
      ap_policy_version = as_policy_version (si_allowed_actions i),
      ap_snapshot_digest = as_snapshot_digest (si_allowed_actions i), ap_proposer = actor,
      ap_model_id = None, ap_prompt_version = None, ap_input_tokens = None, ap_output_tokens = None,
      ap_latency_ms = None, ap_attempt_count = None, ap_arguments = args\<rparr>"

definition preflight_actor :: actor_reference where
  "preflight_actor = \<lparr>actor_id = ''selector-preflight'', actor_kind = A_system\<rparr>"

definition deterministic_select :: "digests \<Rightarrow> actor_reference \<Rightarrow> uuid \<Rightarrow> selector_input \<Rightarrow> raised + action_proposal" where
  "deterministic_select dg actor u i =
     (let actions = as_actions (si_allowed_actions i); fail = (\<lambda>c. Inl (Selection_Failed (selector_fault c)))
      in if \<not> exact_authority dg i then Inl Invalid_Model
         else if actions = [] then fail S_NO_ALLOWED_ACTION
         else if list_ex (\<lambda>a. aa_proposer_kinds a \<noteq> [A_system]) actions then fail S_INVALID_PROPOSAL
         else if length actions \<noteq> 1 then fail S_AMBIGUOUS_ACTION
         else bind_result (selector_arguments i (hd actions)) (\<lambda>args.
           let p = sole_proposal u actor i (hd actions) args
           in if typed_proposal p \<and> is_ok (admit_action dg p actor preflight_actor (si_snapshot i) (si_allowed_actions i))
              then Inr p else fail S_INVALID_PROPOSAL))"

end
