(* ===== verification/Run_Ledger.thy ===== *)
theory Run_Ledger
  imports Workflow_Events
begin

text \<open>
  \<open>adapters/local/workflow_run_ledger.py\<close>: the authority over bounded runs.  A run is reserved by one owner
  at a time, its budget only shrinks, its result is stored once, and a quarantined run never completes
  successfully.  Every operation holds the mutex, so an interleaving of callers is a sequence of operations;
  \<open>uuid4\<close> is an argument of \<open>acquire\<close> and does not repeat.
\<close>

section \<open>State and operations\<close>

record run_record =
  lr_run :: run_reference
  lr_budget :: budget
  lr_owner :: "uuid option"
  lr_quarantined :: bool
  lr_result :: "bounded_workflow_result option"

type_synonym ledger = "(uuid, run_record) dict"

record reservation =
  rs_run :: run_reference
  rs_token :: uuid

datatype acquired = Reserved reservation | Replayed bounded_workflow_result

definition decreased :: "budget \<Rightarrow> budget \<Rightarrow> bool" where
  "decreased before after =
     (steps_remaining after \<le> steps_remaining before
      \<and> model_calls_remaining after \<le> model_calls_remaining before
      \<and> retries_remaining after \<le> retries_remaining before
      \<and> (case (time_remaining_ms before, time_remaining_ms after) of
           (None, None) \<Rightarrow> True | (Some t, Some u) \<Rightarrow> u \<le> t | _ \<Rightarrow> False))"

definition new_record :: "run_reference \<Rightarrow> budget \<Rightarrow> run_record" where
  "new_record r b = \<lparr>lr_run = r, lr_budget = b, lr_owner = None, lr_quarantined = False, lr_result = None\<rparr>"

definition acquire :: "uuid \<Rightarrow> run_reference \<Rightarrow> budget \<Rightarrow> ledger \<Rightarrow> acquired result \<times> ledger" where
  "acquire token r b l =
     (if \<not> run_valid r \<or> \<not> budget_valid b then (Inl Value_Error, l)
      else let k = rr_run_id r;
               rec = (case dict_get l k of Some x \<Rightarrow> x | None \<Rightarrow> new_record r b);
               l' = (if dict_get l k = None then dict_set k rec l else l)
           in if lr_run rec \<noteq> r then (Inl Run_Unavailable, l')
              else case lr_result rec of
                  Some result \<Rightarrow> (Inr (Replayed result), l')
                | None \<Rightarrow>
                    if lr_owner rec \<noteq> None \<or> lr_quarantined rec then (Inl Run_Unavailable, l')
                    else (Inr (Reserved \<lparr>rs_run = r, rs_token = token\<rparr>),
                          dict_set k (rec\<lparr>lr_owner := Some token\<rparr>) l'))"

definition owned :: "reservation \<Rightarrow> ledger \<Rightarrow> run_record result" where
  "owned ow l = (case dict_get l (rr_run_id (rs_run ow)) of
       None \<Rightarrow> Inl Run_Unavailable
     | Some rec \<Rightarrow> if lr_run rec \<noteq> rs_run ow \<or> lr_owner rec \<noteq> Some (rs_token ow) \<or> lr_result rec \<noteq> None
                   then Inl Run_Unavailable else Inr rec)"

definition put_owned :: "reservation \<Rightarrow> run_record \<Rightarrow> ledger \<Rightarrow> ledger" where
  "put_owned ow rec l = dict_set (rr_run_id (rs_run ow)) rec l"

definition assert_active :: "reservation \<Rightarrow> ledger \<Rightarrow> unit result" where
  "assert_active ow l = bind_result (owned ow l) (\<lambda>rec. ensure (\<not> lr_quarantined rec) Run_Unavailable)"

definition remaining :: "reservation \<Rightarrow> ledger \<Rightarrow> budget result" where
  "remaining ow l = bind_result (owned ow l) (\<lambda>rec. Inr (lr_budget rec))"

definition update_owned :: "reservation \<Rightarrow> (run_record \<Rightarrow> run_record result) \<Rightarrow> ledger \<Rightarrow> unit result \<times> ledger" where
  "update_owned ow f l = (case bind_result (owned ow l) f of
       Inl e \<Rightarrow> (Inl e, l) | Inr rec \<Rightarrow> (Inr (), put_owned ow rec l))"

definition checkpoint :: "reservation \<Rightarrow> budget \<Rightarrow> ledger \<Rightarrow> unit result \<times> ledger" where
  "checkpoint ow b l = (if \<not> budget_valid b then (Inl Value_Error, l)
     else update_owned ow (\<lambda>rec. if decreased (lr_budget rec) b then Inr (rec\<lparr>lr_budget := b\<rparr>) else Inl Run_Unavailable) l)"

definition quarantine :: "reservation \<Rightarrow> ledger \<Rightarrow> unit result \<times> ledger" where
  "quarantine ow l = update_owned ow (\<lambda>rec. Inr (rec\<lparr>lr_quarantined := True\<rparr>)) l"

definition release :: "reservation \<Rightarrow> ledger \<Rightarrow> unit result \<times> ledger" where
  "release ow l = update_owned ow (\<lambda>rec. Inr (rec\<lparr>lr_owner := None\<rparr>)) l"

definition complete_reserved :: "reservation \<Rightarrow> bounded_workflow_result \<Rightarrow> ledger \<Rightarrow> unit result \<times> ledger" where
  "complete_reserved ow result l = (if \<not> terminal_shape result then (Inl Value_Error, l)
     else update_owned ow (\<lambda>rec.
       if bw_run result \<noteq> lr_run rec \<or> lr_quarantined rec \<and> completed_termination (bw_termination result)
       then Inl Run_Unavailable
       else if \<not> decreased (lr_budget rec) (bw_final_budget result) then Inl Run_Unavailable
       else Inr (rec\<lparr>lr_budget := bw_final_budget result, lr_result := Some result, lr_owner := None\<rparr>)) l)"

definition abandon :: "reservation \<Rightarrow> ledger \<Rightarrow> unit result \<times> ledger" where
  "abandon ow l = update_owned ow (\<lambda>rec. Inr (rec\<lparr>lr_quarantined := True, lr_owner := None\<rparr>)) l"

lemma decreased_refl [simp]: "decreased b b"
  by (simp add: decreased_def split: option.splits)

lemma decreased_trans: "decreased a b \<Longrightarrow> decreased b c \<Longrightarrow> decreased a c"
  by (auto simp: decreased_def split: option.splits)

lemma owned_Inr:
  "owned ow l = Inr rec \<longleftrightarrow> dict_get l (rr_run_id (rs_run ow)) = Some rec \<and> lr_run rec = rs_run ow
     \<and> lr_owner rec = Some (rs_token ow) \<and> lr_result rec = None"
  by (auto simp: owned_def split: option.splits if_splits)

lemma owned_Inl: "owned ow l = Inl e \<Longrightarrow> e = Run_Unavailable"
  by (auto simp: owned_def split: option.splits if_splits)

section \<open>Interleavings\<close>

datatype ledger_op =
    Acquire uuid run_reference budget
  | Checkpoint reservation budget
  | Quarantine reservation
  | Release reservation
  | Complete reservation bounded_workflow_result
  | Abandon reservation

fun op_token :: "ledger_op \<Rightarrow> uuid" where
  "op_token (Acquire t _ _) = t"
| "op_token (Checkpoint ow _) = rs_token ow"
| "op_token (Quarantine ow) = rs_token ow"
| "op_token (Release ow) = rs_token ow"
| "op_token (Complete ow _) = rs_token ow"
| "op_token (Abandon ow) = rs_token ow"

fun perform :: "ledger_op \<Rightarrow> ledger \<Rightarrow> ledger" where
  "perform (Acquire t r b) l = snd (acquire t r b l)"
| "perform (Checkpoint ow b) l = snd (checkpoint ow b l)"
| "perform (Quarantine ow) l = snd (quarantine ow l)"
| "perform (Release ow) l = snd (release ow l)"
| "perform (Complete ow r) l = snd (complete_reserved ow r l)"
| "perform (Abandon ow) l = snd (abandon ow l)"

text \<open>A ledger with the tokens issued so far; the two reading operations change nothing and need no step.\<close>

type_synonym ledger_state = "ledger \<times> uuid list"

inductive ledger_step :: "ledger_op \<Rightarrow> ledger_state \<Rightarrow> ledger_state \<Rightarrow> bool" where
  issue: "t \<notin> set used \<Longrightarrow> ledger_step (Acquire t r b) (l, used) (perform (Acquire t r b) l, t # used)"
| holder: "\<forall>t r b. c \<noteq> Acquire t r b \<Longrightarrow> ledger_step c (l, used) (perform c l, used)"

inductive_cases ledger_stepE: "ledger_step c s t"

definition any_step :: "ledger_state \<Rightarrow> ledger_state \<Rightarrow> bool" where
  "any_step s t = (\<exists>c. ledger_step c s t)"

text \<open>What the holders of other tokens may do.\<close>

definition other_step :: "uuid \<Rightarrow> ledger_state \<Rightarrow> ledger_state \<Rightarrow> bool" where
  "other_step token s t = (\<exists>c. op_token c \<noteq> token \<and> ledger_step c s t)"

section \<open>The invariant\<close>

definition record_ok :: "uuid list \<Rightarrow> uuid \<Rightarrow> run_record \<Rightarrow> bool" where
  "record_ok used k rec =
     (rr_run_id (lr_run rec) = k \<and> budget_valid (lr_budget rec)
      \<and> option_ok (\<lambda>t. t \<in> set used) (lr_owner rec)
      \<and> (case lr_result rec of None \<Rightarrow> True
         | Some r \<Rightarrow> lr_owner rec = None \<and> terminal_shape r \<and> bw_run r = lr_run rec \<and> bw_final_budget r = lr_budget rec
             \<and> (lr_quarantined rec \<longrightarrow> \<not> completed_termination (bw_termination r))))"

definition ledger_inv :: "ledger_state \<Rightarrow> bool" where
  "ledger_inv s = (\<forall>k rec. dict_get (fst s) k = Some rec \<longrightarrow> record_ok (snd s) k rec)"

text \<open>What one step may do to a record: identity and results stay, budgets shrink, quarantine is final.\<close>

definition record_later :: "run_record \<Rightarrow> run_record \<Rightarrow> bool" where
  "record_later x y =
     (lr_run y = lr_run x \<and> decreased (lr_budget x) (lr_budget y) \<and> (lr_quarantined x \<longrightarrow> lr_quarantined y)
      \<and> (lr_result x \<noteq> None \<longrightarrow> y = x))"

lemma record_later_refl [simp]: "record_later x x"
  by (simp add: record_later_def)

lemma record_later_trans: "record_later x y \<Longrightarrow> record_later y z \<Longrightarrow> record_later x z"
  by (auto simp: record_later_def intro: decreased_trans)

lemma update_owned_cases:
  obtains (unchanged) "snd (update_owned ow f l) = l"
  | (changed) rec rec' where "dict_get l (rr_run_id (rs_run ow)) = Some rec" "lr_run rec = rs_run ow"
      "lr_owner rec = Some (rs_token ow)" "lr_result rec = None" "f rec = Inr rec'"
      "snd (update_owned ow f l) = dict_set (rr_run_id (rs_run ow)) rec' l"
proof (cases "bind_result (owned ow l) f")
  case (Inl e)
  then show ?thesis using unchanged by (simp add: update_owned_def)
next
  case (Inr rec')
  then obtain rec where "owned ow l = Inr rec" "f rec = Inr rec'" by auto
  then show ?thesis using changed [of rec rec'] Inr by (simp add: update_owned_def owned_Inr put_owned_def)
qed

text \<open>
  Every operation of a holder is an update of the record it owns, or leaves the ledger as it is.
\<close>

definition holder_result :: "reservation \<Rightarrow> run_record \<Rightarrow> run_record \<Rightarrow> bool" where
  "holder_result ow x y =
     (record_later x y \<and> (budget_valid (lr_budget x) \<longrightarrow> budget_valid (lr_budget y))
      \<and> lr_owner y \<in> {None, Some (rs_token ow)}
      \<and> (case lr_result y of None \<Rightarrow> True
         | Some r \<Rightarrow> lr_owner y = None \<and> terminal_shape r \<and> bw_run r = lr_run y \<and> bw_final_budget r = lr_budget y
             \<and> (lr_quarantined y \<longrightarrow> \<not> completed_termination (bw_termination r))))"

lemma holder_step:
  assumes "\<forall>t r b. c \<noteq> Acquire t r b"
  obtains (unchanged) "perform c l = l"
  | (changed) ow rec rec' where "op_token c = rs_token ow" "dict_get l (rr_run_id (rs_run ow)) = Some rec"
      "lr_run rec = rs_run ow" "lr_owner rec = Some (rs_token ow)" "lr_result rec = None"
      "perform c l = dict_set (rr_run_id (rs_run ow)) rec' l" "holder_result ow rec rec'"
proof -
  have *: thesis if f: "\<And>x y. lr_result x = None \<Longrightarrow> lr_owner x = Some (rs_token ow) \<Longrightarrow> f x = Inr y \<Longrightarrow> holder_result ow x y"
    and p: "perform c l = snd (update_owned ow f l)" and t: "op_token c = rs_token ow" for ow f
    by (rule update_owned_cases [of ow f l]) (use that in \<open>auto intro: unchanged changed\<close>)
  note d = holder_result_def record_later_def
  show ?thesis
  proof (cases c)
    case (Acquire t r b)
    then show ?thesis using assms by simp
  next
    case (Checkpoint ow b)
    show ?thesis
    proof (cases "budget_valid b")
      case True
      show ?thesis
        by (rule * [where ow = ow and f = "\<lambda>rec. if decreased (lr_budget rec) b then Inr (rec\<lparr>lr_budget := b\<rparr>) else Inl Run_Unavailable"])
          (use Checkpoint True in \<open>auto simp: d checkpoint_def split: if_splits\<close>)
    next
      case False
      then show ?thesis using Checkpoint unchanged by (simp add: checkpoint_def)
    qed
  next
    case (Quarantine ow)
    show ?thesis
      by (rule * [where ow = ow and f = "\<lambda>rec. Inr (rec\<lparr>lr_quarantined := True\<rparr>)"])
        (use Quarantine in \<open>auto simp: d quarantine_def\<close>)
  next
    case (Release ow)
    show ?thesis
      by (rule * [where ow = ow and f = "\<lambda>rec. Inr (rec\<lparr>lr_owner := None\<rparr>)"]) (use Release in \<open>auto simp: d release_def\<close>)
  next
    case (Complete ow res)
    show ?thesis
    proof (cases "terminal_shape res")
      case True
      show ?thesis
        by (rule * [where ow = ow and f = "\<lambda>rec.
              if bw_run res \<noteq> lr_run rec \<or> lr_quarantined rec \<and> completed_termination (bw_termination res)
              then Inl Run_Unavailable else if \<not> decreased (lr_budget rec) (bw_final_budget res) then Inl Run_Unavailable
              else Inr (rec\<lparr>lr_budget := bw_final_budget res, lr_result := Some res, lr_owner := None\<rparr>)"])
          (use Complete True in \<open>auto simp: d complete_reserved_def terminal_shape_def split: if_splits\<close>)
    next
      case False
      then show ?thesis using Complete unchanged by (simp add: complete_reserved_def)
    qed
  next
    case (Abandon ow)
    show ?thesis
      by (rule * [where ow = ow and f = "\<lambda>rec. Inr (rec\<lparr>lr_quarantined := True, lr_owner := None\<rparr>)"])
        (use Abandon in \<open>auto simp: d abandon_def\<close>)
  qed
qed

lemma acquire_step:
  obtains (unchanged) "snd (acquire t r b l) = l" "\<forall>ow. fst (acquire t r b l) \<noteq> Inr (Reserved ow)"
  | (reserved) rec where "run_valid r" "budget_valid b"
      "fst (acquire t r b l) = Inr (Reserved \<lparr>rs_run = r, rs_token = t\<rparr>)"
      "dict_get l (rr_run_id r) = None \<and> rec = new_record r b \<or> dict_get l (rr_run_id r) = Some rec"
      "lr_run rec = r" "lr_result rec = None" "lr_owner rec = None" "\<not> lr_quarantined rec"
      "dict_get (snd (acquire t r b l)) = (dict_get l)(rr_run_id r \<mapsto> rec\<lparr>lr_owner := Some t\<rparr>)"
proof (cases "\<exists>ow. fst (acquire t r b l) = Inr (Reserved ow)")
  case True
  then show ?thesis
    by (intro reserved [of "case dict_get l (rr_run_id r) of Some x \<Rightarrow> x | None \<Rightarrow> new_record r b"])
      (auto simp: acquire_def Let_def new_record_def fun_eq_iff split: if_splits option.splits)
next
  case False
  then have "snd (acquire t r b l) = l"
    by (auto simp: acquire_def Let_def new_record_def split: if_splits option.splits)
  with False show ?thesis using unchanged by blast
qed

text \<open>One step as seen from one record.\<close>

definition step_effect :: "ledger_op \<Rightarrow> run_record \<Rightarrow> run_record \<Rightarrow> bool" where
  "step_effect c x y = (y = x
     \<or> (\<exists>ow. lr_owner x = Some (rs_token ow) \<and> lr_result x = None \<and> op_token c = rs_token ow \<and> holder_result ow x y)
     \<or> lr_owner x = None \<and> lr_result x = None \<and> \<not> lr_quarantined x
         \<and> (\<exists>r b. c = Acquire (op_token c) r b) \<and> y = x\<lparr>lr_owner := Some (op_token c)\<rparr>)"

lemma step_on_record:
  assumes "ledger_step c s t" and "dict_get (fst s) k = Some x"
  shows "\<exists>y. dict_get (fst t) k = Some y \<and> step_effect c x y"
  using assms(1)
proof (cases rule: ledger_step.cases)
  case (issue u used r b l)
  show ?thesis
    by (cases rule: acquire_step [of u r b l]) (use issue assms(2) in \<open>auto simp: step_effect_def fun_upd_def\<close>)
next
  case (holder l used)
  show ?thesis
    by (rule holder_step [OF holder(3), of l]) (use holder assms(2) in \<open>auto simp: step_effect_def\<close>)
qed

lemma step_new_record:
  assumes "ledger_step c s t" and "dict_get (fst s) k = None" and "dict_get (fst t) k = Some y"
  shows "\<exists>u r b. c = Acquire u r b \<and> u \<notin> set (snd s) \<and> run_valid r \<and> budget_valid b \<and> rr_run_id r = k
     \<and> y = (new_record r b)\<lparr>lr_owner := Some u\<rparr>"
  using assms(1)
proof (cases rule: ledger_step.cases)
  case (issue u used r b l)
  show ?thesis
    by (cases rule: acquire_step [of u r b l]) (use issue assms(2,3) in \<open>auto simp: fun_upd_def split: if_splits\<close>)
next
  case (holder l used)
  show ?thesis
    by (rule holder_step [OF holder(3), of l]) (use holder assms(2,3) in \<open>auto split: if_splits\<close>)
qed

lemma step_tokens:
  assumes "ledger_step c s t"
  shows "set (snd s) \<subseteq> set (snd t)" and "c = Acquire u r b \<Longrightarrow> u \<notin> set (snd s) \<and> u \<in> set (snd t)"
  using assms by (auto elim: ledger_stepE)

lemma step_effect_later: "step_effect c x y \<Longrightarrow> record_later x y"
  by (auto simp: step_effect_def holder_result_def record_later_def)

lemma ledger_inv_step:
  assumes "any_step s t" and "ledger_inv s"
  shows "ledger_inv t"
  unfolding ledger_inv_def
proof (intro allI impI)
  fix k y assume y: "dict_get (fst t) k = Some y"
  obtain c where c: "ledger_step c s t" using assms(1) unfolding any_step_def by blast
  note tk = step_tokens [OF c]
  show "record_ok (snd t) k y"
  proof (cases "dict_get (fst s) k")
    case None
    then obtain u r b where "c = Acquire u r b" "run_valid r" "budget_valid b" "rr_run_id r = k"
      "y = (new_record r b)\<lparr>lr_owner := Some u\<rparr>" using step_new_record [OF c None y] by blast
    then show ?thesis using tk by (simp add: record_ok_def new_record_def)
  next
    case (Some x)
    have ok: "record_ok (snd s) k x" using assms(2) Some unfolding ledger_inv_def by blast
    obtain y' where "dict_get (fst t) k = Some y'" "step_effect c x y'" using step_on_record [OF c Some] by blast
    then have "step_effect c x y" using y by simp
    then show ?thesis
      using ok tk unfolding step_effect_def holder_result_def record_later_def record_ok_def
      by (elim disjE exE conjE) (auto simp: option_ok_def split: option.splits)
  qed
qed

interpretation ledger: transition_system any_step ledger_inv
  by unfold_locales (rule ledger_inv_step)

lemma empty_ledger_inv: "ledger_inv ([], used)"
  by (simp add: ledger_inv_def)

lemma run_on_record:
  assumes "any_step\<^sup>*\<^sup>* s t" and "dict_get (fst s) k = Some x"
  shows "\<exists>y. dict_get (fst t) k = Some y \<and> record_later x y"
  using assms(1)
proof (induction rule: rtranclp_induct)
  case base
  show ?case using assms(2) by simp
next
  case (step t u)
  then obtain y c where y: "dict_get (fst t) k = Some y" "record_later x y" and c: "ledger_step c t u"
    unfolding any_step_def by blast
  obtain z where "dict_get (fst u) k = Some z" "step_effect c y z" using step_on_record [OF c y(1)] by blast
  then show ?case using y(2) step_effect_later record_later_trans by blast
qed

section \<open>Guarantees\<close>

lemma other_step_keeps:
  assumes "other_step token s t" and "dict_get (fst s) k = Some x" and "lr_owner x = Some token"
  shows "dict_get (fst t) k = Some x"
proof -
  obtain c where c: "op_token c \<noteq> token" "ledger_step c s t" using assms(1) unfolding other_step_def by blast
  obtain y where "dict_get (fst t) k = Some y" "step_effect c x y" using step_on_record [OF c(2) assms(2)] by blast
  then show ?thesis using c(1) assms(3) by (auto simp: step_effect_def)
qed

lemma acquire_owned_refused:
  assumes "dict_get l (rr_run_id r) = Some x" and "lr_owner x \<noteq> None \<or> lr_quarantined x"
  shows "fst (acquire t r b l) \<noteq> Inr (Reserved ow)"
  using assms by (auto simp: acquire_def Let_def split: option.splits)

text \<open>
  C33.  A reservation is exclusive: whatever the holders of other tokens do to the ledger, in any order
  and any number of steps, the record of a reserved run stays exactly as its owner left it, the owner's
  authority stays active, and no other caller can reserve the run.
\<close>

theorem reservation_exclusive:
  assumes "fst (acquire token r b l) = Inr (Reserved ow)"
    and "(other_step token)\<^sup>*\<^sup>* (snd (acquire token r b l), used) t"
  shows "dict_get (fst t) (rr_run_id r) = dict_get (snd (acquire token r b l)) (rr_run_id r)
    \<and> assert_active ow (fst t) = Inr () \<and> fst (acquire token' r b' (fst t)) \<noteq> Inr (Reserved ow')"
proof -
  obtain x where x: "dict_get (snd (acquire token r b l)) (rr_run_id r) = Some x" "lr_owner x = Some token"
    "lr_run x = r" "lr_result x = None" "\<not> lr_quarantined x" and ow: "ow = \<lparr>rs_run = r, rs_token = token\<rparr>"
    by (rule acquire_step [of token r b l]) (use assms(1) in auto)
  have t: "dict_get (fst t) (rr_run_id r) = Some x"
    using assms(2) by (induction rule: rtranclp_induct) (use x other_step_keeps in auto)
  then have "assert_active ow (fst t) = Inr ()"
    using x ow by (simp add: assert_active_def owned_Inr)
  then show ?thesis using t x acquire_owned_refused by auto
qed

definition wf_run :: run_reference where
  "wf_run = \<lparr>rr_run_id = 7, rr_revision = \<lparr>rev_case_id = ''case1'', rev_revision_id = ''r1'',
     rev_material_digest = replicate 64 CHR ''0''\<rparr>, rr_attempt_id = None, rr_runtime_session_id = None\<rparr>"

definition wf_budget :: budget where
  "wf_budget = \<lparr>steps_remaining = 4, model_calls_remaining = 0, retries_remaining = 1, time_remaining_ms = None\<rparr>"

definition wf_result :: bounded_workflow_result where
  "wf_result = \<lparr>bw_run = wf_run, bw_termination = T_VERIFIED, bw_events = [], bw_selection_failures = [],
     bw_final_budget = wf_budget, bw_handoff = None\<rparr>"

lemma wf_valid: "run_valid wf_run" "budget_valid wf_budget" "terminal_shape wf_result"
  by code_simp+

lemma wf_acquire: "acquire 5 wf_run wf_budget [] =
    (Inr (Reserved \<lparr>rs_run = wf_run, rs_token = 5\<rparr>), [(7, (new_record wf_run wf_budget)\<lparr>lr_owner := Some 5\<rparr>)])"
  by code_simp

theorem reservation_exclusive_witness:
  "assert_active \<lparr>rs_run = wf_run, rs_token = 5\<rparr>
     (perform (Acquire 6 wf_run wf_budget) (snd (acquire 5 wf_run wf_budget []))) = Inr ()"
proof -
  let ?l = "snd (acquire 5 wf_run wf_budget [])"
  have "other_step 5 (?l, [5]) (perform (Acquire 6 wf_run wf_budget) ?l, [6, 5])"
    unfolding other_step_def by (intro exI [of _ "Acquire 6 wf_run wf_budget"] conjI ledger_step.issue) auto
  then show ?thesis
    using reservation_exclusive [of 5 wf_run wf_budget "[]" "\<lparr>rs_run = wf_run, rs_token = 5\<rparr>" "[5]"
        "(perform (Acquire 6 wf_run wf_budget) ?l, [6, 5])"] wf_acquire by auto
qed

text \<open>
  A stored result is final: once a run has completed, every later reservation attempt for it, however
  the ledger was used in between, replays exactly the stored result and changes nothing.
\<close>

theorem stored_result_replayed:
  assumes "any_step\<^sup>*\<^sup>* ([], []) s" and "any_step\<^sup>*\<^sup>* s t"
    and "dict_get (fst s) (rr_run_id r) = Some x" and "lr_run x = r" and "lr_result x = Some result"
    and "run_valid r" and "budget_valid b"
  shows "acquire token r b (fst t) = (Inr (Replayed result), fst t) \<and> terminal_shape result
    \<and> bw_run result = r \<and> bw_final_budget result = lr_budget x"
proof -
  have "ledger_inv s" using assms(1) empty_ledger_inv by (rule ledger.run_inv)
  then have "record_ok (snd s) (rr_run_id r) x" using assms(3) unfolding ledger_inv_def by blast
  moreover have "dict_get (fst t) (rr_run_id r) = Some x"
    using run_on_record [OF assms(2,3)] assms(5) by (auto simp: record_later_def)
  ultimately show ?thesis using assms by (simp add: acquire_def record_ok_def)
qed

lemma wf_complete:
  "perform (Complete \<lparr>rs_run = wf_run, rs_token = 5\<rparr> wf_result) (snd (acquire 5 wf_run wf_budget [])) =
     [(7, (new_record wf_run wf_budget)\<lparr>lr_result := Some wf_result\<rparr>)]"
  by code_simp

lemma wf_reach: "any_step\<^sup>*\<^sup>* ([], []) ([(7, (new_record wf_run wf_budget)\<lparr>lr_result := Some wf_result\<rparr>)], [5])"
proof -
  let ?l = "snd (acquire 5 wf_run wf_budget [])"
  have "any_step ([], []) (?l, [5])"
    using ledger_step.issue [of 5 "[]" wf_run wf_budget "[]"] unfolding any_step_def by auto
  moreover have "any_step (?l, [5]) (perform (Complete \<lparr>rs_run = wf_run, rs_token = 5\<rparr> wf_result) ?l, [5])"
    using ledger_step.holder [of "Complete \<lparr>rs_run = wf_run, rs_token = 5\<rparr> wf_result" ?l "[5]"] unfolding any_step_def by auto
  ultimately show ?thesis unfolding wf_complete by simp
qed

theorem stored_result_replayed_witness:
  "acquire 9 wf_run wf_budget [(7, (new_record wf_run wf_budget)\<lparr>lr_result := Some wf_result\<rparr>)] =
     (Inr (Replayed wf_result), [(7, (new_record wf_run wf_budget)\<lparr>lr_result := Some wf_result\<rparr>)])"
  using stored_result_replayed [OF wf_reach rtranclp.rtrancl_refl, of wf_run _ wf_result wf_budget 9] wf_valid
  by (simp add: wf_run_def new_record_def)

text \<open>
  Authority over a run only shrinks: over any use of the ledger a run keeps its identity, its budget
  never grows in any component, and a quarantined run stays quarantined, is never reserved again and never
  ends in a successful result.
\<close>

theorem authority_only_shrinks:
  assumes "any_step\<^sup>*\<^sup>* ([], []) s" and "any_step\<^sup>*\<^sup>* s t" and "dict_get (fst s) k = Some x" and "dict_get (fst t) k = Some y"
  shows "lr_run y = lr_run x \<and> decreased (lr_budget x) (lr_budget y)
    \<and> (lr_quarantined x \<longrightarrow> lr_quarantined y \<and> fst (acquire token (lr_run x) b (fst t)) \<noteq> Inr (Reserved ow)
         \<and> option_ok (\<lambda>r. \<not> completed_termination (bw_termination r)) (lr_result y))"
proof -
  have "any_step\<^sup>*\<^sup>* ([], []) t" using assms(1,2) by simp
  then have "ledger_inv t" using empty_ledger_inv by (rule ledger.run_inv)
  then have ok: "record_ok (snd t) k y" using assms(4) unfolding ledger_inv_def by blast
  have later: "record_later x y" using run_on_record [OF assms(2,3)] assms(4) by auto
  have "fst (acquire token (lr_run x) b (fst t)) \<noteq> Inr (Reserved ow)" if "lr_quarantined x"
    using acquire_owned_refused [of "fst t" "lr_run x" y] assms(4) ok later that
    by (auto simp: record_later_def record_ok_def)
  then show ?thesis using ok later by (auto simp: record_later_def record_ok_def option_ok_def split: option.splits)
qed

lemma wf_abandon: "any_step\<^sup>*\<^sup>* ([], []) ([(7, (new_record wf_run wf_budget)\<lparr>lr_quarantined := True\<rparr>)], [5])"
proof -
  let ?l = "snd (acquire 5 wf_run wf_budget [])"
  have "any_step ([], []) (?l, [5])"
    using ledger_step.issue [of 5 "[]" wf_run wf_budget "[]"] unfolding any_step_def by auto
  moreover have "any_step (?l, [5]) (perform (Abandon \<lparr>rs_run = wf_run, rs_token = 5\<rparr>) ?l, [5])"
    using ledger_step.holder [of "Abandon \<lparr>rs_run = wf_run, rs_token = 5\<rparr>" ?l "[5]"] unfolding any_step_def by auto
  moreover have "perform (Abandon \<lparr>rs_run = wf_run, rs_token = 5\<rparr>) ?l = [(7, (new_record wf_run wf_budget)\<lparr>lr_quarantined := True\<rparr>)]"
    by code_simp
  ultimately show ?thesis by simp
qed

theorem authority_only_shrinks_witness:
  "decreased wf_budget wf_budget
    \<and> fst (acquire 9 wf_run wf_budget [(7, (new_record wf_run wf_budget)\<lparr>lr_quarantined := True\<rparr>)]) \<noteq>
        Inr (Reserved \<lparr>rs_run = wf_run, rs_token = 9\<rparr>)"
proof -
  have "dict_get (fst ([(7, (new_record wf_run wf_budget)\<lparr>lr_quarantined := True\<rparr>)], [5])) 7 =
      Some ((new_record wf_run wf_budget)\<lparr>lr_quarantined := True\<rparr>)" by simp
  from authority_only_shrinks [OF wf_abandon rtranclp.rtrancl_refl this this] show ?thesis
    by (simp add: new_record_def)
qed

end
