(* ===== verification/Computations.thy ===== *)
theory Computations
  imports Prelude
begin

text \<open>
  Computations of a service that awaits collaborators: they pass a state explicitly and may raise.  \<open>seq\<close> is the
  semicolon, \<open>handle\<close> is \<open>try\<close> with its \<open>except\<close>.
\<close>

definition pure :: "'a \<Rightarrow> 's \<Rightarrow> ('e + 'a) \<times> 's" where
  "pure x w = (Inr x, w)"

definition throw :: "'e \<Rightarrow> 's \<Rightarrow> ('e + 'a) \<times> 's" where
  "throw e w = (Inl e, w)"

definition seq :: "('s \<Rightarrow> ('e + 'a) \<times> 's) \<Rightarrow> ('a \<Rightarrow> 's \<Rightarrow> ('e + 'b) \<times> 's) \<Rightarrow> 's \<Rightarrow> ('e + 'b) \<times> 's" where
  "seq m f w = (case m w of (Inl e, w') \<Rightarrow> (Inl e, w') | (Inr x, w') \<Rightarrow> f x w')"

text \<open>\<open>try: m except: h\<close>; a handler that does not apply rethrows.\<close>

definition handle :: "('s \<Rightarrow> ('e + 'a) \<times> 's) \<Rightarrow> ('e \<Rightarrow> 's \<Rightarrow> ('f + 'a) \<times> 's) \<Rightarrow> 's \<Rightarrow> ('f + 'a) \<times> 's" where
  "handle m h w = (case m w of (Inl e, w') \<Rightarrow> h e w' | (Inr x, w') \<Rightarrow> (Inr x, w'))"

definition check :: "bool \<Rightarrow> 'e \<Rightarrow> 's \<Rightarrow> ('e + unit) \<times> 's" where
  "check b e = (if b then pure () else throw e)"

definition lift_result :: "'e + 'a \<Rightarrow> 's \<Rightarrow> ('e + 'a) \<times> 's" where
  "lift_result r w = (r, w)"

lemma seq_Inr: "seq m f w = (Inr y, w') \<longleftrightarrow> (\<exists>x v. m w = (Inr x, v) \<and> f x v = (Inr y, w'))"
  by (auto simp: seq_def split: prod.splits sum.splits)

lemma seq_Inl: "seq m f w = (Inl e, w') \<longleftrightarrow> m w = (Inl e, w') \<or> (\<exists>x v. m w = (Inr x, v) \<and> f x v = (Inl e, w'))"
  by (auto simp: seq_def split: prod.splits sum.splits)

lemma seq_simps [simp]:
  "seq (pure x) f = f x"
  "seq (throw e) f = throw e"
  by (simp_all add: seq_def pure_def throw_def fun_eq_iff)

lemma computation_Inr [simp]:
  "pure x w = (Inr y, w') \<longleftrightarrow> y = x \<and> w' = w"
  "throw e w = (Inr y, w') \<longleftrightarrow> False"
  "check b e w = (Inr u, w') \<longleftrightarrow> b \<and> w' = w"
  "lift_result r w = (Inr y, w') \<longleftrightarrow> r = Inr y \<and> w' = w"
  by (auto simp: pure_def throw_def check_def lift_result_def)

section \<open>What a computation may do\<close>

text \<open>
  \<open>moves R m\<close>: whatever \<open>m\<close> does, the states before and after are related; with a preorder \<open>R\<close> this
  composes along the structure of the program.
\<close>

definition moves :: "('s \<Rightarrow> 's \<Rightarrow> bool) \<Rightarrow> ('s \<Rightarrow> ('e + 'a) \<times> 's) \<Rightarrow> bool" where
  "moves R m = (\<forall>w. R w (snd (m w)))"

locale computation_preorder =
  fixes R :: "'s \<Rightarrow> 's \<Rightarrow> bool"
  assumes refl: "R w w"
    and trans: "R u v \<Longrightarrow> R v w \<Longrightarrow> R u w"
begin

lemma moves_seq: "moves R m \<Longrightarrow> (\<And>x. moves R (f x)) \<Longrightarrow> moves R (seq m f)"
  unfolding moves_def seq_def by (auto split: prod.splits sum.splits intro: trans) (metis snd_conv trans)+

lemma moves_handle: "moves R m \<Longrightarrow> (\<And>e. moves R (h e)) \<Longrightarrow> moves R (handle m h)"
  unfolding moves_def handle_def by (auto split: prod.splits sum.splits intro: trans) (metis snd_conv trans)+

lemma moves_basic: "moves R (pure x)" "moves R (throw e)" "moves R (check b e)" "moves R (lift_result r)"
  unfolding moves_def pure_def throw_def check_def lift_result_def by (simp_all add: refl)

lemma moves_if: "(b \<Longrightarrow> moves R m) \<Longrightarrow> (\<not> b \<Longrightarrow> moves R n) \<Longrightarrow> moves R (if b then m else n)"
  by simp

end

text \<open>\<open>returns P m\<close>: whenever \<open>m\<close> returns, its value and the state it leaves satisfy \<open>P\<close>.\<close>

definition returns :: "('a \<Rightarrow> 's \<Rightarrow> bool) \<Rightarrow> ('s \<Rightarrow> ('e + 'a) \<times> 's) \<Rightarrow> bool" where
  "returns P m = (\<forall>s x s'. m s = (Inr x, s') \<longrightarrow> P x s')"

lemma returnsD: "returns P m \<Longrightarrow> m s = (Inr x, s') \<Longrightarrow> P x s'"
  by (simp add: returns_def)

lemma returns_seq: "returns Q m \<Longrightarrow> (\<And>x s. Q x s \<Longrightarrow> returns P (f x)) \<Longrightarrow> returns P (seq m f)"
  unfolding returns_def seq_Inr by blast

lemma returns_any: "returns (\<lambda>_ _. True) m"
  by (simp add: returns_def)

lemma returns_throw: "returns P (throw e)"
  by (simp add: returns_def)

lemma returns_pure: "(\<And>s. P x s) \<Longrightarrow> returns P (pure x)"
  by (simp add: returns_def)

lemma returns_lift: "(\<And>x s. r = Inr x \<Longrightarrow> P x s) \<Longrightarrow> returns P (lift_result r)"
  by (simp add: returns_def)

lemma returns_handle: "returns P m \<Longrightarrow> (\<And>e. returns P (h e)) \<Longrightarrow> returns P (handle m h)"
  by (auto simp: returns_def handle_def split: prod.splits sum.splits)

lemma returns_mono: "returns Q m \<Longrightarrow> (\<And>x s. Q x s \<Longrightarrow> P x s) \<Longrightarrow> returns P m"
  by (simp add: returns_def)

text \<open>Two computations that agree on what the first part can return agree as a whole.\<close>

lemma seq_cong: "(\<And>x v. m w = (Inr x, v) \<Longrightarrow> f x v = g x v) \<Longrightarrow> seq m f w = seq m g w"
  by (auto simp: seq_def split: prod.splits sum.splits)

lemma seq_agree: "returns Q m \<Longrightarrow> (\<And>x s. Q x s \<Longrightarrow> f x s = g x s) \<Longrightarrow> seq m f = seq m g"
  by (auto simp: fun_eq_iff seq_def returns_def split: prod.splits sum.splits)

end
