(* ===== verification/Workflow_World.thy ===== *)
theory Workflow_World
  imports Action_Policy Run_Ledger Computations
begin

text \<open>
  What a controlled decision runs in: the ledger, the decision trace
  (\<open>adapters/local/decision_trace.py\<close>) and the rest of the world, which the injected services change.
  Computations pass this state explicitly and may raise.  The services are arguments; a service does not
  touch the ledger or the trace, which only the coordinator writes for a run whose reservation it holds
  (other holders cannot, by \<open>Run_Ledger\<close>).
\<close>

section \<open>The decision trace\<close>

record decision_trace =
  dt_events :: "(uuid, decision_event list) dict"
  dt_failures :: "(uuid, selection_failure_event list) dict"

definition dict_list :: "('k, 'v list) dict \<Rightarrow> 'k \<Rightarrow> 'v list" where
  "dict_list d k = (case dict_get d k of None \<Rightarrow> [] | Some xs \<Rightarrow> xs)"

definition trace_ids :: "decision_trace \<Rightarrow> uuid \<Rightarrow> uuid list" where
  "trace_ids t k = map de_event_id (dict_list (dt_events t) k) @ map sf_event_id (dict_list (dt_failures t) k)"

definition trace_append :: "decision_event \<Rightarrow> decision_trace \<Rightarrow> unit result \<times> decision_trace" where
  "trace_append e t =
     (if \<not> actual_execution e then (Inl Value_Error, t)
      else let k = rr_run_id (ap_run (de_proposal e)); old = dict_list (dt_events t) k;
               t' = t\<lparr>dt_events := dict_set k old (dt_events t)\<rparr>
           in if de_event_id e \<in> set (trace_ids t k) then (Inl Value_Error, t')
              else if \<not> set (de_parent_event_ids e) \<subseteq> set (trace_ids t k) then (Inl Value_Error, t')
              else (Inr (), t\<lparr>dt_events := dict_set k (old @ [e]) (dt_events t)\<rparr>))"

definition trace_append_failure :: "selection_failure_event \<Rightarrow> decision_trace \<Rightarrow> unit result \<times> decision_trace" where
  "trace_append_failure e t =
     (let k = rr_run_id (sf_run e)
      in if \<not> failed_selection e then (Inl Value_Error, t)
         else if sf_event_id e \<in> set (trace_ids t k) \<or> \<not> set (sf_parent_event_ids e) \<subseteq> set (trace_ids t k)
         then (Inl Value_Error, t)
         else (Inr (), t\<lparr>dt_failures := dict_set k (dict_list (dt_failures t) k @ [e]) (dt_failures t)\<rparr>))"

section \<open>Computations\<close>

record 'w world =
  w_ledger :: ledger
  w_trace :: decision_trace
  w_rest :: 'w

type_synonym ('w, 'a) io = "'w world \<Rightarrow> (raised + 'a) \<times> 'w world"

definition of_result :: "'a result \<Rightarrow> ('w, 'a) io" where
  "of_result r = (case r of Inl e \<Rightarrow> throw (Raised e) | Inr x \<Rightarrow> pure x)"

definition model_ok :: "bool \<Rightarrow> 'a \<Rightarrow> ('w, 'a) io" where
  "model_ok b x = (if b then pure x else throw Invalid_Model)"

definition on_ledger :: "(ledger \<Rightarrow> 'a result \<times> ledger) \<Rightarrow> ('w, 'a) io" where
  "on_ledger f w = (case f (w_ledger w) of (r, l) \<Rightarrow> of_result r (w\<lparr>w_ledger := l\<rparr>))"

definition ask_ledger :: "(ledger \<Rightarrow> 'a result) \<Rightarrow> ('w, 'a) io" where
  "ask_ledger f w = of_result (f (w_ledger w)) w"

definition on_trace :: "(decision_trace \<Rightarrow> 'a result \<times> decision_trace) \<Rightarrow> ('w, 'a) io" where
  "on_trace f w = (case f (w_trace w) of (r, t) \<Rightarrow> of_result r (w\<lparr>w_trace := t\<rparr>))"

definition ask_trace :: "(decision_trace \<Rightarrow> 'a) \<Rightarrow> ('w, 'a) io" where
  "ask_trace f w = (Inr (f (w_trace w)), w)"

definition external :: "('w \<Rightarrow> (raised + 'a) \<times> 'w) \<Rightarrow> ('w, 'a) io" where
  "external f w = (case f (w_rest w) of (r, x) \<Rightarrow> (r, w\<lparr>w_rest := x\<rparr>))"

lemma io_Inr [simp]:
  "model_ok b x w = (Inr y, w') \<longleftrightarrow> b \<and> y = x \<and> w' = w"
  "of_result r w = (Inr y, w') \<longleftrightarrow> r = Inr y \<and> w' = w"
  "ask_ledger g w = (Inr y, w') \<longleftrightarrow> g (w_ledger w) = Inr y \<and> w' = w"
  "ask_trace f w = (Inr z, w') \<longleftrightarrow> z = f (w_trace w) \<and> w' = w"
  by (auto simp: pure_def throw_def check_def model_ok_def of_result_def ask_ledger_def ask_trace_def split: sum.splits)

lemma external_Inr: "external f w = (Inr y, w') \<longleftrightarrow> (\<exists>x. f (w_rest w) = (Inr y, x) \<and> w' = w\<lparr>w_rest := x\<rparr>)"
  by (auto simp: external_def split: prod.splits)

section \<open>Preservation\<close>

locale world_preorder =
  fixes R :: "'w world \<Rightarrow> 'w world \<Rightarrow> bool"
  assumes same_ledger: "w_ledger v = w_ledger w \<Longrightarrow> R w v"
    and trans: "R u v \<Longrightarrow> R v w \<Longrightarrow> R u w"
begin

lemma moves_pure: "moves R (pure x)" "moves R (throw e)" "moves R (check b e)" "moves R (model_ok b x)"
    "moves R (of_result r)" "moves R (ask_ledger f)" "moves R (ask_trace g)" "moves R (external h)" "moves R (on_trace k)"
  unfolding moves_def pure_def throw_def check_def model_ok_def of_result_def ask_ledger_def ask_trace_def external_def on_trace_def
  by (auto split: prod.splits sum.splits intro!: same_ledger)

end

sublocale world_preorder \<subseteq> computation: computation_preorder R
  by unfold_locales (auto intro: same_ledger trans)

end
