(* ===== verification/Controlled_Workflow.thy ===== *)
theory Controlled_Workflow
  imports Workflow_World Complex_Main
begin

text \<open>
  \<open>application/controlled_workflow.py\<close>: one controlled decision.  A selector proposes, the proposal is
  admitted again on a fresh snapshot, at most one tool runs, the budget is charged and the decision is
  appended to the trace.  Clock readings are rationals and every floating-point operation is the exact one
  followed by the rounding \<open>sv_float\<close>.
\<close>

section \<open>Services\<close>

record 'w services =
  sv_digests :: digests
  sv_policy :: action_policy
  sv_selector_actor :: actor_reference
  sv_executor_actor :: actor_reference
  sv_registry :: "source_registry option"
  sv_snapshot :: "run_reference \<Rightarrow> 'w \<Rightarrow> (raised + workflow_snapshot) \<times> 'w"
  sv_select :: "selector_input \<Rightarrow> 'w \<Rightarrow> (raised + action_proposal) \<times> 'w"
  sv_execute :: "action_proposal \<Rightarrow> 'w \<Rightarrow> (raised + tool_receipt) \<times> 'w"
  sv_event_id :: "'w \<Rightarrow> uuid \<times> 'w"
  sv_clock :: "'w \<Rightarrow> rat \<times> 'w"
  sv_float :: "rat \<Rightarrow> rat"

text \<open>\<open>RoutedControlledActionExecutor.execute\<close>: an unrouted action is a plain \<open>ValueError\<close>.\<close>

definition routed_execute :: "(action_kind, action_proposal \<Rightarrow> 'w \<Rightarrow> (raised + tool_receipt) \<times> 'w) dict \<Rightarrow>
    action_proposal \<Rightarrow> 'w \<Rightarrow> (raised + tool_receipt) \<times> 'w" where
  "routed_execute tools p x = (case dict_get tools (ap_action p) of
       None \<Rightarrow> (Inl (Raised Value_Error), x) | Some tool \<Rightarrow> tool p x)"

definition read_clock :: "'w services \<Rightarrow> ('w, rat) io" where
  "read_clock sv = external (\<lambda>x. case sv_clock sv x of (t, y) \<Rightarrow> (Inr t, y))"

definition fresh_event_id :: "'w services \<Rightarrow> ('w, uuid) io" where
  "fresh_event_id sv = external (\<lambda>x. case sv_event_id sv x of (i, y) \<Rightarrow> (Inr i, y))"

section \<open>Time and budget\<close>

text \<open>Python's \<open>round\<close> of a number: to the nearest integer, ties to the even one.\<close>

definition round_to_even :: "rat \<Rightarrow> int" where
  "round_to_even x =
     (let f = \<lfloor>x\<rfloor>; d = x - of_int f
      in if d < 1 / 2 then f else if 1 / 2 < d then f + 1 else if even f then f else f + 1)"

definition elapsed_seconds :: "'w services \<Rightarrow> rat \<Rightarrow> rat \<Rightarrow> rat" where
  "elapsed_seconds sv started now = sv_float sv (now - started)"

definition seconds_left :: "'w services \<Rightarrow> budget \<Rightarrow> rat \<Rightarrow> rat \<Rightarrow> rat option" where
  "seconds_left sv b started now = map_option
     (\<lambda>ms. max 0 (sv_float sv (sv_float sv (of_int ms / 1000) - elapsed_seconds sv started now))) (time_remaining_ms b)"

definition time_is_up :: "'w services \<Rightarrow> budget \<Rightarrow> rat \<Rightarrow> ('w, bool) io" where
  "time_is_up sv b started =
     (case time_remaining_ms b of None \<Rightarrow> pure False
      | Some _ \<Rightarrow> seq (read_clock sv) (\<lambda>now. pure (case seconds_left sv b started now of None \<Rightarrow> False | Some s \<Rightarrow> s \<le> 0)))"

definition charged_budget :: "budget \<Rightarrow> int \<Rightarrow> int \<Rightarrow> int \<Rightarrow> int \<Rightarrow> budget \<times> budget_consumption" where
  "charged_budget b steps calls retries elapsed =
     (let charged = map_option (\<lambda>t. min elapsed t) (time_remaining_ms b)
      in (\<lparr>steps_remaining = steps_remaining b - steps, model_calls_remaining = model_calls_remaining b - calls,
           retries_remaining = retries_remaining b - retries,
           time_remaining_ms = map_option (\<lambda>t. t - min elapsed t) (time_remaining_ms b)\<rparr>,
          \<lparr>bc_steps = steps, bc_model_calls = calls, bc_retries = retries, bc_elapsed_ms = charged\<rparr>))"

definition consume :: "'w services \<Rightarrow> budget \<Rightarrow> int \<Rightarrow> int \<Rightarrow> int \<Rightarrow> rat \<Rightarrow> int \<Rightarrow> ('w, budget \<times> budget_consumption) io" where
  "consume sv b steps calls retries started minimum =
     seq (read_clock sv) (\<lambda>now.
       let elapsed = max minimum (max 0 (round_to_even (sv_float sv (elapsed_seconds sv started now * 1000))));
           r = charged_budget b steps calls retries elapsed
       in model_ok (budget_valid (fst r) \<and> consumption_valid (snd r)) r)"

section \<open>Snapshots and sources\<close>

definition current_snapshot :: "'w services \<Rightarrow> run_reference \<Rightarrow> budget option \<Rightarrow> ('w, workflow_snapshot) io" where
  "current_snapshot sv r b =
     seq (external (sv_snapshot sv r)) (\<lambda>s.
     seq (check (snapshot_valid (sv_digests sv) s) Invalid_Model) (\<lambda>_.
     seq (check (sn_run s = r) (Raised (Service_Fault CONFLICT))) (\<lambda>_.
       case b of None \<Rightarrow> pure s
       | Some c \<Rightarrow>
           seq (check (decreased (sn_budget s) c) (Raised (Service_Fault CAPABILITY))) (\<lambda>_.
             model_ok (snapshot_valid (sv_digests sv) (s\<lparr>sn_budget := c\<rparr>)) (s\<lparr>sn_budget := c\<rparr>)))))"

definition frontier :: "decision_trace \<Rightarrow> uuid \<Rightarrow> uuid list" where
  "frontier t k =
     (let parents = concat (map de_parent_event_ids (dict_list (dt_events t) k) @ map sf_parent_event_ids (dict_list (dt_failures t) k))
      in filter (\<lambda>i. i \<notin> set parents) (trace_ids t k))"

definition cited_page :: "source_registry \<Rightarrow> source_document \<Rightarrow> int \<Rightarrow> source_citation \<Rightarrow> bool" where
  "cited_page g d page c = (ct_document_id c = sd_document_id d \<and> ct_page c = page \<and> resolves g c)"

definition purpose_role :: "document_purpose \<Rightarrow> document_role option" where
  "purpose_role p = (case p of P_criteria \<Rightarrow> Some Criteria | P_forms \<Rightarrow> Some Forms | P_reference \<Rightarrow> Some Reference
     | P_brief \<Rightarrow> Some Brief | P_template \<Rightarrow> None)"

definition source_current_in :: "source_registry \<Rightarrow> document_reference \<Rightarrow> int \<Rightarrow> action_arguments \<Rightarrow> source_citation list \<Rightarrow> bool" where
  "source_current_in g ref page args evidence =
     (case find (\<lambda>d. sd_document_id d = doc_document_id ref) (sy_documents g) of
        None \<Rightarrow> False
      | Some d \<Rightarrow>
          sd_version d = doc_version ref \<and> sd_content_hash d = doc_content_hash ref
          \<and> purpose_role (doc_purpose ref) = Some (sd_role d) \<and> page \<le> int (length (sd_pages d))
          \<and> list_ex (cited_page g d page) evidence
          \<and> (case args of
               Extract_Page _ _ (Some c) \<Rightarrow> c \<in> set evidence \<and> resolves g c
             | Inspect_Reference _ _ (Some section) \<Rightarrow> list_ex (\<lambda>c. cited_page g d page c \<and> ct_region_id c = section) evidence
             | _ \<Rightarrow> True))"

definition source_is_current :: "'w services \<Rightarrow> action_arguments \<Rightarrow> source_citation list \<Rightarrow> bool" where
  "source_is_current sv args evidence =
     (case (sv_registry sv, args) of
        (Some g, Extract_Page d page _) \<Rightarrow> source_current_in g d page args evidence
      | (Some g, Inspect_Reference d page _) \<Rightarrow> source_current_in g d page args evidence
      | _ \<Rightarrow> False)"

definition receipt_evidence_is_current :: "'w services \<Rightarrow> tool_receipt \<Rightarrow> workflow_snapshot \<Rightarrow> bool" where
  "receipt_evidence_is_current sv r s =
     list_all (\<lambda>c. citation_key c \<in> set (map document_key (mr_documents (sn_revision s)))
       \<and> (case sv_registry sv of None \<Rightarrow> True | Some g \<Rightarrow> resolves g c)) (tr_evidence r)"

section \<open>Receipts and events\<close>

definition code_value :: "service_error_code \<Rightarrow> string" where
  "code_value c = (case c of VALIDATION \<Rightarrow> ''invalid_request'' | UNAUTHORIZED \<Rightarrow> ''unauthorized'' | NOT_FOUND \<Rightarrow> ''not_found''
     | CONFLICT \<Rightarrow> ''version_conflict'' | CAPABILITY \<Rightarrow> ''capability_unavailable'' | EXECUTION \<Rightarrow> ''execution_failed'')"

definition failed_receipt :: "service_error_code \<Rightarrow> string \<Rightarrow> string \<Rightarrow> tool_receipt" where
  "failed_receipt c reason summary =
     \<lparr>tr_outcome = \<lparr>to_outcome = Tool_Failed, to_result_digest = None, to_problem = Some \<lparr>problem_code = c\<rparr>\<rparr>,
      tr_reason_code = reason, tr_reviewer_summary = summary, tr_affected_subject_ids = [], tr_evidence = [],
      tr_linked_task_id = None, tr_linked_response_key = None\<rparr>"

definition invalid_receipt :: tool_receipt where
  "invalid_receipt = failed_receipt EXECUTION ''invalid-tool-receipt'' ''The admitted tool returned an invalid result receipt.''"

definition decision_of :: "'w services \<Rightarrow> uuid \<Rightarrow> uuid list \<Rightarrow> action_proposal \<Rightarrow> allowed_action \<Rightarrow> workflow_snapshot \<Rightarrow>
    workflow_snapshot \<Rightarrow> budget \<times> budget_consumption \<Rightarrow> tool_receipt \<Rightarrow> decision_event" where
  "decision_of sv i parents p admitted before after charge r =
     \<lparr>de_event_id = i, de_parent_event_ids = parents, de_proposal = p, de_executor = Some (sv_executor_actor sv),
      de_policy_version = ap_policy_version p, de_state_before = sn_state before, de_state_after = sn_state after,
      de_disposition = (if to_outcome (tr_outcome r) = Tool_Succeeded then Executed else Tool_Failure),
      de_executed_action = Some (ap_action p), de_checked_prerequisites = aa_prerequisites admitted,
      de_reason_code = tr_reason_code r, de_reviewer_summary = tr_reviewer_summary r,
      de_affected_subject_ids = tr_affected_subject_ids r, de_evidence = tr_evidence r, de_tool_result = Some (tr_outcome r),
      de_remaining_blockers = map wb_blocker_id (sn_unresolved_blockers after),
      de_linked_task_id = tr_linked_task_id r, de_linked_response_key = tr_linked_response_key r,
      de_budget_before = sn_budget before, de_budget_after = fst charge, de_budget_consumed = snd charge\<rparr>"

definition make_decision :: "'w services \<Rightarrow> uuid list \<Rightarrow> action_proposal \<Rightarrow> allowed_action \<Rightarrow> workflow_snapshot \<Rightarrow>
    workflow_snapshot \<Rightarrow> budget \<times> budget_consumption \<Rightarrow> tool_receipt \<Rightarrow> ('w, decision_event) io" where
  "make_decision sv parents p admitted before after charge r =
     seq (fresh_event_id sv) (\<lambda>i.
       let e = decision_of sv i parents p admitted before after charge r in model_ok (actual_execution e) e)"

definition model_attempts :: "action_proposal \<Rightarrow> int" where
  "model_attempts p = (if actor_kind (ap_proposer p) = A_model then (case ap_attempt_count p of Some n \<Rightarrow> n | None \<Rightarrow> 0) else 0)"

definition rejected_event :: "uuid \<Rightarrow> uuid list \<Rightarrow> action_proposal \<Rightarrow> workflow_snapshot \<Rightarrow> budget \<times> budget_consumption \<Rightarrow>
    service_error_code \<Rightarrow> decision_event" where
  "rejected_event i parents p s charge c =
     \<lparr>de_event_id = i, de_parent_event_ids = parents, de_proposal = p, de_executor = None,
      de_policy_version = ap_policy_version p, de_state_before = sn_state s, de_state_after = sn_state s,
      de_disposition = Rejected, de_executed_action = None, de_checked_prerequisites = [],
      de_reason_code = ''proposal-'' @ code_value c, de_reviewer_summary = ''The proposal failed execution-time admission.'',
      de_affected_subject_ids = [], de_evidence = [], de_tool_result = None,
      de_remaining_blockers = map wb_blocker_id (sn_unresolved_blockers s),
      de_linked_task_id = None, de_linked_response_key = None,
      de_budget_before = sn_budget s, de_budget_after = fst charge, de_budget_consumed = snd charge\<rparr>"

definition rejection :: "'w services \<Rightarrow> action_proposal \<Rightarrow> workflow_snapshot \<Rightarrow> uuid list \<Rightarrow> rat \<Rightarrow> service_error_code \<Rightarrow>
    ('w, decision_event) io" where
  "rejection sv p s parents started c =
     (let calls = model_attempts p; retries = max (calls - 1) 0; b = sn_budget s
      in seq (consume sv b 0 (min calls (model_calls_remaining b)) (min retries (retries_remaining b)) started 0) (\<lambda>charge.
         seq (fresh_event_id sv) (\<lambda>i.
           let e = rejected_event i parents p s charge c in model_ok (actual_execution e) e)))"

definition selection_failure_of :: "'w services \<Rightarrow> selection_error \<Rightarrow> uuid \<Rightarrow> uuid list \<Rightarrow> workflow_snapshot \<Rightarrow> string \<Rightarrow>
    budget \<times> budget_consumption \<Rightarrow> selection_failure_event" where
  "selection_failure_of sv err i parents s version charge =
     \<lparr>sf_event_id = i, sf_parent_event_ids = parents, sf_run = sn_run s, sf_snapshot_digest = dg_snapshot (sv_digests sv) s,
      sf_policy_version = version, sf_actor = sv_selector_actor sv, sf_error_code = se_code err, sf_model_id = se_model_id err,
      sf_prompt_version = se_prompt_version err,
      sf_attempt_count = (if se_attempts_known err then Some (se_attempts err) else None),
      sf_input_tokens = se_input_tokens err, sf_output_tokens = se_output_tokens err,
      sf_latency_ms = max (se_latency_ms err) (case bc_elapsed_ms (snd charge) of None \<Rightarrow> 0 | Some t \<Rightarrow> t),
      sf_budget_before = sn_budget s, sf_budget_after = fst charge, sf_budget_consumed = snd charge,
      sf_remaining_blockers = map wb_blocker_id (sn_unresolved_blockers s)\<rparr>"

text \<open>\<open>_record_selection_failure\<close> followed by the \<open>raise\<close>: the error carries its event.\<close>

definition raise_selection_failure :: "'w services \<Rightarrow> selection_error \<Rightarrow> workflow_snapshot \<Rightarrow> string \<Rightarrow> uuid list \<Rightarrow> rat \<Rightarrow>
    ('w, 'a) io" where
  "raise_selection_failure sv err s version parents started =
     (let b = sn_budget s;
          calls = min (max (if se_attempts_known err then se_attempts err else model_calls_remaining b) 0) (model_calls_remaining b)
      in seq (consume sv b 0 calls (min (max (se_attempts err - 1) 0) (retries_remaining b)) started (se_latency_ms err)) (\<lambda>charge.
         seq (fresh_event_id sv) (\<lambda>i.
           let e = selection_failure_of sv err i parents s version charge
           in seq (model_ok (failed_selection e) e) (\<lambda>e.
              seq (on_trace (trace_append_failure e)) (\<lambda>_. throw (Selection_Failed (err\<lparr>se_event := Some e\<rparr>)))))))"

section \<open>One decision\<close>

definition select_proposal :: "'w services \<Rightarrow> reservation \<Rightarrow> selector_input \<Rightarrow> uuid list \<Rightarrow> rat \<Rightarrow> ('w, action_proposal) io" where
  "select_proposal sv ow i parents started =
     (let s = si_snapshot i; version = as_policy_version (si_allowed_actions i)
      in handle
        (seq (handle (ask_ledger (assert_active ow))
               (\<lambda>e. throw (if e = Raised Run_Unavailable then Selection_Failed (selector_fault S_IN_FLIGHT) else e))) (\<lambda>_.
         seq (time_is_up sv (sn_budget s) started) (\<lambda>up.
           if up then throw (Selection_Failed (selector_fault S_TIMEOUT)) else external (sv_select sv i))))
        (\<lambda>e. case e of
           Deadline_Passed \<Rightarrow>
             seq (on_ledger (quarantine ow)) (\<lambda>_.
               raise_selection_failure sv
                 ((selector_fault S_TIMEOUT)\<lparr>se_attempts_known := actor_kind (sv_selector_actor sv) = A_system\<rparr>)
                 s version parents started)
         | Selection_Failed err \<Rightarrow>
             seq (if se_code err \<in> {S_TIMEOUT, S_IN_FLIGHT} then on_ledger (quarantine ow) else pure ()) (\<lambda>_.
               raise_selection_failure sv err s version parents started)
         | _ \<Rightarrow> throw e))"

text \<open>The \<open>try\<close> around execution-time admission: the fault code, if admission faults.\<close>

definition admission :: "'w services \<Rightarrow> action_proposal \<Rightarrow> source_citation list \<Rightarrow> budget \<Rightarrow> rat \<Rightarrow> workflow_snapshot \<Rightarrow>
    allowed_action_set \<Rightarrow> ('w, service_error_code option) io" where
  "admission sv p evidence b started s allowed =
     handle
       (seq (time_is_up sv b started) (\<lambda>up.
        seq (check (\<not> up) (Raised (Service_Fault CAPABILITY))) (\<lambda>_.
        seq (of_result (admit_action (sv_digests sv) p (sv_selector_actor sv) (sv_executor_actor sv) s allowed)) (\<lambda>_.
        seq (check (source_action (arguments_kind (ap_arguments p)) \<longrightarrow> source_is_current sv (ap_arguments p) evidence)
               (Raised (Service_Fault UNAUTHORIZED))) (\<lambda>_. pure None)))))
       (\<lambda>e. case e of Raised (Service_Fault c) \<Rightarrow> pure (Some c) | _ \<Rightarrow> throw e)"

definition run_tool :: "'w services \<Rightarrow> reservation \<Rightarrow> action_proposal \<Rightarrow> budget \<Rightarrow> rat \<Rightarrow> ('w, tool_receipt) io" where
  "run_tool sv ow p b started =
     handle
       (seq (time_is_up sv b started) (\<lambda>up.
        seq (check (\<not> up) Deadline_Passed) (\<lambda>_.
        seq (external (sv_execute sv p)) (\<lambda>r.
        seq (check (exact_receipt r) Invalid_Model) (\<lambda>_.
        seq (time_is_up sv b started) (\<lambda>late.
        seq (check (\<not> late) Deadline_Passed) (\<lambda>_. pure r)))))))
       (\<lambda>e. case e of
          Deadline_Passed \<Rightarrow>
            seq (on_ledger (quarantine ow)) (\<lambda>_. pure (failed_receipt CAPABILITY ''tool-time-exhausted''
              ''The tool exceeded its deadline; automatic retry is prohibited.''))
        | External_Unknown \<Rightarrow>
            seq (on_ledger (quarantine ow)) (\<lambda>_. pure (failed_receipt EXECUTION ''tool-result-unknown''
              ''The external result is unknown; automatic retry is prohibited.''))
        | Invalid_Model \<Rightarrow>
            seq (on_ledger (quarantine ow)) (\<lambda>_. pure (failed_receipt EXECUTION ''tool-execution-failed''
              ''The admitted tool failed without an accepted result.''))
        | Raised (Service_Fault c) \<Rightarrow> pure (failed_receipt c (''tool-'' @ code_value c)
              ''The tool rejected the operation at its trusted boundary.'')
        | Cancelled \<Rightarrow> throw Cancelled
        | _ \<Rightarrow> pure (failed_receipt EXECUTION ''tool-execution-failed''
              ''The admitted tool failed without an accepted result.''))"

definition reject_with :: "'w services \<Rightarrow> action_proposal \<Rightarrow> workflow_snapshot \<Rightarrow> uuid list \<Rightarrow> rat \<Rightarrow> service_error_code \<Rightarrow>
    ('w, decision_event) io" where
  "reject_with sv p s parents started c =
     seq (rejection sv p s parents started c) (\<lambda>e. seq (on_trace (trace_append e)) (\<lambda>_. pure e))"

text \<open>From the admitted action on: run the tool, look at the world again, charge and record.\<close>

definition execute_admitted :: "'w services \<Rightarrow> reservation \<Rightarrow> action_proposal \<Rightarrow> allowed_action \<Rightarrow> workflow_snapshot \<Rightarrow>
    int \<Rightarrow> uuid list \<Rightarrow> rat \<Rightarrow> ('w, decision_event) io" where
  "execute_admitted sv ow p admitted s retries parents started =
     seq (ask_ledger (assert_active ow)) (\<lambda>_.
     seq (run_tool sv ow p (sn_budget s) started) (\<lambda>receipt.
     seq (current_snapshot sv (rs_run ow) None) (\<lambda>after.
     seq (if receipt_evidence_is_current sv receipt after then pure receipt
          else seq (on_ledger (quarantine ow)) (\<lambda>_. pure invalid_receipt)) (\<lambda>receipt.
     seq (consume sv (sn_budget s) (ac_steps (aa_cost admitted)) (model_attempts p) retries started 0) (\<lambda>charge.
     seq (handle (make_decision sv parents p admitted s after charge receipt)
            (\<lambda>e. if e = Invalid_Model
                 then seq (on_ledger (quarantine ow)) (\<lambda>_. make_decision sv parents p admitted s after charge invalid_receipt)
                 else throw e)) (\<lambda>event.
     seq (on_trace (trace_append event)) (\<lambda>_. pure event)))))))"

definition initial_snapshot :: "'w services \<Rightarrow> run_reference \<Rightarrow> budget \<Rightarrow> workflow_snapshot option \<Rightarrow> ('w, workflow_snapshot) io" where
  "initial_snapshot sv r b initial =
     (case initial of
        None \<Rightarrow> current_snapshot sv r (Some b)
      | Some s \<Rightarrow> model_ok (snapshot_valid (sv_digests sv) (s\<lparr>sn_budget := b\<rparr>)) (s\<lparr>sn_budget := b\<rparr>))"

text \<open>The rest of the decision: reject what admission refused or the budget cannot retry, else execute.\<close>

definition act_on_admission :: "'w services \<Rightarrow> reservation \<Rightarrow> action_proposal \<Rightarrow> workflow_snapshot \<Rightarrow> allowed_action_set \<Rightarrow>
    int \<Rightarrow> uuid list \<Rightarrow> rat \<Rightarrow> service_error_code option \<Rightarrow> ('w, decision_event) io" where
  "act_on_admission sv ow p s allowed retry_charge parents started refused =
     (case refused of
        Some c \<Rightarrow> reject_with sv p s parents started c
      | None \<Rightarrow>
          (case proposed_actions p allowed of
             [] \<Rightarrow> throw (Raised Other_Exception)
           | admitted # _ \<Rightarrow>
               let retries = ac_retries (aa_cost admitted) + provider_retries p + retry_charge
               in if retries_remaining (sn_budget s) < retries then reject_with sv p s parents started CAPABILITY
                  else execute_admitted sv ow p admitted s retries parents started))"

definition decide :: "'w services \<Rightarrow> reservation \<Rightarrow> source_citation list \<Rightarrow> budget \<Rightarrow> int \<Rightarrow> workflow_snapshot option \<Rightarrow>
    ('w, decision_event) io" where
  "decide sv ow evidence b retry_charge initial =
     seq (check (0 \<le> retry_charge) (Raised Value_Error)) (\<lambda>_.
     seq (read_clock sv) (\<lambda>started.
     seq (initial_snapshot sv (rs_run ow) b initial) (\<lambda>s.
     seq (ask_trace (\<lambda>t. frontier t (rr_run_id (rs_run ow)))) (\<lambda>parents.
     seq (of_result (derive (sv_digests sv) (sv_policy sv) s)) (\<lambda>allowed.
     let i = \<lparr>si_snapshot = s, si_allowed_actions = allowed, si_evidence = evidence, si_budget = sn_budget s\<rparr> in
     seq (check (exact_authority (sv_digests sv) i) Invalid_Model) (\<lambda>_.
     seq (select_proposal sv ow i parents started) (\<lambda>p.
     seq (current_snapshot sv (rs_run ow) (Some (sn_budget s))) (\<lambda>now.
     seq (of_result (derive (sv_digests sv) (sv_policy sv) now)) (\<lambda>allowed_now.
     seq (admission sv p evidence (sn_budget s) started now allowed_now) (\<lambda>refused.
       act_on_admission sv ow p s allowed_now retry_charge parents started refused))))))))))"

definition decide_reserved :: "'w services \<Rightarrow> reservation \<Rightarrow> source_citation list \<Rightarrow> budget option \<Rightarrow> int \<Rightarrow>
    workflow_snapshot option \<Rightarrow> ('w, decision_event) io" where
  "decide_reserved sv ow evidence b retry_charge initial =
     seq (case b of None \<Rightarrow> pure () | Some c \<Rightarrow> on_ledger (checkpoint ow c)) (\<lambda>_.
     seq (ask_ledger (remaining ow)) (\<lambda>current.
     seq (handle (decide sv ow evidence current retry_charge initial)
            (\<lambda>e. case e of
               Selection_Failed err \<Rightarrow>
                 seq (case se_event err of
                        Some f \<Rightarrow> on_ledger (checkpoint ow (sf_budget_after f))
                      | None \<Rightarrow> on_ledger (quarantine ow)) (\<lambda>_. throw e)
             | _ \<Rightarrow> throw e)) (\<lambda>event.
     seq (on_ledger (checkpoint ow (de_budget_after event))) (\<lambda>_. pure event))))"

text \<open>\<open>decide_once\<close>: reserve, decide, and release or abandon the reservation; \<open>finally\<close> runs last.\<close>

definition finally_release :: "reservation \<Rightarrow> ('w, 'a) io \<Rightarrow> ('w, 'a) io" where
  "finally_release ow m w = (case m w of (r, v) \<Rightarrow> (r, snd (on_ledger (release ow) v)))"

definition acquire_or_in_flight :: "uuid \<Rightarrow> run_reference \<Rightarrow> budget \<Rightarrow> ('w, acquired) io" where
  "acquire_or_in_flight token r b = handle (on_ledger (acquire token r b))
     (\<lambda>e. throw (if e = Raised Run_Unavailable then Selection_Failed (selector_fault S_IN_FLIGHT) else e))"

definition decide_once :: "'w services \<Rightarrow> uuid \<Rightarrow> run_reference \<Rightarrow> source_citation list \<Rightarrow> budget option \<Rightarrow> int \<Rightarrow>
    ('w, decision_event) io" where
  "decide_once sv token r evidence b retry_charge =
     seq (current_snapshot sv r b) (\<lambda>initial.
     seq (acquire_or_in_flight token r (sn_budget initial)) (\<lambda>a.
       case a of
         Replayed _ \<Rightarrow> throw (Selection_Failed (selector_fault S_IN_FLIGHT))
       | Reserved ow \<Rightarrow>
           finally_release ow (handle (decide_reserved sv ow evidence b retry_charge (Some initial))
             (\<lambda>e. case e of
                Selection_Failed _ \<Rightarrow> throw e
              | _ \<Rightarrow> seq (on_ledger (abandon ow)) (\<lambda>_. throw e)))))"

end
