(* ===== verification/Bounded_Workflow.thy ===== *)
theory Bounded_Workflow
  imports Controlled_Workflow
begin

text \<open>
  \<open>application/bounded_workflow.py\<close>: a whole bounded run.  Decisions are taken until the workflow reaches a
  terminal state, or an exhausted budget, a repeated failure or a permanent failure hands it to a human.
  The \<open>while True\<close> loop is one function \<open>turn\<close> iterated under fuel; running out of fuel is \<open>None\<close>.
\<close>

section \<open>Classification\<close>

definition classify_event_failure :: "decision_event \<Rightarrow> failure_category option" where
  "classify_event_failure e =
     (if de_disposition e = Executed then
        (if de_state_after e = W_EVIDENCE_NEEDS_REVIEW then Some F_MISSING_EVIDENCE
         else if de_state_after e = W_UNSUPPORTED_CONTEXTS then Some F_UNSUPPORTED_RULE_CONTEXT
         else if de_state_after e = W_REVIEW_FAILED then Some F_DETERMINISTIC_REVIEW_BLOCKER
         else None)
      else if de_reason_code e \<in> {''tool-time-exhausted'', ''tool-result-unknown''} then Some F_UNRESOLVED_EXECUTION
      else if de_reason_code e \<in> {''invalid-tool-receipt'', ''proposal-unauthorized''} then Some F_UNAUTHORIZED_SOURCE
      else if de_disposition e = Rejected then Some F_PERMANENT_MALFORMED_PROPOSAL
      else case de_tool_result e of
          None \<Rightarrow> Some F_DETERMINISTIC_REVIEW_BLOCKER
        | Some t \<Rightarrow> if to_problem t = Some \<lparr>problem_code = UNAUTHORIZED\<rparr> then Some F_UNAUTHORIZED_SOURCE
                    else if to_problem t = Some \<lparr>problem_code = EXECUTION\<rparr> then Some F_RETRYABLE_PROVIDER_TOOL
                    else Some F_DETERMINISTIC_REVIEW_BLOCKER)"

definition classify_selection_failure :: "selector_error_code \<Rightarrow> failure_category" where
  "classify_selection_failure c =
     (if c \<in> {S_TIMEOUT, S_IN_FLIGHT} then F_UNRESOLVED_EXECUTION
      else if c \<in> {S_THROTTLED, S_PROVIDER_ERROR} then F_RETRYABLE_PROVIDER_TOOL
      else if c = S_MISSING_ARGUMENT_SOURCE then F_MISSING_EVIDENCE
      else if c = S_NO_ALLOWED_ACTION then F_DETERMINISTIC_REVIEW_BLOCKER
      else F_PERMANENT_MALFORMED_PROPOSAL)"

text \<open>What the fingerprint of a failure covers; its canonical JSON is hashed by the argument of \<open>runner\<close>.\<close>

record failure_inputs =
  fi_action :: action_kind
  fi_arguments :: action_arguments
  fi_revision :: revision_reference
  fi_sources :: "(string \<times> string \<times> digest \<times> document_purpose) list"
  fi_category :: failure_category
  fi_failure_code :: string

definition failure_inputs_of :: "decision_event \<Rightarrow> workflow_snapshot \<Rightarrow> failure_category \<Rightarrow> failure_inputs" where
  "failure_inputs_of e s c =
     \<lparr>fi_action = ap_action (de_proposal e), fi_arguments = ap_arguments (de_proposal e),
      fi_revision = mr_reference (sn_revision s),
      fi_sources = map (\<lambda>d. (doc_document_id d, doc_version d, doc_content_hash d, doc_purpose d))
        (sort_key doc_document_id (mr_documents (sn_revision s))),
      fi_category = c, fi_failure_code = de_reason_code e\<rparr>"

record 'w runner =
  rn_services :: "'w services"
  rn_retry_backoff_ms :: int
  rn_fingerprint :: "failure_inputs \<Rightarrow> digest"
  rn_sleep :: "int \<Rightarrow> 'w \<Rightarrow> 'w"

definition make_runner :: "'w services \<Rightarrow> int \<Rightarrow> (failure_inputs \<Rightarrow> digest) \<Rightarrow> (int \<Rightarrow> 'w \<Rightarrow> 'w) \<Rightarrow> 'w runner result" where
  "make_runner sv ms h sleep = (if ms < 0 then Inl Value_Error
     else Inr \<lparr>rn_services = sv, rn_retry_backoff_ms = ms, rn_fingerprint = h, rn_sleep = sleep\<rparr>)"

definition no_progress_fingerprint :: "'w runner \<Rightarrow> decision_event \<Rightarrow> workflow_snapshot \<Rightarrow> failure_category \<Rightarrow> digest" where
  "no_progress_fingerprint rn e s c = rn_fingerprint rn (failure_inputs_of e s c)"

section \<open>Pieces of the loop\<close>

definition terminal_state :: "workflow_snapshot \<Rightarrow> workflow_termination option" where
  "terminal_state s = (if sn_state s = W_VERIFIED then Some T_VERIFIED
     else if sn_state s = W_WAITING_FOR_HUMAN then Some T_WAITING_FOR_HUMAN else None)"

text \<open>\<open>failure_count\<close> is positive wherever the code backs off.\<close>

definition backoff :: "'w runner \<Rightarrow> budget \<Rightarrow> nat \<Rightarrow> ('w, budget) io" where
  "backoff rn b failures =
     (let full = rn_retry_backoff_ms rn * 2 ^ (failures - 1);
          delay = (case time_remaining_ms b of None \<Rightarrow> full | Some t \<Rightarrow> min full t)
      in seq (if delay = 0 then pure () else external (\<lambda>x. (Inr (), rn_sleep rn delay x))) (\<lambda>_.
           pure (b\<lparr>time_remaining_ms := map_option (\<lambda>t. t - delay) (time_remaining_ms b)\<rparr>)))"

definition runner_snapshot :: "'w runner \<Rightarrow> run_reference \<Rightarrow> budget option \<Rightarrow> ('w, workflow_snapshot) io" where
  "runner_snapshot rn r b =
     seq (external (sv_snapshot (rn_services rn) r)) (\<lambda>s.
     seq (check (snapshot_valid (sv_digests (rn_services rn)) s) Invalid_Model) (\<lambda>_.
     seq (check (sn_run s = r) (Raised Value_Error)) (\<lambda>_.
       case b of None \<Rightarrow> pure s
       | Some c \<Rightarrow> seq (check (decreased (sn_budget s) c) (Raised Value_Error)) (\<lambda>_. pure (s\<lparr>sn_budget := c\<rparr>)))))"

definition consume_selection_failure :: "budget \<Rightarrow> selection_error \<Rightarrow> ('w, budget) io" where
  "consume_selection_failure b err =
     (let calls = min (max (se_attempts err) 0) (model_calls_remaining b);
          retries = min (max (se_attempts err - 1) 0) (retries_remaining b);
          c = \<lparr>steps_remaining = steps_remaining b, model_calls_remaining = model_calls_remaining b - calls,
               retries_remaining = retries_remaining b - retries,
               time_remaining_ms = map_option (\<lambda>t. t - min (max (se_latency_ms err) 0) t) (time_remaining_ms b)\<rparr>
      in model_ok (budget_valid c) c)"

definition handoff_of :: "workflow_snapshot \<Rightarrow> decision_event list \<Rightarrow> failure_category \<Rightarrow> string \<Rightarrow> digest option \<Rightarrow>
    human_review_handoff" where
  "handoff_of s events c reason fingerprint =
     \<lparr>ho_reason_code = reason, ho_category = c, ho_revision = mr_reference (sn_revision s),
      ho_blockers = sn_unresolved_blockers s,
      ho_affected_subject_ids = fromkeys (concat (map wb_affected_subject_ids (sn_unresolved_blockers s))
        @ concat (map de_affected_subject_ids events)),
      ho_evidence = fromkeys (concat (map wb_evidence (sn_unresolved_blockers s)) @ concat (map de_evidence events)),
      ho_last_tool_outcome = (case List.map_filter de_tool_result (rev events) of [] \<Rightarrow> None | t # _ \<Rightarrow> Some t),
      ho_no_progress_fingerprint = fingerprint\<rparr>"

definition bounded_result :: "run_reference \<Rightarrow> workflow_termination \<Rightarrow> decision_event list \<Rightarrow> budget \<Rightarrow>
    human_review_handoff option \<Rightarrow> bounded_workflow_result" where
  "bounded_result r t events b h =
     \<lparr>bw_run = r, bw_termination = t, bw_events = events, bw_selection_failures = [], bw_final_budget = b, bw_handoff = h\<rparr>"

definition finish_run :: "run_reference \<Rightarrow> workflow_termination \<Rightarrow> decision_event list \<Rightarrow> budget \<Rightarrow> ('w, bounded_workflow_result) io" where
  "finish_run r t events b = (let x = bounded_result r t events b None in model_ok (terminal_shape x) x)"

definition hand_off :: "run_reference \<Rightarrow> decision_event list \<Rightarrow> budget \<Rightarrow> workflow_snapshot \<Rightarrow> workflow_termination \<Rightarrow>
    failure_category \<Rightarrow> string \<Rightarrow> digest option \<Rightarrow> ('w, bounded_workflow_result) io" where
  "hand_off r events b s t c reason fingerprint =
     (let h = handoff_of s events c reason fingerprint
      in seq (model_ok (preserved_context h) h) (\<lambda>h.
         let x = bounded_result r t events b (Some h) in model_ok (terminal_shape x) x))"

section \<open>The loop\<close>

record run_state =
  st_budget :: budget
  st_snapshot :: workflow_snapshot
  st_events :: "decision_event list"
  st_seen :: "digest list"
  st_selection_retries :: nat
  st_retry_charge :: int

datatype run_turn = Continue run_state | Done bounded_workflow_result

definition done_turn :: "('w, bounded_workflow_result) io \<Rightarrow> ('w, run_turn) io" where
  "done_turn m = seq m (\<lambda>r. pure (Done r))"

text \<open>After a selection failure: retry a provider failure while the budget allows, otherwise hand off.\<close>

definition selection_value :: "selector_error_code \<Rightarrow> string" where
  "selection_value c = (case c of S_NO_ALLOWED_ACTION \<Rightarrow> ''no_allowed_action'' | S_AMBIGUOUS_ACTION \<Rightarrow> ''ambiguous_action''
     | S_MISSING_ARGUMENT_SOURCE \<Rightarrow> ''missing_argument_source'' | S_INVALID_PROPOSAL \<Rightarrow> ''invalid_proposal''
     | S_MALFORMED_OUTPUT \<Rightarrow> ''malformed_output'' | S_TRUNCATED_OUTPUT \<Rightarrow> ''truncated_output'' | S_REFUSED \<Rightarrow> ''refused''
     | S_TIMEOUT \<Rightarrow> ''timeout'' | S_IN_FLIGHT \<Rightarrow> ''in_flight'' | S_THROTTLED \<Rightarrow> ''throttled''
     | S_PROVIDER_ERROR \<Rightarrow> ''provider_error'' | S_UNSUPPORTED_RESPONSE \<Rightarrow> ''unsupported_response'')"

definition after_selection_failure :: "'w runner \<Rightarrow> run_reference \<Rightarrow> run_state \<Rightarrow> selection_error \<Rightarrow> ('w, run_turn) io" where
  "after_selection_failure rn r st err =
     (let c = classify_selection_failure (se_code err)
      in seq (case se_event err of Some f \<Rightarrow> pure (sf_budget_after f) | None \<Rightarrow> consume_selection_failure (st_budget st) err) (\<lambda>b.
         seq (runner_snapshot rn r (Some b)) (\<lambda>s.
           if c = F_RETRYABLE_PROVIDER_TOOL \<and> 0 < retries_remaining b \<and> 0 < model_calls_remaining b \<and> time_remaining_ms b \<noteq> Some 0
           then seq (backoff rn (b\<lparr>retries_remaining := retries_remaining b - 1\<rparr>) (st_selection_retries st + 1)) (\<lambda>b'.
                  pure (Continue (st\<lparr>st_budget := b', st_snapshot := s, st_selection_retries := st_selection_retries st + 1\<rparr>)))
           else done_turn (hand_off r (st_events st) b s
                  (if c = F_RETRYABLE_PROVIDER_TOOL then T_BUDGET_EXHAUSTED else T_PERMANENT_FAILURE) c
                  (''selector-'' @ selection_value (se_code err)) None))))"

text \<open>After a failed or rejected decision in a state that is not terminal.\<close>

definition after_failed_event :: "'w runner \<Rightarrow> run_reference \<Rightarrow> run_state \<Rightarrow> decision_event \<Rightarrow> failure_category \<Rightarrow>
    ('w, run_turn) io" where
  "after_failed_event rn r st e c =
     (let b = st_budget st; s = st_snapshot st; print = no_progress_fingerprint rn e s c;
          stop = (\<lambda>t reason. done_turn (hand_off r (st_events st) b s t c reason (Some print)))
      in if print \<in> set (st_seen st) then stop T_NO_PROGRESS ''workflow-no-progress''
         else if c \<noteq> F_RETRYABLE_PROVIDER_TOOL then stop T_PERMANENT_FAILURE ''workflow-permanent-failure''
         else if retries_remaining b = 0 \<or> steps_remaining b = 0 then stop T_BUDGET_EXHAUSTED ''workflow-retries-exhausted''
         else seq (backoff rn b (Suc (length (st_seen st)))) (\<lambda>b'.
           if time_remaining_ms b' = Some 0
           then done_turn (hand_off r (st_events st) b' s T_BUDGET_EXHAUSTED c ''workflow-time-exhausted'' (Some print))
           else pure (Continue (st\<lparr>st_budget := b', st_seen := print # st_seen st, st_retry_charge := 1\<rparr>))))"

definition after_event :: "'w runner \<Rightarrow> run_reference \<Rightarrow> run_state \<Rightarrow> decision_event \<Rightarrow> ('w, run_turn) io" where
  "after_event rn r st0 e =
     (let b = de_budget_after e; events = st_events st0 @ [e]
      in seq (runner_snapshot rn r (Some b)) (\<lambda>s.
         let st = st0\<lparr>st_budget := b, st_snapshot := s, st_events := events\<rparr>; c = classify_event_failure e
         in case (terminal_state s, de_disposition e = Executed) of
              (Some t, True) \<Rightarrow> done_turn (finish_run r t events b)
            | (Some t, False) \<Rightarrow>
                done_turn (hand_off r events b s T_PERMANENT_FAILURE
                  (case c of Some x \<Rightarrow> x | None \<Rightarrow> F_DETERMINISTIC_REVIEW_BLOCKER) ''failed-terminal-transition'' None)
            | (None, True) \<Rightarrow> pure (Continue (st\<lparr>st_retry_charge := 0\<rparr>))
            | (None, False) \<Rightarrow>
                (case c of None \<Rightarrow> pure (Continue (st\<lparr>st_retry_charge := 0\<rparr>))
                 | Some x \<Rightarrow> after_failed_event rn r st e x)))"

definition turn :: "'w runner \<Rightarrow> reservation \<Rightarrow> source_citation list \<Rightarrow> run_state \<Rightarrow> ('w, run_turn) io" where
  "turn rn ow evidence st =
     (let r = rs_run ow; b = st_budget st; s = st_snapshot st; events = st_events st
      in seq (on_ledger (checkpoint ow b)) (\<lambda>_.
         case terminal_state s of
           Some t \<Rightarrow> done_turn (finish_run r t events b)
         | None \<Rightarrow>
             if steps_remaining b = 0 \<or> time_remaining_ms b = Some 0
             then done_turn (hand_off r events b s T_BUDGET_EXHAUSTED F_DETERMINISTIC_REVIEW_BLOCKER ''workflow-budget-exhausted'' None)
             else if st_retry_charge st \<noteq> 0 \<and> retries_remaining b = 0
             then done_turn (hand_off r events b s T_BUDGET_EXHAUSTED F_RETRYABLE_PROVIDER_TOOL ''workflow-retries-exhausted'' None)
             else seq (handle (seq (decide_reserved (rn_services rn) ow evidence (Some b) (st_retry_charge st) None) (\<lambda>e. pure (Inr e)))
                    (\<lambda>x. case x of Selection_Failed err \<Rightarrow> pure (Inl err) | _ \<Rightarrow> throw x)) (\<lambda>outcome.
                  case outcome of
                    Inl err \<Rightarrow> after_selection_failure rn r st err
                  | Inr e \<Rightarrow> after_event rn r st e)))"

fun turns :: "nat \<Rightarrow> 'w runner \<Rightarrow> reservation \<Rightarrow> source_citation list \<Rightarrow> run_state \<Rightarrow> 'w world \<Rightarrow>
    ((raised + bounded_workflow_result) \<times> 'w world) option" where
  "turns 0 rn ow evidence st w = None"
| "turns (Suc n) rn ow evidence st w =
     (case turn rn ow evidence st w of
        (Inl e, v) \<Rightarrow> Some (Inl e, v)
      | (Inr (Done r), v) \<Rightarrow> Some (Inr r, v)
      | (Inr (Continue st'), v) \<Rightarrow> turns n rn ow evidence st' v)"

section \<open>A whole run\<close>

text \<open>
  \<open>_run\<close> before the loop: earlier direct decisions of the same run count, so a run whose last decision failed
  for good hands off at once and a retryable failure is charged.
\<close>

definition seen_failures :: "'w runner \<Rightarrow> workflow_snapshot \<Rightarrow> decision_event list \<Rightarrow> digest list" where
  "seen_failures rn s events = remdups (List.map_filter (\<lambda>e.
     if de_disposition e = Executed then None else map_option (no_progress_fingerprint rn e s) (classify_event_failure e)) events)"

definition start_run :: "'w runner \<Rightarrow> reservation \<Rightarrow> ('w, run_turn) io" where
  "start_run rn ow =
     (let r = rs_run ow in
      seq (ask_ledger (remaining ow)) (\<lambda>b.
      seq (runner_snapshot rn r (Some b)) (\<lambda>s.
      seq (ask_trace (\<lambda>t. dict_list (dt_events t) (rr_run_id r))) (\<lambda>events.
        let failed = (events \<noteq> [] \<and> de_disposition (last events) \<noteq> Executed);
            c = (if failed then classify_event_failure (last events) else None);
            category = (case c of Some x \<Rightarrow> x | None \<Rightarrow> F_DETERMINISTIC_REVIEW_BLOCKER);
            seen = seen_failures rn s events;
            st = \<lparr>st_budget = b, st_snapshot = s, st_events = events, st_seen = seen, st_selection_retries = 0, st_retry_charge = 0\<rparr>
        in if failed \<and> terminal_state s \<noteq> None
           then done_turn (hand_off r events b s T_PERMANENT_FAILURE category ''failed-terminal-transition'' None)
           else if failed \<and> c \<noteq> Some F_RETRYABLE_PROVIDER_TOOL
           then done_turn (hand_off r events b s T_PERMANENT_FAILURE category ''workflow-permanent-failure'' None)
           else if failed
           then seq (backoff rn b (length seen)) (\<lambda>b'. pure (Continue (st\<lparr>st_budget := b', st_retry_charge := 1\<rparr>)))
           else pure (Continue st)))))"

text \<open>\<open>run\<close>: reserve the run, or replay its result if the trace agrees with it.\<close>

definition replay :: "run_reference \<Rightarrow> bounded_workflow_result \<Rightarrow> ('w, bounded_workflow_result) io" where
  "replay r x = seq (ask_trace (\<lambda>t. dict_list (dt_events t) (rr_run_id r))) (\<lambda>recorded.
     if recorded \<noteq> [] \<and> bw_events x \<noteq> recorded then throw (Raised (Service_Fault CONFLICT)) else pure x)"

definition reserve_run :: "'w runner \<Rightarrow> uuid \<Rightarrow> run_reference \<Rightarrow> ('w, acquired) io" where
  "reserve_run rn token r =
     seq (runner_snapshot rn r None) (\<lambda>s.
       handle (on_ledger (acquire token r (sn_budget s)))
         (\<lambda>e. throw (if e = Raised Run_Unavailable then Raised (Service_Fault CONFLICT) else e)))"

text \<open>The end of \<open>run\<close>: add the selection failures, complete; any exception abandons the reservation.\<close>

definition of_outcome :: "raised + 'a \<Rightarrow> ('w, 'a) io" where
  "of_outcome out = (case out of Inl e \<Rightarrow> throw e | Inr x \<Rightarrow> pure x)"

definition settle_run :: "reservation \<Rightarrow> (raised + bounded_workflow_result) \<times> 'w world \<Rightarrow> (raised + bounded_workflow_result) \<times> 'w world" where
  "settle_run ow out =
     handle
       (seq (of_outcome (fst out)) (\<lambda>x.
        seq (ask_trace (\<lambda>t. dict_list (dt_failures t) (rr_run_id (rs_run ow)))) (\<lambda>failures.
        let y = x\<lparr>bw_selection_failures := failures\<rparr>
        in seq (model_ok (terminal_shape y) y) (\<lambda>y. seq (on_ledger (complete_reserved ow y)) (\<lambda>_. pure y)))))
       (\<lambda>e. seq (on_ledger (abandon ow)) (\<lambda>_. throw e)) (snd out)"

definition run_reserved :: "nat \<Rightarrow> 'w runner \<Rightarrow> reservation \<Rightarrow> source_citation list \<Rightarrow> 'w world \<Rightarrow>
    ((raised + bounded_workflow_result) \<times> 'w world) option" where
  "run_reserved n rn ow evidence w =
     (case start_run rn ow w of
        (Inl e, v) \<Rightarrow> Some (Inl e, v)
      | (Inr (Done x), v) \<Rightarrow> Some (Inr x, v)
      | (Inr (Continue st), v) \<Rightarrow> turns n rn ow evidence st v)"

definition run_bounded :: "nat \<Rightarrow> 'w runner \<Rightarrow> uuid \<Rightarrow> run_reference \<Rightarrow> source_citation list \<Rightarrow> 'w world \<Rightarrow>
    ((raised + bounded_workflow_result) \<times> 'w world) option" where
  "run_bounded n rn token r evidence w =
     (case reserve_run rn token r w of
        (Inl e, v) \<Rightarrow> Some (Inl e, v)
      | (Inr (Replayed x), v) \<Rightarrow> Some (replay r x v)
      | (Inr (Reserved ow), v) \<Rightarrow> map_option (settle_run ow) (run_reserved n rn ow evidence v))"

end
