(* ===== verification/Policy_Safety.thy ===== *)
theory Policy_Safety
  imports Action_Policy Run_Ledger
begin

text \<open>
  Correctness of the action policy: the allowed actions of a snapshot are exactly those of the applicable
  rules and always form a valid selector input, an admitted proposal is backed by one policy rule, and the
  deterministic selector's proposals pass admission.
\<close>

section \<open>Derivation\<close>

lemma map_result_pure:
  "(\<And>x. x \<in> set xs \<Longrightarrow> f x = Inr (g x)) \<Longrightarrow> map_result f xs = Inr (map g xs)"
  by (induction xs) simp_all

lemma map_filter_id_if: "List.map_filter id (map (\<lambda>x. if P x then Some (f x) else None) xs) = map f (filter P xs)"
  by (induction xs) (simp_all add: List.map_filter_def)

lemma distinct_concat_image:
  assumes "distinct (concat (map g xs))" and "\<And>x. x \<in> set xs \<Longrightarrow> P x \<Longrightarrow> (c, h x) \<in> set (g x)"
  shows "distinct (map h (filter P xs))"
  using assms
proof (induction xs)
  case (Cons x xs)
  have "h x \<notin> h ` {y \<in> set xs. P y}" if "P x"
  proof
    assume "h x \<in> h ` {y \<in> set xs. P y}"
    then obtain y where "y \<in> set xs" "P y" "h y = h x" by auto
    then have "(c, h x) \<in> set (g x)" "(c, h x) \<in> set (g y)" "y \<in> set xs"
      using Cons.prems(2) [of x] Cons.prems(2) [of y] \<open>P x\<close> by auto
    then show False using Cons.prems(1) by auto
  qed
  then show ?case using Cons by simp
qed simp

definition policy_ok :: "action_policy \<Rightarrow> bool" where
  "policy_ok p = (po_proposer_kind p \<in> {A_system, A_model} \<and> opaque_id (po_policy_version p) \<and> validate_registry (po_rules p))"

lemma make_policy_ok: "make_policy k v rules = Inr p \<Longrightarrow> policy_ok p \<and> po_proposer_kind p = k \<and> po_rules p = rules"
  by (auto simp: make_policy_def policy_ok_def Let_def split: if_splits)

lemma snapshot_validD:
  assumes "snapshot_valid dg s"
  shows "revision_reference_valid (mr_reference (sn_revision s))" "list_all rule_reference_valid (mr_rules (sn_revision s))"
    "2 \<le> length (mr_documents (sn_revision s))" "list_all document_reference_valid (mr_documents (sn_revision s))"
    "list_all (\<lambda>d. doc_case_id d = rev_case_id (mr_reference (sn_revision s))) (mr_documents (sn_revision s))"
    "distinct (map doc_document_id (mr_documents (sn_revision s)))" "run_valid (sn_run s)" "budget_valid (sn_budget s)"
    "list_all blocker_valid (sn_unresolved_blockers s)" "rr_revision (sn_run s) = mr_reference (sn_revision s)"
  using assms by (simp_all add: exact_state_def identities_def)

lemma snapshot_without_rules:
  assumes "snapshot_valid dg s" and "mr_rules (sn_revision s) = []"
  shows "sn_state s \<in> {W_CRITERIA_PENDING, W_EXTRACTION_RETRYABLE, W_REFERENCE_AVAILABLE}"
  using assms by (cases "mr_canonicalization (sn_revision s)") (simp_all add: exact_state_def identities_def)

lemma rule_action_bounded:
  assumes "policy_ok p" and "policy_rule_valid r" and "snapshot_valid dg s" and "rule_advertised p s r"
    and "mr_rules (sn_revision s) \<noteq> [] \<or> source_action (pl_action r)"
  shows "bounded_authority (rule_action p s r)"
proof -
  have "set (permitted_purposes s r) \<subseteq> set (pl_document_purposes r)" "distinct (permitted_purposes s r)"
    "(permitted_purposes s r \<noteq> []) = source_action (pl_action r)"
    using assms(2,4) by (auto simp: permitted_purposes_def policy_rule_valid_def rule_advertised_def)
  then show ?thesis
    using assms snapshot_validD(1,2) [OF assms(3)]
    by (auto simp: bounded_authority_def rule_action_def policy_rule_valid_def policy_ok_def cost_valid_def model_cost_def)
qed

definition advertised_actions :: "action_policy \<Rightarrow> workflow_snapshot \<Rightarrow> allowed_action list" where
  "advertised_actions p s = map (rule_action p s) (filter (rule_advertised p s) (po_rules p))"

definition derived_set :: "digests \<Rightarrow> action_policy \<Rightarrow> workflow_snapshot \<Rightarrow> allowed_action_set" where
  "derived_set dg p s =
     \<lparr>as_policy_version = po_policy_version p, as_snapshot_digest = dg_snapshot dg s,
      as_revision = mr_reference (sn_revision s), as_documents = mr_documents (sn_revision s),
      as_rules = mr_rules (sn_revision s), as_actions = advertised_actions p s\<rparr>"

lemma derived_unambiguous:
  assumes "policy_ok p" and "snapshot_valid dg s" and "digest_pattern (dg_snapshot dg s)"
    and "\<And>r. r \<in> set (po_rules p) \<Longrightarrow> rule_advertised p s r \<Longrightarrow> bounded_authority (rule_action p s r)"
  shows "unambiguous_registry (derived_set dg p s)"
proof -
  let ?rs = "filter (rule_advertised p s) (po_rules p)"
  have "distinct (map pl_action ?rs)"
    by (rule distinct_concat_image [where g = rule_registration and c = "sn_state s"])
      (use assms(1) in \<open>auto simp: policy_ok_def validate_registry_def rule_registration_def rule_advertised_def rule_applies_def Let_def\<close>)
  moreover have "distinct (map pl_action_id ?rs)"
    using assms(1) by (simp add: policy_ok_def validate_registry_def distinct_map_filter)
  moreover have "map aa_action (advertised_actions p s) = map pl_action ?rs"
    "map aa_action_id (advertised_actions p s) = map pl_action_id ?rs"
    by (simp_all add: advertised_actions_def rule_action_def)
  moreover have "list_all bounded_authority (advertised_actions p s)"
    using assms(4) by (auto simp: advertised_actions_def list_all_iff)
  moreover have "list_all (\<lambda>a. aa_revision a = mr_reference (sn_revision s) \<and> aa_rules a = mr_rules (sn_revision s)
      \<and> set (aa_permitted_document_purposes a) \<subseteq> set (map doc_purpose (mr_documents (sn_revision s)))) (advertised_actions p s)"
    by (auto simp: advertised_actions_def rule_action_def permitted_purposes_def list_all_iff)
  ultimately show ?thesis
    using assms(1,3) snapshot_validD [OF assms(2)]
    by (simp add: unambiguous_registry_def derived_set_def policy_ok_def)
qed

lemma derive_Inr: "derive dg p s = Inr a \<Longrightarrow> a = derived_set dg p s \<and> unambiguous_registry a \<and> snapshot_valid dg s"
proof -
  assume d: "derive dg p s = Inr a"
  then obtain xs where xs: "map_result (derive_rule p s) (po_rules p) = Inr xs"
    by (auto simp: derive_def split: if_splits)
  have "xs = map (\<lambda>r. if rule_advertised p s r then Some (rule_action p s r) else None) (po_rules p)"
    using xs unfolding map_result_Inr
    by (induction rule: list_all2_induct) (auto simp: derive_rule_def split: if_splits)
  then have "List.map_filter id xs = advertised_actions p s"
    by (simp add: map_filter_id_if advertised_actions_def)
  then show ?thesis using d xs by (auto simp: derive_def derived_set_def Let_def split: if_splits)
qed

lemma derive_total:
  assumes "policy_ok p" and "snapshot_valid dg s" and "digest_pattern (dg_snapshot dg s)"
    and "\<And>r. r \<in> set (po_rules p) \<Longrightarrow> rule_advertised p s r \<Longrightarrow> mr_rules (sn_revision s) \<noteq> [] \<or> source_action (pl_action r)"
  shows "derive dg p s = Inr (derived_set dg p s)"
proof -
  have "bounded_authority (rule_action p s r)" if "r \<in> set (po_rules p)" "rule_advertised p s r" for r
    using assms(1,2,4) that
    by (intro rule_action_bounded) (auto simp: policy_ok_def validate_registry_def list_all_iff)
  moreover from this have "map_result (derive_rule p s) (po_rules p) =
      Inr (map (\<lambda>r. if rule_advertised p s r then Some (rule_action p s r) else None) (po_rules p))"
    by (intro map_result_pure) (auto simp: derive_rule_def)
  ultimately show ?thesis
    using derived_unambiguous [OF assms(1-3)] assms(2)
    by (simp add: derive_def map_filter_id_if Let_def derived_set_def advertised_actions_def)
qed

lemma advertised_affordable:
  "a \<in> set (advertised_actions p s) \<Longrightarrow> affordable (sn_budget s) (aa_cost a)"
  by (auto simp: advertised_actions_def affordable_def rule_action_def rule_advertised_def rule_applies_def Let_def)

lemma default_rules_valid: "validate_registry default_action_rules"
  by (simp add: validate_registry_def default_action_rules_def policy_rule_def policy_rule_valid_def rule_registration_def
      opaque_id_def is_alnum_def source_action_def)

lemma default_rule_per_state: "length (filter (\<lambda>r. st \<in> set (pl_states r)) default_action_rules) = (if st \<in> {W_VERIFIED, W_WAITING_FOR_HUMAN} then 0 else 1)"
  by (cases st) (simp_all add: default_action_rules_def policy_rule_def)

lemma default_rule_source:
  assumes "r \<in> set default_action_rules" and "st \<in> set (pl_states r)"
    and "st \<in> {W_CRITERIA_PENDING, W_EXTRACTION_RETRYABLE, W_REFERENCE_AVAILABLE}"
  shows "source_action (pl_action r)"
  using assms by (auto simp: default_action_rules_def policy_rule_def source_action_def)

lemma default_human_blockers:
  "r \<in> set default_action_rules \<Longrightarrow> pl_action r = K_HUMAN \<Longrightarrow> pl_requires_blockers r"
  by (auto simp: default_action_rules_def policy_rule_def)

lemma advertised_at_most_one:
  assumes "po_rules p = default_action_rules"
  shows "length (advertised_actions p s) \<le> 1"
proof -
  let ?here = "filter (\<lambda>r. sn_state s \<in> set (pl_states r)) (po_rules p)"
  have "sn_state s \<in> set (pl_states r)" if "rule_advertised p s r" for r
    using that by (simp add: rule_advertised_def rule_applies_def Let_def)
  then have "filter (rule_advertised p s) (po_rules p) = filter (rule_advertised p s) ?here"
    unfolding filter_filter by (intro filter_cong) auto
  then have "length (filter (rule_advertised p s) (po_rules p)) \<le> length ?here"
    by (simp only: length_filter_le)
  also have "\<dots> \<le> 1" unfolding assms default_rule_per_state by simp
  finally show ?thesis by (simp add: advertised_actions_def)
qed

lemma default_derive:
  assumes "make_policy k v default_action_rules = Inr p" and "snapshot_valid dg s" and "digest_pattern (dg_snapshot dg s)"
  shows "derive dg p s = Inr (derived_set dg p s)"
proof (rule derive_total)
  fix r assume "r \<in> set (po_rules p)" "rule_advertised p s r"
  then show "mr_rules (sn_revision s) \<noteq> [] \<or> source_action (pl_action r)"
    using snapshot_without_rules [OF assms(2)] make_policy_ok [OF assms(1)] default_rule_source
    by (auto simp: rule_advertised_def rule_applies_def Let_def)
qed (use assms make_policy_ok in auto)

section \<open>What a derived registry promises\<close>

lemma derived_authority:
  assumes "derive dg p s = Inr allowed"
    and "list_all (\<lambda>c. citation_valid c \<and> citation_key c \<in> set (map document_key (mr_documents (sn_revision s)))) evidence"
  shows "exact_authority dg \<lparr>si_snapshot = s, si_allowed_actions = allowed, si_evidence = evidence, si_budget = sn_budget s\<rparr>"
proof -
  have "list_all (\<lambda>a. affordable (sn_budget s) (aa_cost a)) (as_actions (derived_set dg p s))"
    by (simp add: derived_set_def list_all_iff advertised_affordable)
  then show ?thesis
    using derive_Inr [OF assms(1)] assms(2) snapshot_validD [of dg s]
    by (auto simp: exact_authority_def derived_set_def list_all_iff)
qed

text \<open>
  C34.  The default policy always answers: for every valid snapshot, whatever its state, derivation succeeds
  without raising, advertises at most one action, never one the budget cannot pay, and together with any
  evidence from the current documents forms a valid selector input.
\<close>

theorem default_policy_always_answers:
  assumes "make_policy k version default_action_rules = Inr p" and "snapshot_valid dg s"
    and "digest_pattern (dg_snapshot dg s)"
    and "list_all (\<lambda>c. citation_valid c \<and> citation_key c \<in> set (map document_key (mr_documents (sn_revision s)))) evidence"
  shows "\<exists>allowed. derive dg p s = Inr allowed
    \<and> map aa_action_id (as_actions allowed) = map pl_action_id (filter (rule_advertised p s) default_action_rules)
    \<and> length (as_actions allowed) \<le> 1
    \<and> exact_authority dg \<lparr>si_snapshot = s, si_allowed_actions = allowed, si_evidence = evidence, si_budget = sn_budget s\<rparr>"
proof (intro exI conjI)
  have p: "po_rules p = default_action_rules" using make_policy_ok [OF assms(1)] by simp
  show d: "derive dg p s = Inr (derived_set dg p s)" by (rule default_derive [OF assms(1-3)])
  show "map aa_action_id (as_actions (derived_set dg p s)) = map pl_action_id (filter (rule_advertised p s) default_action_rules)"
    by (simp add: derived_set_def advertised_actions_def rule_action_def p)
  show "length (as_actions (derived_set dg p s)) \<le> 1"
    using advertised_at_most_one [OF p] by (simp add: derived_set_def)
  show "exact_authority dg \<lparr>si_snapshot = s, si_allowed_actions = derived_set dg p s, si_evidence = evidence, si_budget = sn_budget s\<rparr>"
    by (rule derived_authority [OF d assms(4)])
qed

text \<open>
  C6.  Nothing runs without a rule: a proposal admitted against the registry derived for a snapshot is
  backed by a rule of the policy that applies in the snapshot's state with all its prerequisites, comes from
  the policy's kind of proposer, goes to a system executor, is paid for by the budget, and reads only
  documents of the current revision with a purpose that the rule names.
\<close>

theorem admitted_action_backed_by_rule:
  assumes "derive dg p s = Inr allowed" and "admit_action dg pr proposer executor s allowed = Inr ()"
  shows "\<exists>r. r \<in> set (po_rules p) \<and> pl_action_id r = ap_action_id pr \<and> pl_action r = ap_action pr
    \<and> sn_state s \<in> set (pl_states r) \<and> set (pl_prerequisites r) \<subseteq> set (sn_satisfied_prerequisites s)
    \<and> \<not> (pl_requires_blockers r \<and> sn_unresolved_blockers s = [])
    \<and> ap_proposer pr = proposer \<and> actor_kind proposer = po_proposer_kind p \<and> actor_kind executor = A_system
    \<and> ap_run pr = sn_run s
    \<and> 1 \<le> steps_remaining (sn_budget s)
    \<and> required_model_calls pr (aa_cost (rule_action p s r)) \<le> model_calls_remaining (sn_budget s)
    \<and> pl_retry_cost r + provider_retries pr \<le> retries_remaining (sn_budget s)
    \<and> (case ap_arguments pr of
         Extract_Page d _ _ \<Rightarrow> d \<in> set (mr_documents (sn_revision s)) \<and> doc_purpose d \<in> set (pl_document_purposes r)
       | Inspect_Reference d _ _ \<Rightarrow> d \<in> set (mr_documents (sn_revision s)) \<and> doc_purpose d \<in> set (pl_document_purposes r)
       | Deterministic_Review v rs \<Rightarrow> v = mr_reference (sn_revision s) \<and> rs = mr_rules (sn_revision s)
       | Request_Human_Review reason _ subjects _ \<Rightarrow> (\<exists>b. matching_blockers s reason subjects = [b]))"
proof -
  have "allowed = derived_set dg p s" using derive_Inr [OF assms(1)] by blast
  then obtain a where pa: "proposed_actions pr allowed = [a]" and a: "a \<in> set (advertised_actions p s)" "aa_action_id a = ap_action_id pr"
      "aa_action a = ap_action pr"
    and ok: "ap_proposer pr = proposer" "same_binding dg pr s allowed" "action_current proposer executor s a"
      "budget_covers (sn_budget s) pr (aa_cost a)" "arguments_admitted s a (ap_arguments pr)"
  proof -
    have "\<exists>a. proposed_actions pr allowed = [a]"
      using assms(2) by (auto simp: admit_action_def split: list.splits)
    then obtain a where a: "proposed_actions pr allowed = [a]" ..
    then have "a \<in> set (proposed_actions pr allowed)" by simp
    then show thesis using that [of a] a assms(2) \<open>allowed = derived_set dg p s\<close>
      by (auto simp: admit_action_def proposed_actions_def derived_set_def)
  qed
  obtain r where r: "r \<in> set (po_rules p)" "rule_advertised p s r" "a = rule_action p s r"
    using a(1) by (auto simp: advertised_actions_def)
  have "case ap_arguments pr of
         Extract_Page d _ _ \<Rightarrow> d \<in> set (mr_documents (sn_revision s)) \<and> doc_purpose d \<in> set (pl_document_purposes r)
       | Inspect_Reference d _ _ \<Rightarrow> d \<in> set (mr_documents (sn_revision s)) \<and> doc_purpose d \<in> set (pl_document_purposes r)
       | Deterministic_Review v rs \<Rightarrow> v = mr_reference (sn_revision s) \<and> rs = mr_rules (sn_revision s)
       | Request_Human_Review reason _ subjects _ \<Rightarrow> (\<exists>b. matching_blockers s reason subjects = [b])"
    using ok(5) r(3)
    by (cases "ap_arguments pr") (auto simp: source_permitted_def rule_action_def permitted_purposes_def split: list.splits)
  then show ?thesis
    using a r ok
    by (intro exI [of _ r]) (auto simp: rule_advertised_def rule_applies_def Let_def rule_action_def action_current_def
        budget_covers_def same_binding_def)
qed

section \<open>The deterministic selector\<close>

definition cited_sources :: "selector_input \<Rightarrow> allowed_action \<Rightarrow> source_citation list" where
  "cited_sources i a = filter (\<lambda>c. citation_key c \<in> document_key `
      {d \<in> set (mr_documents (sn_revision (si_snapshot i))). doc_purpose d \<in> set (aa_permitted_document_purposes a)})
     (si_evidence i)"

definition source_table :: "selector_input \<Rightarrow> allowed_action \<Rightarrow> ((string \<times> string \<times> digest) \<times> document_reference) list" where
  "source_table i a = map (\<lambda>d. (document_key d, d))
     (filter (\<lambda>d. doc_purpose d \<in> set (aa_permitted_document_purposes a)) (mr_documents (sn_revision (si_snapshot i))))"

lemma find_citation_eq:
  "find_citation i a = (case cited_sources i a of [] \<Rightarrow> None
     | c # _ \<Rightarrow> map_option (\<lambda>d. (c, d)) (map_of (rev (source_table i a)) (citation_key c)))"
proof -
  have "filter (\<lambda>c. citation_key c \<in> set (map fst (source_table i a))) (si_evidence i) = cited_sources i a"
    by (simp add: cited_sources_def source_table_def image_image)
  then show ?thesis unfolding find_citation_def Let_def source_table_def by simp
qed

lemma find_citation_None: "find_citation i a = None \<longleftrightarrow> cited_sources i a = []"
proof -
  have "map_of (rev (source_table i a)) (citation_key c) \<noteq> None" if "c \<in> set (cited_sources i a)" for c
    using that by (auto simp: cited_sources_def source_table_def map_of_eq_None_iff image_image)
  then show ?thesis unfolding find_citation_eq by (auto split: list.splits)
qed

lemma find_citation_Some:
  assumes "find_citation i a = Some (c, d)"
  shows "c \<in> set (si_evidence i)" "d \<in> set (mr_documents (sn_revision (si_snapshot i)))"
    "doc_purpose d \<in> set (aa_permitted_document_purposes a)" "citation_key c = document_key d"
proof -
  obtain cs where f: "cited_sources i a = c # cs" and m: "map_of (rev (source_table i a)) (citation_key c) = Some d"
    using assms by (auto simp: find_citation_eq split: list.splits)
  have "c \<in> set (cited_sources i a)" unfolding f by simp
  then show "c \<in> set (si_evidence i)" by (simp add: cited_sources_def)
  have "(citation_key c, d) \<in> set (source_table i a)" using map_of_SomeD [OF m] by simp
  then show "d \<in> set (mr_documents (sn_revision (si_snapshot i)))"
    "doc_purpose d \<in> set (aa_permitted_document_purposes a)" "citation_key c = document_key d"
    by (auto simp: source_table_def)
qed

text \<open>The first blocker can be put before a human: it is the only one of its kind and cites current documents.\<close>

definition blocker_actionable :: "workflow_snapshot \<Rightarrow> bool" where
  "blocker_actionable s = (case sn_unresolved_blockers s of [] \<Rightarrow> True
     | b # _ \<Rightarrow> matching_blockers s (wb_reason_code b) (wb_affected_subject_ids b) = [b]
         \<and> list_all (\<lambda>c. citation_key c \<in> set (map document_key (mr_documents (sn_revision s)))) (wb_evidence b))"

lemma selector_arguments_ready:
  assumes "exact_authority dg i" and "si_snapshot i = s" and "a \<in> set (as_actions (si_allowed_actions i))"
    and "aa_action a = K_HUMAN \<Longrightarrow> sn_unresolved_blockers s \<noteq> []" and "blocker_actionable s"
    and "\<not> (source_action (aa_action a) \<and> cited_sources i a = [])"
  shows "\<exists>args. selector_arguments i a = Inr args \<and> arguments_valid args \<and> arguments_kind args = aa_action a
    \<and> arguments_admitted s a args
    \<and> (case args of Deterministic_Review r _ \<Rightarrow> r = rr_revision (sn_run s) | _ \<Rightarrow> True)"
proof -
  have sv: "snapshot_valid dg s" and ba: "bounded_authority a" "aa_rules a = mr_rules (sn_revision s)"
    and ev: "list_all citation_valid (si_evidence i)"
    using assms(1-3) by (auto simp: exact_authority_def Let_def unambiguous_registry_def list_all_iff)
  note S = snapshot_validD [OF sv]
  have src: ?thesis if "source_action (aa_action a)"
  proof -
    have "find_citation i a \<noteq> None" using assms(6) that by (simp add: find_citation_None)
    then obtain c d where cd: "find_citation i a = Some (c, d)" by auto
    note F = find_citation_Some [OF this]
    have "citation_valid c" using ev F(1) by (simp add: list_all_iff)
    moreover have "document_reference_valid d" using S(4) F(2) assms(2) by (simp add: list_all_iff)
    ultimately show ?thesis using that ba(1) F assms(2)
      by (cases "aa_action a")
        (auto simp: selector_arguments_def cd make_arguments_def located_region_def reference_purpose_def source_permitted_def
          source_action_def bounded_authority_def citation_valid_def)
  qed
  show ?thesis
  proof (cases "aa_action a")
    case K_HUMAN
    then obtain b bs where b: "sn_unresolved_blockers s = b # bs" using assms(4) by (auto simp: neq_Nil_conv)
    then have "blocker_valid b" using S(9) by simp
    then show ?thesis using K_HUMAN b assms(2,5)
      by (auto simp: selector_arguments_def make_arguments_def human_request_valid_def blocker_valid_def blocker_actionable_def list_all_iff)
  next
    case K_REVIEW
    then have "mr_rules (sn_revision s) \<noteq> []" using ba by (auto simp: bounded_authority_def source_action_def)
    then show ?thesis using K_REVIEW S assms(2)
      by (auto simp: selector_arguments_def make_arguments_def review_arguments_valid_def)
  qed (use src in \<open>simp_all add: source_action_def\<close>)
qed

text \<open>
  The baseline selector never fails its own check: over the registry of the default policy it reports
  that no action is allowed exactly when none is, that a source is missing exactly when the sole allowed
  action reads a document and no given evidence cites a permitted one, and otherwise returns a proposal of
  that action which admission accepts.
\<close>

theorem selector_proposal_is_admitted:
  assumes "make_policy A_system version default_action_rules = Inr p" and "derive dg p s = Inr allowed"
    and "exact_authority dg i" and "si_snapshot i = s" and "si_allowed_actions i = allowed"
    and "actor_kind actor = A_system" and "actor_reference_valid actor" and "blocker_actionable s"
  shows "case as_actions allowed of
      [] \<Rightarrow> deterministic_select dg actor u i = Inl (Selection_Failed (selector_fault S_NO_ALLOWED_ACTION))
    | a # _ \<Rightarrow> if source_action (aa_action a) \<and> cited_sources i a = []
        then deterministic_select dg actor u i = Inl (Selection_Failed (selector_fault S_MISSING_ARGUMENT_SOURCE))
        else \<exists>pr. deterministic_select dg actor u i = Inr pr \<and> ap_action pr = aa_action a
          \<and> admit_action dg pr actor preflight_actor s allowed = Inr ()"
proof -
  have p: "policy_ok p" "po_proposer_kind p = A_system" "po_rules p = default_action_rules"
    using make_policy_ok [OF assms(1)] by auto
  note D = derive_Inr [OF assms(2)]
  have acts: "as_actions allowed = advertised_actions p s" using D by (simp add: derived_set_def)
  show ?thesis
  proof (cases "advertised_actions p s")
    case Nil
    then show ?thesis using acts assms(3,5) by (simp add: deterministic_select_def Let_def)
  next
    case (Cons a as)
    then have one: "advertised_actions p s = [a]" using advertised_at_most_one [OF p(3), of s] by simp
    then obtain r where r: "r \<in> set (po_rules p)" "rule_advertised p s r" "a = rule_action p s r"
    proof -
      have "a \<in> set (advertised_actions p s)" unfolding one by simp
      then show thesis using that by (auto simp: advertised_actions_def)
    qed
    have kinds: "aa_proposer_kinds a = [A_system]" using r p by (simp add: rule_action_def)
    have ba: "bounded_authority a" using D one acts by (auto simp: unambiguous_registry_def)
    have human: "sn_unresolved_blockers s \<noteq> []" if "aa_action a = K_HUMAN"
      using that r p(3) default_human_blockers by (auto simp: rule_action_def rule_advertised_def rule_applies_def Let_def)
    show ?thesis
    proof (cases "source_action (aa_action a) \<and> cited_sources i a = []")
      case True
      then have "selector_arguments i a = Inl (Selection_Failed (selector_fault S_MISSING_ARGUMENT_SOURCE))"
        using find_citation_None [of i a] by (auto simp: selector_arguments_def Let_def source_action_def)
      then show ?thesis using True one acts kinds assms(3,5) by (simp add: deterministic_select_def Let_def)
    next
      case False
      have "\<exists>args. selector_arguments i a = Inr args \<and> arguments_valid args \<and> arguments_kind args = aa_action a
          \<and> arguments_admitted s a args
          \<and> (case args of Deterministic_Review r _ \<Rightarrow> r = rr_revision (sn_run s) | _ \<Rightarrow> True)"
        by (rule selector_arguments_ready [OF assms(3,4) _ _ assms(8)]) (use acts one assms(5) human False in auto)
      then obtain args where args: "selector_arguments i a = Inr args" "arguments_valid args"
          "arguments_kind args = aa_action a" "arguments_admitted s a args"
          "case args of Deterministic_Review r _ \<Rightarrow> r = rr_revision (sn_run s) | _ \<Rightarrow> True" by blast
      let ?pr = "sole_proposal u actor i a args"
      have "typed_proposal ?pr"
        using args ba D snapshot_validD(7) [of dg s] assms(3-7)
        by (auto simp: typed_proposal_def sole_proposal_def telemetry_matches_def bounded_authority_def
            unambiguous_registry_def derived_set_def split: action_arguments.splits)
      moreover have "admit_action dg ?pr actor preflight_actor s allowed = Inr ()"
        using \<open>typed_proposal ?pr\<close> args D one acts r kinds assms(4-6) advertised_affordable [of a p s]
        by (auto simp: admit_action_def sole_proposal_def same_binding_def proposed_actions_def derived_set_def
            action_current_def budget_covers_def required_model_calls_def provider_retries_def proposal_attempts_def
            preflight_actor_def rule_action_def rule_advertised_def rule_applies_def Let_def affordable_def)
      ultimately show ?thesis using False one acts kinds args(1) assms(3-5)
        by (simp add: deterministic_select_def Let_def sole_proposal_def)
    qed
  qed
qed

section \<open>A concrete workflow\<close>

text \<open>Two source documents before parsing: the criteria may be extracted.\<close>

definition wf_source :: "string \<Rightarrow> document_purpose \<Rightarrow> document_reference" where
  "wf_source n k = \<lparr>doc_case_id = ''case1'', doc_document_id = n, doc_version = ''v1'',
     doc_content_hash = replicate 64 CHR ''0'', doc_purpose = k\<rparr>"

definition wf_snapshot :: workflow_snapshot where
  "wf_snapshot = \<lparr>sn_state_version = 1, sn_run = wf_run,
     sn_revision = \<lparr>mr_reference = rr_revision wf_run, mr_parent = None,
       mr_documents = [wf_source ''criteria'' P_criteria, wf_source ''forms'' P_forms], mr_rules = [], mr_changes = [],
       mr_canonicalization = Source_Documents_Json\<rparr>,
     sn_state = W_CRITERIA_PENDING, sn_satisfied_prerequisites = [Q_CRITERIA_DOCUMENT], sn_unresolved_blockers = [],
     sn_budget = wf_budget\<rparr>"

definition wf_digests :: digests where
  "wf_digests = \<lparr>dg_snapshot = (\<lambda>_. replicate 64 CHR ''a''), dg_documents = (\<lambda>_. replicate 64 CHR ''0'')\<rparr>"

definition wf_policy :: action_policy where
  "wf_policy = \<lparr>po_proposer_kind = A_system, po_policy_version = ''v1-system'', po_rules = default_action_rules\<rparr>"

definition wf_cite :: source_citation where
  "wf_cite = \<lparr>ct_document_id = ''criteria'', ct_content_hash = replicate 64 CHR ''0'', ct_version = ''v1'', ct_page = 1,
     ct_region_id = ''r'', ct_bbox = (Dec 0 0, Dec 0 0, Dec 1 0, Dec 1 0), ct_excerpt = ''x''\<rparr>"

definition wf_selector :: actor_reference where
  "wf_selector = \<lparr>actor_id = ''selector'', actor_kind = A_system\<rparr>"

definition wf_action :: allowed_action where
  "wf_action = \<lparr>aa_action_id = ''extract-criteria'', aa_action = K_EXTRACT, aa_permitted_states = [W_CRITERIA_PENDING],
     aa_permitted_document_purposes = [P_criteria], aa_revision = rr_revision wf_run, aa_rules = [],
     aa_proposer_kinds = [A_system], aa_executor_kinds = [A_system], aa_prerequisites = [Q_CRITERIA_DOCUMENT],
     aa_cost = \<lparr>ac_steps = 1, ac_model_calls = 0, ac_retries = 0\<rparr>\<rparr>"

definition wf_allowed :: allowed_action_set where
  "wf_allowed = \<lparr>as_policy_version = ''v1-system'', as_snapshot_digest = replicate 64 CHR ''a'',
     as_revision = rr_revision wf_run, as_documents = mr_documents (sn_revision wf_snapshot), as_rules = [],
     as_actions = [wf_action]\<rparr>"

definition wf_input :: selector_input where
  "wf_input = \<lparr>si_snapshot = wf_snapshot, si_allowed_actions = wf_allowed, si_evidence = [wf_cite], si_budget = wf_budget\<rparr>"

definition wf_proposal :: action_proposal where
  "wf_proposal = \<lparr>ap_proposal_id = 1, ap_run = wf_run, ap_action_id = ''extract-criteria'', ap_action = K_EXTRACT,
     ap_policy_version = ''v1-system'', ap_snapshot_digest = replicate 64 CHR ''a'', ap_proposer = wf_selector,
     ap_model_id = None, ap_prompt_version = None, ap_input_tokens = None, ap_output_tokens = None, ap_latency_ms = None,
     ap_attempt_count = None, ap_arguments = Extract_Page (wf_source ''criteria'' P_criteria) 1 (Some wf_cite)\<rparr>"

lemma wf_make_policy: "make_policy A_system ''v1'' default_action_rules = Inr wf_policy"
  by (simp add: make_policy_def kind_suffix_def default_rules_valid opaque_id_def is_alnum_def wf_policy_def)

lemma wf_digest_patterns: "digest_pattern (replicate 64 CHR ''0'')" "digest_pattern (replicate 64 CHR ''a'')"
  by (simp_all add: digest_pattern_def list_all_iff)

lemmas wf_defs = wf_snapshot_def wf_digests_def wf_source_def wf_run_def wf_budget_def

lemma wf_snapshot_valid: "snapshot_valid wf_digests wf_snapshot" "digest_pattern (dg_snapshot wf_digests wf_snapshot)"
  by (simp_all add: wf_defs exact_state_def identities_def wf_digest_patterns run_valid_def run_reference_valid_def
      revision_reference_valid_def document_reference_valid_def opaque_id_def is_alnum_def budget_valid_def)

lemma wf_set: "derived_set wf_digests wf_policy wf_snapshot = wf_allowed"
  by (simp add: derived_set_def wf_allowed_def advertised_actions_def wf_policy_def default_action_rules_def policy_rule_def
      rule_advertised_def rule_applies_def wf_defs model_cost_def permitted_purposes_def rule_action_def wf_action_def)

lemma wf_derive: "derive wf_digests wf_policy wf_snapshot = Inr wf_allowed"
  using default_derive [OF wf_make_policy wf_snapshot_valid] by (simp add: wf_set)

lemma wf_allowed_valid: "unambiguous_registry wf_allowed"
  using derive_Inr [OF wf_derive] by blast

lemma wf_cite_current: "citation_valid wf_cite" "citation_key wf_cite = document_key (wf_source ''criteria'' P_criteria)"
  "wf_source ''criteria'' P_criteria \<in> set (mr_documents (sn_revision wf_snapshot))"
  by (simp_all add: wf_defs wf_cite_def citation_valid_def citation_key_def document_key_def is_hex_digest_def
      is_digit_def list_all_iff)

lemma wf_evidence_current:
  "list_all (\<lambda>c. citation_valid c \<and> citation_key c \<in> set (map document_key (mr_documents (sn_revision wf_snapshot)))) [wf_cite]"
  using wf_cite_current by (auto simp del: wf_cite_current(3))

theorem default_policy_always_answers_witness:
  "\<exists>allowed. derive wf_digests wf_policy wf_snapshot = Inr allowed
    \<and> map aa_action_id (as_actions allowed) = [''extract-criteria'']
    \<and> exact_authority wf_digests \<lparr>si_snapshot = wf_snapshot, si_allowed_actions = allowed, si_evidence = [wf_cite], si_budget = sn_budget wf_snapshot\<rparr>"
  using default_policy_always_answers [OF wf_make_policy wf_snapshot_valid wf_evidence_current] wf_derive
  by (auto simp: wf_allowed_def wf_action_def)

lemma wf_input_valid: "exact_authority wf_digests wf_input" "actor_reference_valid wf_selector" "blocker_actionable wf_snapshot"
  using derived_authority [OF wf_derive wf_evidence_current]
  by (simp_all add: wf_input_def wf_snapshot_def actor_reference_valid_def wf_selector_def blocker_actionable_def)

lemma wf_cited: "cited_sources wf_input wf_action = [wf_cite]"
  using wf_cite_current by (auto simp: cited_sources_def wf_input_def wf_action_def wf_source_def)

theorem selector_proposal_is_admitted_witness:
  "\<exists>pr. deterministic_select wf_digests wf_selector 1 wf_input = Inr pr
     \<and> admit_action wf_digests pr wf_selector preflight_actor wf_snapshot wf_allowed = Inr ()"
proof -
  have i: "si_snapshot wf_input = wf_snapshot" "si_allowed_actions wf_input = wf_allowed"
    "actor_kind wf_selector = A_system" by (simp_all add: wf_input_def wf_selector_def)
  from selector_proposal_is_admitted [OF wf_make_policy wf_derive wf_input_valid(1) i wf_input_valid(2,3), of 1]
  show ?thesis using wf_cited by (auto simp: wf_allowed_def)
qed

lemma wf_proposal_typed: "typed_proposal wf_proposal"
proof -
  have "located_region (wf_source ''criteria'' P_criteria) 1 (Some wf_cite)"
    using wf_cite_current by (simp add: located_region_def document_reference_valid_def wf_source_def wf_cite_def
        wf_digest_patterns opaque_id_def is_alnum_def)
  then show ?thesis
    by (simp add: typed_proposal_def wf_proposal_def wf_selector_def wf_run_def wf_digest_patterns run_valid_def
        run_reference_valid_def revision_reference_valid_def opaque_id_def is_alnum_def actor_reference_valid_def telemetry_matches_def)
qed

lemma wf_admitted: "admit_action wf_digests wf_proposal wf_selector preflight_actor wf_snapshot wf_allowed = Inr ()"
proof -
  have "same_binding wf_digests wf_proposal wf_snapshot wf_allowed"
    by (simp add: same_binding_def wf_proposal_def wf_allowed_def wf_defs)
  moreover have "proposed_actions wf_proposal wf_allowed = [wf_action]"
    by (simp add: proposed_actions_def wf_proposal_def wf_allowed_def wf_action_def)
  moreover have "action_current wf_selector preflight_actor wf_snapshot wf_action"
    by (simp add: action_current_def wf_selector_def preflight_actor_def wf_action_def wf_defs)
  moreover have "budget_covers (sn_budget wf_snapshot) wf_proposal (aa_cost wf_action)"
    by (simp add: budget_covers_def wf_action_def wf_proposal_def wf_selector_def required_model_calls_def provider_retries_def
        proposal_attempts_def wf_defs)
  moreover have "arguments_admitted wf_snapshot wf_action (ap_arguments wf_proposal)"
    using wf_cite_current(3) by (simp add: wf_proposal_def source_permitted_def wf_action_def, simp add: wf_source_def)
  ultimately show ?thesis using wf_snapshot_valid(1) wf_proposal_typed wf_allowed_valid
    by (simp add: admit_action_def, simp add: wf_proposal_def)
qed

theorem admitted_action_backed_by_rule_witness:
  "\<exists>r. r \<in> set default_action_rules \<and> pl_action_id r = ap_action_id wf_proposal \<and> W_CRITERIA_PENDING \<in> set (pl_states r)"
  using admitted_action_backed_by_rule [OF wf_derive wf_admitted] by (auto simp: wf_policy_def wf_snapshot_def)

end
