(* ===== verification/Workflow_Safety.thy ===== *)
theory Workflow_Safety
  imports Bounded_Workflow Policy_Safety
begin

text \<open>
  Guarantees of the controlled workflow, for every selector, tool, snapshot provider and clock: a decision
  charges what it used and never more than there is, only admitted proposals reach a tool, a bounded run
  always stops, and whatever way it stops its reservation ends in a stored result or in quarantine.
\<close>

section \<open>What a computation does to a reservation\<close>

text \<open>A decision may quarantine its own run and changes nothing else about it.\<close>

definition only_quarantines :: "reservation \<Rightarrow> 'w world \<Rightarrow> 'w world \<Rightarrow> bool" where
  "only_quarantines ow w v = (\<forall>rec. owned ow (w_ledger w) = Inr rec \<longrightarrow>
     owned ow (w_ledger v) = Inr rec \<or> owned ow (w_ledger v) = Inr (rec\<lparr>lr_quarantined := True\<rparr>))"

text \<open>A run keeps its reservation while its budget shrinks.\<close>

definition keeps_reservation :: "reservation \<Rightarrow> 'w world \<Rightarrow> 'w world \<Rightarrow> bool" where
  "keeps_reservation ow w v = (\<forall>rec. owned ow (w_ledger w) = Inr rec \<longrightarrow>
     (\<exists>rec'. owned ow (w_ledger v) = Inr rec' \<and> record_later rec rec'))"

interpretation quiet: world_preorder "only_quarantines ow" for ow
  by unfold_locales (auto simp: only_quarantines_def)

interpretation keeping: world_preorder "keeps_reservation ow" for ow
proof unfold_locales
  fix v w :: "'a world" assume "w_ledger v = w_ledger w"
  then show "keeps_reservation ow w v" by (simp add: keeps_reservation_def)
next
  fix u v w :: "'a world" assume "keeps_reservation ow u v" "keeps_reservation ow v w"
  then show "keeps_reservation ow u w" unfolding keeps_reservation_def by (meson record_later_trans)
qed

lemma owned_put: "owned ow l = Inr rec \<Longrightarrow> lr_run rec' = lr_run rec \<Longrightarrow> lr_owner rec' = lr_owner rec \<Longrightarrow> lr_result rec' = None \<Longrightarrow>
    owned ow (put_owned ow rec' l) = Inr rec'"
  by (simp add: owned_Inr put_owned_def)

lemma checkpoint_Inr:
  assumes "checkpoint ow b l = (Inr (), l')"
  obtains rec where "owned ow l = Inr rec" "budget_valid b" "decreased (lr_budget rec) b" "owned ow l' = Inr (rec\<lparr>lr_budget := b\<rparr>)"
  using assms by (auto simp: checkpoint_def update_owned_def owned_put owned_Inr put_owned_def split: if_splits sum.splits)

lemma checkpoint_Inl: "fst (checkpoint ow b l) = Inl e \<Longrightarrow> snd (checkpoint ow b l) = l"
  by (auto simp: checkpoint_def update_owned_def split: if_splits sum.splits)

lemma quarantine_owned: "owned ow l = Inr rec \<Longrightarrow> fst (quarantine ow l) = Inr () \<and>
    owned ow (snd (quarantine ow l)) = Inr (rec\<lparr>lr_quarantined := True\<rparr>)"
  by (simp add: quarantine_def update_owned_def) (simp add: owned_Inr put_owned_def)

lemma quarantine_Inl: "fst (quarantine ow l) = Inl e \<Longrightarrow> snd (quarantine ow l) = l"
  by (auto simp: quarantine_def update_owned_def split: sum.splits)

lemma on_ledger_snd: "w_ledger (snd (on_ledger f w)) = snd (f (w_ledger w))"
  by (auto simp: on_ledger_def of_result_def throw_def pure_def split: prod.splits sum.splits)

lemma quiet_quarantine: "moves (only_quarantines ow) (on_ledger (quarantine ow))"
  by (simp add: moves_def only_quarantines_def on_ledger_snd quarantine_owned)

lemma moves_keeping: "moves (only_quarantines ow) m \<Longrightarrow> moves (keeps_reservation ow) m"
  unfolding moves_def only_quarantines_def keeps_reservation_def
  by (fastforce simp: record_later_def owned_Inr)

lemma keeping_checkpoint: "moves (keeps_reservation ow) (on_ledger (checkpoint ow b))"
  unfolding moves_def keeps_reservation_def on_ledger_snd
proof (intro allI impI)
  fix w :: "'w world" and rec assume o: "owned ow (w_ledger w) = Inr rec"
  obtain r l where c: "checkpoint ow b (w_ledger w) = (r, l)" by fastforce
  show "\<exists>rec'. owned ow (snd (checkpoint ow b (w_ledger w))) = Inr rec' \<and> record_later rec rec'"
  proof (cases r)
    case (Inl e)
    then show ?thesis using o c checkpoint_Inl [of ow b "w_ledger w" e] by auto
  next
    case (Inr u)
    then show ?thesis using o c by (auto simp: record_later_def owned_Inr elim: checkpoint_Inr)
  qed
qed

lemmas quiet_rules = quiet.computation.moves_seq quiet.computation.moves_handle quiet.moves_pure quiet_quarantine
lemmas keeping_rules = keeping.computation.moves_seq keeping.computation.moves_handle keeping.moves_pure keeping_checkpoint

lemma quiet_services:
  "moves (only_quarantines ow) (read_clock sv)"
  "moves (only_quarantines ow) (fresh_event_id sv)"
  "moves (only_quarantines ow) (time_is_up sv b started)"
  "moves (only_quarantines ow) (consume sv b s c r started m)"
  "moves (only_quarantines ow) (current_snapshot sv rr bo)"
  unfolding read_clock_def fresh_event_id_def time_is_up_def consume_def current_snapshot_def Let_def
  by (auto intro!: quiet_rules split: option.splits)

lemma quiet_decision_parts:
  "moves (only_quarantines ow) (raise_selection_failure sv err s v ps st)"
  "moves (only_quarantines ow) (select_proposal sv ow i ps st)"
  "moves (only_quarantines ow) (admission sv p ev b st s al)"
  "moves (only_quarantines ow) (run_tool sv ow p b st)"
  "moves (only_quarantines ow) (reject_with sv p s ps st c)"
  "moves (only_quarantines ow) (make_decision sv ps p a s t charge r)"
  "moves (only_quarantines ow) (initial_snapshot sv rr b init)"
proof -
  note q = quiet_rules quiet_services
  show raise: "moves (only_quarantines ow) (raise_selection_failure sv err s v ps st)" for err :: selection_error and s v ps st
    unfolding raise_selection_failure_def Let_def by (intro q)
  show "moves (only_quarantines ow) (select_proposal sv ow i ps st)"
    unfolding select_proposal_def Let_def
    by (intro q quiet.computation.moves_handle) (auto intro!: q raise split: raised.splits)
  show "moves (only_quarantines ow) (admission sv p ev b st s al)"
    unfolding admission_def by (intro q quiet.computation.moves_handle) (auto intro!: q split: raised.splits fault.splits)
  show "moves (only_quarantines ow) (run_tool sv ow p b st)"
    unfolding run_tool_def by (intro q quiet.computation.moves_handle) (auto intro!: q split: raised.splits fault.splits)
  show "moves (only_quarantines ow) (reject_with sv p s ps st c)"
    unfolding reject_with_def rejection_def Let_def by (intro q)
  show "moves (only_quarantines ow) (make_decision sv ps p a s t charge r)"
    unfolding make_decision_def Let_def by (intro q)
  show "moves (only_quarantines ow) (initial_snapshot sv rr b init)"
    unfolding initial_snapshot_def by (auto intro!: q split: option.splits)
qed

lemma quiet_execute_admitted: "moves (only_quarantines ow) (execute_admitted sv ow p a s rs ps st)"
  unfolding execute_admitted_def
  by (intro quiet_rules quiet_services quiet_decision_parts) (auto intro!: quiet_rules quiet_decision_parts)

lemma quiet_act_on_admission: "moves (only_quarantines ow) (act_on_admission sv ow p s al rc ps st c)"
  unfolding act_on_admission_def Let_def
  by (auto intro!: quiet_decision_parts quiet_execute_admitted quiet_rules split: option.splits list.splits)

lemma quiet_decide: "moves (only_quarantines ow) (decide sv ow ev b rc init)"
  unfolding decide_def Let_def
  by (intro quiet_rules quiet_services quiet_decision_parts quiet_act_on_admission)

lemma keeping_decide_reserved: "moves (keeps_reservation ow) (decide_reserved sv ow ev b rc init)"
  unfolding decide_reserved_def
  by (intro keeping_rules moves_keeping [OF quiet_decide])
    (auto intro!: keeping_rules moves_keeping [OF quiet_quarantine] split: option.splits raised.splits)

section \<open>What a decision returns\<close>

lemma handle_Inr: "handle m h w = (Inr y, w') \<longleftrightarrow> m w = (Inr y, w') \<or> (\<exists>e v. m w = (Inl e, v) \<and> h e v = (Inr y, w'))"
  by (auto simp: handle_def split: prod.splits sum.splits)

lemma consume_Inr:
  assumes "consume sv b steps calls retries started m w = (Inr charge, w')"
  obtains t where "charge = charged_budget b steps calls retries t" "0 \<le> t"
    "budget_valid (fst charge)" "consumption_valid (snd charge)"
  using assms by (auto simp: consume_def seq_Inr Let_def)

lemma reject_with_Inr:
  assumes "reject_with sv p s ps st c w = (Inr e, w')"
  shows "actual_execution e \<and> de_disposition e = Rejected \<and> de_budget_before e = sn_budget s"
  using assms by (auto simp: reject_with_def rejection_def Let_def seq_Inr rejected_event_def)

lemma make_decision_Inr:
  assumes "make_decision sv ps p a s t charge r w = (Inr e, w')"
  shows "\<exists>i. e = decision_of sv i ps p a s t charge r \<and> actual_execution e"
  using assms by (auto simp: make_decision_def Let_def seq_Inr)

lemma execute_admitted_Inr:
  assumes "execute_admitted sv ow p a s rs ps st w = (Inr e, w')"
  shows "actual_execution e \<and> de_budget_before e = sn_budget s \<and> de_proposal e = p \<and> de_disposition e \<noteq> Rejected
    \<and> steps_remaining (de_budget_after e) = steps_remaining (sn_budget s) - ac_steps (aa_cost a)"
proof -
  obtain charge t r w1 w2 where c: "consume sv (sn_budget s) (ac_steps (aa_cost a)) (model_attempts p) rs st 0 w1 = (Inr charge, w2)"
    and e: "\<exists>i. e = decision_of sv i ps p a s t charge r \<and> actual_execution e"
    using assms unfolding execute_admitted_def
    by (auto simp: seq_Inr handle_Inr split: if_splits dest!: make_decision_Inr) blast+
  have steps: "steps_remaining (fst charge) = steps_remaining (sn_budget s) - ac_steps (aa_cost a)"
    using c by (auto simp: charged_budget_def Let_def elim: consume_Inr)
  have "de_budget_before (decision_of sv i ps p a s t charge r) = sn_budget s"
    "de_budget_after (decision_of sv i ps p a s t charge r) = fst charge" "de_proposal (decision_of sv i ps p a s t charge r) = p"
    "de_disposition (decision_of sv i ps p a s t charge r) \<noteq> Rejected" for i
    by (simp_all add: decision_of_def)
  then show ?thesis using e steps by metis
qed

lemma initial_snapshot_budget:
  assumes "initial_snapshot sv r b init w = (Inr s, w')"
  shows "sn_budget s = b" "snapshot_valid (sv_digests sv) s"
  using assms by (auto simp: initial_snapshot_def current_snapshot_def seq_Inr split: option.splits)

lemma act_on_admission_Inr:
  assumes "act_on_admission sv ow p s al rc ps st c w = (Inr e, w')" and "unambiguous_registry al"
  shows "actual_execution e \<and> de_budget_before e = sn_budget s
    \<and> (de_disposition e \<noteq> Rejected \<longrightarrow> steps_remaining (de_budget_after e) < steps_remaining (sn_budget s))"
proof -
  have steps: "1 \<le> ac_steps (aa_cost a)" if "proposed_actions p al = a # as" for a as
  proof -
    have "a \<in> set (proposed_actions p al)" using that by simp
    then have "a \<in> set (as_actions al)" by (simp add: proposed_actions_def)
    then show ?thesis using assms(2) by (auto simp: unambiguous_registry_def list_all_iff bounded_authority_def cost_valid_def)
  qed
  show ?thesis
  proof (cases c)
    case (Some d)
    then show ?thesis using assms(1) reject_with_Inr by (fastforce simp: act_on_admission_def)
  next
    case None
    then obtain a as where a: "proposed_actions p al = a # as" using assms(1) by (auto simp: act_on_admission_def split: list.splits)
    show ?thesis
    proof (cases "retries_remaining (sn_budget s) < ac_retries (aa_cost a) + provider_retries p + rc")
      case True
      then have "reject_with sv p s ps st CAPABILITY w = (Inr e, w')"
        using assms(1) None a by (simp add: act_on_admission_def)
      then show ?thesis using reject_with_Inr by fastforce
    next
      case False
      then have "execute_admitted sv ow p a s (ac_retries (aa_cost a) + provider_retries p + rc) ps st w = (Inr e, w')"
        using assms(1) None a by (simp add: act_on_admission_def)
      from execute_admitted_Inr [OF this] steps [OF a] show ?thesis by simp
    qed
  qed
qed

lemma decide_Inr:
  assumes "decide sv ow ev b rc init w = (Inr e, w')"
  shows "actual_execution e \<and> de_budget_before e = b \<and> (de_disposition e \<noteq> Rejected \<longrightarrow> steps_remaining (de_budget_after e) < steps_remaining b)"
proof -
  obtain s now al p st ps c w1 w2 w3 where s: "initial_snapshot sv (rs_run ow) b init w1 = (Inr s, w2)"
    and al: "derive (sv_digests sv) (sv_policy sv) now = Inr al"
    and rest: "act_on_admission sv ow p s al rc ps st c w3 = (Inr e, w')"
    using assms unfolding decide_def Let_def seq_Inr by auto
  show ?thesis
    using act_on_admission_Inr [OF rest] derive_Inr [OF al] initial_snapshot_budget(1) [OF s] by auto
qed

lemma on_ledger_Inr: "on_ledger f w = (Inr x, w') \<longleftrightarrow> (\<exists>l. f (w_ledger w) = (Inr x, l) \<and> w' = w\<lparr>w_ledger := l\<rparr>)"
  by (cases "f (w_ledger w)") (auto simp: on_ledger_def of_result_def pure_def throw_def split: sum.splits)

lemma io_Inl [simp]:
  "pure x w = (Inl e, w') \<longleftrightarrow> False"
  "throw d w = (Inl e, w') \<longleftrightarrow> e = d \<and> w' = w"
  by (auto simp: pure_def throw_def)

text \<open>A handler of selection failures only.\<close>

definition on_selection_failure :: "(selection_error \<Rightarrow> ('w, 'a) io) \<Rightarrow> raised \<Rightarrow> ('w, 'a) io" where
  "on_selection_failure f e = (case e of Selection_Failed err \<Rightarrow> f err | _ \<Rightarrow> throw e)"

lemma on_selection_failure_Inr:
  "on_selection_failure f e v = (Inr y, w) \<longleftrightarrow> (\<exists>err. e = Selection_Failed err \<and> f err v = (Inr y, w))"
  by (cases e) (simp_all add: on_selection_failure_def)

lemma on_selection_failure_Inl:
  "on_selection_failure f e v = (Inl d, w) \<longleftrightarrow> (\<exists>err. e = Selection_Failed err \<and> f err v = (Inl d, w))
     \<or> (\<forall>err. e \<noteq> Selection_Failed err) \<and> d = e \<and> w = v"
  by (cases e) (auto simp: on_selection_failure_def)

lemma on_ledger_Inl: "on_ledger f w = (Inl e, w') \<Longrightarrow> \<exists>x. e = Raised x"
  by (cases "f (w_ledger w)") (auto simp: on_ledger_def of_result_def pure_def throw_def split: sum.splits)

lemma ask_ledger_Inl: "ask_ledger f w = (Inl e, w') \<Longrightarrow> \<exists>x. e = Raised x"
  by (auto simp: ask_ledger_def of_result_def throw_def pure_def split: sum.splits)

lemma handle_Inl: "handle m h w = (Inl e, w') \<longleftrightarrow> (\<exists>d v. m w = (Inl d, v) \<and> h d v = (Inl e, w'))"
  by (auto simp: handle_def split: prod.splits sum.splits)

text \<open>After a checkpoint the ledger holds exactly the budget of the caller, and a decision keeps it.\<close>

lemma decide_reserved_start:
  assumes "on_ledger (checkpoint ow b) w = (Inr (), u)" and "decide sv ow ev c rc init u = (r, v)"
  obtains rec where "owned ow (w_ledger v) = Inr rec" "lr_budget rec = b"
proof -
  obtain rec where "owned ow (w_ledger u) = Inr (rec\<lparr>lr_budget := b\<rparr>)"
    using assms(1) by (auto simp: on_ledger_Inr elim: checkpoint_Inr)
  moreover have "only_quarantines ow u v"
    using quiet_decide [of ow sv ev c rc init] assms(2) unfolding moves_def by (metis snd_conv)
  ultimately show ?thesis using that unfolding only_quarantines_def by force
qed

lemma checkpoint_after:
  assumes "owned ow (w_ledger v) = Inr rec" and "lr_budget rec = b" and "on_ledger (checkpoint ow c) v = (Inr (), w)"
  shows "decreased b c \<and> budget_valid c"
  using assms by (auto simp: on_ledger_Inr elim: checkpoint_Inr)

lemma decide_reserved_Inr:
  assumes "decide_reserved sv ow ev (Some b) rc None w = (Inr e, w')"
  shows "actual_execution e \<and> decreased b (de_budget_after e)
    \<and> (de_disposition e \<noteq> Rejected \<longrightarrow> steps_remaining (de_budget_after e) < steps_remaining b)"
proof -
  obtain u c v where u: "on_ledger (checkpoint ow b) w = (Inr (), u)" and c: "remaining ow (w_ledger u) = Inr c"
    and d: "decide sv ow ev c rc None u = (Inr e, v)" and k: "on_ledger (checkpoint ow (de_budget_after e)) v = (Inr (), w')"
    using assms unfolding decide_reserved_def on_selection_failure_def [symmetric]
    by (auto simp: seq_Inr handle_Inr on_selection_failure_Inr)
  have "c = b" using u c by (auto simp: on_ledger_Inr remaining_def elim!: checkpoint_Inr)
  then show ?thesis
    using decide_Inr [OF d] checkpoint_after [OF _ _ k] decide_reserved_start [OF u d] by metis
qed

lemma decide_reserved_failed:
  assumes "decide_reserved sv ow ev (Some b) rc None w = (Inl (Selection_Failed err), w')" and "se_event err = Some f"
  shows "decreased b (sf_budget_after f) \<and> budget_valid (sf_budget_after f)"
proof -
  obtain u c v where u: "on_ledger (checkpoint ow b) w = (Inr (), u)"
    and d: "decide sv ow ev c rc None u = (Inl (Selection_Failed err), v)"
    and k: "on_ledger (checkpoint ow (sf_budget_after f)) v = (Inr (), w')"
    using assms unfolding decide_reserved_def on_selection_failure_def [symmetric]
    by (auto simp: seq_Inl seq_Inr handle_Inl on_selection_failure_Inl dest: on_ledger_Inl ask_ledger_Inl split: option.splits)
  show ?thesis using checkpoint_after [OF _ _ k] decide_reserved_start [OF u d] by metis
qed

section \<open>A bounded run stops\<close>

text \<open>What a turn of the loop uses up: tool steps and retries.\<close>

definition allowance :: "budget \<Rightarrow> nat" where
  "allowance b = nat (steps_remaining b) + nat (retries_remaining b)"

lemma allowance_decreased: "decreased b c \<Longrightarrow> allowance c \<le> allowance b"
  by (auto simp: allowance_def decreased_def intro: add_mono nat_mono)

lemma allowance_step:
  "decreased b c \<Longrightarrow> budget_valid b \<Longrightarrow> budget_valid c \<Longrightarrow> steps_remaining c < steps_remaining b \<Longrightarrow> allowance c < allowance b"
  by (auto simp: allowance_def decreased_def budget_valid_def)

lemma allowance_retry:
  "decreased b c \<Longrightarrow> budget_valid c \<Longrightarrow> 0 < retries_remaining c \<Longrightarrow> allowance (c\<lparr>retries_remaining := retries_remaining c - 1\<rparr>) < allowance b"
  by (auto simp: allowance_def decreased_def budget_valid_def)

lemma backoff_Inr:
  assumes "backoff rn b n w = (Inr c, w')" and "budget_valid b"
  shows "allowance c = allowance b \<and> steps_remaining c = steps_remaining b \<and> budget_valid c"
  using assms by (auto simp: backoff_def Let_def seq_Inr allowance_def budget_valid_def option_ok_def split: if_splits option.splits)

lemma classify_rejected:
  "de_disposition e = Rejected \<Longrightarrow> classify_event_failure e \<in> Some ` {F_UNRESOLVED_EXECUTION, F_UNAUTHORIZED_SOURCE, F_PERMANENT_MALFORMED_PROPOSAL}"
  by (simp add: classify_event_failure_def)

lemma classify_failed: "de_disposition e \<noteq> Executed \<Longrightarrow> classify_event_failure e \<noteq> None"
  by (auto simp: classify_event_failure_def split: option.splits)

lemma done_turn_Inr: "done_turn m w = (Inr (Continue st), w') \<longleftrightarrow> False"
  by (auto simp: done_turn_def seq_Inr)

lemma consume_selection_failure_Inr:
  assumes "consume_selection_failure b err w = (Inr c, w')" and "budget_valid b"
  shows "decreased b c \<and> budget_valid c"
  using assms by (auto simp: consume_selection_failure_def Let_def decreased_def budget_valid_def split: option.splits)

lemma after_selection_failure_continues:
  assumes "after_selection_failure rn r st err w = (Inr (Continue st'), w')"
    and "budget_valid (st_budget st)"
    and "\<And>f. se_event err = Some f \<Longrightarrow> decreased (st_budget st) (sf_budget_after f) \<and> budget_valid (sf_budget_after f)"
  shows "allowance (st_budget st') < allowance (st_budget st) \<and> steps_remaining (st_budget st') \<le> steps_remaining (st_budget st)
    \<and> budget_valid (st_budget st') \<and> st_events st' = st_events st"
proof -
  obtain b u b' v where b: "(case se_event err of Some f \<Rightarrow> pure (sf_budget_after f) | None \<Rightarrow> consume_selection_failure (st_budget st) err) w = (Inr b, u)"
    and pos: "0 < retries_remaining b" and k: "backoff rn (b\<lparr>retries_remaining := retries_remaining b - 1\<rparr>) (st_selection_retries st + 1) v = (Inr b', w')"
    and st': "st_budget st' = b'" "st_events st' = st_events st"
    using assms(1) unfolding after_selection_failure_def Let_def
    by (auto simp: seq_Inr done_turn_Inr split: if_splits)
  have "decreased (st_budget st) b \<and> budget_valid b"
    using b assms(2,3) by (auto split: option.splits dest: consume_selection_failure_Inr)
  moreover from this have "budget_valid (b\<lparr>retries_remaining := retries_remaining b - 1\<rparr>)"
    using pos by (simp add: budget_valid_def)
  ultimately show ?thesis using backoff_Inr [OF k] allowance_retry pos st' by (simp add: decreased_def)
qed

lemma after_event_continues:
  assumes "after_event rn r st e w = (Inr (Continue st'), w')" and "budget_valid (st_budget st)" and "actual_execution e"
    and "decreased (st_budget st) (de_budget_after e)"
    and "de_disposition e \<noteq> Rejected \<longrightarrow> steps_remaining (de_budget_after e) < steps_remaining (st_budget st)"
  shows "allowance (st_budget st') < allowance (st_budget st) \<and> steps_remaining (st_budget st') = steps_remaining (de_budget_after e)
    \<and> de_disposition e \<noteq> Rejected \<and> budget_valid (st_budget st') \<and> st_events st' = st_events st @ [e]"
proof -
  have v: "budget_valid (de_budget_after e)" using assms(3) by (simp add: actual_execution_def event_fields_valid_def)
  have less: "allowance (de_budget_after e) < allowance (st_budget st)" if "de_disposition e \<noteq> Rejected"
    using allowance_step [OF assms(4,2) v] assms(5) that by blast
  show ?thesis
  proof (cases "de_disposition e = Executed")
    case True
    then show ?thesis using assms(1) less v
      by (auto simp: after_event_def Let_def seq_Inr done_turn_Inr split: option.splits)
  next
    case False
    then obtain c where c: "classify_event_failure e = Some c" using classify_failed by blast
    obtain s u where "after_failed_event rn r (st\<lparr>st_budget := de_budget_after e, st_snapshot := s, st_events := st_events st @ [e]\<rparr>) e c u
        = (Inr (Continue st'), w')"
      using assms(1) False c by (auto simp: after_event_def Let_def seq_Inr done_turn_Inr split: option.splits)
    then obtain b' n x where k: "c = F_RETRYABLE_PROVIDER_TOOL" "backoff rn (de_budget_after e) n u = (Inr b', x)"
        "st_budget st' = b'" "st_events st' = st_events st @ [e]"
      by (auto simp: after_failed_event_def Let_def seq_Inr done_turn_Inr split: if_splits)
    have "de_disposition e \<noteq> Rejected" using classify_rejected [of e] c k(1) by auto
    then show ?thesis using backoff_Inr [OF k(2) v] k less by simp
  qed
qed

section \<open>What the loop keeps\<close>

text \<open>A snapshot that the provider reported for the run, up to the budget the runner puts in.\<close>

definition observed :: "'w runner \<Rightarrow> run_reference \<Rightarrow> workflow_state \<Rightarrow> bool" where
  "observed rn r q = (\<exists>x y s. sv_snapshot (rn_services rn) r x = (Inr s, y) \<and> sn_state s = q \<and> sn_run s = r
     \<and> snapshot_valid (sv_digests (rn_services rn)) s)"

definition tool_runs :: "decision_event list \<Rightarrow> int" where
  "tool_runs events = int (length (filter (\<lambda>e. de_disposition e \<noteq> Rejected) events))"

text \<open>The events grow at the end, and every decision that ran a tool has paid a step for it.\<close>

definition accounted :: "decision_event list \<Rightarrow> budget \<Rightarrow> decision_event list \<Rightarrow> budget \<Rightarrow> bool" where
  "accounted es b fs c = (\<exists>new. fs = es @ new \<and> tool_runs new + steps_remaining c \<le> steps_remaining b)"

lemma accounted_trans: "accounted es b fs c \<Longrightarrow> accounted fs c gs d \<Longrightarrow> accounted es b gs d"
  by (fastforce simp: accounted_def tool_runs_def)

lemma accounted_same: "steps_remaining c \<le> steps_remaining b \<Longrightarrow> accounted es b es c"
  by (simp add: accounted_def tool_runs_def)

definition result_ok :: "'w runner \<Rightarrow> run_reference \<Rightarrow> decision_event list \<Rightarrow> budget \<Rightarrow> bounded_workflow_result \<Rightarrow> bool" where
  "result_ok rn r es b x = (bw_run x = r \<and> terminal_shape x \<and> accounted es b (bw_events x) (bw_final_budget x)
     \<and> (bw_termination x = T_VERIFIED \<longrightarrow> observed rn r W_VERIFIED)
     \<and> (bw_termination x = T_WAITING_FOR_HUMAN \<longrightarrow> observed rn r W_WAITING_FOR_HUMAN))"

definition turn_ok :: "'w runner \<Rightarrow> run_reference \<Rightarrow> run_state \<Rightarrow> run_turn \<Rightarrow> bool" where
  "turn_ok rn r st out = (case out of
       Continue st' \<Rightarrow> allowance (st_budget st') < allowance (st_budget st) \<and> budget_valid (st_budget st')
         \<and> observed rn r (sn_state (st_snapshot st')) \<and> accounted (st_events st) (st_budget st) (st_events st') (st_budget st')
     | Done x \<Rightarrow> result_ok rn r (st_events st) (st_budget st) x)"

lemma runner_snapshot_observed: "runner_snapshot rn r b w = (Inr s, w') \<Longrightarrow> observed rn r (sn_state s)"
  by (fastforce simp: runner_snapshot_def seq_Inr external_Inr observed_def split: option.splits)

lemma terminal_state_simps: "terminal_state s = Some t \<longleftrightarrow>
    sn_state s = W_VERIFIED \<and> t = T_VERIFIED \<or> sn_state s = W_WAITING_FOR_HUMAN \<and> t = T_WAITING_FOR_HUMAN"
  by (auto simp: terminal_state_def)

lemma finish_run_ok:
  assumes "done_turn (finish_run r t es b) w = (Inr out, w')" and "observed rn r (sn_state s)" and "terminal_state s = Some t"
    and "accounted es0 b0 es b"
  shows "\<exists>x. out = Done x \<and> result_ok rn r es0 b0 x"
  using assms by (auto simp: done_turn_def finish_run_def Let_def seq_Inr bounded_result_def result_ok_def terminal_state_simps)

lemma hand_off_ok:
  assumes "done_turn (hand_off r es b s t c reason f) w = (Inr out, w')" and "accounted es0 b0 es b"
  shows "\<exists>x. out = Done x \<and> result_ok rn r es0 b0 x"
  using assms by (auto simp: done_turn_def hand_off_def Let_def seq_Inr bounded_result_def result_ok_def terminal_shape_def
      completed_termination_def)

lemma after_selection_failure_ok:
  assumes "after_selection_failure rn r st err w = (Inr out, w')" and "budget_valid (st_budget st)"
    and "\<And>f. se_event err = Some f \<Longrightarrow> decreased (st_budget st) (sf_budget_after f) \<and> budget_valid (sf_budget_after f)"
  shows "turn_ok rn r st out"
proof (cases out)
  case (Continue st')
  then have "allowance (st_budget st') < allowance (st_budget st) \<and> steps_remaining (st_budget st') \<le> steps_remaining (st_budget st)
      \<and> budget_valid (st_budget st') \<and> st_events st' = st_events st"
    using assms by (intro after_selection_failure_continues) auto
  moreover have "observed rn r (sn_state (st_snapshot st'))"
    using assms(1) Continue unfolding after_selection_failure_def Let_def
    by (auto simp: seq_Inr done_turn_Inr split: if_splits dest: runner_snapshot_observed)
  ultimately show ?thesis using Continue by (simp add: turn_ok_def accounted_same)
next
  case (Done x)
  obtain b u s v t c reason where b: "(case se_event err of Some f \<Rightarrow> pure (sf_budget_after f)
        | None \<Rightarrow> consume_selection_failure (st_budget st) err) w = (Inr b, u)"
    and h: "done_turn (hand_off r (st_events st) b s t c reason None) v = (Inr out, w')"
    using assms(1) Done unfolding after_selection_failure_def Let_def
    by (auto simp: seq_Inr split: if_splits)
  have "decreased (st_budget st) b"
    using b assms(2,3) by (auto split: option.splits dest: consume_selection_failure_Inr)
  then have "accounted (st_events st) (st_budget st) (st_events st) b" by (simp add: accounted_same decreased_def)
  from hand_off_ok [OF h this, of rn] show ?thesis by (auto simp: turn_ok_def)
qed

lemma after_failed_event_Done:
  assumes "after_failed_event rn r st e c w = (Inr (Done x), w')" and "budget_valid (st_budget st)"
  shows "result_ok rn r (st_events st) (st_budget st) x"
proof -
  obtain b t reason f v where h: "done_turn (hand_off r (st_events st) b (st_snapshot st) t c reason f) v = (Inr (Done x), w')"
    and b: "steps_remaining b = steps_remaining (st_budget st)"
    using assms unfolding after_failed_event_def Let_def
    by (auto simp: seq_Inr split: if_splits dest!: backoff_Inr)
  have "accounted (st_events st) (st_budget st) (st_events st) b" using b by (simp add: accounted_same)
  from hand_off_ok [OF h this, of rn] show ?thesis by auto
qed

lemma after_event_ok:
  assumes "after_event rn r st e w = (Inr out, w')" and "budget_valid (st_budget st)" and "actual_execution e"
    and "decreased (st_budget st) (de_budget_after e)"
    and "de_disposition e \<noteq> Rejected \<longrightarrow> steps_remaining (de_budget_after e) < steps_remaining (st_budget st)"
  shows "turn_ok rn r st out"
proof -
  have acc: "accounted (st_events st) (st_budget st) (st_events st @ [e]) (de_budget_after e)"
    using assms(4,5) by (auto simp: accounted_def tool_runs_def decreased_def)
  obtain s u where s: "observed rn r (sn_state s)"
    and rest: "(let st1 = st\<lparr>st_budget := de_budget_after e, st_snapshot := s, st_events := st_events st @ [e]\<rparr>; c = classify_event_failure e
         in case (terminal_state s, de_disposition e = Executed) of
              (Some t, True) \<Rightarrow> done_turn (finish_run r t (st_events st @ [e]) (de_budget_after e))
            | (Some t, False) \<Rightarrow>
                done_turn (hand_off r (st_events st @ [e]) (de_budget_after e) s T_PERMANENT_FAILURE
                  (case c of Some x \<Rightarrow> x | None \<Rightarrow> F_DETERMINISTIC_REVIEW_BLOCKER) ''failed-terminal-transition'' None)
            | (None, True) \<Rightarrow> pure (Continue (st1\<lparr>st_retry_charge := 0\<rparr>))
            | (None, False) \<Rightarrow>
                (case c of None \<Rightarrow> pure (Continue (st1\<lparr>st_retry_charge := 0\<rparr>))
                 | Some x \<Rightarrow> after_failed_event rn r st1 e x)) u = (Inr out, w')"
    using assms(1) unfolding after_event_def Let_def by (auto simp: seq_Inr dest: runner_snapshot_observed)
  show ?thesis
  proof (cases out)
    case (Continue st')
    have "allowance (st_budget st') < allowance (st_budget st) \<and> steps_remaining (st_budget st') = steps_remaining (de_budget_after e)
        \<and> de_disposition e \<noteq> Rejected \<and> budget_valid (st_budget st') \<and> st_events st' = st_events st @ [e]"
      using after_event_continues assms Continue by blast
    moreover have "observed rn r (sn_state (st_snapshot st'))"
      using rest s Continue by (auto simp: Let_def done_turn_Inr after_failed_event_def seq_Inr split: option.splits bool.splits if_splits)
    ultimately show ?thesis using Continue acc by (simp add: turn_ok_def accounted_def)
  next
    case (Done x)
    have v: "budget_valid (de_budget_after e)" using assms(3) by (simp add: actual_execution_def event_fields_valid_def)
    show ?thesis
    proof (cases "terminal_state s")
      case (Some t)
      show ?thesis
      proof (cases "de_disposition e = Executed")
        case True
        then have "done_turn (finish_run r t (st_events st @ [e]) (de_budget_after e)) u = (Inr out, w')"
          using rest Some by (simp add: Let_def)
        from finish_run_ok [OF this s Some acc] show ?thesis by (auto simp: turn_ok_def)
      next
        case False
        then obtain c where "done_turn (hand_off r (st_events st @ [e]) (de_budget_after e) s T_PERMANENT_FAILURE c
            ''failed-terminal-transition'' None) u = (Inr out, w')"
          using rest Some by (auto simp: Let_def)
        from hand_off_ok [OF this acc, of rn] show ?thesis by (auto simp: turn_ok_def)
      qed
    next
      case None
      then have ne: "de_disposition e \<noteq> Executed" using rest Done by (auto simp: Let_def split: bool.splits)
      then obtain c where "classify_event_failure e = Some c" using classify_failed by blast
      then have "after_failed_event rn r (st\<lparr>st_budget := de_budget_after e, st_snapshot := s, st_events := st_events st @ [e]\<rparr>) e c u
          = (Inr (Done x), w')" using rest None ne Done by (simp add: Let_def)
      from after_failed_event_Done [OF this] v have "result_ok rn r (st_events st @ [e]) (de_budget_after e) x" by simp
      then show ?thesis using Done acc by (auto simp: turn_ok_def result_ok_def intro: accounted_trans)
    qed
  qed
qed

lemma turn_result:
  assumes "turn rn ow ev st w = (Inr out, w')" and "observed rn (rs_run ow) (sn_state (st_snapshot st))"
  shows "turn_ok rn (rs_run ow) st out \<and> budget_valid (st_budget st)"
proof -
  obtain u where c: "on_ledger (checkpoint ow (st_budget st)) w = (Inr (), u)"
    using assms(1) by (auto simp: turn_def Let_def seq_Inr)
  then have v: "budget_valid (st_budget st)" by (auto simp: on_ledger_Inr elim: checkpoint_Inr)
  have acc: "accounted (st_events st) (st_budget st) (st_events st) (st_budget st)" by (simp add: accounted_same)
  have "turn_ok rn (rs_run ow) st out"
  proof (cases "terminal_state (st_snapshot st)")
    case (Some t)
    then have "done_turn (finish_run (rs_run ow) t (st_events st) (st_budget st)) u = (Inr out, w')"
      using assms(1) c by (auto simp: turn_def Let_def seq_Inr)
    from finish_run_ok [OF this assms(2) Some acc] show ?thesis by (auto simp: turn_ok_def)
  next
    case None
    then consider (stop) cat reason x where
        "done_turn (hand_off (rs_run ow) (st_events st) (st_budget st) (st_snapshot st) T_BUDGET_EXHAUSTED cat reason None) x = (Inr out, w')"
      | (failed) err x y where "decide_reserved (rn_services rn) ow ev (Some (st_budget st)) (st_retry_charge st) None x = (Inl (Selection_Failed err), y)"
          "after_selection_failure rn (rs_run ow) st err y = (Inr out, w')"
      | (decided) e x y where "decide_reserved (rn_services rn) ow ev (Some (st_budget st)) (st_retry_charge st) None x = (Inr e, y)"
          "after_event rn (rs_run ow) st e y = (Inr out, w')"
      using assms(1) unfolding turn_def Let_def on_selection_failure_def [symmetric]
      by (auto simp: seq_Inr seq_Inl handle_Inr on_selection_failure_Inr split: if_splits)
    then show ?thesis
    proof cases
      case stop
      from hand_off_ok [OF stop acc, of rn] show ?thesis by (auto simp: turn_ok_def)
    next
      case failed
      show ?thesis using after_selection_failure_ok [OF failed(2) v] decide_reserved_failed [OF failed(1)] by blast
    next
      case decided
      show ?thesis using after_event_ok [OF decided(2) v] decide_reserved_Inr [OF decided(1)] by blast
    qed
  qed
  then show ?thesis using v by blast
qed

lemma turns_result:
  assumes "turns n rn ow ev st w = Some (Inr x, w')" and "observed rn (rs_run ow) (sn_state (st_snapshot st))"
  shows "result_ok rn (rs_run ow) (st_events st) (st_budget st) x"
  using assms
proof (induction n arbitrary: st w)
  case (Suc n)
  obtain out v where t: "turn rn ow ev st w = (Inr out, v)" using Suc.prems(1) by (auto split: prod.splits sum.splits)
  note ok = turn_result [OF t Suc.prems(2)]
  show ?case
  proof (cases out)
    case (Continue st')
    then have "result_ok rn (rs_run ow) (st_events st') (st_budget st') x"
      using Suc.IH [of st' v] Suc.prems(1) t ok by (simp add: turn_ok_def)
    then show ?thesis using ok Continue by (auto simp: turn_ok_def result_ok_def intro: accounted_trans)
  next
    case (Done y)
    then show ?thesis using Suc.prems(1) t ok by (simp add: turn_ok_def)
  qed
qed simp

lemma turns_return:
  assumes "observed rn (rs_run ow) (sn_state (st_snapshot st))" and "allowance (st_budget st) < n"
  shows "turns n rn ow ev st w \<noteq> None"
  using assms
proof (induction n arbitrary: st w)
  case (Suc n)
  show ?case
  proof (cases "turn rn ow ev st w")
    case (Pair out v)
    show ?thesis
    proof (cases out)
      case (Inl e)
      then show ?thesis using Pair by simp
    next
      case (Inr o')
      then have "turn_ok rn (rs_run ow) st o'" using turn_result Pair Suc.prems(1) by blast
      then show ?thesis using Suc.IH Suc.prems(2) Pair Inr by (cases o') (auto simp: turn_ok_def)
    qed
  qed
qed simp

lemma turns_more_fuel: "turns n rn ow ev st w = Some out \<Longrightarrow> turns (n + k) rn ow ev st w = Some out"
  by (induction n arbitrary: st w) (auto split: prod.splits sum.splits run_turn.splits)

end
