(* ===== verification/Bounded_Safety.thy ===== *)
theory Bounded_Safety
  imports Workflow_Safety
begin

text \<open>
  The guarantees of a whole bounded run and of a direct decision: they return, leave no reservation behind,
  report only what was observed and paid for, and never hand a tool a proposal that was not admitted.
\<close>

section \<open>Before and after the loop\<close>

lemma backoff_allowance:
  "backoff rn b n w = (Inr c, w') \<Longrightarrow> allowance c = allowance b \<and> steps_remaining c = steps_remaining b"
  by (auto simp: backoff_def Let_def seq_Inr allowance_def split: if_splits)

definition prior_events :: "run_reference \<Rightarrow> 'w world \<Rightarrow> decision_event list" where
  "prior_events r w = dict_list (dt_events (w_trace w)) (rr_run_id r)"

lemma start_run_result:
  assumes "start_run rn ow w = (Inr out, w')"
  obtains b where "remaining ow (w_ledger w) = Inr b"
    "case out of Continue st \<Rightarrow> allowance (st_budget st) = allowance b \<and> observed rn (rs_run ow) (sn_state (st_snapshot st))
         \<and> accounted (prior_events (rs_run ow) w) b (st_events st) (st_budget st)
     | Done x \<Rightarrow> result_ok rn (rs_run ow) (prior_events (rs_run ow) w) b x"
proof -
  obtain b s u where b: "remaining ow (w_ledger w) = Inr b" and s: "runner_snapshot rn (rs_run ow) (Some b) w = (Inr s, u)"
    using assms unfolding start_run_def Let_def by (auto simp: seq_Inr)
  have "w_trace u = w_trace w"
    using s by (auto simp: runner_snapshot_def seq_Inr external_Inr split: option.splits)
  then have ev: "dict_list (dt_events (w_trace u)) (rr_run_id (rs_run ow)) = prior_events (rs_run ow) w"
    by (simp add: prior_events_def)
  let ?es = "prior_events (rs_run ow) w"
  note obs = runner_snapshot_observed [OF s]
  have acc: "accounted ?es b ?es b" by (simp add: accounted_same)
  have split_if: "\<And>P m n v. (if P then m else n) v = (if P then m v else n v)" by simp
  from assms b s consider
      (stop) c reason where "done_turn (hand_off (rs_run ow) ?es b s T_PERMANENT_FAILURE c reason None) u = (Inr out, w')"
    | (retry) b' st n where "backoff rn b n u = (Inr b', w')" "out = Continue st" "st_budget st = b'" "st_snapshot st = s" "st_events st = ?es"
    | (go) st where "out = Continue st" "st_budget st = b" "st_snapshot st = s" "st_events st = ?es"
    unfolding start_run_def Let_def seq_Inr by (auto simp: ev split_if seq_Inr split: if_splits)
  then have "case out of Continue st \<Rightarrow> allowance (st_budget st) = allowance b \<and> observed rn (rs_run ow) (sn_state (st_snapshot st))
         \<and> accounted ?es b (st_events st) (st_budget st)
     | Done x \<Rightarrow> result_ok rn (rs_run ow) ?es b x"
  proof cases
    case stop
    from hand_off_ok [OF stop acc, of rn] show ?thesis by auto
  next
    case retry
    then show ?thesis using backoff_allowance [OF retry(1)] obs by (simp add: accounted_same)
  next
    case go
    then show ?thesis using obs acc by simp
  qed
  then show thesis using that b by blast
qed

lemma run_reserved_result:
  assumes "run_reserved n rn ow ev w = Some (Inr x, w')"
  obtains b where "remaining ow (w_ledger w) = Inr b" "result_ok rn (rs_run ow) (prior_events (rs_run ow) w) b x"
proof -
  obtain out v where s: "start_run rn ow w = (Inr out, v)"
    using assms by (auto simp: run_reserved_def split: prod.splits sum.splits)
  obtain b where b: "remaining ow (w_ledger w) = Inr b"
    "case out of Continue st \<Rightarrow> allowance (st_budget st) = allowance b \<and> observed rn (rs_run ow) (sn_state (st_snapshot st))
         \<and> accounted (prior_events (rs_run ow) w) b (st_events st) (st_budget st)
     | Done y \<Rightarrow> result_ok rn (rs_run ow) (prior_events (rs_run ow) w) b y"
    using start_run_result [OF s] .
  have "result_ok rn (rs_run ow) (prior_events (rs_run ow) w) b x"
  proof (cases out)
    case (Continue st)
    then have "turns n rn ow ev st v = Some (Inr x, w')" using assms s by (simp add: run_reserved_def)
    from turns_result [OF this] show ?thesis using b Continue by (auto simp: result_ok_def intro: accounted_trans)
  next
    case (Done y)
    then show ?thesis using assms s b by (simp add: run_reserved_def)
  qed
  then show thesis using that b by blast
qed

lemma run_reserved_returns:
  assumes "\<And>b. remaining ow (w_ledger w) = Inr b \<Longrightarrow> allowance b < n"
  shows "run_reserved n rn ow ev w \<noteq> None"
proof (cases "start_run rn ow w")
  case (Pair out v)
  show ?thesis
  proof (cases out)
    case (Inl e)
    then show ?thesis using Pair by (simp add: run_reserved_def)
  next
    case (Inr t)
    then have s: "start_run rn ow w = (Inr t, v)" using Pair by simp
    show ?thesis
    proof (cases t)
      case (Continue st)
      obtain b where "remaining ow (w_ledger w) = Inr b" "allowance (st_budget st) = allowance b" "observed rn (rs_run ow) (sn_state (st_snapshot st))"
        by (rule start_run_result [OF s]) (use Continue in auto)
      then have "turns n rn ow ev st v \<noteq> None" using assms by (intro turns_return) auto
      then show ?thesis using s Continue by (simp add: run_reserved_def)
    next
      case (Done x)
      then show ?thesis using s by (simp add: run_reserved_def)
    qed
  qed
qed

lemma run_reserved_more_fuel: "run_reserved n rn ow ev w = Some out \<Longrightarrow> run_reserved (n + k) rn ow ev w = Some out"
  by (auto simp: run_reserved_def turns_more_fuel split: prod.splits sum.splits run_turn.splits)

section \<open>The reservation through the run\<close>

lemma keeping_runner_snapshot: "moves (keeps_reservation ow) (runner_snapshot rn r b)"
  unfolding runner_snapshot_def by (intro keeping_rules) (auto intro!: keeping_rules split: option.splits)

lemma keeping_ends:
  "moves (keeps_reservation ow) (backoff rn b n)"
  "moves (keeps_reservation ow) (done_turn (hand_off r es b s t c reason f))"
  "moves (keeps_reservation ow) (done_turn (finish_run r t es b))"
  "moves (keeps_reservation ow) (consume_selection_failure b err)"
  unfolding backoff_def done_turn_def hand_off_def finish_run_def consume_selection_failure_def Let_def
  by (auto intro!: keeping_rules)

lemma keeping_after:
  "moves (keeps_reservation ow) (after_selection_failure rn r st err)"
  "moves (keeps_reservation ow) (after_event rn r st e)"
  unfolding after_selection_failure_def after_event_def after_failed_event_def Let_def
  by (auto intro!: keeping_rules keeping_runner_snapshot keeping_ends split: option.splits bool.splits)

lemma keeping_turn: "moves (keeps_reservation ow) (turn rn ow ev st)"
  unfolding turn_def Let_def
  by (auto intro!: keeping_rules keeping_ends keeping_after keeping_decide_reserved split: option.splits raised.splits sum.splits)

lemma keeping_start: "moves (keeps_reservation ow) (start_run rn ow)"
  unfolding start_run_def Let_def
  by (auto intro!: keeping_rules keeping_ends keeping_runner_snapshot)

lemma keeping_turns: "turns n rn ow ev st w = Some (out, v) \<Longrightarrow> keeps_reservation ow w v"
proof (induction n arbitrary: st w)
  case (Suc n)
  obtain o' u where t: "turn rn ow ev st w = (o', u)" by fastforce
  then have k: "keeps_reservation ow w u" using keeping_turn unfolding moves_def by (metis snd_conv)
  show ?case
    using Suc.prems t k by (auto split: sum.splits run_turn.splits intro: keeping.trans dest: Suc.IH)
qed simp

lemma keeping_run_reserved: "run_reserved n rn ow ev w = Some (out, v) \<Longrightarrow> keeps_reservation ow w v"
proof -
  assume r: "run_reserved n rn ow ev w = Some (out, v)"
  obtain o' u where t: "start_run rn ow w = (o', u)" by fastforce
  then have k: "keeps_reservation ow w u" using keeping_start unfolding moves_def by (metis snd_conv)
  show ?thesis
    using r t k by (auto simp: run_reserved_def split: sum.splits run_turn.splits intro: keeping.trans dest: keeping_turns)
qed

lemma reserve_run_owned:
  assumes "reserve_run rn token r w = (Inr (Reserved ow), u)"
  obtains rec where "ow = \<lparr>rs_run = r, rs_token = token\<rparr>" "owned ow (w_ledger u) = Inr rec"
proof -
  obtain b m where "acquire token r b m = (Inr (Reserved ow), w_ledger u)"
    using assms by (auto simp: reserve_run_def seq_Inr handle_Inr on_ledger_Inr)
  then show thesis using that
    by (cases rule: acquire_step [of token r b m]) (auto simp: owned_Inr)
qed

section \<open>How a reservation ends\<close>

lemma complete_reserved_Inr:
  assumes "complete_reserved ow x l = (Inr (), l')"
  obtains rec where "owned ow l = Inr rec" "bw_run x = lr_run rec" "decreased (lr_budget rec) (bw_final_budget x)"
    "\<not> (lr_quarantined rec \<and> completed_termination (bw_termination x))"
    "dict_get l' (rr_run_id (rs_run ow)) = Some (rec\<lparr>lr_budget := bw_final_budget x, lr_result := Some x, lr_owner := None\<rparr>)"
  using assms by (auto simp: complete_reserved_def update_owned_def put_owned_def owned_Inr split: if_splits sum.splits)

lemma complete_reserved_Inl: "fst (complete_reserved ow x l) = Inl e \<Longrightarrow> snd (complete_reserved ow x l) = l"
  by (auto simp: complete_reserved_def update_owned_def split: if_splits sum.splits)

lemma abandon_owned: "owned ow l = Inr rec \<Longrightarrow> abandon ow l = (Inr (), put_owned ow (rec\<lparr>lr_quarantined := True, lr_owner := None\<rparr>) l)"
  by (simp add: abandon_def update_owned_def)

text \<open>How a record looks once its run has settled.\<close>

definition settled :: "run_record \<Rightarrow> (raised + bounded_workflow_result) \<Rightarrow> run_record \<Rightarrow> bool" where
  "settled before out after =
     (lr_run after = lr_run before \<and> lr_owner after = None \<and> decreased (lr_budget before) (lr_budget after)
      \<and> (case out of
           Inr x \<Rightarrow> lr_result after = Some x \<and> lr_budget after = bw_final_budget x
             \<and> \<not> (lr_quarantined after \<and> completed_termination (bw_termination x))
         | Inl e \<Rightarrow> lr_result after = None \<and> lr_quarantined after))"

definition settle_body :: "reservation \<Rightarrow> raised + bounded_workflow_result \<Rightarrow> ('w, bounded_workflow_result) io" where
  "settle_body ow out = seq (of_outcome out) (\<lambda>x.
     seq (ask_trace (\<lambda>t. dict_list (dt_failures t) (rr_run_id (rs_run ow)))) (\<lambda>failures.
     let y = x\<lparr>bw_selection_failures := failures\<rparr>
     in seq (model_ok (terminal_shape y) y) (\<lambda>y. seq (on_ledger (complete_reserved ow y)) (\<lambda>_. pure y))))"

lemma settle_body_Inr:
  assumes "settle_body ow out v = (Inr x, u)"
  shows "\<exists>y fs. out = Inr y \<and> x = y\<lparr>bw_selection_failures := fs\<rparr> \<and> terminal_shape x
    \<and> complete_reserved ow x (w_ledger v) = (Inr (), w_ledger u)"
  using assms by (cases out) (auto simp: settle_body_def of_outcome_def Let_def seq_Inr on_ledger_Inr)

lemma settle_body_Inl:
  assumes "settle_body ow out v = (Inl e, u)"
  shows "w_ledger u = w_ledger v"
proof (cases out)
  case (Inl d)
  then show ?thesis using assms by (simp add: settle_body_def of_outcome_def)
next
  case (Inr y)
  then obtain x where "seq (model_ok (terminal_shape x) x) (\<lambda>y. seq (on_ledger (complete_reserved ow y)) (\<lambda>_. pure y)) v = (Inl e, u)"
    using assms by (auto simp: settle_body_def of_outcome_def Let_def seq_def [of "ask_trace _"] ask_trace_def)
  then show ?thesis
    using complete_reserved_Inl [of ow x "w_ledger v"]
    by (cases "complete_reserved ow x (w_ledger v)"; cases "terminal_shape x")
      (auto simp: model_ok_def seq_Inl on_ledger_def of_result_def throw_def pure_def split: sum.splits)
qed

lemma settle_result:
  assumes "settle_run ow (out, v) = (res, z)" and "owned ow (w_ledger v) = Inr rec"
  shows "\<exists>rec'. dict_get (w_ledger z) (rr_run_id (rs_run ow)) = Some rec' \<and> settled rec res rec'"
    and "res = Inr x \<Longrightarrow> terminal_shape x \<and> (\<exists>y fs. out = Inr y \<and> x = y\<lparr>bw_selection_failures := fs\<rparr>)"
proof -
  have st: "settle_run ow (out, v) = handle (settle_body ow out) (\<lambda>e. seq (on_ledger (abandon ow)) (\<lambda>_. throw e)) v"
    by (simp add: settle_run_def settle_body_def)
  have fails: "res = Inl e \<and> w_ledger z = put_owned ow (rec\<lparr>lr_quarantined := True, lr_owner := None\<rparr>) (w_ledger v)"
    if "settle_body ow out v = (Inl e, u)" for e u
    using assms that st settle_body_Inl [OF that] abandon_owned [of ow "w_ledger v" rec]
    by (auto simp: handle_def seq_def on_ledger_def of_result_def pure_def throw_def)
  have wins: "res = Inr y \<and> z = u" if "settle_body ow out v = (Inr y, u)" for y u
    using assms(1) that st by (auto simp: handle_def)
  show "\<exists>rec'. dict_get (w_ledger z) (rr_run_id (rs_run ow)) = Some rec' \<and> settled rec res rec'"
  proof (cases "fst (settle_body ow out v)")
    case (Inl e)
    then have "settle_body ow out v = (Inl e, snd (settle_body ow out v))" by (simp add: prod_eq_iff)
    from fails [OF this] show ?thesis using assms(2) by (simp add: put_owned_def settled_def owned_Inr)
  next
    case (Inr y)
    then have b: "settle_body ow out v = (Inr y, snd (settle_body ow out v))" by (simp add: prod_eq_iff)
    obtain l where "complete_reserved ow y (w_ledger v) = (Inr (), w_ledger z)" "res = Inr y"
      using settle_body_Inr [OF b] wins [OF b] by auto
    then show ?thesis
      by (elim complete_reserved_Inr) (use assms(2) in \<open>auto simp: settled_def\<close>)
  qed
  show "terminal_shape x \<and> (\<exists>y fs. out = Inr y \<and> x = y\<lparr>bw_selection_failures := fs\<rparr>)" if "res = Inr x"
  proof (cases "settle_body ow out v")
    case (Pair r u)
    then show ?thesis
      using fails wins settle_body_Inr [of ow out v x u] that by (cases r) auto
  qed
qed

section \<open>Guarantees of a bounded run\<close>

text \<open>The steps and retries that the ledger grants the run when it is reserved.\<close>

definition run_allowance :: "'w runner \<Rightarrow> uuid \<Rightarrow> run_reference \<Rightarrow> 'w world \<Rightarrow> nat" where
  "run_allowance rn token r w = (case reserve_run rn token r w of
       (Inr (Reserved ow), v) \<Rightarrow> (case remaining ow (w_ledger v) of Inr b \<Rightarrow> allowance b | Inl _ \<Rightarrow> 0)
     | _ \<Rightarrow> 0)"

text \<open>
  C7.  A bounded run always stops: for every selector, tool, snapshot provider and clock it returns or raises
  within one turn more than the steps and retries left, and more turns would not change the outcome.
\<close>

theorem bounded_run_returns:
  "\<exists>out. \<forall>k. run_bounded (Suc (run_allowance rn token r w) + k) rn token r evidence w = Some out"
proof (cases "reserve_run rn token r w")
  case (Pair a v)
  show ?thesis
  proof (cases "\<exists>ow. a = Inr (Reserved ow)")
    case True
    then obtain ow where ow: "reserve_run rn token r w = (Inr (Reserved ow), v)" using Pair by blast
    let ?n = "Suc (run_allowance rn token r w)"
    have "run_reserved ?n rn ow evidence v \<noteq> None"
      by (rule run_reserved_returns) (simp add: run_allowance_def ow)
    then obtain out where "run_reserved ?n rn ow evidence v = Some out" by blast
    then have "run_bounded (?n + k) rn token r evidence w = Some (settle_run ow out)" for k
      using run_reserved_more_fuel [of ?n rn ow evidence v out k] ow by (simp add: run_bounded_def)
    then show ?thesis by blast
  next
    case False
    show ?thesis
    proof (cases a)
      case (Inr b)
      then show ?thesis using False Pair by (cases b) (auto simp: run_bounded_def)
    qed (use Pair in \<open>simp add: run_bounded_def\<close>)
  qed
qed

text \<open>
  C9.  A bounded run leaves no reservation behind: however it ends, its record has no owner; if it returned a
  result, exactly this result is stored with its budget, and a quarantined run has not stored success; if it
  raised, the run is quarantined without a result, so nothing can take it up again.
\<close>

theorem bounded_run_settles:
  assumes "reserve_run rn token r w = (Inr (Reserved ow), u)" and "run_bounded n rn token r evidence w = Some (out, v)"
  shows "\<exists>before after. owned ow (w_ledger u) = Inr before \<and> dict_get (w_ledger v) (rr_run_id r) = Some after
    \<and> settled before out after"
proof -
  obtain rec where rec: "ow = \<lparr>rs_run = r, rs_token = token\<rparr>" "owned ow (w_ledger u) = Inr rec"
    using reserve_run_owned [OF assms(1)] .
  obtain o' x where run: "run_reserved n rn ow evidence u = Some (o', x)" and st: "settle_run ow (o', x) = (out, v)"
    using assms by (auto simp: run_bounded_def)
  obtain rec' where rec': "owned ow (w_ledger x) = Inr rec'" "record_later rec rec'"
    using keeping_run_reserved [OF run] rec(2) unfolding keeps_reservation_def by blast
  obtain after where "dict_get (w_ledger v) (rr_run_id (rs_run ow)) = Some after" "settled rec' out after"
    using settle_result(1) [OF st rec'(1)] by blast
  moreover have "settled rec out after" if "settled rec' out after"
    using that rec'(2) by (auto simp: settled_def record_later_def intro: decreased_trans)
  ultimately show ?thesis using rec by auto
qed

text \<open>
  C35.  A bounded run reports only what happened: its result is a valid result of this run, it says verified or
  waiting only if the snapshot provider reported that state for the run, a verified result does not end in a
  failed decision, and the decisions it adds have run at most as many tools as the budget had steps.
\<close>

theorem bounded_result_is_honest:
  assumes "reserve_run rn token r w = (Inr (Reserved ow), u)" and "run_bounded n rn token r evidence w = Some (Inr x, v)"
    and "remaining ow (w_ledger u) = Inr b"
  shows "terminal_shape x \<and> bw_run x = r
    \<and> (bw_termination x = T_VERIFIED \<longrightarrow> observed rn r W_VERIFIED)
    \<and> (bw_termination x = T_WAITING_FOR_HUMAN \<longrightarrow> observed rn r W_WAITING_FOR_HUMAN)
    \<and> (bw_termination x = T_VERIFIED \<and> bw_events x \<noteq> [] \<longrightarrow> de_disposition (last (bw_events x)) = Executed)
    \<and> (\<exists>new. bw_events x = prior_events r u @ new
          \<and> tool_runs new + steps_remaining (bw_final_budget x) \<le> steps_remaining b)"
proof -
  obtain rec where rec: "ow = \<lparr>rs_run = r, rs_token = token\<rparr>" "owned ow (w_ledger u) = Inr rec"
    using reserve_run_owned [OF assms(1)] .
  obtain o' y where run: "run_reserved n rn ow evidence u = Some (o', y)" and st: "settle_run ow (o', y) = (Inr x, v)"
    using assms(1,2) by (auto simp: run_bounded_def)
  obtain rec' where rec': "owned ow (w_ledger y) = Inr rec'"
    using keeping_run_reserved [OF run] rec(2) unfolding keeps_reservation_def by blast
  obtain z fs where z: "terminal_shape x" "o' = Inr z" "x = z\<lparr>bw_selection_failures := fs\<rparr>"
    using settle_result(2) [OF st rec' refl] by blast
  have "run_reserved n rn ow evidence u = Some (Inr z, y)" using run z(2) by simp
  then have "result_ok rn r (prior_events r u) b z"
    by (rule run_reserved_result) (use assms(3) rec(1) in simp)
  then show ?thesis using z(1,3) by (auto simp: result_ok_def accounted_def terminal_shape_def)
qed

section \<open>Tools see admitted proposals only\<close>

text \<open>
  A proposal that some snapshot of the run, with the registry derived from it, admits for execution, and whose
  document, if it reads one, is current and cited.
\<close>

definition tool_admitted :: "'w services \<Rightarrow> reservation \<Rightarrow> source_citation list \<Rightarrow> action_proposal \<Rightarrow> bool" where
  "tool_admitted sv ow evidence p =
     ((\<exists>s allowed. sn_run s = rs_run ow \<and> derive (sv_digests sv) (sv_policy sv) s = Inr allowed
        \<and> admit_action (sv_digests sv) p (sv_selector_actor sv) (sv_executor_actor sv) s allowed = Inr ())
      \<and> (source_action (arguments_kind (ap_arguments p)) \<longrightarrow> source_is_current sv (ap_arguments p) evidence))"

text \<open>The same services with another tool for the proposals that are not admitted.\<close>

definition guarded :: "'w services \<Rightarrow> reservation \<Rightarrow> source_citation list \<Rightarrow>
    (action_proposal \<Rightarrow> 'w \<Rightarrow> (raised + tool_receipt) \<times> 'w) \<Rightarrow> 'w services" where
  "guarded sv ow evidence other = sv\<lparr>sv_execute := (\<lambda>p. if tool_admitted sv ow evidence p then sv_execute sv p else other p)\<rparr>"

lemma guarded_simps [simp]:
  "sv_digests (guarded sv ow ev g) = sv_digests sv" "sv_policy (guarded sv ow ev g) = sv_policy sv"
  "sv_selector_actor (guarded sv ow ev g) = sv_selector_actor sv" "sv_executor_actor (guarded sv ow ev g) = sv_executor_actor sv"
  "sv_registry (guarded sv ow ev g) = sv_registry sv" "sv_snapshot (guarded sv ow ev g) = sv_snapshot sv"
  "sv_select (guarded sv ow ev g) = sv_select sv" "sv_event_id (guarded sv ow ev g) = sv_event_id sv"
  "sv_clock (guarded sv ow ev g) = sv_clock sv" "sv_float (guarded sv ow ev g) = sv_float sv"
  by (simp_all add: guarded_def)

lemma guarded_execute: "tool_admitted sv ow ev p \<Longrightarrow> sv_execute (guarded sv ow ev g) p = sv_execute sv p"
  by (simp add: guarded_def)

lemma guarded_parts [simp]:
  "read_clock (guarded sv ow ev g) = read_clock sv" "fresh_event_id (guarded sv ow ev g) = fresh_event_id sv"
  "time_is_up (guarded sv ow ev g) = time_is_up sv" "consume (guarded sv ow ev g) = consume sv"
  "current_snapshot (guarded sv ow ev g) = current_snapshot sv" "initial_snapshot (guarded sv ow ev g) = initial_snapshot sv"
  "source_is_current (guarded sv ow ev g) = source_is_current sv"
  "receipt_evidence_is_current (guarded sv ow ev g) = receipt_evidence_is_current sv"
  "make_decision (guarded sv ow ev g) = make_decision sv" "reject_with (guarded sv ow ev g) = reject_with sv"
  "select_proposal (guarded sv ow ev g) = select_proposal sv" "admission (guarded sv ow ev g) = admission sv"
proof -
  let ?g = "guarded sv ow ev g"
  show clock: "read_clock ?g = read_clock sv" by (unfold read_clock_def guarded_simps, rule refl)
  show ids: "fresh_event_id ?g = fresh_event_id sv" by (unfold fresh_event_id_def guarded_simps, rule refl)
  have gone: "elapsed_seconds ?g = elapsed_seconds sv" by (intro ext, unfold elapsed_seconds_def guarded_simps, rule refl)
  have left: "seconds_left ?g = seconds_left sv" by (intro ext, unfold seconds_left_def gone guarded_simps, rule refl)
  show up: "time_is_up ?g = time_is_up sv" by (intro ext, unfold time_is_up_def clock left, rule refl)
  show con: "consume ?g = consume sv" by (intro ext, unfold consume_def clock gone guarded_simps, rule refl)
  show cur: "current_snapshot ?g = current_snapshot sv" by (intro ext, unfold current_snapshot_def guarded_simps, rule refl)
  show "initial_snapshot ?g = initial_snapshot sv" by (intro ext, unfold initial_snapshot_def cur guarded_simps, rule refl)
  show src: "source_is_current ?g = source_is_current sv" by (intro ext, unfold source_is_current_def guarded_simps, rule refl)
  show "receipt_evidence_is_current ?g = receipt_evidence_is_current sv"
    by (intro ext, unfold receipt_evidence_is_current_def guarded_simps, rule refl)
  show "make_decision ?g = make_decision sv" by (intro ext, unfold make_decision_def decision_of_def ids guarded_simps, rule refl)
  show "reject_with ?g = reject_with sv" by (intro ext, unfold reject_with_def rejection_def con ids guarded_simps, rule refl)
  have rsf: "raise_selection_failure ?g = (raise_selection_failure sv :: _ \<Rightarrow> _ \<Rightarrow> _ \<Rightarrow> _ \<Rightarrow> _ \<Rightarrow> ('a, action_proposal) io)"
    by (intro ext, unfold raise_selection_failure_def selection_failure_of_def con ids guarded_simps, rule refl)
  show "select_proposal ?g = select_proposal sv" by (intro ext, unfold select_proposal_def up rsf guarded_simps, rule refl)
  show "admission ?g = admission sv" by (intro ext, unfold admission_def up src guarded_simps, rule refl)
qed

lemma admission_None:
  assumes "admission sv p ev b st s al w = (Inr None, v)"
  shows "admit_action (sv_digests sv) p (sv_selector_actor sv) (sv_executor_actor sv) s al = Inr ()
    \<and> (source_action (arguments_kind (ap_arguments p)) \<longrightarrow> source_is_current sv (ap_arguments p) ev)"
proof -
  have no: "(case e of Raised (Service_Fault c) \<Rightarrow> pure (Some c) | _ \<Rightarrow> throw e) u \<noteq> (Inr None, v)" for e u
    by (cases e) (auto split: fault.splits)
  show ?thesis using assms unfolding admission_def handle_Inr by (simp add: no seq_Inr) blast
qed

lemma current_snapshot_run: "current_snapshot sv r b w = (Inr s, v) \<Longrightarrow> sn_run s = r"
  by (auto simp: current_snapshot_def seq_Inr split: option.splits)

lemma guarded_act_on_admission:
  assumes "refused = None \<Longrightarrow> tool_admitted sv ow ev p"
  shows "act_on_admission (guarded sv ow ev g) ow p s al rc ps st refused = act_on_admission sv ow p s al rc ps st refused"
proof (cases refused)
  case None
  then have "run_tool (guarded sv ow ev g) ow p b st = run_tool sv ow p b st" for b st
    using assms None by (unfold run_tool_def guarded_parts) (simp add: guarded_execute)
  then have ex: "execute_admitted (guarded sv ow ev g) ow p a s rs ps st = execute_admitted sv ow p a s rs ps st" for a rs
    unfolding execute_admitted_def guarded_parts by simp
  show ?thesis unfolding act_on_admission_def guarded_parts ex ..
qed (simp add: act_on_admission_def)

text \<open>
  C8.  Nothing unadmitted reaches a tool: a decision behaves exactly as if every tool call with a proposal
  that was not admitted against a snapshot of the run, or whose document is not current and cited, did
  anything else whatsoever; so no such call is ever made.
\<close>

theorem unadmitted_proposals_never_reach_a_tool:
  "decide (guarded sv ow evidence other) ow evidence b retry_charge initial w = decide sv ow evidence b retry_charge initial w"
proof -
  have "act_on_admission (guarded sv ow evidence other) ow p s al rc ps st refused v = act_on_admission sv ow p s al rc ps st refused v"
    if "current_snapshot sv (rs_run ow) c x = (Inr now, y)" "derive (sv_digests sv) (sv_policy sv) now = Inr al"
      "admission sv p evidence d st now al z = (Inr refused, v)" for p s al rc ps st refused v c x now y d z
    using guarded_act_on_admission [of refused sv ow evidence p other s al rc ps st] admission_None [of sv p evidence d st now al z v]
      current_snapshot_run [OF that(1)] that(2,3) unfolding tool_admitted_def by metis
  then show ?thesis
    unfolding decide_def Let_def guarded_simps guarded_parts
    by (intro seq_cong) (auto dest: io_Inr(2) [THEN iffD1])
qed

section \<open>A run that finds its material verified\<close>

definition wf_rule :: rule_reference where
  "wf_rule = \<lparr>ru_rule_set_id = ''rules'', ru_version = ''1'',
     ru_context = \<lparr>cx_scope = Regional, cx_target_id = ''t'', cx_comparable_id = ''c''\<rparr>, ru_content_hash = replicate 64 CHR ''0''\<rparr>"

definition wf_verified :: workflow_snapshot where
  "wf_verified = wf_snapshot\<lparr>sn_state := W_VERIFIED,
     sn_revision := (sn_revision wf_snapshot)\<lparr>mr_rules := [wf_rule], mr_canonicalization := Review_Material_Json\<rparr>\<rparr>"

definition wf_services :: "unit services" where
  "wf_services = \<lparr>sv_digests = wf_digests, sv_policy = wf_policy, sv_selector_actor = wf_selector, sv_executor_actor = preflight_actor,
     sv_registry = None, sv_snapshot = (\<lambda>_ x. (Inr wf_verified, x)), sv_select = (\<lambda>_ x. (Inl Cancelled, x)),
     sv_execute = (\<lambda>_ x. (Inl Cancelled, x)), sv_event_id = (\<lambda>x. (1, x)), sv_clock = (\<lambda>x. (0, x)), sv_float = id\<rparr>"

definition wf_runner :: "unit runner" where
  "wf_runner = \<lparr>rn_services = wf_services, rn_retry_backoff_ms = 100, rn_fingerprint = (\<lambda>_. []), rn_sleep = (\<lambda>_ x. x)\<rparr>"

definition wf_world :: "unit world" where
  "wf_world = \<lparr>w_ledger = [], w_trace = \<lparr>dt_events = [], dt_failures = []\<rparr>, w_rest = ()\<rparr>"

definition wf_reserved :: "unit world" where
  "wf_reserved = wf_world\<lparr>w_ledger := [(7, (new_record wf_run wf_budget)\<lparr>lr_owner := Some 5\<rparr>)]\<rparr>"

definition wf_settled :: "unit world" where
  "wf_settled = wf_world\<lparr>w_ledger := [(7, (new_record wf_run wf_budget)\<lparr>lr_result := Some wf_result\<rparr>)]\<rparr>"

lemma wf_verified_valid: "snapshot_valid wf_digests wf_verified"
  by (simp add: wf_verified_def wf_rule_def wf_defs exact_state_def identities_def wf_digest_patterns run_valid_def run_reference_valid_def
      revision_reference_valid_def document_reference_valid_def opaque_id_def is_alnum_def budget_valid_def
      rule_reference_valid_def context_valid_def)

lemma wf_verified_fields: "sn_budget wf_verified = wf_budget" "sn_state wf_verified = W_VERIFIED" "sn_run wf_verified = wf_run"
  "wf_verified\<lparr>sn_budget := wf_budget\<rparr> = wf_verified"
  by (simp_all add: wf_verified_def wf_snapshot_def)

lemma wf_provider: "runner_snapshot wf_runner wf_run None v = (Inr wf_verified, v)"
  "runner_snapshot wf_runner wf_run (Some wf_budget) v = (Inr wf_verified, v)"
  using wf_verified_valid
  by (simp_all add: runner_snapshot_def wf_runner_def wf_services_def external_def seq_def check_def pure_def wf_verified_fields)

lemma wf_reserve: "reserve_run wf_runner 5 wf_run wf_world = (Inr (Reserved \<lparr>rs_run = wf_run, rs_token = 5\<rparr>), wf_reserved)"
  by (simp add: reserve_run_def seq_def wf_provider pure_def handle_def on_ledger_def wf_verified_fields wf_acquire wf_world_def
      of_result_def wf_reserved_def)

lemma wf_own: "owned \<lparr>rs_run = wf_run, rs_token = 5\<rparr> (w_ledger wf_reserved) = Inr ((new_record wf_run wf_budget)\<lparr>lr_owner := Some 5\<rparr>)"
  by (simp add: owned_Inr wf_reserved_def new_record_def wf_run_def)

lemma wf_run_bounded: "run_bounded 1 wf_runner 5 wf_run [] wf_world = Some (Inr wf_result, wf_settled)"
proof -
  let ?ow = "\<lparr>rs_run = wf_run, rs_token = 5\<rparr>"
  let ?st = "\<lparr>st_budget = wf_budget, st_snapshot = wf_verified, st_events = [], st_seen = [], st_selection_retries = 0, st_retry_charge = 0\<rparr>"
  have trace: "w_trace wf_reserved = \<lparr>dt_events = [], dt_failures = []\<rparr>" by (simp add: wf_reserved_def wf_world_def)
  have s: "start_run wf_runner ?ow wf_reserved = (Inr (Continue ?st), wf_reserved)"
    using wf_own by (simp add: start_run_def Let_def seq_def ask_ledger_def remaining_def of_result_def pure_def wf_provider
        ask_trace_def new_record_def seen_failures_def dict_list_def trace List.map_filter_def)
  have same: "wf_reserved\<lparr>w_ledger := [(7, (new_record wf_run wf_budget)\<lparr>lr_owner := Some 5\<rparr>)]\<rparr> = wf_reserved"
    by (simp add: wf_reserved_def)
  have "checkpoint ?ow wf_budget (w_ledger wf_reserved) = (Inr (), w_ledger wf_reserved)"
    using wf_own wf_valid(2) by (simp add: checkpoint_def update_owned_def new_record_def put_owned_def)
      (simp add: wf_reserved_def new_record_def wf_run_def)
  then have c: "on_ledger (checkpoint ?ow wf_budget) wf_reserved = (Inr (), wf_reserved)"
    by (simp add: on_ledger_def of_result_def pure_def)
  have t: "turn wf_runner ?ow [] ?st wf_reserved = (Inr (Done wf_result), wf_reserved)"
    using wf_valid(3) by (simp add: turn_def Let_def seq_def c terminal_state_def wf_verified_fields done_turn_def finish_run_def
        bounded_result_def model_ok_def pure_def wf_result_def)
  have r: "run_reserved 1 wf_runner ?ow [] wf_reserved = Some (Inr wf_result, wf_reserved)"
    by (simp add: run_reserved_def s t)
  have k: "complete_reserved ?ow wf_result (w_ledger wf_reserved) = (Inr (), w_ledger wf_settled)"
    using wf_own wf_valid(3) by (simp add: complete_reserved_def update_owned_def put_owned_def new_record_def wf_result_def)
      (simp add: wf_reserved_def wf_settled_def new_record_def wf_run_def wf_result_def)
  have f: "wf_result\<lparr>bw_selection_failures := []\<rparr> = wf_result" by (simp add: wf_result_def)
  have z: "wf_reserved\<lparr>w_ledger := w_ledger wf_settled\<rparr> = wf_settled" by (simp add: wf_reserved_def wf_settled_def)
  have "settle_run ?ow (Inr wf_result, wf_reserved) = (Inr wf_result, wf_settled)"
    using wf_valid(3) k f z
    by (simp add: settle_run_def of_outcome_def handle_def seq_def ask_trace_def model_ok_def pure_def on_ledger_def of_result_def Let_def
        trace dict_list_def)
  then show ?thesis using r wf_reserve by (simp add: run_bounded_def)
qed

theorem bounded_run_settles_witness:
  "\<exists>before after. owned \<lparr>rs_run = wf_run, rs_token = 5\<rparr> (w_ledger wf_reserved) = Inr before
     \<and> dict_get (w_ledger wf_settled) 7 = Some after \<and> settled before (Inr wf_result) after"
  using bounded_run_settles [OF wf_reserve wf_run_bounded] by (simp add: wf_run_def)

theorem bounded_result_is_honest_witness:
  "terminal_shape wf_result \<and> observed wf_runner wf_run W_VERIFIED"
proof -
  have "remaining \<lparr>rs_run = wf_run, rs_token = 5\<rparr> (w_ledger wf_reserved) = Inr wf_budget"
    by (simp add: remaining_def wf_own new_record_def)
  from bounded_result_is_honest [OF wf_reserve wf_run_bounded this] show ?thesis by (simp add: wf_result_def)
qed

end
