(* ===== verification/Task_Contracts.thy ===== *)
theory Task_Contracts
  imports Workflow_Contracts
begin

text \<open>
  The human-task contracts: tasks, responses, authorizations and response events of
  \<open>domain/service_contracts.py\<close>, the reviewer's views of \<open>domain/task_contracts.py\<close>, and the admission of a
  response (\<open>admit_response\<close>, \<open>response_digest\<close> of \<open>application/service_guards.py\<close>).  Validators are boolean
  functions; \<open>content_digest\<close> is an argument.
\<close>

section \<open>Tasks\<close>

datatype task_kind = T_FACT | T_CORRECTION | T_RULES | T_MATERIAL | T_PUBLICATION | T_EVIDENCE

datatype response_action = R_CONFIRM | R_CORRECT | R_REJECT | R_APPROVE | R_AUTHORIZE_PUBLICATION | R_SUPPLY_EVIDENCE

datatype task_state = Task_Open | Task_Answered | Task_Superseded

record fact_side_reference =
  fd_context :: comparison_context
  fd_factor_id :: string
  fd_side :: side
  fd_input_digest :: digest

definition side_reference_valid :: "fact_side_reference \<Rightarrow> bool" where
  "side_reference_valid r = (context_valid (fd_context r) \<and> fd_factor_id r \<noteq> [] \<and> digest_pattern (fd_input_digest r))"

record human_task =
  ht_task_id :: uuid
  ht_run :: run_reference
  ht_version :: int
  ht_kind :: task_kind
  ht_required_permission :: permission
  ht_state :: task_state
  ht_side :: "fact_side_reference option"
  ht_result_digest :: "digest option"
  ht_question :: string
  ht_evidence :: "source_citation list"
  ht_finding_ids :: "string list"
  ht_allowed_responses :: "response_action list"
  ht_reason_code :: "string option"
  ht_affected_subject_ids :: "string list"

fun task_permission :: "task_kind \<Rightarrow> permission" where
  "task_permission T_FACT = P_CONFIRM"
| "task_permission T_CORRECTION = P_CORRECT"
| "task_permission T_RULES = P_APPROVE_RULES"
| "task_permission T_MATERIAL = P_APPROVE_MATERIAL"
| "task_permission T_PUBLICATION = P_PUBLISH"
| "task_permission T_EVIDENCE = P_CORRECT"

fun task_action :: "task_kind \<Rightarrow> response_action" where
  "task_action T_FACT = R_CONFIRM"
| "task_action T_CORRECTION = R_CORRECT"
| "task_action T_RULES = R_APPROVE"
| "task_action T_MATERIAL = R_APPROVE"
| "task_action T_PUBLICATION = R_AUTHORIZE_PUBLICATION"
| "task_action T_EVIDENCE = R_SUPPLY_EVIDENCE"

definition task_fields_valid :: "human_task \<Rightarrow> bool" where
  "task_fields_valid t =
     (run_valid (ht_run t) \<and> 1 \<le> ht_version t \<and> option_ok side_reference_valid (ht_side t)
      \<and> option_ok digest_pattern (ht_result_digest t) \<and> ht_question t \<noteq> [] \<and> list_all citation_valid (ht_evidence t)
      \<and> ht_finding_ids t \<noteq> [] \<and> ht_allowed_responses t \<noteq> [] \<and> option_ok opaque_id (ht_reason_code t)
      \<and> list_all opaque_id (ht_affected_subject_ids t))"

definition task_authority :: "human_task \<Rightarrow> bool" where
  "task_authority t =
     (task_fields_valid t
      \<and> ht_required_permission t = task_permission (ht_kind t)
      \<and> set (ht_allowed_responses t) \<subseteq> {task_action (ht_kind t), R_REJECT}
      \<and> (ht_kind t = T_PUBLICATION) = (ht_result_digest t \<noteq> None)
      \<and> \<not> (ht_kind t = T_FACT \<and> ht_side t = None)
      \<and> distinct (ht_finding_ids t) \<and> distinct (ht_allowed_responses t) \<and> distinct (ht_affected_subject_ids t))"

section \<open>Responses\<close>

record human_response =
  hr_task_id :: uuid
  hr_expected_version :: int
  hr_revision :: revision_reference
  hr_side_digest :: "digest option"
  hr_result_digest :: "digest option"
  hr_idempotency_key :: string
  hr_action :: response_action
  hr_correction :: "value_revision option"

definition action_payload :: "human_response \<Rightarrow> bool" where
  "action_payload r =
     (1 \<le> hr_expected_version r \<and> revision_reference_valid (hr_revision r)
      \<and> option_ok digest_pattern (hr_side_digest r) \<and> option_ok digest_pattern (hr_result_digest r)
      \<and> opaque_id (hr_idempotency_key r) \<and> option_ok correction_actor (hr_correction r)
      \<and> (hr_action r \<in> {R_CORRECT, R_SUPPLY_EVIDENCE}) = (hr_correction r \<noteq> None)
      \<and> option_ok (\<lambda>c. vr_corrected c = None \<and> vr_corrected_by c = None \<and> vr_proposed c \<noteq> None) (hr_correction r))"

record accepted_response =
  ar_command :: human_response
  ar_actor :: actor_reference

datatype authorization_purpose = For_Rules | For_Material | For_Publication

record authorization_record =
  au_authorization_id :: uuid
  au_purpose :: authorization_purpose
  au_revision :: material_revision
  au_actor :: actor_reference
  au_result_digest :: "digest option"

definition publication_binding :: "authorization_record \<Rightarrow> bool" where
  "publication_binding a =
     (actor_reference_valid (au_actor a) \<and> option_ok digest_pattern (au_result_digest a)
      \<and> actor_kind (au_actor a) = A_human \<and> (au_purpose a = For_Publication) = (au_result_digest a \<noteq> None))"

record human_response_result =
  hx_event_id :: uuid
  hx_accepted :: accepted_response
  hx_task :: human_task
  hx_revision :: material_revision
  hx_next_run :: "run_reference option"
  hx_authorization :: "authorization_record option"

fun task_purpose :: "task_kind \<Rightarrow> authorization_purpose option" where
  "task_purpose T_RULES = Some For_Rules"
| "task_purpose T_MATERIAL = Some For_Material"
| "task_purpose T_PUBLICATION = Some For_Publication"
| "task_purpose _ = None"

text \<open>\<open>HumanResponseResult.response_binding\<close>, without the validity of the parts it holds.\<close>

definition response_binding :: "human_response_result \<Rightarrow> bool" where
  "response_binding x =
     (let command = ar_command (hx_accepted x); task = hx_task x; revision = mr_reference (hx_revision x);
          accepted = (hr_action command \<noteq> R_REJECT)
      in actor_kind (ar_actor (hx_accepted x)) = A_human \<and> ht_task_id task = hr_task_id command
         \<and> ht_state task = Task_Answered \<and> ht_version task = hr_expected_version command + 1
         \<and> rr_revision (ht_run task) = hr_revision command
         \<and> option_ok (\<lambda>r. rr_revision r = revision) (hx_next_run x)
         \<and> option_ok (\<lambda>a. au_actor a = ar_actor (hx_accepted x) \<and> au_revision a = hx_revision x) (hx_authorization x)
         \<and> (accepted \<or> hx_authorization x = None \<and> hx_next_run x = None \<and> revision = hr_revision command)
         \<and> (\<not> accepted
            \<or> (ht_kind task \<in> {T_RULES, T_MATERIAL, T_PUBLICATION}) = (hx_authorization x \<noteq> None)
              \<and> (ht_kind task = T_PUBLICATION) = (hx_next_run x = None)
              \<and> (if ht_kind task \<in> {T_FACT, T_CORRECTION, T_EVIDENCE, T_RULES}
                 then mr_parent (hx_revision x) = Some (hr_revision command) \<and> revision \<noteq> hr_revision command
                 else revision = hr_revision command))
         \<and> option_ok (\<lambda>a. Some (au_purpose a) = task_purpose (ht_kind task)
              \<and> hr_action command \<in> {R_APPROVE, R_AUTHORIZE_PUBLICATION}
              \<and> au_result_digest a = hr_result_digest command) (hx_authorization x))"

section \<open>Admission\<close>

text \<open>\<open>admit_response\<close>: permission first, then the human actor, the exact open task and its allowed actions.\<close>

definition task_current :: "human_task \<Rightarrow> human_response \<Rightarrow> revision_reference \<Rightarrow> bool" where
  "task_current t r current =
     (\<not> (ht_state t \<noteq> Task_Open \<or> hr_expected_version r \<noteq> ht_version t \<or> hr_revision r \<noteq> current
         \<or> rr_revision (ht_run t) \<noteq> current \<or> hr_result_digest r \<noteq> ht_result_digest t
         \<or> hr_side_digest r \<noteq> map_option fd_input_digest (ht_side t)))"

definition admit_response :: "human_task \<Rightarrow> human_response \<Rightarrow> principal \<Rightarrow> revision_reference \<Rightarrow> accepted_response result" where
  "admit_response t r p current =
     bind_result (ensure (task_authority t \<and> action_payload r) Value_Error) (\<lambda>_.
     bind_result (principal_require p (rev_case_id current) (ht_required_permission t)) (\<lambda>_.
     bind_result (ensure (actor_kind (pr_actor p) = A_human) (Service_Fault UNAUTHORIZED)) (\<lambda>_.
     bind_result (ensure (hr_task_id r = ht_task_id t) (Service_Fault NOT_FOUND)) (\<lambda>_.
     bind_result (ensure (task_current t r current) (Service_Fault CONFLICT)) (\<lambda>_.
     bind_result (ensure (hr_action r \<in> set (ht_allowed_responses t)) (Service_Fault UNAUTHORIZED)) (\<lambda>_.
       Inr \<lparr>ar_command = r, ar_actor = pr_actor p\<rparr>))))))"

lemma admit_response_Inr:
  "admit_response t r p current = Inr a \<longleftrightarrow>
     a = \<lparr>ar_command = r, ar_actor = pr_actor p\<rparr> \<and> task_authority t \<and> action_payload r
     \<and> rev_case_id current \<in> set (pr_case_ids p) \<and> ht_required_permission t \<in> set (pr_permissions p)
     \<and> actor_kind (pr_actor p) = A_human \<and> hr_task_id r = ht_task_id t \<and> task_current t r current
     \<and> hr_action r \<in> set (ht_allowed_responses t)"
  by (auto simp: admit_response_def)

definition response_digest :: "(human_response \<Rightarrow> digest) \<Rightarrow> human_response \<Rightarrow> digest" where
  "response_digest content_digest r = content_digest (r\<lparr>hr_idempotency_key := ''canonical-payload''\<rparr>)"

section \<open>Views and receipts\<close>

record job_reference =
  jf_case_id :: string
  jf_job_id :: uuid

record task_view =
  tv_task :: human_task
  tv_subject_id :: "string option"

definition named_side :: "task_view \<Rightarrow> bool" where
  "named_side v = ((ht_side (tv_task v) = None) = (tv_subject_id v = None))"

datatype value_type = Type_Number | Type_Text | Type_Category | Type_Boolean

fun content_type :: "value_content \<Rightarrow> value_type" where
  "content_type (Number_Value _) = Type_Number"
| "content_type (Text_Value _) = Type_Text"
| "content_type (Category_Value _) = Type_Category"
| "content_type (Boolean_Value _) = Type_Boolean"

record task_subject_view =
  tj_task_id :: uuid
  tj_revision :: revision_reference
  tj_subject_id :: string
  tj_observation :: public_value
  tj_required_type :: "value_type option"
  tj_required_unit :: "string option"
  tj_unit_required :: bool

record task_list_view =
  tl_job :: job_reference
  tl_tasks :: "task_view list"

definition one_case :: "task_list_view \<Rightarrow> bool" where
  "one_case v = (list_all (\<lambda>x. rev_case_id (rr_revision (ht_run (tv_task x))) = jf_case_id (tl_job v)) (tl_tasks v)
     \<and> distinct (map (\<lambda>x. ht_task_id (tv_task x)) (tl_tasks v)))"

record revision_list_view =
  rl_job :: job_reference
  rl_revisions :: "material_revision list"

text \<open>Each revision's parent is the one before it.\<close>

fun parent_linked :: "material_revision list \<Rightarrow> bool" where
  "parent_linked (p # c # rest) = (mr_parent c = Some (mr_reference p) \<and> parent_linked (c # rest))"
| "parent_linked _ = True"

definition linked_chain :: "revision_list_view \<Rightarrow> bool" where
  "linked_chain v = (list_all (\<lambda>r. rev_case_id (mr_reference r) = jf_case_id (rl_job v)) (rl_revisions v)
     \<and> parent_linked (rl_revisions v))"

lemma parent_linked_append: "parent_linked (xs @ [y]) \<longleftrightarrow> parent_linked xs \<and> (xs \<noteq> [] \<longrightarrow> mr_parent y = Some (mr_reference (last xs)))"
  by (induction xs rule: parent_linked.induct) auto

record response_receipt =
  rt_task_id :: uuid
  rt_consumed_version :: int
  rt_action :: response_action
  rt_job :: job_reference
  rt_job_status :: job_status
  rt_revision :: "revision_reference option"
  rt_resumed_run :: "run_reference option"
  rt_superseded_task_ids :: "uuid list"

definition committed_effect :: "response_receipt \<Rightarrow> bool" where
  "committed_effect r =
     (1 \<le> rt_consumed_version r \<and> opaque_id (jf_case_id (rt_job r)) \<and> option_ok revision_reference_valid (rt_revision r)
      \<and> option_ok run_valid (rt_resumed_run r)
      \<and> (rt_revision r = None) = (rt_resumed_run r = None)
      \<and> (case rt_revision r of None \<Rightarrow> True
         | Some v \<Rightarrow> rev_case_id v = jf_case_id (rt_job r)
             \<and> (case rt_resumed_run r of None \<Rightarrow> False | Some n \<Rightarrow> rr_revision n = v \<and> rr_attempt_id n = None))
      \<and> \<not> (rt_action r = R_REJECT \<and> rt_revision r \<noteq> None)
      \<and> distinct (rt_superseded_task_ids r) \<and> rt_task_id r \<notin> set (rt_superseded_task_ids r))"

end
