(* ===== verification/Revisions.thy ===== *)
theory Revisions
  imports Task_Contracts
begin

text \<open>
  \<open>application/revisions.py\<close>: immutable snapshots of review material with their revision record.  Hashes,
  case folding and the JSON text of a context are arguments, collected in \<open>revision_env\<close>.  A stored JSON text
  is the model it serializes.
\<close>

section \<open>Snapshots\<close>

record revision_env =
  re_fold_text :: "string \<Rightarrow> string"
  re_context_key :: "comparison_context \<Rightarrow> string"
  re_material_digest :: "review_material \<Rightarrow> digest"
  re_rules_digest :: "scoped_rules \<Rightarrow> digest"
  re_documents_digest :: "document_reference list \<Rightarrow> digest"
  re_confirmation_digest :: "confirmation_data \<Rightarrow> digest"
  re_response_digest :: "human_response \<Rightarrow> digest"

record revision_snapshot =
  vs_material :: review_material
  vs_revision :: material_revision

fun role_purpose :: "document_role \<Rightarrow> document_purpose" where
  "role_purpose Criteria = P_criteria"
| "role_purpose Forms = P_forms"
| "role_purpose Reference = P_reference"
| "role_purpose Brief = P_brief"

definition document_reference_of :: "string \<Rightarrow> source_document \<Rightarrow> document_reference" where
  "document_reference_of case_id d =
     \<lparr>doc_case_id = case_id, doc_document_id = sd_document_id d, doc_version = sd_version d,
      doc_content_hash = sd_content_hash d, doc_purpose = role_purpose (sd_role d)\<rparr>"

definition rule_reference_of :: "revision_env \<Rightarrow> scoped_rules \<Rightarrow> rule_reference" where
  "rule_reference_of env r =
     \<lparr>ru_rule_set_id = frs_rule_set_id (sc_rules r), ru_version = frs_version (sc_rules r), ru_context = sc_context r,
      ru_content_hash = re_rules_digest env r\<rparr>"

definition revision_of :: "revision_env \<Rightarrow> review_material \<Rightarrow> string \<Rightarrow> revision_reference option \<Rightarrow> value_revision list \<Rightarrow>
    material_revision" where
  "revision_of env m revision_id parent changes =
     (let case_id = ci_case_id (pl_identity (rm_policy m))
      in \<lparr>mr_reference = \<lparr>rev_case_id = case_id, rev_revision_id = revision_id, rev_material_digest = re_material_digest env m\<rparr>,
          mr_parent = parent,
          mr_documents = map (document_reference_of case_id) (sort_key sd_document_id (sy_documents (pl_registry (rm_policy m)))),
          mr_rules = map (rule_reference_of env) (sort_key (\<lambda>r. re_context_key env (sc_context r)) (pl_rule_sets (rm_policy m))),
          mr_changes = changes, mr_canonicalization = Review_Material_Json\<rparr>)"

definition capture :: "revision_env \<Rightarrow> review_material \<Rightarrow> string \<Rightarrow> revision_reference option \<Rightarrow> value_revision list \<Rightarrow>
    revision_snapshot result" where
  "capture env m revision_id parent changes =
     bind_result (ensure (review_material_valid (re_fold_text env) m) Value_Error) (\<lambda>_.
     bind_result (ensure (pl_identity (rm_policy m) = cf_identity (rm_facts m)) Value_Error) (\<lambda>_.
     let r = revision_of env m revision_id parent changes
     in bind_result (ensure (identities (re_documents_digest env) r) Value_Error) (\<lambda>_.
        Inr \<lparr>vs_material = m, vs_revision = r\<rparr>)))"

lemma capture_Inr:
  "capture env m i parent changes = Inr s \<longleftrightarrow>
     review_material_valid (re_fold_text env) m \<and> pl_identity (rm_policy m) = cf_identity (rm_facts m)
     \<and> identities (re_documents_digest env) (revision_of env m i parent changes)
     \<and> s = \<lparr>vs_material = m, vs_revision = revision_of env m i parent changes\<rparr>"
  by (auto simp: capture_def Let_def)

section \<open>Revising\<close>

definition set_side :: "side \<Rightarrow> factor_observation \<Rightarrow> source_citation list \<Rightarrow> evidenced_pair \<Rightarrow> evidenced_pair" where
  "set_side sd x sources p =
     (if sd = Target_Side then p\<lparr>ep_pair := (ep_pair p)\<lparr>fp_target := x\<rparr>, ep_target_sources := sources\<rparr>
      else p\<lparr>ep_pair := (ep_pair p)\<lparr>fp_comparable := x\<rparr>, ep_comparable_sources := sources\<rparr>)"

definition with_version :: "string \<Rightarrow> review_material \<Rightarrow> review_material" where
  "with_version v m =
     m\<lparr>rm_policy := (rm_policy m)\<lparr>pl_identity := (pl_identity (rm_policy m))\<lparr>ci_version := v\<rparr>\<rparr>,
       rm_facts := (rm_facts m)\<lparr>cf_identity := (cf_identity (rm_facts m))\<lparr>ci_version := v\<rparr>\<rparr>\<rparr>"

definition with_pairs :: "(evidenced_pair \<Rightarrow> evidenced_pair) \<Rightarrow> review_material \<Rightarrow> review_material" where
  "with_pairs f m = m\<lparr>rm_facts := (rm_facts m)\<lparr>cf_pairs := map f (cf_pairs (rm_facts m))\<rparr>\<rparr>"

definition pair_key :: "revision_env \<Rightarrow> evidenced_pair \<Rightarrow> string \<times> string" where
  "pair_key env p = (re_context_key env (ep_context p), fp_factor_id (ep_pair p))"

text \<open>A side keeps its native method only if nothing about it changed; its confirmation never survives.\<close>

definition retains_native :: "revision_env \<Rightarrow> evidenced_pair option \<Rightarrow> evidenced_pair \<Rightarrow> side \<Rightarrow> bool" where
  "retains_native env old p sd =
     (case old of
        None \<Rightarrow> False
      | Some q \<Rightarrow>
          rl_method (side_reliability q sd) = Native_Numeric \<and> rl_method (side_reliability p sd) = Native_Numeric
          \<and> rl_confirmation (side_reliability q sd) = None \<and> rl_confirmation (side_reliability p sd) = None
          \<and> confirmation_digest (re_confirmation_digest env) q sd = confirmation_digest (re_confirmation_digest env) p sd)"

definition revise_side :: "revision_env \<Rightarrow> evidenced_pair option \<Rightarrow> side \<Rightarrow> evidenced_pair \<Rightarrow> evidenced_pair" where
  "revise_side env old sd p =
     (let r = side_reliability p sd
      in set_side_reliability sd
           (r\<lparr>rl_method := (if retains_native env old p sd then rl_method r else Model_Proposed), rl_confirmation := None\<rparr>) p)"

definition revise_pair :: "revision_env \<Rightarrow> evidenced_pair list \<Rightarrow> evidenced_pair \<Rightarrow> evidenced_pair" where
  "revise_pair env previous p =
     (let old = find (\<lambda>q. pair_key env q = pair_key env p) (rev previous)
      in revise_side env old Comparable_Side (revise_side env old Target_Side p))"

definition revised_material :: "revision_env \<Rightarrow> revision_snapshot \<Rightarrow> review_material \<Rightarrow> string \<Rightarrow> review_material" where
  "revised_material env s m revision_id =
     with_pairs (revise_pair env (cf_pairs (rm_facts (vs_material s)))) (with_version revision_id m)"

definition revise :: "revision_env \<Rightarrow> revision_snapshot \<Rightarrow> review_material \<Rightarrow> string \<Rightarrow> value_revision list \<Rightarrow>
    revision_snapshot result" where
  "revise env s m revision_id changes =
     bind_result (ensure (review_material_valid (re_fold_text env) m) Value_Error) (\<lambda>_.
     bind_result (ensure (ci_case_id (pl_identity (rm_policy m)) = rev_case_id (mr_reference (vs_revision s))) Value_Error) (\<lambda>_.
     bind_result (ensure (revision_id \<noteq> rev_revision_id (mr_reference (vs_revision s))) Value_Error) (\<lambda>_.
       capture env (revised_material env s m revision_id) revision_id (Some (mr_reference (vs_revision s))) changes)))"

section \<open>Source preparation\<close>

definition source_preparation_revision :: "revision_env \<Rightarrow> document_reference list \<Rightarrow> string \<Rightarrow> material_revision result" where
  "source_preparation_revision env documents revision_id =
     (case sort_key doc_document_id documents of
        [] \<Rightarrow> Inl Value_Error
      | d # ds \<Rightarrow>
          let r = \<lparr>mr_reference = \<lparr>rev_case_id = doc_case_id d, rev_revision_id = revision_id,
                     rev_material_digest = re_documents_digest env (d # ds)\<rparr>,
                   mr_parent = None, mr_documents = d # ds, mr_rules = [], mr_changes = [],
                   mr_canonicalization = Source_Documents_Json\<rparr>
          in bind_result (ensure (identities (re_documents_digest env) r) Value_Error) (\<lambda>_. Inr r))"

section \<open>What a revision keeps and clears\<close>

lemma side_of_revise_side [simp]:
  "side_observation (revise_side env old sd p) sd' = side_observation p sd'"
  "side_sources (revise_side env old sd p) sd' = side_sources p sd'"
  "ep_context (revise_side env old sd p) = ep_context p" "ep_pair (revise_side env old sd p) = ep_pair p"
  by (simp_all add: revise_side_def Let_def)

lemma side_of_revise_pair [simp]:
  "side_observation (revise_pair env ps p) sd = side_observation p sd"
  "side_sources (revise_pair env ps p) sd = side_sources p sd"
  "ep_context (revise_pair env ps p) = ep_context p" "ep_pair (revise_pair env ps p) = ep_pair p"
  by (simp_all add: revise_pair_def Let_def)

lemma reliability_of_revise_side:
  "side_reliability (revise_side env old sd p) sd' =
     (if sd' = sd then (side_reliability p sd)\<lparr>rl_method := (if retains_native env old p sd then Native_Numeric else Model_Proposed),
        rl_confirmation := None\<rparr> else side_reliability p sd')"
  by (auto simp: revise_side_def Let_def retains_native_def split: option.splits)

lemma retains_native_other: "sd \<noteq> sd' \<Longrightarrow> retains_native env old (revise_side env x sd' p) sd = retains_native env old p sd"
  by (auto simp: retains_native_def confirmation_digest_def confirmation_data_of_def reliability_of_revise_side split: option.splits)

lemma reliability_of_revise_pair:
  "side_reliability (revise_pair env ps p) sd =
     (side_reliability p sd)\<lparr>rl_method := (if retains_native env (find (\<lambda>q. pair_key env q = pair_key env p) (rev ps)) p sd
        then Native_Numeric else Model_Proposed), rl_confirmation := None\<rparr>"
  by (cases sd) (simp_all add: revise_pair_def Let_def reliability_of_revise_side retains_native_other)

lemma with_version_sel [simp]:
  "pl_registry (rm_policy (with_version v m)) = pl_registry (rm_policy m)" "pl_rule_sets (rm_policy (with_version v m)) = pl_rule_sets (rm_policy m)"
  "pl_inventory (rm_policy (with_version v m)) = pl_inventory (rm_policy m)"
  "cf_pairs (rm_facts (with_version v m)) = cf_pairs (rm_facts m)" "cf_observed (rm_facts (with_version v m)) = cf_observed (rm_facts m)"
  "cf_unresolved (rm_facts (with_version v m)) = cf_unresolved (rm_facts m)"
  "pl_identity (rm_policy (with_version v m)) = (pl_identity (rm_policy m))\<lparr>ci_version := v\<rparr>"
  "cf_identity (rm_facts (with_version v m)) = (cf_identity (rm_facts m))\<lparr>ci_version := v\<rparr>"
  by (simp_all add: with_version_def)

lemma with_pairs_sel [simp]:
  "rm_policy (with_pairs f m) = rm_policy m" "cf_pairs (rm_facts (with_pairs f m)) = map f (cf_pairs (rm_facts m))"
  "cf_identity (rm_facts (with_pairs f m)) = cf_identity (rm_facts m)" "cf_observed (rm_facts (with_pairs f m)) = cf_observed (rm_facts m)"
  "cf_unresolved (rm_facts (with_pairs f m)) = cf_unresolved (rm_facts m)"
  by (simp_all add: with_pairs_def)

lemma revise_Inr:
  assumes "revise env s m i changes = Inr t"
  shows "vs_material t = revised_material env s m i" "vs_revision t = revision_of env (revised_material env s m i) i (Some (mr_reference (vs_revision s))) changes"
    "identities (re_documents_digest env) (vs_revision t)" "i \<noteq> rev_revision_id (mr_reference (vs_revision s))"
  using assms by (auto simp: revise_def capture_Inr)

lemma revision_of_sel [simp]:
  "mr_parent (revision_of env m i parent changes) = parent" "mr_changes (revision_of env m i parent changes) = changes"
  "rev_revision_id (mr_reference (revision_of env m i parent changes)) = i"
  "rev_case_id (mr_reference (revision_of env m i parent changes)) = ci_case_id (pl_identity (rm_policy m))"
  by (simp_all add: revision_of_def Let_def)

lemma side_of_set_side [simp]:
  "side_observation (set_side sd x refs p) sd' = (if sd' = sd then x else side_observation p sd')"
  "side_sources (set_side sd x refs p) sd' = (if sd' = sd then refs else side_sources p sd')"
  "side_reliability (set_side sd x refs p) sd' = side_reliability p sd'" "ep_context (set_side sd x refs p) = ep_context p"
  "fp_factor_id (ep_pair (set_side sd x refs p)) = fp_factor_id (ep_pair p)"
  by (cases sd; cases sd'; simp add: set_side_def side_observation_def side_sources_def side_reliability_def)+

lemma revised_confirmations:
  "q \<in> set (cf_pairs (rm_facts (revised_material env s m i))) \<Longrightarrow>
     rl_confirmation (side_reliability q sd) = None \<and> rl_method (side_reliability q sd) \<noteq> Reviewer_Confirmed"
  by (auto simp: revised_material_def reliability_of_revise_pair split: if_splits)

end
