(* ===== verification/Factor_Engine.thy ===== *)
theory Factor_Engine
  imports Factor_Models
begin

text \<open>
  \<open>domain/factor_engine.py\<close> and \<open>domain/verification.py\<close>: classification by bands, unit
  conversion, correction-matrix lookup, the summary of a comparison and the independent completion
  gate.  The engine's \<open>float(...)\<close> of the decimal total is an argument \<open>to_float\<close>.
\<close>

section \<open>Classification\<close>

text \<open>\<open>_LENGTH_IN_METRES\<close>: every supported unit is a power of ten of a metre.\<close>

definition length_unit :: "string \<Rightarrow> int option" where
  "length_unit u = (if u = ''mm'' then Some (- 3) else if u = ''cm'' then Some (- 2)
     else if u = ''m'' then Some 0 else if u = ''km'' then Some 3 else None)"

definition validate_minimum_confidence :: "pyfloat \<Rightarrow> pyfloat result" where
  "validate_minimum_confidence x = (if unit_interval x then Inr x else Inl Value_Error)"

definition band_contains :: "interval_band \<Rightarrow> decimal \<Rightarrow> bool" where
  "band_contains b v =
     ((case ib_minimum b of None \<Rightarrow> True
       | Some lo \<Rightarrow> dec_less lo v \<or> (ib_minimum_inclusive b \<and> dec_eq v lo))
      \<and> (case ib_maximum b of None \<Rightarrow> True
       | Some hi \<Rightarrow> dec_less v hi \<or> (ib_maximum_inclusive b \<and> dec_eq v hi)))"

definition normalize_number :: "decimal \<Rightarrow> string option \<Rightarrow> string option \<Rightarrow> review_reason + decimal" where
  "normalize_number x actual_unit expected_unit =
     (if \<not> is_finite x then Inl Value_Not_Finite
      else case expected_unit of
        None \<Rightarrow> if actual_unit \<noteq> None then Inl Unit_Not_Declared else Inr x
      | Some expected \<Rightarrow>
         (case actual_unit of None \<Rightarrow> Inl (Unit_Missing expected)
          | Some actual \<Rightarrow>
              if actual = expected then Inr x
              else case (length_unit actual, length_unit expected) of
                     (Some a, Some b) \<Rightarrow> Inr (dec_div_pow10 (dec_mul x (Dec 1 a)) b)
                   | _ \<Rightarrow> Inl (Unit_Unsupported actual expected)))"

record factor_engine =
  en_rule_set :: factor_rule_set
  en_minimum_confidence :: pyfloat
  en_confirmed_sides :: "(string \<times> side) list"

definition make_engine :: "factor_rule_set \<Rightarrow> pyfloat \<Rightarrow> (string \<times> side) list \<Rightarrow> factor_engine result" where
  "make_engine rs minimum confirmed =
     (if frs_status rs \<noteq> Approved then Inl Value_Error
      else bind_result (validate_minimum_confidence minimum) (\<lambda>c.
        Inr \<lparr>en_rule_set = rs, en_minimum_confidence = c, en_confirmed_sides = confirmed\<rparr>))"

text \<open>\<open>_rules\<close> is a dictionary built from the rules in order: a later rule of the same factor wins.\<close>

definition rules_by_factor :: "factor_rule list \<Rightarrow> (string, factor_rule) dict" where
  "rules_by_factor rules = fold (\<lambda>r d. dict_set (fr_factor_id r) r d) rules []"

definition band_grade :: "interval_band list \<Rightarrow> decimal \<Rightarrow> grade option" where
  "band_grade bands v = map_option ib_grade (find (\<lambda>b. band_contains b v) bands)"

definition category_grade :: "(string \<Rightarrow> string) \<Rightarrow> category_band list \<Rightarrow> string \<Rightarrow> grade option" where
  "category_grade fold_text bands text =
     map_option cb_grade (find (\<lambda>b. fold_text text \<in> set (map fold_text (cb_values b))) bands)"

definition classify_number :: "factor_rule \<Rightarrow> side \<Rightarrow> decimal \<Rightarrow> string option \<Rightarrow> review_reason + grade" where
  "classify_number r sd x unit =
     bind_result (normalize_number x unit (fr_unit r)) (\<lambda>v.
       if fr_kind r \<in> {Distance_Interval, Presence_Distance} \<and> dec_less v (Dec 0 0) then Inl Negative_Distance
       else some_or (No_Interval sd) (band_grade (fr_intervals r) v))"

definition classify_value :: "(string \<Rightarrow> string) \<Rightarrow> factor_rule \<Rightarrow> side \<Rightarrow> normalized_value \<Rightarrow> review_reason + grade" where
  "classify_value fold_text r sd v =
     (let is_number = (case nv_content v of Number_Value _ \<Rightarrow> True | _ \<Rightarrow> False) in
      if fr_kind r \<in> {Numeric_Interval, Distance_Interval} \<or> (fr_kind r = Presence_Distance \<and> is_number)
      then (case nv_content v of Number_Value x \<Rightarrow> classify_number r sd x (nv_unit v) | _ \<Rightarrow> Inl (Not_Numeric sd))
      else (case nv_content v of
              Category_Value t \<Rightarrow> some_or (Unknown_Category sd t) (category_grade fold_text (fr_categories r) t)
            | Text_Value t \<Rightarrow> some_or (Unknown_Category sd t) (category_grade fold_text (fr_categories r) t)
            | _ \<Rightarrow> Inl (Not_Categorical sd)))"

definition classify :: "(string \<Rightarrow> string) \<Rightarrow> factor_engine \<Rightarrow> factor_rule \<Rightarrow> side \<Rightarrow> factor_observation \<Rightarrow>
    review_reason + grade" where
  "classify fold_text en r sd x =
     (case ob_value x of None \<Rightarrow> Inl (Value_Missing sd)
      | Some v \<Rightarrow>
          if ob_evidence x = [] then Inl (Evidence_Missing sd)
          else if (fr_factor_id r, sd) \<notin> set (en_confirmed_sides en)
                  \<and> dec_less (ob_confidence x) (en_minimum_confidence en)
          then Inl (Low_Confidence sd (ob_confidence x) (en_minimum_confidence en))
          else classify_value fold_text r sd v)"

section \<open>Evaluation\<close>

definition matrix_cell :: "correction_matrix \<Rightarrow> grade \<Rightarrow> grade \<Rightarrow> pyfloat option" where
  "matrix_cell rows target comparable =
     Option.bind (dict_get rows (grade_value target)) (\<lambda>row. dict_get row (grade_value comparable))"

definition evaluate_with_rule :: "(string \<Rightarrow> string) \<Rightarrow> factor_engine \<Rightarrow> factor_rule \<Rightarrow> factor_pair \<Rightarrow> factor_evaluation_result" where
  "evaluate_with_rule fold_text en r p =
     (case bind_result (classify fold_text en r Target_Side (fp_target p)) (\<lambda>tg.
           bind_result (classify fold_text en r Comparable_Side (fp_comparable p)) (\<lambda>cg. Inr (tg, cg))) of
        Inl reason \<Rightarrow> \<lparr>fv_factor_id = fp_factor_id p, fv_target_grade = None, fv_comparable_grade = None,
          fv_adjustment_percent = None, fv_rule_id = Some (fr_id r), fv_calculation_trace = Stopped_Before_Lookup,
          fv_status = E_NEEDS_REVIEW, fv_warnings = [reason]\<rparr>
      | Inr (tg, cg) \<Rightarrow>
         (case matrix_cell (fr_correction_matrix r) tg cg of
            None \<Rightarrow> \<lparr>fv_factor_id = fp_factor_id p, fv_target_grade = Some tg, fv_comparable_grade = Some cg,
              fv_adjustment_percent = None, fv_rule_id = Some (fr_id r), fv_calculation_trace = Matrix_Cell_Missing,
              fv_status = E_FAILED, fv_warnings = [Matrix_Lookup_Failed]\<rparr>
          | Some adj \<Rightarrow> \<lparr>fv_factor_id = fp_factor_id p, fv_target_grade = Some tg, fv_comparable_grade = Some cg,
              fv_adjustment_percent = Some adj, fv_rule_id = Some (fr_id r), fv_calculation_trace = Classified_And_Queried,
              fv_status = E_VERIFIED, fv_warnings = []\<rparr>))"

definition evaluate_pair :: "(string \<Rightarrow> string) \<Rightarrow> factor_engine \<Rightarrow> factor_pair \<Rightarrow> factor_evaluation_result" where
  "evaluate_pair fold_text en p =
     (case dict_get (rules_by_factor (frs_rules (en_rule_set en))) (fp_factor_id p) of
        None \<Rightarrow> \<lparr>fv_factor_id = fp_factor_id p, fv_target_grade = None, fv_comparable_grade = None,
          fv_adjustment_percent = None, fv_rule_id = None, fv_calculation_trace = No_Rule,
          fv_status = E_FAILED, fv_warnings = [Unknown_Factor (fp_factor_id p)]\<rparr>
      | Some r \<Rightarrow> evaluate_with_rule fold_text en r p)"

definition summary_status :: "factor_evaluation_result list \<Rightarrow> evaluation_status" where
  "summary_status results =
     (let statuses = fv_status ` set results in
      if E_FAILED \<in> statuses then E_FAILED else if E_NEEDS_REVIEW \<in> statuses then E_NEEDS_REVIEW else E_VERIFIED)"

text \<open>\<open>Decimal(str(None))\<close> would be \<open>InvalidOperation\<close>; not-a-number stands for it and is shown never to occur.\<close>

definition adjustment_decimal :: "factor_evaluation_result \<Rightarrow> decimal" where
  "adjustment_decimal r = (case fv_adjustment_percent r of None \<Rightarrow> Special Not_A_Number | Some x \<Rightarrow> x)"

definition engine_evaluate :: "(string \<Rightarrow> string) \<Rightarrow> (decimal \<Rightarrow> pyfloat) \<Rightarrow> factor_engine \<Rightarrow> factor_evaluation_request \<Rightarrow>
    factor_review_result result" where
  "engine_evaluate fold_text to_float en q =
     (if fe_rule_set_id q \<noteq> frs_rule_set_id (en_rule_set en) then Inl Value_Error
      else let results = map (evaluate_pair fold_text en) (fe_factors q);
               status = summary_status results;
               total = (if status = E_VERIFIED then Some (to_float (dec_sum (map adjustment_decimal results))) else None)
           in Inr \<lparr>fw_case_id = fe_case_id q, fw_rule_set_id = frs_rule_set_id (en_rule_set en),
                fw_rule_version = frs_version (en_rule_set en), fw_context = None, fw_case_version = None,
                fw_source_hashes = [], fw_results = results,
                fw_summary = \<lparr>su_total_adjustment_percent = total, su_status = status\<rparr>\<rparr>)"

section \<open>The completion gate\<close>

datatype critical_error =
    Missing_Critical string | Duplicate_Results | Identity_Mismatch | Facts_Required
  | Differs_From_Recalculation | Calculation_Unresolved | Invalid_Material

record verification_report =
  vr_status :: evaluation_status
  vr_critical_errors :: "critical_error list"

definition can_complete :: "verification_report \<Rightarrow> bool" where
  "can_complete r = (vr_status r = E_VERIFIED \<and> vr_critical_errors r = [])"

text \<open>
  The recomputation inside the \<open>try\<close>: revalidated inputs, a fresh engine, its evaluation.  The
  revalidation of the claimed result is an argument, since it concerns serialisation only.
\<close>

definition recalculate :: "(string \<Rightarrow> string) \<Rightarrow> (decimal \<Rightarrow> pyfloat) \<Rightarrow> factor_rule_set \<Rightarrow> factor_evaluation_request \<Rightarrow>
    pyfloat \<Rightarrow> (string \<times> side) list \<Rightarrow> factor_review_result result" where
  "recalculate fold_text to_float rs facts minimum confirmed =
     bind_result (ensure (factor_rule_set_valid fold_text rs \<and> request_valid facts) Value_Error) (\<lambda>_.
     bind_result (make_engine rs minimum confirmed) (\<lambda>en. engine_evaluate fold_text to_float en facts))"

definition recheck :: "(factor_review_result \<Rightarrow> bool) \<Rightarrow> factor_review_result \<Rightarrow> factor_review_result result \<Rightarrow>
    critical_error list \<times> bool" where
  "recheck well_formed claimed expected =
     (case expected of Inl _ \<Rightarrow> ([Invalid_Material], True)
      | Inr e \<Rightarrow>
          if \<not> well_formed claimed then ([Invalid_Material], True)
          else let differs = ((fw_case_id claimed, fw_results claimed, fw_summary claimed)
                              \<noteq> (fw_case_id e, fw_results e, fw_summary e));
                   unresolved = (su_status (fw_summary e) \<noteq> E_VERIFIED)
               in ((if differs then [Differs_From_Recalculation] else [])
                   @ (if unresolved then [Calculation_Unresolved] else []),
                   differs \<or> su_status (fw_summary e) = E_FAILED))"

definition verify_review :: "(string \<Rightarrow> string) \<Rightarrow> (decimal \<Rightarrow> pyfloat) \<Rightarrow> (factor_review_result \<Rightarrow> bool) \<Rightarrow>
    factor_review_result \<Rightarrow> factor_rule_set \<Rightarrow> factor_evaluation_request option \<Rightarrow> pyfloat \<Rightarrow> (string \<times> side) list \<Rightarrow>
    verification_report result" where
  "verify_review fold_text to_float well_formed result rs facts minimum confirmed =
     bind_result (validate_minimum_confidence minimum) (\<lambda>minimum.
       let ids = map fv_factor_id (fw_results result);
           missing = map (\<lambda>r. Missing_Critical (fr_factor_id r))
             (filter (\<lambda>r. fr_critical r \<and> fr_factor_id r \<notin> set ids) (frs_rules rs));
           duplicate = \<not> distinct ids;
           identity = ((fw_rule_set_id result, fw_rule_version result) \<noteq> (frs_rule_set_id rs, frs_version rs));
           (errs, bad) = (case facts of None \<Rightarrow> ([Facts_Required], False)
             | Some q \<Rightarrow> recheck well_formed result (recalculate fold_text to_float rs q minimum confirmed));
           errors = missing @ (if duplicate then [Duplicate_Results] else [])
             @ (if identity then [Identity_Mismatch] else []) @ errs;
           failed = (duplicate \<or> identity \<or> bad)
       in Inr \<lparr>vr_status = (if failed then E_FAILED else if errors \<noteq> [] then E_NEEDS_REVIEW else E_VERIFIED),
               vr_critical_errors = errors\<rparr>)"

end
