(* ===== verification/Fill_Candidates.thy ===== *)
theory Fill_Candidates
  imports Review_Contracts
begin

text \<open>
  \<open>domain/fill_candidates.py\<close>: one immutable candidate per slot, checked against every constraint
  before it may be reused.  The text of a printed number and the number itself are not told apart, so an
  independently calculated value is a number or a grade's text.
\<close>

section \<open>Candidates\<close>

datatype candidate = Number decimal | Text string

fun candidate_eq :: "candidate \<Rightarrow> candidate \<Rightarrow> bool" where
  "candidate_eq (Number x) (Number y) = dec_eq x y"
| "candidate_eq (Text s) (Text t) = (s = t)"
| "candidate_eq _ _ = False"

fun content_text :: "observed_content \<Rightarrow> string" where
  "content_text (Observed_Text s) = s"
| "content_text (Observed_Decimal d) = dec_str d"

fun content_decimal :: "observed_content \<Rightarrow> decimal option" where
  "content_decimal (Observed_Text s) = parse_decimal s"
| "content_decimal (Observed_Decimal d) = Some d"

definition percent :: "observed_value \<Rightarrow> decimal result" where
  "percent v =
     (if ov_state v \<noteq> Present \<or> ov_unit v \<notin> {Some Percent_Points, Some Ratio} then Inl Value_Error
      else bind_result (some_or Arithmetic_Error (Option.bind (ov_value v) content_decimal)) (\<lambda>x.
        if \<not> is_finite x then Inl Value_Error
        else Inr (if ov_unit v = Some Ratio then dec_mul x (Dec 100 0) else x)))"

record arithmetic_comparison =
  cmp_check :: arithmetic_check
  cmp_expected :: decimal

definition comparison_matches :: "arithmetic_comparison \<Rightarrow> decimal \<Rightarrow> bool" where
  "comparison_matches c actual = dec_le (dec_abs (dec_sub (cmp_expected c) actual)) (ac_tolerance (cmp_check c))"

record validated_slot =
  vs_original :: observed_value
  vs_candidate :: "candidate option"
  vs_expected :: "candidate option"
  vs_status :: evaluation_status
  vs_kind :: string

definition trusted_number :: "validated_slot \<Rightarrow> decimal option" where
  "trusted_number v = (case vs_candidate v of
     Some (Number x) \<Rightarrow> if vs_status v = E_VERIFIED then Some x else None | _ \<Rightarrow> None)"

section \<open>Validation of one slot\<close>

definition is_grade_slot :: "review_slot \<Rightarrow> bool" where
  "is_grade_slot s = (sl_value s \<in> {Target_Grade, Comparable_Grade})"

definition candidate_number :: "candidate \<Rightarrow> decimal result" where
  "candidate_number c = (case c of Number x \<Rightarrow> Inr x | Text s \<Rightarrow> some_or Arithmetic_Error (parse_decimal s))"

text \<open>The one value that all constraints agree on, compared as numbers.\<close>

definition common_expected :: "arithmetic_comparison list \<Rightarrow> candidate option" where
  "common_expected cs = (case cs of [] \<Rightarrow> None
     | c # rest \<Rightarrow> if list_all (\<lambda>d. dec_eq (cmp_expected d) (cmp_expected c)) rest then Some (Number (cmp_expected c)) else None)"

definition slot_expected :: "review_slot \<Rightarrow> candidate option \<Rightarrow> arithmetic_comparison list \<Rightarrow> candidate option result" where
  "slot_expected s calculated cs =
     (case calculated of
        None \<Rightarrow> Inr (common_expected cs)
      | Some i \<Rightarrow> if is_grade_slot s then Inr (Some i) else bind_result (candidate_number i) (\<lambda>x. Inr (Some (Number x))))"

text \<open>The candidate of a slot, or the kind of finding that stops the validation.\<close>

definition slot_candidate :: "review_slot \<Rightarrow> observed_value \<Rightarrow> candidate option \<Rightarrow> string + candidate option" where
  "slot_candidate s original expected =
     (case ov_state original of
        Blank \<Rightarrow>
          if strip (ov_raw_text original) \<noteq> [] \<or> (\<exists>r \<in> set (ov_evidence original). strip (ct_excerpt r) \<noteq> [])
          then Inl ''blank_contradiction''
          else if \<not> sl_derivable_blank s then Inl ''observed_unresolved'' else Inr expected
      | Present \<Rightarrow>
          if is_grade_slot s \<and> ov_unit original = Some Grade_Unit
          then Inr (map_option (Text \<circ> content_text) (ov_value original))
          else (case percent original of Inl _ \<Rightarrow> Inl ''observed_unresolved'' | Inr x \<Rightarrow> Inr (Some (Number x)))
      | _ \<Rightarrow> Inl ''observed_unresolved'')"

definition matches_candidate :: "candidate \<Rightarrow> arithmetic_comparison \<Rightarrow> bool" where
  "matches_candidate cand c = (case cand of Number x \<Rightarrow> comparison_matches c x | Text _ \<Rightarrow> False)"

text \<open>A total without a factor is compared with the independent value rounded as each check rounds.\<close>

definition rounded_match :: "candidate \<Rightarrow> candidate \<Rightarrow> arithmetic_comparison \<Rightarrow> bool result" where
  "rounded_match calculated cand c =
     (case cand of Text _ \<Rightarrow> Inr False
      | Number x \<Rightarrow> bind_result (candidate_number calculated) (\<lambda>i.
          bind_result (calculate Equals_Check [i] (Some (ac_quantum (cmp_check c)))) (\<lambda>e.
            Inr (comparison_matches \<lparr>cmp_check = cmp_check c, cmp_expected = e\<rparr> x))))"

definition candidate_agrees :: "review_slot \<Rightarrow> observed_value \<Rightarrow> candidate option \<Rightarrow> candidate option \<Rightarrow>
    arithmetic_comparison list \<Rightarrow> candidate \<Rightarrow> bool result" where
  "candidate_agrees s original calculated expected cs cand =
     (let equal = list_all (matches_candidate cand) cs in
      case calculated of
        None \<Rightarrow> Inr equal
      | Some i \<Rightarrow>
          if sl_factor_id s = None \<and> cs \<noteq> [] \<and> ov_state original = Present
          then and_result equal (all_result (rounded_match i cand) cs)
          else Inr (equal \<and> (case expected of None \<Rightarrow> False | Some e \<Rightarrow> candidate_eq cand e)))"

definition validate_slot :: "review_slot \<Rightarrow> observed_value \<Rightarrow> candidate option \<Rightarrow> arithmetic_comparison list \<Rightarrow>
    bool \<Rightarrow> bool \<Rightarrow> validated_slot result" where
  "validate_slot s original calculated cs ready authorized =
     bind_result (slot_expected s calculated cs) (\<lambda>expected.
       let outcome = (\<lambda>cand status kind. \<lparr>vs_original = original, vs_candidate = cand, vs_expected = expected,
             vs_status = status, vs_kind = kind\<rparr>)
       in case slot_candidate s original expected of
            Inl kind \<Rightarrow> Inr (outcome None E_NEEDS_REVIEW kind)
          | Inr cand \<Rightarrow>
              if \<not> ready then Inr (outcome cand E_NEEDS_REVIEW ''arithmetic_dependency'')
              else if \<not> authorized then Inr (outcome cand E_NEEDS_REVIEW ''observed_unresolved'')
              else (case cand of
                  None \<Rightarrow> Inr (outcome cand E_NEEDS_REVIEW ''observed_missing'')
                | Some x \<Rightarrow>
                    if expected = None \<and> cs = [] then Inr (outcome cand E_NEEDS_REVIEW ''observed_missing'')
                    else bind_result (candidate_agrees s original calculated expected cs x) (\<lambda>equal.
                      Inr (outcome cand (if equal then E_VERIFIED else E_FAILED)
                        (if ov_state original = Blank then ''derivable_blank'' else ''observed_comparison'')))))"

section \<open>What a validated slot means\<close>

lemma validate_slot_original:
  assumes "validate_slot s original calculated cs ready authorized = Inr v"
  shows "vs_original v = original"
proof -
  from assms obtain expected where e: "slot_expected s calculated cs = Inr expected" by (auto simp: validate_slot_def)
  show ?thesis
  proof (cases "slot_candidate s original expected")
    case (Inr cand)
    with assms e show ?thesis by (cases cand) (auto simp: validate_slot_def Let_def split: if_splits)
  qed (use assms e in \<open>auto simp: validate_slot_def\<close>)
qed

lemma validate_slot_verified:
  assumes "validate_slot s original calculated cs ready authorized = Inr v" and "vs_status v = E_VERIFIED"
  obtains expected x where "ready" "authorized" "slot_expected s calculated cs = Inr expected"
    "slot_candidate s original expected = Inr (Some x)" "candidate_agrees s original calculated expected cs x = Inr True"
    "vs_candidate v = Some x" "vs_expected v = expected" "expected \<noteq> None \<or> cs \<noteq> []"
proof -
  from assms(1) obtain expected where e: "slot_expected s calculated cs = Inr expected" by (auto simp: validate_slot_def)
  show ?thesis
  proof (cases "slot_candidate s original expected")
    case (Inr cand)
    with assms e that show ?thesis
      by (cases cand) (auto simp: validate_slot_def Let_def split: if_splits)
  qed (use assms e in \<open>auto simp: validate_slot_def\<close>)
qed

lemma candidate_agrees_matches:
  "candidate_agrees s original calculated expected cs x = Inr True \<Longrightarrow> c \<in> set cs \<Longrightarrow> matches_candidate x c"
  by (auto simp: candidate_agrees_def Let_def list_all_iff split: option.splits if_splits)

lemma slot_candidate_number_finite:
  assumes "slot_candidate s original expected = Inr (Some (Number x))" and "\<And>y. expected = Some (Number y) \<Longrightarrow> is_finite y"
  shows "is_finite x"
proof (cases "ov_state original")
  case Present
  have "is_finite (dec_mul y (Dec 100 0)) = is_finite y" for y by (cases y) (simp_all del: dec_fix.simps)
  with assms(1) Present show ?thesis
    by (auto simp: slot_candidate_def percent_def comp_def split: if_splits sum.splits)
qed (use assms in \<open>auto simp: slot_candidate_def split: if_splits\<close>)

text \<open>
  A verified slot is grounded.  Its dependencies were validated and its material authorized; the
  observation was never edited; the candidate is a number that every arithmetic constraint accepts (any
  text is refused as soon as there is a constraint); a blank was approved for derivation, contradicts
  no text and was filled with the expected value; a present value is the observed one; and no other
  state is ever verified.
\<close>

theorem verified_slot_is_grounded:
  assumes "validate_slot s original calculated cs ready authorized = Inr v" and "vs_status v = E_VERIFIED"
  shows "ready \<and> authorized \<and> vs_original v = original
     \<and> (\<exists>x. vs_candidate v = Some x \<and> (\<forall>c \<in> set cs. \<exists>n. x = Number n \<and> comparison_matches c n)
          \<and> (ov_state original = Blank \<longrightarrow> sl_derivable_blank s \<and> strip (ov_raw_text original) = [] \<and> vs_expected v = Some x)
          \<and> (ov_state original = Present \<longrightarrow> (\<exists>n. x = Number n \<and> percent original = Inr n)
               \<or> is_grade_slot s \<and> (\<exists>t. ov_value original = Some t \<and> x = Text (content_text t))))
     \<and> ov_state original \<in> {Present, Blank}"
proof -
  from assms obtain expected x where v: "ready" "authorized" "slot_candidate s original expected = Inr (Some x)"
    "candidate_agrees s original calculated expected cs x = Inr True" "vs_candidate v = Some x" "vs_expected v = expected"
    by (rule validate_slot_verified)
  have m: "\<exists>n. x = Number n \<and> comparison_matches c n" if "c \<in> set cs" for c
    using candidate_agrees_matches [OF v(4) that] by (auto simp: matches_candidate_def split: candidate.splits)
  have b: "sl_derivable_blank s \<and> strip (ov_raw_text original) = [] \<and> expected = Some x" if "ov_state original = Blank"
    using v(3) that by (auto simp: slot_candidate_def split: if_splits)
  have p: "(\<exists>n. x = Number n \<and> percent original = Inr n) \<or> is_grade_slot s \<and> (\<exists>t. ov_value original = Some t \<and> x = Text (content_text t))"
    if "ov_state original = Present"
    using v(3) that by (auto simp: slot_candidate_def comp_def split: if_splits sum.splits)
  have st: "ov_state original \<in> {Present, Blank}"
    using v(3) by (cases "ov_state original") (auto simp: slot_candidate_def)
  show ?thesis using v m b p st validate_slot_original [OF assms(1)] by blast
qed

definition demo_slot :: review_slot where
  "demo_slot = \<lparr>sl_id = ''s'', sl_context = \<lparr>cx_scope = Regional, cx_target_id = ''T'', cx_comparable_id = ''C''\<rparr>,
     sl_factor_id = None, sl_value = Total, sl_derivable_blank = True, sl_evidence = [demo_citation]\<rparr>"

definition demo_blank :: observed_value where
  "demo_blank = \<lparr>ov_slot_id = ''s'', ov_state = Blank, ov_value = None, ov_unit = None, ov_raw_text = '' '', ov_evidence = []\<rparr>"

lemma demo_blank_filled:
  "validate_slot demo_slot demo_blank (Some (Number (Dec 5 0))) [] True True =
     Inr \<lparr>vs_original = demo_blank, vs_candidate = Some (Number (Dec 5 0)), vs_expected = Some (Number (Dec 5 0)),
       vs_status = E_VERIFIED, vs_kind = ''derivable_blank''\<rparr>"
  by (simp add: validate_slot_def slot_expected_def demo_slot_def demo_blank_def is_grade_slot_def candidate_number_def
      slot_candidate_def strip_def is_space_def candidate_agrees_def dec_eq_def Let_def)

theorem verified_slot_is_grounded_witness:
  "sl_derivable_blank demo_slot \<and> ov_state demo_blank \<in> {Present, Blank}"
  using verified_slot_is_grounded [OF demo_blank_filled] by (simp add: demo_blank_def)

text \<open>
  The validator of arithmetic checks accepts ten as a quantum, but rounding with it does not round to
  tens: \<open>quantize\<close> reads the exponent of the quantum as it was written, and the exponent of \<open>10\<close> is zero.
\<close>

definition demo_quantum_check :: arithmetic_check where
  "demo_quantum_check = \<lparr>ac_id = ''k'', ac_kind = Equals_Check, ac_inputs = [''a''], ac_target = ''t'', ac_quantum = Dec 10 0,
     ac_tolerance = Dec 0 0, ac_evidence = [demo_citation]\<rparr>"

theorem quantum_ten_rounds_to_units:
  "exact_equals demo_quantum_check
     \<and> calculate Equals_Check [Dec 14 0] (Some (ac_quantum demo_quantum_check)) = Inr (Dec 14 0)
     \<and> calculate Equals_Check [Dec 14 0] (Some (Dec 1 1)) = Inr (Dec 1 1)"
proof -
  have "is_hex_digest (ct_content_hash demo_citation)" by code_simp
  then have "evidence_given (ac_evidence demo_quantum_check)"
    by (simp add: evidence_given_def demo_quantum_check_def citation_valid_def) (simp add: demo_citation_def)
  moreover have "normalized_digits (Dec 10 0) = Some 1" by code_simp
  ultimately have "exact_equals demo_quantum_check"
    by (simp add: exact_equals_def evidence_given_def demo_quantum_check_def dec_less_def dec_le_def)
  moreover have "calculate Equals_Check [Dec 14 0] (Some (Dec 10 0)) = Inr (Dec 14 0)"
    "calculate Equals_Check [Dec 14 0] (Some (Dec 1 1)) = Inr (Dec 1 1)" by code_simp+
  ultimately show ?thesis by (simp add: demo_quantum_check_def)
qed

end
