(* ===== verification/Source_Purpose.thy ===== *)
theory Source_Purpose
  imports Review_Contracts
begin

text \<open>
  \<open>domain/source_purpose.py\<close>: a source must be identified, and its use must be permitted.  The
  identifiers of findings are a datatype with one constructor per pattern of the code:
  \<open>key\<close>, \<open>key/factor/f\<close>, \<open>observed/s\<close>, \<open>arithmetic/c\<close>, \<open>empty/e\<close> and the four fixed names.
\<close>

datatype finding_id =
    Trust_Id | Sources_Id | Inventory_Id | Claimed_Id
  | Context_Id comparison_context | Factor_Id comparison_context string
  | Observed_Id string | Arithmetic_Id string | Empty_Id string

datatype purpose = Case_Purpose | Rule_Purpose | Procedure_Purpose

record source_purposes =
  pu_registry :: source_registry
  pu_forms :: source_document
  pu_criteria :: source_document

definition the_only :: "'a list \<Rightarrow> 'a result" where
  "the_only xs = (case xs of [x] \<Rightarrow> Inr x | _ \<Rightarrow> Inl Value_Error)"

definition select_source :: "source_registry \<Rightarrow> document_role \<Rightarrow> source_document option \<Rightarrow> source_document result" where
  "select_source g role supplied =
     bind_result
       (case supplied of
          None \<Rightarrow> Inr (filter (\<lambda>d. sd_role d = role) (sy_documents g))
        | Some x \<Rightarrow> filter_result (\<lambda>d. same_identity_and_content d x) (filter (\<lambda>d. sd_role d = role) (sy_documents g)))
       the_only"

definition selected :: "source_registry \<Rightarrow> source_document option \<Rightarrow> source_document option \<Rightarrow> source_purposes result" where
  "selected g forms criteria =
     bind_result (select_source g Forms forms) (\<lambda>f.
     bind_result (select_source g Criteria criteria) (\<lambda>c.
       Inr \<lparr>pu_registry = g, pu_forms = f, pu_criteria = c\<rparr>))"

definition allowed_sources :: "source_purposes \<Rightarrow> purpose \<Rightarrow> source_document list" where
  "allowed_sources pu use =
     (if use = Procedure_Purpose
      then pu_forms pu # pu_criteria pu # filter (\<lambda>d. sd_role d = Reference) (sy_documents (pu_registry pu))
      else if use = Case_Purpose then [pu_forms pu] else [pu_criteria pu])"

definition allows :: "source_purposes \<Rightarrow> source_citation list \<Rightarrow> purpose \<Rightarrow> bool" where
  "allows pu refs use = (refs \<noteq> []
     \<and> list_all (\<lambda>r. resolves (pu_registry pu) r \<and> list_ex (\<lambda>d. cites d r) (allowed_sources pu use)) refs)"

definition check_use :: "source_purposes \<Rightarrow> finding_id \<Rightarrow> source_citation list \<Rightarrow> purpose \<Rightarrow> (finding_id \<times> source_citation list) list" where
  "check_use pu i refs use = (if allows pu refs use then [] else [(i, refs)])"

definition rule_source_violation :: "source_purposes \<Rightarrow> scoped_rules \<Rightarrow> (finding_id \<times> source_citation list) list" where
  "rule_source_violation pu s =
     (let src = frs_source_document (sc_rules s) in
      if (rs_document_id src, rs_content_hash src, sc_source_version s)
         \<noteq> (sd_document_id (pu_criteria pu), sd_content_hash (pu_criteria pu), sd_version (pu_criteria pu))
      then [(Context_Id (sc_context s), sc_evidence s)] else [])"

definition violations :: "source_purposes \<Rightarrow> review_policy \<Rightarrow> case_facts \<Rightarrow> (finding_id \<times> source_citation list) list" where
  "violations pu pl facts =
     (let inv = pl_inventory pl in
      concat (map (\<lambda>e. check_use pu (Context_Id (ic_context e)) (ic_evidence e) Case_Purpose) (iv_contexts inv))
      @ concat (map (\<lambda>s. check_use pu (Observed_Id (sl_id s)) (sl_evidence s) Case_Purpose) (iv_slots inv))
      @ concat (map (\<lambda>v. check_use pu (Observed_Id (ov_slot_id v)) (ov_evidence v) Case_Purpose) (cf_observed facts))
      @ concat (map (\<lambda>p. concat (map (\<lambda>refs. check_use pu (Factor_Id (ep_context p) (fp_factor_id (ep_pair p))) refs Case_Purpose)
           [ep_target_sources p, ep_comparable_sources p])) (cf_pairs facts))
      @ concat (map (\<lambda>c. check_use pu (Empty_Id (ec_id c)) (ec_evidence c) Case_Purpose) (iv_empty_columns inv))
      @ concat (map (\<lambda>c. check_use pu (Arithmetic_Id (ac_id c)) (ac_evidence c) Procedure_Purpose) (iv_checks inv))
      @ concat (map (\<lambda>s. check_use pu (Context_Id (sc_context s)) (sc_evidence s) Rule_Purpose
           @ rule_source_violation pu s) (pl_rule_sets pl)))"

section \<open>What the absence of violations means\<close>

lemma the_only_Inr [simp]: "the_only xs = Inr x \<longleftrightarrow> xs = [x]"
  by (auto simp: the_only_def split: list.splits)

lemma select_source_Inr:
  assumes "select_source g role supplied = Inr d"
  shows "d \<in> set (sy_documents g) \<and> sd_role d = role"
proof (cases supplied)
  case None
  with assms have "filter (\<lambda>d. sd_role d = role) (sy_documents g) = [d]" by (simp add: select_source_def)
  then have "d \<in> set (filter (\<lambda>d. sd_role d = role) (sy_documents g))" by simp
  then show ?thesis by simp
next
  case (Some x)
  with assms have "filter_result (\<lambda>d. same_identity_and_content d x) (filter (\<lambda>d. sd_role d = role) (sy_documents g)) = Inr [d]"
    by (simp add: select_source_def)
  from filter_result_set [OF this] show ?thesis by auto
qed

lemma selected_Inr:
  assumes "selected g forms criteria = Inr pu"
  shows "pu_registry pu = g" "pu_forms pu \<in> set (sy_documents g)" "sd_role (pu_forms pu) = Forms"
    "pu_criteria pu \<in> set (sy_documents g)" "sd_role (pu_criteria pu) = Criteria"
  using assms select_source_Inr by (fastforce simp: selected_def)+

lemma check_use_Nil [simp]: "check_use pu i refs use = [] \<longleftrightarrow> allows pu refs use"
  by (simp add: check_use_def)

lemma violations_Nil:
  "violations pu pl facts = [] \<longleftrightarrow>
     (\<forall>e \<in> set (iv_contexts (pl_inventory pl)). allows pu (ic_evidence e) Case_Purpose)
     \<and> (\<forall>s \<in> set (iv_slots (pl_inventory pl)). allows pu (sl_evidence s) Case_Purpose)
     \<and> (\<forall>v \<in> set (cf_observed facts). allows pu (ov_evidence v) Case_Purpose)
     \<and> (\<forall>p \<in> set (cf_pairs facts). allows pu (ep_target_sources p) Case_Purpose \<and> allows pu (ep_comparable_sources p) Case_Purpose)
     \<and> (\<forall>c \<in> set (iv_empty_columns (pl_inventory pl)). allows pu (ec_evidence c) Case_Purpose)
     \<and> (\<forall>c \<in> set (iv_checks (pl_inventory pl)). allows pu (ac_evidence c) Procedure_Purpose)
     \<and> (\<forall>s \<in> set (pl_rule_sets pl). allows pu (sc_evidence s) Rule_Purpose \<and> rule_source_violation pu s = [])"
  by (simp add: violations_def Let_def concat_eq_Nil_conv ball_conj_distrib)

lemma allows_case_cites_forms: "allows pu refs Case_Purpose \<Longrightarrow> r \<in> set refs \<Longrightarrow> cites (pu_forms pu) r"
  by (auto simp: allows_def allowed_sources_def list_all_iff)

text \<open>
  Sources are used only for what they are.  When the selected sources report no violation, every
  citation behind a context, a slot, an observation or a factor value resolves in the registry and
  points into the selected case forms, and every citation behind a rule set resolves and points into
  the selected criteria, from which the rule set itself was taken in that very version.
\<close>

theorem sources_used_for_their_purpose:
  assumes "selected g forms criteria = Inr pu" and "violations pu pl facts = []"
  shows "sd_role (pu_forms pu) = Forms \<and> sd_role (pu_criteria pu) = Criteria
     \<and> (\<forall>refs \<in> ic_evidence ` set (iv_contexts (pl_inventory pl)) \<union> sl_evidence ` set (iv_slots (pl_inventory pl))
            \<union> ov_evidence ` set (cf_observed facts) \<union> ep_target_sources ` set (cf_pairs facts) \<union> ep_comparable_sources ` set (cf_pairs facts).
          refs \<noteq> [] \<and> (\<forall>r \<in> set refs. resolves g r \<and> cites (pu_forms pu) r))
     \<and> (\<forall>s \<in> set (pl_rule_sets pl). (\<forall>r \<in> set (sc_evidence s). resolves g r \<and> cites (pu_criteria pu) r)
          \<and> rs_document_id (frs_source_document (sc_rules s)) = sd_document_id (pu_criteria pu)
          \<and> rs_content_hash (frs_source_document (sc_rules s)) = sd_content_hash (pu_criteria pu)
          \<and> sc_source_version s = sd_version (pu_criteria pu))"
proof -
  note sel = selected_Inr [OF assms(1)] and nov = assms(2) [unfolded violations_Nil]
  have c: "refs \<noteq> [] \<and> (\<forall>r \<in> set refs. resolves g r \<and> cites (pu_forms pu) r)" if "allows pu refs Case_Purpose" for refs
    using that sel(1) by (auto simp: allows_def allowed_sources_def list_all_iff)
  have r: "resolves g r \<and> cites (pu_criteria pu) r" if "allows pu refs Rule_Purpose" "r \<in> set refs" for refs r
    using that sel(1) by (auto simp: allows_def allowed_sources_def list_all_iff)
  have v: "rule_source_violation pu s = [] \<longleftrightarrow> rs_document_id (frs_source_document (sc_rules s)) = sd_document_id (pu_criteria pu)
      \<and> rs_content_hash (frs_source_document (sc_rules s)) = sd_content_hash (pu_criteria pu)
      \<and> sc_source_version s = sd_version (pu_criteria pu)" for s
    by (simp add: rule_source_violation_def Let_def)
  have cases: "\<forall>refs \<in> ic_evidence ` set (iv_contexts (pl_inventory pl)) \<union> sl_evidence ` set (iv_slots (pl_inventory pl))
        \<union> ov_evidence ` set (cf_observed facts) \<union> ep_target_sources ` set (cf_pairs facts) \<union> ep_comparable_sources ` set (cf_pairs facts).
      allows pu refs Case_Purpose" using nov by blast
  have rules: "\<forall>s \<in> set (pl_rule_sets pl). allows pu (sc_evidence s) Rule_Purpose \<and> rule_source_violation pu s = []" using nov by blast
  show ?thesis
  proof (intro conjI sel(3,5) ballI)
    fix refs r assume "refs \<in> ic_evidence ` set (iv_contexts (pl_inventory pl)) \<union> sl_evidence ` set (iv_slots (pl_inventory pl))
        \<union> ov_evidence ` set (cf_observed facts) \<union> ep_target_sources ` set (cf_pairs facts) \<union> ep_comparable_sources ` set (cf_pairs facts)"
    then have "allows pu refs Case_Purpose" by (rule bspec [OF cases])
    from c [OF this] show "refs \<noteq> []" "r \<in> set refs \<Longrightarrow> resolves g r" "r \<in> set refs \<Longrightarrow> cites (pu_forms pu) r" by blast+
  qed (use r rules v in blast)+
qed

end
