(* ===== verification/Static_Order.thy ===== *)
theory Static_Order
  imports Prelude
begin

text \<open>
  \<open>graphlib.TopologicalSorter(graph).static_order()\<close> of the standard library, which orders the
  arithmetic checks of a case review.  A graph maps a node to its predecessors; nodes are numbered in
  order of first mention; a round releases the nodes whose last predecessor was finished in the
  previous round.  A \<open>CycleError\<close> is \<open>None\<close>.
\<close>

type_synonym graph = "(string, string list) dict"

definition graph_nodes :: "graph \<Rightarrow> string list" where
  "graph_nodes g = fromkeys (concat (map (\<lambda>(n, ps). n # ps) g))"

definition predecessors :: "graph \<Rightarrow> string \<Rightarrow> string list" where
  "predecessors g n = (case dict_get g n of None \<Rightarrow> [] | Some ps \<Rightarrow> ps)"

text \<open>\<open>done(*group)\<close>: the successors released while the group is marked finished, in that order.\<close>

fun released :: "graph \<Rightarrow> string list \<Rightarrow> string list \<Rightarrow> string list" where
  "released g [] finished = []"
| "released g (n # ns) finished =
     filter (\<lambda>s. n \<in> set (predecessors g s) \<and> set (predecessors g s) \<subseteq> set (n # finished)) (map fst g)
     @ released g ns (n # finished)"

fun rounds :: "graph \<Rightarrow> nat \<Rightarrow> string list \<Rightarrow> string list \<Rightarrow> string list" where
  "rounds g 0 ready finished = finished"
| "rounds g (Suc k) ready finished =
     (if ready = [] then finished else rounds g k (released g ready (rev finished)) (finished @ ready))"

definition static_order :: "graph \<Rightarrow> string list option" where
  "static_order g =
     (let nodes = graph_nodes g;
          order = rounds g (length nodes) (filter (\<lambda>n. predecessors g n = []) nodes) []
      in if set nodes \<subseteq> set order then Some order else None)"

section \<open>Correctness\<close>

text \<open>The finished part: every node after its predecessors, nothing twice.\<close>

definition ordered :: "graph \<Rightarrow> string list \<Rightarrow> bool" where
  "ordered g xs = (distinct xs \<and> (\<forall>i < length xs. set (predecessors g (xs ! i)) \<subseteq> set (take i xs)))"

lemma ordered_append:
  assumes "ordered g xs" and "distinct ys" and "set xs \<inter> set ys = {}"
    and "\<And>y. y \<in> set ys \<Longrightarrow> set (predecessors g y) \<subseteq> set xs"
  shows "ordered g (xs @ ys)"
proof -
  have "set (predecessors g ((xs @ ys) ! i)) \<subseteq> set (take i (xs @ ys))" if "i < length (xs @ ys)" for i
  proof (cases "i < length xs")
    case True
    with assms(1) show ?thesis by (auto simp: ordered_def nth_append)
  next
    case False
    then have "(xs @ ys) ! i \<in> set ys" using that by (simp add: nth_append)
    from assms(4) [OF this] False show ?thesis by auto
  qed
  then show ?thesis using assms(1-3) by (auto simp: ordered_def)
qed

text \<open>
  What a round releases: exactly the nodes whose predecessors are finished now and were not before the
  group, each once.
\<close>

lemma released_set:
  "set (released g ns finished) =
     {s \<in> set (map fst g). set (predecessors g s) \<subseteq> set ns \<union> set finished \<and> \<not> set (predecessors g s) \<subseteq> set finished}"
  if "distinct ns" "set ns \<inter> set finished = {}"
  using that
proof (induction ns arbitrary: finished)
  case (Cons n ns)
  then have ih: "set (released g ns (n # finished)) = {s \<in> set (map fst g). set (predecessors g s) \<subseteq> set ns \<union> set (n # finished)
      \<and> \<not> set (predecessors g s) \<subseteq> set (n # finished)}" by simp
  have "n \<notin> set finished" using Cons.prems by simp
  then show ?case unfolding released.simps set_append ih by auto
qed auto

lemma released_distinct:
  "distinct (released g ns finished)" if "distinct (map fst g)" "distinct ns" "set ns \<inter> set finished = {}"
  using that
proof (induction ns arbitrary: finished)
  case (Cons n ns)
  then have "set (released g ns (n # finished)) \<inter> {s. set (predecessors g s) \<subseteq> set (n # finished)} = {}"
    using released_set [of ns "n # finished" g] by auto
  then show ?case using Cons by auto
qed simp

text \<open>The state of the loop: a finished prefix in order, and a ready group that is everything now possible.\<close>

definition round_inv :: "graph \<Rightarrow> string list \<Rightarrow> string list \<Rightarrow> bool" where
  "round_inv g ready finished =
     (ordered g (finished @ ready)
      \<and> set ready = {n \<in> set (graph_nodes g). set (predecessors g n) \<subseteq> set finished \<and> n \<notin> set finished}
      \<and> set finished \<subseteq> set (graph_nodes g))"

lemma predecessors_nodes: "m \<in> set (predecessors g n) \<Longrightarrow> m \<in> set (graph_nodes g) \<and> n \<in> set (map fst g)"
proof -
  assume m: "m \<in> set (predecessors g n)"
  then obtain ps where ps: "(n, ps) \<in> set g" "m \<in> set ps"
    by (cases "dict_get g n") (auto simp: predecessors_def dest: map_of_SomeD)
  then have "\<exists>x \<in> set g. m \<in> set (case x of (n, ps) \<Rightarrow> n # ps)" by (intro bexI [of _ "(n, ps)"]) simp_all
  then show ?thesis using ps(1) by (auto simp: graph_nodes_def intro: image_eqI [of _ fst "(n, ps)"])
qed

lemma keys_are_nodes: "n \<in> set (map fst g) \<Longrightarrow> n \<in> set (graph_nodes g)"
  by (force simp: graph_nodes_def)

lemma ordered_closed: "ordered g xs \<Longrightarrow> x \<in> set xs \<Longrightarrow> set (predecessors g x) \<subseteq> set xs"
  unfolding ordered_def in_set_conv_nth by (metis in_set_takeD subset_iff)

lemma round_step:
  assumes "dict_ok g" and "round_inv g ready finished"
  shows "round_inv g (released g ready (rev finished)) (finished @ ready)"
proof -
  have o: "ordered g (finished @ ready)" and d: "distinct ready" "set ready \<inter> set (rev finished) = {}"
    using assms(2) by (auto simp: round_inv_def ordered_def)
  have ready: "set ready = {n \<in> set (graph_nodes g). set (predecessors g n) \<subseteq> set finished \<and> n \<notin> set finished}"
    and fin: "set finished \<subseteq> set (graph_nodes g)" using assms(2) by (auto simp: round_inv_def)
  let ?r = "released g ready (rev finished)"
  have r: "set ?r = {s \<in> set (map fst g). set (predecessors g s) \<subseteq> set ready \<union> set finished \<and> \<not> set (predecessors g s) \<subseteq> set finished}"
    using released_set [OF d, of g] by simp
  have fin_closed: "ordered g finished" using o by (auto simp: ordered_def nth_append split: if_splits dest: spec)
  have new: "set ?r = {n \<in> set (graph_nodes g). set (predecessors g n) \<subseteq> set (finished @ ready) \<and> n \<notin> set (finished @ ready)}"
  proof (intro set_eqI iffI)
    fix s assume s: "s \<in> set ?r"
    then have "s \<notin> set finished" using ordered_closed [OF fin_closed] r by blast
    moreover have "s \<notin> set ready" using s r ready by blast
    ultimately show "s \<in> {n \<in> set (graph_nodes g). set (predecessors g n) \<subseteq> set (finished @ ready) \<and> n \<notin> set (finished @ ready)}"
      using s r keys_are_nodes by auto
  next
    fix s assume s: "s \<in> {n \<in> set (graph_nodes g). set (predecessors g n) \<subseteq> set (finished @ ready) \<and> n \<notin> set (finished @ ready)}"
    then have "\<not> set (predecessors g s) \<subseteq> set finished" using ready by auto
    then obtain m where "m \<in> set (predecessors g s)" by blast
    with s \<open>\<not> _\<close> r predecessors_nodes [of m g s] show "s \<in> set ?r" by auto
  qed
  have "ordered g ((finished @ ready) @ ?r)"
    by (rule ordered_append [OF o]) (use released_distinct [OF assms(1) d] new in auto)
  then show ?thesis using new ready fin by (auto simp: round_inv_def)
qed

lemma rounds_result:
  assumes "dict_ok g" and "round_inv g ready finished" and "length (graph_nodes g) \<le> k + length finished"
  shows "ordered g (rounds g k ready finished)
     \<and> {n \<in> set (graph_nodes g). set (predecessors g n) \<subseteq> set (rounds g k ready finished)} \<subseteq> set (rounds g k ready finished)
     \<and> set (rounds g k ready finished) \<subseteq> set (graph_nodes g)"
  using assms
proof (induction k arbitrary: ready finished)
  case 0
  have "distinct finished" "set finished \<subseteq> set (graph_nodes g)" using 0(2) by (auto simp: round_inv_def ordered_def)
  moreover have "distinct (graph_nodes g)" by (simp add: graph_nodes_def)
  ultimately have "set finished = set (graph_nodes g)"
    using 0(3) by (intro card_seteq) (simp_all add: distinct_card)
  moreover have "ordered g finished"
    using 0(2) by (auto simp: round_inv_def ordered_def nth_append split: if_splits dest: spec)
  ultimately show ?case by auto
next
  case (Suc k)
  show ?case
  proof (cases "ready = []")
    case True
    with Suc.prems(2) show ?thesis by (auto simp: round_inv_def)
  next
    case False
    then have "length (graph_nodes g) \<le> k + length (finished @ ready)" using Suc.prems(3) by (cases ready) auto
    with Suc.IH [OF Suc.prems(1) round_step [OF Suc.prems(1,2)]] False show ?thesis by simp
  qed
qed

lemma initial_round: "round_inv g (filter (\<lambda>n. predecessors g n = []) (graph_nodes g)) []"
  by (auto simp: round_inv_def ordered_def graph_nodes_def dest: nth_mem)

lemma static_order_rounds:
  assumes "dict_ok g"
  defines "xs \<equiv> rounds g (length (graph_nodes g)) (filter (\<lambda>n. predecessors g n = []) (graph_nodes g)) []"
  shows "ordered g xs" "set xs \<subseteq> set (graph_nodes g)" "static_order g = (if set (graph_nodes g) \<subseteq> set xs then Some xs else None)"
    "n \<in> set (graph_nodes g) \<Longrightarrow> set (predecessors g n) \<subseteq> set xs \<Longrightarrow> n \<in> set xs"
  using rounds_result [OF assms(1) initial_round] unfolding xs_def by (auto simp: static_order_def Let_def)

lemma static_order_Some:
  assumes "dict_ok g" and "static_order g = Some xs"
  shows "distinct xs \<and> set xs = set (graph_nodes g)"
proof -
  let ?xs = "rounds g (length (graph_nodes g)) (filter (\<lambda>n. predecessors g n = []) (graph_nodes g)) []"
  have "xs = ?xs" "set (graph_nodes g) \<subseteq> set xs"
    using assms(2) unfolding static_order_rounds(3) [OF assms(1)] by (simp_all only: option.inject split: if_splits) simp_all
  with static_order_rounds(1,2) [OF assms(1)] show ?thesis unfolding ordered_def by blast
qed

text \<open>
  The order of evaluation is a topological order or a cycle is reported, never both and never
  wrongly.  An order lists every node exactly once and each node after all of its predecessors; a
  cycle is reported if and only if some non-empty set of nodes lets each of its members depend on
  another member.
\<close>

lemma static_order_topological:
  assumes "dict_ok g"
  shows "(\<forall>xs. static_order g = Some xs \<longrightarrow> distinct xs \<and> set xs = set (graph_nodes g)
            \<and> (\<forall>i < length xs. set (predecessors g (xs ! i)) \<subseteq> set (take i xs)))
     \<and> (static_order g = None \<longleftrightarrow>
          (\<exists>S. S \<noteq> {} \<and> S \<subseteq> set (graph_nodes g) \<and> (\<forall>n \<in> S. set (predecessors g n) \<inter> S \<noteq> {})))"
proof -
  define xs where "xs = rounds g (length (graph_nodes g)) (filter (\<lambda>n. predecessors g n = []) (graph_nodes g)) []"
  note xs = static_order_rounds [OF assms, folded xs_def]
  have no_cycle: "S = {}" if sub: "set (graph_nodes g) \<subseteq> set xs" "S \<subseteq> set (graph_nodes g)" and cyc: "\<forall>n \<in> S. set (predecessors g n) \<inter> S \<noteq> {}" for S
  proof (rule ccontr)
    assume "S \<noteq> {}"
    then obtain i where i: "i < length xs" "xs ! i \<in> S" using sub by (metis all_not_in_conv in_set_conv_nth subset_iff)
    define k where "k = (LEAST i. i < length xs \<and> xs ! i \<in> S)"
    have k: "k < length xs" "xs ! k \<in> S" unfolding k_def by (metis (mono_tags, lifting) LeastI i)+
    with cyc obtain m where m: "m \<in> set (predecessors g (xs ! k))" "m \<in> S" by blast
    then have "m \<in> set (take k xs)" using xs(1) k(1) by (auto simp: ordered_def)
    then obtain j where "j < k" "xs ! j = m" using k(1) by (auto simp: in_set_conv_nth)
    moreover from this m(2) k(1) have "k \<le> j" unfolding k_def by (intro Least_le) simp
    ultimately show False by simp
  qed
  have stuck: "\<exists>S. S \<noteq> {} \<and> S \<subseteq> set (graph_nodes g) \<and> (\<forall>n \<in> S. set (predecessors g n) \<inter> S \<noteq> {})"
    if "\<not> set (graph_nodes g) \<subseteq> set xs"
    using that xs(4) predecessors_nodes by (intro exI [of _ "set (graph_nodes g) - set xs"]) blast
  show ?thesis
  proof (cases "set (graph_nodes g) \<subseteq> set xs")
    case True
    then have so: "static_order g = Some xs" using xs(3) by simp
    show ?thesis using so True xs(1,2) no_cycle [OF True] by (auto simp: ordered_def) blast+
  next
    case False
    with xs(3) stuck show ?thesis by simp
  qed
qed

lemma static_order_example: "static_order [(''t'', [''a'', ''b'']), (''b'', [''a''])] = Some [''a'', ''b'', ''t'']"
  by code_simp

end
