(* ===== verification/Case_Review.thy ===== *)
theory Case_Review
  imports Factor_Engine Fill_Candidates Source_Purpose Static_Order
begin

text \<open>
  \<open>domain/case_review.py\<close>: the deterministic review of a whole case.  The phases of \<open>review\<close> are
  definitions in the order of the code; the closures \<open>add\<close>, \<open>citations_valid\<close> and \<open>finish\<close> are
  functions of the state they capture.  A finding keeps its identifier, kind, status, context, factor, evidence
  and originating fields; the trace and the fields for display (rule, observed and expected texts) are left
  out.  \<open>sorted\<close> lists of identifiers are sets.  Validators that pydantic runs again on data that was
  valid before are not repeated.
\<close>

section \<open>Findings and results\<close>

record review_finding =
  rf_id :: finding_id
  rf_kind :: string
  rf_status :: evaluation_status
  rf_context :: "comparison_context option"
  rf_factor_id :: "string option"
  rf_evidence :: "source_citation list"
  rf_originating_field_ids :: "string list"

record coverage =
  cv_required :: "finding_id list"
  cv_verified :: "finding_id set"
  cv_missing :: "finding_id set"
  cv_unsupported :: "string list"

record case_review_result =
  cr_identity :: case_identity
  cr_comparisons :: "factor_review_result list"
  cr_findings :: "review_finding list"
  cr_coverage :: coverage
  cr_status :: evaluation_status

record case_reviewer =
  rv_authorization :: "(review_material \<Rightarrow> bool) option"
  rv_minimum_confidence :: pyfloat

text \<open>Library code that the review calls: case folding, float rounding, serialisation and hashing.\<close>

record review_env =
  env_fold_text :: "string \<Rightarrow> string"
  env_to_float :: "decimal \<Rightarrow> pyfloat"
  env_well_formed :: "factor_review_result \<Rightarrow> bool"
  env_digest_of :: "confirmation_data \<Rightarrow> digest"

definition make_reviewer :: "(review_material \<Rightarrow> bool) option \<Rightarrow> pyfloat \<Rightarrow> case_reviewer result" where
  "make_reviewer auth minimum =
     bind_result (validate_minimum_confidence minimum) (\<lambda>c. Inr \<lparr>rv_authorization = auth, rv_minimum_confidence = c\<rparr>)"

definition source_cell :: "source_citation \<Rightarrow> string \<times> digest \<times> string \<times> int \<times> string \<times> box" where
  "source_cell r = (ct_document_id r, ct_content_hash r, ct_version r, ct_page r, ct_region_id r, ct_bbox r)"

definition add_at :: "finding_id \<Rightarrow> string \<Rightarrow> evaluation_status \<Rightarrow> comparison_context option \<Rightarrow> string option \<Rightarrow> source_citation list \<Rightarrow>
    review_finding" where
  "add_at i kind status cx f evidence =
     \<lparr>rf_id = i, rf_kind = kind, rf_status = status, rf_context = cx, rf_factor_id = f, rf_evidence = evidence, rf_originating_field_ids = []\<rparr>"

definition add :: "finding_id \<Rightarrow> string \<Rightarrow> evaluation_status \<Rightarrow> source_citation list \<Rightarrow> review_finding" where
  "add i kind status evidence = add_at i kind status None None evidence"

definition citations_valid :: "source_registry \<Rightarrow> source_citation list \<Rightarrow> bool" where
  "citations_valid g refs = (refs \<noteq> [] \<and> list_all (resolves g) refs)"

section \<open>finish\<close>

definition is_arithmetic :: "finding_id \<Rightarrow> bool" where
  "is_arithmetic i = (case i of Arithmetic_Id _ \<Rightarrow> True | _ \<Rightarrow> False)"

definition finding_origins :: "(finding_id, string) dict \<Rightarrow> string list \<Rightarrow> review_finding \<Rightarrow> string list" where
  "finding_origins origin_by source_origins f =
     (let origins = (if dict_get origin_by (rf_id f) \<noteq> None \<or> is_arithmetic (rf_id f) then source_origins else [])
      in if origins = [] \<and> rf_kind f = ''observed_source_binding''
         then (case dict_get origin_by (rf_id f) of None \<Rightarrow> [] | Some x \<Rightarrow> [x]) else origins)"

definition with_origins :: "(finding_id, string) dict \<Rightarrow> string list \<Rightarrow> review_finding \<Rightarrow> review_finding" where
  "with_origins origin_by source_origins f =
     (if rf_status f = E_VERIFIED then f
      else let origins = finding_origins origin_by source_origins f
           in if origins \<noteq> [] then f\<lparr>rf_originating_field_ids := origins\<rparr> else f)"

definition finish_status :: "finding_id list \<Rightarrow> review_finding list \<Rightarrow> evaluation_status" where
  "finish_status required findings =
     (let verified = rf_id ` set (filter (\<lambda>f. rf_status f = E_VERIFIED) findings);
          blocked = rf_id ` set (filter (\<lambda>f. rf_status f \<noteq> E_VERIFIED) findings)
      in if list_ex (\<lambda>f. rf_status f = E_FAILED) findings then E_FAILED
         else if blocked \<noteq> {} \<or> set required - verified \<noteq> {} then E_NEEDS_REVIEW else E_VERIFIED)"

definition finish_case :: "review_policy \<Rightarrow> (finding_id, string) dict \<Rightarrow> string list \<Rightarrow> finding_id list \<Rightarrow>
    factor_review_result list \<Rightarrow> review_finding list \<Rightarrow> case_review_result" where
  "finish_case pl origin_by source_origins required comparisons findings =
     (let verified = rf_id ` set (filter (\<lambda>f. rf_status f = E_VERIFIED) findings);
          blocked = rf_id ` set (filter (\<lambda>f. rf_status f \<noteq> E_VERIFIED) findings)
      in \<lparr>cr_identity = pl_identity pl, cr_comparisons = comparisons,
          cr_findings = map (with_origins origin_by source_origins) findings,
          cr_coverage = \<lparr>cv_required = required, cv_verified = verified - blocked,
            cv_missing = set required - (verified - blocked), cv_unsupported = iv_unsupported (pl_inventory pl)\<rparr>,
          cr_status = finish_status required findings\<rparr>)"

section \<open>Sources and inventory\<close>

definition registry_matches :: "source_registry \<Rightarrow> source_registry \<Rightarrow> bool result" where
  "registry_matches current reviewed =
     (if length (sy_documents current) \<noteq> length (sy_documents reviewed) then Inr False
      else all_result (\<lambda>r. any_result (\<lambda>c. same_identity_and_content c r) (sy_documents current)) (sy_documents reviewed))"

definition source_violations :: "source_registry \<Rightarrow> source_document option \<Rightarrow> source_document option \<Rightarrow> review_policy \<Rightarrow> case_facts \<Rightarrow>
    (finding_id \<times> source_citation list) list result" where
  "source_violations g forms criteria pl facts =
     on_error (bind_result (selected g forms criteria) (\<lambda>pu. Inr (violations pu pl facts)))
       (\<lambda>e. if is_value_error e then Inr [(Sources_Id, [])] else Inl e)"

definition origin_by_finding_id :: "review_inventory \<Rightarrow> (finding_id, string) dict" where
  "origin_by_finding_id iv = map (\<lambda>s. (Observed_Id (sl_id s), sl_id s)) (iv_slots iv)"

definition source_origin_ids :: "review_inventory \<Rightarrow> (finding_id \<times> source_citation list) list \<Rightarrow> string list" where
  "source_origin_ids iv bad = sort (fromkeys (List.map_filter (\<lambda>(i, _). dict_get (origin_by_finding_id iv) i) bad))"

definition trust_findings :: "bool \<Rightarrow> bool \<Rightarrow> (finding_id \<times> source_citation list) list \<Rightarrow> review_finding list" where
  "trust_findings authorized matching bad =
     [add Trust_Id ''approval'' (if authorized then E_VERIFIED else E_NEEDS_REVIEW) [],
      add Sources_Id ''source_identity'' (if matching then E_VERIFIED else E_FAILED) []]
     @ map (\<lambda>(i, refs). add i ''source_purpose'' E_NEEDS_REVIEW refs) bad"

definition duplicate_identities :: "review_inventory \<Rightarrow> case_facts \<Rightarrow> bool" where
  "duplicate_identities iv facts =
     (\<not> distinct (map ic_context (iv_contexts iv))
      \<or> \<not> distinct (map (\<lambda>p. (ep_context p, fp_factor_id (ep_pair p))) (cf_pairs facts))
      \<or> \<not> distinct (map sl_id (iv_slots iv)) \<or> \<not> distinct (map ac_id (iv_checks iv))
      \<or> \<not> distinct (map ov_slot_id (cf_observed facts)) \<or> \<not> distinct (map ec_id (iv_empty_columns iv)))"

definition factor_bound :: "slot_value \<Rightarrow> bool" where
  "factor_bound v = (v \<in> {Target_Grade, Comparable_Grade, Adjustment_Percent})"

text \<open>Contexts are distinct here, so the first match is the dictionary's entry.\<close>

definition slot_binding :: "review_inventory \<Rightarrow> review_slot \<Rightarrow> bool" where
  "slot_binding iv s =
     (case find (\<lambda>e. ic_context e = sl_context s) (iv_contexts iv) of
        None \<Rightarrow> False
      | Some e \<Rightarrow> if factor_bound (sl_value s)
                  then (case sl_factor_id s of None \<Rightarrow> False | Some f \<Rightarrow> f \<in> set (ic_factor_ids e))
                  else sl_factor_id s = None)"

definition valid_slots :: "review_inventory \<Rightarrow> review_slot list" where
  "valid_slots iv = filter (slot_binding iv) (iv_slots iv)"

definition page_coverage :: "review_inventory \<Rightarrow> source_document \<Rightarrow> bool" where
  "page_coverage iv d = (sd_role d \<in> {Forms, Criteria} \<longrightarrow>
     dict_get (iv_inspected_pages iv) (sd_document_id d) = Some (map sp_number (sd_pages d)))"

definition document_tables :: "source_document \<Rightarrow> string set" where
  "document_tables d =
     set (filter (\<lambda>t. t \<noteq> []) (List.map_filter sr_table_id (concat (map sp_regions (sd_pages d)))))"

definition table_coverage :: "review_inventory \<Rightarrow> source_document \<Rightarrow> bool" where
  "table_coverage iv d = (sd_role d \<in> {Forms, Criteria} \<longrightarrow>
     (let declared = (case dict_get (iv_inspected_tables iv) (sd_document_id d) of None \<Rightarrow> [] | Some ts \<Rightarrow> ts)
      in set declared = document_tables d \<and> distinct declared))"

definition only_if :: "bool \<Rightarrow> 'a \<Rightarrow> 'a list" where
  "only_if b x = (if b then [x] else [])"

definition inventory_findings :: "source_registry \<Rightarrow> review_inventory \<Rightarrow> case_facts \<Rightarrow> review_finding list" where
  "inventory_findings g iv facts =
     only_if (\<not> set (map ov_slot_id (cf_observed facts)) \<subseteq> set (map sl_id (iv_slots iv))) (add Inventory_Id ''unknown_observed'' E_FAILED [])
     @ only_if (\<not> set (map ep_context (cf_pairs facts)) \<subseteq> set (map ic_context (iv_contexts iv))) (add Inventory_Id ''unknown_context'' E_FAILED [])
     @ concat (map (\<lambda>s. only_if (\<not> slot_binding iv s) (add_at (Observed_Id (sl_id s)) ''slot_binding'' E_FAILED (Some (sl_context s)) (sl_factor_id s) (sl_evidence s))) (iv_slots iv))
     @ concat (map (\<lambda>d. only_if (\<not> page_coverage iv d) (add Inventory_Id ''page_coverage'' E_NEEDS_REVIEW [])) (sy_documents g))
     @ concat (map (\<lambda>d. only_if (\<not> table_coverage iv d) (add Inventory_Id ''table_coverage'' E_NEEDS_REVIEW [])) (sy_documents g))
     @ concat (map (\<lambda>c. only_if (\<not> citations_valid g (ec_evidence c)) (add Inventory_Id ''empty_column_evidence'' E_NEEDS_REVIEW [])) (iv_empty_columns iv))
     @ map (\<lambda>_. add Inventory_Id ''unresolved'' E_NEEDS_REVIEW []) (iv_unresolved iv @ cf_unresolved facts @ iv_unsupported iv)
     @ [add Inventory_Id ''inventory'' E_VERIFIED []]"

definition observation_of :: "case_facts \<Rightarrow> string \<Rightarrow> observed_value option" where
  "observation_of facts i = find (\<lambda>v. ov_slot_id v = i) (cf_observed facts)"

definition slot_bound :: "source_registry \<Rightarrow> case_facts \<Rightarrow> review_slot \<Rightarrow> bool" where
  "slot_bound g facts s =
     (case observation_of facts (sl_id s) of
        None \<Rightarrow> False
      | Some v \<Rightarrow> citations_valid g (sl_evidence s) \<and> citations_valid g (ov_evidence v)
                  \<and> source_cell ` set (sl_evidence s) = source_cell ` set (ov_evidence v))"

definition bound_slots :: "source_registry \<Rightarrow> review_inventory \<Rightarrow> case_facts \<Rightarrow> review_slot list" where
  "bound_slots g iv facts = filter (slot_bound g facts) (valid_slots iv)"

definition binding_findings :: "source_registry \<Rightarrow> review_inventory \<Rightarrow> case_facts \<Rightarrow> review_finding list" where
  "binding_findings g iv facts =
     concat (map (\<lambda>s. only_if (\<not> slot_bound g facts s) (add_at (Observed_Id (sl_id s)) ''observed_source_binding'' E_NEEDS_REVIEW (Some (sl_context s)) (sl_factor_id s) (sl_evidence s)))
       (valid_slots iv))"

section \<open>Reliability of a factor pair\<close>

definition evidence_cites :: "source_registry \<Rightarrow> evidence_ref \<Rightarrow> source_citation \<Rightarrow> bool result" where
  "evidence_cites g e r =
     (case ev_source_file e of
        None \<Rightarrow> Inr False
      | Some f \<Rightarrow>
          and_result (ev_document_id e = ct_document_id r \<and> ev_page e = ct_page r \<and> ev_bounding_box e = Some (ct_bbox r)
              \<and> ev_coordinate_system e = Some Pdf_Bottom_Left)
            (bind_result (document_identity f) (\<lambda>a.
             bind_result (some_or Other_Exception (find (\<lambda>d. sd_document_id d = ct_document_id r) (sy_documents g))) (\<lambda>d.
             bind_result (document_identity (sd_uri d)) (\<lambda>b. Inr (a = b))))))"

definition excerpts_agree :: "string option \<Rightarrow> source_citation list \<Rightarrow> bool" where
  "excerpts_agree raw refs = (case raw of None \<Rightarrow> False
     | Some t \<Rightarrow> list_all (\<lambda>r. ct_excerpt r \<noteq> [] \<longrightarrow> contains_text t (ct_excerpt r) \<or> contains_text (ct_excerpt r) t) refs)"

definition side_reliable :: "source_registry \<Rightarrow> evidenced_pair \<Rightarrow> side \<Rightarrow> bool result" where
  "side_reliable g p sd =
     (let refs = side_sources p sd; r = side_reliability p sd; x = side_observation p sd in
      and_result (citations_valid g refs \<and> rl_method r \<noteq> Model_Proposed \<and> rl_unresolved r = []
          \<and> rl_selection r \<noteq> Selection_Ambiguous \<and> ob_raw_text x \<noteq> None \<and> ob_evidence x \<noteq> [])
        (bind_result (all_result (\<lambda>e. any_result (evidence_cites g e) refs) (ob_evidence x)) (\<lambda>b.
          Inr (b \<and> excerpts_agree (ob_raw_text x) refs))))"

text \<open>Every used citation needs an evidence entry, not just the reverse mapping.\<close>

definition citations_evidenced :: "evidenced_pair \<Rightarrow> side \<Rightarrow> bool" where
  "citations_evidenced p sd =
     list_all (\<lambda>r. list_ex (\<lambda>e. ev_document_id e = ct_document_id r \<and> ev_page e = ct_page r \<and> ev_bounding_box e = Some (ct_bbox r))
       (ob_evidence (side_observation p sd))) (side_sources p sd)"

definition side_confirmed :: "review_env \<Rightarrow> bool \<Rightarrow> evidenced_pair \<Rightarrow> side \<Rightarrow> bool" where
  "side_confirmed env authorized p sd =
     (rl_method (side_reliability p sd) = Reviewer_Confirmed \<and> authorized \<and> confirmation_holds (env_digest_of env) p sd)"

definition side_method_ok :: "review_env \<Rightarrow> bool \<Rightarrow> evidenced_pair \<Rightarrow> side \<Rightarrow> bool" where
  "side_method_ok env authorized p sd =
     (let r = side_reliability p sd in
      case rl_method r of
        Reviewer_Confirmed \<Rightarrow> side_confirmed env authorized p sd
      | Native_Numeric \<Rightarrow> rl_confidence_kind r = Measured \<and> rl_provenance r = Native_Extraction \<and> rl_producer r \<noteq> None
      | Model_Proposed \<Rightarrow> False)"

definition dec_min :: "decimal \<Rightarrow> decimal \<Rightarrow> decimal" where
  "dec_min a b = (if dec_less b a then b else a)"

definition effective_observation :: "evidenced_pair \<Rightarrow> side \<Rightarrow> factor_observation" where
  "effective_observation p sd =
     (let x = side_observation p sd in
      if rl_method (side_reliability p sd) = Native_Numeric \<and> ob_evidence x \<noteq> []
      then x\<lparr>ob_confidence := foldl dec_min (ob_confidence x) (map ev_confidence (ob_evidence x))\<rparr> else x)"

definition effective_pair :: "evidenced_pair \<Rightarrow> factor_pair" where
  "effective_pair p = \<lparr>fp_factor_id = fp_factor_id (ep_pair p), fp_target = effective_observation p Target_Side,
     fp_comparable = effective_observation p Comparable_Side\<rparr>"

definition pair_reliable :: "review_env \<Rightarrow> bool \<Rightarrow> source_registry \<Rightarrow> evidenced_pair \<Rightarrow> bool result" where
  "pair_reliable env authorized g p =
     bind_result (all_result (side_reliable g p) [Target_Side, Comparable_Side]) (\<lambda>b.
       Inr (b \<and> list_all (\<lambda>sd. citations_evidenced p sd \<and> side_method_ok env authorized p sd) [Target_Side, Comparable_Side]))"

section \<open>One comparison context\<close>

record factor_scan =
  fs_findings :: "review_finding list"
  fs_pairs :: "factor_pair list"
  fs_reliable :: "string list"
  fs_confirmed :: "(string \<times> side) list"

definition scan_factor :: "review_env \<Rightarrow> bool \<Rightarrow> source_registry \<Rightarrow> comparison_context \<Rightarrow> factor_rule_set \<Rightarrow> evidenced_pair list \<Rightarrow>
    string \<Rightarrow> factor_scan result" where
  "scan_factor env authorized g cx rs pairs f =
     (case find (\<lambda>p. fp_factor_id (ep_pair p) = f) pairs of
        None \<Rightarrow> Inr \<lparr>fs_findings = [add_at (Factor_Id cx f) ''missing_factor'' E_NEEDS_REVIEW (Some cx) (Some f) []], fs_pairs = [], fs_reliable = [], fs_confirmed = []\<rparr>
      | Some p \<Rightarrow>
          if f \<notin> fr_factor_id ` set (frs_rules rs)
          then Inr \<lparr>fs_findings = [add_at (Factor_Id cx f) ''missing_factor'' E_NEEDS_REVIEW (Some cx) (Some f) []], fs_pairs = [], fs_reliable = [], fs_confirmed = []\<rparr>
          else bind_result (pair_reliable env authorized g p) (\<lambda>b.
            let confirmed = map (Pair f) (filter (side_confirmed env authorized p) [Target_Side, Comparable_Side]) in
            Inr (if b then \<lparr>fs_findings = [], fs_pairs = [effective_pair p], fs_reliable = [f], fs_confirmed = confirmed\<rparr>
                 else \<lparr>fs_findings = [add_at (Factor_Id cx f) ''evidence_reliability'' E_NEEDS_REVIEW (Some cx) (Some f) []], fs_pairs = [],
                       fs_reliable = [], fs_confirmed = confirmed\<rparr>)))"

definition scan_factors :: "review_env \<Rightarrow> bool \<Rightarrow> source_registry \<Rightarrow> comparison_context \<Rightarrow> factor_rule_set \<Rightarrow> evidenced_pair list \<Rightarrow>
    string list \<Rightarrow> factor_scan result" where
  "scan_factors env authorized g cx rs pairs fids =
     bind_result (map_result (scan_factor env authorized g cx rs pairs) fids) (\<lambda>ss.
       Inr \<lparr>fs_findings = concat (map fs_findings ss), fs_pairs = concat (map fs_pairs ss),
            fs_reliable = concat (map fs_reliable ss), fs_confirmed = concat (map fs_confirmed ss)\<rparr>)"

definition applicable :: "case_identity \<Rightarrow> comparison_context \<Rightarrow> scoped_rules \<Rightarrow> bool" where
  "applicable ident cx s =
     (let ap = frs_applicability (sc_rules s) in
      sc_context s = cx \<and> sc_zone s = ci_zone ident \<and> ap_jurisdiction ap = ci_district ident
      \<and> ap_land_use_category ap = ci_land_use_category ident
      \<and> (case ap_effective_from ap of None \<Rightarrow> True | Some d \<Rightarrow> d \<le> ci_effective_date ident)
      \<and> (case ap_effective_to ap of None \<Rightarrow> True | Some d \<Rightarrow> ci_effective_date ident \<le> d))"

definition rule_source_valid :: "source_registry \<Rightarrow> inventory_context \<Rightarrow> scoped_rules \<Rightarrow> bool" where
  "rule_source_valid g entry s =
     (let src = frs_source_document (sc_rules s) in
      list_ex (\<lambda>d. sd_document_id d = rs_document_id src \<and> sd_content_hash d = rs_content_hash src \<and> sd_version d = sc_source_version s)
        (sy_documents g)
      \<and> rs_pages src \<noteq> [] \<and> citations_valid g (sc_evidence s) \<and> citations_valid g (ic_evidence entry)
      \<and> frs_status (sc_rules s) \<noteq> Rejected
      \<and> list_all (\<lambda>e. ct_document_id e = rs_document_id src \<and> ct_page e \<in> set (rs_pages src)) (sc_evidence s))"

record context_outcome =
  co_findings :: "review_finding list"
  co_comparison :: "factor_review_result option"
  co_expected :: "(string, candidate) dict"

definition stopped :: "review_finding \<Rightarrow> context_outcome" where
  "stopped f = \<lparr>co_findings = [f], co_comparison = None, co_expected = []\<rparr>"

definition critical_factors :: "factor_rule_set \<Rightarrow> string set" where
  "critical_factors rs = fr_factor_id ` set (filter fr_critical (frs_rules rs))"

definition coverage_findings :: "comparison_context \<Rightarrow> inventory_context \<Rightarrow> factor_rule_set \<Rightarrow> evidenced_pair list \<Rightarrow> review_finding list" where
  "coverage_findings cx entry rs pairs =
     only_if (\<not> critical_factors rs \<subseteq> set (ic_factor_ids entry)) (add_at (Context_Id cx) ''rule_coverage'' E_NEEDS_REVIEW (Some cx) None [])
     @ only_if (\<not> (\<lambda>p. fp_factor_id (ep_pair p)) ` set pairs \<subseteq> set (ic_factor_ids entry)) (add_at (Context_Id cx) ''unknown_factor'' E_FAILED (Some cx) None [])"

definition item_value :: "slot_value \<Rightarrow> factor_evaluation_result \<Rightarrow> candidate option" where
  "item_value v r = (case v of
     Target_Grade \<Rightarrow> map_option (Text \<circ> grade_value) (fv_target_grade r)
   | Comparable_Grade \<Rightarrow> map_option (Text \<circ> grade_value) (fv_comparable_grade r)
   | Adjustment_Percent \<Rightarrow> map_option Number (fv_adjustment_percent r)
   | _ \<Rightarrow> None)"

definition slot_expectation :: "inventory_context \<Rightarrow> factor_review_result \<Rightarrow> evaluation_status \<Rightarrow> string list \<Rightarrow> review_slot \<Rightarrow> candidate option" where
  "slot_expectation entry result validation reliable s =
     (case sl_factor_id s of
        Some f \<Rightarrow> (case filter (\<lambda>r. fv_factor_id r = f) (fw_results result) of
            [item] \<Rightarrow> if fv_status item = E_VERIFIED \<and> f \<in> set reliable then item_value (sl_value s) item else None
          | _ \<Rightarrow> None)
      | None \<Rightarrow> if sl_value s = Total \<and> set (ic_factor_ids entry) \<subseteq> set reliable \<and> validation = E_VERIFIED
                then map_option Number (su_total_adjustment_percent (fw_summary result)) else None)"

definition expected_entries :: "inventory_context \<Rightarrow> factor_review_result \<Rightarrow> evaluation_status \<Rightarrow> string list \<Rightarrow> review_slot list \<Rightarrow>
    (string, candidate) dict" where
  "expected_entries entry result validation reliable slots =
     List.map_filter (\<lambda>s. map_option (Pair (sl_id s)) (slot_expectation entry result validation reliable s))
       (filter (\<lambda>s. sl_context s = ic_context entry) slots)"

definition source_hashes :: "source_registry \<Rightarrow> (string, digest) dict" where
  "source_hashes g = map (\<lambda>d. (sd_document_id d, sd_content_hash d)) (sy_documents g)"

definition factor_finding :: "comparison_context \<Rightarrow> evidenced_pair list \<Rightarrow> factor_evaluation_result \<Rightarrow> review_finding" where
  "factor_finding cx pairs item =
     add_at (Factor_Id cx (fv_factor_id item)) ''factor'' (fv_status item) (Some cx) (Some (fv_factor_id item))
       (concat (map (\<lambda>p. if fp_factor_id (ep_pair p) = fv_factor_id item then ep_target_sources p @ ep_comparable_sources p else []) pairs))"

text \<open>From the selected rule set to the comparison: scan, evaluate, verify, and what the slots may expect.\<close>

definition compare_context :: "review_env \<Rightarrow> case_reviewer \<Rightarrow> bool \<Rightarrow> source_registry \<Rightarrow> review_policy \<Rightarrow> evidenced_pair list \<Rightarrow>
    review_slot list \<Rightarrow> inventory_context \<Rightarrow> factor_rule_set \<Rightarrow> context_outcome result" where
  "compare_context env rv authorized g pl pairs slots entry rs =
     (let cx = ic_context entry; approved = rs\<lparr>frs_status := Approved\<rparr>; minimum = rv_minimum_confidence rv in
      bind_result (scan_factors env authorized g cx rs pairs (ic_factor_ids entry)) (\<lambda>scan.
      let inputs = \<lparr>fe_case_id = ci_case_id (pl_identity pl), fe_rule_set_id = frs_rule_set_id rs, fe_factors = fs_pairs scan\<rparr> in
      bind_result (make_engine approved minimum (fs_confirmed scan)) (\<lambda>en.
      bind_result (engine_evaluate (env_fold_text env) (env_to_float env) en inputs) (\<lambda>evaluated.
      let result = evaluated\<lparr>fw_context := Some cx, fw_case_version := Some (ci_version (pl_identity pl)), fw_source_hashes := source_hashes g\<rparr> in
      bind_result (verify_review (env_fold_text env) (env_to_float env) (env_well_formed env) result approved (Some inputs) minimum (fs_confirmed scan))
        (\<lambda>validation.
        Inr \<lparr>co_findings = coverage_findings cx entry rs pairs @ fs_findings scan
               @ [add_at (Context_Id cx) ''calculation'' (vr_status validation) (Some cx) None []] @ map (factor_finding cx pairs) (fw_results result),
             co_comparison = Some result,
             co_expected = expected_entries entry result (vr_status validation) (fs_reliable scan) slots\<rparr>)))))"

definition review_context :: "review_env \<Rightarrow> case_reviewer \<Rightarrow> bool \<Rightarrow> source_registry \<Rightarrow> review_policy \<Rightarrow> case_facts \<Rightarrow>
    review_slot list \<Rightarrow> inventory_context \<Rightarrow> context_outcome result" where
  "review_context env rv authorized g pl facts slots entry =
     (let cx = ic_context entry in
      case filter (applicable (pl_identity pl) cx) (pl_rule_sets pl) of
        [] \<Rightarrow> Inr (stopped (add_at (Context_Id cx) ''not_applicable'' E_NEEDS_REVIEW (Some cx) None []))
      | [s] \<Rightarrow>
          if \<not> rule_source_valid g entry s
          then Inr (stopped (add_at (Context_Id cx) (if frs_status (sc_rules s) = Rejected then ''rule_rejected'' else ''rule_source'') E_NEEDS_REVIEW (Some cx) None []))
          else if \<not> distinct (ic_factor_ids entry)
          then Inr (stopped (add_at (Context_Id cx) ''duplicate_factor'' E_FAILED (Some cx) None []))
          else compare_context env rv authorized g pl (filter (\<lambda>p. ep_context p = cx) (cf_pairs facts)) slots entry (sc_rules s)
      | _ \<Rightarrow> Inr (stopped (add_at (Context_Id cx) ''selection_conflict'' E_NEEDS_REVIEW (Some cx) None [])))"

definition context_required :: "inventory_context \<Rightarrow> finding_id list" where
  "context_required entry = Context_Id (ic_context entry) # map (Factor_Id (ic_context entry)) (ic_factor_ids entry)"

section \<open>Arithmetic\<close>

definition graph_of :: "review_slot list \<Rightarrow> arithmetic_check list \<Rightarrow> graph" where
  "graph_of slots checks =
     foldl (\<lambda>g c. dict_set (ac_target c) (fromkeys (predecessors g (ac_target c) @ ac_inputs c)) g) (map (\<lambda>s. (sl_id s, [])) slots) checks"

record arithmetic_state =
  as_trusted :: "(string, decimal) dict"
  as_findings :: "review_finding list"

record arithmetic_env =
  ae_registry :: source_registry
  ae_facts :: case_facts
  ae_checks :: "arithmetic_check list"
  ae_valid :: "review_slot list"
  ae_bound :: "review_slot list"
  ae_expected :: "(string, candidate) dict"
  ae_cyclic :: bool
  ae_source_trust :: bool

definition slot_named :: "review_slot list \<Rightarrow> string \<Rightarrow> review_slot option" where
  "slot_named slots i = find (\<lambda>s. sl_id s = i) slots"

text \<open>Why a check cannot be applied, if it cannot.\<close>

definition check_reason :: "arithmetic_env \<Rightarrow> (string, decimal) dict \<Rightarrow> arithmetic_check \<Rightarrow> string option" where
  "check_reason ae trusted c =
     (if slot_named (ae_valid ae) (ac_target c) = None \<or> (\<exists>i \<in> set (ac_inputs c). slot_named (ae_valid ae) i = None)
         \<or> \<not> citations_valid (ae_registry ae) (ac_evidence c) then Some ''arithmetic_definition''
      else if ae_cyclic ae \<or> (\<exists>i \<in> set (ac_inputs c). dict_get trusted i = None) \<or> slot_named (ae_bound ae) (ac_target c) = None
      then Some ''arithmetic_dependency'' else None)"

definition check_comparison :: "(string, decimal) dict \<Rightarrow> arithmetic_check \<Rightarrow> arithmetic_comparison result" where
  "check_comparison trusted c =
     bind_result (map_result (\<lambda>i. some_or Key_Error (dict_get trusted i)) (ac_inputs c)) (\<lambda>xs.
     bind_result (calculate (ac_kind c) xs (Some (ac_quantum c))) (\<lambda>e. Inr \<lparr>cmp_check = c, cmp_expected = e\<rparr>))"

text \<open>The loop over the checks of one target: comparisons, whether all are ready, and findings.\<close>

fun target_checks :: "arithmetic_env \<Rightarrow> (string, decimal) dict \<Rightarrow> arithmetic_check list \<Rightarrow>
    (arithmetic_comparison list \<times> bool \<times> review_finding list) result" where
  "target_checks ae trusted [] = Inr ([], True, [])"
| "target_checks ae trusted (c # cs) =
     (case check_reason ae trusted c of
        Some reason \<Rightarrow> bind_result (target_checks ae trusted cs) (\<lambda>(ds, ready, fs).
          Inr (ds, False, add (Arithmetic_Id (ac_id c)) reason E_NEEDS_REVIEW (ac_evidence c) # fs))
      | None \<Rightarrow> bind_result (check_comparison trusted c) (\<lambda>d. bind_result (target_checks ae trusted cs) (\<lambda>(ds, ready, fs).
          Inr (d # ds, ready, fs))))"

definition constraint_finding :: "validated_slot \<Rightarrow> arithmetic_comparison \<Rightarrow> review_finding" where
  "constraint_finding v d =
     add (Arithmetic_Id (ac_id (cmp_check d))) ''arithmetic''
       (case vs_candidate v of
          None \<Rightarrow> E_NEEDS_REVIEW
        | Some x \<Rightarrow> if matches_candidate x d then E_VERIFIED else E_FAILED) (ac_evidence (cmp_check d))"

definition process_target :: "arithmetic_env \<Rightarrow> string \<Rightarrow> arithmetic_state \<Rightarrow> arithmetic_state result" where
  "process_target ae t st =
     (let checks = filter (\<lambda>c. ac_target c = t) (ae_checks ae) in
      bind_result (target_checks ae (as_trusted st) checks) (\<lambda>(ds, applied, fs).
      let ready = (\<not> (ae_cyclic ae \<and> checks \<noteq> []) \<and> applied) in
      case (slot_named (ae_bound ae) t, observation_of (ae_facts ae) t) of
        (Some s, Some v) \<Rightarrow>
          bind_result (validate_slot s v (dict_get (ae_expected ae) t) ds ready (ae_source_trust ae)) (\<lambda>w.
            Inr \<lparr>as_trusted = (case trusted_number w of None \<Rightarrow> as_trusted st | Some x \<Rightarrow> dict_set t x (as_trusted st)),
                 as_findings = as_findings st @ fs @ map (constraint_finding w) ds
                   @ [add_at (Observed_Id t) (vs_kind w) (vs_status w) (Some (sl_context s)) (sl_factor_id s) (sl_evidence s)]\<rparr>)
      | (Some s, None) \<Rightarrow> Inl Key_Error
      | _ \<Rightarrow> Inr (st\<lparr>as_findings := as_findings st @ fs\<rparr>)))"

fun process_targets :: "arithmetic_env \<Rightarrow> string list \<Rightarrow> arithmetic_state \<Rightarrow> arithmetic_state result" where
  "process_targets ae [] st = Inr st"
| "process_targets ae (t # ts) st = bind_result (process_target ae t st) (process_targets ae ts)"

section \<open>review\<close>

definition claimed_finding :: "review_env \<Rightarrow> factor_review_result list \<Rightarrow> factor_review_result list \<Rightarrow> review_finding" where
  "claimed_finding env supplied comparisons =
     add Claimed_Id ''independent_result''
       (if list_all (env_well_formed env) supplied \<and> supplied = comparisons then E_VERIFIED else E_FAILED) []"

definition material_authorized :: "case_reviewer \<Rightarrow> review_policy \<Rightarrow> case_facts \<Rightarrow> bool" where
  "material_authorized rv pl facts =
     (case rv_authorization rv of None \<Rightarrow> False | Some permits \<Rightarrow> permits \<lparr>rm_policy = pl, rm_facts = facts\<rparr>)"

definition comparisons_of :: "context_outcome list \<Rightarrow> factor_review_result list" where
  "comparisons_of outcomes = List.map_filter co_comparison outcomes"

text \<open>The findings before the arithmetic, in the order in which they are added.\<close>

definition phase_findings :: "review_env \<Rightarrow> review_inventory \<Rightarrow> case_facts \<Rightarrow> source_registry \<Rightarrow> factor_review_result list option \<Rightarrow>
    review_finding list \<Rightarrow> context_outcome list \<Rightarrow> review_finding list" where
  "phase_findings env iv facts g claimed trust outcomes =
     trust @ inventory_findings g iv facts @ binding_findings g iv facts @ concat (map co_findings outcomes)
     @ (case claimed of None \<Rightarrow> [] | Some supplied \<Rightarrow> [claimed_finding env supplied (comparisons_of outcomes)])"

definition case_required :: "review_inventory \<Rightarrow> factor_review_result list option \<Rightarrow> (finding_id \<times> source_citation list) list \<Rightarrow> finding_id list" where
  "case_required iv claimed bad =
     [Trust_Id, Sources_Id, Inventory_Id] @ map fst bad @ map (\<lambda>s. Observed_Id (sl_id s)) (iv_slots iv)
     @ concat (map context_required (iv_contexts iv)) @ (case claimed of None \<Rightarrow> [] | Some _ \<Rightarrow> [Claimed_Id])
     @ map (\<lambda>c. Arithmetic_Id (ac_id c)) (iv_checks iv)"

definition target_order :: "graph \<Rightarrow> string list" where
  "target_order gr = (case static_order gr of None \<Rightarrow> map fst gr | Some xs \<Rightarrow> xs)"

definition source_trust :: "bool \<Rightarrow> (finding_id \<times> source_citation list) list \<Rightarrow> review_finding list \<Rightarrow> bool" where
  "source_trust authorized bad findings = (authorized \<and> bad = []
     \<and> list_all (\<lambda>f. rf_id f \<in> {Sources_Id, Trust_Id} \<longrightarrow> rf_status f = E_VERIFIED) findings)"

definition arithmetic_env_of :: "source_registry \<Rightarrow> review_inventory \<Rightarrow> case_facts \<Rightarrow> context_outcome list \<Rightarrow> bool \<Rightarrow> arithmetic_env" where
  "arithmetic_env_of g iv facts outcomes trust =
     \<lparr>ae_registry = g, ae_facts = facts, ae_checks = iv_checks iv, ae_valid = valid_slots iv, ae_bound = bound_slots g iv facts,
      ae_expected = foldl (\<lambda>d (k, v). dict_set k v d) [] (concat (map co_expected outcomes)),
      ae_cyclic = (static_order (graph_of (valid_slots iv) (iv_checks iv)) = None), ae_source_trust = trust\<rparr>"

text \<open>The phases after the inventory has been found free of duplicates.\<close>

definition review_inventory_phases :: "review_env \<Rightarrow> case_reviewer \<Rightarrow> review_policy \<Rightarrow> case_facts \<Rightarrow> source_registry \<Rightarrow>
    factor_review_result list option \<Rightarrow> (finding_id \<times> source_citation list) list \<Rightarrow> review_finding list \<Rightarrow> case_review_result result" where
  "review_inventory_phases env rv pl facts g claimed bad trust =
     (let iv = pl_inventory pl; authorized = material_authorized rv pl facts in
      bind_result (map_result (review_context env rv authorized g pl facts (valid_slots iv)) (iv_contexts iv)) (\<lambda>outcomes.
      let findings = phase_findings env iv facts g claimed trust outcomes;
          ae = arithmetic_env_of g iv facts outcomes (source_trust authorized bad findings)
      in bind_result (process_targets ae (target_order (graph_of (valid_slots iv) (iv_checks iv))) \<lparr>as_trusted = [], as_findings = findings\<rparr>) (\<lambda>st.
        Inr (finish_case pl (origin_by_finding_id iv) (source_origin_ids iv bad) (case_required iv claimed bad)
          (comparisons_of outcomes) (as_findings st)))))"

definition review_case :: "review_env \<Rightarrow> case_reviewer \<Rightarrow> review_policy \<Rightarrow> case_facts \<Rightarrow> source_registry \<Rightarrow>
    factor_review_result list option \<Rightarrow> source_document option \<Rightarrow> source_document option \<Rightarrow> case_review_result result" where
  "review_case env rv pl facts g claimed forms criteria =
     (let base = [Trust_Id, Sources_Id, Inventory_Id]; iv = pl_inventory pl in
      if \<not> review_material_valid (env_fold_text env) \<lparr>rm_policy = pl, rm_facts = facts\<rparr> \<or> \<not> unique_documents g
      then Inr (finish_case pl [] [] base [] [add Trust_Id ''invalid_input'' E_FAILED []])
      else if cf_identity facts \<noteq> pl_identity pl
      then Inr (finish_case pl [] [] base [] [add Trust_Id ''case_identity'' E_FAILED []])
      else bind_result (registry_matches g (pl_registry pl)) (\<lambda>matching.
        bind_result (source_violations g forms criteria pl facts) (\<lambda>bad.
        let trust = trust_findings (material_authorized rv pl facts) matching bad in
        if duplicate_identities iv facts
        then Inr (finish_case pl (origin_by_finding_id iv) (source_origin_ids iv bad) (base @ map fst bad) []
               (trust @ [add Inventory_Id ''duplicate_identity'' E_FAILED []]))
        else review_inventory_phases env rv pl facts g claimed bad trust)))"

end
