(* ===== verification/Workflow_Task_Store.thy ===== *)
theory Workflow_Task_Store
  imports Revisions Case_Review Workflow_Events
begin

text \<open>
  \<open>adapters/local/human_tasks.py\<close>: the in-memory repository of the paused workflow's human tasks, and the context and
  transition records of \<open>ports/service.py\<close>.  One lock covers every operation, so each is a function of the store that
  returns the new store; a raised exception leaves it as it was.  Event identifiers and the transition that
  the application computes under the lock are arguments.
\<close>

section \<open>Findings by name\<close>

fun finding_text :: "(comparison_context \<Rightarrow> string) \<Rightarrow> finding_id \<Rightarrow> string" where
  "finding_text key Trust_Id = ''trust''"
| "finding_text key Sources_Id = ''sources''"
| "finding_text key Inventory_Id = ''inventory''"
| "finding_text key Claimed_Id = ''claimed_results''"
| "finding_text key (Context_Id c) = key c"
| "finding_text key (Factor_Id c f) = key c @ ''/factor/'' @ f"
| "finding_text key (Observed_Id s) = ''observed/'' @ s"
| "finding_text key (Arithmetic_Id i) = ''arithmetic/'' @ i"
| "finding_text key (Empty_Id i) = ''empty/'' @ i"

section \<open>Records\<close>

record workflow_env =
  we_revisions :: revision_env
  we_value_digest :: "public_value \<Rightarrow> digest"
  we_review_digest :: "case_review_result \<Rightarrow> digest"
  we_context_digest :: "comparison_context \<Rightarrow> digest"
  we_tasks_digest :: "human_task list \<Rightarrow> digest"
  we_revision_text :: "uuid \<Rightarrow> string"
  we_review :: review_env

definition finding_name :: "workflow_env \<Rightarrow> review_finding \<Rightarrow> string" where
  "finding_name env f = finding_text (re_context_key (we_revisions env)) (rf_id f)"

record human_task_context =
  hc_snapshot :: revision_snapshot
  hc_run :: run_reference
  hc_review :: case_review_result
  hc_confirmed_sides :: "fact_side_reference list"

record human_task_transition =
  hn_snapshot :: revision_snapshot
  hn_next_run :: "run_reference option"
  hn_authorization :: "authorization_record option"

type_synonym task_transition = "human_task \<Rightarrow> human_task_context \<Rightarrow> human_task_transition result"

record task_repository =
  tq_snapshots :: "(string \<times> string, revision_snapshot) dict"
  tq_current :: "(string, string) dict"
  tq_active_run :: "(string, uuid) dict"
  tq_runs :: "(uuid, run_reference) dict"
  tq_reviews :: "(uuid, case_review_result) dict"
  tq_tasks :: "(uuid, human_task) dict"
  tq_responses :: "(string \<times> string, human_response_result) dict"
  tq_pending :: "uuid set"
  tq_pauses :: "(uuid, workflow_pause) dict"
  tq_continuations :: "(uuid, workflow_continuation) dict"
  tq_confirmations :: "(string, (actor_reference \<times> fact_side_reference) list) dict"

definition empty_repository :: task_repository where
  "empty_repository = \<lparr>tq_snapshots = [], tq_current = [], tq_active_run = [], tq_runs = [], tq_reviews = [], tq_tasks = [],
     tq_responses = [], tq_pending = {}, tq_pauses = [], tq_continuations = [], tq_confirmations = []\<rparr>"

definition reference_key :: "revision_reference \<Rightarrow> string \<times> string" where
  "reference_key r = (rev_case_id r, rev_revision_id r)"

section \<open>Registration and reads\<close>

definition register_case :: "workflow_env \<Rightarrow> revision_snapshot \<Rightarrow> run_reference \<Rightarrow> case_review_result \<Rightarrow> task_repository \<Rightarrow>
    task_repository result" where
  "register_case env s run review q =
     (let m = vs_material s; r = mr_reference (vs_revision s); c = rev_case_id r in
      bind_result (ensure (rr_revision run = r \<and> re_material_digest (we_revisions env) m = rev_material_digest r
        \<and> cr_identity review = pl_identity (rm_policy m)) (Service_Fault CONFLICT)) (\<lambda>_.
      bind_result (ensure (dict_get (tq_current q) c = None \<and> dict_get (tq_runs q) (rr_run_id run) = None) (Service_Fault CONFLICT)) (\<lambda>_.
        Inr (q\<lparr>tq_snapshots := dict_set (reference_key r) s (tq_snapshots q), tq_current := dict_set c (rev_revision_id r) (tq_current q),
               tq_active_run := dict_set c (rr_run_id run) (tq_active_run q), tq_runs := dict_set (rr_run_id run) run (tq_runs q),
               tq_reviews := dict_set (rr_run_id run) review (tq_reviews q)\<rparr>))))"

definition confirmed_by :: "principal \<Rightarrow> (actor_reference \<times> fact_side_reference) list \<Rightarrow> fact_side_reference list" where
  "confirmed_by pr cs = map snd (filter (\<lambda>(a, _). a = pr_actor pr) cs)"

definition confirmations_of :: "task_repository \<Rightarrow> string \<Rightarrow> (actor_reference \<times> fact_side_reference) list" where
  "confirmations_of q c = (case dict_get (tq_confirmations q) c of None \<Rightarrow> [] | Some cs \<Rightarrow> cs)"

definition context_in :: "principal \<Rightarrow> run_reference \<Rightarrow> bool \<Rightarrow> task_repository \<Rightarrow> human_task_context result" where
  "context_in pr run allow_pending q =
     (let r = rr_revision run; c = rev_case_id r; i = rr_run_id run in
      bind_result (principal_require pr c P_REVIEW) (\<lambda>_.
      bind_result (ensure (dict_get (tq_runs q) i = Some run) (Service_Fault NOT_FOUND)) (\<lambda>_.
      bind_result (ensure (dict_get (tq_current q) c = Some (rev_revision_id r) \<and> dict_get (tq_active_run q) c = Some i)
        (Service_Fault CONFLICT)) (\<lambda>_.
      bind_result (some_or Key_Error (dict_get (tq_snapshots q) (reference_key r))) (\<lambda>s.
      bind_result (ensure (mr_reference (vs_revision s) = r) (Service_Fault CONFLICT)) (\<lambda>_.
      bind_result (some_or (Service_Fault CAPABILITY) (dict_get (tq_reviews q) i)) (\<lambda>review.
      bind_result (ensure (i \<notin> tq_pending q \<or> allow_pending) (Service_Fault CAPABILITY)) (\<lambda>_.
        Inr \<lparr>hc_snapshot = s, hc_run = run, hc_review = review, hc_confirmed_sides = confirmed_by pr (confirmations_of q c)\<rparr>))))))))"

definition read_context :: "principal \<Rightarrow> run_reference \<Rightarrow> task_repository \<Rightarrow> human_task_context result" where
  "read_context pr run q = context_in pr run False q"

definition read_revision :: "principal \<Rightarrow> revision_reference \<Rightarrow> task_repository \<Rightarrow> revision_snapshot result" where
  "read_revision pr r q =
     bind_result (principal_require pr (rev_case_id r) P_REVIEW) (\<lambda>_.
     bind_result (some_or (Service_Fault NOT_FOUND) (dict_get (tq_snapshots q) (reference_key r))) (\<lambda>s.
     bind_result (ensure (mr_reference (vs_revision s) = r) (Service_Fault CONFLICT)) (\<lambda>_. Inr s)))"

definition stored_task :: "principal \<Rightarrow> uuid \<Rightarrow> task_repository \<Rightarrow> human_task result" where
  "stored_task pr i q =
     bind_result (some_or (Service_Fault NOT_FOUND) (dict_get (tq_tasks q) i)) (\<lambda>t.
     bind_result (principal_require pr (rev_case_id (rr_revision (ht_run t))) P_REVIEW) (\<lambda>_. Inr t))"

definition case_responses :: "principal \<Rightarrow> string \<Rightarrow> task_repository \<Rightarrow> human_response_result list result" where
  "case_responses pr c q =
     bind_result (principal_require pr c P_REVIEW) (\<lambda>_.
       Inr (filter (\<lambda>x. rev_case_id (mr_reference (hx_revision x)) = c) (map snd (tq_responses q))))"

section \<open>Creating tasks\<close>

definition creatable :: "workflow_env \<Rightarrow> human_task_context \<Rightarrow> human_task \<Rightarrow> bool" where
  "creatable env cx t =
     (\<not> (ht_state t \<noteq> Task_Open \<or> ht_version t \<noteq> 1 \<or> ht_reason_code t = None \<or> ht_affected_subject_ids t = []
         \<or> \<not> set (ht_finding_ids t) \<subseteq> set (map (finding_name env) (cr_findings (hc_review cx)))))"

definition same_question :: "human_task \<Rightarrow> human_task \<Rightarrow> bool" where
  "same_question t x =
     (ht_run x = ht_run t \<and> ht_state x = Task_Open \<and> ht_kind x = ht_kind t \<and> set (ht_finding_ids x) = set (ht_finding_ids t)
      \<and> ht_affected_subject_ids x = ht_affected_subject_ids t)"

definition create_task_in :: "workflow_env \<Rightarrow> principal \<Rightarrow> human_task \<Rightarrow> task_repository \<Rightarrow> (human_task \<times> task_repository) result" where
  "create_task_in env pr t q =
     bind_result (ensure (task_authority t) Value_Error) (\<lambda>_.
     bind_result (context_in pr (ht_run t) False q) (\<lambda>cx.
     bind_result (ensure (actor_kind (pr_actor pr) \<in> {A_human, A_system}) (Service_Fault UNAUTHORIZED)) (\<lambda>_.
     bind_result (ensure (creatable env cx t) (Service_Fault VALIDATION)) (\<lambda>_.
       case dict_get (tq_tasks q) (ht_task_id t) of
         Some prior \<Rightarrow> if prior \<noteq> t then Inl (Service_Fault CONFLICT) else Inr (prior, q)
       | None \<Rightarrow>
           (case find (same_question t) (map snd (tq_tasks q)) of
              Some x \<Rightarrow> if x\<lparr>ht_task_id := ht_task_id t\<rparr> \<noteq> t then Inl (Service_Fault CONFLICT) else Inr (x, q)
            | None \<Rightarrow> Inr (t, q\<lparr>tq_tasks := dict_set (ht_task_id t) t (tq_tasks q)\<rparr>))))))"

fun create_tasks :: "workflow_env \<Rightarrow> principal \<Rightarrow> human_task list \<Rightarrow> task_repository \<Rightarrow> (human_task list \<times> task_repository) result" where
  "create_tasks env pr [] q = Inr ([], q)"
| "create_tasks env pr (t # ts) q =
     bind_result (create_task_in env pr t q) (\<lambda>(x, q1). bind_result (create_tasks env pr ts q1) (\<lambda>(xs, q2). Inr (x # xs, q2)))"

section \<open>Responding\<close>

text \<open>What the repository demands of a transition before it writes.\<close>

definition transition_allowed :: "workflow_env \<Rightarrow> revision_snapshot \<Rightarrow> human_task_transition \<Rightarrow> task_repository \<Rightarrow> bool" where
  "transition_allowed env s ch q =
     (let r = vs_revision (hn_snapshot ch) in
      re_material_digest (we_revisions env) (vs_material (hn_snapshot ch)) = rev_material_digest (mr_reference r)
      \<and> (r \<noteq> vs_revision s \<longrightarrow> mr_parent r = Some (mr_reference (vs_revision s))
           \<and> rev_case_id (mr_reference r) = rev_case_id (mr_reference (vs_revision s))
           \<and> dict_get (tq_snapshots q) (reference_key (mr_reference r)) = None \<and> hn_next_run ch \<noteq> None)
      \<and> option_ok (\<lambda>n. rr_revision n = mr_reference r \<and> dict_get (tq_runs q) (rr_run_id n) = None \<and> rr_attempt_id n = None
           \<and> rr_runtime_session_id n = None) (hn_next_run ch))"

definition answered_task :: "human_task \<Rightarrow> human_task" where
  "answered_task t = t\<lparr>ht_state := Task_Answered, ht_version := ht_version t + 1\<rparr>"

definition superseded_task :: "human_task \<Rightarrow> human_task" where
  "superseded_task t = t\<lparr>ht_state := Task_Superseded, ht_version := ht_version t + 1\<rparr>"

definition updated_tasks :: "human_task \<Rightarrow> revision_reference option \<Rightarrow> (uuid, human_task) dict \<Rightarrow> (uuid, human_task) dict" where
  "updated_tasks t old d =
     map (\<lambda>(i, x). (i, if i = ht_task_id t then answered_task t
        else if old = Some (rr_revision (ht_run x)) \<and> ht_state x = Task_Open then superseded_task x else x)) d"

definition continuation_of :: "human_task \<Rightarrow> uuid \<Rightarrow> run_reference option \<Rightarrow> task_repository \<Rightarrow> workflow_continuation option result" where
  "continuation_of t event_id n q =
     (case (n, dict_get (tq_pauses q) (rr_run_id (ht_run t))) of
        (Some run, Some p) \<Rightarrow>
          let c = \<lparr>wc_pause_id = wp_pause_id p, wc_response_event_id = event_id, wc_task_id = ht_task_id t,
                   wc_previous_run = ht_run t, wc_next_run = run\<rparr> in
          bind_result (ensure (ht_task_id t \<in> set (wp_task_ids p)) (Service_Fault CONFLICT)) (\<lambda>_.
          bind_result (ensure (fresh_run c) Value_Error) (\<lambda>_. Inr (Some c)))
      | _ \<Rightarrow> Inr None)"

definition next_confirmations :: "principal \<Rightarrow> human_response \<Rightarrow> human_task \<Rightarrow> human_task_context \<Rightarrow>
    (actor_reference \<times> fact_side_reference) list" where
  "next_confirmations pr command t cx =
     (case ht_side t of
        Some side \<Rightarrow> if ht_kind t = T_FACT \<and> hr_action command = R_CONFIRM
                     then map (Pair (pr_actor pr)) (hc_confirmed_sides cx) @ [(pr_actor pr, side)] else []
      | None \<Rightarrow> [])"

text \<open>The writes of an accepted response.\<close>

definition write_response :: "principal \<Rightarrow> human_response \<Rightarrow> human_task \<Rightarrow> human_task_context \<Rightarrow> human_task_transition \<Rightarrow>
    human_response_result \<Rightarrow> workflow_continuation option \<Rightarrow> task_repository \<Rightarrow> task_repository" where
  "write_response pr command t cx ch x cont q =
     (let old = vs_revision (hc_snapshot cx); r = vs_revision (hn_snapshot ch); ref = mr_reference r; c = rev_case_id ref;
          changed = (r \<noteq> old); n = hn_next_run ch
      in q\<lparr>tq_tasks := updated_tasks t (if changed \<or> n \<noteq> None then Some (mr_reference old) else None) (tq_tasks q),
           tq_confirmations := dict_set c (if changed then next_confirmations pr command t cx else confirmations_of q c) (tq_confirmations q),
           tq_snapshots := (if changed then dict_set (reference_key ref) (hn_snapshot ch) (tq_snapshots q) else tq_snapshots q),
           tq_current := (if changed then dict_set c (rev_revision_id ref) (tq_current q) else tq_current q),
           tq_runs := (case n of None \<Rightarrow> tq_runs q | Some run \<Rightarrow> dict_set (rr_run_id run) run (tq_runs q)),
           tq_active_run := (case n of None \<Rightarrow> tq_active_run q | Some run \<Rightarrow> dict_set c (rr_run_id run) (tq_active_run q)),
           tq_reviews := (case n of None \<Rightarrow> tq_reviews q | Some run \<Rightarrow> dict_set (rr_run_id run) (hc_review cx) (tq_reviews q)),
           tq_pending := (case n of None \<Rightarrow> tq_pending q | Some run \<Rightarrow> insert (rr_run_id run) (tq_pending q)),
           tq_responses := dict_set (actor_id (pr_actor pr), hr_idempotency_key command) x (tq_responses q),
           tq_continuations := (case cont of None \<Rightarrow> tq_continuations q | Some k \<Rightarrow> dict_set (hx_event_id x) k (tq_continuations q))\<rparr>)"

definition accept_response :: "workflow_env \<Rightarrow> uuid \<Rightarrow> principal \<Rightarrow> human_response \<Rightarrow> task_transition \<Rightarrow> human_task \<Rightarrow> task_repository \<Rightarrow>
    (human_response_result \<times> task_repository) result" where
  "accept_response env event_id pr command transition t q =
     bind_result (context_in pr (ht_run t) False q) (\<lambda>cx.
     bind_result (admit_response t command pr (mr_reference (vs_revision (hc_snapshot cx)))) (\<lambda>accepted.
     bind_result (transition t cx) (\<lambda>ch.
     bind_result (ensure (transition_allowed env (hc_snapshot cx) ch q) (Service_Fault CONFLICT)) (\<lambda>_.
     let x = \<lparr>hx_event_id = event_id, hx_accepted = accepted, hx_task = answered_task t, hx_revision = vs_revision (hn_snapshot ch),
              hx_next_run = hn_next_run ch, hx_authorization = hn_authorization ch\<rparr> in
     bind_result (ensure (response_binding x) Value_Error) (\<lambda>_.
     bind_result (continuation_of t event_id (hn_next_run ch) q) (\<lambda>cont.
       Inr (x, write_response pr command t cx ch x cont q)))))))"

definition repository_respond :: "workflow_env \<Rightarrow> uuid \<Rightarrow> principal \<Rightarrow> human_response \<Rightarrow> task_transition \<Rightarrow> task_repository \<Rightarrow>
    (human_response_result \<times> task_repository) result" where
  "repository_respond env event_id pr command transition q =
     bind_result (ensure (action_payload command) Value_Error) (\<lambda>_.
     bind_result (stored_task pr (hr_task_id command) q) (\<lambda>t.
     bind_result (principal_require pr (rev_case_id (rr_revision (ht_run t))) (ht_required_permission t)) (\<lambda>_.
     bind_result (ensure (actor_kind (pr_actor pr) = A_human) (Service_Fault UNAUTHORIZED)) (\<lambda>_.
       case dict_get (tq_responses q) (actor_id (pr_actor pr), hr_idempotency_key command) of
         Some previous \<Rightarrow>
           if ar_command (hx_accepted previous) \<noteq> command \<or> ar_actor (hx_accepted previous) \<noteq> pr_actor pr
           then Inl (Service_Fault CONFLICT) else Inr (previous, q)
       | None \<Rightarrow> accept_response env event_id pr command transition t q))))"

section \<open>Re-entry\<close>

definition reenter_run :: "principal \<Rightarrow> run_reference \<Rightarrow> (human_task_context \<Rightarrow> case_review_result result) \<Rightarrow> task_repository \<Rightarrow>
    (case_review_result \<times> task_repository) result" where
  "reenter_run pr run review q =
     bind_result (context_in pr run True q) (\<lambda>cx.
     bind_result (ensure (dict_get (tq_pauses q) (rr_run_id run) = None) (Service_Fault CAPABILITY)) (\<lambda>_.
     if rr_run_id run \<notin> tq_pending q then Inr (hc_review cx, q)
     else bind_result (review cx) (\<lambda>x.
       bind_result (ensure (cr_identity x = pl_identity (rm_policy (vs_material (hc_snapshot cx)))) (Service_Fault CONFLICT)) (\<lambda>_.
         Inr (x, q\<lparr>tq_reviews := dict_set (rr_run_id run) x (tq_reviews q), tq_pending := tq_pending q - {rr_run_id run}\<rparr>)))))"

section \<open>Pause and continuation\<close>

definition open_tasks_of :: "run_reference \<Rightarrow> task_repository \<Rightarrow> human_task list" where
  "open_tasks_of run q = filter (\<lambda>t. ht_run t = run \<and> ht_state t = Task_Open) (map snd (tq_tasks q))"

definition pause_run :: "workflow_env \<Rightarrow> uuid \<Rightarrow> principal \<Rightarrow> bounded_workflow_result \<Rightarrow> task_repository \<Rightarrow>
    (workflow_pause \<times> task_repository) result" where
  "pause_run env pause_id pr res q =
     (let run = bw_run res in
      bind_result (ensure (terminal_shape res) Value_Error) (\<lambda>_.
      bind_result (principal_require pr (rev_case_id (rr_revision run)) P_REVIEW) (\<lambda>_.
      bind_result (ensure (actor_kind (pr_actor pr) \<in> {A_human, A_system}) (Service_Fault UNAUTHORIZED)) (\<lambda>_.
      case dict_get (tq_pauses q) (rr_run_id run) of
        Some prior \<Rightarrow> if wp_result prior \<noteq> res then Inl (Service_Fault CONFLICT) else Inr (prior, q)
      | None \<Rightarrow>
          bind_result (context_in pr run False q) (\<lambda>_.
          let tasks = open_tasks_of run q; p = \<lparr>wp_pause_id = pause_id, wp_result = res, wp_task_ids = map ht_task_id tasks\<rparr> in
          bind_result (ensure (waiting_only p) Value_Error) (\<lambda>_.
          bind_result (ensure (case de_tool_result (last (bw_events res)) of None \<Rightarrow> False
              | Some receipt \<Rightarrow> to_result_digest receipt = Some (we_tasks_digest env tasks)) (Service_Fault CONFLICT)) (\<lambda>_.
            Inr (p, q\<lparr>tq_pauses := dict_set (rr_run_id run) p (tq_pauses q)\<rparr>))))))))"

definition read_pause :: "principal \<Rightarrow> run_reference \<Rightarrow> task_repository \<Rightarrow> workflow_pause result" where
  "read_pause pr run q =
     bind_result (principal_require pr (rev_case_id (rr_revision run)) P_REVIEW) (\<lambda>_.
     bind_result (some_or (Service_Fault NOT_FOUND) (dict_get (tq_pauses q) (rr_run_id run))) (\<lambda>p.
     bind_result (ensure (bw_run (wp_result p) = run) (Service_Fault CONFLICT)) (\<lambda>_. Inr p)))"

definition read_continuation :: "principal \<Rightarrow> uuid \<Rightarrow> task_repository \<Rightarrow> workflow_continuation result" where
  "read_continuation pr event_id q =
     bind_result (some_or (Service_Fault NOT_FOUND) (dict_get (tq_continuations q) event_id)) (\<lambda>k.
     bind_result (principal_require pr (rev_case_id (rr_revision (wc_previous_run k))) P_REVIEW) (\<lambda>_. Inr k))"

end
