(* ===== verification/Material_Corrections.thy ===== *)
theory Material_Corrections
  imports Revisions Case_Review
begin

text \<open>
  \<open>application/material_corrections.py\<close>: named subjects of a case, and the two changes of material that an admitted
  answer may make.  The application maps a subject to one side of one factor pair; a correction replaces that side's
  observation, a confirmation marks it as checked and keeps only the confirmations it is told to keep.
\<close>

section \<open>Subjects\<close>

record material_subject =
  ms_subject_id :: string
  ms_context :: comparison_context
  ms_factor_id :: string
  ms_side :: side

type_synonym subject_map = "material_subject list"

definition make_subject_map :: "material_subject list \<Rightarrow> subject_map result" where
  "make_subject_map subjects =
     (if list_all (\<lambda>b. ms_subject_id b \<noteq> [] \<and> ms_factor_id b \<noteq> [] \<and> context_valid (ms_context b)) subjects
         \<and> distinct (map ms_subject_id subjects)
      then Inr subjects else Inl Value_Error)"

definition same_factor :: "comparison_context \<Rightarrow> string \<Rightarrow> evidenced_pair \<Rightarrow> bool" where
  "same_factor cx f p = (ep_context p = cx \<and> fp_factor_id (ep_pair p) = f)"

definition resolve_subject :: "subject_map \<Rightarrow> review_material \<Rightarrow> string \<Rightarrow> (evidenced_pair \<times> side) result" where
  "resolve_subject subjects m subject_id =
     (case find (\<lambda>b. ms_subject_id b = subject_id) subjects of
        None \<Rightarrow> Inl Value_Error
      | Some b \<Rightarrow>
          (case filter (same_factor (ms_context b) (ms_factor_id b)) (cf_pairs (rm_facts m)) of
             [p] \<Rightarrow> Inr (p, ms_side b)
           | _ \<Rightarrow> Inl Value_Error))"

definition project_side :: "evidenced_pair \<Rightarrow> side \<Rightarrow> public_value result" where
  "project_side p sd =
     (let x = side_observation p sd;
          v = \<lparr>pv_state = (if ob_value x \<noteq> None then Present else Missing), pv_value = map_option Public_Normalized (ob_value x),
               pv_raw_text = (case ob_raw_text x of None \<Rightarrow> [] | Some t \<Rightarrow> t),
               pv_unit = (case ob_value x of None \<Rightarrow> None | Some n \<Rightarrow> nv_unit n),
               pv_confidence = Some (ob_confidence x), pv_evidence = side_sources p sd\<rparr>
      in bind_result (ensure (public_value_valid v) Value_Error) (\<lambda>_. Inr v))"

definition subject_value :: "subject_map \<Rightarrow> revision_snapshot \<Rightarrow> string \<Rightarrow> public_value result" where
  "subject_value subjects s subject_id =
     bind_result (resolve_subject subjects (vs_material s) subject_id) (\<lambda>(p, sd). project_side p sd)"

definition reference_of_side :: "revision_env \<Rightarrow> evidenced_pair \<Rightarrow> side \<Rightarrow> fact_side_reference" where
  "reference_of_side env p sd =
     \<lparr>fd_context = ep_context p, fd_factor_id = fp_factor_id (ep_pair p), fd_side = sd,
      fd_input_digest = confirmation_digest (re_confirmation_digest env) p sd\<rparr>"

definition side_reference :: "revision_env \<Rightarrow> subject_map \<Rightarrow> revision_snapshot \<Rightarrow> string \<Rightarrow> fact_side_reference result" where
  "side_reference env subjects s subject_id =
     bind_result (resolve_subject subjects (vs_material s) subject_id) (\<lambda>(p, sd).
     bind_result (ensure (side_reference_valid (reference_of_side env p sd)) Value_Error) (\<lambda>_.
       Inr (reference_of_side env p sd)))"

definition require_human :: "actor_reference \<Rightarrow> unit result" where
  "require_human a =
     bind_result (ensure (actor_reference_valid a) Value_Error) (\<lambda>_. ensure (actor_kind a = A_human) Permission_Error)"

section \<open>Correcting\<close>

text \<open>Scores measured for a cited location are kept; a new location scores zero.\<close>

definition located_at :: "source_document \<Rightarrow> source_citation \<Rightarrow> evidence_ref \<Rightarrow> bool" where
  "located_at forms r e =
     (ev_document_id e = ct_document_id r \<and> ev_source_file e = Some (sd_uri forms) \<and> ev_page e = ct_page r
      \<and> ev_bounding_box e = Some (ct_bbox r) \<and> ev_coordinate_system e = Some Pdf_Bottom_Left)"

definition location_scores :: "source_document \<Rightarrow> factor_observation \<Rightarrow> source_citation \<Rightarrow> pyfloat list" where
  "location_scores forms x r =
     (case map ev_confidence (filter (located_at forms r) (ob_evidence x)) of [] \<Rightarrow> [Dec 0 0] | scores \<Rightarrow> scores)"

definition corrected_evidence :: "source_document \<Rightarrow> factor_observation \<Rightarrow> source_citation list \<Rightarrow> evidence_ref list" where
  "corrected_evidence forms x refs =
     concat (map (\<lambda>r. map (\<lambda>score. \<lparr>ev_document_id = ct_document_id r, ev_source_file = Some (sd_uri forms), ev_page = ct_page r,
       ev_block_ids = [ct_region_id r], ev_confidence = score, ev_bounding_box = Some (ct_bbox r),
       ev_coordinate_system = Some Pdf_Bottom_Left\<rparr>) (location_scores forms x r)) refs)"

text \<open>A proposed value: present, typed, with the type, unit and confidence of the original.\<close>

definition proposed_number :: "value_revision \<Rightarrow> public_value \<Rightarrow> (public_value \<times> normalized_value) result" where
  "proposed_number c original =
     (case vr_proposed c of
        None \<Rightarrow> Inl Value_Error
      | Some v \<Rightarrow>
          (case pv_value v of
             Some (Public_Normalized n) \<Rightarrow>
               if pv_state v = Present \<and> pv_unit v = nv_unit n
                  \<and> (case pv_value original of
                       Some (Public_Normalized old) \<Rightarrow> content_type (nv_content n) = content_type (nv_content old) \<and> pv_unit v = pv_unit original
                     | _ \<Rightarrow> True)
                  \<and> rel_option dec_eq (pv_confidence v) (pv_confidence original)
               then Inr (v, n) else Inl Value_Error
           | _ \<Rightarrow> Inl Value_Error))"

text \<open>
  The transcription is quoted by a cited excerpt, or the citation points at an image or a cell without text.  The
  cited page exists: the evidence resolves when this is asked.
\<close>

definition cited_regions :: "source_document \<Rightarrow> source_citation \<Rightarrow> source_region list" where
  "cited_regions forms r = (case drop (nat (ct_page r - 1)) (sd_pages forms) of [] \<Rightarrow> [] | p # _ \<Rightarrow> sp_regions p)"

definition transcribes :: "source_document \<Rightarrow> string \<Rightarrow> source_citation \<Rightarrow> bool" where
  "transcribes forms t r =
     (ct_excerpt r \<noteq> [] \<and> contains_text (ct_excerpt r) t
      \<or> ct_excerpt r = [] \<and> list_ex (\<lambda>g. sr_id g = ct_region_id r \<and> sr_kind g \<in> {Image_Region, Cell_Region}) (cited_regions forms r))"

definition supported_transcription :: "source_purposes \<Rightarrow> public_value \<Rightarrow> bool" where
  "supported_transcription pu v =
     (strip (pv_raw_text v) \<noteq> [] \<and> list_ex (transcribes (pu_forms pu) (pv_raw_text v)) (pv_evidence v))"

definition same_anchors :: "public_value \<Rightarrow> public_value \<Rightarrow> bool" where
  "same_anchors original v = (pv_evidence original = [] \<or> source_cell ` set (pv_evidence original) = source_cell ` set (pv_evidence v))"

definition correct_material :: "revision_env \<Rightarrow> (public_value \<Rightarrow> digest) \<Rightarrow> subject_map \<Rightarrow> revision_snapshot \<Rightarrow> value_revision \<Rightarrow>
    actor_reference \<Rightarrow> string \<Rightarrow> bool \<Rightarrow> revision_snapshot result" where
  "correct_material env value_digest subjects s c actor revision_id allow_missing =
     bind_result (require_human actor) (\<lambda>_.
     bind_result (ensure (correction_actor c \<and> vr_corrected c = None \<and> vr_corrected_by c = None) Value_Error) (\<lambda>_.
     let m = vs_material s in
     bind_result (resolve_subject subjects m (vr_subject_id c)) (\<lambda>(p, sd).
     let x = side_observation p sd in
     bind_result (project_side p sd) (\<lambda>original.
     bind_result (ensure (value_digest (vr_original c) = value_digest original) Value_Error) (\<lambda>_.
     bind_result (proposed_number c original) (\<lambda>(v, n).
     bind_result (ensure (allow_missing \<or> (pv_value original \<noteq> None \<and> pv_evidence original \<noteq> [] \<and> ob_evidence x \<noteq> [])) Value_Error) (\<lambda>_.
     bind_result (selected (pl_registry (rm_policy m)) None None) (\<lambda>pu.
     bind_result (ensure (allows pu (pv_evidence v) Case_Purpose \<and> supported_transcription pu v \<and> same_anchors original v) Value_Error) (\<lambda>_.
     let y = \<lparr>ob_raw_text = Some (pv_raw_text v), ob_value = Some n, ob_evidence = corrected_evidence (pu_forms pu) x (pv_evidence v),
              ob_confidence = ob_confidence x\<rparr>;
         q = set_side sd y (pv_evidence v) p in
     bind_result (ensure (observation_valid y) Value_Error) (\<lambda>_.
     bind_result (project_side q sd) (\<lambda>corrected.
     let recorded = \<lparr>vr_subject_id = vr_subject_id c, vr_original = original, vr_proposed = Some v, vr_corrected = Some corrected,
                     vr_corrected_by = Some actor\<rparr> in
     bind_result (ensure (correction_actor recorded) Value_Error) (\<lambda>_.
       revise env s (with_pairs (\<lambda>z. if same_factor (ep_context p) (fp_factor_id (ep_pair p)) z then q else z) m) revision_id
         (mr_changes (vs_revision s) @ [recorded])))))))))))))"

section \<open>Confirming\<close>

text \<open>
  One other side: its earlier confirmation is renewed if it is this reviewer's, still covers the same data on both
  revisions, is on the list of admitted answers, and rests on the case forms; what cannot be confirmed is skipped.
\<close>

definition retain_side :: "revision_env \<Rightarrow> fact_side_reference list \<Rightarrow> string \<Rightarrow> source_purposes \<Rightarrow> evidenced_pair \<Rightarrow> side \<Rightarrow> evidenced_pair \<Rightarrow>
    evidenced_pair result" where
  "retain_side env retained reviewer pu old sd p =
     (let prior = side_reliability old sd; digest = confirmation_digest (re_confirmation_digest env) in
      case rl_confirmation prior of
        None \<Rightarrow> Inr p
      | Some c \<Rightarrow>
          if rl_method prior \<noteq> Reviewer_Confirmed \<or> fc_reviewer c \<noteq> reviewer \<or> fc_input_digest c \<noteq> digest old sd \<or> fc_input_digest c \<noteq> digest p sd
          then Inr p
          else bind_result (ensure (side_reference_valid (reference_of_side env old sd)) Value_Error) (\<lambda>_.
            if reference_of_side env old sd \<notin> set retained \<or> \<not> allows pu (side_sources p sd) Case_Purpose then Inr p
            else case confirm_side (re_confirmation_digest env) p sd reviewer of Inl _ \<Rightarrow> Inr p | Inr q \<Rightarrow> Inr q))"

definition retain_pair :: "revision_env \<Rightarrow> fact_side_reference list \<Rightarrow> string \<Rightarrow> source_purposes \<Rightarrow> evidenced_pair list \<Rightarrow>
    (evidenced_pair \<Rightarrow> side \<Rightarrow> bool) \<Rightarrow> evidenced_pair \<Rightarrow> evidenced_pair result" where
  "retain_pair env retained reviewer pu previous skip p =
     (case filter (same_factor (ep_context p) (fp_factor_id (ep_pair p))) previous of
        [old] \<Rightarrow>
          let keep = (\<lambda>sd q. if skip p sd then Inr q else retain_side env retained reviewer pu old sd q)
          in bind_result (keep Target_Side p) (keep Comparable_Side)
      | _ \<Rightarrow> Inr p)"

definition set_pairs :: "evidenced_pair list \<Rightarrow> review_material \<Rightarrow> review_material" where
  "set_pairs ps m = m\<lparr>rm_facts := (rm_facts m)\<lparr>cf_pairs := ps\<rparr>\<rparr>"

definition confirm_material :: "revision_env \<Rightarrow> subject_map \<Rightarrow> revision_snapshot \<Rightarrow> string \<Rightarrow> actor_reference \<Rightarrow> string \<Rightarrow>
    fact_side_reference list \<Rightarrow> revision_snapshot result" where
  "confirm_material env subjects s subject_id actor revision_id retained =
     bind_result (require_human actor) (\<lambda>_.
     bind_result (resolve_subject subjects (vs_material s) subject_id) (\<lambda>_.
     bind_result (revise env s (vs_material s) revision_id (mr_changes (vs_revision s))) (\<lambda>revised.
     let m = vs_material revised in
     bind_result (resolve_subject subjects m subject_id) (\<lambda>(p, sd).
     bind_result (selected (pl_registry (rm_policy m)) None None) (\<lambda>pu.
     bind_result (ensure (allows pu (side_sources p sd) Case_Purpose) Value_Error) (\<lambda>_.
     bind_result (confirm_side (re_confirmation_digest env) p sd (actor_id actor)) (\<lambda>q.
     let this = same_factor (ep_context p) (fp_factor_id (ep_pair p)) in
     bind_result (map_result (retain_pair env retained (actor_id actor) pu (cf_pairs (rm_facts (vs_material s))) (\<lambda>z sd'. this z \<and> sd' = sd))
       (map (\<lambda>z. if this z then q else z) (cf_pairs (rm_facts m)))) (\<lambda>ps.
       capture env (set_pairs ps m) revision_id (Some (mr_reference (vs_revision s))) (mr_changes (vs_revision s))))))))))"

section \<open>Which confirmations a change leaves\<close>

lemma require_human_Inr [simp]: "require_human a = Inr u \<longleftrightarrow> actor_reference_valid a \<and> actor_kind a = A_human"
  by (auto simp: require_human_def)

lemma resolve_subject_Inr:
  "resolve_subject subjects m i = Inr (p, sd) \<longleftrightarrow>
     (\<exists>b. find (\<lambda>b. ms_subject_id b = i) subjects = Some b \<and> ms_side b = sd
        \<and> filter (same_factor (ms_context b) (ms_factor_id b)) (cf_pairs (rm_facts m)) = [p])"
  by (auto simp: resolve_subject_def split: option.splits list.splits)

lemma filter_singleton_mem:
  assumes "filter P xs = [x]"
  shows "x \<in> set xs" "P x" "y \<in> set xs \<Longrightarrow> P y \<Longrightarrow> y = x"
proof -
  show "x \<in> set xs" "P x" using filter_eq_ConsD [OF assms] by auto
  show "y = x" if "y \<in> set xs" "P y"
  proof -
    have "y \<in> set (filter P xs)" using that by simp
    then show ?thesis by (simp add: assms)
  qed
qed

lemma map_result_origin: "map_result f xs = Inr ys \<Longrightarrow> y \<in> set ys \<Longrightarrow> \<exists>x \<in> set xs. f x = Inr y"
  by (induction xs arbitrary: ys) auto

text \<open>Every confirmation on the pair is the reviewer's, covers the pair's data, and is of an allowed side.\<close>

definition confirmations_within :: "revision_env \<Rightarrow> string \<Rightarrow> fact_side_reference set \<Rightarrow> evidenced_pair \<Rightarrow> bool" where
  "confirmations_within env reviewer allowed q =
     (\<forall>sd c. rl_confirmation (side_reliability q sd) = Some c \<longrightarrow>
        fc_reviewer c = reviewer \<and> fc_input_digest c = confirmation_digest (re_confirmation_digest env) q sd
        \<and> reference_of_side env q sd \<in> allowed)"

lemma confirmation_data_of_revise_pair [simp]: "confirmation_data_of (revise_pair env ps p) sd = confirmation_data_of p sd"
  by (simp add: confirmation_data_of_def reliability_of_revise_pair)

lemma reference_of_revise_pair [simp]: "reference_of_side env (revise_pair env' ps p) sd = reference_of_side env p sd"
  by (simp add: reference_of_side_def confirmation_digest_def)

lemma confirm_side_frame:
  assumes "confirm_side digest_of p sd reviewer = Inr q"
  shows "confirmation_data_of q sd' = confirmation_data_of p sd'" "ep_context q = ep_context p" "ep_pair q = ep_pair p"
    "rl_confirmation (side_reliability q sd') = (if sd' = sd then Some \<lparr>fc_reviewer = reviewer, fc_input_digest = confirmation_digest digest_of p sd\<rparr>
       else rl_confirmation (side_reliability p sd'))"
    "side_observation q sd' = side_observation p sd'" "side_sources q sd' = side_sources p sd'"
  using assms by (auto simp: confirm_side_def Let_def confirmation_data_of_def split: if_splits)

lemma confirm_side_reference: "confirm_side digest_of p sd reviewer = Inr q \<Longrightarrow> reference_of_side env q sd' = reference_of_side env p sd'"
  by (simp add: reference_of_side_def confirmation_digest_def confirm_side_frame)

lemma confirm_side_within:
  assumes "confirm_side (re_confirmation_digest env) p sd reviewer = Inr q" and "confirmations_within env reviewer allowed p"
    and "reference_of_side env p sd \<in> allowed"
  shows "confirmations_within env reviewer allowed q"
  using assms(2,3)
  by (auto simp: confirmations_within_def confirm_side_frame [OF assms(1)] confirm_side_reference [OF assms(1)] confirmation_digest_def split: if_splits)

lemma retain_side_cases:
  assumes "retain_side env retained reviewer pu old sd p = Inr q"
  obtains (kept) "q = p" | (renewed) "confirm_side (re_confirmation_digest env) p sd reviewer = Inr q" "reference_of_side env old sd \<in> set retained"
      "confirmation_digest (re_confirmation_digest env) p sd = confirmation_digest (re_confirmation_digest env) old sd"
proof (cases "q = p")
  case False
  let ?d = "confirmation_digest (re_confirmation_digest env)"
  obtain c where c: "rl_confirmation (side_reliability old sd) = Some c"
    using assms False by (cases "rl_confirmation (side_reliability old sd)") (simp_all add: retain_side_def)
  have same: "fc_input_digest c = ?d old sd" "fc_input_digest c = ?d p sd"
    using assms False by (simp_all add: retain_side_def Let_def c split: if_splits)
  then have "reference_of_side env old sd \<in> set retained" "confirm_side (re_confirmation_digest env) p sd reviewer = Inr q"
    using assms False by (simp_all add: retain_side_def Let_def c split: if_splits sum.splits)
  with same show ?thesis by (intro renewed) simp_all
qed (rule kept)

lemma retain_side_within:
  assumes "retain_side env retained reviewer pu old sd p = Inr q" and "confirmations_within env reviewer allowed p"
    and "same_factor (ep_context p) (fp_factor_id (ep_pair p)) old" and "set retained \<subseteq> allowed"
  shows "confirmations_within env reviewer allowed q \<and> ep_context q = ep_context p \<and> ep_pair q = ep_pair p
     \<and> (\<forall>sd'. side_observation q sd' = side_observation p sd' \<and> side_sources q sd' = side_sources p sd')"
proof (cases rule: retain_side_cases [OF assms(1), case_names kept renewed])
  case renewed
  then have "reference_of_side env p sd \<in> allowed"
    using assms(3,4) by (auto simp: reference_of_side_def same_factor_def)
  then show ?thesis using confirm_side_within [OF renewed(1) assms(2)] confirm_side_frame [OF renewed(1)] by simp
qed (simp add: assms(2))

lemma retain_pair_within:
  assumes "retain_pair env retained reviewer pu previous skip p = Inr q" and "confirmations_within env reviewer allowed p"
    and "set retained \<subseteq> allowed"
  shows "confirmations_within env reviewer allowed q \<and> ep_context q = ep_context p \<and> ep_pair q = ep_pair p
     \<and> (\<forall>sd'. side_observation q sd' = side_observation p sd' \<and> side_sources q sd' = side_sources p sd')"
proof (cases "\<exists>old. filter (same_factor (ep_context p) (fp_factor_id (ep_pair p))) previous = [old]")
  case True
  then obtain old where old: "filter (same_factor (ep_context p) (fp_factor_id (ep_pair p))) previous = [old]" by blast
  then have same: "same_factor (ep_context p) (fp_factor_id (ep_pair p)) old" by (rule filter_singleton_mem)
  from assms(1) old obtain r where r: "(if skip p Target_Side then Inr p else retain_side env retained reviewer pu old Target_Side p) = Inr r"
      "(if skip p Comparable_Side then Inr r else retain_side env retained reviewer pu old Comparable_Side r) = Inr q"
    by (auto simp: retain_pair_def Let_def)
  have w: "confirmations_within env reviewer allowed r \<and> ep_context r = ep_context p \<and> ep_pair r = ep_pair p
      \<and> (\<forall>sd'. side_observation r sd' = side_observation p sd' \<and> side_sources r sd' = side_sources p sd')"
    using r(1) retain_side_within [OF _ assms(2) same assms(3)] assms(2) by (auto split: if_splits)
  show ?thesis
  proof (cases "skip p Comparable_Side")
    case False
    then show ?thesis using r(2) w same retain_side_within [of env retained reviewer pu old Comparable_Side r q allowed] assms(3) by auto
  qed (use r(2) w in simp)
next
  case False
  then show ?thesis using assms(1,2) by (auto simp: retain_pair_def split: list.splits)
qed

lemma confirmations_within_none: "(\<And>sd. rl_confirmation (side_reliability q sd) = None) \<Longrightarrow> confirmations_within env reviewer allowed q"
  by (simp add: confirmations_within_def)

lemma same_factor_revise [simp]: "same_factor cx f (revise_pair env ps p) = same_factor cx f p"
  by (simp add: same_factor_def)

lemma resolve_subject_revised:
  assumes "resolve_subject subjects m i = Inr (p, sd)"
    and "resolve_subject subjects (revised_material env s m v) i = Inr (p', sd')"
  shows "p' = revise_pair env (cf_pairs (rm_facts (vs_material s))) p \<and> sd' = sd"
proof -
  obtain b where b: "find (\<lambda>b. ms_subject_id b = i) subjects = Some b" "ms_side b = sd"
      "filter (same_factor (ms_context b) (ms_factor_id b)) (cf_pairs (rm_facts m)) = [p]"
    using assms(1) unfolding resolve_subject_Inr by blast
  have "(\<lambda>x. same_factor cx f (revise_pair env ps x)) = same_factor cx f" for cx f ps by (simp add: fun_eq_iff)
  with assms(2) b show ?thesis by (auto simp: resolve_subject_Inr revised_material_def filter_map comp_def)
qed

lemma capture_sel:
  assumes "capture env m i parent changes = Inr n"
  shows "vs_material n = m" "mr_parent (vs_revision n) = parent" "mr_changes (vs_revision n) = changes"
    "rev_revision_id (mr_reference (vs_revision n)) = i" "rev_material_digest (mr_reference (vs_revision n)) = re_material_digest env m"
    "rev_case_id (mr_reference (vs_revision n)) = ci_case_id (pl_identity (rm_policy m))"
    "identities (re_documents_digest env) (vs_revision n)" "review_material_valid (re_fold_text env) m"
  using assms by (auto simp: capture_Inr revision_of_def Let_def)

lemma revise_capture:
  "revise env s m i changes = Inr n \<Longrightarrow> capture env (revised_material env s m i) i (Some (mr_reference (vs_revision s))) changes = Inr n
     \<and> ci_case_id (pl_identity (rm_policy m)) = rev_case_id (mr_reference (vs_revision s)) \<and> i \<noteq> rev_revision_id (mr_reference (vs_revision s))"
  by (auto simp: revise_def)

text \<open>A change that \<open>capture\<close>s a revised material is a new child revision of the same case.\<close>

definition child_snapshot :: "revision_env \<Rightarrow> revision_snapshot \<Rightarrow> string \<Rightarrow> revision_snapshot \<Rightarrow> bool" where
  "child_snapshot env s i n =
     (mr_parent (vs_revision n) = Some (mr_reference (vs_revision s)) \<and> rev_revision_id (mr_reference (vs_revision n)) = i
      \<and> rev_case_id (mr_reference (vs_revision n)) = rev_case_id (mr_reference (vs_revision s))
      \<and> i \<noteq> rev_revision_id (mr_reference (vs_revision s))
      \<and> rev_material_digest (mr_reference (vs_revision n)) = re_material_digest env (vs_material n))"

lemma revise_child: "revise env s m i changes = Inr n \<Longrightarrow> child_snapshot env s i n \<and> mr_changes (vs_revision n) = changes"
proof -
  assume r: "revise env s m i changes = Inr n"
  note c = revise_capture [OF r] and sel = capture_sel [OF conjunct1 [OF revise_capture [OF r]]]
  show ?thesis using c sel by (simp add: child_snapshot_def revised_material_def)
qed

lemma correct_material_Inr:
  assumes "correct_material env vd subjects s c actor i allow = Inr n"
  shows "actor_kind actor = A_human \<and> child_snapshot env s i n
     \<and> (\<forall>q \<in> set (cf_pairs (rm_facts (vs_material n))). \<forall>sd. rl_confirmation (side_reliability q sd) = None)
     \<and> (\<exists>r. mr_changes (vs_revision n) = mr_changes (vs_revision s) @ [r] \<and> vr_corrected_by r = Some actor \<and> vr_subject_id r = vr_subject_id c)"
proof -
  from assms obtain m r where r: "revise env s m i (mr_changes (vs_revision s) @ [r]) = Inr n" "vr_corrected_by r = Some actor"
      "vr_subject_id r = vr_subject_id c" "actor_kind actor = A_human"
    by (fastforce simp: correct_material_def Let_def)
  moreover have "rl_confirmation (side_reliability q sd) = None" if "q \<in> set (cf_pairs (rm_facts (vs_material n)))" for q sd
    using that revised_confirmations unfolding revise_Inr(1) [OF r(1)] by blast
  ultimately show ?thesis using revise_child [OF r(1)] by auto
qed

lemma confirm_material_Inr:
  assumes "confirm_material env subjects s subject_id actor i retained = Inr n"
  obtains p sd where "resolve_subject subjects (vs_material s) subject_id = Inr (p, sd)" "actor_kind actor = A_human" "child_snapshot env s i n"
    "mr_changes (vs_revision n) = mr_changes (vs_revision s)"
    "\<And>q. q \<in> set (cf_pairs (rm_facts (vs_material n))) \<Longrightarrow>
       confirmations_within env (actor_id actor) (insert (reference_of_side env p sd) (set retained)) q"
proof -
  from assms obtain p sd r p' sd' pu q ps where h: "actor_kind actor = A_human" "resolve_subject subjects (vs_material s) subject_id = Inr (p, sd)"
      "revise env s (vs_material s) i (mr_changes (vs_revision s)) = Inr r"
      "resolve_subject subjects (vs_material r) subject_id = Inr (p', sd')"
      "confirm_side (re_confirmation_digest env) p' sd' (actor_id actor) = Inr q"
      "map_result (retain_pair env retained (actor_id actor) pu (cf_pairs (rm_facts (vs_material s)))
          (\<lambda>z sd''. same_factor (ep_context p') (fp_factor_id (ep_pair p')) z \<and> sd'' = sd'))
         (map (\<lambda>z. if same_factor (ep_context p') (fp_factor_id (ep_pair p')) z then q else z) (cf_pairs (rm_facts (vs_material r)))) = Inr ps"
      "capture env (set_pairs ps (vs_material r)) i (Some (mr_reference (vs_revision s))) (mr_changes (vs_revision s)) = Inr n"
    by (auto simp: confirm_material_def Let_def)
  let ?allowed = "insert (reference_of_side env p sd) (set retained)"
  note rev = revise_Inr [OF h(3)]
  have p': "p' = revise_pair env (cf_pairs (rm_facts (vs_material s))) p" "sd' = sd"
    using resolve_subject_revised [OF h(2)] h(4) unfolding rev(1) by blast+
  have none: "rl_confirmation (side_reliability z sd'') = None" if "z \<in> set (cf_pairs (rm_facts (vs_material r)))" for z sd''
    using that revised_confirmations unfolding rev(1) by blast
  have "p' \<in> set (cf_pairs (rm_facts (vs_material r)))"
    using h(4) unfolding resolve_subject_Inr by (auto dest: filter_singleton_mem(1))
  then have q: "confirmations_within env (actor_id actor) ?allowed q"
    using none by (intro confirm_side_within [OF h(5)] confirmations_within_none) (simp_all add: p')
  have within: "confirmations_within env (actor_id actor) ?allowed z" if z: "z \<in> set ps" for z
  proof -
    obtain y where y: "y \<in> set (cf_pairs (rm_facts (vs_material r)))"
        "retain_pair env retained (actor_id actor) pu (cf_pairs (rm_facts (vs_material s)))
          (\<lambda>z sd''. same_factor (ep_context p') (fp_factor_id (ep_pair p')) z \<and> sd'' = sd')
          (if same_factor (ep_context p') (fp_factor_id (ep_pair p')) y then q else y) = Inr z"
      using map_result_origin [OF h(6) z] by auto
    have "confirmations_within env (actor_id actor) ?allowed (if same_factor (ep_context p') (fp_factor_id (ep_pair p')) y then q else y)"
      using q none [OF y(1)] by (simp add: confirmations_within_none)
    then show ?thesis using retain_pair_within [OF y(2)] by blast
  qed
  note cap = capture_sel [OF h(7)] and rc = capture_sel [OF conjunct1 [OF revise_capture [OF h(3)]]]
  have "child_snapshot env s i n"
    using cap revise_capture [OF h(3)] rev(1) by (simp add: child_snapshot_def set_pairs_def revised_material_def)
  with h(1,2) cap within show ?thesis by (intro that) (simp_all add: set_pairs_def)
qed

end
