(* ===== verification/Workflow_Tasks.thy ===== *)
theory Workflow_Tasks
  imports Workflow_Task_Store Material_Corrections
begin

text \<open>
  \<open>application/workflow_tasks.py\<close>: the service that turns the findings of a review into human tasks and an admitted
  answer into new material, and \<open>application/pause_resume.py\<close> over it.  The principal that the resolver returns and
  the identifiers of the factory (\<open>fresh n\<close> is the \<open>n\<close>-th) are arguments.
\<close>

section \<open>Bindings and the service\<close>

record human_task_binding =
  hb_blocker_id :: string
  hb_kind :: task_kind
  hb_finding_ids :: "string list"
  hb_subject_id :: "string option"

record task_service =
  ks_subjects :: subject_map
  ks_authorization :: "(review_material \<Rightarrow> bool) option"

definition permits :: "task_service \<Rightarrow> review_material \<Rightarrow> bool" where
  "permits sv m = (case ks_authorization sv of None \<Rightarrow> False | Some ok \<Rightarrow> ok m)"

definition side_task :: "task_kind \<Rightarrow> bool" where
  "side_task k = (k \<in> {T_FACT, T_CORRECTION, T_EVIDENCE})"

section \<open>Building a task\<close>

fun action_words :: "response_action \<Rightarrow> string" where
  "action_words R_CONFIRM = ''Confirm''"
| "action_words R_CORRECT = ''Correct''"
| "action_words R_REJECT = ''Reject''"
| "action_words R_APPROVE = ''Approve''"
| "action_words R_AUTHORIZE_PUBLICATION = ''Authorize publication''"
| "action_words R_SUPPLY_EVIDENCE = ''Supply evidence''"

definition scope_text :: "comparison_context \<Rightarrow> string" where
  "scope_text c = (case cx_scope c of Regional \<Rightarrow> ''regional'' | Individual \<Rightarrow> ''individual'')"

definition side_word :: "side \<Rightarrow> string" where
  "side_word sd = (case sd of Target_Side \<Rightarrow> ''target'' | Comparable_Side \<Rightarrow> ''comparable'')"

definition side_question :: "task_kind \<Rightarrow> string \<Rightarrow> fact_side_reference \<Rightarrow> string" where
  "side_question k subject_id side =
     action_words (task_action k) @ '' '' @ subject_id @ '' ('' @ scope_text (fd_context side) @ '', '' @ side_word (fd_side side)
     @ '') against the cited source. This response will require a full review of the resulting material.''"

definition foreign_finding :: "workflow_env \<Rightarrow> fact_side_reference \<Rightarrow> review_finding \<Rightarrow> bool" where
  "foreign_finding env side f =
     (\<not> option_ok (\<lambda>c. c = fd_context side) (rf_context f) \<or> \<not> option_ok (\<lambda>i. i = fd_factor_id side) (rf_factor_id f)
      \<or> (rf_context f = None \<or> rf_factor_id f = None)
        \<and> finding_name env f \<noteq> re_context_key (we_revisions env) (fd_context side) @ ''/factor/'' @ fd_factor_id side)"

definition side_part :: "workflow_env \<Rightarrow> task_service \<Rightarrow> human_task_context \<Rightarrow> task_kind \<Rightarrow> review_finding list \<Rightarrow> string option \<Rightarrow>
    (fact_side_reference option \<times> source_citation list \<times> string \<times> string list) result" where
  "side_part env sv cx k findings subject_id =
     bind_result (some_or (Service_Fault VALIDATION) subject_id) (\<lambda>i.
     bind_result (on_error (side_reference (we_revisions env) (ks_subjects sv) (hc_snapshot cx) i)
       (\<lambda>e. Inl (if is_value_error e then Service_Fault VALIDATION else e))) (\<lambda>side.
     bind_result (ensure (\<not> list_ex (foreign_finding env side) findings) (Service_Fault UNAUTHORIZED)) (\<lambda>_.
     bind_result (subject_value (ks_subjects sv) (hc_snapshot cx) i) (\<lambda>v.
       Inr (Some side, concat (map rf_evidence findings) @ pv_evidence v, side_question k i side, [i])))))"

definition rule_kind :: "review_finding \<Rightarrow> bool" where
  "rule_kind f = (rf_kind f \<in> {''approval'', ''rule_rejected'', ''rule_source''})"

definition rules_part :: "workflow_env \<Rightarrow> human_task_context \<Rightarrow> string list \<Rightarrow> (source_citation list \<times> string) result" where
  "rules_part env cx finding_ids =
     (let sets = pl_rule_sets (rm_policy (vs_material (hc_snapshot cx))) in
      bind_result (ensure (list_ex (\<lambda>s. frs_status (sc_rules s) = Candidate) sets) (Service_Fault CONFLICT)) (\<lambda>_.
      bind_result (ensure (set finding_ids = set (map (finding_name env)
          (filter (\<lambda>f. rf_status f \<noteq> E_VERIFIED \<and> rule_kind f) (cr_findings (hc_review cx))))) (Service_Fault VALIDATION)) (\<lambda>_.
        Inr (concat (map sc_evidence sets),
          ''Approve the cited candidate rules for these exact contexts: ''
          @ join_with '', '' (map (\<lambda>s. re_context_key (we_revisions env) (sc_context s)) sets) @ ''?''))))"

definition authority_part :: "workflow_env \<Rightarrow> human_task_context \<Rightarrow> task_kind \<Rightarrow> string list \<Rightarrow> review_finding list \<Rightarrow> string option \<Rightarrow>
    (fact_side_reference option \<times> source_citation list \<times> string \<times> string list) result" where
  "authority_part env cx k finding_ids findings subject_id =
     (let refs = concat (map rf_evidence findings) in
      bind_result (ensure (subject_id = None) (Service_Fault VALIDATION)) (\<lambda>_.
      bind_result (ensure (k \<in> {T_RULES, T_MATERIAL} \<longrightarrow> list_all rule_kind findings) (Service_Fault UNAUTHORIZED)) (\<lambda>_.
      if k = T_RULES
      then bind_result (rules_part env cx finding_ids) (\<lambda>(more, question).
        Inr (None, refs @ more, question,
          map (\<lambda>s. ''rules-'' @ we_context_digest env (sc_context s)) (pl_rule_sets (rm_policy (vs_material (hc_snapshot cx))))))
      else if k = T_MATERIAL
      then Inr (None, refs, ''Approve this exact material after separate fact and rule review? ''
        @ ''A current signed local material receipt is required.'', [''material''])
      else Inr (None, refs, ''Authorize publication of this exact verified result? ''
        @ ''Artifact writing and publication checks remain required.'', [''publication'']))))"

definition reason_of :: "review_finding list \<Rightarrow> string" where
  "reason_of findings = (case remdups (map rf_kind findings) of [k] \<Rightarrow> k | _ \<Rightarrow> ''multiple-review-findings'')"

definition build_task :: "workflow_env \<Rightarrow> task_service \<Rightarrow> uuid \<Rightarrow> human_task_context \<Rightarrow> task_kind \<Rightarrow> string list \<Rightarrow> string option \<Rightarrow>
    human_task result" where
  "build_task env sv i cx k finding_ids subject_id =
     (let findings = filter (\<lambda>f. finding_name env f \<in> set finding_ids) (cr_findings (hc_review cx));
          m = vs_material (hc_snapshot cx) in
      bind_result (ensure (finding_ids \<noteq> [] \<and> distinct finding_ids \<and> set finding_ids = set (map (finding_name env) findings))
        (Service_Fault VALIDATION)) (\<lambda>_.
      bind_result (if k = T_PUBLICATION then ensure (cr_status (hc_review cx) = E_VERIFIED \<and> permits sv m) (Service_Fault CAPABILITY)
        else ensure (\<not> list_ex (\<lambda>f. rf_status f = E_VERIFIED) findings) (Service_Fault CONFLICT)) (\<lambda>_.
      bind_result (if side_task k then side_part env sv cx k findings subject_id
        else authority_part env cx k finding_ids findings subject_id) (\<lambda>(side, refs, question, affected).
      bind_result (ensure (list_all (resolves (pl_registry (rm_policy m))) refs) (Service_Fault VALIDATION)) (\<lambda>_.
      let t = \<lparr>ht_task_id = i, ht_run = hc_run cx, ht_version = 1, ht_kind = k, ht_required_permission = task_permission k,
               ht_state = Task_Open, ht_side = side,
               ht_result_digest = (if k = T_PUBLICATION then Some (we_review_digest env (hc_review cx)) else None),
               ht_question = question, ht_evidence = fromkeys refs, ht_finding_ids = finding_ids,
               ht_allowed_responses = [task_action k, R_REJECT], ht_reason_code = Some (reason_of findings),
               ht_affected_subject_ids = affected\<rparr> in
      bind_result (ensure (task_authority t) Value_Error) (\<lambda>_. Inr t))))))"

definition build_bound :: "workflow_env \<Rightarrow> task_service \<Rightarrow> (nat \<Rightarrow> uuid) \<Rightarrow> human_task_context \<Rightarrow> nat \<times> human_task_binding \<Rightarrow>
    human_task result" where
  "build_bound env sv fresh cx = (\<lambda>(n, b). build_task env sv (fresh n) cx (hb_kind b) (hb_finding_ids b) (hb_subject_id b))"

section \<open>Handoffs\<close>

text \<open>
  The findings a handoff must cover: everything that is not verified, except the calculation of a comparison in which
  some covered finding lies.
\<close>

definition required_findings :: "workflow_env \<Rightarrow> case_review_result \<Rightarrow> string set \<Rightarrow> string set" where
  "required_findings env review covered =
     (let contexts = set (map rf_context (filter (\<lambda>f. finding_name env f \<in> covered) (cr_findings review))) in
      set (map (finding_name env) (filter (\<lambda>f. rf_status f \<noteq> E_VERIFIED
        \<and> \<not> (rf_kind f = ''calculation'' \<and> rf_context f \<noteq> None \<and> rf_context f \<in> contexts)) (cr_findings review))))"

definition trusted_actor :: "principal \<Rightarrow> unit result" where
  "trusted_actor pr = ensure (actor_kind (pr_actor pr) \<in> {A_system, A_human}) (Service_Fault UNAUTHORIZED)"

definition blocker_of :: "human_task_binding \<times> human_task \<Rightarrow> workflow_blocker" where
  "blocker_of = (\<lambda>(b, t). \<lparr>wb_blocker_id = hb_blocker_id b,
     wb_reason_code = (case ht_reason_code t of None \<Rightarrow> ''review-findings'' | Some r \<Rightarrow> r),
     wb_affected_subject_ids = ht_affected_subject_ids t, wb_evidence = ht_evidence t\<rparr>)"

definition handoff_of_tasks :: "run_reference \<Rightarrow> (human_task_binding \<times> human_task) list \<Rightarrow> human_review_handoff" where
  "handoff_of_tasks run pairs =
     \<lparr>ho_reason_code = ''review-findings'', ho_category = F_DETERMINISTIC_REVIEW_BLOCKER, ho_revision = rr_revision run,
      ho_blockers = map blocker_of pairs,
      ho_affected_subject_ids = fromkeys (concat (map (\<lambda>(_, t). ht_affected_subject_ids t) pairs)),
      ho_evidence = fromkeys (concat (map (\<lambda>(_, t). ht_evidence t) pairs)),
      ho_last_tool_outcome = None, ho_no_progress_fingerprint = None\<rparr>"

definition handoff_for_run :: "workflow_env \<Rightarrow> task_service \<Rightarrow> (nat \<Rightarrow> uuid) \<Rightarrow> principal \<Rightarrow> run_reference \<Rightarrow> human_task_binding list \<Rightarrow>
    task_repository \<Rightarrow> human_review_handoff result" where
  "handoff_for_run env sv fresh pr run bindings q =
     bind_result (trusted_actor pr) (\<lambda>_.
     bind_result (read_context pr run q) (\<lambda>cx.
     let covered = set (concat (map hb_finding_ids bindings)); required = required_findings env (hc_review cx) covered in
     bind_result (ensure (required \<noteq> {} \<and> required = covered \<and> distinct (map hb_blocker_id bindings)) (Service_Fault CAPABILITY)) (\<lambda>_.
     bind_result (map_result (build_bound env sv fresh cx) (enumerate 0 bindings)) (\<lambda>drafts.
     let h = handoff_of_tasks run (zip bindings drafts) in
     bind_result (ensure (preserved_context h) Value_Error) (\<lambda>_. Inr h)))))"

definition create_task :: "workflow_env \<Rightarrow> task_service \<Rightarrow> uuid \<Rightarrow> principal \<Rightarrow> run_reference \<Rightarrow> task_kind \<Rightarrow> string list \<Rightarrow> string option \<Rightarrow>
    task_repository \<Rightarrow> (human_task \<times> task_repository) result" where
  "create_task env sv i pr run k finding_ids subject_id q =
     bind_result (trusted_actor pr) (\<lambda>_.
     bind_result (read_context pr run q) (\<lambda>cx.
     bind_result (build_task env sv i cx k finding_ids subject_id) (\<lambda>t. create_task_in env pr t q)))"

definition blocker_matches :: "human_review_handoff \<Rightarrow> human_task_binding \<Rightarrow> human_task \<Rightarrow> bool" where
  "blocker_matches h b t =
     (case find (\<lambda>x. wb_blocker_id x = hb_blocker_id b) (ho_blockers h) of
        None \<Rightarrow> False
      | Some x \<Rightarrow> Some (wb_reason_code x) = ht_reason_code t \<and> set (wb_affected_subject_ids x) = set (ht_affected_subject_ids t)
          \<and> set (wb_evidence x) \<subseteq> set (ht_evidence t))"

definition bound_task :: "workflow_env \<Rightarrow> task_service \<Rightarrow> (nat \<Rightarrow> uuid) \<Rightarrow> human_task_context \<Rightarrow> human_review_handoff \<Rightarrow>
    nat \<times> human_task_binding \<Rightarrow> human_task result" where
  "bound_task env sv fresh cx h nb =
     bind_result (build_bound env sv fresh cx nb) (\<lambda>t.
     bind_result (ensure (blocker_matches h (snd nb) t) (Service_Fault CONFLICT)) (\<lambda>_. Inr t))"

definition create_from_handoff :: "workflow_env \<Rightarrow> task_service \<Rightarrow> (nat \<Rightarrow> uuid) \<Rightarrow> principal \<Rightarrow> run_reference \<Rightarrow> human_review_handoff \<Rightarrow>
    human_task_binding list \<Rightarrow> task_repository \<Rightarrow> (human_task list \<times> task_repository) result" where
  "create_from_handoff env sv fresh pr run h bindings q =
     bind_result (ensure (preserved_context h) Value_Error) (\<lambda>_.
     bind_result (read_context pr run q) (\<lambda>cx.
     bind_result (ensure (ho_revision h = rr_revision run) (Service_Fault CONFLICT)) (\<lambda>_.
     bind_result (ensure (ho_blockers h \<noteq> [] \<and> length bindings = length (ho_blockers h)
       \<and> set (map hb_blocker_id bindings) = set (map wb_blocker_id (ho_blockers h))) (Service_Fault CAPABILITY)) (\<lambda>_.
     bind_result (map_result (bound_task env sv fresh cx h) (enumerate 0 bindings)) (\<lambda>tasks.
       create_tasks env pr tasks q)))))"

section \<open>Answering\<close>

definition authorization :: "uuid \<Rightarrow> authorization_purpose \<Rightarrow> revision_snapshot \<Rightarrow> actor_reference \<Rightarrow> digest option \<Rightarrow>
    authorization_record result" where
  "authorization i purpose s actor result_digest =
     (let a = \<lparr>au_authorization_id = i, au_purpose = purpose, au_revision = vs_revision s, au_actor = actor, au_result_digest = result_digest\<rparr>
      in bind_result (ensure (publication_binding a) Value_Error) (\<lambda>_. Inr a))"

definition work_on :: "uuid \<Rightarrow> revision_snapshot \<Rightarrow> run_reference" where
  "work_on i s = \<lparr>rr_run_id = i, rr_revision = mr_reference (vs_revision s), rr_attempt_id = None, rr_runtime_session_id = None\<rparr>"

definition approve_rules :: "review_material \<Rightarrow> review_material" where
  "approve_rules m = m\<lparr>rm_policy := (rm_policy m)\<lparr>pl_rule_sets := map (\<lambda>s. s\<lparr>sc_rules := (sc_rules s)\<lparr>frs_status := Approved\<rparr>\<rparr>)
     (pl_rule_sets (rm_policy m))\<rparr>\<rparr>"

definition approved_rules :: "revision_env \<Rightarrow> revision_snapshot \<Rightarrow> string \<Rightarrow> revision_snapshot result" where
  "approved_rules env s revision_id =
     (let m = vs_material s in
      bind_result (selected (pl_registry (rm_policy m)) None None) (\<lambda>pu.
      bind_result (ensure (list_all (\<lambda>x. frs_status (sc_rules x) \<noteq> rule_status.Rejected \<and> allows pu (sc_evidence x) Rule_Purpose)
        (pl_rule_sets (rm_policy m))) (Service_Fault VALIDATION)) (\<lambda>_.
        revise env s (approve_rules m) revision_id (mr_changes (vs_revision s)))))"

definition corrected_side :: "workflow_env \<Rightarrow> task_service \<Rightarrow> principal \<Rightarrow> human_response \<Rightarrow> string \<Rightarrow> human_task \<Rightarrow> revision_snapshot \<Rightarrow>
    revision_snapshot result" where
  "corrected_side env sv pr command revision_id t s =
     (case hr_correction command of
        None \<Rightarrow> Inl (Service_Fault UNAUTHORIZED)
      | Some c \<Rightarrow>
          bind_result (ensure (ht_side t \<noteq> None \<and> vr_subject_id c \<in> set (ht_affected_subject_ids t)) (Service_Fault UNAUTHORIZED)) (\<lambda>_.
            correct_material (we_revisions env) (we_value_digest env) (ks_subjects sv) s c (pr_actor pr) revision_id (ht_kind t = T_EVIDENCE)))"

definition accepted_change :: "workflow_env \<Rightarrow> task_service \<Rightarrow> (nat \<Rightarrow> uuid) \<Rightarrow> principal \<Rightarrow> human_response \<Rightarrow> task_transition" where
  "accepted_change env sv fresh pr command t cx =
     (let s = hc_snapshot cx; m = vs_material s; revision_id = we_revision_text env (fresh 0);
          changed = (\<lambda>n. Inr \<lparr>hn_snapshot = n, hn_next_run = Some (work_on (fresh 1) n), hn_authorization = None\<rparr>) in
      if ht_kind t \<in> {T_CORRECTION, T_EVIDENCE} then bind_result (corrected_side env sv pr command revision_id t s) changed
      else if ht_kind t = T_FACT
      then bind_result (case ht_affected_subject_ids t of
             [] \<Rightarrow> Inl Other_Exception
           | i # _ \<Rightarrow> confirm_material (we_revisions env) (ks_subjects sv) s i (pr_actor pr) revision_id (hc_confirmed_sides cx)) changed
      else if ht_kind t = T_RULES
      then bind_result (approved_rules (we_revisions env) s revision_id) (\<lambda>n.
           bind_result (authorization (fresh 1) For_Rules n (pr_actor pr) None) (\<lambda>a.
             Inr \<lparr>hn_snapshot = n, hn_next_run = Some (work_on (fresh 2) n), hn_authorization = Some a\<rparr>))
      else if ht_kind t = T_MATERIAL
      then bind_result (ensure (permits sv m \<and> list_all (\<lambda>x. frs_status (sc_rules x) = Approved) (pl_rule_sets (rm_policy m)))
             (Service_Fault CAPABILITY)) (\<lambda>_.
           bind_result (authorization (fresh 0) For_Material s (pr_actor pr) None) (\<lambda>a.
             Inr \<lparr>hn_snapshot = s, hn_next_run = Some (work_on (fresh 1) s), hn_authorization = Some a\<rparr>))
      else bind_result (authorization (fresh 0) For_Publication s (pr_actor pr) (ht_result_digest t)) (\<lambda>a.
             Inr \<lparr>hn_snapshot = s, hn_next_run = None, hn_authorization = Some a\<rparr>))"

definition workflow_transition :: "workflow_env \<Rightarrow> task_service \<Rightarrow> (nat \<Rightarrow> uuid) \<Rightarrow> principal \<Rightarrow> human_response \<Rightarrow> task_transition" where
  "workflow_transition env sv fresh pr command t cx =
     (let s = hc_snapshot cx in
      bind_result (case ht_side t of
          None \<Rightarrow> Inr ()
        | Some side \<Rightarrow>
            (case ht_affected_subject_ids t of
               [i] \<Rightarrow> bind_result (side_reference (we_revisions env) (ks_subjects sv) s i) (\<lambda>r. ensure (r = side) (Service_Fault CONFLICT))
             | _ \<Rightarrow> Inl (Service_Fault CONFLICT))) (\<lambda>_.
      bind_result (ensure (ht_kind t = T_PUBLICATION \<longrightarrow> ht_result_digest t = Some (we_review_digest env (hc_review cx))
          \<and> cr_status (hc_review cx) = E_VERIFIED \<and> permits sv (vs_material s)) (Service_Fault CONFLICT)) (\<lambda>_.
      if hr_action command = R_REJECT then Inr \<lparr>hn_snapshot = s, hn_next_run = None, hn_authorization = None\<rparr>
      else accepted_change env sv fresh pr command t cx)))"

definition respond_task :: "workflow_env \<Rightarrow> task_service \<Rightarrow> (nat \<Rightarrow> uuid) \<Rightarrow> uuid \<Rightarrow> principal \<Rightarrow> human_response \<Rightarrow> task_repository \<Rightarrow>
    (human_response_result \<times> task_repository) result" where
  "respond_task env sv fresh event_id pr command q =
     bind_result (ensure (action_payload command) Value_Error) (\<lambda>_.
       on_error (repository_respond env event_id pr command (workflow_transition env sv fresh pr command) q)
         (\<lambda>e. Inl (if is_value_error e \<or> e = Permission_Error then Service_Fault VALIDATION else e)))"

definition review_again :: "workflow_env \<Rightarrow> task_service \<Rightarrow> human_task_context \<Rightarrow> case_review_result result" where
  "review_again env sv cx =
     (let m = vs_material (hc_snapshot cx) in
      bind_result (make_reviewer (ks_authorization sv) (Dec 85 (- 2))) (\<lambda>rv.
        review_case (we_review env) rv (rm_policy m) (rm_facts m) (pl_registry (rm_policy m)) None None None))"

definition reenter :: "workflow_env \<Rightarrow> task_service \<Rightarrow> principal \<Rightarrow> run_reference \<Rightarrow> task_repository \<Rightarrow> (case_review_result \<times> task_repository) result" where
  "reenter env sv pr run q = reenter_run pr run (review_again env sv) q"

end
