(* ===== verification/Workflow_Task_Inv.thy ===== *)
theory Workflow_Task_Inv
  imports Workflow_Tasks
begin

text \<open>
  The invariant of the workflow's task repository under every sequence of its operations, with the service's transition
  for every answer: which run of a case is current, what open tasks ask about, which response stands behind an
  answered task, and which responses stand behind the confirmations that the material carries.
\<close>

section \<open>Steps\<close>

inductive repo_step :: "workflow_env \<Rightarrow> task_service \<Rightarrow> task_repository \<Rightarrow> task_repository \<Rightarrow> bool" for env sv where
  registered: "register_case env s run review q = Inr q' \<Longrightarrow> repo_step env sv q q'"
| created: "create_tasks env pr ts q = Inr (xs, q') \<Longrightarrow> repo_step env sv q q'"
| answered: "respond_task env sv fresh event_id pr command q = Inr (x, q') \<Longrightarrow> repo_step env sv q q'"
| reentered: "reenter env sv pr run q = Inr (review, q') \<Longrightarrow> repo_step env sv q q'"
| paused: "pause_run env pause_id pr res q = Inr (p, q') \<Longrightarrow> repo_step env sv q q'"

section \<open>The invariant\<close>

definition cases_ok :: "task_repository \<Rightarrow> bool" where
  "cases_ok q =
     ((\<forall>i run. dict_get (tq_runs q) i = Some run \<longrightarrow> rr_run_id run = i \<and> dict_get (tq_current q) (rev_case_id (rr_revision run)) \<noteq> None)
      \<and> (\<forall>k s. dict_get (tq_snapshots q) k = Some s \<longrightarrow> reference_key (mr_reference (vs_revision s)) = k \<and> dict_get (tq_current q) (fst k) \<noteq> None)
      \<and> (\<forall>c v. dict_get (tq_current q) c = Some v \<longrightarrow>
           (\<exists>run s. dict_get (tq_active_run q) c = Some (rr_run_id run) \<and> dict_get (tq_runs q) (rr_run_id run) = Some run
              \<and> reference_key (rr_revision run) = (c, v) \<and> dict_get (tq_snapshots q) (c, v) = Some s
              \<and> mr_reference (vs_revision s) = rr_revision run \<and> dict_get (tq_reviews q) (rr_run_id run) \<noteq> None)))"

text \<open>An open task asks about the active run of its case.\<close>

definition active_question :: "task_repository \<Rightarrow> human_task \<Rightarrow> bool" where
  "active_question q t =
     (dict_get (tq_runs q) (rr_run_id (ht_run t)) = Some (ht_run t)
      \<and> dict_get (tq_active_run q) (rev_case_id (rr_revision (ht_run t))) = Some (rr_run_id (ht_run t)))"

definition questions_ok :: "task_repository \<Rightarrow> bool" where
  "questions_ok q =
     (dict_ok (tq_tasks q)
      \<and> (\<forall>i t. dict_get (tq_tasks q) i = Some t \<longrightarrow>
           ht_task_id t = i \<and> (ht_state t = Task_Open \<longrightarrow> task_authority t \<and> active_question q t)))"

definition responses_ok :: "task_repository \<Rightarrow> bool" where
  "responses_ok q =
     ((\<forall>k x. dict_get (tq_responses q) k = Some x \<longrightarrow>
         k = (actor_id (ar_actor (hx_accepted x)), hr_idempotency_key (ar_command (hx_accepted x)))
         \<and> ht_state (hx_task x) = Task_Answered \<and> dict_get (tq_tasks q) (ht_task_id (hx_task x)) = Some (hx_task x) \<and> response_binding x)
      \<and> (\<forall>k x k' x'. dict_get (tq_responses q) k = Some x \<longrightarrow> dict_get (tq_responses q) k' = Some x' \<longrightarrow>
           ht_task_id (hx_task x) = ht_task_id (hx_task x') \<longrightarrow> k = k'))"

text \<open>A response in which this actor confirmed this side.\<close>

definition confirmed_side :: "task_repository \<Rightarrow> actor_reference \<Rightarrow> fact_side_reference \<Rightarrow> bool" where
  "confirmed_side q a side =
     (\<exists>k x. dict_get (tq_responses q) k = Some x \<and> ar_actor (hx_accepted x) = a \<and> hr_action (ar_command (hx_accepted x)) = R_CONFIRM
        \<and> ht_kind (hx_task x) = T_FACT \<and> ht_side (hx_task x) = Some side)"

definition earned_confirmations :: "workflow_env \<Rightarrow> task_repository \<Rightarrow> revision_snapshot \<Rightarrow> bool" where
  "earned_confirmations env q s =
     (\<forall>p \<in> set (cf_pairs (rm_facts (vs_material s))). \<forall>sd c. rl_confirmation (side_reliability p sd) = Some c \<longrightarrow>
        fc_input_digest c = confirmation_digest (re_confirmation_digest (we_revisions env)) p sd
        \<and> (\<exists>a. actor_id a = fc_reviewer c \<and> confirmed_side q a (reference_of_side (we_revisions env) p sd)))"

definition material_ok :: "workflow_env \<Rightarrow> task_repository \<Rightarrow> bool" where
  "material_ok env q =
     ((\<forall>c a side. (a, side) \<in> set (confirmations_of q c) \<longrightarrow> confirmed_side q a side)
      \<and> (\<forall>k x. dict_get (tq_responses q) k = Some x \<longrightarrow>
           (\<exists>s. dict_get (tq_snapshots q) (reference_key (mr_reference (hx_revision x))) = Some s \<and> vs_revision s = hx_revision x
              \<and> (mr_reference (hx_revision x) \<noteq> rr_revision (ht_run (hx_task x)) \<longrightarrow> earned_confirmations env q s))))"

definition repo_inv :: "workflow_env \<Rightarrow> task_repository \<Rightarrow> bool" where
  "repo_inv env q = (cases_ok q \<and> questions_ok q \<and> responses_ok q \<and> material_ok env q)"

lemma empty_repository_inv: "repo_inv env empty_repository"
  by (simp add: repo_inv_def cases_ok_def questions_ok_def responses_ok_def material_ok_def confirmations_of_def empty_repository_def)

lemma cases_okD:
  assumes "cases_ok q"
  shows "dict_get (tq_runs q) i = Some run \<Longrightarrow> rr_run_id run = i \<and> dict_get (tq_current q) (rev_case_id (rr_revision run)) \<noteq> None"
    and "dict_get (tq_snapshots q) k = Some s \<Longrightarrow> reference_key (mr_reference (vs_revision s)) = k \<and> dict_get (tq_current q) (fst k) \<noteq> None"
  using assms unfolding cases_ok_def by blast+

lemma cases_okE:
  assumes "cases_ok q" and "dict_get (tq_current q) c = Some v"
  obtains run s where "dict_get (tq_active_run q) c = Some (rr_run_id run)" "dict_get (tq_runs q) (rr_run_id run) = Some run"
    "reference_key (rr_revision run) = (c, v)" "dict_get (tq_snapshots q) (c, v) = Some s"
    "mr_reference (vs_revision s) = rr_revision run" "dict_get (tq_reviews q) (rr_run_id run) \<noteq> None"
  using assms unfolding cases_ok_def by blast

section \<open>Registration, re-entry and pause\<close>

lemma confirmed_side_cong: "tq_responses q' = tq_responses q \<Longrightarrow> confirmed_side q' = confirmed_side q"
  by (simp add: fun_eq_iff confirmed_side_def)

lemma confirmations_of_cong: "tq_confirmations q' = tq_confirmations q \<Longrightarrow> confirmations_of q' = confirmations_of q"
  by (simp add: fun_eq_iff confirmations_of_def)

lemma earned_cong: "tq_responses q' = tq_responses q \<Longrightarrow> earned_confirmations env q' = earned_confirmations env q"
  by (simp add: fun_eq_iff earned_confirmations_def confirmed_side_def)

lemma register_case_sel:
  assumes "register_case env s run review q = Inr q'"
  shows "rr_revision run = mr_reference (vs_revision s)" "dict_get (tq_current q) (rev_case_id (mr_reference (vs_revision s))) = None"
    "dict_get (tq_runs q) (rr_run_id run) = None"
    "dict_get (tq_snapshots q') k = (if k = reference_key (mr_reference (vs_revision s)) then Some s else dict_get (tq_snapshots q) k)"
    "dict_get (tq_current q') c = (if c = rev_case_id (mr_reference (vs_revision s)) then Some (rev_revision_id (mr_reference (vs_revision s)))
       else dict_get (tq_current q) c)"
    "dict_get (tq_active_run q') c = (if c = rev_case_id (mr_reference (vs_revision s)) then Some (rr_run_id run) else dict_get (tq_active_run q) c)"
    "dict_get (tq_runs q') i = (if i = rr_run_id run then Some run else dict_get (tq_runs q) i)"
    "dict_get (tq_reviews q') i = (if i = rr_run_id run then Some review else dict_get (tq_reviews q) i)"
    "tq_tasks q' = tq_tasks q" "tq_responses q' = tq_responses q" "tq_confirmations q' = tq_confirmations q"
  using assms by (auto simp: register_case_def Let_def)

lemma register_case_cases_ok:
  assumes reg: "register_case env s run review q = Inr q'" and ok: "cases_ok q"
  shows "cases_ok q'"
  unfolding cases_ok_def
proof (intro conjI allI impI)
  note sel = register_case_sel [OF reg]
  let ?r = "mr_reference (vs_revision s)"
  {
    fix i x assume "dict_get (tq_runs q') i = Some x"
    then show "rr_run_id x = i" "dict_get (tq_current q') (rev_case_id (rr_revision x)) \<noteq> None"
      using cases_okD(1) [OF ok, of i x] sel(1) by (auto simp: sel(5,7) split: if_splits)
  next
    fix k x assume "dict_get (tq_snapshots q') k = Some x"
    then show "reference_key (mr_reference (vs_revision x)) = k" "dict_get (tq_current q') (fst k) \<noteq> None"
      using cases_okD(2) [OF ok, of k x] by (auto simp: sel(4,5) reference_key_def split: if_splits)
  next
    fix c v assume v: "dict_get (tq_current q') c = Some v"
    show "\<exists>run s. dict_get (tq_active_run q') c = Some (rr_run_id run) \<and> dict_get (tq_runs q') (rr_run_id run) = Some run
        \<and> reference_key (rr_revision run) = (c, v) \<and> dict_get (tq_snapshots q') (c, v) = Some s
        \<and> mr_reference (vs_revision s) = rr_revision run \<and> dict_get (tq_reviews q') (rr_run_id run) \<noteq> None"
    proof (cases "c = rev_case_id ?r")
      case True
      then show ?thesis using v sel(1)
        by (intro exI [of _ run] exI [of _ s]) (simp add: sel(4-8) reference_key_def)
    next
      case False
      then have old: "dict_get (tq_current q) c = Some v" using v by (simp add: sel(5))
      obtain x y where x: "dict_get (tq_active_run q) c = Some (rr_run_id x)" "dict_get (tq_runs q) (rr_run_id x) = Some x"
          "reference_key (rr_revision x) = (c, v)" "dict_get (tq_snapshots q) (c, v) = Some y" "mr_reference (vs_revision y) = rr_revision x"
          "dict_get (tq_reviews q) (rr_run_id x) \<noteq> None"
        by (rule cases_okE [OF ok old])
      moreover have "rr_run_id x \<noteq> rr_run_id run" using x(2) sel(3) by auto
      ultimately show ?thesis using False
        by (intro exI [of _ x] exI [of _ y]) (simp add: sel(4,6-8) reference_key_def)
    qed
  }
qed

text \<open>Everything but the cases of the repository stays: the other parts of the invariant follow.\<close>

lemma registered_rest:
  assumes "tq_tasks q' = tq_tasks q" "tq_responses q' = tq_responses q" "tq_confirmations q' = tq_confirmations q"
    and "\<And>t. active_question q t \<Longrightarrow> active_question q' t"
    and "\<And>k s. dict_get (tq_snapshots q) k = Some s \<Longrightarrow> dict_get (tq_snapshots q') k = Some s"
    and "repo_inv env q"
  shows "questions_ok q' \<and> responses_ok q' \<and> material_ok env q'"
proof -
  have "material_ok env q'" unfolding material_ok_def
  proof (intro conjI allI impI)
    fix c a side assume "(a, side) \<in> set (confirmations_of q' c)"
    then show "confirmed_side q' a side"
      using assms(6) confirmations_of_cong [OF assms(3)] confirmed_side_cong [OF assms(2)] unfolding repo_inv_def material_ok_def by metis
  next
    fix k x assume "dict_get (tq_responses q') k = Some x"
    then show "\<exists>s. dict_get (tq_snapshots q') (reference_key (mr_reference (hx_revision x))) = Some s \<and> vs_revision s = hx_revision x
        \<and> (mr_reference (hx_revision x) \<noteq> rr_revision (ht_run (hx_task x)) \<longrightarrow> earned_confirmations env q' s)"
      using assms(5,6) earned_cong [OF assms(2)] unfolding repo_inv_def material_ok_def assms(2) by metis
  qed
  moreover have "questions_ok q'" using assms(1,4,6) by (simp add: repo_inv_def questions_ok_def)
  moreover have "responses_ok q'" using assms(1,2,6) by (simp add: repo_inv_def responses_ok_def)
  ultimately show ?thesis by blast
qed

lemma register_case_inv:
  assumes reg: "register_case env s run review q = Inr q'" and inv: "repo_inv env q"
  shows "repo_inv env q'"
proof -
  note sel = register_case_sel [OF reg]
  have c: "cases_ok q" using inv by (simp add: repo_inv_def)
  have "rev_case_id (rr_revision x) \<noteq> rev_case_id (mr_reference (vs_revision s))" if "dict_get (tq_runs q) i = Some x" for i x
    using cases_okD(1) [OF c that] sel(2) by auto
  then have "active_question q' t" if "active_question q t" for t
    using that sel(3) by (auto simp: sel(6,7) active_question_def)
  moreover have "dict_get (tq_snapshots q) (reference_key (mr_reference (vs_revision s))) = None"
  proof (rule ccontr)
    assume "dict_get (tq_snapshots q) (reference_key (mr_reference (vs_revision s))) \<noteq> None"
    then have "dict_get (tq_current q) (fst (reference_key (mr_reference (vs_revision s)))) \<noteq> None" using cases_okD(2) [OF c] by blast
    then show False using sel(2) by (simp add: reference_key_def)
  qed
  ultimately have "questions_ok q' \<and> responses_ok q' \<and> material_ok env q'"
    by (intro registered_rest [OF _ _ _ _ _ inv]) (auto simp: sel)
  then show ?thesis using register_case_cases_ok [OF reg c] by (simp add: repo_inv_def)
qed

lemma reenter_inv:
  assumes "reenter env sv pr run q = Inr (x, q')" and "repo_inv env q"
  shows "repo_inv env q'"
proof -
  from assms(1) have "q' = q \<or> q' = q\<lparr>tq_reviews := dict_set (rr_run_id run) x (tq_reviews q), tq_pending := tq_pending q - {rr_run_id run}\<rparr>"
    by (auto simp: reenter_def reenter_run_def split: if_splits)
  moreover have "repo_inv env (q\<lparr>tq_reviews := dict_set i x (tq_reviews q), tq_pending := ps\<rparr>)" for i ps
  proof -
    let ?q = "q\<lparr>tq_reviews := dict_set i x (tq_reviews q), tq_pending := ps\<rparr>"
    have "cases_ok ?q" using assms(2) by (fastforce simp: repo_inv_def cases_ok_def)
    moreover have "questions_ok ?q \<and> responses_ok ?q \<and> material_ok env ?q"
      by (rule registered_rest [OF _ _ _ _ _ assms(2)]) (simp_all add: active_question_def)
    ultimately show ?thesis by (simp add: repo_inv_def)
  qed
  ultimately show ?thesis using assms(2) by metis
qed

lemma pause_run_inv:
  assumes "pause_run env i pr res q = Inr (p, q')" and "repo_inv env q"
  shows "repo_inv env q'"
proof -
  have same: "q = q\<lparr>tq_pauses := tq_pauses q\<rparr>" by simp
  have "\<exists>ps. q' = q\<lparr>tq_pauses := ps\<rparr>"
  proof (cases "dict_get (tq_pauses q) (rr_run_id (bw_run res))")
    case None
    then show ?thesis using assms(1) by (auto simp: pause_run_def Let_def)
  next
    case (Some prior)
    then have "q' = q" using assms(1) by (auto simp: pause_run_def Let_def split: if_splits)
    then show ?thesis using same by blast
  qed
  then obtain ps where q': "q' = q\<lparr>tq_pauses := ps\<rparr>" by blast
  have "cases_ok q'" using assms(2) by (simp add: q' repo_inv_def cases_ok_def)
  moreover have "questions_ok q' \<and> responses_ok q' \<and> material_ok env q'"
    by (rule registered_rest [OF _ _ _ _ _ assms(2)]) (simp_all add: q' active_question_def)
  ultimately show ?thesis by (simp add: repo_inv_def)
qed

section \<open>Creating tasks\<close>

lemma responses_okD:
  assumes "responses_ok q" and "dict_get (tq_responses q) k = Some x"
  shows "k = (actor_id (ar_actor (hx_accepted x)), hr_idempotency_key (ar_command (hx_accepted x)))"
    "ht_state (hx_task x) = Task_Answered" "dict_get (tq_tasks q) (ht_task_id (hx_task x)) = Some (hx_task x)" "response_binding x"
    and "dict_get (tq_responses q) k' = Some x' \<Longrightarrow> ht_task_id (hx_task x) = ht_task_id (hx_task x') \<Longrightarrow> k = k'"
  using assms unfolding responses_ok_def by blast+

lemma responses_ok_cong:
  assumes "responses_ok q" and "tq_responses q' = tq_responses q"
    and "\<And>i t. dict_get (tq_tasks q) i = Some t \<Longrightarrow> dict_get (tq_tasks q') i = Some t"
  shows "responses_ok q'"
  unfolding responses_ok_def assms(2) using responses_okD [OF assms(1)] assms(3) by blast

lemma context_in_Inr:
  "context_in pr run allow q = Inr cx \<longleftrightarrow>
     rev_case_id (rr_revision run) \<in> set (pr_case_ids pr) \<and> P_REVIEW \<in> set (pr_permissions pr)
     \<and> dict_get (tq_runs q) (rr_run_id run) = Some run
     \<and> dict_get (tq_current q) (rev_case_id (rr_revision run)) = Some (rev_revision_id (rr_revision run))
     \<and> dict_get (tq_active_run q) (rev_case_id (rr_revision run)) = Some (rr_run_id run)
     \<and> dict_get (tq_snapshots q) (reference_key (rr_revision run)) = Some (hc_snapshot cx)
     \<and> mr_reference (vs_revision (hc_snapshot cx)) = rr_revision run
     \<and> dict_get (tq_reviews q) (rr_run_id run) = Some (hc_review cx) \<and> (rr_run_id run \<notin> tq_pending q \<or> allow)
     \<and> hc_run cx = run \<and> hc_confirmed_sides cx = confirmed_by pr (confirmations_of q (rev_case_id (rr_revision run)))"
  by (cases cx) (auto simp: context_in_def Let_def)

lemma create_task_in_cases:
  assumes "create_task_in env pr t q = Inr (x, q')"
  obtains (kept) "q' = q" | (stored) "q' = q\<lparr>tq_tasks := dict_set (ht_task_id t) t (tq_tasks q)\<rparr>" "dict_get (tq_tasks q) (ht_task_id t) = None"
      "task_authority t" "ht_state t = Task_Open" "active_question q t"
proof (cases "dict_get (tq_tasks q) (ht_task_id t) = None \<and> find (same_question t) (map snd (tq_tasks q)) = None")
  case True
  from assms obtain cx where "context_in pr (ht_run t) False q = Inr cx" "creatable env cx t" "task_authority t"
    by (auto simp: create_task_in_def)
  then have "active_question q t" "ht_state t = Task_Open" "task_authority t" by (auto simp: context_in_Inr active_question_def creatable_def)
  moreover have "q' = q\<lparr>tq_tasks := dict_set (ht_task_id t) t (tq_tasks q)\<rparr>" using assms True by (auto simp: create_task_in_def)
  ultimately show ?thesis using True by (intro stored) simp_all
next
  case False
  then show ?thesis using assms by (intro kept) (auto simp: create_task_in_def split: option.splits if_splits)
qed

lemma create_task_in_inv:
  assumes create: "create_task_in env pr t q = Inr (x, q')" and inv: "repo_inv env q"
  shows "repo_inv env q'"
proof (cases rule: create_task_in_cases [OF create, case_names kept stored])
  case stored
  have active: "active_question q' = active_question q" by (simp add: fun_eq_iff active_question_def stored(1))
  have q: "cases_ok q" "questions_ok q" "responses_ok q" "material_ok env q" using inv by (simp_all add: repo_inv_def)
  have "cases_ok q'" using q(1) by (simp add: stored(1) cases_ok_def)
  moreover have "questions_ok q'"
    using q(2) stored(3-5) unfolding questions_ok_def active by (auto simp: stored(1) split: if_splits)
  moreover have "responses_ok q'"
    by (rule responses_ok_cong [OF q(3)]) (use stored(2) in \<open>auto simp: stored(1) simp del: map_of_eq_None_iff\<close>)
  moreover have "material_ok env q'"
    using q(4) earned_cong [of q' q env] confirmations_of_cong [of q' q] confirmed_side_cong [of q' q]
    by (simp add: material_ok_def stored(1))
  ultimately show ?thesis by (simp add: repo_inv_def)
qed (use inv in simp)

lemma create_tasks_inv: "create_tasks env pr ts q = Inr (xs, q') \<Longrightarrow> repo_inv env q \<Longrightarrow> repo_inv env q'"
  by (induction env pr ts q arbitrary: xs rule: create_tasks.induct) (auto dest: create_task_in_inv)

section \<open>What the service's transition may do\<close>

lemma reference_of_resolved:
  "side_reference env subjects s i = Inr r \<Longrightarrow> resolve_subject subjects (vs_material s) i = Inr (p, sd) \<Longrightarrow> r = reference_of_side env p sd"
  by (auto simp: side_reference_def)

lemma transition_cases:
  assumes "workflow_transition env sv fresh pr command t cx = Inr ch" and "task_authority t" and "hr_action command \<in> set (ht_allowed_responses t)"
  obtains (same) "hn_snapshot ch = hc_snapshot cx"
  | (reopened) "child_snapshot (we_revisions env) (hc_snapshot cx) (we_revision_text env (fresh 0)) (hn_snapshot ch)"
      "\<And>p sd. p \<in> set (cf_pairs (rm_facts (vs_material (hn_snapshot ch)))) \<Longrightarrow> rl_confirmation (side_reliability p sd) = None"
  | (confirmed) side where "child_snapshot (we_revisions env) (hc_snapshot cx) (we_revision_text env (fresh 0)) (hn_snapshot ch)"
      "ht_kind t = T_FACT" "hr_action command = R_CONFIRM" "ht_side t = Some side"
      "\<And>p. p \<in> set (cf_pairs (rm_facts (vs_material (hn_snapshot ch)))) \<Longrightarrow>
         confirmations_within (we_revisions env) (actor_id (pr_actor pr)) (insert side (set (hc_confirmed_sides cx))) p"
proof (cases "hr_action command = R_REJECT \<or> ht_kind t \<in> {T_MATERIAL, T_PUBLICATION}")
  case True
  then show ?thesis using assms(1) by (intro same) (auto simp: workflow_transition_def accepted_change_def Let_def split: if_splits)
next
  case False
  let ?s = "hc_snapshot cx" and ?i = "we_revision_text env (fresh 0)"
  have change: "accepted_change env sv fresh pr command t cx = Inr ch"
    using assms(1) False by (auto simp: workflow_transition_def Let_def split: if_splits)
  consider "ht_kind t \<in> {T_CORRECTION, T_EVIDENCE}" | "ht_kind t = T_FACT" | "ht_kind t = T_RULES" using False by (cases "ht_kind t") auto
  then show ?thesis
  proof cases
    case 1
    then have "corrected_side env sv pr command ?i t ?s = Inr (hn_snapshot ch)" using change by (auto simp: accepted_change_def Let_def)
    then obtain c where "correct_material (we_revisions env) (we_value_digest env) (ks_subjects sv) ?s c (pr_actor pr) ?i (ht_kind t = T_EVIDENCE)
        = Inr (hn_snapshot ch)" by (auto simp: corrected_side_def split: option.splits)
    from correct_material_Inr [OF this] show ?thesis by (intro reopened) blast+
  next
    case 2
    then obtain j js where j: "ht_affected_subject_ids t = j # js"
        "confirm_material (we_revisions env) (ks_subjects sv) ?s j (pr_actor pr) ?i (hc_confirmed_sides cx) = Inr (hn_snapshot ch)"
      using change by (auto simp: accepted_change_def Let_def split: list.splits)
    obtain side where side: "ht_side t = Some side" using assms(2) 2 by (auto simp: task_authority_def)
    then have ref: "side_reference (we_revisions env) (ks_subjects sv) ?s j = Inr side"
      using assms(1) j(1) by (auto simp: workflow_transition_def Let_def split: list.splits)
    have act: "hr_action command = R_CONFIRM" using assms(2,3) False 2 by (auto simp: task_authority_def)
    show ?thesis
    proof (rule confirm_material_Inr [OF j(2)])
      fix p sd
      assume p: "resolve_subject (ks_subjects sv) (vs_material ?s) j = Inr (p, sd)"
        "child_snapshot (we_revisions env) ?s ?i (hn_snapshot ch)"
        "\<And>q. q \<in> set (cf_pairs (rm_facts (vs_material (hn_snapshot ch)))) \<Longrightarrow>
           confirmations_within (we_revisions env) (actor_id (pr_actor pr)) (insert (reference_of_side (we_revisions env) p sd) (set (hc_confirmed_sides cx))) q"
      show ?thesis
        by (rule confirmed [OF p(2) 2 act side]) (use p(3) reference_of_resolved [OF ref p(1)] in simp)
    qed
  next
    case 3
    then have "approved_rules (we_revisions env) ?s ?i = Inr (hn_snapshot ch)"
      using change by (auto simp: accepted_change_def Let_def)
    then have r: "revise (we_revisions env) ?s (approve_rules (vs_material ?s)) ?i (mr_changes (vs_revision ?s)) = Inr (hn_snapshot ch)"
      by (auto simp: approved_rules_def Let_def)
    show ?thesis
      by (rule reopened) (use revise_child [OF r] revise_Inr(1) [OF r] revised_confirmations in auto)
  qed
qed

section \<open>Answers\<close>

lemma map_of_map_keyed: "map_of (map (\<lambda>(i, x). (i, f i x)) d) i = map_option (f i) (map_of d i)"
  by (induction d) auto

lemma updated_tasks_get:
  "dict_get (updated_tasks t old d) i = map_option (\<lambda>x. if i = ht_task_id t then answered_task t
     else if old = Some (rr_revision (ht_run x)) \<and> ht_state x = Task_Open then superseded_task x else x) (dict_get d i)"
  unfolding updated_tasks_def by (rule map_of_map_keyed)

lemma updated_tasks_keys [simp]: "map fst (updated_tasks t old d) = map fst d"
  by (induction d) (auto simp: updated_tasks_def)

text \<open>The state after an answer, field by field.\<close>

lemma write_response_sel:
  fixes pr command t cx ch x cont q
  defines "q' \<equiv> write_response pr command t cx ch x cont q"
    and "changed \<equiv> vs_revision (hn_snapshot ch) \<noteq> vs_revision (hc_snapshot cx)"
    and "ref \<equiv> mr_reference (vs_revision (hn_snapshot ch))"
  shows "tq_tasks q' = updated_tasks t (if changed \<or> hn_next_run ch \<noteq> None then Some (mr_reference (vs_revision (hc_snapshot cx))) else None) (tq_tasks q)"
    "dict_get (tq_responses q') k = (if k = (actor_id (pr_actor pr), hr_idempotency_key command) then Some x else dict_get (tq_responses q) k)"
    "confirmations_of q' c = (if c = rev_case_id ref \<and> changed then next_confirmations pr command t cx else confirmations_of q c)"
    "tq_snapshots q' = (if changed then dict_set (reference_key ref) (hn_snapshot ch) (tq_snapshots q) else tq_snapshots q)"
    "tq_current q' = (if changed then dict_set (rev_case_id ref) (rev_revision_id ref) (tq_current q) else tq_current q)"
    "tq_runs q' = (case hn_next_run ch of None \<Rightarrow> tq_runs q | Some run \<Rightarrow> dict_set (rr_run_id run) run (tq_runs q))"
    "tq_active_run q' = (case hn_next_run ch of None \<Rightarrow> tq_active_run q | Some run \<Rightarrow> dict_set (rev_case_id ref) (rr_run_id run) (tq_active_run q))"
    "tq_reviews q' = (case hn_next_run ch of None \<Rightarrow> tq_reviews q | Some run \<Rightarrow> dict_set (rr_run_id run) (hc_review cx) (tq_reviews q))"
    "tq_pending q' = (case hn_next_run ch of None \<Rightarrow> tq_pending q | Some run \<Rightarrow> insert (rr_run_id run) (tq_pending q))"
  unfolding q'_def changed_def ref_def
  by (simp_all add: write_response_def Let_def confirmations_of_def)

lemma accept_response_Inr:
  assumes "accept_response env event_id pr command transition t q = Inr (x, q')"
  obtains cx ch cont where "context_in pr (ht_run t) False q = Inr cx" "task_authority t" "hr_action command \<in> set (ht_allowed_responses t)"
    "actor_kind (pr_actor pr) = A_human" "task_current t command (mr_reference (vs_revision (hc_snapshot cx)))" "hr_task_id command = ht_task_id t"
    "transition t cx = Inr ch" "transition_allowed env (hc_snapshot cx) ch q" "response_binding x"
    "x = \<lparr>hx_event_id = event_id, hx_accepted = \<lparr>ar_command = command, ar_actor = pr_actor pr\<rparr>, hx_task = answered_task t,
       hx_revision = vs_revision (hn_snapshot ch), hx_next_run = hn_next_run ch, hx_authorization = hn_authorization ch\<rparr>"
    "q' = write_response pr command t cx ch x cont q"
  using assms by (auto simp: accept_response_def Let_def admit_response_Inr)

lemma answer_or_replay:
  assumes "respond_task env sv fresh event_id pr command q = Inr (x, q')"
  obtains (replayed) "q' = q" "dict_get (tq_responses q) (actor_id (pr_actor pr), hr_idempotency_key command) = Some x"
      "ar_command (hx_accepted x) = command" "ar_actor (hx_accepted x) = pr_actor pr"
  | (accepted) t where "dict_get (tq_responses q) (actor_id (pr_actor pr), hr_idempotency_key command) = None"
      "dict_get (tq_tasks q) (hr_task_id command) = Some t"
      "accept_response env event_id pr command (workflow_transition env sv fresh pr command) t q = Inr (x, q')"
proof -
  have r: "repository_respond env event_id pr command (workflow_transition env sv fresh pr command) q = Inr (x, q')"
    using assms by (auto simp: respond_task_def on_error_eq_Inr)
  then obtain t where t: "dict_get (tq_tasks q) (hr_task_id command) = Some t" by (auto simp: repository_respond_def stored_task_def)
  show ?thesis
  proof (cases "dict_get (tq_responses q) (actor_id (pr_actor pr), hr_idempotency_key command)")
    case None
    then show ?thesis using r t by (intro accepted) (auto simp: repository_respond_def stored_task_def)
  next
    case (Some y)
    then show ?thesis using r t by (intro replayed) (auto simp: repository_respond_def stored_task_def split: if_splits)
  qed
qed

text \<open>An answer in a state of the invariant, with its result and the state it leaves.\<close>

record answer =
  an_principal :: principal
  an_command :: human_response
  an_task :: human_task
  an_context :: human_task_context
  an_change :: human_task_transition
  an_event_id :: uuid
  an_continuation :: "workflow_continuation option"

definition answer_result :: "answer \<Rightarrow> human_response_result" where
  "answer_result a = \<lparr>hx_event_id = an_event_id a, hx_accepted = \<lparr>ar_command = an_command a, ar_actor = pr_actor (an_principal a)\<rparr>,
     hx_task = answered_task (an_task a), hx_revision = vs_revision (hn_snapshot (an_change a)), hx_next_run = hn_next_run (an_change a),
     hx_authorization = hn_authorization (an_change a)\<rparr>"

definition answer_state :: "answer \<Rightarrow> task_repository \<Rightarrow> task_repository" where
  "answer_state a q = write_response (an_principal a) (an_command a) (an_task a) (an_context a) (an_change a) (answer_result a) (an_continuation a) q"

abbreviation answer_key :: "answer \<Rightarrow> string \<times> string" where
  "answer_key a \<equiv> (actor_id (pr_actor (an_principal a)), hr_idempotency_key (an_command a))"

abbreviation answer_snapshot :: "answer \<Rightarrow> revision_snapshot" where
  "answer_snapshot a \<equiv> hn_snapshot (an_change a)"

abbreviation answer_case :: "answer \<Rightarrow> string" where
  "answer_case a \<equiv> rev_case_id (rr_revision (ht_run (an_task a)))"

abbreviation changed :: "answer \<Rightarrow> bool" where
  "changed a \<equiv> vs_revision (answer_snapshot a) \<noteq> vs_revision (hc_snapshot (an_context a))"

abbreviation new_key :: "answer \<Rightarrow> string \<times> string" where
  "new_key a \<equiv> reference_key (mr_reference (vs_revision (answer_snapshot a)))"

definition answerable :: "workflow_env \<Rightarrow> task_repository \<Rightarrow> answer \<Rightarrow> bool" where
  "answerable env q a =
     (repo_inv env q \<and> dict_get (tq_tasks q) (hr_task_id (an_command a)) = Some (an_task a) \<and> dict_get (tq_responses q) (answer_key a) = None
      \<and> context_in (an_principal a) (ht_run (an_task a)) False q = Inr (an_context a)
      \<and> task_current (an_task a) (an_command a) (mr_reference (vs_revision (hc_snapshot (an_context a))))
      \<and> transition_allowed env (hc_snapshot (an_context a)) (an_change a) q \<and> response_binding (answer_result a))"

lemma answer_parts:
  assumes "answerable env q a"
  shows "cases_ok q" "questions_ok q" "responses_ok q" "material_ok env q"
  using assms by (simp_all add: answerable_def repo_inv_def)

lemma answer_context:
  assumes "answerable env q a"
  shows "dict_get (tq_runs q) (rr_run_id (ht_run (an_task a))) = Some (ht_run (an_task a))"
    "dict_get (tq_current q) (answer_case a) = Some (rev_revision_id (rr_revision (ht_run (an_task a))))"
    "dict_get (tq_active_run q) (answer_case a) = Some (rr_run_id (ht_run (an_task a)))"
    "dict_get (tq_snapshots q) (reference_key (rr_revision (ht_run (an_task a)))) = Some (hc_snapshot (an_context a))"
    "mr_reference (vs_revision (hc_snapshot (an_context a))) = rr_revision (ht_run (an_task a))"
    "hc_confirmed_sides (an_context a) = confirmed_by (an_principal a) (confirmations_of q (answer_case a))"
  using assms by (simp_all add: answerable_def context_in_Inr)

lemma answer_task:
  assumes "answerable env q a"
  shows "ht_task_id (an_task a) = hr_task_id (an_command a)" "ht_state (an_task a) = Task_Open"
    "dict_get (tq_tasks q) (ht_task_id (an_task a)) = Some (an_task a)" "task_authority (an_task a)"
proof -
  have "dict_get (tq_tasks q) (hr_task_id (an_command a)) = Some (an_task a)" "ht_state (an_task a) = Task_Open"
    using assms by (auto simp: answerable_def task_current_def)
  moreover from this have "ht_task_id (an_task a) = hr_task_id (an_command a)" "task_authority (an_task a)"
    using answer_parts(2) [OF assms] unfolding questions_ok_def by blast+
  ultimately show "ht_task_id (an_task a) = hr_task_id (an_command a)" "ht_state (an_task a) = Task_Open"
    "dict_get (tq_tasks q) (ht_task_id (an_task a)) = Some (an_task a)" "task_authority (an_task a)" by simp_all
qed

lemma answer_allowed:
  assumes "answerable env q a"
  shows "rev_case_id (mr_reference (vs_revision (answer_snapshot a))) = answer_case a"
    "changed a \<Longrightarrow> hn_next_run (an_change a) \<noteq> None" "changed a \<Longrightarrow> dict_get (tq_snapshots q) (new_key a) = None"
    "hn_next_run (an_change a) = Some run \<Longrightarrow> rr_revision run = mr_reference (vs_revision (answer_snapshot a))"
    "hn_next_run (an_change a) = Some run \<Longrightarrow> dict_get (tq_runs q) (rr_run_id run) = None"
    "\<not> changed a \<Longrightarrow> mr_reference (vs_revision (answer_snapshot a)) = rr_revision (ht_run (an_task a))"
proof -
  have t: "transition_allowed env (hc_snapshot (an_context a)) (an_change a) q" using assms by (simp add: answerable_def)
  note ref = answer_context(5) [OF assms]
  show "rev_case_id (mr_reference (vs_revision (answer_snapshot a))) = answer_case a"
    using t ref by (cases "changed a") (auto simp: transition_allowed_def Let_def)
  show "\<not> changed a \<Longrightarrow> mr_reference (vs_revision (answer_snapshot a)) = rr_revision (ht_run (an_task a))" using ref by simp
  show "changed a \<Longrightarrow> hn_next_run (an_change a) \<noteq> None" "changed a \<Longrightarrow> dict_get (tq_snapshots q) (new_key a) = None"
    "hn_next_run (an_change a) = Some run \<Longrightarrow> rr_revision run = mr_reference (vs_revision (answer_snapshot a))"
    "hn_next_run (an_change a) = Some run \<Longrightarrow> dict_get (tq_runs q) (rr_run_id run) = None"
    using t by (auto simp: transition_allowed_def Let_def)
qed

text \<open>The state after it, in the terms of the case.\<close>

lemma answer_state_sel:
  assumes "answerable env q a"
  shows "tq_tasks (answer_state a q) = updated_tasks (an_task a)
      (if changed a \<or> hn_next_run (an_change a) \<noteq> None then Some (rr_revision (ht_run (an_task a))) else None) (tq_tasks q)"
    "dict_get (tq_responses (answer_state a q)) k = (if k = answer_key a then Some (answer_result a) else dict_get (tq_responses q) k)"
    "confirmations_of (answer_state a q) c = (if c = answer_case a \<and> changed a
       then next_confirmations (an_principal a) (an_command a) (an_task a) (an_context a) else confirmations_of q c)"
    "dict_get (tq_snapshots (answer_state a q)) k = (if changed a \<and> k = new_key a then Some (answer_snapshot a) else dict_get (tq_snapshots q) k)"
    "dict_get (tq_current (answer_state a q)) c = (if changed a \<and> c = answer_case a
       then Some (rev_revision_id (mr_reference (vs_revision (answer_snapshot a)))) else dict_get (tq_current q) c)"
    "dict_get (tq_runs (answer_state a q)) i = (case hn_next_run (an_change a) of None \<Rightarrow> dict_get (tq_runs q) i
       | Some run \<Rightarrow> if i = rr_run_id run then Some run else dict_get (tq_runs q) i)"
    "dict_get (tq_active_run (answer_state a q)) c = (case hn_next_run (an_change a) of None \<Rightarrow> dict_get (tq_active_run q) c
       | Some run \<Rightarrow> if c = answer_case a then Some (rr_run_id run) else dict_get (tq_active_run q) c)"
    "dict_get (tq_reviews (answer_state a q)) i = (case hn_next_run (an_change a) of None \<Rightarrow> dict_get (tq_reviews q) i
       | Some run \<Rightarrow> if i = rr_run_id run then Some (hc_review (an_context a)) else dict_get (tq_reviews q) i)"
    "tq_pending (answer_state a q) = (case hn_next_run (an_change a) of None \<Rightarrow> tq_pending q | Some run \<Rightarrow> insert (rr_run_id run) (tq_pending q))"
  using answer_allowed(1) [OF assms] answer_context(5) [OF assms]
  by (simp_all add: answer_state_def write_response_sel split: option.split)

lemma answer_keeps_snapshots:
  assumes "answerable env q a" and "dict_get (tq_snapshots q) k = Some s"
  shows "dict_get (tq_snapshots (answer_state a q)) k = Some s"
  using assms(2) answer_allowed(3) [OF assms(1)] by (auto simp: answer_state_sel(4) [OF assms(1)])

lemma answer_current:
  assumes a: "answerable env q a" and v: "dict_get (tq_current (answer_state a q)) c = Some v"
  shows "\<exists>run s. dict_get (tq_active_run (answer_state a q)) c = Some (rr_run_id run)
    \<and> dict_get (tq_runs (answer_state a q)) (rr_run_id run) = Some run \<and> reference_key (rr_revision run) = (c, v)
    \<and> dict_get (tq_snapshots (answer_state a q)) (c, v) = Some s \<and> mr_reference (vs_revision s) = rr_revision run
    \<and> dict_get (tq_reviews (answer_state a q)) (rr_run_id run) \<noteq> None"
proof (cases "c = answer_case a \<and> hn_next_run (an_change a) \<noteq> None")
  case True
  note sel = answer_state_sel [OF a] and al = answer_allowed [OF a] and cx = answer_context [OF a]
  obtain run where run: "hn_next_run (an_change a) = Some run" using True by blast
  have "v = rev_revision_id (mr_reference (vs_revision (answer_snapshot a)))"
    using v True cx(2) al(6) by (cases "changed a") (simp_all add: sel(5))
  then have key: "reference_key (rr_revision run) = (c, v)" using al(1) al(4) [OF run] True by (simp add: reference_key_def)
  have "\<exists>s. dict_get (tq_snapshots (answer_state a q)) (c, v) = Some s \<and> mr_reference (vs_revision s) = rr_revision run"
  proof (cases "changed a")
    case True
    then show ?thesis using key al(4) [OF run] by (simp add: sel(4))
  next
    case False
    have "rr_revision run = rr_revision (ht_run (an_task a))" using al(4) [OF run] al(6) [OF False] by simp
    then show ?thesis using answer_keeps_snapshots [OF a cx(4)] cx(5) key by auto
  qed
  then show ?thesis using True run key by (intro exI [of _ run]) (simp add: sel(6-8))
next
  case False
  note sel = answer_state_sel [OF a] and al = answer_allowed [OF a]
  have old: "dict_get (tq_current q) c = Some v" using v False al(2) by (auto simp: sel(5) split: if_splits)
  obtain run s where run: "dict_get (tq_active_run q) c = Some (rr_run_id run)" "dict_get (tq_runs q) (rr_run_id run) = Some run"
      "reference_key (rr_revision run) = (c, v)" "dict_get (tq_snapshots q) (c, v) = Some s" "mr_reference (vs_revision s) = rr_revision run"
      "dict_get (tq_reviews q) (rr_run_id run) \<noteq> None"
    by (rule cases_okE [OF answer_parts(1) [OF a] old])
  have "dict_get (tq_active_run (answer_state a q)) c = Some (rr_run_id run)" "dict_get (tq_runs (answer_state a q)) (rr_run_id run) = Some run"
      "dict_get (tq_reviews (answer_state a q)) (rr_run_id run) \<noteq> None"
    using run False al(5) by (auto simp: sel(6-8) split: option.splits)
  then show ?thesis using run answer_keeps_snapshots [OF a run(4)] by blast
qed

lemma answer_cases_ok:
  assumes a: "answerable env q a"
  shows "cases_ok (answer_state a q)"
  unfolding cases_ok_def
proof (intro conjI allI impI answer_current [OF a])
  note sel = answer_state_sel [OF a] and al = answer_allowed [OF a] and cx = answer_context [OF a]
  {
    fix i run assume r: "dict_get (tq_runs (answer_state a q)) i = Some run"
    show "rr_run_id run = i" "dict_get (tq_current (answer_state a q)) (rev_case_id (rr_revision run)) \<noteq> None"
      using r cases_okD(1) [OF answer_parts(1) [OF a], of i run] al(1,4) cx(2)
      by (auto simp: sel(5,6) split: option.splits if_splits)
  next
    fix k s assume s: "dict_get (tq_snapshots (answer_state a q)) k = Some s"
    show "reference_key (mr_reference (vs_revision s)) = k" "dict_get (tq_current (answer_state a q)) (fst k) \<noteq> None"
      using s cases_okD(2) [OF answer_parts(1) [OF a], of k s] al(1) cx(2)
      by (auto simp: sel(4,5) reference_key_def split: if_splits)
  }
qed

text \<open>Which task is which after the answer.\<close>

lemma answer_tasks:
  assumes a: "answerable env q a" and t: "dict_get (tq_tasks (answer_state a q)) i = Some t"
  obtains (answered) "i = ht_task_id (an_task a)" "t = answered_task (an_task a)"
  | (superseded) old where "i \<noteq> ht_task_id (an_task a)" "dict_get (tq_tasks q) i = Some old" "ht_state old = Task_Open" "t = superseded_task old"
  | (kept) "i \<noteq> ht_task_id (an_task a)" "dict_get (tq_tasks q) i = Some t"
      "ht_state t = Task_Open \<Longrightarrow> hn_next_run (an_change a) \<noteq> None \<Longrightarrow> rr_revision (ht_run t) \<noteq> rr_revision (ht_run (an_task a))"
  using t unfolding answer_state_sel(1) [OF a] updated_tasks_get
  by (auto split: if_splits simp: answer_task(3) [OF a])

lemma answer_questions_ok:
  assumes a: "answerable env q a"
  shows "questions_ok (answer_state a q)"
  unfolding questions_ok_def
proof (intro conjI allI impI)
  note al = answer_allowed [OF a] and cx = answer_context [OF a] and ok = answer_parts [OF a]
  show "dict_ok (tq_tasks (answer_state a q))" using ok(2) by (simp add: answer_state_sel(1) [OF a] questions_ok_def)
  fix i t assume t: "dict_get (tq_tasks (answer_state a q)) i = Some t"
  have old: "ht_task_id x = i \<and> (ht_state x = Task_Open \<longrightarrow> task_authority x \<and> active_question q x)" if "dict_get (tq_tasks q) i = Some x" for x
    using ok(2) that unfolding questions_ok_def by blast
  show "ht_task_id t = i"
    using old by (cases rule: answer_tasks [OF a t]) (auto simp: answered_task_def superseded_task_def)
  assume o: "ht_state t = Task_Open"
  then have t': "dict_get (tq_tasks q) i = Some t"
      "hn_next_run (an_change a) \<noteq> None \<Longrightarrow> rr_revision (ht_run t) \<noteq> rr_revision (ht_run (an_task a))"
    by (cases rule: answer_tasks [OF a t]; simp add: answered_task_def superseded_task_def)+
  then show "task_authority t" using old o by blast
  have q: "active_question q t" using old [OF t'(1)] o by simp
  show "active_question (answer_state a q) t"
  proof (cases "hn_next_run (an_change a)")
    case None
    then show ?thesis using q by (simp add: active_question_def answer_state_sel(6,7) [OF a])
  next
    case (Some run)
    have "rev_case_id (rr_revision (ht_run t)) \<noteq> answer_case a"
    proof
      assume "rev_case_id (rr_revision (ht_run t)) = answer_case a"
      then have "rr_run_id (ht_run t) = rr_run_id (ht_run (an_task a))"
        using q cx(3) unfolding active_question_def by (metis option.inject)
      then have "ht_run t = ht_run (an_task a)" using q cx(1) unfolding active_question_def by (metis option.inject)
      then show False using t'(2) Some by simp
    qed
    then show ?thesis using q al(5) [OF Some] Some by (auto simp: active_question_def answer_state_sel(6,7) [OF a])
  qed
qed

lemma answer_keeps_answered:
  assumes a: "answerable env q a" and t: "dict_get (tq_tasks q) i = Some t" "ht_state t \<noteq> Task_Open"
  shows "dict_get (tq_tasks (answer_state a q)) i = Some t"
proof -
  have "i \<noteq> ht_task_id (an_task a)" using t answer_task(2,3) [OF a] by auto
  then show ?thesis using t by (simp add: answer_state_sel(1) [OF a] updated_tasks_get)
qed

lemma answer_result_sel [simp]:
  "hx_task (answer_result a) = answered_task (an_task a)" "hx_accepted (answer_result a) = \<lparr>ar_command = an_command a, ar_actor = pr_actor (an_principal a)\<rparr>"
  "hx_revision (answer_result a) = vs_revision (answer_snapshot a)" "hx_next_run (answer_result a) = hn_next_run (an_change a)"
  by (simp_all add: answer_result_def)

lemma answered_task_sel [simp]:
  "ht_task_id (answered_task t) = ht_task_id t" "ht_state (answered_task t) = Task_Answered" "ht_kind (answered_task t) = ht_kind t"
  "ht_side (answered_task t) = ht_side t" "ht_run (answered_task t) = ht_run t" "ht_required_permission (answered_task t) = ht_required_permission t"
  by (simp_all add: answered_task_def)

lemma answer_responses_ok:
  assumes a: "answerable env q a"
  shows "responses_ok (answer_state a q)"
proof -
  note ok = answer_parts(3) [OF a] and sel = answer_state_sel(2) [OF a]
  have new: "dict_get (tq_tasks (answer_state a q)) (ht_task_id (an_task a)) = Some (answered_task (an_task a))"
    using answer_task(3) [OF a] by (simp add: answer_state_sel(1) [OF a] updated_tasks_get)
  have old: "ht_task_id (hx_task x) \<noteq> ht_task_id (an_task a)" if "dict_get (tq_responses q) k = Some x" for k x
    using responses_okD(2,3) [OF ok that] answer_task(2,3) [OF a] by (metis option.inject task_state.distinct(1))
  show ?thesis unfolding responses_ok_def
  proof (intro conjI allI impI)
    fix k x assume x: "dict_get (tq_responses (answer_state a q)) k = Some x"
    show "k = (actor_id (ar_actor (hx_accepted x)), hr_idempotency_key (ar_command (hx_accepted x)))" "ht_state (hx_task x) = Task_Answered"
        "response_binding x"
      using x responses_okD(1,2,4) [OF ok, of k x] a by (auto simp: sel answerable_def split: if_splits)
    show "dict_get (tq_tasks (answer_state a q)) (ht_task_id (hx_task x)) = Some (hx_task x)"
    proof (cases "k = answer_key a")
      case True
      then show ?thesis using x new by (simp add: sel) (metis answer_result_sel(1) answered_task_sel(1))
    next
      case False
      then have "dict_get (tq_responses q) k = Some x" using x by (simp add: sel)
      note o = responses_okD [OF ok this]
      have "ht_state (hx_task x) \<noteq> Task_Open" using o(2) by simp
      with o(3) show ?thesis by (rule answer_keeps_answered [OF a])
    qed
    fix k' x' assume x': "dict_get (tq_responses (answer_state a q)) k' = Some x'" and same: "ht_task_id (hx_task x) = ht_task_id (hx_task x')"
    show "k = k'"
    proof (cases "k = answer_key a"; cases "k' = answer_key a")
      assume "k \<noteq> answer_key a" "k' \<noteq> answer_key a"
      then show ?thesis using x x' same responses_okD(5) [OF ok] by (simp add: sel)
    next
      assume k: "k = answer_key a" "k' \<noteq> answer_key a"
      then have "x = answer_result a" and r: "dict_get (tq_responses q) k' = Some x'" using x x' by (simp_all add: sel)
      then show ?thesis using old [OF r] same by simp
    next
      assume k: "k \<noteq> answer_key a" "k' = answer_key a"
      then have "x' = answer_result a" and r: "dict_get (tq_responses q) k = Some x" using x x' by (simp_all add: sel)
      then show ?thesis using old [OF r] same by simp
    qed simp
  qed
qed

lemma answer_confirmed_side:
  assumes a: "answerable env q a" and c: "confirmed_side q b side"
  shows "confirmed_side (answer_state a q) b side"
proof -
  from c obtain k x where x: "dict_get (tq_responses q) k = Some x" "ar_actor (hx_accepted x) = b" "hr_action (ar_command (hx_accepted x)) = R_CONFIRM"
      "ht_kind (hx_task x) = T_FACT" "ht_side (hx_task x) = Some side" unfolding confirmed_side_def by blast
  have "k \<noteq> answer_key a" using x(1) a by (auto simp: answerable_def)
  then have "dict_get (tq_responses (answer_state a q)) k = Some x" using x(1) by (simp add: answer_state_sel(2) [OF a])
  then show ?thesis using x(2-5) unfolding confirmed_side_def by blast
qed

lemma answer_confirms:
  assumes a: "answerable env q a" and "hr_action (an_command a) = R_CONFIRM" "ht_kind (an_task a) = T_FACT" "ht_side (an_task a) = Some side"
  shows "confirmed_side (answer_state a q) (pr_actor (an_principal a)) side"
  unfolding confirmed_side_def
  using assms(2-4) by (intro exI [of _ "answer_key a"] exI [of _ "answer_result a"]) (simp add: answer_state_sel(2) [OF a])

lemma context_confirmed:
  assumes a: "answerable env q a" and "side \<in> set (hc_confirmed_sides (an_context a))"
  shows "confirmed_side q (pr_actor (an_principal a)) side"
proof -
  have "(pr_actor (an_principal a), side) \<in> set (confirmations_of q (answer_case a))"
    using assms(2) by (auto simp: answer_context(6) [OF a] confirmed_by_def)
  then show ?thesis using answer_parts(4) [OF a] unfolding material_ok_def by blast
qed

text \<open>With the service's transition, a new revision carries no confirmation that no response stands behind.\<close>

lemma answer_earned:
  assumes a: "answerable env q a" and ch: "changed a"
    and tr: "workflow_transition env sv fresh (an_principal a) (an_command a) (an_task a) (an_context a) = Inr (an_change a)"
    and act: "hr_action (an_command a) \<in> set (ht_allowed_responses (an_task a))"
  shows "earned_confirmations env (answer_state a q) (answer_snapshot a)"
proof (cases rule: transition_cases [OF tr answer_task(4) [OF a] act, case_names same reopened confirmed])
  case same
  then show ?thesis using ch by simp
next
  case reopened
  then show ?thesis by (simp add: earned_confirmations_def)
next
  case (confirmed side)
  have "confirmed_side (answer_state a q) (pr_actor (an_principal a)) r" if "r \<in> insert side (set (hc_confirmed_sides (an_context a)))" for r
    using that answer_confirms [OF a confirmed(3,2,4)] answer_confirmed_side [OF a context_confirmed [OF a]] by blast
  then show ?thesis using confirmed(5) unfolding earned_confirmations_def confirmations_within_def by metis
qed

lemma earned_kept:
  assumes "answerable env q a" and "earned_confirmations env q s"
  shows "earned_confirmations env (answer_state a q) s"
  using assms(2) answer_confirmed_side [OF assms(1)] unfolding earned_confirmations_def by meson

lemma answer_material_ok:
  assumes a: "answerable env q a"
    and tr: "workflow_transition env sv fresh (an_principal a) (an_command a) (an_task a) (an_context a) = Inr (an_change a)"
    and act: "hr_action (an_command a) \<in> set (ht_allowed_responses (an_task a))"
  shows "material_ok env (answer_state a q)"
  unfolding material_ok_def
proof (intro conjI allI impI)
  fix c b side assume m: "(b, side) \<in> set (confirmations_of (answer_state a q) c)"
  show "confirmed_side (answer_state a q) b side"
  proof (cases "c = answer_case a \<and> changed a")
    case True
    then have m': "(b, side) \<in> set (next_confirmations (an_principal a) (an_command a) (an_task a) (an_context a))"
      using m by (simp add: answer_state_sel(3) [OF a])
    then obtain new where "ht_side (an_task a) = Some new" "ht_kind (an_task a) = T_FACT" "hr_action (an_command a) = R_CONFIRM"
        "b = pr_actor (an_principal a)" "side \<in> insert new (set (hc_confirmed_sides (an_context a)))"
      by (cases "ht_side (an_task a)") (auto simp: next_confirmations_def split: if_splits)
    then show ?thesis using answer_confirms [OF a] answer_confirmed_side [OF a context_confirmed [OF a]] by blast
  next
    case False
    then have "(b, side) \<in> set (confirmations_of q c)" using m by (auto simp: answer_state_sel(3) [OF a])
    then have "confirmed_side q b side" using answer_parts(4) [OF a] unfolding material_ok_def by blast
    then show ?thesis by (rule answer_confirmed_side [OF a])
  qed
next
  fix k x assume x: "dict_get (tq_responses (answer_state a q)) k = Some x"
  show "\<exists>s. dict_get (tq_snapshots (answer_state a q)) (reference_key (mr_reference (hx_revision x))) = Some s \<and> vs_revision s = hx_revision x
      \<and> (mr_reference (hx_revision x) \<noteq> rr_revision (ht_run (hx_task x)) \<longrightarrow> earned_confirmations env (answer_state a q) s)"
  proof (cases "k = answer_key a")
    case True
    then have x': "x = answer_result a" using x by (simp add: answer_state_sel(2) [OF a])
    show ?thesis
    proof (cases "changed a")
      case True
      then show ?thesis using answer_earned [OF a True tr act] by (simp add: x' answer_state_sel(4) [OF a])
    next
      case False
      have "dict_get (tq_snapshots (answer_state a q)) (reference_key (rr_revision (ht_run (an_task a)))) = Some (hc_snapshot (an_context a))"
        by (rule answer_keeps_snapshots [OF a answer_context(4) [OF a]])
      then show ?thesis using False answer_allowed(6) [OF a False] by (simp add: x')
    qed
  next
    case False
    then have "dict_get (tq_responses q) k = Some x" using x by (simp add: answer_state_sel(2) [OF a])
    then obtain s where "dict_get (tq_snapshots q) (reference_key (mr_reference (hx_revision x))) = Some s" "vs_revision s = hx_revision x"
        "mr_reference (hx_revision x) \<noteq> rr_revision (ht_run (hx_task x)) \<longrightarrow> earned_confirmations env q s"
      using answer_parts(4) [OF a] unfolding material_ok_def by blast
    then show ?thesis using answer_keeps_snapshots [OF a] earned_kept [OF a] by blast
  qed
qed

section \<open>Every step\<close>

lemma respond_answer:
  assumes "respond_task env sv fresh event_id pr command q = Inr (x, q')" and "repo_inv env q"
  obtains (replayed) "q' = q" "dict_get (tq_responses q) (actor_id (pr_actor pr), hr_idempotency_key command) = Some x"
      "ar_command (hx_accepted x) = command" "ar_actor (hx_accepted x) = pr_actor pr"
  | (accepted) a where "answerable env q a" "q' = answer_state a q" "x = answer_result a" "an_principal a = pr" "an_command a = command"
      "workflow_transition env sv fresh pr command (an_task a) (an_context a) = Inr (an_change a)"
      "hr_action command \<in> set (ht_allowed_responses (an_task a))" "actor_kind (pr_actor pr) = A_human"
proof (cases rule: answer_or_replay [OF assms(1), case_names replayed accepted])
  case replayed
  then show ?thesis by (rule that(1))
next
  case (accepted t)
  obtain cx ch cont where h: "context_in pr (ht_run t) False q = Inr cx" "hr_action command \<in> set (ht_allowed_responses t)"
      "actor_kind (pr_actor pr) = A_human" "task_current t command (mr_reference (vs_revision (hc_snapshot cx)))"
      "workflow_transition env sv fresh pr command t cx = Inr ch" "transition_allowed env (hc_snapshot cx) ch q" "response_binding x"
      "x = \<lparr>hx_event_id = event_id, hx_accepted = \<lparr>ar_command = command, ar_actor = pr_actor pr\<rparr>, hx_task = answered_task t,
         hx_revision = vs_revision (hn_snapshot ch), hx_next_run = hn_next_run ch, hx_authorization = hn_authorization ch\<rparr>"
      "q' = write_response pr command t cx ch x cont q"
    by (rule accept_response_Inr [OF accepted(3)])
  let ?a = "\<lparr>an_principal = pr, an_command = command, an_task = t, an_context = cx, an_change = ch, an_event_id = event_id, an_continuation = cont\<rparr>"
  have x: "x = answer_result ?a" by (simp add: answer_result_def h(8))
  then have "answerable env q ?a" using h accepted assms(2) by (simp add: answerable_def)
  moreover have "q' = answer_state ?a q" using x by (simp add: answer_state_def h(9))
  ultimately show ?thesis using x h by (intro that(2) [of ?a]) simp_all
qed

lemma respond_inv:
  assumes r: "respond_task env sv fresh event_id pr command q = Inr (x, q')" and inv: "repo_inv env q"
  shows "repo_inv env q'"
proof (cases rule: respond_answer [OF r inv, case_names replayed accepted])
  case replayed
  then show ?thesis using inv by simp
next
  case (accepted a)
  then show ?thesis
    using answer_cases_ok [OF accepted(1)] answer_questions_ok [OF accepted(1)] answer_responses_ok [OF accepted(1)]
      answer_material_ok [OF accepted(1), of sv fresh] by (simp add: repo_inv_def)
qed

lemma repo_step_inv: "repo_step env sv q q' \<Longrightarrow> repo_inv env q \<Longrightarrow> repo_inv env q'"
  by (induction rule: repo_step.induct) (auto intro: register_case_inv create_tasks_inv respond_inv reenter_inv pause_run_inv)

interpretation task_repository_system: transition_system "repo_step env sv" "repo_inv env"
  by unfold_locales (rule repo_step_inv)

end
