(* ===== verification/Workflow_Task_Safety.thy ===== *)
theory Workflow_Task_Safety
  imports Workflow_Task_Inv
begin

text \<open>
  What the workflow's task service guarantees in every reachable state of its repository: open tasks are about the active
  run, answers are final, replayed and never lost, confirmations come from answers, and a handoff hides no finding.
\<close>

section \<open>What every step keeps\<close>

definition repo_kept :: "task_repository \<Rightarrow> task_repository \<Rightarrow> bool" where
  "repo_kept q q' =
     ((\<forall>k x. dict_get (tq_responses q) k = Some x \<longrightarrow> dict_get (tq_responses q') k = Some x)
      \<and> (\<forall>i t. dict_get (tq_tasks q) i = Some t \<longrightarrow>
           (\<exists>t'. dict_get (tq_tasks q') i = Some t' \<and> ht_run t' = ht_run t \<and> ht_required_permission t' = ht_required_permission t
              \<and> (ht_state t \<noteq> Task_Open \<longrightarrow> t' = t))))"

lemma repo_keptD:
  assumes "repo_kept q q'"
  shows "dict_get (tq_responses q) k = Some x \<Longrightarrow> dict_get (tq_responses q') k = Some x"
    and "dict_get (tq_tasks q) i = Some t \<Longrightarrow> \<exists>t'. dict_get (tq_tasks q') i = Some t' \<and> ht_run t' = ht_run t
        \<and> ht_required_permission t' = ht_required_permission t \<and> (ht_state t \<noteq> Task_Open \<longrightarrow> t' = t)"
  using assms unfolding repo_kept_def by blast+

lemma repo_kept_refl: "tq_responses q' = tq_responses q \<Longrightarrow> tq_tasks q' = tq_tasks q \<Longrightarrow> repo_kept q q'"
  by (simp add: repo_kept_def)

lemma repo_kept_trans:
  assumes a: "repo_kept q r" and b: "repo_kept r s"
  shows "repo_kept q s"
  unfolding repo_kept_def
proof (intro conjI allI impI)
  fix k x assume "dict_get (tq_responses q) k = Some x"
  then show "dict_get (tq_responses s) k = Some x" by (intro repo_keptD(1) [OF b] repo_keptD(1) [OF a])
next
  fix i t assume t: "dict_get (tq_tasks q) i = Some t"
  obtain u where u: "dict_get (tq_tasks r) i = Some u" "ht_run u = ht_run t" "ht_required_permission u = ht_required_permission t"
      "ht_state t \<noteq> Task_Open \<longrightarrow> u = t" using repo_keptD(2) [OF a t] by blast
  show "\<exists>t'. dict_get (tq_tasks s) i = Some t' \<and> ht_run t' = ht_run t \<and> ht_required_permission t' = ht_required_permission t
      \<and> (ht_state t \<noteq> Task_Open \<longrightarrow> t' = t)" using repo_keptD(2) [OF b u(1)] u(2-4) by metis
qed

lemma repo_kept_stored: "dict_get (tq_tasks q) i = None \<Longrightarrow> repo_kept q (q\<lparr>tq_tasks := dict_set i t (tq_tasks q)\<rparr>)"
  unfolding repo_kept_def
proof (intro conjI allI impI)
  fix j x assume new: "dict_get (tq_tasks q) i = None" and old: "dict_get (tq_tasks q) j = Some x"
  from new old have "j \<noteq> i" by (metis option.distinct(1))
  then have "dict_get (tq_tasks (q\<lparr>tq_tasks := dict_set i t (tq_tasks q)\<rparr>)) j = Some x" using old by simp
  then show "\<exists>y. dict_get (tq_tasks (q\<lparr>tq_tasks := dict_set i t (tq_tasks q)\<rparr>)) j = Some y \<and> ht_run y = ht_run x
      \<and> ht_required_permission y = ht_required_permission x \<and> (ht_state x \<noteq> Task_Open \<longrightarrow> y = x)" by blast
qed simp

lemma create_task_in_kept:
  assumes "create_task_in env pr t q = Inr (x, q')"
  shows "repo_kept q q'"
proof (cases rule: create_task_in_cases [OF assms, case_names kept stored])
  case kept
  then show ?thesis by (intro repo_kept_refl) simp_all
next
  case stored
  show ?thesis unfolding stored(1) by (rule repo_kept_stored [OF stored(2)])
qed

lemma create_tasks_kept: "create_tasks env pr ts q = Inr (xs, q') \<Longrightarrow> repo_kept q q'"
proof (induction env pr ts q arbitrary: xs rule: create_tasks.induct)
  case (2 env pr t ts q)
  from "2.prems" obtain x q1 where x: "create_task_in env pr t q = Inr (x, q1)" by (cases "create_task_in env pr t q") auto
  then obtain ys where "create_tasks env pr ts q1 = Inr (ys, q')" using "2.prems" by auto
  then show ?case using repo_kept_trans [OF create_task_in_kept [OF x]] "2.IH" by blast
qed (simp add: repo_kept_refl)

lemma answer_kept:
  assumes a: "answerable env q a"
  shows "repo_kept q (answer_state a q)"
  unfolding repo_kept_def
proof (intro conjI allI impI)
  fix k x assume "dict_get (tq_responses q) k = Some x"
  then show "dict_get (tq_responses (answer_state a q)) k = Some x"
    using a by (auto simp: answer_state_sel(2) [OF a] answerable_def)
next
  fix i t assume t: "dict_get (tq_tasks q) i = Some t"
  show "\<exists>t'. dict_get (tq_tasks (answer_state a q)) i = Some t' \<and> ht_run t' = ht_run t
      \<and> ht_required_permission t' = ht_required_permission t \<and> (ht_state t \<noteq> Task_Open \<longrightarrow> t' = t)"
  proof (cases "i = ht_task_id (an_task a)")
    case True
    then show ?thesis using t answer_task(2,3) [OF a]
      by (simp add: answer_state_sel(1) [OF a] updated_tasks_get)
  next
    case False
    then show ?thesis using t by (simp add: answer_state_sel(1) [OF a] updated_tasks_get superseded_task_def)
  qed
qed

lemma respond_kept:
  assumes "respond_task env sv fresh event_id pr command q = Inr (x, q')" and "repo_inv env q"
  shows "repo_kept q q'"
  by (cases rule: respond_answer [OF assms]) (auto intro: repo_kept_refl answer_kept)

lemma repo_step_kept: "repo_step env sv q q' \<Longrightarrow> repo_inv env q \<Longrightarrow> repo_kept q q'"
proof (induction rule: repo_step.induct)
  case (registered s run review q q')
  then show ?case by (intro repo_kept_refl register_case_sel [OF registered(1)])
next
  case (reentered pr run q review q')
  then show ?case by (intro repo_kept_refl) (auto simp: reenter_def reenter_run_def split: if_splits)
next
  case (paused pause_id pr res q p q')
  then show ?case
    by (intro repo_kept_refl; cases "dict_get (tq_pauses q) (rr_run_id (bw_run res))") (auto simp: pause_run_def Let_def split: if_splits)
qed (auto intro: create_tasks_kept respond_kept)

lemma repo_run_kept: "(repo_step env sv)\<^sup>*\<^sup>* q q' \<Longrightarrow> repo_inv env q \<Longrightarrow> repo_kept q q'"
proof (induction rule: rtranclp_induct)
  case (step r s)
  then show ?case using repo_step_kept task_repository_system.run_inv repo_kept_trans by metis
qed (simp add: repo_kept_refl)

lemma reached_inv: "(repo_step env sv)\<^sup>*\<^sup>* empty_repository q \<Longrightarrow> repo_inv env q"
  by (rule task_repository_system.run_inv [OF _ empty_repository_inv])

section \<open>Tasks\<close>

text \<open>
  C14.  Open tasks are about the active run: in every reachable state an open task belongs to the one run that is
  active for its case, and that run is on the case's current revision, whose snapshot is stored.
\<close>

theorem open_tasks_ask_the_active_run:
  assumes "(repo_step env sv)\<^sup>*\<^sup>* empty_repository q" and "dict_get (tq_tasks q) i = Some t" and "ht_state t = Task_Open"
  shows "\<exists>s. dict_get (tq_active_run q) (rev_case_id (rr_revision (ht_run t))) = Some (rr_run_id (ht_run t))
    \<and> dict_get (tq_current q) (rev_case_id (rr_revision (ht_run t))) = Some (rev_revision_id (rr_revision (ht_run t)))
    \<and> dict_get (tq_snapshots q) (reference_key (rr_revision (ht_run t))) = Some s
    \<and> mr_reference (vs_revision s) = rr_revision (ht_run t)"
proof -
  have inv: "cases_ok q" "questions_ok q" using reached_inv [OF assms(1)] by (simp_all add: repo_inv_def)
  then have q: "active_question q t" using assms(2,3) unfolding questions_ok_def by blast
  let ?c = "rev_case_id (rr_revision (ht_run t))"
  obtain v where v: "dict_get (tq_current q) ?c = Some v"
    using q cases_okD(1) [OF inv(1)] unfolding active_question_def by blast
  obtain run s where run: "dict_get (tq_active_run q) ?c = Some (rr_run_id run)" "dict_get (tq_runs q) (rr_run_id run) = Some run"
      "reference_key (rr_revision run) = (?c, v)" "dict_get (tq_snapshots q) (?c, v) = Some s" "mr_reference (vs_revision s) = rr_revision run"
    by (rule cases_okE [OF inv(1) v])
  have "rr_run_id run = rr_run_id (ht_run t)" using q run(1) unfolding active_question_def by (metis option.inject)
  then have "run = ht_run t" using q run(2) unfolding active_question_def by (metis option.inject)
  then show ?thesis using run v by (auto simp: reference_key_def)
qed

text \<open>
  C38.  A task is answered once: a response in a reachable state stays as it is in every later state, its task stays
  exactly as it was answered, and no other response ever answers the same task.
\<close>

theorem task_is_answered_once:
  assumes "(repo_step env sv)\<^sup>*\<^sup>* empty_repository q" and "(repo_step env sv)\<^sup>*\<^sup>* q q'"
    and "dict_get (tq_responses q) k = Some x"
  shows "dict_get (tq_responses q') k = Some x \<and> dict_get (tq_tasks q') (ht_task_id (hx_task x)) = Some (hx_task x)
    \<and> ht_state (hx_task x) = Task_Answered
    \<and> (\<forall>k' x'. dict_get (tq_responses q') k' = Some x' \<and> ht_task_id (hx_task x') = ht_task_id (hx_task x) \<longrightarrow> k' = k \<and> x' = x)"
proof -
  have "repo_inv env q'" using reached_inv assms(1,2) by (metis rtranclp_trans)
  then have ok: "responses_ok q'" by (simp add: repo_inv_def)
  have x: "dict_get (tq_responses q') k = Some x"
    using repo_keptD(1) [OF repo_run_kept [OF assms(2) reached_inv [OF assms(1)]] assms(3)] .
  show ?thesis using x responses_okD(2,3) [OF ok x] responses_okD(5) [OF ok _ x] by (metis option.inject)
qed

section \<open>Retries\<close>

lemma respond_checks:
  assumes "respond_task env sv fresh event_id pr command q = Inr (x, q')"
  obtains t where "action_payload command" "dict_get (tq_tasks q) (hr_task_id command) = Some t"
    "rev_case_id (rr_revision (ht_run t)) \<in> set (pr_case_ids pr)" "P_REVIEW \<in> set (pr_permissions pr)"
    "ht_required_permission t \<in> set (pr_permissions pr)" "actor_kind (pr_actor pr) = A_human"
proof -
  have "action_payload command" "repository_respond env event_id pr command (workflow_transition env sv fresh pr command) q = Inr (x, q')"
    using assms by (auto simp: respond_task_def on_error_eq_Inr)
  then show ?thesis using that by (auto simp: repository_respond_def stored_task_def)
qed

text \<open>
  C39.  An exact retry of an answer returns the recorded response event and changes nothing, at any later time,
  whatever was registered, created, answered, reviewed or paused in between.
\<close>

theorem exact_answer_replayed:
  assumes "repo_inv env q" and "respond_task env sv fresh event_id pr command q = Inr (x, q1)"
    and "(repo_step env sv)\<^sup>*\<^sup>* q1 q2"
  shows "respond_task env sv fresh' event_id' pr command q2 = Inr (x, q2)"
proof -
  have inv: "repo_inv env q1" by (rule respond_inv [OF assms(2,1)])
  have kept: "repo_kept q q2" using respond_kept [OF assms(2,1)] repo_run_kept [OF assms(3) inv] by (rule repo_kept_trans)
  have "dict_get (tq_responses q1) (actor_id (pr_actor pr), hr_idempotency_key command) = Some x
      \<and> ar_command (hx_accepted x) = command \<and> ar_actor (hx_accepted x) = pr_actor pr"
  proof (cases rule: respond_answer [OF assms(2,1), case_names replayed accepted])
    case (accepted a)
    then show ?thesis by (simp add: answer_state_sel(2) [OF accepted(1)])
  qed simp
  then have x: "dict_get (tq_responses q2) (actor_id (pr_actor pr), hr_idempotency_key command) = Some x"
      "ar_command (hx_accepted x) = command" "ar_actor (hx_accepted x) = pr_actor pr"
    using repo_keptD(1) [OF repo_run_kept [OF assms(3) inv]] by blast+
  obtain t where t: "action_payload command" "dict_get (tq_tasks q) (hr_task_id command) = Some t"
      "rev_case_id (rr_revision (ht_run t)) \<in> set (pr_case_ids pr)" "P_REVIEW \<in> set (pr_permissions pr)"
      "ht_required_permission t \<in> set (pr_permissions pr)" "actor_kind (pr_actor pr) = A_human"
    by (rule respond_checks [OF assms(2)])
  obtain t' where "dict_get (tq_tasks q2) (hr_task_id command) = Some t'" "ht_run t' = ht_run t"
      "ht_required_permission t' = ht_required_permission t"
    using repo_keptD(2) [OF kept t(2)] by blast
  then show ?thesis using t x by (simp add: respond_task_def repository_respond_def stored_task_def on_error_def principal_require_def)
qed

section \<open>Confirmations\<close>

text \<open>
  C13.  Confirmations are earned: when an accepted answer has replaced the material, every confirmation that the new
  material carries covers exactly the data of its side, and behind it stands a recorded answer in which the human it
  names confirmed that side of that factor with that data.
\<close>

theorem confirmations_are_earned:
  assumes "(repo_step env sv)\<^sup>*\<^sup>* empty_repository q" and "dict_get (tq_responses q) k = Some x"
    and "mr_reference (hx_revision x) \<noteq> rr_revision (ht_run (hx_task x))"
  shows "\<exists>s. dict_get (tq_snapshots q) (reference_key (mr_reference (hx_revision x))) = Some s \<and> vs_revision s = hx_revision x
    \<and> (\<forall>p \<in> set (cf_pairs (rm_facts (vs_material s))). \<forall>sd c. rl_confirmation (side_reliability p sd) = Some c \<longrightarrow>
        fc_input_digest c = confirmation_digest (re_confirmation_digest (we_revisions env)) p sd
        \<and> (\<exists>k' y. dict_get (tq_responses q) k' = Some y \<and> actor_id (ar_actor (hx_accepted y)) = fc_reviewer c
            \<and> actor_kind (ar_actor (hx_accepted y)) = A_human \<and> hr_action (ar_command (hx_accepted y)) = R_CONFIRM
            \<and> ht_kind (hx_task y) = T_FACT \<and> ht_side (hx_task y) = Some (reference_of_side (we_revisions env) p sd)))"
proof -
  have inv: "responses_ok q" "material_ok env q" using reached_inv [OF assms(1)] by (simp_all add: repo_inv_def)
  obtain s where s: "dict_get (tq_snapshots q) (reference_key (mr_reference (hx_revision x))) = Some s" "vs_revision s = hx_revision x"
      "earned_confirmations env q s"
    using inv(2) assms(2,3) unfolding material_ok_def by blast
  have human: "actor_kind (ar_actor (hx_accepted y)) = A_human" if "dict_get (tq_responses q) k' = Some y" for k' y
    using responses_okD(4) [OF inv(1) that] by (simp add: response_binding_def Let_def)
  show ?thesis using s human unfolding earned_confirmations_def confirmed_side_def by (intro exI [of _ s]) blast
qed

section \<open>After an answer\<close>

text \<open>
  A run that awaits its review: it is pending, and nothing is asked about it.  Only the run's own re-entry, which reviews
  its material, ends this.
\<close>

definition awaits_review :: "uuid \<Rightarrow> task_repository \<Rightarrow> bool" where
  "awaits_review i q =
     (i \<in> tq_pending q \<and> (\<forall>j t. dict_get (tq_tasks q) j = Some t \<and> rr_run_id (ht_run t) = i \<longrightarrow> ht_state t \<noteq> Task_Open))"

lemma awaits_same: "tq_pending q' = tq_pending q \<Longrightarrow> tq_tasks q' = tq_tasks q \<Longrightarrow> awaits_review i q' = awaits_review i q"
  by (simp add: awaits_review_def)

lemma awaits_create_in:
  assumes "create_task_in env pr t q = Inr (x, q')" and "awaits_review i q"
  shows "awaits_review i q'"
proof (cases rule: create_task_in_cases [OF assms(1), case_names kept stored])
  case stored
  have "rr_run_id (ht_run t) \<notin> tq_pending q" using assms(1) by (auto simp: create_task_in_def context_in_Inr)
  then show ?thesis using assms(2) by (auto simp: awaits_review_def stored(1) split: if_splits)
qed (use assms(2) in simp)

lemma awaits_create: "create_tasks env pr ts q = Inr (xs, q') \<Longrightarrow> awaits_review i q \<Longrightarrow> awaits_review i q'"
  by (induction env pr ts q arbitrary: xs rule: create_tasks.induct) (auto dest: awaits_create_in)

lemma awaits_answer:
  assumes a: "answerable env q a" and w: "awaits_review i q"
  shows "awaits_review i (answer_state a q)"
  unfolding awaits_review_def
proof (intro conjI allI impI)
  show "i \<in> tq_pending (answer_state a q)"
    using w by (auto simp: awaits_review_def answer_state_sel(9) [OF a] split: option.split)
  fix j t assume t: "dict_get (tq_tasks (answer_state a q)) j = Some t \<and> rr_run_id (ht_run t) = i"
  show "ht_state t \<noteq> Task_Open"
    by (cases rule: answer_tasks [OF a conjunct1 [OF t]])
      (use t w in \<open>auto simp: answered_task_def superseded_task_def awaits_review_def\<close>)
qed

lemma awaits_step:
  assumes "repo_step env sv q q'" and "repo_inv env q" and "awaits_review i q"
  shows "awaits_review i q' \<or> (\<exists>pr n cx review. rr_run_id n = i \<and> context_in pr n True q = Inr cx \<and> review_again env sv cx = Inr review
    \<and> reenter env sv pr n q = Inr (review, q'))"
  using assms
proof (induction rule: repo_step.induct)
  case (registered s run review q q')
  then have "tq_pending q' = tq_pending q" by (auto simp: register_case_def Let_def)
  then show ?case using registered awaits_same register_case_sel(9) [OF registered(1)] by blast
next
  case (created pr ts q xs q')
  then show ?case using awaits_create by blast
next
  case (answered fresh event_id pr command q x q')
  show ?case
    by (cases rule: respond_answer [OF answered(1,2)]) (use answered(3) awaits_answer in auto)
next
  case (reentered pr n q review q')
  show ?case
  proof (cases "rr_run_id n = i")
    case True
    then have "rr_run_id n \<in> tq_pending q" using reentered(3) by (simp add: awaits_review_def)
    then show ?thesis using reentered(1) True unfolding reenter_def reenter_run_def
      by (intro disjI2 exI [of _ pr] exI [of _ n]) auto
  next
    case False
    then show ?thesis using reentered(1,3) by (auto simp: reenter_def reenter_run_def awaits_review_def split: if_splits)
  qed
next
  case (paused pause_id pr res q p q')
  have "tq_pending q' = tq_pending q \<and> tq_tasks q' = tq_tasks q"
    using paused(1) by (cases "dict_get (tq_pauses q) (rr_run_id (bw_run res))") (auto simp: pause_run_def Let_def split: if_splits)
  then show ?case using paused(3) awaits_same by blast
qed

lemma awaits_until:
  assumes "(repo_step env sv)\<^sup>*\<^sup>* q q2" and "repo_inv env q" and "awaits_review i q"
  shows "awaits_review i q2 \<or> (\<exists>pr n cx review q3 q4. rr_run_id n = i \<and> (repo_step env sv)\<^sup>*\<^sup>* q q3 \<and> context_in pr n True q3 = Inr cx
    \<and> review_again env sv cx = Inr review \<and> reenter env sv pr n q3 = Inr (review, q4) \<and> (repo_step env sv)\<^sup>*\<^sup>* q4 q2)"
  using assms
proof (induction rule: rtranclp_induct)
  case (step r s)
  then consider (still) "awaits_review i r" | (over) pr n cx review q3 q4 where "rr_run_id n = i" "(repo_step env sv)\<^sup>*\<^sup>* q q3"
      "context_in pr n True q3 = Inr cx" "review_again env sv cx = Inr review" "reenter env sv pr n q3 = Inr (review, q4)" "(repo_step env sv)\<^sup>*\<^sup>* q4 r"
    by blast
  then show ?case
  proof cases
    case still
    have "repo_inv env r" using task_repository_system.run_inv step.hyps(1) step.prems(1) by metis
    from awaits_step [OF step.hyps(2) this still] show ?thesis using step.hyps(1) by blast
  next
    case over
    then show ?thesis using rtranclp.rtrancl_into_rtrancl [OF over(6) step.hyps(2)] by blast
  qed
qed simp

lemma answer_next:
  assumes a: "answerable env q a" and n: "hn_next_run (an_change a) = Some n"
  shows "awaits_review (rr_run_id n) (answer_state a q)"
  unfolding awaits_review_def
proof (intro conjI allI impI)
  show "rr_run_id n \<in> tq_pending (answer_state a q)" by (simp add: answer_state_sel(9) [OF a] n)
  fix j t assume t: "dict_get (tq_tasks (answer_state a q)) j = Some t \<and> rr_run_id (ht_run t) = rr_run_id n"
  show "ht_state t \<noteq> Task_Open"
  proof
    assume o: "ht_state t = Task_Open"
    have "dict_get (tq_tasks q) j = Some t"
      by (cases rule: answer_tasks [OF a conjunct1 [OF t]]) (use o in \<open>auto simp: answered_task_def superseded_task_def\<close>)
    then have "active_question q t" using answer_parts(2) [OF a] o unfolding questions_ok_def by blast
    then show False using answer_allowed(5) [OF a n] t by (simp add: active_question_def)
  qed
qed

lemma awaits_unread: "awaits_review (rr_run_id n) q \<Longrightarrow> read_context pr n q \<noteq> Inr cx"
  by (simp add: awaits_review_def read_context_def context_in_Inr)

lemma runs_kept_step: "repo_step env sv q q' \<Longrightarrow> repo_inv env q \<Longrightarrow> dict_get (tq_runs q) i = Some n \<Longrightarrow> dict_get (tq_runs q') i = Some n"
proof (induction rule: repo_step.induct)
  case (registered s run review q q')
  then show ?case using register_case_sel(3,7) [OF registered(1)] by auto
next
  case (created pr ts q xs q')
  have "tq_runs q' = tq_runs q" using created(1)
  proof (induction env pr ts q arbitrary: xs rule: create_tasks.induct)
    case (2 env pr t ts q)
    then obtain x q1 where x: "create_task_in env pr t q = Inr (x, q1)" by (cases "create_task_in env pr t q") auto
    then obtain ys where "create_tasks env pr ts q1 = Inr (ys, q')" using "2.prems" by auto
    then have "tq_runs q' = tq_runs q1" using "2.IH" x by blast
    moreover have "tq_runs q1 = tq_runs q" by (cases rule: create_task_in_cases [OF x]) simp_all
    ultimately show ?case by simp
  qed simp
  then show ?case using created(3) by simp
next
  case (answered fresh event_id pr command q x q')
  show ?case
  proof (cases rule: respond_answer [OF answered(1,2), case_names replayed accepted])
    case (accepted a)
    then show ?thesis using answered(3) answer_allowed(5) [OF accepted(1)]
      by (auto simp: answer_state_sel(6) [OF accepted(1)] split: option.split)
  qed (use answered(3) in simp)
next
  case (reentered pr run q review q')
  then show ?case by (auto simp: reenter_def reenter_run_def split: if_splits)
next
  case (paused pause_id pr res q p q')
  then show ?case
    by (cases "dict_get (tq_pauses q) (rr_run_id (bw_run res))") (auto simp: pause_run_def Let_def split: if_splits)
qed

lemma runs_kept:
  assumes "(repo_step env sv)\<^sup>*\<^sup>* q q'" and "repo_inv env q" and "dict_get (tq_runs q) i = Some n"
  shows "dict_get (tq_runs q') i = Some n"
  using assms
proof (induction rule: rtranclp_induct)
  case (step r s)
  have "repo_inv env r" by (rule task_repository_system.run_inv [OF step.hyps(1) step.prems(1)])
  from runs_kept_step [OF step.hyps(2) this step.IH [OF step.prems]] show ?case .
qed simp

lemma round_stays_closed:
  assumes a: "answerable env q a" and n: "hn_next_run (an_change a) = Some n" and inv: "repo_inv env (answer_state a q)"
    and run: "(repo_step env sv)\<^sup>*\<^sup>* (answer_state a q) q2"
  shows "(\<forall>pr' cx. read_context pr' n q2 \<noteq> Inr cx) \<and> (\<forall>i t. dict_get (tq_tasks q2) i = Some t \<and> ht_run t = n \<longrightarrow> ht_state t \<noteq> Task_Open)
    \<or> (\<exists>pr' cx review q3 q4. (repo_step env sv)\<^sup>*\<^sup>* (answer_state a q) q3 \<and> context_in pr' n True q3 = Inr cx
        \<and> vs_revision (hc_snapshot cx) = hx_revision (answer_result a) \<and> review_again env sv cx = Inr review
        \<and> reenter env sv pr' n q3 = Inr (review, q4) \<and> (repo_step env sv)\<^sup>*\<^sup>* q4 q2)"
proof (cases "awaits_review (rr_run_id n) q2")
  case True
  then show ?thesis using awaits_unread unfolding awaits_review_def by blast
next
  case False
  obtain pr' n' cx review q3 q4 where r: "rr_run_id n' = rr_run_id n" "(repo_step env sv)\<^sup>*\<^sup>* (answer_state a q) q3"
      "context_in pr' n' True q3 = Inr cx" "review_again env sv cx = Inr review" "reenter env sv pr' n' q3 = Inr (review, q4)"
      "(repo_step env sv)\<^sup>*\<^sup>* q4 q2"
    by (rule disjE [OF awaits_until [OF run inv answer_next [OF a n]]]) (use False in simp, elim exE conjE, rule that)
  have "dict_get (tq_runs (answer_state a q)) (rr_run_id n) = Some n" by (simp add: answer_state_sel(6) [OF a] n)
  note kept = runs_kept [OF r(2) inv this]
  note cx = r(3) [unfolded context_in_Inr]
  have "dict_get (tq_runs q3) (rr_run_id n') = Some n'" using cx by (elim conjE)
  with kept have n': "n' = n" unfolding r(1) by (metis option.inject)
  have "dict_get (tq_responses (answer_state a q)) (answer_key a) = Some (answer_result a)" by (simp add: answer_state_sel(2) [OF a])
  from repo_keptD(1) [OF repo_run_kept [OF r(2) inv] this] have "dict_get (tq_responses q3) (answer_key a) = Some (answer_result a)" .
  moreover have "material_ok env q3" using task_repository_system.run_inv [OF r(2) inv] by (simp add: repo_inv_def)
  ultimately obtain s where s: "dict_get (tq_snapshots q3) (reference_key (mr_reference (hx_revision (answer_result a)))) = Some s"
      "vs_revision s = hx_revision (answer_result a)" unfolding material_ok_def by blast
  have "rr_revision n = mr_reference (hx_revision (answer_result a))" using answer_allowed(4) [OF a n] by (simp add: answer_result_def)
  moreover have "dict_get (tq_snapshots q3) (reference_key (rr_revision n)) = Some (hc_snapshot cx)" using cx unfolding n' by (elim conjE)
  ultimately have "hc_snapshot cx = s" using s(1) by (metis option.inject)
  then show ?thesis using r(2-6) s(2) unfolding n' by blast
qed

text \<open>
  C15.  An accepted answer closes the round: when it starts a new run, no task of the case is open any more and the new run
  is the active one on the material that the answer produced.  Until that material has been reviewed again, in every later
  state, nobody can read a context for the run and nothing open is asked about it: only a re-entry of this very run, with a
  fresh review of the answered material, ends this.
\<close>

theorem answer_closes_the_round:
  assumes "(repo_step env sv)\<^sup>*\<^sup>* empty_repository q" and "respond_task env sv fresh event_id pr command q = Inr (x, q1)"
    and "dict_get (tq_responses q) (actor_id (pr_actor pr), hr_idempotency_key command) = None" and "hx_next_run x = Some n"
  shows "(\<forall>i t. dict_get (tq_tasks q1) i = Some t \<and> rev_case_id (rr_revision (ht_run t)) = rev_case_id (rr_revision n) \<longrightarrow> ht_state t \<noteq> Task_Open)
    \<and> (\<forall>pr' cx. read_context pr' n q1 \<noteq> Inr cx)
    \<and> (\<exists>cx. context_in pr n True q1 = Inr cx \<and> vs_revision (hc_snapshot cx) = hx_revision x \<and> rr_revision n = mr_reference (hx_revision x))
    \<and> (\<forall>q2. (repo_step env sv)\<^sup>*\<^sup>* q1 q2 \<longrightarrow>
         (\<forall>pr' cx. read_context pr' n q2 \<noteq> Inr cx)
           \<and> (\<forall>i t. dict_get (tq_tasks q2) i = Some t \<and> ht_run t = n \<longrightarrow> ht_state t \<noteq> Task_Open)
         \<or> (\<exists>pr' cx review q3 q4. (repo_step env sv)\<^sup>*\<^sup>* q1 q3 \<and> context_in pr' n True q3 = Inr cx \<and> vs_revision (hc_snapshot cx) = hx_revision x
              \<and> review_again env sv cx = Inr review \<and> reenter env sv pr' n q3 = Inr (review, q4) \<and> (repo_step env sv)\<^sup>*\<^sup>* q4 q2))"
proof (cases rule: respond_answer [OF assms(2) reached_inv [OF assms(1)], case_names replayed accepted])
  case replayed
  then show ?thesis using assms(3) by simp
next
  case (accepted a)
  note a = accepted(1) and q1 = accepted(2) and sel = answer_state_sel [OF accepted(1)] and al = answer_allowed [OF accepted(1)]
  have n: "hn_next_run (an_change a) = Some n" using assms(4) by (simp add: accepted(3))
  have rev: "rr_revision n = mr_reference (vs_revision (answer_snapshot a))" and c: "rev_case_id (rr_revision n) = answer_case a"
    using al(1) al(4) [OF n] by simp_all
  have "ht_state t \<noteq> Task_Open" if t: "dict_get (tq_tasks q1) i = Some t" "rev_case_id (rr_revision (ht_run t)) = rev_case_id (rr_revision n)" for i t
  proof
    assume o: "ht_state t = Task_Open"
    have "active_question q1 t" using answer_questions_ok [OF a] t(1) o unfolding q1 questions_ok_def by blast
    then have id: "rr_run_id (ht_run t) = rr_run_id n" using t(2) c n by (simp add: active_question_def q1 sel(7))
    have t1: "dict_get (tq_tasks (answer_state a q)) i = Some t" using t(1) by (simp add: q1)
    have "dict_get (tq_tasks q) i = Some t"
      by (cases rule: answer_tasks [OF a t1]) (use o in \<open>auto simp: answered_task_def superseded_task_def\<close>)
    then have "active_question q t" using answer_parts(2) [OF a] o unfolding questions_ok_def by blast
    then show False using al(5) [OF n] id by (simp add: active_question_def)
  qed
  moreover have "read_context pr' n q1 \<noteq> Inr cx" for pr' cx
    using n by (simp add: read_context_def context_in_Inr q1 sel(9))
  moreover have "\<exists>cx. context_in pr n True q1 = Inr cx \<and> vs_revision (hc_snapshot cx) = hx_revision x"
  proof -
    have perm: "answer_case a \<in> set (pr_case_ids pr)" "P_REVIEW \<in> set (pr_permissions pr)"
      using a accepted(4) by (simp_all add: answerable_def context_in_Inr)
    obtain s where s: "dict_get (tq_snapshots q1) (reference_key (rr_revision n)) = Some s" "vs_revision s = vs_revision (answer_snapshot a)"
    proof (cases "changed a")
      case True
      then show ?thesis using rev by (intro that [of "answer_snapshot a"]) (simp_all add: q1 sel(4))
    next
      case False
      then have "rr_revision n = rr_revision (ht_run (an_task a))" using rev al(6) [OF False] by metis
      then show ?thesis using False answer_context(4) [OF a] by (intro that [of "hc_snapshot (an_context a)"]) (simp_all add: q1 sel(4))
    qed
    let ?cx = "\<lparr>hc_snapshot = s, hc_run = n, hc_review = hc_review (an_context a),
        hc_confirmed_sides = confirmed_by pr (confirmations_of q1 (rev_case_id (rr_revision n)))\<rparr>"
    have cur: "dict_get (tq_current q1) (rev_case_id (rr_revision n)) = Some (rev_revision_id (rr_revision n))"
    proof (cases "changed a")
      case True
      then show ?thesis by (simp add: q1 sel(5) c rev [symmetric])
    next
      case False
      have "rr_revision n = rr_revision (ht_run (an_task a))" using rev al(6) [OF False] by metis
      then show ?thesis using False answer_context(2) [OF a] by (simp add: q1 sel(5))
    qed
    have run: "dict_get (tq_runs q1) (rr_run_id n) = Some n" "dict_get (tq_reviews q1) (rr_run_id n) = Some (hc_review (an_context a))"
      "dict_get (tq_active_run q1) (rev_case_id (rr_revision n)) = Some (rr_run_id n)"
      using n by (simp_all add: q1 sel(6-8) c)
    have ref: "mr_reference (vs_revision s) = rr_revision n" using s(2) rev by simp
    have "context_in pr n True q1 = Inr ?cx"
      unfolding context_in_Inr
      using perm(1) [folded c] perm(2) run cur s(1) ref by (simp only: human_task_context.simps simp_thms)
    then show ?thesis using s(2) accepted(3) by (intro exI [of _ ?cx]) simp
  qed
  moreover have "(\<forall>pr' cx. read_context pr' n q2 \<noteq> Inr cx) \<and> (\<forall>i t. dict_get (tq_tasks q2) i = Some t \<and> ht_run t = n \<longrightarrow> ht_state t \<noteq> Task_Open)
      \<or> (\<exists>pr' cx review q3 q4. (repo_step env sv)\<^sup>*\<^sup>* q1 q3 \<and> context_in pr' n True q3 = Inr cx \<and> vs_revision (hc_snapshot cx) = hx_revision x
          \<and> review_again env sv cx = Inr review \<and> reenter env sv pr' n q3 = Inr (review, q4) \<and> (repo_step env sv)\<^sup>*\<^sup>* q4 q2)"
    if "(repo_step env sv)\<^sup>*\<^sup>* q1 q2" for q2
    using round_stays_closed [OF a n respond_inv [OF assms(2) reached_inv [OF assms(1)], unfolded q1] that [unfolded q1]]
    unfolding q1 accepted(3) .
  ultimately show ?thesis using rev accepted(3) by auto
qed

section \<open>Handoffs\<close>

lemma build_task_sel:
  assumes "build_task env sv i cx k ids subject_id = Inr t"
  shows "ht_finding_ids t = ids" "ht_reason_code t \<noteq> None" "ht_kind t = k" "ht_task_id t = i" "ht_run t = hc_run cx"
  using assms by (auto simp: build_task_def Let_def)

lemma blocker_of_found:
  assumes "distinct (map hb_blocker_id bs)" and "(b, t) \<in> set (zip bs ts)"
  shows "find (\<lambda>x. wb_blocker_id x = hb_blocker_id b) (map blocker_of (zip bs ts)) = Some (blocker_of (b, t))"
  using assms
proof (induction bs arbitrary: ts)
  case (Cons c bs)
  then obtain u us where ts: "ts = u # us" by (cases ts) auto
  show ?case
  proof (cases "(b, t) = (c, u)")
    case False
    then have m: "(b, t) \<in> set (zip bs us)" using False Cons.prems(2) by (auto simp: ts)
    then have "hb_blocker_id b \<in> set (map hb_blocker_id bs)" by (auto dest: set_zip_leftD)
    then have "hb_blocker_id c \<noteq> hb_blocker_id b" using Cons.prems(1) by auto
    then show ?thesis using Cons.IH [OF _ m] Cons.prems(1) by (simp add: ts blocker_of_def)
  qed (simp add: ts blocker_of_def)
qed simp

lemma handoff_for_run_Inr:
  assumes "handoff_for_run env sv fresh pr run bindings q = Inr h" and "read_context pr run q = Inr cx"
  obtains drafts where "list_all2 (\<lambda>nb t. build_bound env sv fresh cx nb = Inr t) (enumerate 0 bindings) drafts"
    "h = handoff_of_tasks run (zip bindings drafts)" "preserved_context h" "bindings \<noteq> []" "distinct (map hb_blocker_id bindings)"
    "required_findings env (hc_review cx) (set (concat (map hb_finding_ids bindings))) = set (concat (map hb_finding_ids bindings))"
proof -
  let ?covered = "set (concat (map hb_finding_ids bindings))"
  have "required_findings env (hc_review cx) ?covered \<noteq> {} \<and> required_findings env (hc_review cx) ?covered = ?covered
      \<and> distinct (map hb_blocker_id bindings)"
    and "\<exists>drafts. map_result (build_bound env sv fresh cx) (enumerate 0 bindings) = Inr drafts \<and> h = handoff_of_tasks run (zip bindings drafts)
      \<and> preserved_context h"
    using assms by (auto simp del: set_concat set_map concat_eq_Nil_conv set_empty simp: handoff_for_run_def Let_def)
  then show ?thesis using that unfolding map_result_Inr by (metis concat.simps(1) list.map(1) list.set(1))
qed

lemma handoff_of_tasks_sel:
  assumes "length ts = length bs"
  shows "ho_revision (handoff_of_tasks run (zip bs ts)) = rr_revision run" "length (ho_blockers (handoff_of_tasks run (zip bs ts))) = length bs"
    "map wb_blocker_id (ho_blockers (handoff_of_tasks run (zip bs ts))) = map hb_blocker_id bs"
proof -
  have "wb_blocker_id \<circ> blocker_of = hb_blocker_id \<circ> fst" by (auto simp: blocker_of_def)
  then have "map wb_blocker_id (map blocker_of (zip bs ts)) = map hb_blocker_id (map fst (zip bs ts))" by simp
  then show "map wb_blocker_id (ho_blockers (handoff_of_tasks run (zip bs ts))) = map hb_blocker_id bs"
    using assms by (simp add: handoff_of_tasks_def)
qed (simp_all add: handoff_of_tasks_def assms)

text \<open>
  C37.  A handoff hides nothing: tasks created from a handoff that the service built are exactly its drafts, one for each
  binding; every finding that is not verified is in one of them, except a calculation whose comparison is asked about
  anyway; and no draft asks about a verified finding.
\<close>

theorem handoff_hides_nothing:
  assumes "handoff_for_run env sv fresh pr run bindings q = Inr h" and "read_context pr run q = Inr cx"
  shows "\<exists>drafts. create_from_handoff env sv fresh pr run h bindings q = create_tasks env pr drafts q
    \<and> map ht_finding_ids drafts = map hb_finding_ids bindings
    \<and> (\<forall>f \<in> set (cr_findings (hc_review cx)). rf_status f \<noteq> E_VERIFIED \<longrightarrow>
         (\<exists>t \<in> set drafts. finding_name env f \<in> set (ht_finding_ids t))
         \<or> rf_kind f = ''calculation'' \<and> (\<exists>g \<in> set (cr_findings (hc_review cx)). rf_context g = rf_context f \<and> rf_context f \<noteq> None
             \<and> (\<exists>t \<in> set drafts. finding_name env g \<in> set (ht_finding_ids t))))
    \<and> (\<forall>t \<in> set drafts. set (ht_finding_ids t)
         \<subseteq> finding_name env ` {f \<in> set (cr_findings (hc_review cx)). rf_status f \<noteq> E_VERIFIED})"
proof -
  obtain drafts where d: "list_all2 (\<lambda>nb t. build_bound env sv fresh cx nb = Inr t) (enumerate 0 bindings) drafts"
      "h = handoff_of_tasks run (zip bindings drafts)" "preserved_context h" "bindings \<noteq> []" "distinct (map hb_blocker_id bindings)"
      "required_findings env (hc_review cx) (set (concat (map hb_finding_ids bindings))) = set (concat (map hb_finding_ids bindings))"
    by (rule handoff_for_run_Inr [OF assms])
  have len: "length drafts = length bindings" using list_all2_lengthD [OF d(1)] by simp
  have built: "build_bound env sv fresh cx (n, bindings ! n) = Inr (drafts ! n)" if "n < length bindings" for n
    using list_all2_nthD [OF d(1), of n] that by (simp add: nth_enumerate_eq)
  note fields = build_task_sel [OF built [unfolded build_bound_def, simplified]]
  have ids: "map ht_finding_ids drafts = map hb_finding_ids bindings"
    by (rule nth_equalityI) (simp_all add: len fields(1))
  have bound: "bound_task env sv fresh cx h (n, bindings ! n) = Inr (drafts ! n)" if n: "n < length bindings" for n
  proof -
    have "(bindings ! n, drafts ! n) \<in> set (zip bindings drafts)" using n len by (auto simp: set_zip)
    then have "blocker_matches h (bindings ! n) (drafts ! n)"
      using fields(2) [OF n] blocker_of_found [OF d(5)]
      by (auto simp: blocker_matches_def d(2) handoff_of_tasks_def) (auto simp: blocker_of_def)
    then show ?thesis using built [OF n] by (simp add: bound_task_def)
  qed
  have "map_result (bound_task env sv fresh cx h) (enumerate 0 bindings) = Inr drafts"
    unfolding map_result_Inr by (rule list_all2_all_nthI) (simp_all add: len bound nth_enumerate_eq)
  moreover have "ho_blockers (handoff_of_tasks run (zip bindings drafts)) \<noteq> []"
    using d(4) handoff_of_tasks_sel(2) [OF len, of run] by (metis length_0_conv)
  ultimately have "create_from_handoff env sv fresh pr run h bindings q = create_tasks env pr drafts q"
    using d(3,4) assms(2) handoff_of_tasks_sel [OF len, of run] by (auto simp: create_from_handoff_def d(2) simp flip: set_map)
  moreover have covered: "set (concat (map hb_finding_ids bindings)) = (\<Union>t \<in> set drafts. set (ht_finding_ids t))"
    by (simp flip: ids)
  ultimately show ?thesis
    using d(6) ids unfolding covered required_findings_def Let_def by (intro exI [of _ drafts]) fastforce
qed

end
