(* ===== verification/Task_Store.thy ===== *)
theory Task_Store
  imports Revisions Job_Store
begin

text \<open>
  \<open>adapters/local/human_task_store.py\<close>: the reference human-task store over the job store, and the records
  of \<open>ports/human_tasks.py\<close>.  Its one write changes both planes: \<open>task_plane\<close> is the pair of them.  The
  lock makes every operation one function; other users of the job store act between operations.
  Identifiers drawn with \<open>uuid4()\<close> are arguments.
\<close>

section \<open>Records\<close>

record task_entry =
  te_task :: human_task
  te_job_id :: uuid
  te_case_id :: string
  te_principal_id :: string
  te_seq :: nat

record job_meta =
  jm_case_id :: string
  jm_principal_id :: string
  jm_head :: revision_reference

record task_record =
  tk_task :: human_task
  tk_job_id :: uuid
  tk_case_id :: string
  tk_principal_id :: string
  tk_current_revision :: revision_reference

record stored_receipt =
  sx_principal_id :: string
  sx_key :: string
  sx_payload_digest :: digest
  sx_receipt :: response_receipt

record task_store =
  ts_tasks :: "(uuid, task_entry) dict"
  ts_job_meta :: "(uuid, job_meta) dict"
  ts_chain :: "(uuid, material_revision list) dict"
  ts_snapshots :: "(string \<times> string, revision_snapshot) dict"
  ts_receipts :: "(string \<times> string, stored_receipt) dict"
  ts_seq :: nat

definition empty_task_store :: task_store where
  "empty_task_store = \<lparr>ts_tasks = [], ts_job_meta = [], ts_chain = [], ts_snapshots = [], ts_receipts = [], ts_seq = 0\<rparr>"

record task_plane =
  tp_tasks :: task_store
  tp_jobs :: job_store

section \<open>Seeding\<close>

definition snapshot_key :: "revision_reference \<Rightarrow> string \<times> string" where
  "snapshot_key r = (rev_case_id r, rev_revision_id r)"

definition task_registrable :: "uuid \<Rightarrow> string \<Rightarrow> revision_reference \<Rightarrow> task_store \<Rightarrow> human_task \<Rightarrow> bool" where
  "task_registrable jid principal_id head ts t =
     (rr_revision (ht_run t) = head
      \<and> (case dict_get (ts_tasks ts) (ht_task_id t) of
           None \<Rightarrow> True
         | Some e \<Rightarrow> te_task e = t \<and> te_job_id e = jid \<and> te_principal_id e = principal_id))"

definition register_task :: "uuid \<Rightarrow> string \<Rightarrow> string \<Rightarrow> human_task \<Rightarrow> task_store \<Rightarrow> task_store" where
  "register_task jid case_id principal_id t ts =
     (if dict_get (ts_tasks ts) (ht_task_id t) \<noteq> None then ts
      else ts\<lparr>ts_seq := ts_seq ts + 1,
              ts_tasks := dict_set (ht_task_id t)
                \<lparr>te_task = t, te_job_id = jid, te_case_id = case_id, te_principal_id = principal_id, te_seq = ts_seq ts + 1\<rparr>
                (ts_tasks ts)\<rparr>)"

definition seed :: "uuid \<Rightarrow> string \<Rightarrow> revision_snapshot \<Rightarrow> human_task list \<Rightarrow> task_store \<Rightarrow> task_store result" where
  "seed jid principal_id s tasks ts =
     (let r = vs_revision s; head = mr_reference r; case_id = rev_case_id head; old = dict_get (ts_job_meta ts) jid
      in bind_result (ensure (case old of None \<Rightarrow> True
             | Some m \<Rightarrow> jm_head m = head \<and> jm_principal_id m = principal_id \<and> jm_case_id m = case_id) Condition_Failed) (\<lambda>_.
         bind_result (ensure (case dict_get (ts_snapshots ts) (snapshot_key head) of None \<Rightarrow> True
             | Some q \<Rightarrow> vs_revision q = r) Condition_Failed) (\<lambda>_.
         bind_result (ensure (distinct (map ht_task_id tasks)) Condition_Failed) (\<lambda>_.
         bind_result (ensure (list_all (task_registrable jid principal_id head ts) tasks) Condition_Failed) (\<lambda>_.
           Inr (fold (register_task jid case_id principal_id) tasks
             (ts\<lparr>ts_job_meta := dict_set jid \<lparr>jm_case_id = case_id, jm_principal_id = principal_id, jm_head = head\<rparr> (ts_job_meta ts),
                 ts_chain := (if old = None then dict_set jid [r] (ts_chain ts) else ts_chain ts),
                 ts_snapshots := dict_set (snapshot_key head) s (ts_snapshots ts)\<rparr>)))))))"

section \<open>Reads\<close>

definition task_record_of :: "task_store \<Rightarrow> task_entry \<Rightarrow> task_record result" where
  "task_record_of ts e =
     bind_result (some_or Key_Error (dict_get (ts_job_meta ts) (te_job_id e))) (\<lambda>m.
       Inr \<lparr>tk_task = te_task e, tk_job_id = te_job_id e, tk_case_id = te_case_id e, tk_principal_id = te_principal_id e,
            tk_current_revision = jm_head m\<rparr>)"

definition read_task :: "task_store \<Rightarrow> uuid \<Rightarrow> task_record option result" where
  "read_task ts i = (case dict_get (ts_tasks ts) i of None \<Rightarrow> Inr None
     | Some e \<Rightarrow> bind_result (task_record_of ts e) (\<lambda>r. Inr (Some r)))"

definition job_entries :: "task_store \<Rightarrow> uuid \<Rightarrow> task_entry list" where
  "job_entries ts jid = sort_key te_seq (filter (\<lambda>e. te_job_id e = jid) (map snd (ts_tasks ts)))"

definition list_task_records :: "task_store \<Rightarrow> uuid \<Rightarrow> task_record list result" where
  "list_task_records ts jid = map_result (task_record_of ts) (job_entries ts jid)"

definition revision_chain :: "task_store \<Rightarrow> uuid \<Rightarrow> material_revision list" where
  "revision_chain ts jid = (case dict_get (ts_chain ts) jid of None \<Rightarrow> [] | Some rs \<Rightarrow> rs)"

definition read_snapshot :: "task_store \<Rightarrow> revision_reference \<Rightarrow> revision_snapshot option" where
  "read_snapshot ts r = (case dict_get (ts_snapshots ts) (snapshot_key r) of None \<Rightarrow> None
     | Some s \<Rightarrow> if mr_reference (vs_revision s) = r then Some s else None)"

definition read_receipt :: "task_store \<Rightarrow> string \<Rightarrow> string \<Rightarrow> stored_receipt option" where
  "read_receipt ts principal_id key = dict_get (ts_receipts ts) (principal_id, key)"

section \<open>The one write\<close>

definition restate :: "human_task \<Rightarrow> task_state \<Rightarrow> int \<Rightarrow> human_task result" where
  "restate t st v = (let t' = t\<lparr>ht_state := st, ht_version := v\<rparr> in if task_authority t' then Inr t' else Inl Value_Error)"

fun supersede :: "task_entry list \<Rightarrow> (uuid, task_entry) dict \<Rightarrow> (uuid, task_entry) dict result" where
  "supersede [] d = Inr d"
| "supersede (e # es) d =
     bind_result (restate (te_task e) Task_Superseded (ht_version (te_task e) + 1)) (\<lambda>t.
       supersede es (dict_set (ht_task_id (te_task e)) (e\<lparr>te_task := t\<rparr>) d))"

definition stale_entry :: "uuid \<Rightarrow> revision_reference \<Rightarrow> task_entry \<Rightarrow> bool" where
  "stale_entry jid old_head e = (te_job_id e = jid \<and> ht_state (te_task e) = Task_Open \<and> rr_revision (ht_run (te_task e)) = old_head)"

definition stale_entries :: "uuid \<Rightarrow> revision_reference \<Rightarrow> (uuid, task_entry) dict \<Rightarrow> task_entry list" where
  "stale_entries jid old_head d = sort_key te_seq (filter (stale_entry jid old_head) (map snd d))"

text \<open>The writes of \<open>_apply\<close> to the task store, up to the call of the job plane.\<close>

definition answer_task :: "task_entry \<Rightarrow> task_store \<Rightarrow> task_store result" where
  "answer_task e ts =
     bind_result (restate (te_task e) Task_Answered (ht_version (te_task e) + 1)) (\<lambda>t.
       Inr (ts\<lparr>ts_tasks := dict_set (ht_task_id (te_task e)) (e\<lparr>te_task := t\<rparr>) (ts_tasks ts)\<rparr>))"

definition append_revision :: "uuid \<Rightarrow> revision_snapshot \<Rightarrow> job_meta \<Rightarrow> task_store \<Rightarrow> (uuid list \<times> task_store) result" where
  "append_revision jid n m ts =
     (let reference = mr_reference (vs_revision n)
      in bind_result (some_or Key_Error (dict_get (ts_chain ts) jid)) (\<lambda>chain.
         let stale = stale_entries jid (jm_head m) (ts_tasks ts)
         in bind_result (supersede stale (ts_tasks ts)) (\<lambda>tasks.
              Inr (map (\<lambda>e. ht_task_id (te_task e)) stale,
                   ts\<lparr>ts_tasks := tasks, ts_chain := dict_set jid (chain @ [vs_revision n]) (ts_chain ts),
                      ts_snapshots := dict_set (snapshot_key reference) n (ts_snapshots ts),
                      ts_job_meta := dict_set jid (m\<lparr>jm_head := reference\<rparr>) (ts_job_meta ts)\<rparr>))))"

definition write_answer :: "task_entry \<Rightarrow> revision_snapshot option \<Rightarrow> task_store \<Rightarrow> (uuid list \<times> task_store) result" where
  "write_answer e next ts =
     bind_result (some_or Key_Error (dict_get (ts_job_meta ts) (te_job_id e))) (\<lambda>m.
     bind_result (answer_task e ts) (\<lambda>ts'.
       case next of None \<Rightarrow> Inr ([], ts') | Some n \<Rightarrow> append_revision (te_job_id e) n m ts'))"

definition resumed_run :: "uuid \<Rightarrow> revision_snapshot \<Rightarrow> run_reference" where
  "resumed_run run_id n = \<lparr>rr_run_id = run_id, rr_revision = mr_reference (vs_revision n), rr_attempt_id = None,
     rr_runtime_session_id = None\<rparr>"

definition notify_jobs :: "task_entry \<Rightarrow> revision_snapshot option \<Rightarrow> int \<Rightarrow> uuid \<Rightarrow> uuid \<Rightarrow> job_store \<Rightarrow>
    (job_record \<times> job_store) result" where
  "notify_jobs e next now run_id fresh js =
     (case next of
        Some n \<Rightarrow> resume_after_human (te_job_id e) (resumed_run run_id n) now fresh js
      | None \<Rightarrow> reject_human_task (te_job_id e) (rr_run_id (ht_run (te_task e))) (ht_task_id (te_task e)) now js)"

definition receipt_of :: "task_entry \<Rightarrow> human_response \<Rightarrow> revision_snapshot option \<Rightarrow> uuid \<Rightarrow> uuid list \<Rightarrow> job_status \<Rightarrow> response_receipt" where
  "receipt_of e command next run_id superseded status =
     \<lparr>rt_task_id = ht_task_id (te_task e), rt_consumed_version = hr_expected_version command, rt_action = hr_action command,
      rt_job = \<lparr>jf_case_id = te_case_id e, jf_job_id = te_job_id e\<rparr>, rt_job_status = status,
      rt_revision = map_option (\<lambda>n. mr_reference (vs_revision n)) next, rt_resumed_run = map_option (resumed_run run_id) next,
      rt_superseded_task_ids = superseded\<rparr>"

definition put_receipt :: "string \<times> string \<Rightarrow> digest \<Rightarrow> response_receipt \<Rightarrow> task_store \<Rightarrow> task_store" where
  "put_receipt key payload_digest r ts =
     ts\<lparr>ts_receipts := dict_set key \<lparr>sx_principal_id = fst key, sx_key = snd key, sx_payload_digest = payload_digest, sx_receipt = r\<rparr>
          (ts_receipts ts)\<rparr>"

definition apply_response :: "task_entry \<Rightarrow> accepted_response \<Rightarrow> revision_snapshot option \<Rightarrow> digest \<Rightarrow> int \<Rightarrow> uuid \<Rightarrow> uuid \<Rightarrow>
    string \<times> string \<Rightarrow> task_plane \<Rightarrow> response_receipt result \<times> task_plane" where
  "apply_response e a next payload_digest now run_id fresh key p =
     (case write_answer e next (tp_tasks p) of
        Inl x \<Rightarrow> (Inl x, p)
      | Inr (superseded, ts) \<Rightarrow>
          (case notify_jobs e next now run_id fresh (tp_jobs p) of
             Inl x \<Rightarrow> (Inl x, p\<lparr>tp_tasks := ts\<rparr>)
           | Inr (record, js) \<Rightarrow>
               let r = receipt_of e (ar_command a) next run_id superseded (jr_status record)
               in if committed_effect r then (Inr r, \<lparr>tp_tasks = put_receipt key payload_digest r ts, tp_jobs = js\<rparr>)
                  else (Inl Value_Error, \<lparr>tp_tasks = ts, tp_jobs = js\<rparr>)))"

definition roll_back :: "task_store \<Rightarrow> task_store \<Rightarrow> task_store" where
  "roll_back before after =
     after\<lparr>ts_tasks := ts_tasks before, ts_job_meta := ts_job_meta before, ts_chain := ts_chain before, ts_snapshots := ts_snapshots before\<rparr>"

definition response_current :: "task_entry \<Rightarrow> accepted_response \<Rightarrow> job_meta \<Rightarrow> bool" where
  "response_current e a m =
     (\<not> (ht_state (te_task e) \<noteq> Task_Open \<or> ht_version (te_task e) \<noteq> hr_expected_version (ar_command a)
         \<or> rr_revision (ht_run (te_task e)) \<noteq> jm_head m \<or> actor_id (ar_actor a) \<noteq> te_principal_id e))"

definition commit_response :: "accepted_response \<Rightarrow> revision_snapshot option \<Rightarrow> digest \<Rightarrow> int \<Rightarrow> uuid \<Rightarrow> uuid \<Rightarrow> task_plane \<Rightarrow>
    response_receipt result \<times> task_plane" where
  "commit_response a next payload_digest now run_id fresh p =
     (let ts = tp_tasks p; key = (actor_id (ar_actor a), hr_idempotency_key (ar_command a))
      in case dict_get (ts_tasks ts) (hr_task_id (ar_command a)) of
           None \<Rightarrow> (Inl Condition_Failed, p)
         | Some e \<Rightarrow>
             (case dict_get (ts_job_meta ts) (te_job_id e) of
                None \<Rightarrow> (Inl Key_Error, p)
              | Some m \<Rightarrow>
                  (case dict_get (ts_receipts ts) key of
                     Some stored \<Rightarrow>
                       (if sx_payload_digest stored \<noteq> payload_digest then Inl (Service_Fault CONFLICT) else Inr (sx_receipt stored), p)
                   | None \<Rightarrow>
                       if \<not> response_current e a m then (Inl Condition_Failed, p)
                       else if \<not> option_ok (\<lambda>n. mr_parent (vs_revision n) = Some (jm_head m)) next then (Inl Condition_Failed, p)
                       else (case apply_response e a next payload_digest now run_id fresh key p of
                               (Inl x, q) \<Rightarrow> (Inl x, q\<lparr>tp_tasks := roll_back ts (tp_tasks q)\<rparr>)
                             | (Inr r, q) \<Rightarrow> (Inr r, q)))))"

end
