(* ===== verification/Human_Tasks.thy ===== *)
theory Human_Tasks
  imports Task_Store
begin

text \<open>
  \<open>application/human_tasks.py\<close>: a reviewer reads the tasks of a job and answers one.  The answer becomes a
  confirmation or a correction of exactly one observation, in a new revision, which one conditional write
  commits together with the follow-up run.  Between two awaits of \<open>respond\<close> anything may happen to the
  planes: \<open>mid i\<close> is what happened before the \<open>i\<close>-th store call.  The clock, the new revision
  identifier and the two identifiers drawn by the stores are arguments.
\<close>

section \<open>Subjects\<close>

definition side_text :: "side \<Rightarrow> string" where
  "side_text sd = (case sd of Target_Side \<Rightarrow> ''target'' | Comparable_Side \<Rightarrow> ''comparable'')"

definition side_subject_id :: "revision_env \<Rightarrow> fact_side_reference \<Rightarrow> string" where
  "side_subject_id env r = re_context_key env (fd_context r) @ '':'' @ fd_factor_id r @ '':'' @ side_text (fd_side r)"

definition task_view_of :: "revision_env \<Rightarrow> human_task \<Rightarrow> task_view" where
  "task_view_of env t = \<lparr>tv_task = t, tv_subject_id = map_option (side_subject_id env) (ht_side t)\<rparr>"

definition at_side :: "revision_env \<Rightarrow> fact_side_reference \<Rightarrow> evidenced_pair \<Rightarrow> bool" where
  "at_side env r p = (re_context_key env (ep_context p) = re_context_key env (fd_context r) \<and> fp_factor_id (ep_pair p) = fd_factor_id r)"

definition locate :: "revision_env \<Rightarrow> review_material \<Rightarrow> fact_side_reference \<Rightarrow> evidenced_pair result" where
  "locate env m r = (case filter (at_side env r) (cf_pairs (rm_facts m)) of [p] \<Rightarrow> Inr p | _ \<Rightarrow> Inl (Service_Fault CONFLICT))"

text \<open>Assigning to the located pair changes it inside the material.\<close>

definition replace_pair :: "revision_env \<Rightarrow> fact_side_reference \<Rightarrow> evidenced_pair \<Rightarrow> review_material \<Rightarrow> review_material" where
  "replace_pair env r q = with_pairs (\<lambda>p. if at_side env r p then q else p)"

definition text_of :: "string option \<Rightarrow> string" where
  "text_of x = (case x of None \<Rightarrow> [] | Some s \<Rightarrow> s)"

definition public_observation :: "factor_observation \<Rightarrow> source_citation list \<Rightarrow> public_value" where
  "public_observation x sources =
     \<lparr>pv_state = (if ob_value x \<noteq> None then Present else Blank), pv_value = map_option Public_Normalized (ob_value x),
      pv_raw_text = text_of (ob_raw_text x), pv_unit = (case ob_value x of None \<Rightarrow> None | Some v \<Rightarrow> nv_unit v),
      pv_confidence = Some (ob_confidence x), pv_evidence = sources\<rparr>"

section \<open>Reads\<close>

definition read_authorized_job :: "principal \<Rightarrow> uuid \<Rightarrow> task_plane \<Rightarrow> job_record result" where
  "read_authorized_job pr jid p =
     bind_result (read_job (tp_jobs p) jid) (\<lambda>found.
       case found of
         None \<Rightarrow> Inl (Service_Fault NOT_FOUND)
       | Some j \<Rightarrow>
           bind_result (ensure (jr_principal_id j = actor_id (pr_actor pr) \<and> jr_case_id j \<in> set (pr_case_ids pr)) (Service_Fault NOT_FOUND)) (\<lambda>_.
           bind_result (principal_require pr (jr_case_id j) P_REVIEW) (\<lambda>_. Inr j)))"

definition visible :: "principal \<Rightarrow> task_record \<Rightarrow> bool" where
  "visible pr r = (tk_principal_id r = actor_id (pr_actor pr) \<and> tk_case_id r \<in> set (pr_case_ids pr))"

definition visible_task :: "principal \<Rightarrow> uuid \<Rightarrow> task_plane \<Rightarrow> task_record result" where
  "visible_task pr i p =
     bind_result (read_task (tp_tasks p) i) (\<lambda>found.
       case found of
         None \<Rightarrow> Inl (Service_Fault NOT_FOUND)
       | Some r \<Rightarrow> if visible pr r then Inr r else Inl (Service_Fault NOT_FOUND))"

text \<open>\<open>_authorized\<close>: the task, then the job that owns it; two reads.\<close>

definition authorized_task :: "(nat \<Rightarrow> task_plane \<Rightarrow> task_plane) \<Rightarrow> principal \<Rightarrow> uuid \<Rightarrow> task_plane \<Rightarrow> task_record result \<times> task_plane" where
  "authorized_task mid pr i p =
     (let p1 = mid 0 p
      in case visible_task pr i p1 of
           Inl e \<Rightarrow> (Inl e, p1)
         | Inr r \<Rightarrow>
             let p2 = mid 1 p1
             in (bind_result (read_authorized_job pr (tk_job_id r) p2) (\<lambda>_. Inr r), p2))"

definition list_tasks :: "revision_env \<Rightarrow> (nat \<Rightarrow> task_plane \<Rightarrow> task_plane) \<Rightarrow> principal \<Rightarrow> uuid \<Rightarrow> task_plane \<Rightarrow> task_list_view result" where
  "list_tasks env mid pr jid p =
     (let p1 = mid 0 p
      in bind_result (read_authorized_job pr jid p1) (\<lambda>j.
         let p2 = mid 1 p1
         in bind_result (list_task_records (tp_tasks p2) jid) (\<lambda>records.
            bind_result (ensure (list_all (visible pr) records) (Service_Fault NOT_FOUND)) (\<lambda>_.
            let v = \<lparr>tl_job = \<lparr>jf_case_id = jr_case_id j, jf_job_id = jid\<rparr>, tl_tasks = map (\<lambda>r. task_view_of env (tk_task r)) records\<rparr>
            in if opaque_id (jr_case_id j) \<and> one_case v then Inr v else Inl Value_Error))))"

definition read_task_view :: "revision_env \<Rightarrow> (nat \<Rightarrow> task_plane \<Rightarrow> task_plane) \<Rightarrow> principal \<Rightarrow> uuid \<Rightarrow> task_plane \<Rightarrow> task_view result" where
  "read_task_view env mid pr i p = bind_result (fst (authorized_task mid pr i p)) (\<lambda>r. Inr (task_view_of env (tk_task r)))"

definition subject_view :: "revision_env \<Rightarrow> task_record \<Rightarrow> fact_side_reference \<Rightarrow> public_value \<Rightarrow> task_subject_view" where
  "subject_view env r side value =
     (let normalized = (case pv_value value of Some (Public_Normalized n) \<Rightarrow> Some n | _ \<Rightarrow> None)
      in \<lparr>tj_task_id = ht_task_id (tk_task r), tj_revision = rr_revision (ht_run (tk_task r)), tj_subject_id = side_subject_id env side,
          tj_observation = value, tj_required_type = map_option (\<lambda>n. content_type (nv_content n)) normalized,
          tj_required_unit = (case normalized of None \<Rightarrow> None | Some n \<Rightarrow> nv_unit n),
          tj_unit_required = (case normalized of None \<Rightarrow> True | Some n \<Rightarrow> content_type (nv_content n) = Type_Number)\<rparr>)"

definition read_subject :: "revision_env \<Rightarrow> (nat \<Rightarrow> task_plane \<Rightarrow> task_plane) \<Rightarrow> principal \<Rightarrow> uuid \<Rightarrow> task_plane \<Rightarrow> task_subject_view result" where
  "read_subject env mid pr i p =
     (case authorized_task mid pr i p of
        (Inl e, _) \<Rightarrow> Inl e
      | (Inr r, q) \<Rightarrow>
          (case (ht_side (tk_task r), read_snapshot (tp_tasks (mid 2 q)) (rr_revision (ht_run (tk_task r)))) of
             (Some side, Some s) \<Rightarrow>
               bind_result (locate env (vs_material s) side) (\<lambda>pair.
               bind_result (ensure (confirmation_digest (re_confirmation_digest env) pair (fd_side side) = fd_input_digest side)
                 (Service_Fault CONFLICT)) (\<lambda>_.
               let value = public_observation (side_observation pair (fd_side side)) (side_sources pair (fd_side side))
               in bind_result (ensure (public_value_valid value) Value_Error) (\<lambda>_. Inr (subject_view env r side value))))
           | _ \<Rightarrow> Inl (Service_Fault CAPABILITY)))"

definition list_revisions :: "(nat \<Rightarrow> task_plane \<Rightarrow> task_plane) \<Rightarrow> principal \<Rightarrow> uuid \<Rightarrow> task_plane \<Rightarrow> revision_list_view result" where
  "list_revisions mid pr jid p =
     (let p1 = mid 0 p
      in bind_result (read_authorized_job pr jid p1) (\<lambda>j.
         let v = \<lparr>rl_job = \<lparr>jf_case_id = jr_case_id j, jf_job_id = jid\<rparr>, rl_revisions = revision_chain (tp_tasks (mid 1 p1)) jid\<rparr>
         in if opaque_id (jr_case_id j) \<and> linked_chain v then Inr v else Inl Value_Error))"

section \<open>The revision an answer proposes\<close>

definition confirm_revision :: "revision_env \<Rightarrow> revision_snapshot \<Rightarrow> evidenced_pair \<Rightarrow> fact_side_reference \<Rightarrow> accepted_response \<Rightarrow>
    string \<Rightarrow> revision_snapshot result" where
  "confirm_revision env s pair side a revision_id =
     bind_result (on_error (confirm_side (re_confirmation_digest env) pair (fd_side side) (actor_id (ar_actor a)))
       (\<lambda>_. Inl (Service_Fault CONFLICT))) (\<lambda>confirmed.
       capture env (with_version revision_id (replace_pair env side confirmed (vs_material s))) revision_id
         (Some (mr_reference (vs_revision s))) [])"

definition correction_types_ok :: "public_value \<Rightarrow> factor_observation \<Rightarrow> bool" where
  "correction_types_ok proposed x =
     (pv_state proposed = Present \<longrightarrow>
        (case (pv_value proposed, ob_value x) of
           (Some (Public_Normalized v), Some stored) \<Rightarrow>
             content_type (nv_content v) = content_type (nv_content stored)
             \<and> (content_type (nv_content v) = Type_Number \<longrightarrow>
                  nv_unit stored \<noteq> None \<and> nv_unit v = nv_unit stored \<and> pv_unit proposed = nv_unit stored)
         | _ \<Rightarrow> False))"

definition corrected_observation :: "public_value \<Rightarrow> factor_observation \<Rightarrow> factor_observation" where
  "corrected_observation proposed x =
     x\<lparr>ob_value := (if pv_state proposed = Present then (case pv_value proposed of Some (Public_Normalized v) \<Rightarrow> Some v | _ \<Rightarrow> None) else None),
       ob_raw_text := (if pv_raw_text proposed = [] then None else Some (pv_raw_text proposed)),
       ob_confidence := (case pv_confidence proposed of None \<Rightarrow> ob_confidence x
          | Some c \<Rightarrow> if dec_less c (ob_confidence x) then c else ob_confidence x)\<rparr>"

definition citation_evidence :: "source_registry \<Rightarrow> pyfloat \<Rightarrow> source_citation \<Rightarrow> evidence_ref" where
  "citation_evidence g confidence c =
     \<lparr>ev_document_id = ct_document_id c,
      ev_source_file = map_option sd_uri (find (\<lambda>d. sd_document_id d = ct_document_id c) (sy_documents g)),
      ev_page = ct_page c, ev_block_ids = [], ev_confidence = confidence, ev_bounding_box = Some (ct_bbox c),
      ev_coordinate_system = Some Pdf_Bottom_Left\<rparr>"

definition supplied :: "source_registry \<Rightarrow> response_action \<Rightarrow> public_value \<Rightarrow> factor_observation \<Rightarrow> source_citation list \<Rightarrow>
    (factor_observation \<times> source_citation list) result" where
  "supplied g act proposed x sources =
     (if act \<noteq> R_SUPPLY_EVIDENCE then Inr (x, sources)
      else if pv_evidence proposed = [] \<or> list_ex (\<lambda>c. \<not> resolves g c) (pv_evidence proposed) then Inl (Service_Fault VALIDATION)
      else Inr (x\<lparr>ob_evidence := map (citation_evidence g (ob_confidence x)) (pv_evidence proposed)\<rparr>, pv_evidence proposed))"

definition correct_revision :: "revision_env \<Rightarrow> revision_snapshot \<Rightarrow> evidenced_pair \<Rightarrow> fact_side_reference \<Rightarrow> accepted_response \<Rightarrow>
    string \<Rightarrow> revision_snapshot result" where
  "correct_revision env s pair side a revision_id =
     (case hr_correction (ar_command a) of
        None \<Rightarrow> Inl (Service_Fault VALIDATION)
      | Some c \<Rightarrow>
          (case vr_proposed c of
             None \<Rightarrow> Inl (Service_Fault VALIDATION)
           | Some proposed \<Rightarrow>
               let sd = fd_side side; x = side_observation pair sd; sources = side_sources pair sd; m = vs_material s
               in bind_result (ensure (vr_subject_id c = side_subject_id env side) (Service_Fault VALIDATION)) (\<lambda>_.
                  bind_result (ensure (correction_types_ok proposed x) (Service_Fault VALIDATION)) (\<lambda>_.
                  bind_result (supplied (pl_registry (rm_policy m)) (hr_action (ar_command a)) proposed (corrected_observation proposed x) sources)
                    (\<lambda>(y, cited).
                  let change = \<lparr>vr_subject_id = side_subject_id env side, vr_original = public_observation x sources,
                        vr_proposed = Some proposed, vr_corrected = Some (public_observation y cited),
                        vr_corrected_by = Some \<lparr>actor_id = actor_id (ar_actor a), actor_kind = A_human\<rparr>\<rparr>
                  in bind_result (ensure (correction_actor change) Value_Error) (\<lambda>_.
                     revise env s (replace_pair env side (set_side sd y cited pair) m) revision_id [change]))))))"

definition next_revision :: "revision_env \<Rightarrow> task_plane \<Rightarrow> task_record \<Rightarrow> accepted_response \<Rightarrow> string \<Rightarrow> revision_snapshot option result" where
  "next_revision env p r a revision_id =
     (if hr_action (ar_command a) = R_REJECT then Inr None
      else if ht_kind (tk_task r) \<notin> {T_FACT, T_CORRECTION, T_EVIDENCE} then Inl (Service_Fault CAPABILITY)
      else case read_snapshot (tp_tasks p) (tk_current_revision r) of
             None \<Rightarrow> Inl (Service_Fault EXECUTION)
           | Some s \<Rightarrow>
               (case ht_side (tk_task r) of
                  None \<Rightarrow> Inl (Service_Fault CONFLICT)
                | Some side \<Rightarrow>
                    bind_result (locate env (vs_material s) side) (\<lambda>pair.
                    bind_result (if ht_kind (tk_task r) = T_FACT then confirm_revision env s pair side a revision_id
                                 else correct_revision env s pair side a revision_id) (\<lambda>n. Inr (Some n)))))"

section \<open>Responding\<close>

record fresh_ids =
  fi_revision_id :: string
  fi_run_id :: uuid
  fi_token :: uuid
  fi_now :: int

definition lost_answer :: "'a result \<Rightarrow> 'a result" where
  "lost_answer r = on_error r (\<lambda>e. Inl (if e = Condition_Failed then Service_Fault CONFLICT else e))"

definition respond :: "revision_env \<Rightarrow> (nat \<Rightarrow> task_plane \<Rightarrow> task_plane) \<Rightarrow> fresh_ids \<Rightarrow> principal \<Rightarrow> uuid \<Rightarrow> human_response \<Rightarrow>
    task_plane \<Rightarrow> response_receipt result \<times> task_plane" where
  "respond env mid ids pr i command p =
     (if \<not> action_payload command then (Inl Value_Error, p)
      else if hr_task_id command \<noteq> i then (Inl (Service_Fault NOT_FOUND), p)
      else case authorized_task mid pr i p of
             (Inl e, q) \<Rightarrow> (Inl e, q)
           | (Inr r, q) \<Rightarrow>
               let q1 = mid 2 q; digest = response_digest (re_response_digest env) command
               in (case read_receipt (tp_tasks q1) (actor_id (pr_actor pr)) (hr_idempotency_key command) of
                     Some stored \<Rightarrow>
                       (if sx_payload_digest stored \<noteq> digest then Inl (Service_Fault CONFLICT) else Inr (sx_receipt stored), q1)
                   | None \<Rightarrow>
                       (case admit_response (tk_task r) command pr (tk_current_revision r) of
                          Inl e \<Rightarrow> (Inl e, q1)
                        | Inr a \<Rightarrow>
                            let q2 = mid 3 q1
                            in (case next_revision env q2 r a (fi_revision_id ids) of
                                  Inl e \<Rightarrow> (Inl e, q2)
                                | Inr next \<Rightarrow>
                                    apfst lost_answer
                                      (commit_response a next digest (fi_now ids) (fi_run_id ids) (fi_token ids) (mid 4 q2))))))"

end
