(* ===== verification/Task_Store_Inv.thy ===== *)
theory Task_Store_Inv
  imports Task_Store
begin

text \<open>
  The invariant of the human-task store: tasks, heads, chains, snapshots and receipts belong together.  It is
  kept by seeding and by a committed answer, and what an answer writes is given in terms of lookups.
\<close>

section \<open>The invariant of the task store\<close>

definition entry_sound :: "task_store \<Rightarrow> uuid \<Rightarrow> task_entry \<Rightarrow> bool" where
  "entry_sound ts i e =
     (ht_task_id (te_task e) = i \<and> task_authority (te_task e)
      \<and> (\<exists>m. dict_get (ts_job_meta ts) (te_job_id e) = Some m \<and> te_case_id e = jm_case_id m \<and> te_principal_id e = jm_principal_id m
          \<and> (ht_state (te_task e) = Task_Open \<longrightarrow> rr_revision (ht_run (te_task e)) = jm_head m)))"

definition meta_sound :: "revision_env \<Rightarrow> task_store \<Rightarrow> uuid \<Rightarrow> job_meta \<Rightarrow> bool" where
  "meta_sound env ts jid m =
     (jm_case_id m = rev_case_id (jm_head m)
      \<and> (\<exists>chain. dict_get (ts_chain ts) jid = Some chain \<and> chain \<noteq> [] \<and> mr_reference (last chain) = jm_head m \<and> parent_linked chain
           \<and> list_all (\<lambda>r. identities (re_documents_digest env) r \<and> rev_case_id (mr_reference r) = jm_case_id m) chain)
      \<and> (\<exists>s. read_snapshot ts (jm_head m) = Some s \<and> identities (re_documents_digest env) (vs_revision s)))"

definition receipt_sound :: "task_store \<Rightarrow> string \<times> string \<Rightarrow> stored_receipt \<Rightarrow> bool" where
  "receipt_sound ts k x =
     ((sx_principal_id x, sx_key x) = k \<and> committed_effect (sx_receipt x)
      \<and> (\<exists>e. dict_get (ts_tasks ts) (rt_task_id (sx_receipt x)) = Some e \<and> ht_state (te_task e) = Task_Answered
           \<and> ht_version (te_task e) = rt_consumed_version (sx_receipt x) + 1 \<and> te_principal_id e = fst k))"

definition task_inv :: "revision_env \<Rightarrow> task_store \<Rightarrow> bool" where
  "task_inv env ts =
     (dict_ok (ts_tasks ts)
      \<and> (\<forall>i e. dict_get (ts_tasks ts) i = Some e \<longrightarrow> entry_sound ts i e)
      \<and> (\<forall>j m. dict_get (ts_job_meta ts) j = Some m \<longrightarrow> meta_sound env ts j m)
      \<and> (\<forall>k x. dict_get (ts_receipts ts) k = Some x \<longrightarrow> receipt_sound ts k x)
      \<and> (\<forall>k k' x x'. dict_get (ts_receipts ts) k = Some x \<longrightarrow> dict_get (ts_receipts ts) k' = Some x' \<longrightarrow>
           rt_task_id (sx_receipt x) = rt_task_id (sx_receipt x') \<longrightarrow> k = k'))"

lemma task_invD:
  assumes "task_inv env ts"
  shows "dict_ok (ts_tasks ts)" "dict_get (ts_tasks ts) i = Some e \<Longrightarrow> entry_sound ts i e"
    "dict_get (ts_job_meta ts) j = Some m \<Longrightarrow> meta_sound env ts j m"
    "dict_get (ts_receipts ts) k = Some x \<Longrightarrow> receipt_sound ts k x"
    "dict_get (ts_receipts ts) k = Some x \<Longrightarrow> dict_get (ts_receipts ts) k' = Some x' \<Longrightarrow>
      rt_task_id (sx_receipt x) = rt_task_id (sx_receipt x') \<Longrightarrow> k = k'"
  using assms unfolding task_inv_def by blast+

lemma empty_task_inv: "task_inv env empty_task_store"
  by (simp add: task_inv_def empty_task_store_def)

section \<open>Restating tasks\<close>

lemma restate_ok:
  assumes "task_authority t" and "1 \<le> v"
  shows "restate t st v = Inr (t\<lparr>ht_state := st, ht_version := v\<rparr>)"
  using assms by (simp add: restate_def Let_def task_authority_def task_fields_valid_def)

lemma task_version_positive: "task_authority t \<Longrightarrow> 1 \<le> ht_version t"
  by (simp add: task_authority_def task_fields_valid_def)

lemma restate_Inr: "restate t st v = Inr t' \<longleftrightarrow> t' = t\<lparr>ht_state := st, ht_version := v\<rparr> \<and> task_authority t'"
  by (auto simp: restate_def Let_def)

definition superseded_entry :: "task_entry \<Rightarrow> task_entry" where
  "superseded_entry e = e\<lparr>te_task := (te_task e)\<lparr>ht_state := Task_Superseded, ht_version := ht_version (te_task e) + 1\<rparr>\<rparr>"

definition entry_ids :: "task_entry list \<Rightarrow> uuid list" where
  "entry_ids es = map (\<lambda>e. ht_task_id (te_task e)) es"

lemma supersede_ok:
  assumes "\<forall>e \<in> set es. task_authority (te_task e)"
  shows "\<exists>d'. supersede es d = Inr d'"
  using assms
proof (induction es arbitrary: d)
  case (Cons e es)
  then show ?case using restate_ok [of "te_task e"] task_version_positive [of "te_task e"] by simp
qed simp

lemma supersede_lookup:
  assumes "supersede es d = Inr d'" and "distinct (entry_ids es)"
  shows "dict_get d' i = (case find (\<lambda>e. ht_task_id (te_task e) = i) es of Some e \<Rightarrow> Some (superseded_entry e) | None \<Rightarrow> dict_get d i)"
  using assms
proof (induction es arbitrary: d)
  case (Cons e es)
  then obtain t where t: "restate (te_task e) Task_Superseded (ht_version (te_task e) + 1) = Inr t"
    and d': "supersede es (dict_set (ht_task_id (te_task e)) (e\<lparr>te_task := t\<rparr>) d) = Inr d'" by auto
  have "find (\<lambda>e'. ht_task_id (te_task e') = ht_task_id (te_task e)) es = None"
    using Cons.prems(2) unfolding find_None_iff entry_ids_def by (simp add: image_iff) metis
  then show ?case using Cons.IH [OF d'] Cons.prems(2) t
    by (auto simp: entry_ids_def superseded_entry_def restate_Inr split: option.splits)
qed simp

lemma supersede_dict_ok: "supersede es d = Inr d' \<Longrightarrow> dict_ok d \<Longrightarrow> dict_ok d'"
  by (induction es arbitrary: d) auto

text \<open>The stale entries of a well-formed dictionary, and the dictionary once they are superseded.\<close>

definition keyed :: "(uuid, task_entry) dict \<Rightarrow> bool" where
  "keyed d = (dict_ok d \<and> (\<forall>i e. dict_get d i = Some e \<longrightarrow> ht_task_id (te_task e) = i))"

lemma keyed_values:
  assumes "keyed d"
  shows "distinct (entry_ids (map snd d))" "e \<in> snd ` set d \<longleftrightarrow> dict_get d (ht_task_id (te_task e)) = Some e"
proof -
  have ok: "dict_ok d" and key: "dict_get d i = Some e \<Longrightarrow> ht_task_id (te_task e) = i" for i e using assms by (auto simp: keyed_def)
  have "ht_task_id (te_task (snd x)) = fst x" if "x \<in> set d" for x
    using that key [of "fst x" "snd x"] dict_get_iff [OF ok, of "fst x" "snd x"] by simp
  then have "entry_ids (map snd d) = map fst d" by (simp add: entry_ids_def)
  then show "distinct (entry_ids (map snd d))" using ok by simp
  show "e \<in> snd ` set d \<longleftrightarrow> dict_get d (ht_task_id (te_task e)) = Some e"
  proof
    assume "e \<in> snd ` set d"
    then obtain i where "dict_get d i = Some e" using dict_get_iff [OF ok] by fastforce
    with key [of i e] show "dict_get d (ht_task_id (te_task e)) = Some e" by simp
  next
    assume "dict_get d (ht_task_id (te_task e)) = Some e"
    then show "e \<in> snd ` set d" using map_of_SomeD by force
  qed
qed

lemma stale_entries_set:
  assumes "keyed d"
  shows "e \<in> set (stale_entries jid h d) \<longleftrightarrow> dict_get d (ht_task_id (te_task e)) = Some e \<and> stale_entry jid h e"
  using keyed_values(2) [OF assms] by (auto simp: stale_entries_def)

lemma stale_entries_distinct:
  assumes "keyed d"
  shows "distinct (entry_ids (stale_entries jid h d))"
proof -
  let ?id = "\<lambda>e. ht_task_id (te_task e)"
  have "distinct (map snd d)" "inj_on ?id (set (map snd d))"
    using keyed_values(1) [OF assms] distinct_map [of ?id "map snd d"] unfolding entry_ids_def by blast+
  then have "distinct (filter (stale_entry jid h) (map snd d))" "inj_on ?id (set (filter (stale_entry jid h) (map snd d)))"
    by (auto intro: inj_on_subset)
  then show ?thesis unfolding entry_ids_def stale_entries_def distinct_map by simp
qed

lemma superseded_lookup:
  assumes "keyed d" and "supersede (stale_entries jid h d) d = Inr d'"
  shows "dict_get d' i = map_option (\<lambda>e. if stale_entry jid h e then superseded_entry e else e) (dict_get d i)"
proof -
  let ?id = "\<lambda>e. ht_task_id (te_task e) = i" and ?es = "stale_entries jid h d"
  note l = supersede_lookup [OF assms(2) stale_entries_distinct [OF assms(1)], of i]
  have key: "ht_task_id (te_task e) = i" if "dict_get d i = Some e" for e using assms(1) that by (simp add: keyed_def)
  show ?thesis
  proof (cases "find ?id ?es")
    case None
    then have "\<not> stale_entry jid h e" if "dict_get d i = Some e" for e
      using that key [OF that] stale_entries_set [OF assms(1), of e jid h] unfolding find_None_iff by metis
    then show ?thesis using l None by (cases "dict_get d i") simp_all
  next
    case (Some e)
    then have "e \<in> set ?es" "?id e" unfolding find_Some_iff by (metis nth_mem)+
    then show ?thesis using l Some stale_entries_set [OF assms(1), of e jid h] by simp
  qed
qed

section \<open>Writing an answer\<close>

definition answered_entry :: "task_entry \<Rightarrow> task_entry" where
  "answered_entry e = e\<lparr>te_task := (te_task e)\<lparr>ht_state := Task_Answered, ht_version := ht_version (te_task e) + 1\<rparr>\<rparr>"

lemma restated_sel [simp]:
  "ht_task_id (te_task (answered_entry e)) = ht_task_id (te_task e)" "ht_task_id (te_task (superseded_entry e)) = ht_task_id (te_task e)"
  "ht_state (te_task (answered_entry e)) = Task_Answered" "ht_state (te_task (superseded_entry e)) = Task_Superseded"
  "te_job_id (answered_entry e) = te_job_id e" "te_job_id (superseded_entry e) = te_job_id e"
  "te_case_id (answered_entry e) = te_case_id e" "te_case_id (superseded_entry e) = te_case_id e"
  "te_principal_id (answered_entry e) = te_principal_id e" "te_principal_id (superseded_entry e) = te_principal_id e"
  "ht_version (te_task (answered_entry e)) = ht_version (te_task e) + 1" "te_seq (superseded_entry e) = te_seq e"
  by (simp_all add: answered_entry_def superseded_entry_def)

lemma restated_authority:
  "task_authority (te_task e) \<Longrightarrow> task_authority (te_task (answered_entry e))"
  "task_authority (te_task e) \<Longrightarrow> task_authority (te_task (superseded_entry e))"
  by (simp_all add: answered_entry_def superseded_entry_def task_authority_def task_fields_valid_def)

text \<open>
  The tasks after an answer that produced a revision: the answered one, every other open task of the job
  on the old head superseded, the rest untouched.
\<close>

definition after_answer :: "uuid \<Rightarrow> task_entry \<Rightarrow> revision_reference \<Rightarrow> bool \<Rightarrow> task_entry \<Rightarrow> task_entry" where
  "after_answer i e head revised x =
     (if ht_task_id (te_task x) = i then answered_entry e
      else if revised \<and> stale_entry (te_job_id e) head x then superseded_entry x else x)"

lemma keyed_entries: "task_inv env ts \<Longrightarrow> keyed (ts_tasks ts)"
  unfolding keyed_def using task_invD(1,2) by (fastforce simp: entry_sound_def)

lemma answer_task_ok:
  assumes "task_inv env ts" and "dict_get (ts_tasks ts) i = Some e"
  shows "answer_task e ts = Inr (ts\<lparr>ts_tasks := dict_set i (answered_entry e) (ts_tasks ts)\<rparr>)"
proof -
  have e: "ht_task_id (te_task e) = i" "task_authority (te_task e)" using task_invD(2) [OF assms] by (auto simp: entry_sound_def)
  show ?thesis using restate_ok [OF e(2)] task_version_positive [OF e(2)] e(1) by (simp add: answer_task_def answered_entry_def)
qed

lemma write_answer_ok:
  assumes "task_inv env ts" and "dict_get (ts_tasks ts) i = Some e" and "dict_get (ts_job_meta ts) (te_job_id e) = Some m"
  obtains superseded ts' where "write_answer e next ts = Inr (superseded, ts')"
    "\<And>k. dict_get (ts_tasks ts') k = map_option (after_answer i e (jm_head m) (next \<noteq> None)) (dict_get (ts_tasks ts) k)"
    "dict_ok (ts_tasks ts')" "distinct superseded" "ht_task_id (te_task e) \<notin> set superseded"
    "next = None \<Longrightarrow> superseded = []"
    "\<And>k. next \<noteq> None \<Longrightarrow> k \<in> set superseded \<longleftrightarrow>
       k \<noteq> i \<and> (\<exists>x. dict_get (ts_tasks ts) k = Some x \<and> stale_entry (te_job_id e) (jm_head m) x)"
    "ts_receipts ts' = ts_receipts ts" "ts_seq ts' = ts_seq ts"
    "case next of None \<Rightarrow> ts_job_meta ts' = ts_job_meta ts \<and> ts_chain ts' = ts_chain ts \<and> ts_snapshots ts' = ts_snapshots ts
     | Some n \<Rightarrow> ts_job_meta ts' = dict_set (te_job_id e) (m\<lparr>jm_head := mr_reference (vs_revision n)\<rparr>) (ts_job_meta ts)
         \<and> (\<exists>chain. dict_get (ts_chain ts) (te_job_id e) = Some chain
              \<and> ts_chain ts' = dict_set (te_job_id e) (chain @ [vs_revision n]) (ts_chain ts))
         \<and> ts_snapshots ts' = dict_set (snapshot_key (mr_reference (vs_revision n))) n (ts_snapshots ts)"
proof -
  let ?d = "dict_set i (answered_entry e) (ts_tasks ts)" and ?a = "ts\<lparr>ts_tasks := dict_set i (answered_entry e) (ts_tasks ts)\<rparr>"
  have e: "ht_task_id (te_task e) = i" "task_authority (te_task e)" using task_invD(2) [OF assms(1,2)] by (auto simp: entry_sound_def)
  note kd = keyed_entries [OF assms(1)]
  have keyed: "keyed ?d" using kd e(1) by (auto simp: keyed_def)
  have id: "ht_task_id (te_task x) = k" if "dict_get (ts_tasks ts) k = Some x" for k x using kd that by (simp add: keyed_def)
  have look: "dict_get ?d k = map_option (after_answer i e (jm_head m) False) (dict_get (ts_tasks ts) k)" for k
    using assms(2) id [of k] by (cases "dict_get (ts_tasks ts) k") (auto simp: after_answer_def)
  show thesis
  proof (cases "next")
    case None
    show thesis
    proof (rule that [of "[]" ?a])
      show "write_answer e next ts = Inr ([], ?a)" using assms(3) answer_task_ok [OF assms(1,2)] None by (simp add: write_answer_def)
      show "dict_get (ts_tasks ?a) k = map_option (after_answer i e (jm_head m) (next \<noteq> None)) (dict_get (ts_tasks ts) k)" for k
        using look None by simp
    qed (use None task_invD(1) [OF assms(1)] in auto)
  next
    case (Some n)
    obtain chain where chain: "dict_get (ts_chain ts) (te_job_id e) = Some chain"
      using task_invD(3) [OF assms(1,3)] by (auto simp: meta_sound_def)
    let ?es = "stale_entries (te_job_id e) (jm_head m) ?d"
    have stale: "x \<in> set ?es \<longleftrightarrow> ht_task_id (te_task x) \<noteq> i \<and> dict_get (ts_tasks ts) (ht_task_id (te_task x)) = Some x
        \<and> stale_entry (te_job_id e) (jm_head m) x" for x
    proof (cases "ht_task_id (te_task x) = i")
      case True
      have "\<not> stale_entry (te_job_id e) (jm_head m) (answered_entry e)" by (simp add: stale_entry_def)
      then show ?thesis using True stale_entries_set [OF keyed, of x] by auto
    qed (use stale_entries_set [OF keyed, of x] in simp)
    have "\<forall>x \<in> set ?es. task_authority (te_task x)"
      using stale task_invD(2) [OF assms(1)] by (auto simp: entry_sound_def)
    then obtain d' where d': "supersede ?es ?d = Inr d'" using supersede_ok by blast
    let ?t = "?a\<lparr>ts_tasks := d', ts_chain := dict_set (te_job_id e) (chain @ [vs_revision n]) (ts_chain ts),
        ts_snapshots := dict_set (snapshot_key (mr_reference (vs_revision n))) n (ts_snapshots ts),
        ts_job_meta := dict_set (te_job_id e) (m\<lparr>jm_head := mr_reference (vs_revision n)\<rparr>) (ts_job_meta ts)\<rparr>"
    show thesis
    proof (rule that [of "entry_ids ?es" ?t])
      show "write_answer e next ts = Inr (entry_ids ?es, ?t)"
        using assms(3) answer_task_ok [OF assms(1,2)] Some chain d' by (simp add: write_answer_def append_revision_def Let_def entry_ids_def)
      show "dict_get (ts_tasks ?t) k = map_option (after_answer i e (jm_head m) (next \<noteq> None)) (dict_get (ts_tasks ts) k)" for k
        using superseded_lookup [OF keyed d', of k] look [of k] id [of k] Some
        by (cases "dict_get (ts_tasks ts) k") (auto simp: after_answer_def stale_entry_def)
      show "dict_ok (ts_tasks ?t)" using supersede_dict_ok [OF d'] keyed by (simp add: keyed_def)
      show "distinct (entry_ids ?es)" by (rule stale_entries_distinct [OF keyed])
      show "ht_task_id (te_task e) \<notin> set (entry_ids ?es)" 
      proof
        assume "ht_task_id (te_task e) \<in> set (entry_ids ?es)"
        then obtain x where "x \<in> set ?es" "ht_task_id (te_task x) = ht_task_id (te_task e)" unfolding entry_ids_def by fastforce
        with stale [of x] e(1) show False by simp
      qed
      show "k \<in> set (entry_ids ?es) \<longleftrightarrow> k \<noteq> i \<and> (\<exists>x. dict_get (ts_tasks ts) k = Some x \<and> stale_entry (te_job_id e) (jm_head m) x)" for k
      proof
        assume "k \<in> set (entry_ids ?es)"
        then obtain x where "x \<in> set ?es" "ht_task_id (te_task x) = k" unfolding entry_ids_def by fastforce
        with stale [of x] show "k \<noteq> i \<and> (\<exists>x. dict_get (ts_tasks ts) k = Some x \<and> stale_entry (te_job_id e) (jm_head m) x)" by blast
      next
        assume "k \<noteq> i \<and> (\<exists>x. dict_get (ts_tasks ts) k = Some x \<and> stale_entry (te_job_id e) (jm_head m) x)"
        then obtain x where "k \<noteq> i" and x: "dict_get (ts_tasks ts) k = Some x" "stale_entry (te_job_id e) (jm_head m) x" by blast
        with id [OF x(1)] stale [of x] have "x \<in> set ?es" by simp
        with id [OF x(1)] show "k \<in> set (entry_ids ?es)" by (force simp: entry_ids_def)
      qed
    qed (use Some chain in auto)
  qed
qed

section \<open>One commit\<close>

text \<open>What the service hands to the store: a revision exactly when the answer is not a rejection, and a valid one.\<close>

definition proposal_sound :: "revision_env \<Rightarrow> accepted_response \<Rightarrow> revision_snapshot option \<Rightarrow> bool" where
  "proposal_sound env a next =
     ((next = None) = (hr_action (ar_command a) = R_REJECT)
      \<and> option_ok (\<lambda>n. identities (re_documents_digest env) (vs_revision n)) next)"

lemma identities_child:
  assumes "identities h r" and "mr_parent r = Some p"
  shows "rev_case_id (mr_reference r) = rev_case_id p" "mr_reference r \<noteq> p" "revision_reference_valid (mr_reference r)"
  using assms by (auto simp: identities_def child_of_def)

lemma meta_case_valid: "meta_sound env ts j m \<Longrightarrow> opaque_id (jm_case_id m)"
  by (auto simp: meta_sound_def list_all_iff identities_def revision_reference_valid_def dest!: last_in_set)

lemma receipt_committed:
  assumes "task_inv env ts" and "dict_get (ts_tasks ts) i = Some e" and "dict_get (ts_job_meta ts) (te_job_id e) = Some m"
    and "response_current e a m" and "proposal_sound env a next" and "option_ok (\<lambda>n. mr_parent (vs_revision n) = Some (jm_head m)) next"
    and "distinct superseded" and "ht_task_id (te_task e) \<notin> set superseded"
  shows "committed_effect (receipt_of e (ar_command a) next rid superseded st)"
proof -
  have "task_authority (te_task e)" and c: "te_case_id e = jm_case_id m"
    using task_invD(2) [OF assms(1,2)] assms(3) by (auto simp: entry_sound_def)
  then have v: "1 \<le> hr_expected_version (ar_command a)"
    using assms(4) task_version_positive by (fastforce simp: response_current_def)
  note ms = task_invD(3) [OF assms(1,3)]
  have o: "opaque_id (te_case_id e)" using meta_case_valid [OF ms] c by simp
  show ?thesis
  proof (cases "next")
    case None
    then show ?thesis using v o assms(7,8) by (simp add: committed_effect_def receipt_of_def)
  next
    case (Some n)
    have n: "rev_case_id (mr_reference (vs_revision n)) = te_case_id e" "revision_reference_valid (mr_reference (vs_revision n))"
      using identities_child [of "re_documents_digest env" "vs_revision n" "jm_head m"] assms(5,6) Some c ms
      by (auto simp: proposal_sound_def meta_sound_def)
    then show ?thesis using v o assms(5,7,8) Some
      by (simp add: committed_effect_def receipt_of_def resumed_run_def run_valid_def run_reference_valid_def proposal_sound_def)
  qed
qed

lemma roll_back_written: "ts_receipts ts' = ts_receipts ts \<Longrightarrow> ts_seq ts' = ts_seq ts \<Longrightarrow> roll_back ts ts' = ts"
  by (simp add: roll_back_def)

lemma commit_cases:
  assumes "task_inv env (tp_tasks p)" and "proposal_sound env a next"
    and "commit_response a next d now rid fresh p = (out, q)"
  obtains (refused) x where "out = Inl x" "q = p"
  | (replayed) stored where "out = Inr (sx_receipt stored)" "q = p" "sx_payload_digest stored = d"
      "dict_get (ts_receipts (tp_tasks p)) (actor_id (ar_actor a), hr_idempotency_key (ar_command a)) = Some stored"
  | (committed) e m superseded ts jr js where
      "dict_get (ts_tasks (tp_tasks p)) (hr_task_id (ar_command a)) = Some e"
      "dict_get (ts_job_meta (tp_tasks p)) (te_job_id e) = Some m"
      "dict_get (ts_receipts (tp_tasks p)) (actor_id (ar_actor a), hr_idempotency_key (ar_command a)) = None"
      "response_current e a m" "option_ok (\<lambda>n. mr_parent (vs_revision n) = Some (jm_head m)) next"
      "write_answer e next (tp_tasks p) = Inr (superseded, ts)" "notify_jobs e next now rid fresh (tp_jobs p) = Inr (jr, js)"
      "out = Inr (receipt_of e (ar_command a) next rid superseded (jr_status jr))"
      "q = \<lparr>tp_tasks = put_receipt (actor_id (ar_actor a), hr_idempotency_key (ar_command a)) d
             (receipt_of e (ar_command a) next rid superseded (jr_status jr)) ts, tp_jobs = js\<rparr>"
proof (cases "dict_get (ts_tasks (tp_tasks p)) (hr_task_id (ar_command a))")
  case None
  then show thesis using assms(3) by (auto simp: commit_response_def Let_def intro: refused)
next
  case (Some e)
  let ?key = "(actor_id (ar_actor a), hr_idempotency_key (ar_command a))"
  obtain m where m: "dict_get (ts_job_meta (tp_tasks p)) (te_job_id e) = Some m"
    using task_invD(2) [OF assms(1) Some] by (auto simp: entry_sound_def)
  show thesis
  proof (cases "dict_get (ts_receipts (tp_tasks p)) ?key")
    case (Some stored)
    have out: "(out, q) = (if sx_payload_digest stored \<noteq> d then Inl (Service_Fault CONFLICT) else Inr (sx_receipt stored), p)"
      using assms(3) \<open>dict_get (ts_tasks (tp_tasks p)) _ = Some e\<close> m Some by (simp add: commit_response_def Let_def)
    show thesis
    proof (cases "sx_payload_digest stored = d")
      case True
      then show thesis using out Some by (intro replayed) simp_all
    next
      case False
      then show thesis using out by (intro refused) simp_all
    qed
  next
    case None
    show thesis
    proof (cases "response_current e a m \<and> option_ok (\<lambda>n. mr_parent (vs_revision n) = Some (jm_head m)) next")
      case False
      then show thesis using assms(3) Some m None
        by (cases "response_current e a m") (auto simp: commit_response_def Let_def intro: refused)
    next
      case True
      obtain superseded ts where w: "write_answer e next (tp_tasks p) = Inr (superseded, ts)" "distinct superseded"
          "ht_task_id (te_task e) \<notin> set superseded" "ts_receipts ts = ts_receipts (tp_tasks p)" "ts_seq ts = ts_seq (tp_tasks p)"
        by (rule write_answer_ok [OF assms(1) Some m, where ?next = "next"]) (rule that, assumption+)
      have c: "committed_effect (receipt_of e (ar_command a) next rid superseded st)" for st
        using receipt_committed [OF assms(1) Some m _ assms(2) _ w(2,3)] True by blast
      have out: "(out, q) = (case apply_response e a next d now rid fresh ?key p of
          (Inl x, q) \<Rightarrow> (Inl x, q\<lparr>tp_tasks := roll_back (tp_tasks p) (tp_tasks q)\<rparr>) | (Inr r, q) \<Rightarrow> (Inr r, q))"
        using assms(3) Some m None True by (simp add: commit_response_def Let_def)
      show thesis
      proof (cases "notify_jobs e next now rid fresh (tp_jobs p)")
        case (Inl x)
        then have "out = Inl x" "q = p" using out w by (simp_all add: apply_response_def roll_back_written)
        then show thesis by (rule refused)
      next
        case (Inr y)
        then show thesis using out w c True Some m None
          by (cases y) (auto simp: apply_response_def Let_def intro!: committed)
      qed
    qed
  qed
qed

section \<open>The invariant is kept\<close>

definition fresh_revision :: "task_store \<Rightarrow> revision_snapshot option \<Rightarrow> bool" where
  "fresh_revision ts next = option_ok (\<lambda>n. dict_get (ts_snapshots ts) (snapshot_key (mr_reference (vs_revision n))) = None) next"

lemma read_snapshot_cong: "dict_get (ts_snapshots ts) (snapshot_key r) = dict_get (ts_snapshots ts') (snapshot_key r) \<Longrightarrow>
    read_snapshot ts r = read_snapshot ts' r"
  by (simp add: read_snapshot_def)

lemma meta_sound_cong:
  assumes "dict_get (ts_chain ts') j = dict_get (ts_chain ts) j" and "read_snapshot ts' (jm_head m) = read_snapshot ts (jm_head m)"
  shows "meta_sound env ts' j m = meta_sound env ts j m"
  using assms by (simp add: meta_sound_def)

lemma meta_sound_move:
  assumes "meta_sound env ts j m" and "dict_get (ts_chain ts') j = dict_get (ts_chain ts) j"
    and "read_snapshot ts' (jm_head m) = Some q" and "identities (re_documents_digest env) (vs_revision q)"
  shows "meta_sound env ts' j m"
  using assms(1,3,4) unfolding meta_sound_def assms(2) by blast

lemma meta_sound_snapshot: "meta_sound env ts j m \<Longrightarrow> dict_get (ts_snapshots ts) (snapshot_key (jm_head m)) \<noteq> None"
  by (auto simp: meta_sound_def read_snapshot_def split: option.splits)

lemma put_receipt_sel [simp]:
  "ts_tasks (put_receipt k d r ts) = ts_tasks ts" "ts_job_meta (put_receipt k d r ts) = ts_job_meta ts" "ts_chain (put_receipt k d r ts) = ts_chain ts"
  "ts_snapshots (put_receipt k d r ts) = ts_snapshots ts" "ts_seq (put_receipt k d r ts) = ts_seq ts"
  "dict_get (ts_receipts (put_receipt k d r ts)) k' =
     (if k' = k then Some \<lparr>sx_principal_id = fst k, sx_key = snd k, sx_payload_digest = d, sx_receipt = r\<rparr> else dict_get (ts_receipts ts) k')"
  by (simp_all add: put_receipt_def)

text \<open>The task store after a committed answer, in terms of lookups.\<close>

lemma committed_metas:
  assumes inv: "task_inv env ts" and m: "dict_get (ts_job_meta ts) jid = Some m"
    and n: "identities (re_documents_digest env) (vs_revision n)" "mr_parent (vs_revision n) = Some (jm_head m)" "fresh_revision ts (Some n)"
    and chain: "dict_get (ts_chain ts) jid = Some chain"
    and ts': "ts_job_meta ts' = dict_set jid (m\<lparr>jm_head := mr_reference (vs_revision n)\<rparr>) (ts_job_meta ts)"
      "ts_chain ts' = dict_set jid (chain @ [vs_revision n]) (ts_chain ts)"
      "ts_snapshots ts' = dict_set (snapshot_key (mr_reference (vs_revision n))) n (ts_snapshots ts)"
    and k: "dict_get (ts_job_meta ts') j = Some m'"
  shows "meta_sound env ts' j m'"
proof (cases "j = jid")
  case True
  have ms: "meta_sound env ts jid m" by (rule task_invD(3) [OF inv m])
  note c = identities_child(1) [OF n(1,2)]
  have "read_snapshot ts' (mr_reference (vs_revision n)) = Some n" by (simp add: read_snapshot_def ts'(3))
  then show ?thesis using True k n ms c chain
    by (auto simp: meta_sound_def ts' parent_linked_append)
next
  case False
  then have m': "dict_get (ts_job_meta ts) j = Some m'" using k ts'(1) by simp
  note ms = task_invD(3) [OF inv m']
  have "snapshot_key (jm_head m') \<noteq> snapshot_key (mr_reference (vs_revision n))"
    using meta_sound_snapshot [OF ms] n(3) by (auto simp: fresh_revision_def)
  then have "read_snapshot ts' (jm_head m') = read_snapshot ts (jm_head m')" by (intro read_snapshot_cong) (simp add: ts'(3))
  then show ?thesis using ms False meta_sound_cong [of ts' j ts m' env] by (simp add: ts'(2))
qed

lemma committed_entries:
  assumes inv: "task_inv env ts" and e: "dict_get (ts_tasks ts) i = Some e" and m: "dict_get (ts_job_meta ts) (te_job_id e) = Some m"
    and tasks: "\<And>k. dict_get (ts_tasks ts') k = map_option (after_answer i e (jm_head m) revised) (dict_get (ts_tasks ts) k)"
    and meta: "ts_job_meta ts' = (if revised then dict_set (te_job_id e) (m\<lparr>jm_head := h\<rparr>) (ts_job_meta ts) else ts_job_meta ts)"
    and k: "dict_get (ts_tasks ts') k = Some x"
  shows "entry_sound ts' k x"
proof -
  obtain y where y: "dict_get (ts_tasks ts) k = Some y" "x = after_answer i e (jm_head m) revised y" using k tasks [of k] by auto
  have es: "entry_sound ts k y" "entry_sound ts i e" by (rule task_invD(2) [OF inv], fact)+
  have same: "te_job_id x = te_job_id y \<and> te_case_id x = te_case_id y \<and> te_principal_id x = te_principal_id y \<and> ht_task_id (te_task x) = k
      \<and> task_authority (te_task x)"
  proof (cases "k = i")
    case True
    then show ?thesis using y e es restated_authority(1) [of e] by (simp add: after_answer_def entry_sound_def)
  next
    case False
    then show ?thesis using y es restated_authority(2) [of y] by (simp add: after_answer_def entry_sound_def)
  qed
  obtain my where my: "dict_get (ts_job_meta ts) (te_job_id y) = Some my" "te_case_id y = jm_case_id my" "te_principal_id y = jm_principal_id my"
    "ht_state (te_task y) = Task_Open \<longrightarrow> rr_revision (ht_run (te_task y)) = jm_head my" using es(1) by (auto simp: entry_sound_def)
  show ?thesis
  proof (cases "revised \<and> te_job_id y = te_job_id e")
    case True
    then have "ht_state (te_task x) \<noteq> Task_Open" using y my m by (auto simp: after_answer_def stale_entry_def)
    then show ?thesis using True same my m meta by (auto simp: entry_sound_def)
  next
    case False
    then have "dict_get (ts_job_meta ts') (te_job_id y) = Some my" using meta my by simp
    moreover have "ht_state (te_task x) = Task_Open \<Longrightarrow> x = y"
      using y False by (auto simp: after_answer_def stale_entry_def split: if_splits)
    ultimately show ?thesis using same my by (auto simp: entry_sound_def)
  qed
qed

lemma commit_response_inv:
  assumes inv: "task_inv env (tp_tasks p)" and "proposal_sound env a next" and "fresh_revision (tp_tasks p) next"
    and "commit_response a next d now rid fresh p = (out, q)"
  shows "task_inv env (tp_tasks q)"
proof (cases rule: commit_cases [OF inv assms(2,4), case_names refused replayed committed])
  case (committed e m superseded ts jr js)
  let ?i = "hr_task_id (ar_command a)" and ?key = "(actor_id (ar_actor a), hr_idempotency_key (ar_command a))"
  let ?r = "receipt_of e (ar_command a) next rid superseded (jr_status jr)" and ?ts = "tp_tasks p"
  let ?q = "put_receipt ?key d ?r ts"
  have q: "tp_tasks q = ?q" using committed by simp
  obtain ts' sup where w: "write_answer e next ?ts = Inr (sup, ts')"
    "\<And>k. dict_get (ts_tasks ts') k = map_option (after_answer ?i e (jm_head m) (next \<noteq> None)) (dict_get (ts_tasks ?ts) k)"
    "dict_ok (ts_tasks ts')" "distinct sup" "ht_task_id (te_task e) \<notin> set sup" "ts_receipts ts' = ts_receipts ?ts"
    "case next of None \<Rightarrow> ts_job_meta ts' = ts_job_meta ?ts \<and> ts_chain ts' = ts_chain ?ts \<and> ts_snapshots ts' = ts_snapshots ?ts
     | Some n \<Rightarrow> ts_job_meta ts' = dict_set (te_job_id e) (m\<lparr>jm_head := mr_reference (vs_revision n)\<rparr>) (ts_job_meta ?ts)
         \<and> (\<exists>chain. dict_get (ts_chain ?ts) (te_job_id e) = Some chain
              \<and> ts_chain ts' = dict_set (te_job_id e) (chain @ [vs_revision n]) (ts_chain ?ts))
         \<and> ts_snapshots ts' = dict_set (snapshot_key (mr_reference (vs_revision n))) n (ts_snapshots ?ts)"
    by (rule write_answer_ok [OF inv committed(1,2), where ?next = "next"]) (rule that, assumption+)
  then have [simp]: "ts' = ts" "sup = superseded" using committed(6) by simp_all
  have metas: "meta_sound env ts j m'" if "dict_get (ts_job_meta ts) j = Some m'" for j m'
  proof (cases "next")
    case None
    then show ?thesis using that w(7) task_invD(3) [OF inv] meta_sound_cong [of ts j ?ts m' env]
      by (simp add: read_snapshot_def)
  next
    case (Some n)
    then show ?thesis using committed_metas [OF inv committed(2), of n] w(7) that assms(2,3) committed(5)
      by (auto simp: proposal_sound_def)
  qed
  have meta: "ts_job_meta ts = (if next \<noteq> None then dict_set (te_job_id e) (m\<lparr>jm_head := mr_reference (vs_revision (the next))\<rparr>) (ts_job_meta ?ts) else ts_job_meta ?ts)"
    using w(7) by (cases "next") simp_all
  note entries = committed_entries [OF inv committed(1,2) w(2) [unfolded \<open>ts' = ts\<close>] meta]
  have open_e: "ht_state (te_task e) = Task_Open" "ht_version (te_task e) = hr_expected_version (ar_command a)"
      "te_principal_id e = actor_id (ar_actor a)" using committed(4) by (simp_all add: response_current_def)
  have i: "ht_task_id (te_task e) = ?i" using task_invD(2) [OF inv committed(1)] by (simp add: entry_sound_def)
  have answered: "dict_get (ts_tasks ts) ?i = Some (answered_entry e)"
    using w(2) [of ?i] committed(1) i by (simp add: after_answer_def)
  have kept: "receipt_sound ts k x \<and> rt_task_id (sx_receipt x) \<noteq> ?i" if "dict_get (ts_receipts ?ts) k = Some x" for k x
  proof -
    note rs = task_invD(4) [OF inv that]
    then obtain y where y: "dict_get (ts_tasks ?ts) (rt_task_id (sx_receipt x)) = Some y" "ht_state (te_task y) = Task_Answered"
      by (auto simp: receipt_sound_def)
    then have ne: "rt_task_id (sx_receipt x) \<noteq> ?i" using committed(1) open_e(1) by auto
    moreover have "ht_task_id (te_task y) = rt_task_id (sx_receipt x)" using task_invD(2) [OF inv y(1)] by (simp add: entry_sound_def)
    ultimately have "dict_get (ts_tasks ts) (rt_task_id (sx_receipt x)) = Some y"
      using w(2) [of "rt_task_id (sx_receipt x)"] y by (simp add: after_answer_def stale_entry_def)
    then show ?thesis using rs y(1) ne by (simp add: receipt_sound_def)
  qed
  have c: "committed_effect ?r" using receipt_committed [OF inv committed(1,2,4) assms(2) committed(5) w(4,5)] by simp
  show ?thesis unfolding q task_inv_def
  proof (intro conjI allI impI)
    show "dict_ok (ts_tasks ?q)" using w(3) by simp
    show "entry_sound ?q k x" if "dict_get (ts_tasks ?q) k = Some x" for k x
      using entries [of k x] that by (simp add: entry_sound_def)
    show "meta_sound env ?q j m'" if "dict_get (ts_job_meta ?q) j = Some m'" for j m'
      using metas [of j m'] that meta_sound_cong [of ?q j ts m' env] by (simp add: read_snapshot_def)
    show "receipt_sound ?q k x" if "dict_get (ts_receipts ?q) k = Some x" for k x
    proof (cases "k = ?key")
      case True
      then show ?thesis using that c answered open_e i by (auto simp: receipt_sound_def receipt_of_def)
    next
      case False
      then show ?thesis using that kept [of k x] w(6) by (simp add: receipt_sound_def)
    qed
    show "k = k'" if "dict_get (ts_receipts ?q) k = Some x" "dict_get (ts_receipts ?q) k' = Some x'"
        "rt_task_id (sx_receipt x) = rt_task_id (sx_receipt x')" for k k' x x'
    proof -
      have new: "rt_task_id ?r = ?i" using i by (simp add: receipt_of_def)
      have fresh: "sx_receipt y = ?r \<or> rt_task_id (sx_receipt y) \<noteq> ?i \<and> dict_get (ts_receipts ?ts) l = Some y"
        if "dict_get (ts_receipts ?q) l = Some y" for l y
        using that kept [of l y] w(6) by (cases "l = ?key") auto
      have old: "l = ?key" if "dict_get (ts_receipts ?q) l = Some y" "rt_task_id (sx_receipt y) = ?i" for l y
        using that kept [of l y] w(6) by (cases "l = ?key") auto
      show ?thesis
      proof (cases "rt_task_id (sx_receipt x) = ?i")
        case True
        then show ?thesis using old [OF that(1)] old [OF that(2)] that(3) by simp
      next
        case False
        then have "dict_get (ts_receipts ?ts) k = Some x" "dict_get (ts_receipts ?ts) k' = Some x'"
          using fresh [OF that(1)] fresh [OF that(2)] that(3) new by auto
        then show ?thesis using task_invD(5) [OF inv] that(3) by blast
      qed
    qed
  qed
qed (use inv in simp_all)

section \<open>Seeding\<close>

lemma register_task_lookup:
  "dict_get (ts_tasks (register_task jid c pr t ts)) k =
     (case dict_get (ts_tasks ts) k of
        Some e \<Rightarrow> Some e
      | None \<Rightarrow> if k = ht_task_id t
          then Some \<lparr>te_task = t, te_job_id = jid, te_case_id = c, te_principal_id = pr, te_seq = ts_seq ts + 1\<rparr> else None)"
  by (auto simp: register_task_def split: option.splits)

lemma register_task_frame [simp]:
  "ts_job_meta (register_task jid c pr t ts) = ts_job_meta ts" "ts_chain (register_task jid c pr t ts) = ts_chain ts"
  "ts_snapshots (register_task jid c pr t ts) = ts_snapshots ts" "ts_receipts (register_task jid c pr t ts) = ts_receipts ts"
  "dict_ok (ts_tasks ts) \<Longrightarrow> dict_ok (ts_tasks (register_task jid c pr t ts))"
  by (auto simp: register_task_def)

lemma register_task_inv:
  assumes inv: "task_inv env ts" and "task_authority t" and "dict_get (ts_job_meta ts) jid = Some m"
    and "rr_revision (ht_run t) = jm_head m" "c = jm_case_id m" "pr = jm_principal_id m"
  shows "task_inv env (register_task jid c pr t ts)"
proof -
  let ?ts = "register_task jid c pr t ts"
  have es: "entry_sound ?ts k e" if "dict_get (ts_tasks ?ts) k = Some e" for k e
    using that task_invD(2) [OF inv, of k] assms(2-6)
    by (cases "dict_get (ts_tasks ts) k") (auto simp: register_task_lookup entry_sound_def split: if_splits)
  have ms: "meta_sound env ?ts j m'" if "dict_get (ts_job_meta ts) j = Some m'" for j m'
    using task_invD(3) [OF inv that] meta_sound_cong [of ?ts j ts m' env] by (simp add: read_snapshot_def)
  have rs: "receipt_sound ?ts k x" if "dict_get (ts_receipts ts) k = Some x" for k x
  proof -
    note r = task_invD(4) [OF inv that]
    then obtain e where "dict_get (ts_tasks ts) (rt_task_id (sx_receipt x)) = Some e" by (auto simp: receipt_sound_def)
    then show ?thesis using r by (simp add: receipt_sound_def register_task_lookup)
  qed
  show ?thesis unfolding task_inv_def using es ms rs task_invD(5) [OF inv] task_invD(1) [OF inv] by simp
qed

lemma register_tasks_inv:
  assumes "task_inv env ts" and "dict_get (ts_job_meta ts) jid = Some m" and "c = jm_case_id m" "pr = jm_principal_id m"
    and "list_all (\<lambda>t. task_authority t \<and> rr_revision (ht_run t) = jm_head m) tasks"
  shows "task_inv env (fold (register_task jid c pr) tasks ts)"
  using assms
proof (induction tasks arbitrary: ts)
  case (Cons t tasks)
  show ?case unfolding fold_Cons comp_def
    by (rule Cons.IH) (use Cons.prems register_task_inv [OF Cons.prems(1) _ Cons.prems(2), of t c pr] in simp_all)
qed simp

lemma seed_inv:
  assumes inv: "task_inv env ts" and "seed jid pr s tasks ts = Inr ts'" and "list_all task_authority tasks"
    and "identities (re_documents_digest env) (vs_revision s)"
  shows "task_inv env ts'"
proof -
  let ?r = "vs_revision s" and ?h = "mr_reference (vs_revision s)"
  let ?m = "\<lparr>jm_case_id = rev_case_id ?h, jm_principal_id = pr, jm_head = ?h\<rparr>"
  let ?old = "dict_get (ts_job_meta ts) jid"
  let ?b = "ts\<lparr>ts_job_meta := dict_set jid ?m (ts_job_meta ts), ts_chain := (if ?old = None then dict_set jid [?r] (ts_chain ts) else ts_chain ts),
      ts_snapshots := dict_set (snapshot_key ?h) s (ts_snapshots ts)\<rparr>"
  have old: "m = ?m" if "?old = Some m" for m using assms(2) that by (auto simp: seed_def Let_def)
  have same: "vs_revision q = ?r" if "dict_get (ts_snapshots ts) (snapshot_key ?h) = Some q" for q
    using assms(2) that by (auto simp: seed_def Let_def split: option.splits)
  have reg: "list_all (task_registrable jid pr ?h ts) tasks" and ts': "ts' = fold (register_task jid (rev_case_id ?h) pr) tasks ?b"
    using assms(2) by (auto simp: seed_def Let_def)
  have head: "read_snapshot ?b h = Some s \<and> h = ?h \<or> read_snapshot ?b h = read_snapshot ts h"
    if "read_snapshot ts h = Some q" for h q
    using that same by (auto simp: read_snapshot_def split: option.splits if_splits)
  have ms: "meta_sound env ?b j m" if "dict_get (ts_job_meta ?b) j = Some m" for j m
  proof (cases "j = jid \<and> ?old = None")
    case True
    then have "m = ?m" using that by simp
    then show ?thesis using True assms(4) by (simp add: meta_sound_def read_snapshot_def)
  next
    case False
    then have old_m: "dict_get (ts_job_meta ts) j = Some m" using that old by (cases "j = jid") auto
    note m = task_invD(3) [OF inv old_m]
    have c: "dict_get (ts_chain ?b) j = dict_get (ts_chain ts) j" using False by auto
    obtain q where "read_snapshot ts (jm_head m) = Some q" using m by (auto simp: meta_sound_def)
    from head [OF this] obtain q where "read_snapshot ?b (jm_head m) = Some q" "identities (re_documents_digest env) (vs_revision q)"
      using m assms(4) by (auto simp: meta_sound_def)
    then show ?thesis by (rule meta_sound_move [OF m c])
  qed
  have "task_inv env ?b" unfolding task_inv_def
  proof (intro conjI allI impI)
    show "entry_sound ?b k e" if "dict_get (ts_tasks ?b) k = Some e" for k e
      using task_invD(2) [OF inv, of k e] that old by (auto simp: entry_sound_def)
    show "receipt_sound ?b k x" if "dict_get (ts_receipts ?b) k = Some x" for k x
      using task_invD(4) [OF inv, of k x] that by (simp add: receipt_sound_def)
  qed (use ms task_invD(1,5) [OF inv] in simp_all)
  then show ?thesis unfolding ts' using assms(3) reg
    by (intro register_tasks_inv [where m = ?m]) (auto simp: list_all_iff task_registrable_def)
qed

end
