(* ===== verification/Task_Safety.thy ===== *)
theory Task_Safety
  imports Human_Tasks Task_Store_Inv Job_Liveness
begin

text \<open>
  The human-task plane under any interleaving of seeding, answers and other users of the job store: an answer
  commits as a whole or not at all, open questions are about the current material, a retry gets its
  receipt, and what a confirmation or a correction may change.
\<close>

section \<open>Both planes\<close>

inductive plane_step :: "revision_env \<Rightarrow> task_plane \<Rightarrow> task_plane \<Rightarrow> bool" for env where
  seeded: "seed jid pr s tasks (tp_tasks p) = Inr ts \<Longrightarrow> list_all task_authority tasks \<Longrightarrow>
    identities (re_documents_digest env) (vs_revision s) \<Longrightarrow> plane_step env p (p\<lparr>tp_tasks := ts\<rparr>)"
| answered: "commit_response a next d now rid fresh p = (out, q) \<Longrightarrow> proposal_sound env a next \<Longrightarrow>
    fresh_revision (tp_tasks p) next \<Longrightarrow> plane_step env p q"
| jobs: "store_step (tp_jobs p) js \<Longrightarrow> plane_step env p (p\<lparr>tp_jobs := js\<rparr>)"

definition plane_inv :: "revision_env \<Rightarrow> task_plane \<Rightarrow> bool" where
  "plane_inv env p = (task_inv env (tp_tasks p) \<and> store_inv (tp_jobs p))"

lemma notify_jobs_step: "notify_jobs e next now rid fresh js = Inr (r, js') \<Longrightarrow> store_step js js'"
  by (cases "next") (auto simp: notify_jobs_def intro: store_step.reject store_step.resume)

lemma commit_response_jobs:
  assumes "task_inv env (tp_tasks p)" and "proposal_sound env a next" and "commit_response a next d now rid fresh p = (out, q)"
  shows "tp_jobs q = tp_jobs p \<or> store_step (tp_jobs p) (tp_jobs q)"
  by (cases rule: commit_cases [OF assms]) (auto dest: notify_jobs_step)

lemma plane_step_inv:
  assumes "plane_step env p q" and "plane_inv env p"
  shows "plane_inv env q"
  using assms(1)
proof cases
  case (seeded jid pr s tasks ts)
  then show ?thesis using assms(2) seed_inv [OF _ seeded(2-4)] by (simp add: plane_inv_def)
next
  case (answered a "next" d now rid fresh out)
  then show ?thesis using assms(2) commit_response_inv [of env p a "next"] commit_response_jobs [of env p a "next"] store_step_inv
    unfolding plane_inv_def by metis
next
  case (jobs js)
  then show ?thesis using assms(2) store_step_inv by (auto simp: plane_inv_def)
qed

interpretation task_system: transition_system "plane_step env" "plane_inv env"
  by unfold_locales (rule plane_step_inv)

section \<open>One answer\<close>

text \<open>
  What a committed answer has done, in both planes: the open task is answered; a rejection changes no other
  task and no material; otherwise the revision is appended and is the head, its snapshot is stored, no question of
  the job is open any more, and the job is queued with a pending round for the new run on that revision.
\<close>

definition fully_applied :: "accepted_response \<Rightarrow> revision_snapshot option \<Rightarrow> uuid \<Rightarrow> task_plane \<Rightarrow> task_plane \<Rightarrow> bool" where
  "fully_applied a next rid p q =
     (\<exists>e j. let i = hr_task_id (ar_command a); jid = te_job_id e; ts = tp_tasks p; us = tp_tasks q; js = tp_jobs q in
        dict_get (ts_tasks ts) i = Some e \<and> ht_state (te_task e) = Task_Open \<and> ht_version (te_task e) = hr_expected_version (ar_command a)
        \<and> dict_get (ts_tasks us) i = Some (answered_entry e) \<and> dict_get (s_jobs js) jid = Some j
        \<and> (case next of
             None \<Rightarrow> (\<forall>k. k \<noteq> i \<longrightarrow> dict_get (ts_tasks us) k = dict_get (ts_tasks ts) k)
               \<and> revision_chain us jid = revision_chain ts jid \<and> dict_get (ts_job_meta us) jid = dict_get (ts_job_meta ts) jid
               \<and> i \<notin> set (j_open_task_ids j)
           | Some n \<Rightarrow> revision_chain us jid = revision_chain ts jid @ [vs_revision n]
               \<and> map_option jm_head (dict_get (ts_job_meta us) jid) = Some (mr_reference (vs_revision n))
               \<and> read_snapshot us (mr_reference (vs_revision n)) = Some n
               \<and> (\<forall>k x. dict_get (ts_tasks us) k = Some x \<longrightarrow> te_job_id x = jid \<longrightarrow> ht_state (te_task x) \<noteq> Task_Open)
               \<and> j_status j = QUEUED \<and> j_current_run_id j = rid \<and> j_open_task_ids j = []
               \<and> map_option r_revision (dict_get (s_runs js) (jid, rid)) = Some (mr_reference (vs_revision n))
               \<and> map_option (\<lambda>x. (o_run_id x, o_dispatch_state x)) (dict_get (s_outbox js) (jid, j_outbox_seq j)) = Some (rid, Pending)))"

lemma resumed_plane:
  assumes "resume_after_human jid run now fresh s = Inr (x, s')" and inv: "store_inv s"
  shows "\<exists>j. dict_get (s_jobs s') jid = Some j \<and> j_status j = QUEUED \<and> j_current_run_id j = rr_run_id run \<and> j_open_task_ids j = []
    \<and> map_option r_revision (dict_get (s_runs s') (jid, rr_run_id run)) = Some (rr_revision run)
    \<and> map_option (\<lambda>x. (o_run_id x, o_dispatch_state x)) (dict_get (s_outbox s') (jid, j_outbox_seq j)) = Some (rr_run_id run, Pending)"
  using assms(1)
proof (rule resume_after_humanE)
  fix j :: job and r :: run and t :: transition
  assume j: "dict_get (s_jobs s) jid = Some j" and n: "next_state (job_facts_of j) HUMAN_RESPONSE_COMMITTED (s_policy s) = Inr t"
    and s': "s' = enqueue (resumed_job run t now j) (rr_run_id run) now fresh (put_job (resumed_job run t now j)
       (put_run jid (new_run (rr_run_id run) (rr_revision run) (r_documents r) (r_payload_digest r)) s))"
  have "j_job_id j = jid" using store_invD(5) [OF inv j] by (simp add: job_backed_def)
  then show ?thesis using resume_transition(1) [OF n]
    by (simp add: s' enqueue_def Let_def resumed_job_def plain_transition_def)
qed

lemma rejected_plane:
  assumes "reject_human_task jid rid task now s = Inr (x, s')" and inv: "store_inv s"
  shows "\<exists>j. dict_get (s_jobs s') jid = Some j \<and> task \<notin> set (j_open_task_ids j)"
  using assms(1)
proof (rule reject_human_taskE)
  fix j :: job and r :: run and t :: transition
  assume j: "dict_get (s_jobs s) jid = Some j" and s': "s' = put_job (rejected_job task t now j) (put_run jid (r\<lparr>r_run_status := t_status t\<rparr>) s)"
  have "j_job_id j = jid" using store_invD(5) [OF inv j] by (simp add: job_backed_def)
  then show ?thesis by (simp add: s' rejected_job_def)
qed

text \<open>
  C10.  An answer is atomic over both planes: \<open>commit_response\<close> either raises and leaves the task store and the
  job store exactly as they were, or replays the stored receipt of the same payload and changes nothing,
  or applies the whole answer and stores its receipt.
\<close>

theorem answer_is_atomic:
  assumes "plane_inv env p" and "proposal_sound env a next" and "commit_response a next d now rid fresh p = (out, q)"
  shows "(case out of
      Inl _ \<Rightarrow> q = p
    | Inr r \<Rightarrow>
        map_option (\<lambda>x. (sx_payload_digest x, sx_receipt x))
          (read_receipt (tp_tasks q) (actor_id (ar_actor a)) (hr_idempotency_key (ar_command a))) = Some (d, r)
        \<and> (q = p \<or> read_receipt (tp_tasks p) (actor_id (ar_actor a)) (hr_idempotency_key (ar_command a)) = None
              \<and> fully_applied a next rid p q))"
proof -
  have inv: "task_inv env (tp_tasks p)" "store_inv (tp_jobs p)" using assms(1) by (simp_all add: plane_inv_def)
  show ?thesis
  proof (cases rule: commit_cases [OF inv(1) assms(2,3), case_names refused replayed committed])
    case (committed e m superseded ts jr js)
    let ?i = "hr_task_id (ar_command a)" and ?ts = "tp_tasks p"
    obtain ts' sup where w: "write_answer e next ?ts = Inr (sup, ts')"
      "\<And>k. dict_get (ts_tasks ts') k = map_option (after_answer ?i e (jm_head m) (next \<noteq> None)) (dict_get (ts_tasks ?ts) k)"
      "case next of None \<Rightarrow> ts_job_meta ts' = ts_job_meta ?ts \<and> ts_chain ts' = ts_chain ?ts \<and> ts_snapshots ts' = ts_snapshots ?ts
       | Some n \<Rightarrow> ts_job_meta ts' = dict_set (te_job_id e) (m\<lparr>jm_head := mr_reference (vs_revision n)\<rparr>) (ts_job_meta ?ts)
           \<and> (\<exists>chain. dict_get (ts_chain ?ts) (te_job_id e) = Some chain
                \<and> ts_chain ts' = dict_set (te_job_id e) (chain @ [vs_revision n]) (ts_chain ?ts))
           \<and> ts_snapshots ts' = dict_set (snapshot_key (mr_reference (vs_revision n))) n (ts_snapshots ?ts)"
      by (rule write_answer_ok [OF inv(1) committed(1,2), where ?next = "next"]) (rule that, assumption+)
    then have [simp]: "ts' = ts" "sup = superseded" using committed(6) by simp_all
    have id: "ht_task_id (te_task x) = k" if "dict_get (ts_tasks ?ts) k = Some x" for k x
      using task_invD(2) [OF inv(1) that] by (simp add: entry_sound_def)
    have base: "ht_state (te_task e) = Task_Open" "ht_version (te_task e) = hr_expected_version (ar_command a)"
        "dict_get (ts_tasks ts) ?i = Some (answered_entry e)"
      using committed(4) w(2) [of ?i] committed(1) id [OF committed(1)] by (simp_all add: response_current_def after_answer_def)
    have "fully_applied a next rid p q"
    proof (cases "next")
      case None
      obtain j where j: "dict_get (s_jobs js) (te_job_id e) = Some j" "?i \<notin> set (j_open_task_ids j)"
        using rejected_plane [OF _ inv(2), of "te_job_id e" "rr_run_id (ht_run (te_task e))" ?i now jr js] committed(7) None id [OF committed(1)]
        by (auto simp: notify_jobs_def)
      have same: "dict_get (ts_tasks ts) k = dict_get (ts_tasks ?ts) k" if "k \<noteq> ?i" for k
        using w(2) [of k] that None id [of k] by (cases "dict_get (ts_tasks ?ts) k") (simp_all add: after_answer_def)
      show ?thesis unfolding fully_applied_def Let_def
        by (rule exI [of _ e], rule exI [of _ j]) (use None j same base committed(1,9) w(3) in \<open>simp add: revision_chain_def\<close>)
    next
      case (Some n)
      obtain j where j: "dict_get (s_jobs js) (te_job_id e) = Some j" "j_status j = QUEUED" "j_current_run_id j = rid" "j_open_task_ids j = []"
          "map_option r_revision (dict_get (s_runs js) (te_job_id e, rid)) = Some (mr_reference (vs_revision n))"
          "map_option (\<lambda>x. (o_run_id x, o_dispatch_state x)) (dict_get (s_outbox js) (te_job_id e, j_outbox_seq j)) = Some (rid, Pending)"
        using resumed_plane [OF _ inv(2)] committed(7) Some by (fastforce simp: notify_jobs_def resumed_run_def)
      have none: "ht_state (te_task x) \<noteq> Task_Open" if x: "dict_get (ts_tasks ts) k = Some x" "te_job_id x = te_job_id e" for k x
      proof -
        obtain y where y: "dict_get (ts_tasks ?ts) k = Some y" "x = after_answer ?i e (jm_head m) True y" using x(1) w(2) [of k] Some
          by (cases "dict_get (ts_tasks ?ts) k") auto
        have "te_job_id y = te_job_id e \<or> ht_task_id (te_task y) = ?i" using x(2) y(2) by (auto simp: after_answer_def split: if_splits)
        moreover have "ht_state (te_task y) = Task_Open \<Longrightarrow> te_job_id y = te_job_id e \<Longrightarrow> stale_entry (te_job_id e) (jm_head m) y"
          using task_invD(2) [OF inv(1) y(1)] committed(2) by (auto simp: entry_sound_def stale_entry_def)
        ultimately show ?thesis using y(2) by (auto simp: after_answer_def)
      qed
      show ?thesis unfolding fully_applied_def Let_def
        by (rule exI [of _ e], rule exI [of _ j])
          (use Some j none base committed(1,9) w(3) in \<open>auto simp: revision_chain_def read_snapshot_def\<close>)
    qed
    then show ?thesis using committed by (simp add: read_receipt_def)
  qed (simp_all add: read_receipt_def)
qed

section \<open>What every run keeps\<close>

definition task_kept :: "task_entry \<Rightarrow> task_entry \<Rightarrow> bool" where
  "task_kept e x =
     (te_job_id x = te_job_id e \<and> te_case_id x = te_case_id e \<and> te_principal_id x = te_principal_id e
      \<and> te_task x = (te_task e)\<lparr>ht_state := ht_state (te_task x), ht_version := ht_version (te_task x)\<rparr>
      \<and> (ht_state (te_task e) \<noteq> Task_Open \<longrightarrow> x = e))"

definition plane_kept :: "task_plane \<Rightarrow> task_plane \<Rightarrow> bool" where
  "plane_kept p q =
     ((\<forall>k x. dict_get (ts_receipts (tp_tasks p)) k = Some x \<longrightarrow> dict_get (ts_receipts (tp_tasks q)) k = Some x)
      \<and> (\<forall>i e. dict_get (ts_tasks (tp_tasks p)) i = Some e \<longrightarrow> (\<exists>x. dict_get (ts_tasks (tp_tasks q)) i = Some x \<and> task_kept e x))
      \<and> evolves (tp_jobs p) (tp_jobs q))"

lemma task_kept_refl [simp]: "task_kept e e"
  by (simp add: task_kept_def)

lemma task_kept_trans: "task_kept a b \<Longrightarrow> task_kept b c \<Longrightarrow> task_kept a c"
  unfolding task_kept_def by (cases "te_task a"; cases "te_task b"; cases "te_task c") auto

lemma plane_kept_refl [simp]: "plane_kept p p"
  by (auto simp: plane_kept_def)

lemma plane_kept_trans: "plane_kept p q \<Longrightarrow> plane_kept q r \<Longrightarrow> plane_kept p r"
  unfolding plane_kept_def by (blast intro: task_kept_trans evolves_trans)

lemma plane_keptD:
  assumes "plane_kept p q"
  shows "dict_get (ts_receipts (tp_tasks p)) k = Some x \<Longrightarrow> dict_get (ts_receipts (tp_tasks q)) k = Some x"
    "dict_get (ts_tasks (tp_tasks p)) i = Some e \<Longrightarrow> \<exists>y. dict_get (ts_tasks (tp_tasks q)) i = Some y \<and> task_kept e y"
    "evolves (tp_jobs p) (tp_jobs q)"
  using assms unfolding plane_kept_def by blast+

lemma after_answer_kept:
  assumes "ht_task_id (te_task x) = k" and "k = ht_task_id (te_task e) \<Longrightarrow> x = e" and "ht_state (te_task e) = Task_Open"
  shows "task_kept x (after_answer (ht_task_id (te_task e)) e h b x)"
  using assms by (auto simp: after_answer_def task_kept_def answered_entry_def superseded_entry_def stale_entry_def)

lemma register_tasks_kept:
  "dict_get (ts_tasks ts) k = Some e \<Longrightarrow> dict_get (ts_tasks (fold (register_task jid c pr) tasks ts)) k = Some e"
  "ts_receipts (fold (register_task jid c pr) tasks ts) = ts_receipts ts"
  by (induction tasks arbitrary: ts) (simp_all add: register_task_lookup)

lemma seed_kept:
  assumes "seed jid pr s tasks ts = Inr us"
  shows "dict_get (ts_tasks ts) k = Some e \<Longrightarrow> dict_get (ts_tasks us) k = Some e" "ts_receipts us = ts_receipts ts"
  using assms register_tasks_kept by (auto simp: seed_def Let_def)

lemma commit_response_kept:
  assumes "plane_inv env p" and "proposal_sound env a next" and "commit_response a next d now rid fresh p = (out, q)"
  shows "plane_kept p q"
proof -
  have inv: "task_inv env (tp_tasks p)" "store_inv (tp_jobs p)" using assms(1) by (simp_all add: plane_inv_def)
  show ?thesis
  proof (cases rule: commit_cases [OF inv(1) assms(2,3), case_names refused replayed committed])
    case (committed e m superseded ts jr js)
    let ?i = "hr_task_id (ar_command a)" and ?ts = "tp_tasks p"
    obtain ts' sup where w: "write_answer e next ?ts = Inr (sup, ts')"
      "\<And>k. dict_get (ts_tasks ts') k = map_option (after_answer ?i e (jm_head m) (next \<noteq> None)) (dict_get (ts_tasks ?ts) k)"
      "ts_receipts ts' = ts_receipts ?ts"
      by (rule write_answer_ok [OF inv(1) committed(1,2), where ?next = "next"]) (rule that, assumption+)
    then have [simp]: "ts' = ts" using committed(6) by simp
    have id: "ht_task_id (te_task x) = k" if "dict_get (ts_tasks ?ts) k = Some x" for k x
      using task_invD(2) [OF inv(1) that] by (simp add: entry_sound_def)
    have "\<exists>y. dict_get (ts_tasks ts) k = Some y \<and> task_kept x y" if "dict_get (ts_tasks ?ts) k = Some x" for k x
    proof -
      have "k = ht_task_id (te_task e) \<Longrightarrow> x = e" using that id [OF committed(1)] committed(1) by simp
      then have "task_kept x (after_answer ?i e (jm_head m) (next \<noteq> None) x)"
        using after_answer_kept [OF id [OF that], where e = e and h = "jm_head m" and b = "next \<noteq> None"] id [OF committed(1)] committed(4) by (simp add: response_current_def)
      then show ?thesis using w(2) [of k] that by simp
    qed
    moreover have "evolves (tp_jobs p) js" using store_step_evolves [OF notify_jobs_step [OF committed(7)] inv(2)] .
    ultimately show ?thesis using committed(3,9) w(3) by (auto simp: plane_kept_def)
  qed simp_all
qed

lemma plane_step_kept:
  assumes "plane_step env p q" and "plane_inv env p"
  shows "plane_kept p q"
  using assms(1)
proof cases
  case (seeded jid pr s tasks ts)
  then show ?thesis using seed_kept [OF seeded(2)] by (auto simp: plane_kept_def)
next
  case (answered a "next" d now rid fresh out)
  show ?thesis by (rule commit_response_kept [OF assms(2) answered(2,1)])
next
  case (jobs js)
  then show ?thesis using store_step_evolves assms(2) by (auto simp: plane_kept_def plane_inv_def)
qed

lemma plane_run_kept: "(plane_step env)\<^sup>*\<^sup>* p q \<Longrightarrow> plane_inv env p \<Longrightarrow> plane_kept p q"
  by (rule task_system.run_preserves) (auto intro: plane_kept_trans plane_step_kept)

text \<open>
  C11.  No question is about old material: at every moment of every run from empty stores every open task of a
  job refers to the head of the job's revision chain; the chain is parent-linked, ends in the head and
  stays in the job's case, the head's snapshot is stored; and no task has two receipts.
\<close>

theorem open_questions_are_current:
  assumes "job_policy_valid pol" and "(plane_step env)\<^sup>*\<^sup>* \<lparr>tp_tasks = empty_task_store, tp_jobs = empty_store pol\<rparr> p"
  shows "(\<forall>i e. dict_get (ts_tasks (tp_tasks p)) i = Some e \<longrightarrow>
       (\<exists>m chain s. dict_get (ts_job_meta (tp_tasks p)) (te_job_id e) = Some m \<and> te_principal_id e = jm_principal_id m
          \<and> (ht_state (te_task e) = Task_Open \<longrightarrow> rr_revision (ht_run (te_task e)) = jm_head m)
          \<and> revision_chain (tp_tasks p) (te_job_id e) = chain \<and> chain \<noteq> [] \<and> mr_reference (last chain) = jm_head m
          \<and> parent_linked chain \<and> list_all (\<lambda>r. rev_case_id (mr_reference r) = te_case_id e) chain
          \<and> read_snapshot (tp_tasks p) (jm_head m) = Some s))
     \<and> (\<forall>k k' x x'. dict_get (ts_receipts (tp_tasks p)) k = Some x \<longrightarrow> dict_get (ts_receipts (tp_tasks p)) k' = Some x' \<longrightarrow>
          rt_task_id (sx_receipt x) = rt_task_id (sx_receipt x') \<longrightarrow> k = k')"
proof -
  have "plane_inv env p"
    by (rule task_system.run_inv [OF assms(2)]) (simp add: plane_inv_def empty_task_inv empty_store_inv assms(1))
  then have inv: "task_inv env (tp_tasks p)" by (simp add: plane_inv_def)
  show ?thesis
  proof (intro conjI allI impI)
    fix i e assume "dict_get (ts_tasks (tp_tasks p)) i = Some e"
    then obtain m where m: "dict_get (ts_job_meta (tp_tasks p)) (te_job_id e) = Some m" "te_principal_id e = jm_principal_id m"
        "te_case_id e = jm_case_id m" "ht_state (te_task e) = Task_Open \<longrightarrow> rr_revision (ht_run (te_task e)) = jm_head m"
      using task_invD(2) [OF inv] by (auto simp: entry_sound_def)
    with task_invD(3) [OF inv m(1)] show "\<exists>m chain s. dict_get (ts_job_meta (tp_tasks p)) (te_job_id e) = Some m \<and> te_principal_id e = jm_principal_id m
          \<and> (ht_state (te_task e) = Task_Open \<longrightarrow> rr_revision (ht_run (te_task e)) = jm_head m)
          \<and> revision_chain (tp_tasks p) (te_job_id e) = chain \<and> chain \<noteq> [] \<and> mr_reference (last chain) = jm_head m
          \<and> parent_linked chain \<and> list_all (\<lambda>r. rev_case_id (mr_reference r) = te_case_id e) chain
          \<and> read_snapshot (tp_tasks p) (jm_head m) = Some s"
      by (auto simp: meta_sound_def revision_chain_def list_all_iff)
  qed (rule task_invD(5) [OF inv])
qed

section \<open>Responding\<close>

lemma visible_task_Inr:
  "visible_task pr i p = Inr r \<longleftrightarrow>
     (\<exists>e m. dict_get (ts_tasks (tp_tasks p)) i = Some e \<and> dict_get (ts_job_meta (tp_tasks p)) (te_job_id e) = Some m
        \<and> r = \<lparr>tk_task = te_task e, tk_job_id = te_job_id e, tk_case_id = te_case_id e, tk_principal_id = te_principal_id e,
                tk_current_revision = jm_head m\<rparr>
        \<and> te_principal_id e = actor_id (pr_actor pr) \<and> te_case_id e \<in> set (pr_case_ids pr))"
  by (auto simp: visible_task_def read_task_def task_record_of_def visible_def split: option.splits if_splits)

lemma read_authorized_job_Inr:
  assumes "store_inv (tp_jobs p)"
  shows "is_ok (read_authorized_job pr jid p) \<longleftrightarrow>
    (\<exists>j. dict_get (s_jobs (tp_jobs p)) jid = Some j \<and> j_principal_id j = actor_id (pr_actor pr) \<and> j_case_id j \<in> set (pr_case_ids pr)
       \<and> P_REVIEW \<in> set (pr_permissions pr))"
proof (cases "dict_get (s_jobs (tp_jobs p)) jid")
  case (Some j)
  then obtain r where "job_record_of (tp_jobs p) j = Inr (make_record j r)"
    using job_record_of_ok [OF assms] map_of_SomeD by metis
  then show ?thesis using Some by (auto simp: read_authorized_job_def read_job_def is_ok_iff make_record_def)
qed (simp add: read_authorized_job_def read_job_def)

definition change_of :: "revision_env \<Rightarrow> evidenced_pair \<Rightarrow> fact_side_reference \<Rightarrow> accepted_response \<Rightarrow> public_value \<Rightarrow>
    factor_observation \<Rightarrow> source_citation list \<Rightarrow> value_revision" where
  "change_of env pair side a proposed y cited =
     \<lparr>vr_subject_id = side_subject_id env side,
      vr_original = public_observation (side_observation pair (fd_side side)) (side_sources pair (fd_side side)),
      vr_proposed = Some proposed, vr_corrected = Some (public_observation y cited),
      vr_corrected_by = Some \<lparr>actor_id = actor_id (ar_actor a), actor_kind = A_human\<rparr>\<rparr>"

lemma correct_revisionE:
  assumes "correct_revision env s pair side a i = Inr n"
  obtains c proposed y cited where "hr_correction (ar_command a) = Some c" "vr_proposed c = Some proposed"
    "vr_subject_id c = side_subject_id env side" "correction_types_ok proposed (side_observation pair (fd_side side))"
    "supplied (pl_registry (rm_policy (vs_material s))) (hr_action (ar_command a)) proposed
       (corrected_observation proposed (side_observation pair (fd_side side))) (side_sources pair (fd_side side)) = Inr (y, cited)"
    "revise env s (replace_pair env side (set_side (fd_side side) y cited pair) (vs_material s)) i [change_of env pair side a proposed y cited] = Inr n"
  using assms by (auto simp: correct_revision_def Let_def change_of_def split: option.splits)

lemma revise_sound:
  assumes "revise env s m i ledger = Inr n"
  shows "identities (re_documents_digest env) (vs_revision n) \<and> rev_revision_id (mr_reference (vs_revision n)) = i"
  using revise_Inr(2,3) [OF assms] by simp

lemma confirm_revisionE:
  assumes "confirm_revision env s pair side a i = Inr n"
  obtains confirmed where "confirm_side (re_confirmation_digest env) pair (fd_side side) (actor_id (ar_actor a)) = Inr confirmed"
    "capture env (with_version i (replace_pair env side confirmed (vs_material s))) i (Some (mr_reference (vs_revision s))) [] = Inr n"
  using assms by (auto simp: confirm_revision_def on_error_eq_Inr)

lemma next_revisionE:
  assumes "next_revision env p r a i = Inr (Some n)"
  obtains s side pair where "hr_action (ar_command a) \<noteq> R_REJECT" "ht_kind (tk_task r) \<in> {T_FACT, T_CORRECTION, T_EVIDENCE}"
    "read_snapshot (tp_tasks p) (tk_current_revision r) = Some s" "ht_side (tk_task r) = Some side" "locate env (vs_material s) side = Inr pair"
    "if ht_kind (tk_task r) = T_FACT then confirm_revision env s pair side a i = Inr n else correct_revision env s pair side a i = Inr n"
  using assms by (auto simp: next_revision_def split: option.splits if_splits)

lemma next_revision_sound:
  assumes "next_revision env p r a i = Inr next"
  shows "proposal_sound env a next" "option_ok (\<lambda>n. rev_revision_id (mr_reference (vs_revision n)) = i) next"
proof -
  have "(next = None) = (hr_action (ar_command a) = R_REJECT)
      \<and> option_ok (\<lambda>n. identities (re_documents_digest env) (vs_revision n) \<and> rev_revision_id (mr_reference (vs_revision n)) = i) next"
  proof (cases "next")
    case None
    then show ?thesis using assms by (auto simp: next_revision_def split: option.splits if_splits)
  next
    case (Some n)
    from assms [unfolded Some] obtain s side pair where n: "hr_action (ar_command a) \<noteq> R_REJECT"
        "if ht_kind (tk_task r) = T_FACT then confirm_revision env s pair side a i = Inr n else correct_revision env s pair side a i = Inr n"
      by (rule next_revisionE)
    have "identities (re_documents_digest env) (vs_revision n) \<and> rev_revision_id (mr_reference (vs_revision n)) = i"
    proof (cases "ht_kind (tk_task r) = T_FACT")
      case True
      then show ?thesis using n(2) by (auto simp: capture_Inr elim!: confirm_revisionE)
    next
      case False
      then show ?thesis using n(2) revise_sound by (fastforce elim!: correct_revisionE)
    qed
    then show ?thesis using n(1) Some by simp
  qed
  then show "proposal_sound env a next" "option_ok (\<lambda>n. rev_revision_id (mr_reference (vs_revision n)) = i) next"
    unfolding proposal_sound_def option_ok_def by (cases "next"; simp)+
qed

text \<open>The state in which \<open>respond\<close> commits, and a revision identifier that is new there.\<close>

definition commit_point :: "(nat \<Rightarrow> task_plane \<Rightarrow> task_plane) \<Rightarrow> principal \<Rightarrow> uuid \<Rightarrow> task_plane \<Rightarrow> task_plane" where
  "commit_point mid pr i p = mid 4 (mid 3 (mid 2 (snd (authorized_task mid pr i p))))"

definition unused_id :: "string \<Rightarrow> task_plane \<Rightarrow> bool" where
  "unused_id v p = (\<forall>c. dict_get (ts_snapshots (tp_tasks p)) (c, v) = None)"

lemma respond_cases:
  assumes "respond env mid ids pr i command p = (Inr r, q)"
  obtains (replayed) rec stored where "action_payload command" "hr_task_id command = i" "authorized_task mid pr i p = (Inr rec, mid 1 (mid 0 p))"
      "q = mid 2 (mid 1 (mid 0 p))" "read_receipt (tp_tasks q) (actor_id (pr_actor pr)) (hr_idempotency_key command) = Some stored"
      "sx_payload_digest stored = response_digest (re_response_digest env) command" "r = sx_receipt stored"
  | (committed) rec a "next" where "action_payload command" "hr_task_id command = i" "authorized_task mid pr i p = (Inr rec, mid 1 (mid 0 p))"
      "admit_response (tk_task rec) command pr (tk_current_revision rec) = Inr a"
      "next_revision env (mid 3 (mid 2 (mid 1 (mid 0 p)))) rec a (fi_revision_id ids) = Inr next"
      "commit_response a next (response_digest (re_response_digest env) command) (fi_now ids) (fi_run_id ids) (fi_token ids)
         (commit_point mid pr i p) = (Inr r, q)"
proof -
  have "action_payload command" "hr_task_id command = i" using assms by (auto simp: respond_def split: if_splits)
  note c = this
  obtain rec where rec: "authorized_task mid pr i p = (Inr rec, mid 1 (mid 0 p))"
    using assms c by (auto simp: respond_def authorized_task_def Let_def split: sum.splits prod.splits)
  let ?q1 = "mid 2 (mid 1 (mid 0 p))" and ?d = "response_digest (re_response_digest env) command"
  show thesis
  proof (cases "read_receipt (tp_tasks ?q1) (actor_id (pr_actor pr)) (hr_idempotency_key command)")
    case (Some stored)
    then show thesis using assms c rec
      by (cases "sx_payload_digest stored = ?d") (auto simp: respond_def Let_def intro: replayed)
  next
    case None
    obtain a "next" where a: "admit_response (tk_task rec) command pr (tk_current_revision rec) = Inr a"
        "next_revision env (mid 3 ?q1) rec a (fi_revision_id ids) = Inr next"
        "apfst lost_answer (commit_response a next ?d (fi_now ids) (fi_run_id ids) (fi_token ids) (mid 4 (mid 3 ?q1))) = (Inr r, q)"
      using assms c rec None by (auto simp: respond_def Let_def split: sum.splits)
    have "lost_answer x = Inr r \<longleftrightarrow> x = Inr r" for x by (cases x) (auto simp: lost_answer_def)
    with a(3) have "commit_response a next ?d (fi_now ids) (fi_run_id ids) (fi_token ids) (mid 4 (mid 3 ?q1)) = (Inr r, q)"
      by (cases "commit_response a next ?d (fi_now ids) (fi_run_id ids) (fi_token ids) (mid 4 (mid 3 ?q1))") auto
    with a c rec show thesis by (intro committed) (simp_all add: commit_point_def)
  qed
qed

lemma authorized_task_Inr:
  "authorized_task mid pr i p = (Inr r, q) \<longleftrightarrow>
     visible_task pr i (mid 0 p) = Inr r \<and> is_ok (read_authorized_job pr (tk_job_id r) (mid 1 (mid 0 p))) \<and> q = mid 1 (mid 0 p)"
  by (auto simp: authorized_task_def Let_def is_ok_iff split: sum.splits)

definition meanwhile :: "revision_env \<Rightarrow> (nat \<Rightarrow> task_plane \<Rightarrow> task_plane) \<Rightarrow> bool" where
  "meanwhile env mid = (\<forall>k x. (plane_step env)\<^sup>*\<^sup>* x (mid k x))"

lemma meanwhileD: "meanwhile env mid \<Longrightarrow> (plane_step env)\<^sup>*\<^sup>* x (mid k x)"
  by (simp add: meanwhile_def)

lemma commit_point_run:
  assumes "meanwhile env mid" and "authorized_task mid pr i p = (out, mid 1 (mid 0 p))"
  shows "(plane_step env)\<^sup>*\<^sup>* (mid 1 (mid 0 p)) (commit_point mid pr i p)"
  using assms(2) meanwhileD [OF assms(1)] by (simp add: commit_point_def) (meson rtranclp_trans)

text \<open>An authorized reader of a task stays one.\<close>

lemma authorized_later:
  assumes "plane_inv env p" and mid: "meanwhile env mid" and mid': "meanwhile env mid'"
    and "authorized_task mid pr i p = (Inr r, q)" and run: "(plane_step env)\<^sup>*\<^sup>* q p'"
  shows "\<exists>r'. authorized_task mid' pr i p' = (Inr r', mid' 1 (mid' 0 p'))"
proof -
  have a: "visible_task pr i (mid 0 p) = Inr r" "is_ok (read_authorized_job pr (tk_job_id r) q)" "q = mid 1 (mid 0 p)"
    using assms(4) by (auto simp: authorized_task_Inr)
  have inv0: "plane_inv env (mid 0 p)" using task_system.run_inv [OF meanwhileD [OF mid] assms(1)] .
  have inv1: "plane_inv env q" unfolding a(3) using task_system.run_inv [OF meanwhileD [OF mid] inv0] .
  have run': "(plane_step env)\<^sup>*\<^sup>* q (mid' 0 p')" using run meanwhileD [OF mid'] by (rule rtranclp_trans)
  then have run0: "(plane_step env)\<^sup>*\<^sup>* (mid 0 p) (mid' 0 p')" using meanwhileD [OF mid, of "mid 0 p" 1] a(3) by (metis rtranclp_trans)
  have run1: "(plane_step env)\<^sup>*\<^sup>* q (mid' 1 (mid' 0 p'))" using run' meanwhileD [OF mid'] by (rule rtranclp_trans)
  obtain e where e: "dict_get (ts_tasks (tp_tasks (mid 0 p))) i = Some e" "te_principal_id e = actor_id (pr_actor pr)"
      "te_case_id e \<in> set (pr_case_ids pr)" "tk_job_id r = te_job_id e" using a(1) by (auto simp: visible_task_Inr)
  obtain x where x: "dict_get (ts_tasks (tp_tasks (mid' 0 p'))) i = Some x" "task_kept e x"
    using plane_keptD(2) [OF plane_run_kept [OF run0 inv0] e(1)] by blast
  have invx: "plane_inv env (mid' 0 p')" by (rule task_system.run_inv [OF run0 inv0])
  then obtain m where "dict_get (ts_job_meta (tp_tasks (mid' 0 p'))) (te_job_id x) = Some m"
    using task_invD(2) [OF _ x(1)] by (auto simp: plane_inv_def entry_sound_def)
  then have "\<exists>r'. visible_task pr i (mid' 0 p') = Inr r' \<and> tk_job_id r' = te_job_id e"
    using x e by (auto simp: visible_task_Inr task_kept_def)
  then obtain r' where r': "visible_task pr i (mid' 0 p') = Inr r'" "tk_job_id r' = te_job_id e" by blast
  obtain j where j: "dict_get (s_jobs (tp_jobs q)) (te_job_id e) = Some j" "j_principal_id j = actor_id (pr_actor pr)"
      "j_case_id j \<in> set (pr_case_ids pr)" "P_REVIEW \<in> set (pr_permissions pr)"
    using a(2) read_authorized_job_Inr [of q] inv1 e(4) by (auto simp: plane_inv_def)
  obtain j' where "dict_get (s_jobs (tp_jobs (mid' 1 (mid' 0 p')))) (te_job_id e) = Some j'" "job_evolves j j'"
    using evolvesD(2) [OF plane_keptD(3) [OF plane_run_kept [OF run1 inv1]] j(1)] by blast
  moreover have "store_inv (tp_jobs (mid' 1 (mid' 0 p')))" using task_system.run_inv [OF run1 inv1] by (simp add: plane_inv_def)
  ultimately have "is_ok (read_authorized_job pr (te_job_id e) (mid' 1 (mid' 0 p')))"
    using j by (auto simp: read_authorized_job_Inr job_evolves_def)
  then show ?thesis using r' by (auto simp: authorized_task_Inr)
qed

lemma respond_receipt:
  assumes inv: "plane_inv env p" and mid: "meanwhile env mid" and unused: "unused_id (fi_revision_id ids) (commit_point mid pr i p)"
    and "respond env mid ids pr i command p = (Inr r, q)"
  shows "(plane_step env)\<^sup>*\<^sup>* (mid 1 (mid 0 p)) q"
    "\<exists>x. dict_get (ts_receipts (tp_tasks q)) (actor_id (pr_actor pr), hr_idempotency_key command) = Some x
       \<and> sx_payload_digest x = response_digest (re_response_digest env) command \<and> sx_receipt x = r"
proof -
  note through = meanwhileD [OF mid]
  have "(plane_step env)\<^sup>*\<^sup>* (mid 1 (mid 0 p)) q \<and>
      (\<exists>x. dict_get (ts_receipts (tp_tasks q)) (actor_id (pr_actor pr), hr_idempotency_key command) = Some x
       \<and> sx_payload_digest x = response_digest (re_response_digest env) command \<and> sx_receipt x = r)"
  proof (cases rule: respond_cases [OF assms(4), case_names replayed committed])
    case (replayed rec stored)
    then show ?thesis using through by (auto simp: read_receipt_def)
  next
    case (committed rec a "next")
    note run = commit_point_run [OF mid committed(3)]
    have "(plane_step env)\<^sup>*\<^sup>* p (mid 1 (mid 0 p))" using through by (meson rtranclp_trans)
    then have inv': "plane_inv env (commit_point mid pr i p)" using run task_system.run_inv [OF _ inv] rtranclp_trans by metis
    then have ti: "task_inv env (tp_tasks (commit_point mid pr i p))" by (simp add: plane_inv_def)
    note sound = next_revision_sound [OF committed(5)]
    have "fresh_revision (tp_tasks (commit_point mid pr i p)) next"
      using sound(2) unused by (cases "next") (auto simp: fresh_revision_def unused_id_def snapshot_key_def)
    then have step: "plane_step env (commit_point mid pr i p) q" by (rule plane_step.answered [OF committed(6) sound(1)])
    have actor: "ar_actor a = pr_actor pr" "ar_command a = command" using committed(4) by (auto simp: admit_response_Inr)
    have r: "\<exists>x. dict_get (ts_receipts (tp_tasks q)) (actor_id (pr_actor pr), hr_idempotency_key command) = Some x
       \<and> sx_payload_digest x = response_digest (re_response_digest env) command \<and> sx_receipt x = r"
      by (cases rule: commit_cases [OF ti sound(1) committed(6)]) (auto simp: actor)
    have "(plane_step env)\<^sup>*\<^sup>* (mid 1 (mid 0 p)) q" using run step by (rule rtranclp.rtrancl_into_rtrancl)
    then show ?thesis using r by (rule conjI)
  qed
  then show "(plane_step env)\<^sup>*\<^sup>* (mid 1 (mid 0 p)) q"
    "\<exists>x. dict_get (ts_receipts (tp_tasks q)) (actor_id (pr_actor pr), hr_idempotency_key command) = Some x
       \<and> sx_payload_digest x = response_digest (re_response_digest env) command \<and> sx_receipt x = r" by blast+
qed

text \<open>
  C36.  An exact retry returns the first answer's receipt: after \<open>respond\<close> returned a receipt, the same principal
  sending the same command at any later time gets that receipt and changes nothing, whatever other
  reviewers, workers and job users did in between and do during the retry.
\<close>

theorem exact_retry_returns_receipt:
  assumes "plane_inv env p" and "meanwhile env mid" and "unused_id (fi_revision_id ids) (commit_point mid pr i p)"
    and "respond env mid ids pr i command p = (Inr r, q)"
    and "(plane_step env)\<^sup>*\<^sup>* q p'" and "meanwhile env mid'"
  shows "respond env mid' ids' pr i command p' = (Inr r, mid' 2 (mid' 1 (mid' 0 p')))"
proof -
  note first = respond_receipt [OF assms(1-4)]
  obtain rec where a: "authorized_task mid pr i p = (Inr rec, mid 1 (mid 0 p))" "action_payload command" "hr_task_id command = i"
    by (cases rule: respond_cases [OF assms(4)]) metis+
  have run: "(plane_step env)\<^sup>*\<^sup>* (mid 1 (mid 0 p)) p'" using first(1) assms(5) by (rule rtranclp_trans)
  obtain r' where r': "authorized_task mid' pr i p' = (Inr r', mid' 1 (mid' 0 p'))"
    using authorized_later [OF assms(1,2,6) a(1) run] by blast
  obtain x where x: "dict_get (ts_receipts (tp_tasks q)) (actor_id (pr_actor pr), hr_idempotency_key command) = Some x"
      "sx_payload_digest x = response_digest (re_response_digest env) command" "sx_receipt x = r" using first(2) by blast
  have "(plane_step env)\<^sup>*\<^sup>* q (mid' 2 (mid' 1 (mid' 0 p')))"
    using assms(5) meanwhileD [OF assms(6)] by (meson rtranclp_trans)
  moreover have "(plane_step env)\<^sup>*\<^sup>* p q" using meanwhileD [OF assms(2)] first(1) by (meson rtranclp_trans)
  then have "plane_inv env q" by (rule task_system.run_inv) (rule assms(1))
  ultimately have "dict_get (ts_receipts (tp_tasks (mid' 2 (mid' 1 (mid' 0 p'))))) (actor_id (pr_actor pr), hr_idempotency_key command) = Some x"
    using plane_keptD(1) [OF plane_run_kept] x(1) by blast
  then show ?thesis using a(2,3) r' x by (simp add: respond_def Let_def read_receipt_def)
qed

section \<open>What an answer may change\<close>

lemma locate_Inr: "locate env m side = Inr pair \<longleftrightarrow> filter (at_side env side) (cf_pairs (rm_facts m)) = [pair]"
  by (auto simp: locate_def split: list.splits)

text \<open>
  A confirmation touches one side: the revision proposed for a confirmed fact is the head's material with
  the new version in which exactly one pair is replaced; the replacement has the same observations and sources on both
  sides and the same reliability on the other side, its confirmation names the reviewer and binds what
  the reviewer saw, and the revision is a child of the head that reports no change.
\<close>

theorem confirmation_touches_one_side:
  assumes "next_revision env p r a i = Inr (Some n)" and "ht_kind (tk_task r) = T_FACT"
  shows "\<exists>s side pair q. read_snapshot (tp_tasks p) (tk_current_revision r) = Some s \<and> ht_side (tk_task r) = Some side
     \<and> filter (at_side env side) (cf_pairs (rm_facts (vs_material s))) = [pair]
     \<and> vs_material n = with_version i (replace_pair env side q (vs_material s))
     \<and> ep_context q = ep_context pair \<and> fp_factor_id (ep_pair q) = fp_factor_id (ep_pair pair)
     \<and> (\<forall>sd. side_observation q sd = side_observation pair sd \<and> side_sources q sd = side_sources pair sd)
     \<and> (\<forall>sd. sd = fd_side side \<or> side_reliability q sd = side_reliability pair sd)
     \<and> rl_confirmation (side_reliability q (fd_side side)) = Some \<lparr>fc_reviewer = actor_id (ar_actor a),
          fc_input_digest = confirmation_digest (re_confirmation_digest env) pair (fd_side side)\<rparr>
     \<and> confirmation_holds (re_confirmation_digest env) q (fd_side side)
     \<and> mr_parent (vs_revision n) = Some (mr_reference (vs_revision s)) \<and> mr_changes (vs_revision n) = []"
proof -
  obtain s side pair where n: "read_snapshot (tp_tasks p) (tk_current_revision r) = Some s" "ht_side (tk_task r) = Some side"
      "locate env (vs_material s) side = Inr pair" "confirm_revision env s pair side a i = Inr n"
    by (rule next_revisionE [OF assms(1)]) (use assms(2) in simp)
  obtain q where q: "confirm_side (re_confirmation_digest env) pair (fd_side side) (actor_id (ar_actor a)) = Inr q"
      "capture env (with_version i (replace_pair env side q (vs_material s))) i (Some (mr_reference (vs_revision s))) [] = Inr n"
    using n(4) by (rule confirm_revisionE)
  let ?sd = "fd_side side" and ?r = "side_reliability pair (fd_side side)"
  let ?c = "\<lparr>fc_reviewer = actor_id (ar_actor a), fc_input_digest = confirmation_digest (re_confirmation_digest env) pair ?sd\<rparr>"
  have q': "q = set_side_reliability ?sd (?r\<lparr>rl_confirmation := Some ?c, rl_method := Reviewer_Confirmed\<rparr>) pair"
    and known: "rl_confidence_kind ?r \<noteq> Unknown_Confidence" "rl_provenance ?r \<noteq> Unknown_Provenance"
    using q(1) by (auto simp: confirm_side_def Let_def split: if_splits)
  have "confirmation_data_of q ?sd = confirmation_data_of pair ?sd" by (simp add: q' confirmation_data_of_def)
  then have "confirmation_holds (re_confirmation_digest env) q ?sd"
    using known by (simp add: q' confirmation_holds_def confirmation_digest_def)
  moreover have "vs_material n = with_version i (replace_pair env side q (vs_material s))"
      "mr_parent (vs_revision n) = Some (mr_reference (vs_revision s))" "mr_changes (vs_revision n) = []"
    using q(2) by (auto simp: capture_Inr)
  ultimately show ?thesis using n(1-3) unfolding locate_Inr
    by (intro exI [of _ s] exI [of _ side] exI [of _ pair] exI [of _ q]) (simp add: q')
qed

text \<open>An observation that a correction may put in the place of another: same kind of value, no more confidence.\<close>

definition may_replace :: "factor_observation \<Rightarrow> factor_observation \<Rightarrow> bool" where
  "may_replace x y =
     (\<not> dec_less (ob_confidence x) (ob_confidence y)
      \<and> (case (ob_value x, ob_value y) of
           (_, None) \<Rightarrow> True
         | (None, Some _) \<Rightarrow> False
         | (Some v, Some w) \<Rightarrow> content_type (nv_content w) = content_type (nv_content v)
             \<and> (content_type (nv_content w) = Type_Number \<longrightarrow> nv_unit w = nv_unit v \<and> nv_unit v \<noteq> None)))"

lemma corrected_may_replace: "correction_types_ok proposed x \<Longrightarrow> may_replace x (corrected_observation proposed x)"
  by (auto simp: may_replace_def correction_types_ok_def corrected_observation_def dec_less_def split: option.splits public_content.splits)

text \<open>
  C12.  A correction reopens everything: the revision proposed for a correction or for supplied evidence carries no
  confirmation at all, differs from the head in the observation and sources of the one side only, there
  keeps the kind and unit of the value and never raises the confidence; its ledger has one entry with the value
  that was there, the value that is there now and the human reviewer.
\<close>

theorem correction_reopens_confirmations:
  assumes "next_revision env p r a i = Inr (Some n)" and "ht_kind (tk_task r) \<noteq> T_FACT"
  shows "\<exists>s side pair proposed y cited. read_snapshot (tp_tasks p) (tk_current_revision r) = Some s \<and> ht_side (tk_task r) = Some side
     \<and> filter (at_side env side) (cf_pairs (rm_facts (vs_material s))) = [pair]
     \<and> list_all (\<lambda>q. \<forall>sd. rl_confirmation (side_reliability q sd) = None \<and> rl_method (side_reliability q sd) \<noteq> Reviewer_Confirmed)
          (cf_pairs (rm_facts (vs_material n)))
     \<and> list_all2 (\<lambda>x q. ep_context q = ep_context x \<and> fp_factor_id (ep_pair q) = fp_factor_id (ep_pair x)
          \<and> (\<forall>sd. (side_observation q sd, side_sources q sd) =
               (if at_side env side x \<and> sd = fd_side side then (y, cited) else (side_observation x sd, side_sources x sd))))
          (cf_pairs (rm_facts (vs_material s))) (cf_pairs (rm_facts (vs_material n)))
     \<and> may_replace (side_observation pair (fd_side side)) y
     \<and> pl_registry (rm_policy (vs_material n)) = pl_registry (rm_policy (vs_material s))
     \<and> pl_rule_sets (rm_policy (vs_material n)) = pl_rule_sets (rm_policy (vs_material s))
     \<and> mr_parent (vs_revision n) = Some (mr_reference (vs_revision s))
     \<and> mr_changes (vs_revision n) = [change_of env pair side a proposed y cited]"
proof -
  obtain s side pair where n: "read_snapshot (tp_tasks p) (tk_current_revision r) = Some s" "ht_side (tk_task r) = Some side"
      "locate env (vs_material s) side = Inr pair" "correct_revision env s pair side a i = Inr n"
    by (rule next_revisionE [OF assms(1)]) (use assms(2) in simp)
  obtain proposed y cited where y: "correction_types_ok proposed (side_observation pair (fd_side side))"
      "supplied (pl_registry (rm_policy (vs_material s))) (hr_action (ar_command a)) proposed
         (corrected_observation proposed (side_observation pair (fd_side side))) (side_sources pair (fd_side side)) = Inr (y, cited)"
      "revise env s (replace_pair env side (set_side (fd_side side) y cited pair) (vs_material s)) i [change_of env pair side a proposed y cited] = Inr n"
    using n(4) by (rule correct_revisionE)
  let ?q = "set_side (fd_side side) y cited pair" and ?old = "cf_pairs (rm_facts (vs_material s))"
  note rev = revise_Inr [OF y(3)]
  have pairs: "cf_pairs (rm_facts (vs_material n)) = map (\<lambda>x. revise_pair env ?old (if at_side env side x then ?q else x)) ?old"
    by (simp add: rev(1) revised_material_def replace_pair_def)
  have located: "x = pair" if "x \<in> set ?old" "at_side env side x" for x
  proof -
    have "x \<in> set (filter (at_side env side) ?old)" using that by simp
    then have "x \<in> set [pair]" using n(3) unfolding locate_Inr by metis
    then show ?thesis by simp
  qed
  have "ob_value y = ob_value (corrected_observation proposed (side_observation pair (fd_side side)))
      \<and> ob_confidence y = ob_confidence (corrected_observation proposed (side_observation pair (fd_side side)))"
    using y(2) by (auto simp: supplied_def split: if_splits)
  then have "may_replace (side_observation pair (fd_side side)) y"
    using corrected_may_replace [OF y(1)] by (simp add: may_replace_def)
  moreover have "list_all2 (\<lambda>x q. ep_context q = ep_context x \<and> fp_factor_id (ep_pair q) = fp_factor_id (ep_pair x)
          \<and> (\<forall>sd. (side_observation q sd, side_sources q sd) =
               (if at_side env side x \<and> sd = fd_side side then (y, cited) else (side_observation x sd, side_sources x sd))))
          ?old (cf_pairs (rm_facts (vs_material n)))"
    unfolding pairs list_all2_map2 list_all2_same
  proof (intro ballI)
    fix x assume "x \<in> set ?old"
    then show "ep_context (revise_pair env ?old (if at_side env side x then ?q else x)) = ep_context x
        \<and> fp_factor_id (ep_pair (revise_pair env ?old (if at_side env side x then ?q else x))) = fp_factor_id (ep_pair x)
        \<and> (\<forall>sd. (side_observation (revise_pair env ?old (if at_side env side x then ?q else x)) sd,
                  side_sources (revise_pair env ?old (if at_side env side x then ?q else x)) sd) =
               (if at_side env side x \<and> sd = fd_side side then (y, cited) else (side_observation x sd, side_sources x sd)))"
      using located [of x] by (cases "at_side env side x") simp_all
  qed
  moreover have "list_all (\<lambda>q. \<forall>sd. rl_confirmation (side_reliability q sd) = None \<and> rl_method (side_reliability q sd) \<noteq> Reviewer_Confirmed)
          (cf_pairs (rm_facts (vs_material n)))"
    unfolding rev(1) list_all_iff by (intro ballI allI) (rule revised_confirmations)
  moreover have "pl_registry (rm_policy (vs_material n)) = pl_registry (rm_policy (vs_material s))"
      "pl_rule_sets (rm_policy (vs_material n)) = pl_rule_sets (rm_policy (vs_material s))"
    by (simp_all add: rev(1) revised_material_def replace_pair_def)
  ultimately show ?thesis using n(1-3) rev(2) unfolding locate_Inr
    by (intro exI [of _ s] exI [of _ side] exI [of _ pair] exI [of _ proposed] exI [of _ y] exI [of _ cited]) simp
qed

end
