(* ===== verification/Factor_Safety.thy ===== *)
theory Factor_Safety
  imports Factor_Engine
begin

text \<open>
  Correctness of the factor engine: validated bands classify every number, exactly once when interior
  bounds are present; validated matrices have every cell; a verified summary rests on verified factors;
  low confidence never slips through; units do not matter; and the completion gate accepts exactly the
  engine's own recomputation.
\<close>

section \<open>Bands\<close>

definition above :: "interval_band \<Rightarrow> decimal \<Rightarrow> bool" where
  "above b v = (case ib_minimum b of None \<Rightarrow> True | Some lo \<Rightarrow> dec_less lo v \<or> (ib_minimum_inclusive b \<and> dec_eq v lo))"

definition below :: "interval_band \<Rightarrow> decimal \<Rightarrow> bool" where
  "below b v = (case ib_maximum b of None \<Rightarrow> True | Some hi \<Rightarrow> dec_less v hi \<or> (ib_maximum_inclusive b \<and> dec_eq v hi))"

lemma band_contains_split: "band_contains b v \<longleftrightarrow> above b v \<and> below b v"
  by (simp add: band_contains_def above_def below_def)

text \<open>Across a shared boundary a number is below the one band or above the next, not both.\<close>

lemma boundary_total:
  assumes "same_bound (ib_maximum p) (ib_minimum c)" and "ib_maximum_inclusive p \<noteq> ib_minimum_inclusive c" and "is_finite v"
  shows "below p v \<or> above c v"
  using assms
  by (cases "ib_maximum p"; cases "ib_minimum c"; cases "ib_maximum_inclusive p")
    (auto simp: same_bound_def below_def above_def dec_less_def dec_eq_def)

lemma boundary_disjoint:
  assumes "same_bound (ib_maximum p) (ib_minimum c)" and "ib_maximum_inclusive p \<noteq> ib_minimum_inclusive c"
    and "ib_maximum p \<noteq> None"
  shows "\<not> (below p v \<and> above c v)"
  using assms
  by (cases "ib_maximum p"; cases "ib_minimum c"; cases "ib_maximum_inclusive p")
    (auto simp: same_bound_def below_def above_def dec_less_def dec_eq_def)

lemma above_mono:
  assumes "validate_bounds p" and "same_bound (ib_maximum p) (ib_minimum c)"
    and "ib_maximum p \<noteq> None" and "above c v"
  shows "above p v"
  using assms
  by (cases "ib_minimum p"; cases "ib_maximum p"; cases "ib_minimum c")
    (auto simp: validate_bounds_def same_bound_def above_def dec_less_def dec_eq_def dec_le_def)

lemma bands_cover:
  assumes "contiguous bs" and "bs \<noteq> []" and "ib_maximum (last bs) = None" and "is_finite v" and "above (hd bs) v"
  shows "\<exists>b \<in> set bs. band_contains b v"
  using assms
proof (induction bs rule: contiguous.induct)
  case (1 p c rest)
  show ?case
  proof (cases "below p v")
    case True
    with 1(6) show ?thesis by (auto simp: band_contains_split)
  next
    case False
    with boundary_total [of p c v] 1(2,5) have "above c v" by auto
    with 1 show ?thesis by auto
  qed
qed (auto simp: band_contains_split below_def)

definition interior_bounded :: "interval_band list \<Rightarrow> bool" where
  "interior_bounded bs = list_all (\<lambda>b. ib_maximum b \<noteq> None) (butlast bs)"

lemma bands_require_above:
  assumes "contiguous bs" and "list_all validate_bounds bs" and "interior_bounded bs" and "b \<in> set bs" and "band_contains b v"
  shows "above (hd bs) v"
  using assms
proof (induction bs rule: contiguous.induct)
  case (1 p c rest)
  then have *: "ib_maximum p \<noteq> None" "interior_bounded (c # rest)" by (auto simp: interior_bounded_def)
  show ?case
  proof (cases "b = p")
    case False
    with 1 * have "above c v" by auto
    with 1(2,3) * above_mono [of p c v] show ?thesis by auto
  qed (use 1(6) in \<open>simp add: band_contains_split\<close>)
qed (auto simp: band_contains_split)

lemma bands_disjoint:
  assumes "contiguous bs" and "list_all validate_bounds bs" and "interior_bounded bs"
    and "i < j" and "j < length bs" and "band_contains (bs ! i) v"
  shows "\<not> band_contains (bs ! j) v"
  using assms
proof (induction bs arbitrary: i j rule: contiguous.induct)
  case (1 p c rest)
  then have *: "ib_maximum p \<noteq> None" "interior_bounded (c # rest)" by (auto simp: interior_bounded_def)
  obtain k where k: "j = Suc k" using 1(5) by (cases j) auto
  show ?case
  proof (cases i)
    case 0
    show ?thesis
    proof
      assume "band_contains ((p # c # rest) ! j) v"
      then have "band_contains ((c # rest) ! k) v" using k by simp
      moreover have "(c # rest) ! k \<in> set (c # rest)" using k 1(6) by (intro nth_mem) simp
      ultimately have "\<exists>b \<in> set (c # rest). band_contains b v" by blast
      with 1(2,3) * have "above c v" using bands_require_above [of "c # rest" _ v] by (auto simp del: set_simps)
      with 1(2,7) * 0 boundary_disjoint [of p c v] show False by (auto simp: band_contains_split)
    qed
  next
    case (Suc l)
    with 1 * k show ?thesis by auto
  qed
qed auto

text \<open>
  C27.  Validated interval bands classify every finite number: some band of a validated rule contains it;
  and when no interior bound is left open, exactly one band does, so that the first match of the loop
  is the only one.
\<close>

theorem bands_partition_numbers:
  assumes "list_all validate_bounds bs" and "validate_intervals bs" and "is_finite v"
  shows "band_grade bs v \<noteq> None
     \<and> (interior_bounded bs \<longrightarrow> (\<exists>!i. i < length bs \<and> band_contains (bs ! i) v))"
proof -
  have v: "contiguous bs" "bs \<noteq> []" "ib_maximum (last bs) = None" "above (hd bs) v"
    using assms(2) by (auto simp: validate_intervals_def above_def)
  from bands_cover [OF v(1-3) assms(3) v(4)] have ex: "\<exists>b \<in> set bs. band_contains b v" .
  then obtain i where i: "i < length bs" "band_contains (bs ! i) v" by (auto simp: in_set_conv_nth)
  have "\<exists>!i. i < length bs \<and> band_contains (bs ! i) v" if "interior_bounded bs"
  proof (intro ex1I [of _ i] conjI i)
    fix k assume "k < length bs \<and> band_contains (bs ! k) v"
    with i bands_disjoint [OF v(1) assms(1) that] show "k = i" by (metis linorder_neqE_nat)
  qed
  moreover have "band_grade bs v \<noteq> None" using ex by (auto simp: band_grade_def find_None_iff)
  ultimately show ?thesis by blast
qed

definition demo_bands :: "interval_band list" where
  "demo_bands = [\<lparr>ib_grade = INFERIOR, ib_minimum = None, ib_minimum_inclusive = True,
       ib_maximum = Some (Dec 5 0), ib_maximum_inclusive = False\<rparr>,
     \<lparr>ib_grade = EXCELLENT, ib_minimum = Some (Dec 50 (- 1)), ib_minimum_inclusive = True,
       ib_maximum = None, ib_maximum_inclusive = False\<rparr>]"

theorem bands_partition_numbers_witness:
  "\<exists>!i. i < length demo_bands \<and> band_contains (demo_bands ! i) (Dec 500 (- 2))"
proof -
  have "list_all validate_bounds demo_bands" "validate_intervals demo_bands" "interior_bounded demo_bands"
    by (simp_all add: demo_bands_def validate_bounds_def validate_intervals_def interior_bounded_def same_bound_def dec_eq_def pow10_def)
  with bands_partition_numbers [of demo_bands "Dec 500 (- 2)"] show ?thesis by simp
qed

text \<open>With an open interior bound the bands up to it cover every number, and the next one has no lower bound.\<close>

lemma first_open_bound:
  assumes "\<not> interior_bounded bs"
  obtains k where "Suc k < length bs" "ib_maximum (bs ! k) = None"
proof -
  obtain b where "b \<in> set (butlast bs)" "ib_maximum b = None" using assms by (auto simp: interior_bounded_def list_all_iff)
  then obtain k where "k < length (butlast bs)" "butlast bs ! k = b" by (auto simp: in_set_conv_nth)
  then show ?thesis using \<open>ib_maximum b = None\<close> by (intro that [of k]) (simp_all add: nth_butlast)
qed

lemma contiguous_nth:
  "contiguous bs \<Longrightarrow> Suc k < length bs \<Longrightarrow> same_bound (ib_maximum (bs ! k)) (ib_minimum (bs ! Suc k))"
proof (induction bs arbitrary: k rule: contiguous.induct)
  case (1 p c rest)
  then show ?case by (cases k) auto
qed auto

lemma contiguous_take: "contiguous bs \<Longrightarrow> contiguous (take n bs)"
proof (induction bs arbitrary: n rule: contiguous.induct)
  case (1 p c rest)
  show ?case
  proof (cases n)
    case (Suc m)
    then show ?thesis using 1(1) [of m] 1(2) by (cases m) auto
  qed simp
qed (auto simp: take_Cons')

lemma smaller_number: "is_finite x \<Longrightarrow> \<exists>v. is_finite v \<and> dec_less v x"
proof (cases x)
  case (Dec c e)
  have "0 < pow10 e" by (simp add: pow10_def)
  then have "dec_less (Dec (c - 1) e) x" using Dec by (simp add: dec_less_def)
  then show ?thesis by (intro exI [of _ "Dec (c - 1) e"]) simp
qed simp

text \<open>
  C29.  Open interior bounds make bands overlap: bands that the validator accepts classify every number exactly once if and
  only if every interior bound is present, because with an open one some number lies in two bands and its grade is the one
  that comes first.
\<close>

theorem open_interior_bands_overlap:
  assumes "list_all validate_bounds bs" and "validate_intervals bs"
  shows "(\<exists>i j v. i < j \<and> j < length bs \<and> is_finite v \<and> band_contains (bs ! i) v \<and> band_contains (bs ! j) v) \<longleftrightarrow> \<not> interior_bounded bs"
proof
  assume "\<exists>i j v. i < j \<and> j < length bs \<and> is_finite v \<and> band_contains (bs ! i) v \<and> band_contains (bs ! j) v"
  then show "\<not> interior_bounded bs" using bands_disjoint assms by (auto simp: validate_intervals_def)
next
  assume "\<not> interior_bounded bs"
  then obtain k where k: "Suc k < length bs" "ib_maximum (bs ! k) = None" by (rule first_open_bound)
  have c: "contiguous bs" and first: "ib_minimum (hd bs) = None" using assms(2) by (simp_all add: validate_intervals_def)
  have low: "ib_minimum (bs ! Suc k) = None" using contiguous_nth [OF c k(1)] k(2) by (auto simp: same_bound_def split: option.splits)
  obtain v where v: "is_finite v" "band_contains (bs ! Suc k) v"
  proof (cases "ib_maximum (bs ! Suc k)")
    case None
    then show ?thesis using that [of "Dec 0 0"] low by (simp add: band_contains_def)
  next
    case (Some x)
    have "is_finite x" using assms(1) k(1) Some by (auto simp: list_all_length validate_bounds_def dest!: spec [of _ "Suc k"])
    then show ?thesis using smaller_number that low Some by (auto simp: band_contains_def)
  qed
  let ?front = "take (Suc k) bs"
  have "last ?front = bs ! k" using k(1) by (simp add: take_Suc_conv_app_nth)
  moreover have "hd ?front = hd bs" "?front \<noteq> []" using k(1) by (auto simp: hd_conv_nth)
  ultimately have "\<exists>b \<in> set ?front. band_contains b v"
    using bands_cover [OF contiguous_take [OF c], of "Suc k" v] k(2) first v(1) by (simp add: above_def)
  then obtain i where "i < Suc k" "band_contains (bs ! i) v" using k(1) by (auto simp: in_set_conv_nth)
  then show "\<exists>i j v. i < j \<and> j < length bs \<and> is_finite v \<and> band_contains (bs ! i) v \<and> band_contains (bs ! j) v"
    using k(1) v by blast
qed

theorem open_interior_bands_overlap_witness:
  "\<exists>v. is_finite v \<and> band_contains \<lparr>ib_grade = INFERIOR, ib_minimum = None, ib_minimum_inclusive = True, ib_maximum = None, ib_maximum_inclusive = False\<rparr> v
     \<and> band_contains \<lparr>ib_grade = EXCELLENT, ib_minimum = None, ib_minimum_inclusive = True, ib_maximum = None, ib_maximum_inclusive = False\<rparr> v"
proof -
  let ?bs = "[\<lparr>ib_grade = INFERIOR, ib_minimum = None, ib_minimum_inclusive = True, ib_maximum = None, ib_maximum_inclusive = False\<rparr>,
     \<lparr>ib_grade = EXCELLENT, ib_minimum = None, ib_minimum_inclusive = True, ib_maximum = None, ib_maximum_inclusive = False\<rparr>]"
  have "list_all validate_bounds ?bs" "validate_intervals ?bs" "\<not> interior_bounded ?bs"
    by (simp_all add: validate_bounds_def validate_intervals_def same_bound_def interior_bounded_def)
  then obtain i j v where "i < j" "j < length ?bs" "is_finite v" "band_contains (?bs ! i) v" "band_contains (?bs ! j) v"
    using open_interior_bands_overlap [of ?bs] by blast
  moreover from this have "i = 0" "j = 1" by simp_all
  ultimately show ?thesis by auto
qed

section \<open>Matrix lookups\<close>

lemma rules_by_factor_fold:
  "dict_get (fold (\<lambda>r d. dict_set (fr_factor_id r) r d) rules d) f = Some r \<Longrightarrow>
     r \<in> set rules \<and> fr_factor_id r = f \<or> dict_get d f = Some r"
proof (induction rules arbitrary: d)
  case (Cons a rules)
  from Cons.IH [of "dict_set (fr_factor_id a) a d"] Cons.prems show ?case by (auto split: if_splits)
qed simp

lemma rules_by_factor_Some:
  "dict_get (rules_by_factor rules) f = Some r \<Longrightarrow> r \<in> set rules \<and> fr_factor_id r = f"
  using rules_by_factor_fold [of rules "[]" f r] by (simp add: rules_by_factor_def)

lemma rules_by_factor_None: "dict_get (rules_by_factor rules) f = None \<longleftrightarrow> f \<notin> fr_factor_id ` set rules"
proof -
  have "dict_get (fold (\<lambda>r d. dict_set (fr_factor_id r) r d) rules d) f = None \<longleftrightarrow>
      f \<notin> fr_factor_id ` set rules \<and> dict_get d f = None" for d
    by (induction rules arbitrary: d) auto
  from this [of "[]"] show ?thesis by (simp add: rules_by_factor_def)
qed

lemma classify_value_grade:
  assumes "classify_value fold_text r sd v = Inr g"
  shows "grade_value g \<in> (if fr_kind r = Category_Rule then category_grades r
     else if fr_kind r = Presence_Distance then interval_grades r \<union> category_grades r else interval_grades r)"
proof -
  have iv: "band_grade (fr_intervals r) x = Some g \<Longrightarrow> grade_value g \<in> interval_grades r" for x
    by (auto simp: band_grade_def interval_grades_def find_Some_iff)
  have cv: "category_grade fold_text (fr_categories r) t = Some g \<Longrightarrow> grade_value g \<in> category_grades r" for t
    by (auto simp: category_grade_def category_grades_def find_Some_iff)
  show ?thesis
    using assms iv cv
    by (cases "fr_kind r"; cases "nv_content v")
      (auto simp: classify_value_def classify_number_def Let_def split: if_splits)
qed

definition rule_grades :: "factor_rule \<Rightarrow> string set" where
  "rule_grades r = (if fr_kind r = Category_Rule then category_grades r
     else if fr_kind r = Presence_Distance then interval_grades r \<union> category_grades r else interval_grades r)"

lemma rule_matrix_valid: "validate_definition fold_text r \<Longrightarrow> validate_matrix (fr_correction_matrix r) (rule_grades r)"
  by (cases "fr_kind r") (auto simp: validate_definition_def rule_grades_def)

lemma matrix_cell_exists:
  assumes "validate_matrix rows gs" and "grade_value t \<in> gs" and "grade_value c \<in> gs"
  shows "\<exists>x. matrix_cell rows t c = Some x"
proof -
  obtain row where row: "dict_get rows (grade_value t) = Some row"
    using assms(1,2) by (cases "dict_get rows (grade_value t)") (auto simp: validate_matrix_def map_of_eq_None_iff)
  then have "(grade_value t, row) \<in> set rows" by (rule map_of_SomeD)
  then have "set (map fst row) = gs"
    using assms(1) unfolding validate_matrix_def list_all_iff by (elim conjE) (drule (1) bspec, simp)
  with assms(3) have "grade_value c \<in> fst ` set row" by simp
  then show ?thesis
    using row by (cases "dict_get row (grade_value c)") (auto simp: matrix_cell_def map_of_eq_None_iff)
qed

lemma classify_grade:
  assumes "classify fold_text en r sd x = Inr g"
  shows "grade_value g \<in> rule_grades r"
proof -
  from assms obtain v where "classify_value fold_text r sd v = Inr g"
    by (auto simp: classify_def split: option.splits if_splits)
  from classify_value_grade [OF this] show ?thesis by (simp add: rule_grades_def)
qed

text \<open>
  With a validated rule set the matrix lookup never misses: a factor fails exactly when the rule set
  has no rule for it; otherwise it is verified with both grades and a finite adjustment, or it needs
  review with a reason.
\<close>

theorem validated_rules_never_miss:
  assumes "factor_rule_set_valid fold_text (en_rule_set en)"
  shows "(fv_status (evaluate_pair fold_text en p) = E_FAILED \<longleftrightarrow> fp_factor_id p \<notin> fr_factor_id ` set (frs_rules (en_rule_set en)))
     \<and> (fv_status (evaluate_pair fold_text en p) = E_VERIFIED \<longrightarrow>
          fv_target_grade (evaluate_pair fold_text en p) \<noteq> None \<and> fv_comparable_grade (evaluate_pair fold_text en p) \<noteq> None
          \<and> fv_warnings (evaluate_pair fold_text en p) = []
          \<and> (\<exists>x. fv_adjustment_percent (evaluate_pair fold_text en p) = Some x \<and> is_finite x))"
proof (cases "dict_get (rules_by_factor (frs_rules (en_rule_set en))) (fp_factor_id p)")
  case None
  then have "fp_factor_id p \<notin> fr_factor_id ` set (frs_rules (en_rule_set en))" by (simp add: rules_by_factor_None)
  moreover have "fv_status (evaluate_pair fold_text en p) = E_FAILED" using None by (simp add: evaluate_pair_def del: map_of_eq_None_iff)
  ultimately show ?thesis by simp
next
  case (Some r)
  then have r: "r \<in> set (frs_rules (en_rule_set en))" "fr_factor_id r = fp_factor_id p"
    using rules_by_factor_Some by blast+
  then have valid: "factor_rule_valid fold_text r" using assms by (auto simp: factor_rule_set_valid_def list_all_iff)
  then have m: "validate_matrix (fr_correction_matrix r) (rule_grades r)"
    by (auto simp: factor_rule_valid_def intro: rule_matrix_valid)
  have fin: "matrix_cell (fr_correction_matrix r) t c = Some x \<Longrightarrow> is_finite x" for t c x
    using valid by (force simp: factor_rule_valid_def matrix_cell_def list_all_iff bind_eq_Some_conv dest!: map_of_SomeD)
  have known: "fp_factor_id p \<in> fr_factor_id ` set (frs_rules (en_rule_set en))" using r by (metis imageI)
  have cell: "\<exists>x. matrix_cell (fr_correction_matrix r) t c = Some x"
    if "classify fold_text en r Target_Side (fp_target p) = Inr t" "classify fold_text en r Comparable_Side (fp_comparable p) = Inr c" for t c
    using matrix_cell_exists [OF m classify_grade [OF that(1)] classify_grade [OF that(2)]] by auto
  have eval: "evaluate_pair fold_text en p = evaluate_with_rule fold_text en r p" using Some by (simp add: evaluate_pair_def)
  show ?thesis
  proof (cases "classify fold_text en r Target_Side (fp_target p)")
    case tg: (Inr t)
    show ?thesis
    proof (cases "classify fold_text en r Comparable_Side (fp_comparable p)")
      case (Inr c)
      with cell [OF tg Inr] tg known fin show ?thesis unfolding eval by (auto simp: evaluate_with_rule_def)
    qed (use tg known in \<open>simp add: eval evaluate_with_rule_def\<close>)
  qed (use known in \<open>simp add: eval evaluate_with_rule_def\<close>)
qed

definition demo_rule :: factor_rule where
  "demo_rule = \<lparr>fr_id = ''R1'', fr_factor_id = ''road_width'', fr_kind = Distance_Interval, fr_unit = Some ''m'',
     fr_intervals = demo_bands, fr_categories = [],
     fr_correction_matrix = [(''inferior'', [(''inferior'', Dec 0 0), (''excellent'', Dec (- 5) 0)]),
       (''excellent'', [(''inferior'', Dec 5 0), (''excellent'', Dec 0 0)])],
     fr_critical = True\<rparr>"

definition demo_rule_set :: factor_rule_set where
  "demo_rule_set = \<lparr>frs_rule_set_id = ''RS'', frs_version = ''1'', frs_status = Approved,
     frs_applicability = \<lparr>ap_jurisdiction = ''NTPC'', ap_land_use_category = ''res'', ap_effective_from = None, ap_effective_to = None\<rparr>,
     frs_source_document = \<lparr>rs_document_id = ''D'', rs_content_hash = ''h'', rs_pages = [1]\<rparr>,
     frs_rules = [demo_rule]\<rparr>"

definition demo_observation :: "decimal \<Rightarrow> string \<Rightarrow> factor_observation" where
  "demo_observation x u = \<lparr>ob_raw_text = None, ob_value = Some \<lparr>nv_content = Number_Value x, nv_unit = Some u\<rparr>,
     ob_evidence = [\<lparr>ev_document_id = ''D'', ev_source_file = None, ev_page = 1, ev_block_ids = [], ev_confidence = Dec 9 (- 1),
       ev_bounding_box = None, ev_coordinate_system = None\<rparr>], ob_confidence = Dec 9 (- 1)\<rparr>"

definition demo_request :: factor_evaluation_request where
  "demo_request = \<lparr>fe_case_id = ''CASE'', fe_rule_set_id = ''RS'',
     fe_factors = [\<lparr>fp_factor_id = ''road_width'', fp_target = demo_observation (Dec 6 0) ''m'',
       fp_comparable = demo_observation (Dec 450 0) ''cm''\<rparr>]\<rparr>"

definition demo_engine :: factor_engine where
  "demo_engine = \<lparr>en_rule_set = demo_rule_set, en_minimum_confidence = Dec 85 (- 2), en_confirmed_sides = []\<rparr>"

lemma demo_rule_set_valid: "factor_rule_set_valid id demo_rule_set"
  by (simp add: factor_rule_set_valid_def demo_rule_set_def demo_rule_def factor_rule_valid_def validate_definition_def
      validate_intervals_def demo_bands_def validate_bounds_def same_bound_def dec_eq_def pow10_def validate_dates_def
      validate_unique_rules_def validate_matrix_def interval_grades_def insert_commute)

lemma demo_request_valid: "request_valid demo_request"
  by (simp add: demo_request_def request_valid_def observation_valid_def demo_observation_def evidence_ref_valid_def
      unit_interval_def value_finite_def dec_le_def pow10_def)

lemma demo_evaluate_pair:
  "evaluate_pair id demo_engine (hd (fe_factors demo_request)) =
     \<lparr>fv_factor_id = ''road_width'', fv_target_grade = Some EXCELLENT, fv_comparable_grade = Some INFERIOR,
      fv_adjustment_percent = Some (Dec 5 0), fv_rule_id = Some ''R1'', fv_calculation_trace = Classified_And_Queried,
      fv_status = E_VERIFIED, fv_warnings = []\<rparr>"
  by (simp add: evaluate_pair_def demo_engine_def demo_rule_set_def rules_by_factor_def demo_rule_def demo_request_def
      evaluate_with_rule_def classify_def demo_observation_def classify_value_def classify_number_def normalize_number_def
      length_unit_def dec_less_def dec_eq_def pow10_def band_grade_def demo_bands_def band_contains_def matrix_cell_def
      digits10.simps context_precision_def)

theorem validated_rules_never_miss_witness:
  "fv_target_grade (evaluate_pair id demo_engine (hd (fe_factors demo_request))) \<noteq> None"
  using validated_rules_never_miss [of id demo_engine "hd (fe_factors demo_request)"] demo_rule_set_valid demo_evaluate_pair
  by (simp add: demo_engine_def)

section \<open>Summaries\<close>

lemma summary_status_Max: "summary_status rs = Max (insert E_VERIFIED (fv_status ` set rs))"
proof -
  have "summary_status rs \<in> insert E_VERIFIED (fv_status ` set rs)"
    by (auto simp: summary_status_def Let_def)
  moreover have "s \<le> summary_status rs" if "s \<in> insert E_VERIFIED (fv_status ` set rs)" for s
    using that by (cases s) (auto simp: summary_status_def Let_def less_eq_evaluation_status_def)
  ultimately show ?thesis by (intro Max_eqI [symmetric]) auto
qed

lemma summary_verified_iff: "summary_status rs = E_VERIFIED \<longleftrightarrow> (\<forall>r \<in> set rs. fv_status r = E_VERIFIED)"
proof -
  have "s = E_VERIFIED" if "s \<noteq> E_FAILED" "s \<noteq> E_NEEDS_REVIEW" for s using that by (cases s) auto
  then show ?thesis by (force simp: summary_status_def Let_def image_iff)
qed

text \<open>
  The summary of an evaluation is the most severe status among its factors, in the order verified,
  needs review, failed; a total is reported exactly when every factor is verified; and the results are
  those of the requested factors in the order of the request.
\<close>

theorem summary_is_most_severe:
  assumes "engine_evaluate fold_text to_float en q = Inr res"
  shows "su_status (fw_summary res) = Max (insert E_VERIFIED (fv_status ` set (fw_results res)))
     \<and> (su_total_adjustment_percent (fw_summary res) \<noteq> None \<longleftrightarrow> (\<forall>r \<in> set (fw_results res). fv_status r = E_VERIFIED))
     \<and> map fv_factor_id (fw_results res) = map fp_factor_id (fe_factors q)"
proof -
  have ids: "fv_factor_id (evaluate_pair fold_text en p) = fp_factor_id p" for p
    by (simp add: evaluate_pair_def evaluate_with_rule_def split: option.splits sum.splits prod.splits)
  show ?thesis
    using assms
    by (auto simp: engine_evaluate_def Let_def summary_status_Max [symmetric] summary_verified_iff [symmetric] ids
        simp del: set_map split: if_splits)
qed

text \<open>What a verified factor rests on.\<close>

definition trusted_side :: "factor_engine \<Rightarrow> string \<Rightarrow> side \<Rightarrow> factor_observation \<Rightarrow> bool" where
  "trusted_side en f sd x = (ob_value x \<noteq> None \<and> ob_evidence x \<noteq> []
     \<and> ((f, sd) \<in> set (en_confirmed_sides en) \<or> \<not> dec_less (ob_confidence x) (en_minimum_confidence en)))"

lemma classify_trusted: "classify fold_text en r sd x = Inr g \<Longrightarrow> trusted_side en (fr_factor_id r) sd x"
  by (auto simp: classify_def trusted_side_def split: option.splits if_splits)

lemma evaluate_pair_verified:
  assumes "fv_status (evaluate_pair fold_text en p) = E_VERIFIED"
  obtains r tg cg x where "r \<in> set (frs_rules (en_rule_set en))" "fr_factor_id r = fp_factor_id p"
    "classify fold_text en r Target_Side (fp_target p) = Inr tg"
    "classify fold_text en r Comparable_Side (fp_comparable p) = Inr cg"
    "matrix_cell (fr_correction_matrix r) tg cg = Some x"
    "fv_adjustment_percent (evaluate_pair fold_text en p) = Some x"
proof -
  obtain r where r: "dict_get (rules_by_factor (frs_rules (en_rule_set en))) (fp_factor_id p) = Some r"
    using assms by (auto simp: evaluate_pair_def split: option.splits)
  then have e: "evaluate_pair fold_text en p = evaluate_with_rule fold_text en r p" by (simp add: evaluate_pair_def)
  from assms [unfolded e] obtain tg cg x where
    "classify fold_text en r Target_Side (fp_target p) = Inr tg"
    "classify fold_text en r Comparable_Side (fp_comparable p) = Inr cg"
    "matrix_cell (fr_correction_matrix r) tg cg = Some x"
    by (cases "classify fold_text en r Target_Side (fp_target p)"; cases "classify fold_text en r Comparable_Side (fp_comparable p)")
      (auto simp: evaluate_with_rule_def split: option.splits)
  moreover from this have "fv_adjustment_percent (evaluate_pair fold_text en p) = Some x" by (simp add: e evaluate_with_rule_def)
  ultimately show ?thesis using that rules_by_factor_Some [OF r] by blast
qed

text \<open>
  A verified total is grounded: both sides of every factor have a value, evidence and either a human
  confirmation or enough confidence; each adjustment is the cell of that factor's matrix at the two
  grades; and the total is the float of the decimal sum of those cells, in the order of the request.
\<close>

theorem verified_total_is_grounded:
  assumes "engine_evaluate fold_text to_float en q = Inr res" and "su_status (fw_summary res) = E_VERIFIED"
  shows "(\<forall>p \<in> set (fe_factors q). trusted_side en (fp_factor_id p) Target_Side (fp_target p)
            \<and> trusted_side en (fp_factor_id p) Comparable_Side (fp_comparable p))
     \<and> (\<exists>cells. su_total_adjustment_percent (fw_summary res) = Some (to_float (dec_sum cells))
          \<and> list_all2 (\<lambda>p x. \<exists>r \<in> set (frs_rules (en_rule_set en)). fr_factor_id r = fp_factor_id p
               \<and> (\<exists>tg cg. classify fold_text en r Target_Side (fp_target p) = Inr tg
                    \<and> classify fold_text en r Comparable_Side (fp_comparable p) = Inr cg
                    \<and> matrix_cell (fr_correction_matrix r) tg cg = Some x)) (fe_factors q) cells)"
proof -
  let ?ev = "evaluate_pair fold_text en"
  have res: "fw_summary res = \<lparr>su_total_adjustment_percent = Some (to_float (dec_sum (map (adjustment_decimal \<circ> ?ev) (fe_factors q)))),
        su_status = E_VERIFIED\<rparr>"
    and all: "p \<in> set (fe_factors q) \<Longrightarrow> fv_status (?ev p) = E_VERIFIED" for p
    using assms by (auto simp: engine_evaluate_def Let_def summary_verified_iff split: if_splits)
  have "trusted_side en (fp_factor_id p) Target_Side (fp_target p) \<and> trusted_side en (fp_factor_id p) Comparable_Side (fp_comparable p)"
    if "p \<in> set (fe_factors q)" for p
    using evaluate_pair_verified [OF all [OF that]] classify_trusted by metis
  moreover have "\<exists>r \<in> set (frs_rules (en_rule_set en)). fr_factor_id r = fp_factor_id p
       \<and> (\<exists>tg cg. classify fold_text en r Target_Side (fp_target p) = Inr tg
            \<and> classify fold_text en r Comparable_Side (fp_comparable p) = Inr cg
            \<and> matrix_cell (fr_correction_matrix r) tg cg = Some (adjustment_decimal (?ev p)))"
    if "p \<in> set (fe_factors q)" for p
    by (rule evaluate_pair_verified [OF all [OF that]]) (auto simp: adjustment_decimal_def)
  ultimately show ?thesis
    unfolding res by (intro conjI exI [of _ "map (adjustment_decimal \<circ> ?ev) (fe_factors q)"])
      (auto simp: list_all2_conv_all_nth)
qed

lemma demo_evaluate:
  "engine_evaluate id id demo_engine demo_request = Inr \<lparr>fw_case_id = ''CASE'', fw_rule_set_id = ''RS'', fw_rule_version = ''1'',
     fw_context = None, fw_case_version = None, fw_source_hashes = [], fw_results = [evaluate_pair id demo_engine (hd (fe_factors demo_request))],
     fw_summary = \<lparr>su_total_adjustment_percent = Some (Dec 5 0), su_status = E_VERIFIED\<rparr>\<rparr>"
proof -
  have l: "fe_factors demo_request = [hd (fe_factors demo_request)]" by (simp add: demo_request_def)
  have "fe_rule_set_id demo_request = frs_rule_set_id (en_rule_set demo_engine)" "frs_version (en_rule_set demo_engine) = ''1''"
    "frs_rule_set_id (en_rule_set demo_engine) = ''RS''" "fe_case_id demo_request = ''CASE''"
    by (simp_all add: demo_request_def demo_engine_def demo_rule_set_def)
  then show ?thesis
    by (subst engine_evaluate_def, subst (1) l)
      (simp add: demo_evaluate_pair summary_status_def adjustment_decimal_def dec_sum_def dec_add_def digits10.simps context_precision_def)
qed

theorem summary_is_most_severe_witness:
  "\<exists>res. engine_evaluate id id demo_engine demo_request = Inr res \<and> su_total_adjustment_percent (fw_summary res) \<noteq> None
     \<and> su_status (fw_summary res) = Max (insert E_VERIFIED (fv_status ` set (fw_results res)))"
  using summary_is_most_severe [OF demo_evaluate] demo_evaluate by simp

theorem verified_total_is_grounded_witness:
  "trusted_side demo_engine ''road_width'' Target_Side (demo_observation (Dec 6 0) ''m'')"
  using verified_total_is_grounded [OF demo_evaluate] by (simp add: demo_request_def)

section \<open>Units\<close>

lemma pow10_add: "pow10 (a + b) = pow10 a * pow10 b"
proof (cases "0 \<le> b")
  case True
  with pow10_add_nat [of a "nat b"] show ?thesis by (simp add: pow10_def)
next
  case False
  with pow10_add_nat [of "a + b" "nat (- b)"] have "pow10 a = 10 ^ nat (- b) * pow10 (a + b)" by simp
  moreover have "pow10 b = 1 / 10 ^ nat (- b)" using False by (simp add: pow10_def)
  ultimately show ?thesis by simp
qed

lemma band_contains_cong:
  "is_finite v \<Longrightarrow> is_finite w \<Longrightarrow> dec_value v = dec_value w \<Longrightarrow> band_contains b v = band_contains b w"
  by (simp add: band_contains_def dec_less_def dec_eq_def split: option.splits)

lemma normalize_length:
  assumes "fits x" and "length_unit u = Some a" and "length_unit expected = Some b"
  shows "\<exists>v. normalize_number x (Some u) (Some expected) = Inr v \<and> is_finite v \<and> dec_value v * pow10 b = dec_value x * pow10 a"
proof (cases x)
  case (Dec c e)
  have "fits (Dec (c * 1) (e + a))" "fits (Dec c (e + a - b))" using assms(1) Dec by simp_all
  then have "dec_div_pow10 (dec_mul x (Dec 1 a)) b = Dec c (e + a - b)"
    using Dec by (simp del: dec_fix.simps fits.simps)
  then have "normalize_number x (Some u) (Some expected) = Inr (if u = expected then x else Dec c (e + a - b))"
    using assms Dec by (simp add: normalize_number_def)
  moreover have "pow10 (e + a - b) * pow10 b = pow10 e * pow10 a" by (simp flip: pow10_add)
  ultimately show ?thesis using assms Dec by (auto simp: mult.assoc)
qed (use assms in simp)

text \<open>The length of a unit in metres, as the unit is defined and not as the engine tabulates it.\<close>

definition metres :: "string \<Rightarrow> rat option" where
  "metres u = (if u = ''km'' then Some 1000 else if u = ''m'' then Some 1 else if u = ''cm'' then Some (1 / 100)
     else if u = ''mm'' then Some (1 / 1000) else None)"

lemma metres_unit: "metres u = Some k \<Longrightarrow> \<exists>a. length_unit u = Some a \<and> pow10 a = k"
  by (auto simp: metres_def length_unit_def pow10_def split: if_splits)

text \<open>
  C28.  Units do not matter: a number of kilometres, metres, centimetres or millimetres is classified by the length it
  measures.  Two texts of the same length in metres, within the 28 digits of the decimal context, get the same grade from
  every rule that expects one of these units, and a text in another unit than the expected one gets the grade of any number
  that measures that length in the expected unit.
\<close>

theorem classification_ignores_units:
  assumes "fr_unit r = Some expected" and "metres expected = Some m" and "metres u = Some k" and "metres w = Some l" and "fits x" and "fits y"
    and "dec_value x * k = dec_value y * l"
  shows "classify_number r sd x (Some u) = classify_number r sd y (Some w)
    \<and> (\<forall>z. is_finite z \<and> dec_value z * m = dec_value x * k \<longrightarrow> classify_number r sd x (Some u) = classify_number r sd z (Some expected))"
proof -
  obtain a b e where t: "length_unit u = Some a" "pow10 a = k" "length_unit w = Some b" "pow10 b = l" "length_unit expected = Some e" "pow10 e = m"
    using metres_unit assms(2-4) by metis
  have same: "classify_number r sd p (Some v) = classify_number r sd q (Some v')"
    if "normalize_number p (Some v) (fr_unit r) = Inr n" "is_finite n" "normalize_number q (Some v') (fr_unit r) = Inr n'" "is_finite n'"
      "dec_value n = dec_value n'" for p v q v' n n'
  proof -
    have "(\<lambda>b. band_contains b n) = (\<lambda>b. band_contains b n')" using band_contains_cong that(2,4,5) by blast
    then show ?thesis using that(1,3,5) by (simp add: classify_number_def band_grade_def dec_less_def)
  qed
  obtain n where n: "normalize_number x (Some u) (fr_unit r) = Inr n" "is_finite n" "dec_value n * m = dec_value x * k"
    using normalize_length [OF assms(5) t(1,5)] assms(1) t by auto
  obtain n' where n': "normalize_number y (Some w) (fr_unit r) = Inr n'" "is_finite n'" "dec_value n' * m = dec_value y * l"
    using normalize_length [OF assms(6) t(3,5)] assms(1) t by auto
  have cancel: "dec_value i = dec_value j" if "dec_value i * m = dec_value j * m" for i j
    using that t(6) by (metis mult_right_cancel pow10_nonneg(2))
  have "classify_number r sd x (Some u) = classify_number r sd y (Some w)"
    by (rule same [OF n(1,2) n'(1,2)]) (rule cancel, simp add: n(3) n'(3) assms(7))
  moreover have "classify_number r sd x (Some u) = classify_number r sd z (Some expected)" if "is_finite z" "dec_value z * m = dec_value x * k" for z
  proof (rule same [OF n(1,2) _ that(1)])
    show "normalize_number z (Some expected) (fr_unit r) = Inr z" using assms(1) that(1) by (simp add: normalize_number_def)
    show "dec_value n = dec_value z" by (rule cancel) (simp add: n(3) that(2))
  qed
  ultimately show ?thesis by blast
qed

theorem classification_ignores_units_witness:
  "classify_number demo_rule Target_Side (Dec 45 (- 4)) (Some ''km'') = classify_number demo_rule Target_Side (Dec 450 0) (Some ''cm'')
   \<and> classify_number demo_rule Target_Side (Dec 45 (- 4)) (Some ''km'') = classify_number demo_rule Target_Side (Dec 45 (- 1)) (Some ''m'')"
proof -
  have "fr_unit demo_rule = Some ''m''" "metres ''m'' = Some 1" "metres ''km'' = Some 1000" "metres ''cm'' = Some (1 / 100)"
    "fits (Dec 45 (- 4))" "fits (Dec 450 0)" "dec_value (Dec 45 (- 4)) * 1000 = dec_value (Dec 450 0) * (1 / 100)"
    by (simp_all add: demo_rule_def metres_def digits10.simps context_precision_def pow10_def)
  note * = classification_ignores_units [OF this, of Target_Side]
  moreover have "is_finite (Dec 45 (- 1))" "dec_value (Dec 45 (- 1)) * 1 = dec_value (Dec 45 (- 4)) * 1000" by (simp_all add: pow10_def)
  ultimately show ?thesis by blast
qed

section \<open>The completion gate\<close>

lemma recheck_clean:
  "recheck ok claimed expected = ([], bad) \<longleftrightarrow>
     \<not> bad \<and> ok claimed \<and> (\<exists>e. expected = Inr e \<and> fw_case_id claimed = fw_case_id e \<and> fw_results claimed = fw_results e
        \<and> fw_summary claimed = fw_summary e \<and> su_status (fw_summary e) = E_VERIFIED)"
  by (cases expected) (auto simp: recheck_def Let_def)

text \<open>
  C2.  The completion gate is exact.  A report that may complete the review is issued if and only if the
  facts were supplied, their independent recomputation succeeds and is verified, the claimed result has
  the same case, factor results and summary as the recomputation, cites this rule set and version, lists
  no factor twice and covers every critical factor of the rule set.
\<close>

theorem completion_gate_exact:
  "(\<exists>rep. verify_review fold_text to_float ok result rs facts minimum confirmed = Inr rep \<and> can_complete rep) \<longleftrightarrow>
     ok result
     \<and> (\<exists>q e. facts = Some q \<and> recalculate fold_text to_float rs q minimum confirmed = Inr e
          \<and> su_status (fw_summary e) = E_VERIFIED \<and> fw_case_id result = fw_case_id e
          \<and> fw_results result = fw_results e \<and> fw_summary result = fw_summary e)
     \<and> fw_rule_set_id result = frs_rule_set_id rs \<and> fw_rule_version result = frs_version rs
     \<and> distinct (map fv_factor_id (fw_results result))
     \<and> (\<forall>r \<in> set (frs_rules rs). fr_critical r \<longrightarrow> fr_factor_id r \<in> set (map fv_factor_id (fw_results result)))"
proof (cases "unit_interval minimum")
  case False
  then show ?thesis
    by (auto simp: verify_review_def validate_minimum_confidence_def recalculate_def make_engine_def
        ensure_def split: if_splits)
next
  case True
  have m: "map (\<lambda>r. Missing_Critical (fr_factor_id r)) (filter P xs) = [] \<longleftrightarrow> (\<forall>x \<in> set xs. \<not> P x)" for P xs
    by (auto simp: filter_empty_conv)
  show ?thesis
  proof (cases facts)
    case None
    with True show ?thesis by (simp add: verify_review_def validate_minimum_confidence_def can_complete_def Let_def)
  next
    case (Some q)
    obtain errs bad where eb: "recheck ok result (recalculate fold_text to_float rs q minimum confirmed) = (errs, bad)"
      by (cases "recheck ok result (recalculate fold_text to_float rs q minimum confirmed)")
    from recheck_clean [of ok result "recalculate fold_text to_float rs q minimum confirmed" False] eb have
      c: "errs = [] \<and> \<not> bad \<longleftrightarrow> ok result \<and> (\<exists>e. recalculate fold_text to_float rs q minimum confirmed = Inr e
          \<and> fw_case_id result = fw_case_id e \<and> fw_results result = fw_results e
          \<and> fw_summary result = fw_summary e \<and> su_status (fw_summary e) = E_VERIFIED)" by auto
    have "(\<exists>rep. verify_review fold_text to_float ok result rs facts minimum confirmed = Inr rep \<and> can_complete rep) \<longleftrightarrow>
        errs = [] \<and> \<not> bad \<and> fw_rule_set_id result = frs_rule_set_id rs \<and> fw_rule_version result = frs_version rs
        \<and> distinct (map fv_factor_id (fw_results result))
        \<and> (\<forall>r \<in> set (frs_rules rs). fr_critical r \<longrightarrow> fr_factor_id r \<in> set (map fv_factor_id (fw_results result)))"
      using True Some eb
      by (auto simp: verify_review_def validate_minimum_confidence_def can_complete_def Let_def m filter_empty_conv)
    then show ?thesis using c Some by auto
  qed
qed

text \<open>
  The gate accepts the engine's own verified work: for a request without repeated factors that
  covers the critical ones, the engine's verified result passes its own gate.
\<close>

theorem engine_result_completes:
  assumes "recalculate fold_text to_float rs q minimum confirmed = Inr e" and "su_status (fw_summary e) = E_VERIFIED"
    and "ok e" and "distinct (map fp_factor_id (fe_factors q))"
    and "\<forall>r \<in> set (frs_rules rs). fr_critical r \<longrightarrow> fr_factor_id r \<in> fp_factor_id ` set (fe_factors q)"
  shows "verify_review fold_text to_float ok e rs (Some q) minimum confirmed = Inr \<lparr>vr_status = E_VERIFIED, vr_critical_errors = []\<rparr>"
proof -
  have ids: "fv_factor_id (evaluate_pair fold_text en p) = fp_factor_id p" for en p
    by (simp add: evaluate_pair_def evaluate_with_rule_def split: option.splits sum.splits prod.splits)
  have f: "fv_factor_id \<circ> evaluate_pair fold_text en = fp_factor_id" for en by (simp add: fun_eq_iff ids)
  have e: "map fv_factor_id (fw_results e) = map fp_factor_id (fe_factors q)" "fw_rule_set_id e = frs_rule_set_id rs"
     "fw_rule_version e = frs_version rs" "validate_minimum_confidence minimum = Inr minimum"
    using assms(1) by (auto simp: recalculate_def make_engine_def engine_evaluate_def Let_def f
        validate_minimum_confidence_def bind_result_eq_Inr split: if_splits)
  have "set (map fv_factor_id (fw_results e)) = fp_factor_id ` set (fe_factors q)" unfolding e by simp
  moreover have "recheck ok e (recalculate fold_text to_float rs q minimum confirmed) = ([], False)"
    using assms(1,2,3) by (simp add: recheck_clean)
  moreover have "filter (\<lambda>r. fr_critical r \<and> fr_factor_id r \<notin> fp_factor_id ` set (fe_factors q)) (frs_rules rs) = []"
    using assms(5) by (auto simp: filter_empty_conv)
  ultimately show ?thesis using assms(4) by (simp add: verify_review_def e del: set_map)
qed

lemma demo_recalculate:
  "recalculate id id demo_rule_set demo_request (Dec 85 (- 2)) [] = engine_evaluate id id demo_engine demo_request"
proof -
  have "make_engine demo_rule_set (Dec 85 (- 2)) [] = Inr demo_engine"
    by (simp add: make_engine_def demo_engine_def demo_rule_set_def validate_minimum_confidence_def unit_interval_def dec_le_def pow10_def)
  then show ?thesis using demo_rule_set_valid demo_request_valid by (simp add: recalculate_def ensure_def)
qed

theorem engine_result_completes_witness:
  "\<exists>e. verify_review id id (\<lambda>_. True) e demo_rule_set (Some demo_request) (Dec 85 (- 2)) [] =
     Inr \<lparr>vr_status = E_VERIFIED, vr_critical_errors = []\<rparr>"
  by (intro exI, rule engine_result_completes [OF demo_recalculate [THEN trans, OF demo_evaluate]])
    (simp_all add: demo_request_def demo_rule_set_def demo_rule_def)

theorem completion_gate_exact_witness:
  "\<exists>result rep. verify_review id id (\<lambda>_. True) result demo_rule_set (Some demo_request) (Dec 85 (- 2)) [] = Inr rep \<and> can_complete rep
     \<and> fw_rule_set_id result = frs_rule_set_id demo_rule_set \<and> distinct (map fv_factor_id (fw_results result))"
proof -
  obtain e where e: "engine_evaluate id id demo_engine demo_request = Inr e" using demo_evaluate by blast
  have "su_status (fw_summary e) = E_VERIFIED" "fw_rule_set_id e = frs_rule_set_id demo_rule_set" "fw_rule_version e = frs_version demo_rule_set"
    "map fv_factor_id (fw_results e) = [''road_width'']"
    using e demo_evaluate demo_evaluate_pair by (auto simp: demo_rule_set_def)
  moreover have "\<forall>r \<in> set (frs_rules demo_rule_set). fr_factor_id r = ''road_width''" by (simp add: demo_rule_set_def demo_rule_def)
  ultimately have "\<exists>rep. verify_review id id (\<lambda>_. True) e demo_rule_set (Some demo_request) (Dec 85 (- 2)) [] = Inr rep \<and> can_complete rep"
    using e by (subst completion_gate_exact) (auto simp: demo_recalculate simp del: set_map)
  with \<open>fw_rule_set_id e = _\<close> \<open>map fv_factor_id (fw_results e) = _\<close> show ?thesis by (intro exI [of _ e]) auto
qed

end
