(* ===== verification/Case_Safety.thy ===== *)
theory Case_Safety
  imports Case_Review Factor_Safety
begin

text \<open>
  Soundness of the case review: what a verified case rests on, phase by phase, and what its arithmetic
  means on the accepted numbers.
\<close>

section \<open>Findings that are all verified\<close>

definition all_verified :: "review_finding list \<Rightarrow> bool" where
  "all_verified fs = list_all (\<lambda>f. rf_status f = E_VERIFIED) fs"

named_theorems verified_iff "when all findings of a phase are verified"

lemma all_verified_simps [simp, verified_iff]:
  "all_verified []"
  "all_verified (f # fs) \<longleftrightarrow> rf_status f = E_VERIFIED \<and> all_verified fs"
  "all_verified (fs @ gs) \<longleftrightarrow> all_verified fs \<and> all_verified gs"
  "all_verified (concat fss) \<longleftrightarrow> (\<forall>fs \<in> set fss. all_verified fs)"
  by (simp_all add: all_verified_def list_all_iff) blast

lemma all_verified_only_if [simp]: "all_verified (only_if b f) \<longleftrightarrow> (b \<longrightarrow> rf_status f = E_VERIFIED)"
  by (simp add: only_if_def)

lemma add_simps [simp]:
  "rf_status (add i k s e) = s" "rf_id (add i k s e) = i" "rf_status (add_at i k s c f e) = s" "rf_id (add_at i k s c f e) = i"
  by (simp_all add: add_def add_at_def)

lemma all_verified_map: "all_verified (map f xs) \<longleftrightarrow> (\<forall>x \<in> set xs. rf_status (f x) = E_VERIFIED)"
  by (simp add: all_verified_def list_all_iff)

lemma finish_verified:
  "cr_status (finish_case pl ob so required comparisons findings) = E_VERIFIED \<longleftrightarrow>
     all_verified findings \<and> set required \<subseteq> rf_id ` set findings"
proof -
  have "list_ex (\<lambda>f. rf_status f = E_FAILED) findings \<Longrightarrow> \<not> all_verified findings"
    by (force simp: all_verified_def list_all_iff list_ex_iff)
  moreover have "all_verified findings \<longleftrightarrow> filter (\<lambda>f. rf_status f \<noteq> E_VERIFIED) findings = []"
    by (auto simp: all_verified_def list_all_iff filter_empty_conv)
  moreover have "all_verified findings \<Longrightarrow> filter (\<lambda>f. rf_status f = E_VERIFIED) findings = findings"
    by (auto simp: all_verified_def list_all_iff filter_id_conv)
  ultimately show ?thesis
    by (cases "all_verified findings") (auto simp: finish_case_def finish_status_def Let_def simp del: set_filter)
qed

lemma trust_findings_verified [verified_iff]:
  "all_verified (trust_findings authorized matching bad) \<longleftrightarrow> authorized \<and> matching \<and> bad = []"
proof -
  have "all_verified (map (\<lambda>(i, refs). add i ''source_purpose'' E_NEEDS_REVIEW refs) bad) \<longleftrightarrow> bad = []"
    by (cases bad) (simp_all split: prod.splits)
  then show ?thesis by (auto simp: trust_findings_def)
qed

lemma inventory_findings_verified [verified_iff]:
  "all_verified (inventory_findings g iv facts) \<longleftrightarrow>
     set (map ov_slot_id (cf_observed facts)) \<subseteq> set (map sl_id (iv_slots iv))
     \<and> set (map ep_context (cf_pairs facts)) \<subseteq> set (map ic_context (iv_contexts iv))
     \<and> (\<forall>s \<in> set (iv_slots iv). slot_binding iv s)
     \<and> (\<forall>d \<in> set (sy_documents g). page_coverage iv d \<and> table_coverage iv d)
     \<and> (\<forall>c \<in> set (iv_empty_columns iv). citations_valid g (ec_evidence c))
     \<and> iv_unresolved iv = [] \<and> cf_unresolved facts = [] \<and> iv_unsupported iv = []"
proof -
  have m: "all_verified (map (\<lambda>_. add Inventory_Id k E_NEEDS_REVIEW []) xs) \<longleftrightarrow> xs = []" for k and xs :: "string list"
    by (cases xs) simp_all
  show ?thesis
    unfolding inventory_findings_def all_verified_simps m
    by (simp add: ball_conj_distrib conj_ac)
qed

lemma binding_findings_verified [verified_iff]:
  "all_verified (binding_findings g iv facts) \<longleftrightarrow> (\<forall>s \<in> set (valid_slots iv). slot_bound g facts s)"
  by (auto simp: binding_findings_def)

section \<open>One context\<close>

lemma verify_review_verified:
  assumes "verify_review fold_text to_float ok result rs (Some q) minimum confirmed = Inr rep" and "vr_status rep = E_VERIFIED"
  shows "su_status (fw_summary result) = E_VERIFIED \<and> can_complete rep"
proof -
  obtain errs bad where eb: "recheck ok result (recalculate fold_text to_float rs q minimum confirmed) = (errs, bad)"
    by (cases "recheck ok result (recalculate fold_text to_float rs q minimum confirmed)")
  have "errs = [] \<and> \<not> bad \<and> can_complete rep"
    using assms eb by (auto simp: verify_review_def validate_minimum_confidence_def can_complete_def Let_def split: if_splits)
  with eb recheck_clean [of ok result "recalculate fold_text to_float rs q minimum confirmed" bad] show ?thesis by auto
qed

lemma scan_factor_clean:
  assumes "scan_factor env a g cx rs pairs f = Inr sc" and "all_verified (fs_findings sc)"
  shows "\<exists>p \<in> set pairs. fp_factor_id (ep_pair p) = f \<and> f \<in> fr_factor_id ` set (frs_rules rs) \<and> pair_reliable env a g p = Inr True
     \<and> fs_pairs sc = [effective_pair p] \<and> fs_reliable sc = [f]"
proof -
  from assms obtain p where p: "find (\<lambda>p. fp_factor_id (ep_pair p) = f) pairs = Some p" "f \<in> fr_factor_id ` set (frs_rules rs)"
    by (auto simp: scan_factor_def split: option.splits if_splits)
  with assms obtain b where b: "pair_reliable env a g p = Inr b" by (auto simp: scan_factor_def)
  moreover from this p assms have b "fs_pairs sc = [effective_pair p]" "fs_reliable sc = [f]"
    by (auto simp: scan_factor_def Let_def split: if_splits)
  moreover have "p \<in> set pairs" "fp_factor_id (ep_pair p) = f" using p(1) by (auto simp: find_Some_iff)
  ultimately show ?thesis using p(2) by auto
qed

lemma scan_factors_clean:
  assumes "scan_factors env a g cx rs pairs fids = Inr sc" and "all_verified (fs_findings sc)"
  shows "map fp_factor_id (fs_pairs sc) = fids \<and> fs_reliable sc = fids
     \<and> (\<forall>f \<in> set fids. \<exists>p \<in> set pairs. fp_factor_id (ep_pair p) = f \<and> pair_reliable env a g p = Inr True)"
proof -
  from assms(1) obtain ss where ss: "map_result (scan_factor env a g cx rs pairs) fids = Inr ss"
    and sc: "fs_findings sc = concat (map fs_findings ss)" "fs_pairs sc = concat (map fs_pairs ss)" "fs_reliable sc = concat (map fs_reliable ss)"
    by (auto simp: scan_factors_def)
  from ss have "list_all2 (\<lambda>f s. scan_factor env a g cx rs pairs f = Inr s) fids ss" by (simp add: map_result_Inr)
  moreover have "\<forall>s \<in> set ss. all_verified (fs_findings s)" using assms(2) sc(1) by simp
  ultimately have "map fp_factor_id (concat (map fs_pairs ss)) = fids \<and> concat (map fs_reliable ss) = fids
     \<and> (\<forall>f \<in> set fids. \<exists>p \<in> set pairs. fp_factor_id (ep_pair p) = f \<and> pair_reliable env a g p = Inr True)"
  proof (induction rule: list_all2_induct)
    case (Cons f fs s ss)
    from scan_factor_clean [OF Cons.hyps(1)] Cons.prems obtain p where "p \<in> set pairs" "fp_factor_id (ep_pair p) = f"
      "pair_reliable env a g p = Inr True" "fs_pairs s = [effective_pair p]" "fs_reliable s = [f]" by auto
    with Cons.IH Cons.prems show ?case by (auto simp: effective_pair_def)
  qed simp
  then show ?thesis using sc by simp
qed

text \<open>What a verified context rests on.\<close>

definition context_grounded :: "review_env \<Rightarrow> bool \<Rightarrow> source_registry \<Rightarrow> review_policy \<Rightarrow> case_facts \<Rightarrow> inventory_context \<Rightarrow>
    factor_review_result \<Rightarrow> bool" where
  "context_grounded env a g pl facts entry result =
     (\<exists>s. filter (applicable (pl_identity pl) (ic_context entry)) (pl_rule_sets pl) = [s] \<and> rule_source_valid g entry s
        \<and> critical_factors (sc_rules s) \<subseteq> set (ic_factor_ids entry)
        \<and> fw_rule_set_id result = frs_rule_set_id (sc_rules s) \<and> fw_rule_version result = frs_version (sc_rules s)
        \<and> fw_context result = Some (ic_context entry)
        \<and> map fv_factor_id (fw_results result) = ic_factor_ids entry \<and> distinct (ic_factor_ids entry)
        \<and> su_status (fw_summary result) = E_VERIFIED \<and> (\<forall>r \<in> set (fw_results result). fv_status r = E_VERIFIED)
        \<and> (\<forall>f \<in> set (ic_factor_ids entry). \<exists>p \<in> set (cf_pairs facts). ep_context p = ic_context entry
             \<and> fp_factor_id (ep_pair p) = f \<and> pair_reliable env a g p = Inr True))"

lemma evaluate_pair_id: "fv_factor_id (evaluate_pair fold_text en p) = fp_factor_id p"
  by (simp add: evaluate_pair_def evaluate_with_rule_def split: option.splits sum.splits prod.splits)

lemma engine_evaluate_fields:
  assumes "engine_evaluate fold_text to_float en q = Inr res"
  shows "map fv_factor_id (fw_results res) = map fp_factor_id (fe_factors q)"
    "fw_rule_set_id res = frs_rule_set_id (en_rule_set en)" "fw_rule_version res = frs_version (en_rule_set en)"
    "su_status (fw_summary res) = summary_status (fw_results res)"
  using assms by (auto simp: engine_evaluate_def Let_def evaluate_pair_id split: if_splits)

lemma compare_context_grounded:
  assumes "compare_context env rv a g pl pairs slots entry rs = Inr out" and "all_verified (co_findings out)"
  shows "\<exists>result. co_comparison out = Some result \<and> critical_factors rs \<subseteq> set (ic_factor_ids entry)
     \<and> fw_rule_set_id result = frs_rule_set_id rs \<and> fw_rule_version result = frs_version rs \<and> fw_context result = Some (ic_context entry)
     \<and> map fv_factor_id (fw_results result) = ic_factor_ids entry
     \<and> su_status (fw_summary result) = E_VERIFIED \<and> (\<forall>r \<in> set (fw_results result). fv_status r = E_VERIFIED)
     \<and> (\<forall>f \<in> set (ic_factor_ids entry). \<exists>p \<in> set pairs. fp_factor_id (ep_pair p) = f \<and> pair_reliable env a g p = Inr True)"
proof -
  let ?cx = "ic_context entry" and ?rs = "rs\<lparr>frs_status := Approved\<rparr>" and ?min = "rv_minimum_confidence rv"
  from assms(1) obtain scan where scan: "scan_factors env a g ?cx rs pairs (ic_factor_ids entry) = Inr scan"
    by (auto simp: compare_context_def Let_def)
  let ?q = "\<lparr>fe_case_id = ci_case_id (pl_identity pl), fe_rule_set_id = frs_rule_set_id rs, fe_factors = fs_pairs scan\<rparr>"
  from assms(1) scan obtain en ev rep where en: "make_engine ?rs ?min (fs_confirmed scan) = Inr en"
    and ev: "engine_evaluate (env_fold_text env) (env_to_float env) en ?q = Inr ev"
    by (auto simp: compare_context_def Let_def)
  let ?res = "ev\<lparr>fw_context := Some ?cx, fw_case_version := Some (ci_version (pl_identity pl)), fw_source_hashes := source_hashes g\<rparr>"
  from assms(1) scan en ev obtain rep where
    rep: "verify_review (env_fold_text env) (env_to_float env) (env_well_formed env) ?res ?rs (Some ?q) ?min (fs_confirmed scan) = Inr rep"
    and out: "co_findings out = coverage_findings ?cx entry rs pairs @ fs_findings scan
        @ [add_at (Context_Id ?cx) ''calculation'' (vr_status rep) (Some ?cx) None []] @ map (factor_finding ?cx pairs) (fw_results ?res)"
      "co_comparison out = Some ?res"
    by (auto simp: compare_context_def Let_def)
  from assms(2) have v: "all_verified (coverage_findings ?cx entry rs pairs)" "all_verified (fs_findings scan)" "vr_status rep = E_VERIFIED"
    by (simp_all add: out(1))
  have crit: "critical_factors rs \<subseteq> set (ic_factor_ids entry)" using v(1) by (auto simp: coverage_findings_def)
  have su: "su_status (fw_summary ?res) = E_VERIFIED" using verify_review_verified [OF rep v(3)] by simp
  have rules: "en_rule_set en = ?rs" using en by (auto simp: make_engine_def split: if_splits)
  note f = engine_evaluate_fields [OF ev]
  have "\<forall>r \<in> set (fw_results ev). fv_status r = E_VERIFIED" using su f(4) by (simp add: summary_verified_iff)
  with scan_factors_clean [OF scan v(2)] crit su f rules out(2) show ?thesis by (intro exI [of _ ?res]) simp
qed

lemma review_context_grounded:
  assumes "review_context env rv a g pl facts slots entry = Inr out" and "all_verified (co_findings out)"
  shows "\<exists>result. co_comparison out = Some result \<and> context_grounded env a g pl facts entry result"
proof -
  let ?cx = "ic_context entry"
  from assms obtain s where s: "filter (applicable (pl_identity pl) ?cx) (pl_rule_sets pl) = [s]" "rule_source_valid g entry s"
    "distinct (ic_factor_ids entry)"
    "compare_context env rv a g pl (filter (\<lambda>p. ep_context p = ?cx) (cf_pairs facts)) slots entry (sc_rules s) = Inr out"
    by (auto simp: review_context_def stopped_def Let_def split: list.splits if_splits)
  from compare_context_grounded [OF s(4) assms(2)] s(1-3) show ?thesis
    unfolding context_grounded_def by (elim exE) (rule exI, rule conjI, blast, rule exI [of _ s], auto)
qed

section \<open>The arithmetic loop\<close>

lemma list_all2_member: "list_all2 P xs ys \<Longrightarrow> x \<in> set xs \<Longrightarrow> \<exists>y \<in> set ys. P x y"
  by (induction rule: list_all2_induct) auto

lemma check_comparison_Inr:
  assumes "check_comparison tr c = Inr d"
  shows "cmp_check d = c \<and> (\<exists>xs. list_all2 (\<lambda>i x. dict_get tr i = Some x) (ac_inputs c) xs
     \<and> calculate (ac_kind c) xs (Some (ac_quantum c)) = Inr (cmp_expected d))"
  using assms by (auto simp: check_comparison_def map_result_Inr simp del: map_of_eq_Some_iff)

lemma target_checks_clean:
  assumes "target_checks ae tr cs = Inr (ds, ready, fs)" and "all_verified fs"
  shows "ready \<and> fs = [] \<and> list_all2 (\<lambda>c d. check_reason ae tr c = None \<and> check_comparison tr c = Inr d) cs ds"
  using assms
proof (induction cs arbitrary: ds ready fs)
  case (Cons c cs)
  then have "check_reason ae tr c = None" by (auto split: option.splits)
  with Cons show ?case by (auto simp: list_all2_Cons1)
qed simp

text \<open>What a processed target rests on, relative to the numbers accepted so far.\<close>

definition check_holds :: "(string, decimal) dict \<Rightarrow> arithmetic_check \<Rightarrow> bool" where
  "check_holds tr c = (\<exists>xs e x. list_all2 (\<lambda>i x. dict_get tr i = Some x) (ac_inputs c) xs
     \<and> calculate (ac_kind c) xs (Some (ac_quantum c)) = Inr e \<and> dict_get tr (ac_target c) = Some x
     \<and> comparison_matches \<lparr>cmp_check = c, cmp_expected = e\<rparr> x)"

definition slot_holds :: "case_facts \<Rightarrow> bool \<Rightarrow> (string, decimal) dict \<Rightarrow> review_slot \<Rightarrow> bool" where
  "slot_holds facts trust tr s = (\<exists>v w calculated ds. observation_of facts (sl_id s) = Some v
     \<and> validate_slot s v calculated ds True trust = Inr w \<and> vs_status w = E_VERIFIED
     \<and> (\<forall>x. trusted_number w = Some x \<longrightarrow> dict_get tr (sl_id s) = Some x))"

lemma check_holds_mono: "check_holds tr c \<Longrightarrow> map_of tr \<subseteq>\<^sub>m map_of tr' \<Longrightarrow> check_holds tr' c"
  unfolding check_holds_def
  by (elim exE conjE, intro exI conjI)
    (erule list_all2_mono, (auto simp: map_le_def dom_def simp del: map_of_eq_Some_iff)[1], auto simp: map_le_def dom_def simp del: map_of_eq_Some_iff)

lemma slot_holds_mono: "slot_holds facts trust tr s \<Longrightarrow> map_of tr \<subseteq>\<^sub>m map_of tr' \<Longrightarrow> slot_holds facts trust tr' s"
  unfolding slot_holds_def by (fastforce simp: map_le_def dom_def simp del: map_of_eq_Some_iff)

lemma slot_holds_trusted: "slot_holds facts trust tr s \<Longrightarrow> trust \<and> slot_holds facts True tr s"
proof -
  assume h: "slot_holds facts trust tr s"
  then obtain v w calculated ds where "validate_slot s v calculated ds True trust = Inr w" "vs_status w = E_VERIFIED"
    unfolding slot_holds_def by blast
  then have trust by (rule validate_slot_verified)
  with h show ?thesis by simp
qed

definition target_holds :: "arithmetic_env \<Rightarrow> (string, decimal) dict \<Rightarrow> string \<Rightarrow> bool" where
  "target_holds ae tr t = ((\<forall>c \<in> set (ae_checks ae). ac_target c = t \<longrightarrow> check_holds tr c)
     \<and> (\<forall>s. slot_named (ae_bound ae) t = Some s \<longrightarrow> slot_holds (ae_facts ae) (ae_source_trust ae) tr s))"

lemma target_holds_mono: "target_holds ae tr t \<Longrightarrow> map_of tr \<subseteq>\<^sub>m map_of tr' \<Longrightarrow> target_holds ae tr' t"
  by (auto simp: target_holds_def intro: check_holds_mono slot_holds_mono)

lemma slot_named_id: "slot_named slots t = Some s \<Longrightarrow> s \<in> set slots \<and> sl_id s = t"
  by (auto simp: slot_named_def find_Some_iff)

lemma slot_named_unique: "distinct (map sl_id slots) \<Longrightarrow> s \<in> set slots \<Longrightarrow> slot_named slots (sl_id s) = Some s"
  by (induction slots) (auto simp: slot_named_def image_iff)

lemma constraint_verified:
  assumes "rf_status (constraint_finding w d) = E_VERIFIED" and "vs_status w = E_VERIFIED"
  shows "\<exists>x. trusted_number w = Some x \<and> comparison_matches d x"
proof (cases "vs_candidate w")
  case (Some x)
  with assms show ?thesis by (cases x) (auto simp: constraint_finding_def matches_candidate_def trusted_number_def split: if_splits)
qed (use assms in \<open>simp add: constraint_finding_def\<close>)

lemma process_target_grounded:
  assumes "process_target ae t st = Inr st'" and "dict_get (as_trusted st) t = None" and "all_verified (as_findings st')"
  shows "all_verified (as_findings st) \<and> map_of (as_trusted st) \<subseteq>\<^sub>m map_of (as_trusted st') \<and> target_holds ae (as_trusted st') t
     \<and> (\<forall>k. k \<noteq> t \<longrightarrow> dict_get (as_trusted st') k = dict_get (as_trusted st) k)"
proof -
  let ?cs = "filter (\<lambda>c. ac_target c = t) (ae_checks ae)"
  obtain ds applied fs where tc: "target_checks ae (as_trusted st) ?cs = Inr (ds, applied, fs)"
    using assms(1) by (auto simp: process_target_def Let_def)
  show ?thesis
  proof (cases "slot_named (ae_bound ae) t")
    case None
    with assms(1) tc have st': "st' = st\<lparr>as_findings := as_findings st @ fs\<rparr>" by (simp add: process_target_def)
    with assms(3) have "list_all2 (\<lambda>c d. check_reason ae (as_trusted st) c = None \<and> check_comparison (as_trusted st) c = Inr d) ?cs ds"
      using target_checks_clean [OF tc] by simp
    moreover have "check_reason ae (as_trusted st) c \<noteq> None" if "c \<in> set ?cs" for c using that None by (auto simp: check_reason_def)
    ultimately have "?cs = []" by (cases ?cs) (auto simp: list_all2_Cons1)
    then show ?thesis using st' assms(3) None by (auto simp: target_holds_def filter_empty_conv)
  next
    case (Some s)
    with assms(1) tc obtain v where v: "observation_of (ae_facts ae) t = Some v"
      by (cases "observation_of (ae_facts ae) t") (auto simp: process_target_def)
    let ?ready = "\<not> (ae_cyclic ae \<and> ?cs \<noteq> []) \<and> applied"
    from assms(1) tc Some v obtain w where w: "validate_slot s v (dict_get (ae_expected ae) t) ds ?ready (ae_source_trust ae) = Inr w"
      and st': "st' = \<lparr>as_trusted = (case trusted_number w of None \<Rightarrow> as_trusted st | Some x \<Rightarrow> dict_set t x (as_trusted st)),
        as_findings = as_findings st @ fs @ map (constraint_finding w) ds @ [add_at (Observed_Id t) (vs_kind w) (vs_status w) (Some (sl_context s)) (sl_factor_id s) (sl_evidence s)]\<rparr>"
      by (auto simp: process_target_def Let_def simp del: map_of_eq_Some_iff)
    from assms(3) have av: "all_verified (as_findings st)" "all_verified fs" "\<forall>d \<in> set ds. rf_status (constraint_finding w d) = E_VERIFIED"
      "vs_status w = E_VERIFIED" by (simp_all add: st' all_verified_map)
    have ready: "?ready" by (rule validate_slot_verified [OF w av(4)])
    have le: "map_of (as_trusted st) \<subseteq>\<^sub>m map_of (as_trusted st')"
      using assms(2) by (auto simp: st' map_le_def dom_def split: option.splits simp del: map_of_eq_Some_iff map_of_eq_None_iff)
    have same: "\<forall>k. k \<noteq> t \<longrightarrow> dict_get (as_trusted st') k = dict_get (as_trusted st) k"
      by (auto simp: st' split: option.splits)
    have tn: "trusted_number w = Some x \<Longrightarrow> dict_get (as_trusted st') t = Some x" for x by (simp add: st')
    have l2: "list_all2 (\<lambda>c d. check_reason ae (as_trusted st) c = None \<and> check_comparison (as_trusted st) c = Inr d) ?cs ds"
      using target_checks_clean [OF tc av(2)] by simp
    have "check_holds (as_trusted st') c" if "c \<in> set (ae_checks ae)" "ac_target c = t" for c
    proof -
      from that obtain d where d: "d \<in> set ds" "check_comparison (as_trusted st) c = Inr d"
        using list_all2_member [OF l2, of c] by auto
      from check_comparison_Inr [OF d(2)] obtain xs where xs: "cmp_check d = c" "list_all2 (\<lambda>i x. dict_get (as_trusted st) i = Some x) (ac_inputs c) xs"
        "calculate (ac_kind c) xs (Some (ac_quantum c)) = Inr (cmp_expected d)" by blast
      from constraint_verified [OF bspec [OF av(3) d(1)] av(4)] obtain x where x: "trusted_number w = Some x" "comparison_matches d x" by blast
      have "list_all2 (\<lambda>i x. dict_get (as_trusted st') i = Some x) (ac_inputs c) xs"
        using xs(2) by (rule list_all2_mono) (use le in \<open>auto simp: map_le_def dom_def simp del: map_of_eq_Some_iff\<close>)
      moreover have "comparison_matches \<lparr>cmp_check = c, cmp_expected = cmp_expected d\<rparr> x" using x(2) xs(1) by (simp add: comparison_matches_def)
      ultimately show ?thesis unfolding check_holds_def using xs(3) tn [OF x(1)] that(2) by blast
    qed
    moreover have "slot_holds (ae_facts ae) (ae_source_trust ae) (as_trusted st') s"
      unfolding slot_holds_def using v w av(4) tn slot_named_id [OF Some] ready by (intro exI conjI) auto
    ultimately have "target_holds ae (as_trusted st') t" using Some by (simp add: target_holds_def)
    with av(1) le same show ?thesis by blast
  qed
qed

lemma process_target_prefix: "process_target ae t st = Inr st' \<Longrightarrow> \<exists>fs. as_findings st' = as_findings st @ fs"
  by (cases "slot_named (ae_bound ae) t"; cases "observation_of (ae_facts ae) t")
    (auto simp: process_target_def Let_def)

lemma process_targets_prefix: "process_targets ae ts st = Inr st' \<Longrightarrow> \<exists>fs. as_findings st' = as_findings st @ fs"
proof (induction ts arbitrary: st)
  case (Cons t ts)
  then obtain st1 where 1: "process_target ae t st = Inr st1" "process_targets ae ts st1 = Inr st'" by auto
  from process_target_prefix [OF 1(1)] Cons.IH [OF 1(2)] show ?case by auto
qed simp

lemma process_targets_grounded:
  assumes "process_targets ae ts st = Inr st'" and "distinct ts" and "\<forall>t \<in> set ts. dict_get (as_trusted st) t = None"
    and "all_verified (as_findings st')"
  shows "all_verified (as_findings st) \<and> map_of (as_trusted st) \<subseteq>\<^sub>m map_of (as_trusted st')
     \<and> (\<forall>t \<in> set ts. target_holds ae (as_trusted st') t)"
  using assms
proof (induction ts arbitrary: st)
  case (Cons t ts)
  then obtain st1 where 1: "process_target ae t st = Inr st1" "process_targets ae ts st1 = Inr st'" by auto
  have av: "all_verified (as_findings st1)" using process_targets_prefix [OF 1(2)] Cons.prems(4) by auto
  note g = process_target_grounded [OF 1(1) _ av]
  have "dict_get (as_trusted st) t = None" using Cons.prems(3) by simp
  note g = g [OF this]
  have "\<forall>u \<in> set ts. dict_get (as_trusted st1) u = None"
  proof
    fix u assume "u \<in> set ts"
    with Cons.prems(2,3) have "u \<noteq> t" "dict_get (as_trusted st) u = None" by auto
    with g show "dict_get (as_trusted st1) u = None" by auto
  qed
  with Cons.IH [OF 1(2)] Cons.prems(2,4) have ih: "map_of (as_trusted st1) \<subseteq>\<^sub>m map_of (as_trusted st')" "\<forall>u \<in> set ts. target_holds ae (as_trusted st') u"
    by auto
  then show ?case using g by (auto intro: map_le_trans target_holds_mono)
qed simp

section \<open>The order of targets\<close>

lemma graph_of_keys:
  "dict_ok (foldl (\<lambda>g c. dict_set (ac_target c) (fromkeys (predecessors g (ac_target c) @ ac_inputs c)) g) g cs)
     \<and> fst ` set (foldl (\<lambda>g c. dict_set (ac_target c) (fromkeys (predecessors g (ac_target c) @ ac_inputs c)) g) g cs)
       = fst ` set g \<union> ac_target ` set cs" if "dict_ok g"
  using that
proof (induction cs arbitrary: g)
  case (Cons c cs)
  have "fst ` set (dict_set k v g) = insert k (fst ` set g)" for k and v :: "string list"
    by (simp add: dom_update)
  with Cons.IH [of "dict_set (ac_target c) (fromkeys (predecessors g (ac_target c) @ ac_inputs c)) g"] Cons.prems
  show ?case by auto
qed simp

lemma target_order:
  assumes "distinct (map sl_id slots)"
  shows "distinct (target_order (graph_of slots checks))"
    "sl_id ` set slots \<union> ac_target ` set checks \<subseteq> set (target_order (graph_of slots checks))"
proof -
  have ok: "dict_ok (map (\<lambda>s. (sl_id s, [] :: string list)) slots)" using assms by (simp add: comp_def)
  have k: "dict_ok (graph_of slots checks)" "fst ` set (graph_of slots checks) = sl_id ` set slots \<union> ac_target ` set checks"
    using graph_of_keys [OF ok, of checks] by (auto simp: graph_of_def image_image)
  then have n: "sl_id ` set slots \<union> ac_target ` set checks \<subseteq> set (graph_nodes (graph_of slots checks))"
    using keys_are_nodes [of _ "graph_of slots checks"] by auto
  show "distinct (target_order (graph_of slots checks))"
    using k(1) static_order_Some [OF k(1)] by (auto simp: target_order_def split: option.splits)
  show "sl_id ` set slots \<union> ac_target ` set checks \<subseteq> set (target_order (graph_of slots checks))"
    using n k static_order_Some [OF k(1)] by (auto simp: target_order_def split: option.splits)
qed

lemma graph_of_predecessors:
  "set (predecessors (graph_of slots checks) n) = (\<Union>c \<in> {c \<in> set checks. ac_target c = n}. set (ac_inputs c))"
proof -
  have step: "set (predecessors (foldl (\<lambda>g c. dict_set (ac_target c) (fromkeys (predecessors g (ac_target c) @ ac_inputs c)) g) g cs) n)
      = set (predecessors g n) \<union> (\<Union>c \<in> {c \<in> set cs. ac_target c = n}. set (ac_inputs c))" for g cs
  proof (induction cs arbitrary: g)
    case (Cons c cs)
    have "set (predecessors (dict_set (ac_target c) (fromkeys (predecessors g (ac_target c) @ ac_inputs c)) g) n)
        = set (predecessors g n) \<union> (if ac_target c = n then set (ac_inputs c) else {})"
      by (auto simp: predecessors_def)
    then show ?case unfolding foldl_Cons Cons.IH by auto
  qed simp
  have "predecessors (map (\<lambda>s. (sl_id s, [] :: string list)) slots) n = []"
    by (auto simp: predecessors_def split: option.splits dest: map_of_SomeD)
  then show ?thesis unfolding graph_of_def step by simp
qed

lemma graph_of_ok: "distinct (map sl_id slots) \<Longrightarrow> dict_ok (graph_of slots checks)"
  using graph_of_keys [of "map (\<lambda>s. (sl_id s, [] :: string list)) slots" checks] by (simp add: graph_of_def comp_def)

text \<open>
  C32.  Checks are evaluated after what they depend on.  The order of targets lists every slot and every
  target, nothing twice; unless a cycle was found, each input of a check stands before the check's
  target; and a cycle is found if and only if some non-empty set of names has a check for each member
  with an input in the set.
\<close>

theorem checks_follow_their_inputs:
  assumes "distinct (map sl_id slots)"
  shows "distinct (target_order (graph_of slots checks))
     \<and> sl_id ` set slots \<union> ac_target ` set checks \<subseteq> set (target_order (graph_of slots checks))
     \<and> (static_order (graph_of slots checks) \<noteq> None \<longrightarrow> (\<forall>c \<in> set checks. \<forall>i \<in> set (ac_inputs c).
          \<exists>us ws. target_order (graph_of slots checks) = us @ ac_target c # ws \<and> i \<in> set us))
     \<and> (static_order (graph_of slots checks) = None \<longleftrightarrow>
          (\<exists>S. S \<noteq> {} \<and> (\<forall>n \<in> S. \<exists>c \<in> set checks. ac_target c = n \<and> set (ac_inputs c) \<inter> S \<noteq> {})))"
proof -
  let ?g = "graph_of slots checks"
  note topo = static_order_topological [OF graph_of_ok [OF assms, of checks]]
  have before: "\<exists>us ws. target_order ?g = us @ ac_target c # ws \<and> i \<in> set us"
    if some: "static_order ?g = Some xs" and c: "c \<in> set checks" "i \<in> set (ac_inputs c)" for c i xs
  proof -
    have o: "target_order ?g = xs" using some by (simp add: target_order_def)
    then have "ac_target c \<in> set xs" using target_order(2) [OF assms, of checks] c(1) by auto
    then obtain k where k: "k < length xs" "xs ! k = ac_target c" by (auto simp: in_set_conv_nth)
    have "i \<in> set (predecessors ?g (xs ! k))" unfolding graph_of_predecessors using c k(2) by auto
    then have "i \<in> set (take k xs)" using topo some k(1) by auto
    then show ?thesis unfolding o using id_take_nth_drop [OF k(1)] k(2) by auto
  qed
  have cyc: "(\<forall>n \<in> S. set (predecessors ?g n) \<inter> S \<noteq> {}) \<longleftrightarrow> (\<forall>n \<in> S. \<exists>c \<in> set checks. ac_target c = n \<and> set (ac_inputs c) \<inter> S \<noteq> {})" for S
  proof (intro ball_cong refl)
    fix n show "set (predecessors ?g n) \<inter> S \<noteq> {} \<longleftrightarrow> (\<exists>c \<in> set checks. ac_target c = n \<and> set (ac_inputs c) \<inter> S \<noteq> {})"
      unfolding graph_of_predecessors by blast
  qed
  have nodes: "S \<subseteq> set (graph_nodes ?g)" if "\<forall>n \<in> S. set (predecessors ?g n) \<inter> S \<noteq> {}" for S
    using that predecessors_nodes keys_are_nodes by blast
  have "static_order ?g = None \<longleftrightarrow> (\<exists>S. S \<noteq> {} \<and> S \<subseteq> set (graph_nodes ?g) \<and> (\<forall>n \<in> S. set (predecessors ?g n) \<inter> S \<noteq> {}))"
    by (rule topo [THEN conjunct2])
  also have "\<dots> \<longleftrightarrow> (\<exists>S. S \<noteq> {} \<and> (\<forall>n \<in> S. set (predecessors ?g n) \<inter> S \<noteq> {}))"
    by (intro ex_cong1 conj_cong refl) (use nodes in blast)
  finally have none: "static_order ?g = None \<longleftrightarrow> (\<exists>S. S \<noteq> {} \<and> (\<forall>n \<in> S. \<exists>c \<in> set checks. ac_target c = n \<and> set (ac_inputs c) \<inter> S \<noteq> {}))"
    unfolding cyc .
  have some: "\<forall>c \<in> set checks. \<forall>i \<in> set (ac_inputs c). \<exists>us ws. target_order ?g = us @ ac_target c # ws \<and> i \<in> set us"
    if "static_order ?g \<noteq> None" using that before by blast
  show ?thesis using target_order [OF assms, of checks] some by (intro conjI none impI)
qed

section \<open>A verified case\<close>

lemma phases_verified:
  assumes "review_inventory_phases env rv pl facts g claimed bad trust = Inr res" and "cr_status res = E_VERIFIED"
  obtains outcomes ae st st' where
    "map_result (review_context env rv (material_authorized rv pl facts) g pl facts (valid_slots (pl_inventory pl))) (iv_contexts (pl_inventory pl)) = Inr outcomes"
    "cr_comparisons res = comparisons_of outcomes"
    "all_verified trust" "all_verified (inventory_findings g (pl_inventory pl) facts)" "all_verified (binding_findings g (pl_inventory pl) facts)"
    "\<forall>out \<in> set outcomes. all_verified (co_findings out)" "claimed = None \<or> claimed = Some (cr_comparisons res)"
    "process_targets ae (target_order (graph_of (valid_slots (pl_inventory pl)) (iv_checks (pl_inventory pl)))) st = Inr st'"
    "as_trusted st = []" "all_verified (as_findings st')"
    "ae_facts ae = facts" "ae_checks ae = iv_checks (pl_inventory pl)" "ae_bound ae = bound_slots g (pl_inventory pl) facts"
proof -
  let ?iv = "pl_inventory pl"
  from assms(1) obtain outcomes where o:
    "map_result (review_context env rv (material_authorized rv pl facts) g pl facts (valid_slots ?iv)) (iv_contexts ?iv) = Inr outcomes"
    by (auto simp: review_inventory_phases_def Let_def)
  let ?fs = "phase_findings env ?iv facts g claimed trust outcomes"
  let ?ae = "arithmetic_env_of g ?iv facts outcomes (source_trust (material_authorized rv pl facts) bad ?fs)"
  from assms(1) o obtain st' where p: "process_targets ?ae (target_order (graph_of (valid_slots ?iv) (iv_checks ?iv))) \<lparr>as_trusted = [], as_findings = ?fs\<rparr> = Inr st'"
    and res: "res = finish_case pl (origin_by_finding_id ?iv) (source_origin_ids ?iv bad) (case_required ?iv claimed bad) (comparisons_of outcomes) (as_findings st')"
    by (auto simp: review_inventory_phases_def Let_def)
  have av: "all_verified (as_findings st')" and cmp: "cr_comparisons res = comparisons_of outcomes"
    using assms(2) unfolding res finish_verified by (simp_all add: finish_case_def Let_def)
  have "all_verified ?fs" using process_targets_prefix [OF p] av by auto
  then have all: "all_verified trust" "all_verified (inventory_findings g ?iv facts)" "all_verified (binding_findings g ?iv facts)"
    "\<forall>out \<in> set outcomes. all_verified (co_findings out)"
    and c: "claimed = None \<or> claimed = Some (cr_comparisons res)"
    unfolding cmp by (auto simp: phase_findings_def claimed_finding_def split: if_splits option.splits)
  show ?thesis by (rule that [OF o cmp all c p _ av]) (simp_all add: arithmetic_env_of_def)
qed

lemma comparisons_of_member: "out \<in> set outcomes \<Longrightarrow> co_comparison out = Some r \<Longrightarrow> r \<in> set (comparisons_of outcomes)"
  by (force simp: comparisons_of_def List.map_filter_def)

lemma review_case_verified:
  assumes "review_case env rv pl facts g claimed forms criteria = Inr res" and "cr_status res = E_VERIFIED"
  shows "review_material_valid (env_fold_text env) \<lparr>rm_policy = pl, rm_facts = facts\<rparr>" "unique_documents g"
    "cf_identity facts = pl_identity pl" "\<not> duplicate_identities (pl_inventory pl) facts"
    "\<exists>matching bad. registry_matches g (pl_registry pl) = Inr matching \<and> source_violations g forms criteria pl facts = Inr bad
       \<and> review_inventory_phases env rv pl facts g claimed bad (trust_findings (material_authorized rv pl facts) matching bad) = Inr res"
  using assms by (auto simp: review_case_def Let_def finish_verified split: if_splits)

text \<open>
  C1.  A verified case is sound.  The material is valid, belongs to this case and was authorized exactly as
  it is; the current sources are those of the policy and every one is used for its purpose; the
  inventory has no duplicates and nothing is unresolved or unsupported; every inventoried context has
  exactly one applicable, sourced rule set and a comparison whose factors are exactly the inventoried
  ones, all verified on reliable evidence; and supplied results, if any, are the recomputed ones.
\<close>

theorem verified_case_is_sound:
  assumes "review_case env rv pl facts g claimed forms criteria = Inr res" and "cr_status res = E_VERIFIED"
  shows "review_material_valid (env_fold_text env) \<lparr>rm_policy = pl, rm_facts = facts\<rparr>
     \<and> cf_identity facts = pl_identity pl \<and> material_authorized rv pl facts
     \<and> registry_matches g (pl_registry pl) = Inr True \<and> source_violations g forms criteria pl facts = Inr []
     \<and> \<not> duplicate_identities (pl_inventory pl) facts
     \<and> iv_unresolved (pl_inventory pl) = [] \<and> cf_unresolved facts = [] \<and> iv_unsupported (pl_inventory pl) = []
     \<and> (\<forall>entry \<in> set (iv_contexts (pl_inventory pl)). \<exists>result \<in> set (cr_comparisons res). context_grounded env True g pl facts entry result)
     \<and> (claimed = None \<or> claimed = Some (cr_comparisons res))"
proof -
  note r = review_case_verified [OF assms]
  from r(5) obtain matching bad where mb: "registry_matches g (pl_registry pl) = Inr matching" "source_violations g forms criteria pl facts = Inr bad"
    "review_inventory_phases env rv pl facts g claimed bad (trust_findings (material_authorized rv pl facts) matching bad) = Inr res" by blast
  from mb(3) assms(2) obtain outcomes where o:
    "map_result (review_context env rv (material_authorized rv pl facts) g pl facts (valid_slots (pl_inventory pl))) (iv_contexts (pl_inventory pl)) = Inr outcomes"
    "cr_comparisons res = comparisons_of outcomes"
    "all_verified (trust_findings (material_authorized rv pl facts) matching bad)" "all_verified (inventory_findings g (pl_inventory pl) facts)"
    "\<forall>out \<in> set outcomes. all_verified (co_findings out)" "claimed = None \<or> claimed = Some (cr_comparisons res)"
    by (rule phases_verified)
  from o(3) have t: "material_authorized rv pl facts" "matching" "bad = []" by (simp_all add: trust_findings_verified)
  have "\<exists>result \<in> set (cr_comparisons res). context_grounded env True g pl facts entry result"
    if "entry \<in> set (iv_contexts (pl_inventory pl))" for entry
  proof -
    from map_result_member [OF o(1) that] obtain out where out: "out \<in> set outcomes"
      "review_context env rv (material_authorized rv pl facts) g pl facts (valid_slots (pl_inventory pl)) entry = Inr out" by blast
    from review_context_grounded [OF out(2)] o(5) out(1) obtain result where
      "co_comparison out = Some result" "context_grounded env (material_authorized rv pl facts) g pl facts entry result" by blast
    with out(1) t(1) show ?thesis by (auto simp: o(2) intro: comparisons_of_member)
  qed
  then show ?thesis using r(1,3,4) mb(1,2) t o(4,6) by (simp add: inventory_findings_verified)
qed

text \<open>
  C4.  The arithmetic of a verified case holds on accepted numbers.  There is one assignment of numbers to
  slots such that every arithmetic check, applied to the numbers of its inputs, gives a value within the
  check's tolerance of the number of its target; and every inventoried slot has an observation anchored
  in the same source cells whose validation succeeded, with dependencies ready and sources trusted, on
  the number assigned to it.
\<close>

theorem verified_case_arithmetic_holds:
  assumes "review_case env rv pl facts g claimed forms criteria = Inr res" and "cr_status res = E_VERIFIED"
  shows "\<exists>numbers. (\<forall>c \<in> set (iv_checks (pl_inventory pl)). check_holds numbers c)
     \<and> (\<forall>s \<in> set (iv_slots (pl_inventory pl)). slot_bound g facts s \<and> slot_holds facts True numbers s)"
proof -
  note r = review_case_verified [OF assms]
  let ?iv = "pl_inventory pl"
  from r(5) obtain matching bad where mb: "review_inventory_phases env rv pl facts g claimed bad (trust_findings (material_authorized rv pl facts) matching bad) = Inr res"
    by blast
  from mb assms(2) obtain ae st st' where p:
    "all_verified (inventory_findings g ?iv facts)" "all_verified (binding_findings g ?iv facts)"
    "process_targets ae (target_order (graph_of (valid_slots ?iv) (iv_checks ?iv))) st = Inr st'" "as_trusted st = []" "all_verified (as_findings st')"
    "ae_facts ae = facts" "ae_checks ae = iv_checks ?iv" "ae_bound ae = bound_slots g ?iv facts" by (rule phases_verified)
  have valid: "valid_slots ?iv = iv_slots ?iv" using p(1) by (auto simp: inventory_findings_verified valid_slots_def filter_id_conv)
  have bound: "bound_slots g ?iv facts = iv_slots ?iv" "\<forall>s \<in> set (iv_slots ?iv). slot_bound g facts s"
    using p(2) by (auto simp: binding_findings_verified valid bound_slots_def filter_id_conv)
  have d: "distinct (map sl_id (iv_slots ?iv))" using r(4) by (simp add: duplicate_identities_def)
  note ord = target_order [OF d, of "iv_checks ?iv"]
  from process_targets_grounded [OF p(3)] ord(1) p(4,5) valid
  have h: "\<forall>t \<in> set (target_order (graph_of (iv_slots ?iv) (iv_checks ?iv))). target_holds ae (as_trusted st') t" by simp
  have checks: "check_holds (as_trusted st') c" if "c \<in> set (iv_checks ?iv)" for c
    using h ord(2) that p(7) by (auto simp: target_holds_def)
  have slots: "slot_holds facts (ae_source_trust ae) (as_trusted st') s" if "s \<in> set (iv_slots ?iv)" for s
  proof -
    have "slot_named (iv_slots ?iv) (sl_id s) = Some s" using d that by (simp add: slot_named_unique)
    moreover have "target_holds ae (as_trusted st') (sl_id s)" using h ord(2) that by blast
    ultimately show ?thesis using p(6,8) bound(1) by (simp add: target_holds_def)
  qed
  have "slot_holds facts True (as_trusted st') s" if "s \<in> set (iv_slots ?iv)" for s
    using slot_holds_trusted [OF slots [OF that]] by simp
  with checks bound(2) show ?thesis by blast
qed

end
