(* ===== verification/Case_Example.thy ===== *)
theory Case_Example
  imports Case_Safety
begin

text \<open>
  A small case that the review verifies: one context, one factor measured on both sides, a present
  adjustment, and a blank total that an arithmetic check derives.  It shows that the hypotheses of the
  soundness theorems can hold.
\<close>

section \<open>Sources\<close>

definition ex_hash :: "char \<Rightarrow> digest" where
  "ex_hash c = replicate 64 c"

definition ex_region :: "string \<Rightarrow> region_kind \<Rightarrow> int \<Rightarrow> string \<Rightarrow> source_region" where
  "ex_region i k y t = \<lparr>sr_id = i, sr_kind = k, sr_bbox = (Dec 1 0, Dec y 0, Dec 9 0, Dec (y + 1) 0), sr_text = t,
     sr_table_id = None, sr_row = None, sr_column = None, sr_selection = None\<rparr>"

definition ex_document :: "string \<Rightarrow> char \<Rightarrow> document_role \<Rightarrow> source_region list \<Rightarrow> source_document" where
  "ex_document i h role regions = \<lparr>sd_document_id = i, sd_uri = ''file:///'' @ i, sd_content_hash = ex_hash h, sd_version = ''1'', sd_role = role,
     sd_document_date = None,
     sd_pages = [\<lparr>sp_number = 1, sp_width = Dec 10 0, sp_height = Dec 10 0, sp_rotation = 0,
       sp_crop_box = (Dec 0 0, Dec 0 0, Dec 10 0, Dec 10 0), sp_has_text = True, sp_regions = regions\<rparr>]\<rparr>"

definition ex_registry :: source_registry where
  "ex_registry = \<lparr>sy_documents =
     [ex_document ''F'' (CHR ''a'') Forms [ex_region ''r1'' Text_Region 1 ''6'', ex_region ''r2'' Text_Region 2 ''4'',
        ex_region ''r3'' Cell_Region 3 ''5'', ex_region ''r4'' Cell_Region 4 []],
      ex_document ''K'' (CHR ''b'') Criteria [ex_region ''k1'' Text_Region 1 ''rules'']]\<rparr>"

definition ex_cite :: "string \<Rightarrow> char \<Rightarrow> string \<Rightarrow> int \<Rightarrow> string \<Rightarrow> source_citation" where
  "ex_cite d h r y t = \<lparr>ct_document_id = d, ct_content_hash = ex_hash h, ct_version = ''1'', ct_page = 1, ct_region_id = r,
     ct_bbox = (Dec 1 0, Dec y 0, Dec 9 0, Dec (y + 1) 0), ct_excerpt = t\<rparr>"

section \<open>Policy and facts\<close>

definition ex_context :: comparison_context where
  "ex_context = \<lparr>cx_scope = Regional, cx_target_id = ''T'', cx_comparable_id = ''C''\<rparr>"

definition ex_identity :: case_identity where
  "ex_identity = \<lparr>ci_case_id = ''CASE'', ci_version = ''1'', ci_district = ''D'', ci_zone = ''Z'', ci_land_use_category = ''L'',
     ci_effective_date = 100\<rparr>"

definition ex_rules :: factor_rule_set where
  "ex_rules = demo_rule_set\<lparr>frs_status := Candidate,
     frs_applicability := \<lparr>ap_jurisdiction = ''D'', ap_land_use_category = ''L'', ap_effective_from = Some 1, ap_effective_to = None\<rparr>,
     frs_source_document := \<lparr>rs_document_id = ''K'', rs_content_hash = ex_hash (CHR ''b''), rs_pages = [1]\<rparr>\<rparr>"

definition ex_slot :: "string \<Rightarrow> string option \<Rightarrow> slot_value \<Rightarrow> source_citation \<Rightarrow> review_slot" where
  "ex_slot i f v c = \<lparr>sl_id = i, sl_context = ex_context, sl_factor_id = f, sl_value = v, sl_derivable_blank = True, sl_evidence = [c]\<rparr>"

definition ex_check :: arithmetic_check where
  "ex_check = \<lparr>ac_id = ''sum'', ac_kind = Sum_Check, ac_inputs = [''s1''], ac_target = ''s2'', ac_quantum = Dec 1 (- 2), ac_tolerance = Dec 0 0,
     ac_evidence = [ex_cite ''K'' (CHR ''b'') ''k1'' 1 ''rules'']\<rparr>"

definition ex_inventory :: review_inventory where
  "ex_inventory = \<lparr>iv_contexts = [\<lparr>ic_context = ex_context, ic_factor_ids = [''road_width''], ic_evidence = [ex_cite ''F'' (CHR ''a'') ''r1'' 1 ''6'']\<rparr>],
     iv_slots = [ex_slot ''s1'' (Some ''road_width'') Adjustment_Percent (ex_cite ''F'' (CHR ''a'') ''r3'' 3 ''5''),
       ex_slot ''s2'' None Total (ex_cite ''F'' (CHR ''a'') ''r4'' 4 [])],
     iv_checks = [ex_check], iv_empty_columns = [], iv_inspected_pages = [(''F'', [1]), (''K'', [1])], iv_inspected_tables = [],
     iv_unresolved = [], iv_unsupported = []\<rparr>"

definition ex_policy :: review_policy where
  "ex_policy = \<lparr>pl_identity = ex_identity, pl_registry = ex_registry, pl_inventory = ex_inventory,
     pl_rule_sets = [\<lparr>sc_context = ex_context, sc_rules = ex_rules, sc_source_version = ''1'', sc_zone = ''Z'',
       sc_evidence = [ex_cite ''K'' (CHR ''b'') ''k1'' 1 ''rules'']\<rparr>]\<rparr>"

definition ex_observation :: "int \<Rightarrow> string \<Rightarrow> int \<Rightarrow> factor_observation" where
  "ex_observation n t y = \<lparr>ob_raw_text = Some t, ob_value = Some \<lparr>nv_content = Number_Value (Dec n 0), nv_unit = Some ''m''\<rparr>,
     ob_evidence = [\<lparr>ev_document_id = ''F'', ev_source_file = Some ''file:///x/../F'', ev_page = 1, ev_block_ids = [], ev_confidence = Dec 9 (- 1),
       ev_bounding_box = Some (Dec 1 0, Dec y 0, Dec 9 0, Dec (y + 1) 0), ev_coordinate_system = Some Pdf_Bottom_Left\<rparr>],
     ob_confidence = Dec 95 (- 2)\<rparr>"

definition ex_reliability :: reliability where
  "ex_reliability = \<lparr>rl_confidence_kind = Measured, rl_provenance = Native_Extraction, rl_producer = Some ''parser'', rl_confirmation = None,
     rl_model_confidence = None, rl_method = Native_Numeric, rl_selection = Selection_Not_Applicable, rl_unresolved = []\<rparr>"

definition ex_facts :: case_facts where
  "ex_facts = \<lparr>cf_identity = ex_identity,
     cf_pairs = [\<lparr>ep_context = ex_context, ep_pair = \<lparr>fp_factor_id = ''road_width'', fp_target = ex_observation 6 ''6'' 1, fp_comparable = ex_observation 4 ''4'' 2\<rparr>,
       ep_target_sources = [ex_cite ''F'' (CHR ''a'') ''r1'' 1 ''6''], ep_comparable_sources = [ex_cite ''F'' (CHR ''a'') ''r2'' 2 ''4''],
       ep_target_reliability = ex_reliability, ep_comparable_reliability = ex_reliability\<rparr>],
     cf_observed = [\<lparr>ov_slot_id = ''s1'', ov_state = Present, ov_value = Some (Observed_Text ''5''), ov_unit = Some Percent_Points, ov_raw_text = ''5'',
         ov_evidence = [ex_cite ''F'' (CHR ''a'') ''r3'' 3 ''5'']\<rparr>,
       \<lparr>ov_slot_id = ''s2'', ov_state = Blank, ov_value = None, ov_unit = None, ov_raw_text = [], ov_evidence = [ex_cite ''F'' (CHR ''a'') ''r4'' 4 []]\<rparr>],
     cf_unresolved = []\<rparr>"

definition ex_env :: review_env where
  "ex_env = \<lparr>env_fold_text = id, env_to_float = id, env_well_formed = (\<lambda>_. True), env_digest_of = (\<lambda>_. [])\<rparr>"

definition ex_reviewer :: "bool \<Rightarrow> case_reviewer" where
  "ex_reviewer b = \<lparr>rv_authorization = Some (\<lambda>_. b), rv_minimum_confidence = Dec 85 (- 2)\<rparr>"

section \<open>The review verifies it\<close>

lemma ex_hash_valid [simp]: "is_hex_digest (ex_hash (CHR ''a''))" "is_hex_digest (ex_hash (CHR ''b''))"
  by code_simp+

lemma ex_rules_valid: "factor_rule_set_valid id ex_rules"
  using demo_rule_set_valid by (simp add: ex_rules_def factor_rule_set_valid_def validate_unique_rules_def validate_dates_def)

lemma ex_citation_valid: "citation_valid (ex_cite d h r y t) \<longleftrightarrow> is_hex_digest (ex_hash h)"
  by (simp add: citation_valid_def ex_cite_def)

lemma ex_registry_valid: "unique_documents ex_registry"
  by (simp add: unique_documents_def ex_registry_def complete_pages_def ex_document_def valid_regions_def ex_region_def region_inside_def
      dec_less_def dec_le_def)

lemma ex_check_valid: "exact_equals ex_check"
proof -
  have "normalized_digits (ac_quantum ex_check) = Some 1" by code_simp
  then show ?thesis
    unfolding exact_equals_def by (simp add: ex_check_def ex_citation_valid dec_less_def dec_le_def)
qed

lemma ex_policy_valid: "review_policy_valid id ex_policy"
  using ex_registry_valid ex_rules_valid ex_check_valid
  by (simp add: review_policy_valid_def ex_policy_def review_inventory_valid_def ex_inventory_def context_valid_def ex_context_def
      evidence_given_def ex_citation_valid ex_slot_def)

lemma ex_facts_valid: "case_facts_valid ex_facts"
  by (simp add: case_facts_valid_def ex_facts_def evidenced_pair_valid_def context_valid_def ex_context_def side_observation_def side_sources_def
      side_reliability_def observation_valid_def ex_observation_def evidence_ref_valid_def unit_interval_def value_finite_def dec_le_def pow10_def
      ex_citation_valid reliability_valid_def ex_reliability_def state_value_def)

lemma ex_phases:
  "(case review_inventory_phases ex_env (ex_reviewer True) ex_policy ex_facts ex_registry None [] (trust_findings True True []) of
      Inl _ \<Rightarrow> False | Inr res \<Rightarrow> cr_status res = E_VERIFIED)"
  by code_simp

lemma ex_sources: "registry_matches ex_registry ex_registry = Inr True" "source_violations ex_registry None None ex_policy ex_facts = Inr []"
  "\<not> duplicate_identities ex_inventory ex_facts"
  by code_simp+

lemma ex_verified:
  "\<exists>res. review_case ex_env (ex_reviewer True) ex_policy ex_facts ex_registry None None None = Inr res \<and> cr_status res = E_VERIFIED"
proof -
  have "review_material_valid (env_fold_text ex_env) \<lparr>rm_policy = ex_policy, rm_facts = ex_facts\<rparr>"
    using ex_policy_valid ex_facts_valid by (simp add: review_material_valid_def ex_env_def)
  moreover have "cf_identity ex_facts = pl_identity ex_policy" "pl_registry ex_policy = ex_registry" "pl_inventory ex_policy = ex_inventory"
    by (simp_all add: ex_facts_def ex_policy_def)
  moreover have "material_authorized (ex_reviewer True) ex_policy ex_facts" by (simp add: material_authorized_def ex_reviewer_def)
  ultimately have "review_case ex_env (ex_reviewer True) ex_policy ex_facts ex_registry None None None =
      review_inventory_phases ex_env (ex_reviewer True) ex_policy ex_facts ex_registry None [] (trust_findings True True [])"
    using ex_registry_valid ex_sources by (simp add: review_case_def)
  with ex_phases show ?thesis by (simp split: sum.splits)
qed

theorem checks_follow_their_inputs_witness:
  "\<exists>us ws. target_order (graph_of (iv_slots ex_inventory) [ex_check]) = us @ ''s2'' # ws \<and> ''s1'' \<in> set us"
proof -
  have "static_order (graph_of (iv_slots ex_inventory) [ex_check]) = Some [''s1'', ''s2'']" by code_simp
  moreover have "distinct (map sl_id (iv_slots ex_inventory))" by (simp add: ex_inventory_def ex_slot_def)
  ultimately show ?thesis
    using checks_follow_their_inputs [of "iv_slots ex_inventory" "[ex_check]"] by (auto simp: ex_check_def)
qed

theorem verified_case_is_sound_witness:
  "material_authorized (ex_reviewer True) ex_policy ex_facts \<and> registry_matches ex_registry (pl_registry ex_policy) = Inr True
     \<and> \<not> duplicate_identities (pl_inventory ex_policy) ex_facts"
proof -
  obtain res where "review_case ex_env (ex_reviewer True) ex_policy ex_facts ex_registry None None None = Inr res" "cr_status res = E_VERIFIED"
    using ex_verified by blast
  from verified_case_is_sound [OF this] show ?thesis by blast
qed

theorem verified_case_arithmetic_holds_witness:
  "\<exists>numbers. check_holds numbers ex_check"
proof -
  obtain res where "review_case ex_env (ex_reviewer True) ex_policy ex_facts ex_registry None None None = Inr res" "cr_status res = E_VERIFIED"
    using ex_verified by blast
  from verified_case_arithmetic_holds [OF this] show ?thesis by (auto simp: ex_policy_def ex_inventory_def)
qed

end
