(* ===== verification/Task_Example.thy ===== *)
theory Task_Example
  imports Task_Safety Case_Example
begin

text \<open>
  A job waiting for one answer, and the example case as the material the answer is about: the hypotheses of the
  human-task properties hold here.
\<close>

section \<open>A waiting job and its task\<close>

definition tx_env :: revision_env where
  "tx_env = \<lparr>re_fold_text = id, re_context_key = (\<lambda>c. cx_target_id c @ cx_comparable_id c),
     re_material_digest = (\<lambda>m. replicate 64 (if ci_version (pl_identity (rm_policy m)) = ''1'' then CHR ''0'' else CHR ''1'')),
     re_rules_digest = (\<lambda>_. replicate 64 CHR ''2''), re_documents_digest = (\<lambda>_. replicate 64 CHR ''3''),
     re_confirmation_digest = (\<lambda>_. replicate 64 CHR ''4''), re_response_digest = (\<lambda>_. replicate 64 CHR ''5'')\<rparr>"

definition tx_material :: review_material where
  "tx_material = \<lparr>rm_policy = ex_policy, rm_facts = ex_facts\<rparr>"

definition tx_revision :: material_revision where
  "tx_revision = \<lparr>mr_reference = sub_revision demo_submission, mr_parent = None, mr_documents = [demo_document ''a'', demo_document ''b''],
     mr_rules = [\<lparr>ru_rule_set_id = ''RS'', ru_version = ''1'', ru_context = ex_context, ru_content_hash = replicate 64 CHR ''2''\<rparr>],
     mr_changes = [], mr_canonicalization = Review_Material_Json\<rparr>"

definition tx_snapshot :: revision_snapshot where
  "tx_snapshot = \<lparr>vs_material = tx_material, vs_revision = tx_revision\<rparr>"

definition tx_side :: fact_side_reference where
  "tx_side = \<lparr>fd_context = ex_context, fd_factor_id = ''road_width'', fd_side = Target_Side, fd_input_digest = replicate 64 CHR ''4''\<rparr>"

definition tx_task :: human_task where
  "tx_task = \<lparr>ht_task_id = 20, ht_run = \<lparr>rr_run_id = 12, rr_revision = sub_revision demo_submission, rr_attempt_id = None, rr_runtime_session_id = None\<rparr>,
     ht_version = 1, ht_kind = T_FACT, ht_required_permission = P_CONFIRM, ht_state = Task_Open, ht_side = Some tx_side,
     ht_result_digest = None, ht_question = ''?'', ht_evidence = [], ht_finding_ids = [''f''], ht_allowed_responses = [R_CONFIRM, R_REJECT],
     ht_reason_code = None, ht_affected_subject_ids = []\<rparr>"

definition tx_entry :: task_entry where
  "tx_entry = \<lparr>te_task = tx_task, te_job_id = 11, te_case_id = ''case1'', te_principal_id = ''alice'', te_seq = 1\<rparr>"

definition tx_meta :: job_meta where
  "tx_meta = \<lparr>jm_case_id = ''case1'', jm_principal_id = ''alice'', jm_head = sub_revision demo_submission\<rparr>"

definition tx_tasks :: task_store where
  "tx_tasks = \<lparr>ts_tasks = [(20, tx_entry)], ts_job_meta = [(11, tx_meta)], ts_chain = [(11, [tx_revision])],
     ts_snapshots = [((''case1'', ''r1''), tx_snapshot)], ts_receipts = [], ts_seq = 1\<rparr>"

definition tx_jobs :: job_store where
  "tx_jobs = demo_store ((demo_job WAITING_FOR_HUMAN 30)\<lparr>j_open_task_ids := [20]\<rparr>)
     (demo_claimed_run\<lparr>r_lease_owner := None, r_lease_expires_at := None, r_attempt_id := None, r_run_status := WAITING_FOR_HUMAN\<rparr>) (demo_round Pending)
     [\<lparr>a_job_id = 11, a_run_id = 12, a_attempt_id = 16, a_fencing_token = 1, a_owner = 15, a_claimed_at = 20,
       a_outcome = Attempt_Closed NEEDS_HUMAN\<rparr>]"

definition tx_plane :: task_plane where
  "tx_plane = \<lparr>tp_tasks = tx_tasks, tp_jobs = tx_jobs\<rparr>"

lemma tx_finish: "is_ok (finish demo_attempt NEEDS_HUMAN 30 None [20] None demo_running)
    \<and> (\<forall>x s. finish demo_attempt NEEDS_HUMAN 30 None [20] None demo_running = Inr (x, s) \<longrightarrow> s = tx_jobs)"
  by (simp add: finish_def finish_events_def authority_def demo_attempt_def demo_running_def demo_claimed_run_def demo_simps is_ok_iff tx_jobs_def
      commit_for_event_def finished_store_def finished_job_def finish_problem_def release_lease_def close_attempt_def Let_def)

lemma tx_jobs_run: "store_step\<^sup>*\<^sup>* (empty_store default_policy) tx_jobs"
proof -
  obtain x where "finish demo_attempt NEEDS_HUMAN 30 None [20] None demo_running = Inr (x, tx_jobs)"
    using tx_finish by (fastforce simp: is_ok_iff)
  then have "store_step demo_running tx_jobs" by (rule store_step.finish)
  then show ?thesis using demo_runs by (meson converse_rtranclp_into_rtranclp rtranclp.rtrancl_refl)
qed

lemma tx_task_valid: "task_authority tx_task"
  by (simp add: task_authority_def task_fields_valid_def tx_task_def run_valid_def run_reference_valid_def revision_reference_valid_def
      demo_submission_def opaque_id_def is_alnum_def digest_pattern_def Let_def list_all_iff tx_side_def side_reference_valid_def context_valid_def ex_context_def)

lemma tx_revision_valid: "identities (re_documents_digest tx_env) tx_revision"
  by (simp add: identities_def tx_revision_def demo_submission_def revision_reference_valid_def opaque_id_def is_alnum_def digest_pattern_def Let_def
      list_all_iff demo_document_def document_reference_valid_def rule_reference_valid_def context_valid_def ex_context_def)

lemma tx_seed: "seed 11 ''alice'' tx_snapshot [tx_task] empty_task_store = Inr tx_tasks"
  unfolding seed_def
  by (simp add: Let_def empty_task_store_def tx_snapshot_def tx_revision_def task_registrable_def tx_task_def snapshot_key_def
      register_task_def tx_tasks_def tx_entry_def tx_meta_def demo_submission_def)

lemma tx_run: "(plane_step tx_env)\<^sup>*\<^sup>* \<lparr>tp_tasks = empty_task_store, tp_jobs = empty_store default_policy\<rparr> tx_plane"
proof -
  let ?p = "\<lparr>tp_tasks = empty_task_store, tp_jobs = empty_store default_policy\<rparr>"
  have "plane_step tx_env ?p (?p\<lparr>tp_tasks := tx_tasks\<rparr>)"
  proof (rule plane_step.seeded [of 11 "''alice''" tx_snapshot "[tx_task]"])
    show "seed 11 ''alice'' tx_snapshot [tx_task] (tp_tasks ?p) = Inr tx_tasks" by (simp add: tx_seed)
    show "identities (re_documents_digest tx_env) (vs_revision tx_snapshot)" using tx_revision_valid by (simp add: tx_snapshot_def)
  qed (simp add: tx_task_valid)
  moreover have "(plane_step tx_env)\<^sup>*\<^sup>* (?p\<lparr>tp_tasks := tx_tasks\<rparr>) (?p\<lparr>tp_tasks := tx_tasks, tp_jobs := js\<rparr>)"
    if "store_step\<^sup>*\<^sup>* (empty_store default_policy) js" for js
    using that
  proof (induction rule: rtranclp_induct)
    case (step js js')
    then show ?case using plane_step.jobs [of "?p\<lparr>tp_tasks := tx_tasks, tp_jobs := js\<rparr>" js' tx_env] by (simp add: rtranclp.rtrancl_into_rtrancl)
  qed simp
  from this [OF tx_jobs_run] have "(plane_step tx_env)\<^sup>*\<^sup>* (?p\<lparr>tp_tasks := tx_tasks\<rparr>) tx_plane" by (simp add: tx_plane_def)
  ultimately show ?thesis by (rule converse_rtranclp_into_rtranclp)
qed

lemma tx_inv: "plane_inv tx_env tx_plane"
  by (rule task_system.run_inv [OF tx_run]) (simp add: plane_inv_def empty_task_inv empty_store_inv demo_policy_valid)

theorem open_questions_are_current_witness:
  "\<exists>m. dict_get (ts_job_meta tx_tasks) 11 = Some m \<and> rr_revision (ht_run tx_task) = jm_head m"
proof -
  have "dict_get (ts_tasks (tp_tasks tx_plane)) 20 = Some tx_entry" by (simp add: tx_plane_def tx_tasks_def)
  moreover have "te_job_id tx_entry = 11" "te_task tx_entry = tx_task" "ht_state tx_task = Task_Open" "tp_tasks tx_plane = tx_tasks"
    by (simp_all add: tx_entry_def tx_task_def tx_plane_def)
  ultimately show ?thesis using open_questions_are_current [OF demo_policy_valid tx_run] by fastforce
qed

section \<open>Refusing to confirm\<close>

definition tx_refusal :: human_response where
  "tx_refusal = \<lparr>hr_task_id = 20, hr_expected_version = 1, hr_revision = sub_revision demo_submission, hr_side_digest = Some (replicate 64 CHR ''4''),
     hr_result_digest = None, hr_idempotency_key = ''k1'', hr_action = R_REJECT, hr_correction = None\<rparr>"

definition tx_reviewer :: principal where
  "tx_reviewer = \<lparr>pr_actor = \<lparr>actor_id = ''alice'', actor_kind = A_human\<rparr>, pr_case_ids = [''case1''], pr_permissions = [P_REVIEW, P_CONFIRM]\<rparr>"

definition tx_accepted :: accepted_response where
  "tx_accepted = \<lparr>ar_command = tx_refusal, ar_actor = \<lparr>actor_id = ''alice'', actor_kind = A_human\<rparr>\<rparr>"

definition tx_ids :: fresh_ids where
  "tx_ids = \<lparr>fi_revision_id = ''2'', fi_run_id = 30, fi_token = 31, fi_now = 40\<rparr>"

lemma tx_reject: "is_ok (reject_human_task 11 12 20 40 tx_jobs)"
  by (simp add: reject_human_task_def tx_jobs_def demo_claimed_run_def demo_simps is_ok_iff rejected_job_def plain_transition_def)

lemma tx_sound: "proposal_sound tx_env tx_accepted None"
  by (simp add: proposal_sound_def tx_accepted_def tx_refusal_def)

lemma tx_commit: "\<exists>r q. commit_response tx_accepted None d 40 30 31 tx_plane = (Inr r, q) \<and> q \<noteq> tx_plane"
proof -
  obtain jr js where j: "reject_human_task 11 12 20 40 tx_jobs = Inr (jr, js)" using tx_reject by (auto simp: is_ok_iff)
  have look: "dict_get (ts_tasks tx_tasks) 20 = Some tx_entry" "dict_get (ts_job_meta tx_tasks) 11 = Some tx_meta" "te_job_id tx_entry = 11"
    "te_task tx_entry = tx_task" "ts_receipts tx_tasks = []" by (simp_all add: tx_tasks_def tx_entry_def)
  have run: "rr_run_id (ht_run tx_task) = 12" "ht_task_id tx_task = 20" by (simp_all add: tx_task_def)
  have cur: "response_current tx_entry tx_accepted tx_meta"
    by (simp add: response_current_def tx_entry_def tx_task_def tx_accepted_def tx_refusal_def tx_meta_def)
  have inv: "task_inv tx_env tx_tasks" using tx_inv by (simp add: plane_inv_def tx_plane_def)
  obtain sup ts where w: "write_answer tx_entry None tx_tasks = Inr (sup, ts)" "distinct sup" "ht_task_id (te_task tx_entry) \<notin> set sup"
    using write_answer_ok [OF inv look(1), of tx_meta None] look(2,3) by metis
  have c: "committed_effect (receipt_of tx_entry (ar_command tx_accepted) None 30 sup st)" for st
    using receipt_committed [OF inv look(1) _ cur tx_sound _ w(2,3)] look(2,3) by simp
  have "hr_task_id (ar_command tx_accepted) = 20" by (simp add: tx_accepted_def tx_refusal_def)
  then have "commit_response tx_accepted None d 40 30 31 tx_plane =
      (Inr (receipt_of tx_entry (ar_command tx_accepted) None 30 sup (jr_status jr)),
       \<lparr>tp_tasks = put_receipt (actor_id (ar_actor tx_accepted), hr_idempotency_key (ar_command tx_accepted)) d
          (receipt_of tx_entry (ar_command tx_accepted) None 30 sup (jr_status jr)) ts, tp_jobs = js\<rparr>)"
    using look run cur c w(1) j
    by (simp add: commit_response_def Let_def tx_plane_def apply_response_def notify_jobs_def)
  moreover have "ts_receipts (put_receipt k d' r ts) \<noteq> []" for k d' r
    using put_receipt_sel(6) [of k d' r ts k] by (cases "ts_receipts (put_receipt k d' r ts)") simp_all
  moreover have "tp_tasks tx_plane = tx_tasks" by (simp add: tx_plane_def)
  ultimately show ?thesis using look(5) by (metis task_plane.select_convs(1))
qed

theorem answer_is_atomic_witness:
  "\<exists>r q. commit_response tx_accepted None ''d'' 40 30 31 tx_plane = (Inr r, q) \<and> fully_applied tx_accepted None 30 tx_plane q"
proof -
  obtain r q where "commit_response tx_accepted None ''d'' 40 30 31 tx_plane = (Inr r, q)" "q \<noteq> tx_plane" using tx_commit by blast
  with answer_is_atomic [OF tx_inv tx_sound this(1)] show ?thesis by auto
qed

lemma tx_respond: "\<exists>r q. respond tx_env (\<lambda>_ x. x) tx_ids tx_reviewer 20 tx_refusal tx_plane = (Inr r, q)"
proof -
  have valid: "action_payload tx_refusal"
    by (simp add: action_payload_def tx_refusal_def revision_reference_valid_def demo_submission_def opaque_id_def is_alnum_def digest_pattern_def
        Let_def list_all_iff)
  let ?rec = "\<lparr>tk_task = tx_task, tk_job_id = 11, tk_case_id = ''case1'', tk_principal_id = ''alice'', tk_current_revision = sub_revision demo_submission\<rparr>"
  have v: "visible_task tx_reviewer 20 tx_plane = Inr ?rec"
    by (simp add: visible_task_Inr tx_plane_def tx_tasks_def tx_entry_def tx_meta_def tx_reviewer_def)
  have inv: "store_inv (tp_jobs tx_plane)" using tx_inv by (simp add: plane_inv_def)
  have j: "is_ok (read_authorized_job tx_reviewer 11 tx_plane)"
    unfolding read_authorized_job_Inr [OF inv] by (simp add: tx_plane_def tx_jobs_def demo_store_def demo_job_def tx_reviewer_def)
  have a: "authorized_task (\<lambda>_ x. x) tx_reviewer 20 tx_plane = (Inr ?rec, tx_plane)"
    unfolding authorized_task_Inr using v j by simp
  have adm: "admit_response tx_task tx_refusal tx_reviewer (sub_revision demo_submission) = Inr tx_accepted"
    unfolding admit_response_Inr using tx_task_valid valid
    by (simp add: tx_accepted_def tx_reviewer_def tx_refusal_def tx_task_def task_current_def tx_side_def)
  have proposed: "next_revision tx_env tx_plane ?rec tx_accepted i = Inr None" for i
    by (simp add: next_revision_def tx_accepted_def tx_refusal_def)
  have "read_receipt (tp_tasks tx_plane) k l = None" for k l by (simp add: read_receipt_def tx_plane_def tx_tasks_def)
  then have "respond tx_env (\<lambda>_ x. x) tx_ids tx_reviewer 20 tx_refusal tx_plane =
      apfst lost_answer (commit_response tx_accepted None (response_digest (re_response_digest tx_env) tx_refusal) 40 30 31 tx_plane)"
    using a adm proposed valid by (simp add: respond_def Let_def tx_ids_def) (simp add: tx_refusal_def)
  then show ?thesis using tx_commit [of "response_digest (re_response_digest tx_env) tx_refusal"] by (auto simp: lost_answer_def)
qed

theorem exact_retry_returns_receipt_witness:
  "\<exists>r q. respond tx_env (\<lambda>_ x. x) tx_ids tx_reviewer 20 tx_refusal tx_plane = (Inr r, q)
     \<and> respond tx_env (\<lambda>_ x. x) tx_ids tx_reviewer 20 tx_refusal q = (Inr r, q)"
proof -
  obtain r q where r: "respond tx_env (\<lambda>_ x. x) tx_ids tx_reviewer 20 tx_refusal tx_plane = (Inr r, q)" using tx_respond by blast
  have "meanwhile tx_env (\<lambda>_ x. x)" by (simp add: meanwhile_def)
  moreover have "unused_id (fi_revision_id tx_ids) (commit_point (\<lambda>_ x. x) tx_reviewer 20 tx_plane)"
    by (simp add: unused_id_def commit_point_def authorized_task_def Let_def tx_ids_def tx_plane_def tx_tasks_def split: sum.splits)
  ultimately show ?thesis using exact_retry_returns_receipt [OF tx_inv _ _ r, of q] r by blast
qed

section \<open>Confirming and correcting the example case\<close>

definition tx_case_snapshot :: revision_snapshot where
  "tx_case_snapshot = \<lparr>vs_material = tx_material, vs_revision = revision_of tx_env tx_material ''1'' None []\<rparr>"

definition tx_head :: revision_reference where
  "tx_head = \<lparr>rev_case_id = ''CASE'', rev_revision_id = ''1'', rev_material_digest = replicate 64 CHR ''0''\<rparr>"

definition tx_case_plane :: task_plane where
  "tx_case_plane = tx_plane\<lparr>tp_tasks := tx_tasks\<lparr>ts_snapshots := [((''CASE'', ''1''), tx_case_snapshot)]\<rparr>\<rparr>"

definition tx_case_record :: "task_kind \<Rightarrow> task_record" where
  "tx_case_record k = \<lparr>tk_task = tx_task\<lparr>ht_kind := k\<rparr>, tk_job_id = 11, tk_case_id = ''CASE'', tk_principal_id = ''alice'', tk_current_revision = tx_head\<rparr>"

definition tx_answer :: "response_action \<Rightarrow> value_revision option \<Rightarrow> accepted_response" where
  "tx_answer act c = tx_accepted\<lparr>ar_command := tx_refusal\<lparr>hr_action := act, hr_correction := c\<rparr>\<rparr>"

definition tx_proposed :: public_value where
  "tx_proposed = \<lparr>pv_state = Present, pv_value = Some (Public_Normalized \<lparr>nv_content = Number_Value (Dec 7 0), nv_unit = Some ''m''\<rparr>),
     pv_raw_text = ''7'', pv_unit = Some ''m'', pv_confidence = None, pv_evidence = []\<rparr>"

definition tx_correction :: value_revision where
  "tx_correction = \<lparr>vr_subject_id = side_subject_id tx_env tx_side, vr_original = tx_proposed, vr_proposed = Some tx_proposed, vr_corrected = None,
     vr_corrected_by = None\<rparr>"

definition tx_pair :: evidenced_pair where
  "tx_pair = hd (cf_pairs ex_facts)"

lemma tx_pairs: "cf_pairs ex_facts = [tx_pair]" "at_side tx_env tx_side tx_pair"
  by (simp_all add: tx_pair_def ex_facts_def at_side_def tx_side_def tx_env_def)

lemma tx_locate: "locate tx_env tx_material tx_side = Inr tx_pair"
  by (simp add: locate_Inr tx_material_def tx_pairs)

lemma tx_read: "read_snapshot (tp_tasks tx_case_plane) tx_head = Some tx_case_snapshot"
  by (simp add: read_snapshot_def tx_case_plane_def snapshot_key_def tx_head_def tx_case_snapshot_def revision_of_def Let_def tx_material_def
      ex_policy_def ex_identity_def tx_env_def)

lemma tx_revisable:
  assumes "ci_version (pl_identity (rm_policy m)) = ''2''" and "ci_case_id (pl_identity (rm_policy m)) = ''CASE''"
    and "pl_registry (rm_policy m) = ex_registry" and "pl_rule_sets (rm_policy m) = pl_rule_sets ex_policy"
    and "list_all correction_actor cs"
  shows "identities (re_documents_digest tx_env) (revision_of tx_env m ''2'' (Some tx_head) cs)"
proof -
  have docs: "set (sort_key sd_document_id (sy_documents ex_registry)) = set (sy_documents ex_registry)"
      "length (sort_key sd_document_id (sy_documents ex_registry)) = 2"
    by (rule set_sort) (simp only: length_sort, simp add: ex_registry_def)
  have dist: "distinct (map sd_document_id (sort_key sd_document_id (sy_documents ex_registry)))"
    using ex_registry_valid by (simp add: unique_documents_def distinct_map)
  have doc: "document_reference_valid (document_reference_of ''CASE'' d)" if "d \<in> set (sy_documents ex_registry)" for d
    using that by (auto simp: ex_registry_def ex_document_def document_reference_of_def document_reference_valid_def opaque_id_def is_alnum_def
        digest_pattern_def Let_def list_all_iff ex_hash_def)
  have rule: "rule_reference_valid (rule_reference_of tx_env r)" if "r \<in> set (pl_rule_sets ex_policy)" for r
    using that by (simp add: ex_policy_def rule_reference_of_def rule_reference_valid_def ex_rules_def demo_rule_set_def context_valid_def ex_context_def
        tx_env_def digest_pattern_def Let_def list_all_iff)
  have ref: "revision_reference_valid tx_head" "revision_reference_valid \<lparr>rev_case_id = ''CASE'', rev_revision_id = ''2'', rev_material_digest = replicate 64 CHR ''1''\<rparr>"
    by (simp_all add: tx_head_def revision_reference_valid_def opaque_id_def is_alnum_def digest_pattern_def Let_def list_all_iff)
  have env: "re_material_digest tx_env m = replicate 64 CHR ''1''" using assms(1) by (simp add: tx_env_def)
  have "pl_rule_sets ex_policy \<noteq> []" by (simp add: ex_policy_def)
  then have rules: "sort_key (\<lambda>r. re_context_key tx_env (sc_context r)) (pl_rule_sets ex_policy) \<noteq> []"
    by (metis length_0_conv length_sort)
  have "doc_document_id \<circ> document_reference_of ''CASE'' = sd_document_id" by (simp add: fun_eq_iff document_reference_of_def)
  moreover have "doc_case_id (document_reference_of ''CASE'' d) = ''CASE''" for d by (simp add: document_reference_of_def)
  ultimately show ?thesis
    using ref docs dist doc rule rules assms env
    by (simp add: identities_def revision_of_def Let_def list_all_iff child_of_def tx_head_def)
qed

lemma tx_pair_sel:
  "side_observation tx_pair Target_Side = ex_observation 6 ''6'' 1" "side_sources tx_pair Target_Side = [ex_cite ''F'' (CHR ''a'') ''r1'' 1 ''6'']"
  "side_reliability tx_pair sd = ex_reliability"
  by (simp_all add: tx_pair_def ex_facts_def side_observation_def side_sources_def side_reliability_def)

lemma tx_pair_valid: "evidenced_pair_valid tx_pair"
  using ex_facts_valid by (simp add: case_facts_valid_def tx_pairs)

lemma tx_material_valid:
  assumes "pl_registry (rm_policy m) = pl_registry ex_policy" "pl_inventory (rm_policy m) = pl_inventory ex_policy"
    "pl_rule_sets (rm_policy m) = pl_rule_sets ex_policy" "cf_observed (rm_facts m) = cf_observed ex_facts" "list_all evidenced_pair_valid (cf_pairs (rm_facts m))"
  shows "review_material_valid (re_fold_text tx_env) m"
  using assms ex_policy_valid ex_facts_valid
  by (simp add: review_material_valid_def review_policy_valid_def case_facts_valid_def tx_env_def)

lemma tx_head_of: "mr_reference (vs_revision tx_case_snapshot) = tx_head"
  by (simp add: tx_case_snapshot_def revision_of_def Let_def tx_material_def ex_policy_def ex_identity_def tx_env_def tx_head_def)

lemma tx_capture:
  assumes "list_all evidenced_pair_valid (map f (cf_pairs ex_facts))" and "list_all correction_actor cs"
  shows "\<exists>n. capture tx_env (with_version ''2'' (with_pairs f tx_material)) ''2'' (Some tx_head) cs = Inr n"
proof -
  let ?m = "with_version ''2'' (with_pairs f tx_material)"
  have "review_material_valid (re_fold_text tx_env) ?m"
    using assms(1) by (intro tx_material_valid) (simp_all add: tx_material_def)
  moreover have "pl_identity (rm_policy ?m) = cf_identity (rm_facts ?m)" by (simp add: tx_material_def ex_policy_def ex_facts_def)
  moreover have "identities (re_documents_digest tx_env) (revision_of tx_env ?m ''2'' (Some tx_head) cs)"
    using assms(2) by (intro tx_revisable) (simp_all add: tx_material_def ex_policy_def ex_identity_def)
  ultimately show ?thesis by (auto simp: capture_Inr)
qed

lemma tx_confirmed: "\<exists>n. next_revision tx_env tx_case_plane (tx_case_record T_FACT) (tx_answer R_CONFIRM None) ''2'' = Inr (Some n)"
proof -
  obtain q where q: "confirm_side (re_confirmation_digest tx_env) tx_pair Target_Side ''alice'' = Inr q"
      "q = set_side_reliability Target_Side (ex_reliability\<lparr>rl_confirmation := Some \<lparr>fc_reviewer = ''alice'',
         fc_input_digest = confirmation_digest (re_confirmation_digest tx_env) tx_pair Target_Side\<rparr>, rl_method := Reviewer_Confirmed\<rparr>) tx_pair"
    by (simp add: confirm_side_def Let_def tx_pair_sel ex_observation_def ex_reliability_def)
  have "is_hex_digest (replicate 64 CHR ''4'')" by code_simp
  then have "evidenced_pair_valid q" using tx_pair_valid
    by (simp add: q(2) evidenced_pair_valid_def reliability_valid_def ex_reliability_def confirmation_digest_def tx_env_def)
  then obtain n where "capture tx_env (with_version ''2'' (replace_pair tx_env tx_side q tx_material)) ''2'' (Some tx_head) [] = Inr n"
    using tx_capture [of "\<lambda>p. if at_side tx_env tx_side p then q else p" "[]"] by (auto simp: replace_pair_def tx_pairs)
  then have "confirm_revision tx_env tx_case_snapshot tx_pair tx_side (tx_answer R_CONFIRM None) ''2'' = Inr n"
    using q(1) tx_head_of by (simp add: confirm_revision_def tx_answer_def tx_accepted_def tx_side_def) (simp add: tx_case_snapshot_def)
  then show ?thesis using tx_read tx_locate
    by (simp add: next_revision_def tx_answer_def tx_case_record_def tx_task_def) (simp add: tx_case_snapshot_def)
qed

theorem confirmation_touches_one_side_witness:
  "\<exists>n q. next_revision tx_env tx_case_plane (tx_case_record T_FACT) (tx_answer R_CONFIRM None) ''2'' = Inr (Some n)
     \<and> confirmation_holds (re_confirmation_digest tx_env) q Target_Side \<and> vs_material n = with_version ''2'' (replace_pair tx_env tx_side q tx_material)"
proof -
  obtain n where n: "next_revision tx_env tx_case_plane (tx_case_record T_FACT) (tx_answer R_CONFIRM None) ''2'' = Inr (Some n)"
    using tx_confirmed by blast
  have "tk_current_revision (tx_case_record T_FACT) = tx_head" "ht_side (tk_task (tx_case_record T_FACT)) = Some tx_side"
      "vs_material tx_case_snapshot = tx_material" "fd_side tx_side = Target_Side"
    by (simp_all add: tx_case_record_def tx_task_def tx_case_snapshot_def tx_side_def)
  with confirmation_touches_one_side [OF n] tx_read n show ?thesis by (auto simp: tx_case_record_def)
qed

definition tx_observation :: factor_observation where
  "tx_observation = (ex_observation 7 ''7'' 1)"

lemma tx_corrected: "corrected_observation tx_proposed (ex_observation 6 ''6'' 1) = tx_observation"
    "correction_types_ok tx_proposed (ex_observation 6 ''6'' 1)"
  by (simp_all add: corrected_observation_def correction_types_ok_def tx_proposed_def ex_observation_def tx_observation_def)

definition tx_change :: value_revision where
  "tx_change = change_of tx_env tx_pair tx_side (tx_answer R_CORRECT (Some tx_correction)) tx_proposed tx_observation
     [ex_cite ''F'' (CHR ''a'') ''r1'' 1 ''6'']"

lemma tx_change_valid: "correction_actor tx_change"
  by (simp add: tx_change_def change_of_def correction_actor_def side_subject_id_def side_text_def tx_pair_sel tx_side_def public_value_valid_def
      public_observation_def text_of_def tx_proposed_def tx_observation_def ex_observation_def value_finite_def unit_interval_def dec_le_def pow10_def
      ex_citation_valid tx_answer_def tx_accepted_def actor_reference_valid_def)

lemma with_pairs_twice: "with_pairs f (with_version v (with_pairs g m)) = with_version v (with_pairs (f \<circ> g) m)"
  by (simp add: with_pairs_def with_version_def)

lemma tx_changed: "\<exists>n. next_revision tx_env tx_case_plane (tx_case_record T_CORRECTION) (tx_answer R_CORRECT (Some tx_correction)) ''2'' = Inr (Some n)"
proof -
  let ?q = "set_side Target_Side tx_observation [ex_cite ''F'' (CHR ''a'') ''r1'' 1 ''6''] tx_pair"
  let ?swap = "\<lambda>p. if at_side tx_env tx_side p then ?q else p"
  let ?revise = "revise_pair tx_env [tx_pair]"
  have obs: "observation_valid tx_observation"
    by (simp add: tx_observation_def observation_valid_def ex_observation_def evidence_ref_valid_def unit_interval_def value_finite_def dec_le_def pow10_def)
  have q: "evidenced_pair_valid ?q" using tx_pair_valid obs by (simp add: evidenced_pair_valid_def tx_pair_sel)
  then have rq: "evidenced_pair_valid (?revise ?q)"
    by (simp add: evidenced_pair_valid_def reliability_valid_def reliability_of_revise_pair)
  have valid: "review_material_valid (re_fold_text tx_env) (with_pairs ?swap tx_material)"
    using q by (intro tx_material_valid) (simp_all add: tx_material_def tx_pairs)
  have rev: "revised_material tx_env tx_case_snapshot (with_pairs ?swap tx_material) ''2'' = with_version ''2'' (with_pairs (?revise \<circ> ?swap) tx_material)"
    by (simp add: revised_material_def tx_case_snapshot_def with_pairs_twice) (simp add: tx_material_def tx_pairs)
  have case_of: "ci_case_id (pl_identity (rm_policy tx_material)) = ''CASE''" by (simp add: tx_material_def ex_policy_def ex_identity_def)
  obtain n where "capture tx_env (with_version ''2'' (with_pairs (?revise \<circ> ?swap) tx_material)) ''2'' (Some tx_head) [tx_change] = Inr n"
    using tx_capture [of "?revise \<circ> ?swap" "[tx_change]"] rq tx_change_valid by (auto simp: tx_pairs)
  then have "revise tx_env tx_case_snapshot (replace_pair tx_env tx_side ?q tx_material) ''2'' [tx_change] = Inr n"
    using valid rev case_of tx_head_of by (simp add: revise_def replace_pair_def) (simp add: tx_head_def)
  then have "correct_revision tx_env tx_case_snapshot tx_pair tx_side (tx_answer R_CORRECT (Some tx_correction)) ''2'' = Inr n"
    using tx_corrected tx_change_valid
    by (simp add: correct_revision_def Let_def supplied_def tx_answer_def tx_correction_def tx_pair_sel tx_side_def tx_change_def change_of_def
        tx_case_snapshot_def)
  then show ?thesis using tx_read tx_locate
    by (simp add: next_revision_def tx_answer_def tx_case_record_def tx_task_def) (simp add: tx_case_snapshot_def)
qed

theorem correction_reopens_confirmations_witness:
  "\<exists>n. next_revision tx_env tx_case_plane (tx_case_record T_CORRECTION) (tx_answer R_CORRECT (Some tx_correction)) ''2'' = Inr (Some n)
     \<and> pl_registry (rm_policy (vs_material n)) = ex_registry \<and> length (mr_changes (vs_revision n)) = 1"
proof -
  obtain n where n: "next_revision tx_env tx_case_plane (tx_case_record T_CORRECTION) (tx_answer R_CORRECT (Some tx_correction)) ''2'' = Inr (Some n)"
    using tx_changed by blast
  have "tk_current_revision (tx_case_record T_CORRECTION) = tx_head" "ht_kind (tk_task (tx_case_record T_CORRECTION)) \<noteq> T_FACT"
      "pl_registry (rm_policy (vs_material tx_case_snapshot)) = ex_registry"
    by (simp_all add: tx_case_record_def tx_case_snapshot_def tx_material_def ex_policy_def)
  with correction_reopens_confirmations [OF n] tx_read n show ?thesis by auto
qed

end
