(* ===== verification/Workflow_Task_Example.thy ===== *)
theory Workflow_Task_Example
  imports Workflow_Task_Safety Task_Example
begin

text \<open>
  The example case in the repository of the paused workflow: registered, asked about by one task that a handoff
  describes, and answered with a confirmation.  The hypotheses of the workflow-task properties hold here.
\<close>

definition wx_env :: workflow_env where
  "wx_env = \<lparr>we_revisions = tx_env, we_value_digest = (\<lambda>_. replicate 64 CHR ''6''), we_review_digest = (\<lambda>_. replicate 64 CHR ''7''),
     we_context_digest = (\<lambda>_. replicate 64 CHR ''8''), we_tasks_digest = (\<lambda>_. replicate 64 CHR ''9''), we_revision_text = (\<lambda>_. ''2''),
     we_review = ex_env\<rparr>"

definition wx_service :: task_service where
  "wx_service = \<lparr>ks_subjects = [\<lparr>ms_subject_id = ''width'', ms_context = ex_context, ms_factor_id = ''road_width'', ms_side = Target_Side\<rparr>],
     ks_authorization = None\<rparr>"

definition wx_run :: run_reference where
  "wx_run = \<lparr>rr_run_id = 12, rr_revision = tx_head, rr_attempt_id = None, rr_runtime_session_id = None\<rparr>"

definition wx_finding :: review_finding where
  "wx_finding = \<lparr>rf_id = Factor_Id ex_context ''road_width'', rf_kind = ''factor'', rf_status = E_NEEDS_REVIEW, rf_context = Some ex_context,
     rf_factor_id = Some ''road_width'', rf_evidence = [], rf_originating_field_ids = []\<rparr>"

definition wx_review :: case_review_result where
  "wx_review = \<lparr>cr_identity = ex_identity, cr_comparisons = [], cr_findings = [wx_finding],
     cr_coverage = \<lparr>cv_required = [rf_id wx_finding], cv_verified = {}, cv_missing = {}, cv_unsupported = []\<rparr>, cr_status = E_NEEDS_REVIEW\<rparr>"

definition wx_binding :: human_task_binding where
  "wx_binding = \<lparr>hb_blocker_id = ''width'', hb_kind = T_FACT, hb_finding_ids = [finding_name wx_env wx_finding], hb_subject_id = Some ''width''\<rparr>"

definition wx_reviewer :: principal where
  "wx_reviewer = \<lparr>pr_actor = \<lparr>actor_id = ''alice'', actor_kind = A_human\<rparr>, pr_case_ids = [''CASE''], pr_permissions = [P_REVIEW, P_CONFIRM]\<rparr>"

definition wx_start :: task_repository where
  "wx_start = \<lparr>tq_snapshots = [((''CASE'', ''1''), tx_case_snapshot)], tq_current = [(''CASE'', ''1'')], tq_active_run = [(''CASE'', 12)],
     tq_runs = [(12, wx_run)], tq_reviews = [(12, wx_review)], tq_tasks = [], tq_responses = [], tq_pending = {}, tq_pauses = [],
     tq_continuations = [], tq_confirmations = []\<rparr>"

definition wx_context :: human_task_context where
  "wx_context = \<lparr>hc_snapshot = tx_case_snapshot, hc_run = wx_run, hc_review = wx_review, hc_confirmed_sides = []\<rparr>"

definition wx_fresh :: "nat \<Rightarrow> uuid" where
  "wx_fresh n = n + 40"

definition wx_task :: human_task where
  "wx_task = \<lparr>ht_task_id = 40, ht_run = wx_run, ht_version = 1, ht_kind = T_FACT, ht_required_permission = P_CONFIRM, ht_state = Task_Open,
     ht_side = Some tx_side, ht_result_digest = None,
     ht_question = side_question T_FACT ''width'' tx_side, ht_evidence = [ex_cite ''F'' (CHR ''a'') ''r1'' 1 ''6''],
     ht_finding_ids = [finding_name wx_env wx_finding], ht_allowed_responses = [R_CONFIRM, R_REJECT], ht_reason_code = Some ''factor'',
     ht_affected_subject_ids = [''width'']\<rparr>"

definition wx_repo :: task_repository where
  "wx_repo = wx_start\<lparr>tq_tasks := [(40, wx_task)]\<rparr>"

definition wx_answer :: human_response where
  "wx_answer = \<lparr>hr_task_id = 40, hr_expected_version = 1, hr_revision = tx_head, hr_side_digest = Some (replicate 64 CHR ''4''),
     hr_result_digest = None, hr_idempotency_key = ''k1'', hr_action = R_CONFIRM, hr_correction = None\<rparr>"

section \<open>A handoff and its task\<close>

lemma wx_register: "register_case wx_env tx_case_snapshot wx_run wx_review empty_repository = Inr wx_start"
  using tx_head_of
  by (simp add: register_case_def Let_def empty_repository_def wx_start_def wx_run_def tx_head_def reference_key_def)
    (simp add: tx_case_snapshot_def wx_env_def tx_material_def ex_policy_def tx_env_def wx_review_def ex_identity_def)

lemma wx_read: "read_context wx_reviewer wx_run wx_start = Inr wx_context"
  using tx_head_of
  by (simp add: read_context_def context_in_Inr wx_start_def wx_run_def wx_context_def wx_reviewer_def tx_head_def reference_key_def
      confirmed_by_def confirmations_of_def)

lemma wx_build: "build_task wx_env wx_service 40 wx_context T_FACT [finding_name wx_env wx_finding] (Some ''width'') = Inr wx_task"
  by code_simp

lemma wx_handoff: "case handoff_for_run wx_env wx_service wx_fresh wx_reviewer wx_run [wx_binding] wx_start of Inr _ \<Rightarrow> True | Inl _ \<Rightarrow> False"
  by code_simp

theorem handoff_hides_nothing_witness:
  "\<exists>h t. handoff_for_run wx_env wx_service wx_fresh wx_reviewer wx_run [wx_binding] wx_start = Inr h
     \<and> create_from_handoff wx_env wx_service wx_fresh wx_reviewer wx_run h [wx_binding] wx_start = create_tasks wx_env wx_reviewer [t] wx_start
     \<and> ht_finding_ids t = [finding_name wx_env wx_finding]"
proof -
  obtain h where h: "handoff_for_run wx_env wx_service wx_fresh wx_reviewer wx_run [wx_binding] wx_start = Inr h"
    using wx_handoff by (auto split: sum.splits)
  obtain drafts where d: "create_from_handoff wx_env wx_service wx_fresh wx_reviewer wx_run h [wx_binding] wx_start =
      create_tasks wx_env wx_reviewer drafts wx_start" "map ht_finding_ids drafts = map hb_finding_ids [wx_binding]"
    using handoff_hides_nothing [OF h wx_read] by blast
  obtain t where "drafts = [t]" "ht_finding_ids t = hb_finding_ids wx_binding" using d(2) by (auto simp: map_eq_Cons_conv)
  then show ?thesis using h d(1) by (auto simp: wx_binding_def)
qed

lemma wx_create: "create_tasks wx_env wx_reviewer [wx_task] wx_start = Inr ([wx_task], wx_repo)"
proof -
  have "task_authority wx_task" "creatable wx_env wx_context wx_task" by code_simp+
  moreover have "context_in wx_reviewer (ht_run wx_task) False wx_start = Inr wx_context" using wx_read by (simp add: read_context_def wx_task_def)
  ultimately show ?thesis by (simp add: create_task_in_def wx_reviewer_def) (simp add: wx_start_def wx_repo_def wx_task_def)
qed

lemma wx_run_to: "(repo_step wx_env wx_service)\<^sup>*\<^sup>* empty_repository wx_repo"
  using repo_step.registered [OF wx_register] repo_step.created [OF wx_create] by (meson converse_rtranclp_into_rtranclp rtranclp.rtrancl_refl)

theorem open_tasks_ask_the_active_run_witness:
  "dict_get (tq_active_run wx_repo) ''CASE'' = Some 12 \<and> dict_get (tq_current wx_repo) ''CASE'' = Some ''1''"
proof -
  have "dict_get (tq_tasks wx_repo) 40 = Some wx_task" "ht_state wx_task = Task_Open" by (simp_all add: wx_repo_def wx_task_def)
  from open_tasks_ask_the_active_run [OF wx_run_to this] show ?thesis by (auto simp: wx_task_def wx_run_def tx_head_def)
qed

section \<open>Its answer\<close>

lemma wx_allowed: "case selected ex_registry None None of Inr pu \<Rightarrow> allows pu [ex_cite ''F'' (CHR ''a'') ''r1'' 1 ''6''] Case_Purpose | Inl _ \<Rightarrow> False"
  by code_simp

lemma wx_confirmed: "\<exists>n. confirm_material tx_env (ks_subjects wx_service) tx_case_snapshot ''width'' (pr_actor wx_reviewer) ''2'' [] = Inr n"
proof -
  let ?f = "revise_pair tx_env [tx_pair]"
  let ?p = "?f tx_pair"
  have pairs: "cf_pairs (rm_facts tx_material) = [tx_pair]" by (simp add: tx_material_def tx_pairs)
  have rel: "side_reliability ?p sd = ex_reliability" for sd
    by (simp add: reliability_of_revise_pair tx_pair_sel retains_native_def) (simp add: ex_reliability_def)
  have pv: "evidenced_pair_valid ?p" using tx_pair_valid
    by (simp add: evidenced_pair_valid_def reliability_valid_def reliability_of_revise_pair)
  obtain r where cap: "capture tx_env (with_version ''2'' (with_pairs ?f tx_material)) ''2'' (Some tx_head) [] = Inr r"
    using tx_capture [of ?f "[]"] pv by (auto simp: tx_pairs)
  then have r: "vs_material r = with_version ''2'' (with_pairs ?f tx_material)" by (rule capture_sel)
  have valid: "review_material_valid (re_fold_text tx_env) tx_material" using tx_pair_valid by (intro tx_material_valid) (simp_all add: tx_material_def tx_pairs)
  have "revised_material tx_env tx_case_snapshot tx_material ''2'' = with_version ''2'' (with_pairs ?f tx_material)"
    using pairs by (simp add: revised_material_def tx_case_snapshot_def with_pairs_def with_version_def)
  then have rev: "revise tx_env tx_case_snapshot tx_material ''2'' [] = Inr r"
    using cap valid tx_head_of by (simp add: revise_def) (simp add: tx_head_def tx_material_def ex_policy_def ex_identity_def)
  have pr: "same_factor ex_context ''road_width'' tx_pair" "fp_factor_id (ep_pair tx_pair) = ''road_width''" "ep_context tx_pair = ex_context"
    by (simp_all add: same_factor_def tx_pair_def ex_facts_def)
  have res: "resolve_subject (ks_subjects wx_service) tx_material ''width'' = Inr (tx_pair, Target_Side)"
      "resolve_subject (ks_subjects wx_service) (vs_material r) ''width'' = Inr (?p, Target_Side)"
    using pairs pr(1) by (simp_all add: resolve_subject_Inr wx_service_def r)
  obtain pu where pu: "selected ex_registry None None = Inr pu" "allows pu [ex_cite ''F'' (CHR ''a'') ''r1'' 1 ''6''] Case_Purpose"
    using wx_allowed by (auto split: sum.splits)
  obtain q where q: "confirm_side (re_confirmation_digest tx_env) ?p Target_Side ''alice'' = Inr q"
      "q = set_side_reliability Target_Side (ex_reliability\<lparr>rl_confirmation := Some \<lparr>fc_reviewer = ''alice'',
         fc_input_digest = confirmation_digest (re_confirmation_digest tx_env) ?p Target_Side\<rparr>, rl_method := Reviewer_Confirmed\<rparr>) ?p"
    by (simp add: confirm_side_def Let_def rel tx_pair_sel) (simp add: ex_observation_def ex_reliability_def)
  have "is_hex_digest (replicate 64 CHR ''4'')" by code_simp
  then have "evidenced_pair_valid q" using pv
    by (simp add: q(2) evidenced_pair_valid_def reliability_valid_def ex_reliability_def confirmation_digest_def tx_env_def)
  then obtain n where n: "capture tx_env (with_version ''2'' (with_pairs (\<lambda>_. q) tx_material)) ''2'' (Some tx_head) [] = Inr n"
    using tx_capture [of "\<lambda>_. q" "[]"] by (auto simp: tx_pairs)
  have q': "ep_context q = ex_context" "fp_factor_id (ep_pair q) = ''road_width''" using confirm_side_frame(2,3) [OF q(1)] pr by simp_all
  have "retain_pair tx_env [] ''alice'' pu [tx_pair] (\<lambda>z sd. same_factor ex_context ''road_width'' z \<and> sd = Target_Side) q = Inr q"
    using pr(1) q' by (simp add: retain_pair_def Let_def retain_side_def tx_pair_sel ex_reliability_def same_factor_def)
  moreover have "cf_pairs (rm_facts (vs_material r)) = [?p]" using r pairs by simp
  moreover have "set_pairs [q] (vs_material r) = with_version ''2'' (with_pairs (\<lambda>_. q) tx_material)"
    using pairs by (simp add: r set_pairs_def with_pairs_def with_version_def)
  moreover have "pl_registry (rm_policy (vs_material r)) = ex_registry" by (simp add: r tx_material_def ex_policy_def)
  moreover have "mr_changes (vs_revision tx_case_snapshot) = []" "vs_material tx_case_snapshot = tx_material" by (simp_all add: tx_case_snapshot_def)
  moreover have "actor_reference_valid (pr_actor wx_reviewer)" "actor_kind (pr_actor wx_reviewer) = A_human" "actor_id (pr_actor wx_reviewer) = ''alice''"
    by code_simp+
  ultimately show ?thesis
    using rev res pu q(1) n tx_head_of pr pairs
    by (simp add: confirm_material_def tx_pair_sel same_factor_def)
qed

lemma wx_transition:
  assumes "confirm_material tx_env (ks_subjects wx_service) tx_case_snapshot ''width'' (pr_actor wx_reviewer) ''2'' [] = Inr n"
  shows "workflow_transition wx_env wx_service wx_fresh wx_reviewer wx_answer wx_task wx_context
     = Inr \<lparr>hn_snapshot = n, hn_next_run = Some (work_on 41 n), hn_authorization = None\<rparr>"
proof -
  have "side_reference tx_env (ks_subjects wx_service) tx_case_snapshot ''width'' = Inr tx_side" by code_simp
  then show ?thesis using assms
    by (simp add: workflow_transition_def accepted_change_def Let_def wx_task_def wx_context_def wx_answer_def wx_env_def wx_fresh_def)
qed

lemma wx_answered: "\<exists>x q. respond_task wx_env wx_service wx_fresh 60 wx_reviewer wx_answer wx_repo = Inr (x, q)
    \<and> dict_get (tq_responses q) (''alice'', ''k1'') = Some x \<and> hx_task x = answered_task wx_task
    \<and> mr_reference (hx_revision x) \<noteq> tx_head \<and> hx_next_run x \<noteq> None"
proof -
  obtain n where n: "confirm_material tx_env (ks_subjects wx_service) tx_case_snapshot ''width'' (pr_actor wx_reviewer) ''2'' [] = Inr n"
    using wx_confirmed by blast
  obtain p sd where "child_snapshot tx_env tx_case_snapshot ''2'' n" by (rule confirm_material_Inr [OF n])
  then have ch: "mr_parent (vs_revision n) = Some tx_head" "rev_revision_id (mr_reference (vs_revision n)) = ''2''"
      "rev_case_id (mr_reference (vs_revision n)) = ''CASE''" "rev_material_digest (mr_reference (vs_revision n)) = re_material_digest tx_env (vs_material n)"
    unfolding child_snapshot_def tx_head_of by (simp_all add: tx_head_def)
  then have ref: "mr_reference (vs_revision n) \<noteq> tx_head" by (auto simp: tx_head_def)
  then have diff: "vs_revision n \<noteq> vs_revision tx_case_snapshot" using tx_head_of by metis
  have valid: "action_payload wx_answer" "task_authority wx_task" by code_simp+
  have cx: "context_in wx_reviewer wx_run False wx_repo = Inr wx_context"
    using wx_read by (simp add: read_context_def context_in_Inr wx_repo_def confirmations_of_def)
  have adm: "admit_response wx_task wx_answer wx_reviewer tx_head = Inr \<lparr>ar_command = wx_answer, ar_actor = pr_actor wx_reviewer\<rparr>"
    unfolding admit_response_Inr using valid
    by (simp add: wx_reviewer_def wx_answer_def wx_task_def task_current_def wx_run_def tx_side_def) (simp add: tx_head_def)
  let ?ch = "\<lparr>hn_snapshot = n, hn_next_run = Some (work_on 41 n), hn_authorization = None\<rparr>"
  let ?x = "\<lparr>hx_event_id = 60, hx_accepted = \<lparr>ar_command = wx_answer, ar_actor = pr_actor wx_reviewer\<rparr>, hx_task = answered_task wx_task,
     hx_revision = vs_revision n, hx_next_run = Some (work_on 41 n), hx_authorization = None\<rparr>"
  have allowed: "transition_allowed wx_env tx_case_snapshot ?ch wx_repo"
    using ch tx_head_of
    by (simp add: transition_allowed_def Let_def work_on_def wx_repo_def wx_start_def reference_key_def wx_env_def) (simp add: tx_head_def)
  have bound: "response_binding ?x"
    using ch ref
    by (simp add: response_binding_def Let_def answered_task_def wx_task_def wx_answer_def wx_reviewer_def work_on_def wx_run_def)
  have "continuation_of wx_task 60 (Some (work_on 41 n)) wx_repo = Inr None"
    by (simp add: continuation_of_def wx_repo_def wx_start_def)
  then have "accept_response wx_env 60 wx_reviewer wx_answer (workflow_transition wx_env wx_service wx_fresh wx_reviewer wx_answer) wx_task wx_repo
      = Inr (?x, write_response wx_reviewer wx_answer wx_task wx_context ?ch ?x None wx_repo)"
    using cx adm wx_transition [OF n] allowed bound tx_head_of
    by (simp add: accept_response_def Let_def) (simp add: wx_task_def wx_context_def)
  moreover have "stored_task wx_reviewer 40 wx_repo = Inr wx_task"
    by (simp add: stored_task_def wx_repo_def wx_task_def wx_run_def tx_head_def wx_reviewer_def principal_require_def)
  ultimately have "respond_task wx_env wx_service wx_fresh 60 wx_reviewer wx_answer wx_repo
      = Inr (?x, write_response wx_reviewer wx_answer wx_task wx_context ?ch ?x None wx_repo)"
    using valid(1)
    by (simp add: respond_task_def repository_respond_def on_error_def)
      (simp add: wx_answer_def wx_task_def wx_run_def tx_head_def wx_reviewer_def wx_repo_def wx_start_def principal_require_def)
  moreover have "dict_get (tq_responses (write_response wx_reviewer wx_answer wx_task wx_context ?ch ?x None wx_repo)) (''alice'', ''k1'') = Some ?x"
    by (simp add: write_response_sel) (simp add: wx_reviewer_def wx_answer_def)
  ultimately show ?thesis using ref by fastforce
qed

lemma wx_answered_run:
  assumes "respond_task wx_env wx_service wx_fresh 60 wx_reviewer wx_answer wx_repo = Inr (x, q)"
  shows "(repo_step wx_env wx_service)\<^sup>*\<^sup>* empty_repository q"
  using wx_run_to repo_step.answered [OF assms] by (rule rtranclp.rtrancl_into_rtrancl)

theorem task_is_answered_once_witness:
  "\<exists>(q :: task_repository) x. dict_get (tq_responses q) (''alice'', ''k1'') = Some x \<and> dict_get (tq_tasks q) 40 = Some (answered_task wx_task)"
proof -
  obtain x q where x: "respond_task wx_env wx_service wx_fresh 60 wx_reviewer wx_answer wx_repo = Inr (x, q)"
      "dict_get (tq_responses q) (''alice'', ''k1'') = Some x" "hx_task x = answered_task wx_task"
    using wx_answered by blast
  have "ht_task_id (answered_task wx_task) = 40" by (simp add: wx_task_def)
  with task_is_answered_once [OF wx_answered_run [OF x(1)] rtranclp.rtrancl_refl x(2)] show ?thesis using x by auto
qed

theorem exact_answer_replayed_witness:
  "\<exists>x q. respond_task wx_env wx_service wx_fresh 60 wx_reviewer wx_answer wx_repo = Inr (x, q)
     \<and> respond_task wx_env wx_service wx_fresh 61 wx_reviewer wx_answer q = Inr (x, q)"
proof -
  obtain x q where x: "respond_task wx_env wx_service wx_fresh 60 wx_reviewer wx_answer wx_repo = Inr (x, q)" using wx_answered by blast
  show ?thesis using x exact_answer_replayed [OF reached_inv [OF wx_run_to] x rtranclp.rtrancl_refl] by blast
qed

theorem confirmations_are_earned_witness:
  "\<exists>(q :: task_repository) x s. dict_get (tq_responses q) (''alice'', ''k1'') = Some x
     \<and> dict_get (tq_snapshots q) (reference_key (mr_reference (hx_revision x))) = Some s \<and> vs_revision s = hx_revision x"
proof -
  obtain x q where x: "respond_task wx_env wx_service wx_fresh 60 wx_reviewer wx_answer wx_repo = Inr (x, q)"
      "dict_get (tq_responses q) (''alice'', ''k1'') = Some x" "hx_task x = answered_task wx_task" "mr_reference (hx_revision x) \<noteq> tx_head"
    using wx_answered by blast
  then have "mr_reference (hx_revision x) \<noteq> rr_revision (ht_run (hx_task x))" by (simp add: wx_task_def wx_run_def)
  from confirmations_are_earned [OF wx_answered_run [OF x(1)] x(2) this] show ?thesis using x(2) by blast
qed

theorem answer_closes_the_round_witness:
  "\<exists>x q n cx. respond_task wx_env wx_service wx_fresh 60 wx_reviewer wx_answer wx_repo = Inr (x, q) \<and> hx_next_run x = Some n
     \<and> context_in wx_reviewer n True q = Inr cx \<and> vs_revision (hc_snapshot cx) = hx_revision x \<and> (\<forall>pr cx'. read_context pr n q \<noteq> Inr cx')"
proof -
  obtain x q n where x: "respond_task wx_env wx_service wx_fresh 60 wx_reviewer wx_answer wx_repo = Inr (x, q)" "hx_next_run x = Some n"
    using wx_answered by blast
  have "dict_get (tq_responses wx_repo) (actor_id (pr_actor wx_reviewer), hr_idempotency_key wx_answer) = None"
    by (simp add: wx_repo_def wx_start_def)
  note closed = answer_closes_the_round [OF wx_run_to x(1) this x(2)]
  show ?thesis using x conjunct1 [OF conjunct2 [OF closed]] conjunct1 [OF conjunct2 [OF conjunct2 [OF closed]]] by blast
qed

end
