(* ===== verification/Pdf_Contracts.thy ===== *)
theory Pdf_Contracts
  imports Documents Factor_Engine Review_Contracts Workflow_Contracts
begin

text \<open>
  \<open>domain/pdf_types.py\<close> and \<open>domain/pdf_models.py\<close>: what the controller asks of a PDF writer and what it accepts back.
  An \<open>Identifier\<close> is stripped on construction, so a valid model holds stripped, non-empty texts.
\<close>

section \<open>Fields and their values\<close>

datatype pdf_value = Target_Grade_Value | Comparable_Grade_Value | Adjustment_Value | Total_Value

record pdf_value_ref =
  vf_scope :: scope
  vf_target_id :: string
  vf_comparable_id :: string
  vf_value :: pdf_value
  vf_factor_id :: "string option"

datatype field_operation = Fill_Blank | Annotate | Correct_Field

record pdf_field =
  pf_field_id :: string
  pf_page :: int
  pf_bounding_box :: box
  pf_max_characters :: "int option"
  pf_value_ref :: "pdf_value_ref option"
  pf_placeholder_token :: "string option"
  pf_operation :: field_operation

record pdf_field_map =
  pm_template_id :: string
  pm_fields :: "pdf_field list"

definition pdf_identifier :: "string \<Rightarrow> bool" where
  "pdf_identifier s = (s \<noteq> [] \<and> strip s = s)"

definition value_ref_valid :: "pdf_value_ref \<Rightarrow> bool" where
  "value_ref_valid r =
     (pdf_identifier (vf_target_id r) \<and> pdf_identifier (vf_comparable_id r) \<and> option_ok pdf_identifier (vf_factor_id r)
      \<and> (vf_value r = Total_Value) = (vf_factor_id r = None))"

definition upper_or_digit :: "char \<Rightarrow> bool" where
  "upper_or_digit c = (let n = of_char c :: nat in 48 \<le> n \<and> n \<le> 57 \<or> 65 \<le> n \<and> n \<le> 90)"

definition placeholder_token :: "string \<Rightarrow> bool" where
  "placeholder_token s =
     (let rest = drop 7 s in take 7 s = ''APR-PH-'' \<and> 8 \<le> length rest \<and> length rest \<le> 63 \<and> upper_or_digit (hd rest)
      \<and> list_all (\<lambda>c. upper_or_digit c \<or> c = CHR ''-'') (tl rest))"

definition box_placed :: "box \<Rightarrow> bool" where
  "box_placed b =
     (case b of (x1, y1, x2, y2) \<Rightarrow> list_all is_finite [x1, y1, x2, y2]
        \<and> \<not> (list_ex (\<lambda>v. dec_less v (Dec 0 0)) [x1, y1, x2, y2] \<or> dec_le x2 x1 \<or> dec_le y2 y1))"

definition pdf_field_valid :: "pdf_field \<Rightarrow> bool" where
  "pdf_field_valid f =
     (pdf_identifier (pf_field_id f) \<and> 1 \<le> pf_page f \<and> box_placed (pf_bounding_box f) \<and> option_ok (\<lambda>n. 1 \<le> n) (pf_max_characters f)
      \<and> option_ok value_ref_valid (pf_value_ref f) \<and> option_ok placeholder_token (pf_placeholder_token f)
      \<and> \<not> (pf_value_ref f \<noteq> None \<and> pf_placeholder_token f \<noteq> None))"

definition field_map_valid :: "pdf_field_map \<Rightarrow> bool" where
  "field_map_valid m =
     (pdf_identifier (pm_template_id m) \<and> list_all pdf_field_valid (pm_fields m) \<and> distinct (map pf_field_id (pm_fields m)))"

definition field_lookup :: "pdf_field_map \<Rightarrow> string \<Rightarrow> pdf_field result" where
  "field_lookup m i = (case filter (\<lambda>f. pf_field_id f = i) (pm_fields m) of [f] \<Rightarrow> Inr f | _ \<Rightarrow> Inl Key_Error)"

section \<open>Write results\<close>

record pdf_write_result =
  pw_artifact_created :: bool
  pw_output_uri :: string
  pw_page_count :: int
  pw_written_field_ids :: "string list"
  pw_warnings :: "string list"

definition stripped_result :: "pdf_write_result \<Rightarrow> pdf_write_result" where
  "stripped_result r = r\<lparr>pw_output_uri := strip (pw_output_uri r), pw_written_field_ids := map strip (pw_written_field_ids r),
     pw_warnings := map strip (pw_warnings r)\<rparr>"

definition write_result_valid :: "pdf_write_result \<Rightarrow> bool" where
  "write_result_valid r =
     (pdf_identifier (pw_output_uri r) \<and> is_ok (document_identity (pw_output_uri r)) \<and> 1 \<le> pw_page_count r
      \<and> list_all pdf_identifier (pw_written_field_ids r) \<and> distinct (pw_written_field_ids r) \<and> list_all pdf_identifier (pw_warnings r))"

section \<open>Write requests\<close>

record pdf_write_request =
  wq_source_uri :: string
  wq_destination_uri :: string
  wq_protected_source_uris :: "string list"
  wq_result :: factor_review_result
  wq_additional_results :: "factor_review_result list"
  wq_field_map :: pdf_field_map

type_synonym context_key = "scope \<times> string \<times> string"

definition context_tuple :: "comparison_context \<Rightarrow> context_key" where
  "context_tuple c = (cx_scope c, cx_target_id c, cx_comparable_id c)"

definition ref_tuple :: "pdf_value_ref \<Rightarrow> context_key" where
  "ref_tuple r = (vf_scope r, vf_target_id r, vf_comparable_id r)"

definition comparisons :: "pdf_write_request \<Rightarrow> factor_review_result list" where
  "comparisons q = wq_result q # wq_additional_results q"

definition value_refs :: "pdf_field_map \<Rightarrow> pdf_value_ref list" where
  "value_refs m = List.map_filter pf_value_ref (pm_fields m)"

definition bound_comparison :: "pdf_write_request \<Rightarrow> pdf_value_ref \<Rightarrow> factor_review_result result" where
  "bound_comparison q r =
     (if wq_additional_results q = [] \<and> fw_context (wq_result q) = None then Inr (wq_result q)
      else case filter (\<lambda>x. map_option context_tuple (fw_context x) = Some (ref_tuple r)) (comparisons q) of
             [x] \<Rightarrow> Inr x | _ \<Rightarrow> Inl (Pdf_Error Pdf_Placement))"

text \<open>The attribute of a factor result that a reference names.\<close>

definition has_value :: "pdf_value \<Rightarrow> factor_evaluation_result \<Rightarrow> bool" where
  "has_value v x =
     (case v of Target_Grade_Value \<Rightarrow> fv_target_grade x \<noteq> None | Comparable_Grade_Value \<Rightarrow> fv_comparable_grade x \<noteq> None
      | Adjustment_Value \<Rightarrow> fv_adjustment_percent x \<noteq> None | Total_Value \<Rightarrow> False)"

definition ref_resolves :: "pdf_write_request \<Rightarrow> pdf_value_ref \<Rightarrow> unit result" where
  "ref_resolves q r =
     bind_result (bound_comparison q r) (\<lambda>x.
       ensure (case vf_factor_id r of
           Some f \<Rightarrow> (case filter (\<lambda>y. fv_factor_id y = f) (fw_results x) of [y] \<Rightarrow> has_value (vf_value r) y | _ \<Rightarrow> False)
         | None \<Rightarrow> su_total_adjustment_percent (fw_summary x) \<noteq> None) (Pdf_Error Pdf_Placement))"

text \<open>\<open>validate_request\<close>, check by check.\<close>

definition destination_free :: "pdf_write_request \<Rightarrow> unit result" where
  "destination_free q =
     bind_result (document_identity (wq_destination_uri q)) (\<lambda>d.
     bind_result (map_result document_identity (wq_source_uri q # wq_protected_source_uris q)) (\<lambda>ps.
       ensure (d \<notin> set ps) (Pdf_Error Pdf_Conflict)))"

definition bound_contexts :: "pdf_write_request \<Rightarrow> unit result" where
  "bound_contexts q =
     (let xs = comparisons q; keys = map context_tuple (List.map_filter fw_context xs) in
      if wq_additional_results q = [] then Inr ()
      else ensure (list_all (\<lambda>x. fw_context x \<noteq> None) xs \<and> distinct keys \<and> length (remdups (map fw_case_id xs)) = 1) (Pdf_Error Pdf_Placement))"

definition mapped_fields :: "pdf_write_request \<Rightarrow> unit result" where
  "mapped_fields q =
     (let fields = pm_fields (wq_field_map q); contexts = map ref_tuple (value_refs (wq_field_map q)) in
      bind_result (ensure (list_all (\<lambda>f. pf_value_ref f \<noteq> None \<or> pf_placeholder_token f \<noteq> None) fields) (Pdf_Error Pdf_Placement)) (\<lambda>_.
      bind_result (ensure (wq_additional_results q = []
          \<or> list_all (\<lambda>x. option_ok (\<lambda>c. context_tuple c \<in> set contexts) (fw_context x)) (comparisons q)) (Pdf_Error Pdf_Placement)) (\<lambda>_.
      bind_result (map_result (ref_resolves q) (value_refs (wq_field_map q))) (\<lambda>_.
        ensure (wq_additional_results q \<noteq> [] \<or> card (set contexts) \<le> 1) (Pdf_Error Pdf_Placement)))))"

definition validate_request :: "pdf_write_request \<Rightarrow> unit result" where
  "validate_request q =
     bind_result (destination_free q) (\<lambda>_.
     bind_result (ensure (pm_fields (wq_field_map q) \<noteq> []) (Pdf_Error Pdf_Placement)) (\<lambda>_.
     bind_result (bound_contexts q) (\<lambda>_. mapped_fields q)))"

text \<open>Construction: the parts first, then the checks; the revalidation of a result concerns serialisation only.\<close>

definition stripped_request :: "pdf_write_request \<Rightarrow> pdf_write_request" where
  "stripped_request q = q\<lparr>wq_source_uri := strip (wq_source_uri q), wq_destination_uri := strip (wq_destination_uri q),
     wq_protected_source_uris := map strip (wq_protected_source_uris q)\<rparr>"

definition make_write_request :: "(factor_review_result \<Rightarrow> bool) \<Rightarrow> pdf_write_request \<Rightarrow> pdf_write_request result" where
  "make_write_request well_formed q =
     (let q' = stripped_request q in
      bind_result (ensure (list_all pdf_identifier (wq_source_uri q' # wq_destination_uri q' # wq_protected_source_uris q')
        \<and> list_all well_formed (comparisons q') \<and> field_map_valid (wq_field_map q')) Value_Error) (\<lambda>_.
      bind_result (validate_request q') (\<lambda>_. Inr q')))"

end
