(* ===== verification/Review_Controller.thy ===== *)
theory Review_Controller
  imports Computations Pdf_Contracts Case_Review Job_Store
begin

text \<open>
  \<open>application/controller.py\<close> with the run models of \<open>domain/factor_models.py\<close>: parse, load rules, extract facts, review,
  verify, and only then write a PDF.  Parser, rule provider, fact extractor, writer and audit log are collaborators: they
  change a world of their own and may raise.  What a raised writer exception is worth to the controller is its class.
\<close>

section \<open>Reports, events and runs\<close>

datatype report_error =
    Engine_Error critical_error | Finding_Trace review_finding | Source_Binding_Text | Registry_Required

record report =
  rt_status :: evaluation_status
  rt_critical_errors :: "report_error list"

definition completes :: "report \<Rightarrow> bool" where
  "completes r = (rt_status r = E_VERIFIED \<and> rt_critical_errors r = [])"

record rule_set_detail =
  rd_id :: string
  rd_version :: string
  rd_context :: "comparison_context option"
  rd_status :: rule_status
  rd_rule_ids :: "string list"

record comparison_detail =
  cq_id :: string
  cq_version :: string
  cq_context :: "comparison_context option"
  cq_outcome :: evaluation_status
  cq_factors :: "(string \<times> string option \<times> evaluation_status \<times> bool) list"

record selection_detail =
  se_context :: comparison_context
  se_selected :: bool
  se_reasons :: "string list"

datatype event_details =
    No_Details | Source_Binding_Code | Rule_Set_Details "rule_set_detail list" | Not_Approved_Details string string rule_status
  | Reason_Details string | Comparison_Details "comparison_detail list" "selection_detail list"
  | Error_Details "report_error list" | Output_Details string | Code_Details pdf_error_code

record audit_event =
  ae_case_id :: string
  ae_sequence :: nat
  ae_event_type :: string
  ae_status :: string
  ae_tool :: string
  ae_rule_ids :: "string list"
  ae_details :: event_details

record agent_request =
  aq_case_id :: string
  aq_criteria_uri :: string
  aq_case_uri :: string
  aq_template_uri :: "string option"
  aq_output_uri :: "string option"
  aq_field_map :: "pdf_field_map option"

datatype artifact_status = Not_Requested | Unavailable | Unsupported_Contexts | Simulated | Written

record agent_run =
  ag_case_id :: string
  ag_status :: workflow_status
  ag_review :: "factor_review_result option"
  ag_case_review :: "case_review_result option"
  ag_artifact_status :: artifact_status
  ag_verification :: "report option"
  ag_output_uri :: "string option"
  ag_pdf_result :: "pdf_write_result option"
  ag_pdf_error :: "pdf_error_code option"
  ag_events :: "audit_event list"

fun workflow_text :: "workflow_status \<Rightarrow> string" where
  "workflow_text W_RECEIVED = ''received''"
| "workflow_text W_NEEDS_REVIEW = ''needs_review''"
| "workflow_text W_VERIFIED = ''verified''"
| "workflow_text W_COMPLETED = ''completed''"
| "workflow_text W_FAILED = ''failed''"

fun evaluation_text :: "evaluation_status \<Rightarrow> string" where
  "evaluation_text E_VERIFIED = ''verified''"
| "evaluation_text E_NEEDS_REVIEW = ''needs_review''"
| "evaluation_text E_FAILED = ''failed''"

fun rule_status_text :: "rule_status \<Rightarrow> string" where
  "rule_status_text Candidate = ''candidate''"
| "rule_status_text Approved = ''approved''"
| "rule_status_text rule_status.Rejected = ''rejected''"

section \<open>Collaborators\<close>

record 'c parsed_document =
  pd_document_uri :: string
  pd_page_count :: int
  pd_source :: "source_document option"
  pd_content :: 'c

datatype loaded_rules = Loaded_Policy review_policy | Loaded_Rule_Set factor_rule_set

datatype extracted_facts = Extracted_Case case_facts | Extracted_Pairs "factor_pair list"

datatype write_outcome =
    Returned_Result pdf_write_result | Returned_Other | Raised_Pdf pdf_error_code | Raised_Validation | Raised_Other

record 'w pdf_writer =
  wr_supports_multiple :: bool
  wr_write :: "pdf_write_request \<Rightarrow> 'w \<Rightarrow> write_outcome \<times> 'w"

record ('c, 'w) controller =
  ct_env :: review_env
  ct_parse :: "string \<Rightarrow> 'w \<Rightarrow> 'c parsed_document result \<times> 'w"
  ct_rules :: "'c parsed_document \<Rightarrow> 'w \<Rightarrow> loaded_rules result \<times> 'w"
  ct_facts :: "'c parsed_document \<Rightarrow> string \<Rightarrow> 'w \<Rightarrow> extracted_facts result \<times> 'w"
  ct_writer :: "'w pdf_writer option"
  ct_audit :: "(audit_event \<Rightarrow> 'w \<Rightarrow> unit result \<times> 'w) option"
  ct_authorization :: "(review_material \<Rightarrow> bool) option"
  ct_minimum_confidence :: pyfloat

record 'w review_state =
  rs_events :: "audit_event list"
  rs_world :: 'w

type_synonym ('w, 'a) review_task = "'w review_state \<Rightarrow> 'a result \<times> 'w review_state"

definition call :: "('w \<Rightarrow> 'a \<times> 'w) \<Rightarrow> 'w review_state \<Rightarrow> (fault + 'a) \<times> 'w review_state" where
  "call f s = (case f (rs_world s) of (x, w) \<Rightarrow> (Inr x, s\<lparr>rs_world := w\<rparr>))"

definition ask :: "('w \<Rightarrow> 'a result \<times> 'w) \<Rightarrow> ('w, 'a) review_task" where
  "ask f = seq (call f) lift_result"

definition events_so_far :: "('w, audit_event list) review_task" where
  "events_so_far s = (Inr (rs_events s), s)"

definition record_event :: "('c, 'w) controller \<Rightarrow> string \<Rightarrow> string \<Rightarrow> string \<Rightarrow> string \<Rightarrow> string list \<Rightarrow> event_details \<Rightarrow> ('w, unit) review_task" where
  "record_event ct case_id type status tool rule_ids details s =
     (let e = \<lparr>ae_case_id = case_id, ae_sequence = length (rs_events s) + 1, ae_event_type = type, ae_status = status, ae_tool = tool,
               ae_rule_ids = rule_ids, ae_details = details\<rparr>;
          s' = s\<lparr>rs_events := rs_events s @ [e]\<rparr>
      in case ct_audit ct of None \<Rightarrow> (Inr (), s') | Some append_log \<Rightarrow> ask (append_log e) s')"

section \<open>Parsing\<close>

text \<open>The parsed document is what was asked for, in identity, role and page count.\<close>

definition bind_source :: "string \<Rightarrow> document_role \<Rightarrow> 'c parsed_document \<Rightarrow> 'c parsed_document result" where
  "bind_source uri role p =
     bind_result (ensure (1 \<le> pd_page_count p \<and> option_ok complete_pages (pd_source p)) Value_Error) (\<lambda>_.
       case pd_source p of
         None \<Rightarrow> bind_result (ensure (pd_document_uri p = uri) Source_Binding) (\<lambda>_. Inr p)
       | Some d \<Rightarrow>
           bind_result (document_identity uri) (\<lambda>a.
           bind_result (document_identity (pd_document_uri p)) (\<lambda>b.
           if a \<noteq> b then Inl Source_Binding
           else bind_result (document_identity (sd_uri d)) (\<lambda>c.
             bind_result (ensure (a = c \<and> sd_role d = role \<and> pd_page_count p = int (length (sd_pages d))) Source_Binding) (\<lambda>_. Inr p)))))"

definition parse_source :: "('c, 'w) controller \<Rightarrow> string \<Rightarrow> document_role \<Rightarrow> ('w, 'c parsed_document) review_task" where
  "parse_source ct uri role =
     handle (seq (ask (ct_parse ct uri)) (\<lambda>p. lift_result (bind_source uri role p)))
       (\<lambda>e. throw (if is_value_error e \<or> is_pdf_error e then Source_Binding else e))"

section \<open>The sources of a review\<close>

definition same_document :: "source_document \<Rightarrow> source_document \<Rightarrow> bool result" where
  "same_document d e =
     bind_result (document_identity (sd_uri d)) (\<lambda>a. bind_result (document_identity (sd_uri e)) (\<lambda>b. Inr (a = b)))"

definition matching_sources :: "source_document option list \<Rightarrow> source_document \<Rightarrow> source_document list result" where
  "matching_sources primary registered = filter_result (\<lambda>d. same_document d registered) (List.map_filter id primary)"

definition current_source :: "('c, 'w) controller \<Rightarrow> source_document option list \<Rightarrow> source_document \<Rightarrow>
    ('w, source_document option) review_task" where
  "current_source ct primary registered =
     seq (lift_result (matching_sources primary registered)) (\<lambda>matches.
     seq (case matches of
         [d] \<Rightarrow> pure (Some d)
       | [] \<Rightarrow> if sd_role registered \<in> {Reference, Brief}
               then seq (parse_source ct (sd_uri registered) (sd_role registered)) (\<lambda>p. pure (pd_source p))
               else throw Source_Binding
       | _ \<Rightarrow> throw Source_Binding) (\<lambda>current.
     case current of
       None \<Rightarrow> pure None
     | Some d \<Rightarrow> seq (lift_result (same_identity_and_content d registered)) (\<lambda>same.
         seq (check same Source_Binding) (\<lambda>_. pure (Some d)))))"

fun current_sources :: "('c, 'w) controller \<Rightarrow> source_document option list \<Rightarrow> source_document list \<Rightarrow>
    ('w, source_document option list) review_task" where
  "current_sources ct primary [] = pure []"
| "current_sources ct primary (d # ds) =
     seq (current_source ct primary d) (\<lambda>x. seq (current_sources ct primary ds) (\<lambda>xs. pure (x # xs)))"

text \<open>Whether some primary source is not one of the registered documents.\<close>

definition unregistered :: "source_document list \<Rightarrow> source_document option list \<Rightarrow> bool result" where
  "unregistered registered primary =
     any_result (\<lambda>d. bind_result (any_result (same_identity_and_content d) registered) (\<lambda>b. Inr (\<not> b))) (List.map_filter id primary)"

definition gather_sources :: "('c, 'w) controller \<Rightarrow> source_document option list \<Rightarrow> source_document list \<Rightarrow>
    ('w, source_document option list) review_task" where
  "gather_sources ct primary registered =
     seq (current_sources ct primary registered) (\<lambda>sources.
     seq (lift_result (unregistered registered primary)) (\<lambda>foreign.
     seq (check (\<not> foreign) Source_Binding) (\<lambda>_. pure sources)))"

section \<open>Reviewing\<close>

text \<open>What a review leaves for the report and the writer.\<close>

record reviewed =
  rw_result :: "factor_review_result option"
  rw_case :: "case_review_result option"
  rw_report :: report

definition report_of_case :: "case_review_result \<Rightarrow> report" where
  "report_of_case r = \<lparr>rt_status = cr_status r, rt_critical_errors = map Finding_Trace (filter (\<lambda>f. rf_status f \<noteq> E_VERIFIED) (cr_findings r))\<rparr>"

definition report_of_verification :: "verification_report \<Rightarrow> report" where
  "report_of_verification r = \<lparr>rt_status = vr_status r, rt_critical_errors = map Engine_Error (vr_critical_errors r)\<rparr>"

definition review_sources :: "('c, 'w) controller \<Rightarrow> review_policy \<Rightarrow> case_facts \<Rightarrow> source_document list \<Rightarrow> source_document option \<Rightarrow>
    source_document option \<Rightarrow> reviewed result" where
  "review_sources ct pl facts sources forms criteria =
     bind_result (make_reviewer (ct_authorization ct) (ct_minimum_confidence ct)) (\<lambda>rv.
     let g = \<lparr>sy_documents = sources\<rparr> in
     bind_result (ensure (unique_documents g) Value_Error) (\<lambda>_.
     bind_result (review_case (ct_env ct) rv pl facts g None forms criteria) (\<lambda>r.
       Inr \<lparr>rw_result = (case cr_comparisons r of [x] \<Rightarrow> Some x | _ \<Rightarrow> None), rw_case = Some r, rw_report = report_of_case r\<rparr>)))"

text \<open>\<open>None\<close>: a source of the registry was not parsed into a typed document.\<close>

definition review_policy_case :: "('c, 'w) controller \<Rightarrow> agent_request \<Rightarrow> 'c parsed_document \<Rightarrow> 'c parsed_document \<Rightarrow> review_policy \<Rightarrow>
    case_facts \<Rightarrow> ('w, reviewed option) review_task" where
  "review_policy_case ct rq criteria forms pl facts =
     seq (check (aq_case_id rq = ci_case_id (pl_identity pl)) Value_Error) (\<lambda>_.
     seq (gather_sources ct [pd_source criteria, pd_source forms] (sy_documents (pl_registry pl))) (\<lambda>sources.
     if None \<in> set sources then pure None
     else seq (lift_result (review_sources ct pl facts (List.map_filter id sources) (pd_source forms) (pd_source criteria))) (\<lambda>x.
       pure (Some x))))"

definition review_rule_set :: "('c, 'w) controller \<Rightarrow> agent_request \<Rightarrow> factor_rule_set \<Rightarrow> factor_pair list \<Rightarrow> reviewed result" where
  "review_rule_set ct rq rs pairs =
     (let q = \<lparr>fe_case_id = aq_case_id rq, fe_rule_set_id = frs_rule_set_id rs, fe_factors = pairs\<rparr>; env = ct_env ct in
      bind_result (ensure (request_valid q) Value_Error) (\<lambda>_.
      bind_result (make_engine rs (ct_minimum_confidence ct) []) (\<lambda>en.
      bind_result (engine_evaluate (env_fold_text env) (env_to_float env) en q) (\<lambda>x.
      bind_result (verify_review (env_fold_text env) (env_to_float env) (env_well_formed env) x rs None (ct_minimum_confidence ct) []) (\<lambda>r.
        Inr \<lparr>rw_result = Some x, rw_case = None, rw_report = report_of_verification r\<rparr>)))))"

definition review_facts :: "('c, 'w) controller \<Rightarrow> agent_request \<Rightarrow> 'c parsed_document \<Rightarrow> 'c parsed_document \<Rightarrow> loaded_rules \<Rightarrow>
    extracted_facts \<Rightarrow> ('w, reviewed option) review_task" where
  "review_facts ct rq criteria forms rules facts =
     (case (rules, facts) of
        (Loaded_Policy pl, Extracted_Case cf) \<Rightarrow> review_policy_case ct rq criteria forms pl cf
      | (Loaded_Rule_Set rs, Extracted_Pairs ps) \<Rightarrow> seq (lift_result (review_rule_set ct rq rs ps)) (\<lambda>x. pure (Some x))
      | _ \<Rightarrow> throw Value_Error)"

section \<open>Events of a review\<close>

definition scoped_rule_sets :: "loaded_rules \<Rightarrow> (factor_rule_set \<times> comparison_context option) list" where
  "scoped_rule_sets x =
     (case x of Loaded_Policy pl \<Rightarrow> map (\<lambda>s. (sc_rules s, Some (sc_context s))) (pl_rule_sets pl) | Loaded_Rule_Set rs \<Rightarrow> [(rs, None)])"

definition loaded_status :: "loaded_rules \<Rightarrow> string" where
  "loaded_status x = (case x of Loaded_Policy _ \<Rightarrow> ''candidate'' | Loaded_Rule_Set rs \<Rightarrow> rule_status_text (frs_status rs))"

definition record_rules :: "('c, 'w) controller \<Rightarrow> string \<Rightarrow> loaded_rules \<Rightarrow> ('w, unit) review_task" where
  "record_rules ct case_id x =
     record_event ct case_id ''rules_loaded'' (loaded_status x) ''load_or_build_rules''
       (sort (remdups (concat (map (\<lambda>(rs, _). map fr_id (frs_rules rs)) (scoped_rule_sets x)))))
       (Rule_Set_Details (map (\<lambda>(rs, c). \<lparr>rd_id = frs_rule_set_id rs, rd_version = frs_version rs, rd_context = c,
          rd_status = frs_status rs, rd_rule_ids = map fr_id (frs_rules rs)\<rparr>) (scoped_rule_sets x)))"

definition evaluated_of :: "reviewed \<Rightarrow> factor_review_result list" where
  "evaluated_of r = (case rw_case r of Some c \<Rightarrow> cr_comparisons c | None \<Rightarrow> (case rw_result r of Some x \<Rightarrow> [x] | None \<Rightarrow> []))"

definition comparison_detail_of :: "factor_review_result \<Rightarrow> comparison_detail" where
  "comparison_detail_of x = \<lparr>cq_id = fw_rule_set_id x, cq_version = fw_rule_version x, cq_context = fw_context x, cq_outcome = su_status (fw_summary x),
     cq_factors = map (\<lambda>y. (fv_factor_id y, fv_rule_id y, fv_status y, fv_adjustment_percent y \<noteq> None)) (fw_results x)\<rparr>"

definition selection_detail_of :: "case_review_result \<Rightarrow> comparison_context \<Rightarrow> selection_detail" where
  "selection_detail_of r c = \<lparr>se_context = c, se_selected = list_ex (\<lambda>x. fw_context x = Some c) (cr_comparisons r),
     se_reasons = map rf_kind (filter (\<lambda>f. rf_context f = Some c \<and> rf_status f \<noteq> E_VERIFIED) (cr_findings r))\<rparr>"

definition record_evaluated :: "('c, 'w) controller \<Rightarrow> string \<Rightarrow> loaded_rules \<Rightarrow> reviewed \<Rightarrow> ('w, unit) review_task" where
  "record_evaluated ct case_id rules r =
     (let xs = evaluated_of r;
          selection = (case (rules, rw_case r) of (Loaded_Policy pl, Some c) \<Rightarrow> map (\<lambda>e. selection_detail_of c (ic_context e)) (iv_contexts (pl_inventory pl))
            | _ \<Rightarrow> [])
      in record_event ct case_id ''factors_evaluated'' (if xs \<noteq> [] then ''evaluated'' else ''not_computed'') ''evaluate_factors''
           (sort (remdups (concat (map (\<lambda>x. List.map_filter fv_rule_id (fw_results x)) xs))))
           (Comparison_Details (map comparison_detail_of xs) selection))"

section \<open>Writing\<close>

definition blank_run :: "agent_request \<Rightarrow> workflow_status \<Rightarrow> audit_event list \<Rightarrow> agent_run" where
  "blank_run rq status events = \<lparr>ag_case_id = aq_case_id rq, ag_status = status, ag_review = None, ag_case_review = None,
     ag_artifact_status = Not_Requested, ag_verification = None, ag_output_uri = None, ag_pdf_result = None, ag_pdf_error = None, ag_events = events\<rparr>"

definition finished :: "(audit_event list \<Rightarrow> agent_run) \<Rightarrow> ('w, agent_run) review_task" where
  "finished f = seq events_so_far (\<lambda>events. pure (f events))"

definition reviewed_run :: "agent_request \<Rightarrow> workflow_status \<Rightarrow> reviewed \<Rightarrow> audit_event list \<Rightarrow> agent_run" where
  "reviewed_run rq status r events = (blank_run rq status events)
     \<lparr>ag_review := rw_result r, ag_case_review := rw_case r, ag_verification := Some (rw_report r)\<rparr>"

definition pdf_failed :: "('c, 'w) controller \<Rightarrow> agent_request \<Rightarrow> reviewed \<Rightarrow> pdf_error_code \<Rightarrow> ('w, agent_run) review_task" where
  "pdf_failed ct rq r code =
     seq (record_event ct (aq_case_id rq) ''pdf_write_failed'' (workflow_text W_FAILED) ''write_pdf'' [] (Code_Details code)) (\<lambda>_.
       finished (\<lambda>events. (reviewed_run rq W_FAILED r events)\<lparr>ag_pdf_error := Some code\<rparr>))"

definition writable_contexts :: "('c, 'w) controller \<Rightarrow> agent_request \<Rightarrow> factor_review_result list \<Rightarrow> bool" where
  "writable_contexts ct rq xs =
     (let mapped = (case aq_field_map rq of None \<Rightarrow> {} | Some m \<Rightarrow> set (map ref_tuple (value_refs m))) in
      aq_output_uri rq \<noteq> None \<and> 1 < length xs \<and> (case ct_writer ct of None \<Rightarrow> False | Some w \<Rightarrow> wr_supports_multiple w)
      \<and> list_all (\<lambda>x. case fw_context x of None \<Rightarrow> False | Some c \<Rightarrow> context_tuple c \<in> mapped) xs)"

definition source_uri :: "'c parsed_document \<Rightarrow> string" where
  "source_uri p = (case pd_source p of Some d \<Rightarrow> sd_uri d | None \<Rightarrow> pd_document_uri p)"

definition other_document :: "string \<Rightarrow> string \<Rightarrow> bool result" where
  "other_document template uri =
     bind_result (document_identity uri) (\<lambda>a. bind_result (document_identity template) (\<lambda>b. Inr (a \<noteq> b)))"

definition protected_sources :: "'c parsed_document \<Rightarrow> 'c parsed_document \<Rightarrow> loaded_rules \<Rightarrow> string \<Rightarrow> string list result" where
  "protected_sources criteria forms rules template =
     (let uris = [source_uri criteria, source_uri forms] @ (case rules of Loaded_Policy pl \<Rightarrow> map sd_uri (sy_documents (pl_registry pl)) | _ \<Rightarrow> []) in
      bind_result (filter_result (other_document template) uris) (\<lambda>xs. Inr (fromkeys xs)))"

definition code_of_fault :: "fault \<Rightarrow> pdf_error_code" where
  "code_of_fault e = (case e of Pdf_Error c \<Rightarrow> c | _ \<Rightarrow> Pdf_Placement)"

text \<open>The writer's answer; when the identities are compared, both are known to exist.\<close>

definition accepted_output :: "pdf_write_request \<Rightarrow> write_outcome \<Rightarrow> pdf_error_code + pdf_write_result" where
  "accepted_output q out =
     (case out of
        Raised_Pdf c \<Rightarrow> Inl c
      | Raised_Validation \<Rightarrow> Inl Pdf_Invalid_Result
      | Raised_Other \<Rightarrow> Inl Pdf_Write
      | Returned_Other \<Rightarrow> Inl Pdf_Invalid_Result
      | Returned_Result raw \<Rightarrow>
          let r = stripped_result raw in
          bind_result (ensure (write_result_valid r) Pdf_Invalid_Result) (\<lambda>_.
          bind_result (ensure (document_identity (pw_output_uri r) = document_identity (wq_destination_uri q)
            \<and> set (pw_written_field_ids r) = set (map pf_field_id (pm_fields (wq_field_map q)))) Pdf_Invalid_Result) (\<lambda>_. Inr r)))"

definition pdf_written :: "('c, 'w) controller \<Rightarrow> agent_request \<Rightarrow> reviewed \<Rightarrow> pdf_write_result \<Rightarrow> ('w, agent_run) review_task" where
  "pdf_written ct rq r output =
     (let written = pw_artifact_created output; status = (if written then W_COMPLETED else W_VERIFIED) in
      seq (record_event ct (aq_case_id rq) (if written then ''pdf_written'' else ''pdf_simulated'') (workflow_text status) ''write_pdf'' []
        (Output_Details (pw_output_uri output))) (\<lambda>_.
      finished (\<lambda>events. (reviewed_run rq status r events)
        \<lparr>ag_artifact_status := (if written then Written else Simulated), ag_output_uri := (if written then Some (pw_output_uri output) else None),
         ag_pdf_result := Some output\<rparr>)))"

definition write_pdf :: "('c, 'w) controller \<Rightarrow> agent_request \<Rightarrow> 'c parsed_document \<Rightarrow> 'c parsed_document \<Rightarrow> loaded_rules \<Rightarrow> reviewed \<Rightarrow>
    'w pdf_writer \<Rightarrow> string \<Rightarrow> string \<Rightarrow> pdf_field_map \<Rightarrow> factor_review_result list \<Rightarrow> ('w, agent_run) review_task" where
  "write_pdf ct rq criteria forms rules r writer destination template m xs =
     seq (lift_result (protected_sources criteria forms rules template)) (\<lambda>uris.
     case make_write_request (env_well_formed (ct_env ct)) \<lparr>wq_source_uri = template, wq_destination_uri = destination,
         wq_protected_source_uris = uris, wq_result = hd xs, wq_additional_results = tl xs, wq_field_map = m\<rparr> of
       Inl e \<Rightarrow> pdf_failed ct rq r (code_of_fault e)
     | Inr q \<Rightarrow>
         seq (call (wr_write writer q)) (\<lambda>out.
         case accepted_output q out of
           Inl code \<Rightarrow> pdf_failed ct rq r code
         | Inr output \<Rightarrow> pdf_written ct rq r output))"

text \<open>After verification: what is still missing for an artifact decides the outcome, in this order.\<close>

definition complete_run :: "('c, 'w) controller \<Rightarrow> agent_request \<Rightarrow> 'c parsed_document \<Rightarrow> 'c parsed_document \<Rightarrow> loaded_rules \<Rightarrow> reviewed \<Rightarrow>
    ('w, agent_run) review_task" where
  "complete_run ct rq criteria forms rules r =
     (let multiple = (case rw_case r of Some c \<Rightarrow> cr_comparisons c | None \<Rightarrow> []) in
      if rw_result r = None \<and> \<not> writable_contexts ct rq multiple
      then finished (\<lambda>events. (reviewed_run rq W_VERIFIED r events)
             \<lparr>ag_artifact_status := (if aq_output_uri rq \<noteq> None then Unsupported_Contexts else Not_Requested)\<rparr>)
      else case aq_output_uri rq of
        None \<Rightarrow> finished (reviewed_run rq W_VERIFIED r)
      | Some destination \<Rightarrow>
          (case ct_writer ct of
             None \<Rightarrow> finished (\<lambda>events. (reviewed_run rq W_VERIFIED r events)\<lparr>ag_artifact_status := Unavailable\<rparr>)
           | Some writer \<Rightarrow>
               (case (aq_template_uri rq, aq_field_map rq) of
                  (Some template, Some m) \<Rightarrow>
                    write_pdf ct rq criteria forms rules r writer destination template m
                      (case rw_result r of Some x \<Rightarrow> [x] | None \<Rightarrow> multiple)
                | _ \<Rightarrow>
                    seq (record_event ct (aq_case_id rq) ''pdf_write_blocked'' (workflow_text W_FAILED) ''write_pdf'' []
                      (Reason_Details ''PDF writer, template, and field map are required'')) (\<lambda>_.
                    finished (\<lambda>events. (reviewed_run rq W_FAILED r events)\<lparr>ag_pdf_error := Some Pdf_Write\<rparr>)))))"

section \<open>The review\<close>

definition not_approved_run :: "('c, 'w) controller \<Rightarrow> agent_request \<Rightarrow> factor_rule_set \<Rightarrow> ('w, agent_run) review_task" where
  "not_approved_run ct rq rs =
     seq (record_event ct (aq_case_id rq) ''factors_evaluated'' ''not_computed'' ''evaluate_factors'' []
       (Not_Approved_Details (frs_rule_set_id rs) (frs_version rs) (frs_status rs))) (\<lambda>_.
     seq (record_event ct (aq_case_id rq) ''human_review_required'' (workflow_text W_NEEDS_REVIEW) ''controller'' []
       (Reason_Details ''rule set is not approved'')) (\<lambda>_.
       finished (blank_run rq W_NEEDS_REVIEW)))"

definition verified_run :: "('c, 'w) controller \<Rightarrow> agent_request \<Rightarrow> 'c parsed_document \<Rightarrow> 'c parsed_document \<Rightarrow> loaded_rules \<Rightarrow> reviewed \<Rightarrow>
    ('w, agent_run) review_task" where
  "verified_run ct rq criteria forms rules r =
     seq (record_evaluated ct (aq_case_id rq) rules r) (\<lambda>_.
     seq (record_event ct (aq_case_id rq) ''results_verified'' (evaluation_text (rt_status (rw_report r))) ''verify_results'' []
       (Error_Details (rt_critical_errors (rw_report r)))) (\<lambda>_.
     if \<not> completes (rw_report r)
     then finished (reviewed_run rq (if rt_status (rw_report r) = E_FAILED then W_FAILED else W_NEEDS_REVIEW) r)
     else complete_run ct rq criteria forms rules r))"

definition review_documents :: "('c, 'w) controller \<Rightarrow> agent_request \<Rightarrow> 'c parsed_document \<Rightarrow> loaded_rules \<Rightarrow> ('w, agent_run) review_task" where
  "review_documents ct rq criteria rules =
     (let i = aq_case_id rq in
      seq (parse_source ct (aq_case_uri rq) Forms) (\<lambda>forms.
      seq (record_event ct i ''case_parsed'' ''ok'' ''parse_document'' [] No_Details) (\<lambda>_.
      seq (ask (ct_facts ct forms i)) (\<lambda>facts.
      seq (record_event ct i ''facts_extracted'' ''ok'' ''extract_facts'' [] No_Details) (\<lambda>_.
      seq (review_facts ct rq criteria forms rules facts) (\<lambda>r.
      case r of
        None \<Rightarrow> finished (\<lambda>events. (blank_run rq W_NEEDS_REVIEW events)
          \<lparr>ag_verification := Some \<lparr>rt_status = E_NEEDS_REVIEW, rt_critical_errors = [Registry_Required]\<rparr>\<rparr>)
      | Some x \<Rightarrow> verified_run ct rq criteria forms rules x))))))"

definition review_request :: "('c, 'w) controller \<Rightarrow> agent_request \<Rightarrow> ('w, agent_run) review_task" where
  "review_request ct rq =
     (let i = aq_case_id rq in
      seq (record_event ct i ''workflow_started'' (workflow_text W_RECEIVED) ''controller'' [] No_Details) (\<lambda>_.
      seq (parse_source ct (aq_criteria_uri rq) Criteria) (\<lambda>criteria.
      seq (record_event ct i ''criteria_parsed'' ''ok'' ''parse_document'' [] No_Details) (\<lambda>_.
      seq (ask (ct_rules ct criteria)) (\<lambda>rules.
      seq (record_rules ct i rules) (\<lambda>_.
      case rules of
        Loaded_Rule_Set rs \<Rightarrow> if frs_status rs \<noteq> Approved then not_approved_run ct rq rs else review_documents ct rq criteria rules
      | _ \<Rightarrow> review_documents ct rq criteria rules))))))"

definition source_binding_run :: "('c, 'w) controller \<Rightarrow> agent_request \<Rightarrow> ('w, agent_run) review_task" where
  "source_binding_run ct rq =
     seq (record_event ct (aq_case_id rq) ''source_binding_failed'' ''failed'' ''parse_document'' [] Source_Binding_Code) (\<lambda>_.
       finished (\<lambda>events. (blank_run rq W_FAILED events)
         \<lparr>ag_verification := Some \<lparr>rt_status = E_FAILED, rt_critical_errors = [Source_Binding_Text]\<rparr>\<rparr>))"

definition review :: "('c, 'w) controller \<Rightarrow> agent_request \<Rightarrow> 'w \<Rightarrow> agent_run result \<times> 'w review_state" where
  "review ct rq w =
     handle (review_request ct rq)
       (\<lambda>e. if e = Source_Binding \<or> e = Pdf_Error Pdf_Unsupported_Uri then source_binding_run ct rq else throw e)
       \<lparr>rs_events = [], rs_world = w\<rparr>"

end
