(* ===== verification/Controller_Safety.thy ===== *)
theory Controller_Safety
  imports Review_Controller Case_Safety
begin

text \<open>
  What a run of the controller guarantees: a verified run rests on a case that the review verified and the authority
  approved, a writer sees nothing else, an artifact is exactly the one asked for, and the audit trail is complete.
\<close>

section \<open>What the parts of a review return\<close>

lemma ask_Inr: "ask f s = (Inr x, s') \<longleftrightarrow> (\<exists>w. f (rs_world s) = (Inr x, w) \<and> s' = s\<lparr>rs_world := w\<rparr>)"
  by (auto simp: ask_def call_def seq_def lift_result_def split: prod.splits)

lemma bind_source_Inr: "bind_source uri role p = Inr q \<Longrightarrow> q = p"
  by (auto simp: bind_source_def split: option.splits if_splits)

lemma current_source_registered:
  "returns (\<lambda>x _. \<forall>d. x = Some d \<longrightarrow> same_identity_and_content d registered = Inr True) (current_source ct primary registered)"
  unfolding current_source_def
  by (intro returns_seq [OF returns_any]; auto simp: returns_def seq_Inr split: option.splits)

lemma current_sources_registered:
  "returns (\<lambda>xs _. list_all2 (\<lambda>x r. \<forall>d. x = Some d \<longrightarrow> same_identity_and_content d r = Inr True) xs registered) (current_sources ct primary registered)"
proof (induction registered)
  case (Cons d ds)
  show ?case
    by (simp, intro returns_seq [OF current_source_registered] returns_seq [OF Cons] returns_pure) simp
qed (simp add: returns_pure)

text \<open>A report that completes comes from a verified review of current sources.\<close>

definition grounded :: "('c, 'w) controller \<Rightarrow> agent_request \<Rightarrow> case_review_result \<Rightarrow> bool" where
  "grounded ct rq c =
     (\<exists>rv pl facts sources forms criteria.
        make_reviewer (ct_authorization ct) (ct_minimum_confidence ct) = Inr rv
        \<and> review_case (ct_env ct) rv pl facts \<lparr>sy_documents = sources\<rparr> None forms criteria = Inr c
        \<and> ci_case_id (pl_identity pl) = aq_case_id rq
        \<and> list_all2 (\<lambda>d r. same_identity_and_content d r = Inr True) sources (sy_documents (pl_registry pl)))"

definition sound_review :: "('c, 'w) controller \<Rightarrow> agent_request \<Rightarrow> reviewed \<Rightarrow> bool" where
  "sound_review ct rq r =
     (completes (rw_report r) \<longrightarrow>
        (\<exists>c. rw_case r = Some c \<and> grounded ct rq c \<and> rw_report r = report_of_case c
           \<and> rw_result r = (case cr_comparisons c of [x] \<Rightarrow> Some x | _ \<Rightarrow> None)))"

lemma completes_case: "completes (report_of_case c) \<longleftrightarrow> cr_status c = E_VERIFIED \<and> (\<forall>f \<in> set (cr_findings c). rf_status f = E_VERIFIED)"
  by (auto simp: completes_def report_of_case_def filter_empty_conv)

text \<open>A review by a bare rule set never completes: the verifier is not given the facts.\<close>

lemma review_rule_set_incomplete: "review_rule_set ct rq rs ps = Inr r \<Longrightarrow> \<not> completes (rw_report r)"
  by (auto simp: review_rule_set_def Let_def verify_review_def report_of_verification_def completes_def)

lemma gather_sources_registered:
  "returns (\<lambda>xs _. list_all2 (\<lambda>x r. \<forall>d. x = Some d \<longrightarrow> same_identity_and_content d r = Inr True) xs registered) (gather_sources ct primary registered)"
  unfolding gather_sources_def
  by (intro returns_seq [OF current_sources_registered] returns_seq [OF returns_any]) (auto intro: returns_pure)

lemma all_sources:
  assumes "list_all2 (\<lambda>x r. \<forall>d. x = Some d \<longrightarrow> P d r) xs rs" and "None \<notin> set xs"
  shows "list_all2 P (List.map_filter id xs) rs"
  using assms by (induction xs rs) (auto simp: List.map_filter_simps split: option.splits)

lemma review_policy_case_sound:
  "returns (\<lambda>x _. \<forall>r. x = Some r \<longrightarrow> sound_review ct rq r) (review_policy_case ct rq criteria forms pl facts)"
  unfolding returns_def
proof (intro allI impI)
  fix s x s' r
  assume run: "review_policy_case ct rq criteria forms pl facts s = (Inr x, s')" and x: "x = Some r"
  from run obtain xs u where xs: "aq_case_id rq = ci_case_id (pl_identity pl)"
      "gather_sources ct [pd_source criteria, pd_source forms] (sy_documents (pl_registry pl)) s = (Inr xs, u)"
      "None \<notin> set xs" "review_sources ct pl facts (List.map_filter id xs) (pd_source forms) (pd_source criteria) = Inr r"
    using x by (auto simp: review_policy_case_def seq_Inr split: if_splits)
  from xs(4) obtain rv c where c: "make_reviewer (ct_authorization ct) (ct_minimum_confidence ct) = Inr rv"
      "review_case (ct_env ct) rv pl facts \<lparr>sy_documents = List.map_filter id xs\<rparr> None (pd_source forms) (pd_source criteria) = Inr c"
      "r = \<lparr>rw_result = (case cr_comparisons c of [x] \<Rightarrow> Some x | _ \<Rightarrow> None), rw_case = Some c, rw_report = report_of_case c\<rparr>"
    by (auto simp: review_sources_def Let_def)
  have "grounded ct rq c"
    using c(1,2) xs(1) all_sources [OF returnsD [OF gather_sources_registered xs(2)] xs(3)] unfolding grounded_def by metis
  then show "sound_review ct rq r" by (simp add: sound_review_def c(3))
qed

lemma review_facts_sound: "returns (\<lambda>x _. \<forall>r. x = Some r \<longrightarrow> sound_review ct rq r) (review_facts ct rq criteria forms rules facts)"
proof (cases rules; cases facts)
  fix pl cf assume "rules = Loaded_Policy pl" "facts = Extracted_Case cf"
  then show ?thesis by (simp add: review_facts_def review_policy_case_sound)
next
  fix rs ps assume "rules = Loaded_Rule_Set rs" "facts = Extracted_Pairs ps"
  then show ?thesis
    by (auto simp: review_facts_def returns_def seq_Inr sound_review_def dest: review_rule_set_incomplete)
qed (auto simp: review_facts_def intro: returns_throw)

section \<open>What a run says\<close>

definition delivered :: "agent_request \<Rightarrow> agent_run \<Rightarrow> bool" where
  "delivered rq run =
     (\<exists>output destination m. ag_pdf_result run = Some output \<and> pw_artifact_created output \<and> ag_output_uri run = Some (pw_output_uri output)
        \<and> aq_output_uri rq = Some destination \<and> aq_field_map rq = Some m
        \<and> is_ok (document_identity (pw_output_uri output)) \<and> document_identity (pw_output_uri output) = document_identity (strip destination)
        \<and> set (pw_written_field_ids output) = set (map pf_field_id (pm_fields m)))"

definition sound_run :: "('c, 'w) controller \<Rightarrow> agent_request \<Rightarrow> agent_run \<Rightarrow> 'w review_state \<Rightarrow> bool" where
  "sound_run ct rq run s =
     (ag_events run = rs_events s
      \<and> (ag_status run \<in> {W_VERIFIED, W_COMPLETED} \<longrightarrow>
           (\<exists>c. ag_case_review run = Some c \<and> grounded ct rq c \<and> completes (report_of_case c) \<and> ag_verification run = Some (report_of_case c)))
      \<and> (ag_status run = W_COMPLETED \<longleftrightarrow> ag_artifact_status run = Written) \<and> (ag_status run = W_COMPLETED \<longrightarrow> delivered rq run))"

lemma returns_finished: "(\<And>s. P (f (rs_events s)) s) \<Longrightarrow> returns P (finished f)"
  by (simp add: finished_def events_so_far_def returns_def seq_Inr)

lemma returns_recorded: "(\<And>s. P (f (rs_events s)) s) \<Longrightarrow> returns P (seq m (\<lambda>_. finished f))"
  by (rule returns_seq [OF returns_any]) (rule returns_finished)

lemmas run_simps = sound_run_def reviewed_run_def blank_run_def

lemma pdf_failed_sound: "returns (sound_run ct rq) (pdf_failed ct rq r code)"
  unfolding pdf_failed_def by (rule returns_recorded) (simp add: run_simps)

lemma pdf_written_sound:
  assumes "sound_review ct rq r" and "completes (rw_report r)" and "accepted_output q out = Inr output"
    and "make_write_request good \<lparr>wq_source_uri = template, wq_destination_uri = destination, wq_protected_source_uris = uris, wq_result = x,
       wq_additional_results = xs, wq_field_map = m\<rparr> = Inr q"
    and "aq_output_uri rq = Some destination" and "aq_field_map rq = Some m"
  shows "returns (sound_run ct rq) (pdf_written ct rq r output)"
proof -
  have q: "wq_destination_uri q = strip destination" "wq_field_map q = m"
    using assms(4) by (auto simp: make_write_request_def stripped_request_def Let_def)
  have "is_ok (document_identity (pw_output_uri output))" "document_identity (pw_output_uri output) = document_identity (strip destination)"
      "set (pw_written_field_ids output) = set (map pf_field_id (pm_fields m))"
    using assms(3) by (auto simp: accepted_output_def Let_def q write_result_valid_def split: write_outcome.splits)
  then show ?thesis
    using assms(1,2,5,6) unfolding pdf_written_def Let_def
    by (intro returns_recorded) (auto simp: run_simps sound_review_def delivered_def)
qed

lemma write_pdf_sound:
  assumes "sound_review ct rq r" and "completes (rw_report r)" and "aq_output_uri rq = Some destination" and "aq_field_map rq = Some m"
  shows "returns (sound_run ct rq) (write_pdf ct rq criteria forms rules r writer destination template m xs)"
  unfolding write_pdf_def
proof (rule returns_seq [OF returns_any])
  fix uris :: "string list"
  let ?q = "\<lparr>wq_source_uri = template, wq_destination_uri = destination, wq_protected_source_uris = uris, wq_result = hd xs,
      wq_additional_results = tl xs, wq_field_map = m\<rparr>"
  show "returns (sound_run ct rq) (case make_write_request (env_well_formed (ct_env ct)) ?q of Inl e \<Rightarrow> pdf_failed ct rq r (code_of_fault e)
      | Inr q \<Rightarrow> seq (call (wr_write writer q)) (\<lambda>out. case accepted_output q out of Inl code \<Rightarrow> pdf_failed ct rq r code
          | Inr output \<Rightarrow> pdf_written ct rq r output))"
  proof (cases "make_write_request (env_well_formed (ct_env ct)) ?q")
    case (Inr q)
    show ?thesis unfolding Inr sum.case
      by (rule returns_seq [OF returns_any]) (auto simp: pdf_failed_sound intro: pdf_written_sound [OF assms(1,2) _ Inr assms(3,4)] split: sum.split)
  qed (simp add: pdf_failed_sound)
qed

lemma complete_run_sound:
  assumes "sound_review ct rq r" and "completes (rw_report r)"
  shows "returns (sound_run ct rq) (complete_run ct rq criteria forms rules r)"
proof -
  have v: "returns (sound_run ct rq) (finished (\<lambda>events. (reviewed_run rq W_VERIFIED r events)\<lparr>ag_artifact_status := a\<rparr>))" if "a \<noteq> Written" for a
    using assms that by (intro returns_finished) (auto simp: run_simps sound_review_def)
  have "returns (sound_run ct rq) (finished (reviewed_run rq W_VERIFIED r))"
    using assms by (intro returns_finished) (auto simp: run_simps sound_review_def)
  moreover have "returns (sound_run ct rq) (seq m (\<lambda>_. finished (\<lambda>events. (reviewed_run rq W_FAILED r events)\<lparr>ag_pdf_error := Some Pdf_Write\<rparr>)))" for m
    by (rule returns_recorded) (simp add: run_simps)
  ultimately show ?thesis
    unfolding complete_run_def Let_def using v write_pdf_sound [OF assms] by (auto split: option.split)
qed

lemma verified_run_sound:
  assumes "sound_review ct rq r"
  shows "returns (sound_run ct rq) (verified_run ct rq criteria forms rules r)"
  unfolding verified_run_def
proof (intro returns_seq [OF returns_any])
  show "returns (sound_run ct rq) (if \<not> completes (rw_report r) then finished (reviewed_run rq (if rt_status (rw_report r) = E_FAILED then W_FAILED else W_NEEDS_REVIEW) r)
      else complete_run ct rq criteria forms rules r)"
    using complete_run_sound [OF assms] by (auto intro!: returns_finished simp: run_simps)
qed

lemma review_documents_sound: "returns (sound_run ct rq) (review_documents ct rq criteria rules)"
  unfolding review_documents_def Let_def
  by (intro returns_seq [OF returns_any] returns_seq [OF review_facts_sound])
    (auto intro!: returns_finished verified_run_sound simp: run_simps split: option.split)

lemma not_approved_sound: "returns (sound_run ct rq) (not_approved_run ct rq rs)"
  unfolding not_approved_run_def by (rule returns_seq [OF returns_any], rule returns_recorded) (simp add: run_simps)

lemma review_request_sound: "returns (sound_run ct rq) (review_request ct rq)"
  unfolding review_request_def Let_def
  by (intro returns_seq [OF returns_any]) (auto intro: not_approved_sound review_documents_sound split: loaded_rules.split)

lemma source_binding_sound: "returns (sound_run ct rq) (source_binding_run ct rq)"
  unfolding source_binding_run_def by (rule returns_recorded) (simp add: run_simps)

lemma review_sound:
  assumes "review ct rq w = (Inr run, s)"
  shows "sound_run ct rq run s"
proof -
  have "returns (sound_run ct rq) (handle (review_request ct rq)
      (\<lambda>e. if e = Source_Binding \<or> e = Pdf_Error Pdf_Unsupported_Uri then source_binding_run ct rq else throw e))"
    by (intro returns_handle) (auto intro: review_request_sound source_binding_sound returns_throw)
  then show ?thesis using assms unfolding review_def by (rule returnsD)
qed

lemma seq_same: "(\<And>x. f x = g x) \<Longrightarrow> seq m f = seq m g"
  by presburger

lemma map_result_source:
  assumes "map_result f xs = Inr ys" and "y \<in> set ys"
  obtains x where "x \<in> set xs" "f x = Inr y"
proof -
  from assms(2) obtain n where "n < length ys" "y = ys ! n" by (auto simp: in_set_conv_nth)
  then show ?thesis using assms(1) that [of "xs ! n"] unfolding map_result_Inr by (auto simp: list_all2_conv_all_nth)
qed

lemma verified_case:
  assumes "review_case env rv pl facts g claimed forms criteria = Inr c" and "cr_status c = E_VERIFIED"
  shows "material_authorized rv pl facts" and "x \<in> set (cr_comparisons c) \<Longrightarrow> su_status (fw_summary x) = E_VERIFIED"
proof -
  note r = review_case_verified [OF assms]
  from r(5) obtain matching bad where mb:
      "review_inventory_phases env rv pl facts g claimed bad (trust_findings (material_authorized rv pl facts) matching bad) = Inr c" by blast
  from mb assms(2) obtain outcomes where o:
    "map_result (review_context env rv (material_authorized rv pl facts) g pl facts (valid_slots (pl_inventory pl))) (iv_contexts (pl_inventory pl)) = Inr outcomes"
    "cr_comparisons c = comparisons_of outcomes" "all_verified (trust_findings (material_authorized rv pl facts) matching bad)"
    "\<forall>out \<in> set outcomes. all_verified (co_findings out)"
    by (rule phases_verified)
  show "material_authorized rv pl facts" using o(3) by (simp add: trust_findings_verified)
  show "su_status (fw_summary x) = E_VERIFIED" if "x \<in> set (cr_comparisons c)"
  proof -
    from that o(2) obtain out where out: "out \<in> set outcomes" "co_comparison out = Some x"
      by (auto simp: comparisons_of_def List.map_filter_def)
    obtain entry where "review_context env rv (material_authorized rv pl facts) g pl facts (valid_slots (pl_inventory pl)) entry = Inr out"
      by (rule map_result_source [OF o(1) out(1)])
    from review_context_grounded [OF this] o(4) out show ?thesis by (auto simp: context_grounded_def)
  qed
qed

section \<open>A verified run\<close>

text \<open>
  C16.  A verified run is grounded: its case review is the outcome of the deterministic review of this case, with every
  finding verified, by the configured authority's approval of exactly that material, over current documents that are
  the registered ones.  A completed run also delivers: the writer created the artifact at the requested destination
  and filled exactly the mapped fields.
\<close>

theorem verified_run_is_grounded:
  assumes "review ct rq w = (Inr run, s)" and "ag_status run \<in> {W_VERIFIED, W_COMPLETED}"
  shows "(\<exists>c rv pl facts sources forms criteria approves. ag_case_review run = Some c \<and> cr_status c = E_VERIFIED
      \<and> (\<forall>f \<in> set (cr_findings c). rf_status f = E_VERIFIED)
      \<and> review_case (ct_env ct) rv pl facts \<lparr>sy_documents = sources\<rparr> None forms criteria = Inr c
      \<and> ci_case_id (pl_identity pl) = aq_case_id rq \<and> ct_authorization ct = Some approves \<and> approves \<lparr>rm_policy = pl, rm_facts = facts\<rparr>
      \<and> list_all2 (\<lambda>d r. same_identity_and_content d r = Inr True) sources (sy_documents (pl_registry pl)))
    \<and> (ag_status run = W_COMPLETED \<longrightarrow> delivered rq run)"
proof -
  have sound: "sound_run ct rq run s" by (rule review_sound [OF assms(1)])
  then obtain c where c: "ag_case_review run = Some c" "grounded ct rq c" "completes (report_of_case c)"
    using assms(2) by (auto simp: sound_run_def)
  from c(2) obtain rv pl facts sources forms criteria where g:
      "make_reviewer (ct_authorization ct) (ct_minimum_confidence ct) = Inr rv"
      "review_case (ct_env ct) rv pl facts \<lparr>sy_documents = sources\<rparr> None forms criteria = Inr c"
      "ci_case_id (pl_identity pl) = aq_case_id rq"
      "list_all2 (\<lambda>d r. same_identity_and_content d r = Inr True) sources (sy_documents (pl_registry pl))"
    unfolding grounded_def by blast
  have v: "cr_status c = E_VERIFIED" "\<forall>f \<in> set (cr_findings c). rf_status f = E_VERIFIED" using c(3) by (simp_all add: completes_case)
  have "rv_authorization rv = ct_authorization ct" using g(1) by (auto simp: make_reviewer_def)
  with verified_case(1) [OF g(2) v(1)] obtain approves where "ct_authorization ct = Some approves" "approves \<lparr>rm_policy = pl, rm_facts = facts\<rparr>"
    by (auto simp: material_authorized_def split: option.splits)
  then show ?thesis using c(1) v g(2-4) sound unfolding sound_run_def by blast
qed

section \<open>What the writer sees\<close>

abbreviation with_writer :: "('c, 'w) controller \<Rightarrow> 'w pdf_writer \<Rightarrow> ('c, 'w) controller" where
  "with_writer ct a \<equiv> ct\<lparr>ct_writer := Some a\<rparr>"

lemma writer_free:
  "record_event (with_writer ct a) = record_event ct" "parse_source (with_writer ct a) = parse_source ct"
  "ct_facts (with_writer ct a) = ct_facts ct" "ct_rules (with_writer ct a) = ct_rules ct"
  "review_sources (with_writer ct a) = review_sources ct" "review_rule_set (with_writer ct a) = review_rule_set ct"
  by (simp_all add: fun_eq_iff record_event_def parse_source_def review_sources_def review_rule_set_def Let_def)

lemma writer_free_sources: "current_sources (with_writer ct a) primary ds = current_sources ct primary ds"
proof (induction ds)
  case (Cons d ds)
  have "current_source (with_writer ct a) primary d = current_source ct primary d" unfolding current_source_def writer_free ..
  then show ?case by (simp add: Cons)
qed simp

lemma writer_free_events:
  "record_rules (with_writer ct a) = record_rules ct" "record_evaluated (with_writer ct a) = record_evaluated ct"
  "pdf_failed (with_writer ct a) = pdf_failed ct" "pdf_written (with_writer ct a) = pdf_written ct"
  "not_approved_run (with_writer ct a) = not_approved_run ct" "source_binding_run (with_writer ct a) = source_binding_run ct"
  by (simp_all add: fun_eq_iff record_rules_def record_evaluated_def pdf_failed_def pdf_written_def not_approved_run_def source_binding_run_def writer_free)

lemma writer_free_review: "review_facts (with_writer ct a) = review_facts ct"
proof -
  have p: "review_policy_case (with_writer ct a) = review_policy_case ct"
    by (intro ext, unfold review_policy_case_def gather_sources_def writer_free_sources writer_free, rule refl)
  show ?thesis by (intro ext, unfold review_facts_def writer_free p, rule refl)
qed

lemmas writer_free_simps = writer_free writer_free_events writer_free_review

definition verified_request :: "pdf_write_request \<Rightarrow> bool" where
  "verified_request q = (validate_request q = Inr () \<and> (\<forall>x \<in> set (comparisons q). su_status (fw_summary x) = E_VERIFIED))"

lemma make_write_request_Inr:
  "make_write_request good q = Inr q' \<Longrightarrow> q' = stripped_request q \<and> validate_request q' = Inr ()"
  by (auto simp: make_write_request_def Let_def)

lemma write_pdf_agree:
  assumes "\<And>q w. verified_request q \<Longrightarrow> wr_write b q w = wr_write a q w" and "xs \<noteq> []" and "\<forall>x \<in> set xs. su_status (fw_summary x) = E_VERIFIED"
  shows "write_pdf (with_writer ct b) rq criteria forms rules r b destination template m xs
    = write_pdf (with_writer ct a) rq criteria forms rules r a destination template m xs"
proof -
  have "verified_request q" if "make_write_request good \<lparr>wq_source_uri = template, wq_destination_uri = destination, wq_protected_source_uris = uris,
      wq_result = hd xs, wq_additional_results = tl xs, wq_field_map = m\<rparr> = Inr q" for good uris q
    using make_write_request_Inr [OF that] assms(2,3)
    by (simp add: verified_request_def comparisons_def stripped_request_def) (metis list.exhaust_sel set_ConsD)
  then have "call (wr_write b q) = call (wr_write a q)" if "make_write_request good \<lparr>wq_source_uri = template, wq_destination_uri = destination,
      wq_protected_source_uris = uris, wq_result = hd xs, wq_additional_results = tl xs, wq_field_map = m\<rparr> = Inr q" for good uris q
    using that assms(1) by (simp add: fun_eq_iff call_def)
  then show ?thesis
    unfolding write_pdf_def writer_free_simps by (intro arg_cong [of _ _ "seq _"] ext) (auto split: sum.split)
qed

lemma complete_run_agree:
  assumes "\<And>q w. verified_request q \<Longrightarrow> wr_write b q w = wr_write a q w" and "wr_supports_multiple b = wr_supports_multiple a"
    and "sound_review ct rq r" and "completes (rw_report r)"
  shows "complete_run (with_writer ct b) rq criteria forms rules r = complete_run (with_writer ct a) rq criteria forms rules r"
proof -
  obtain c where c: "rw_case r = Some c" "grounded ct rq c" "rw_report r = report_of_case c"
      "rw_result r = (case cr_comparisons c of [x] \<Rightarrow> Some x | _ \<Rightarrow> None)"
    using assms(3,4) unfolding sound_review_def by blast
  have v: "su_status (fw_summary x) = E_VERIFIED" if "x \<in> set (cr_comparisons c)" for x
  proof -
    have "cr_status c = E_VERIFIED" using assms(4) by (simp add: c(3) completes_case)
    then show ?thesis using c(2) verified_case(2) that unfolding grounded_def by metis
  qed
  have multi: "writable_contexts (with_writer ct b) rq xs = writable_contexts (with_writer ct a) rq xs" for xs
    using assms(2) by (simp add: writable_contexts_def)
  have w: "write_pdf (with_writer ct b) rq criteria forms rules r b destination template m xs
      = write_pdf (with_writer ct a) rq criteria forms rules r a destination template m xs" if "xs \<noteq> []" "set xs \<subseteq> set (cr_comparisons c)"
    for destination template m xs
    using that v by (intro write_pdf_agree [OF assms(1)]) auto
  have one: "set [x] \<subseteq> set (cr_comparisons c)" if "rw_result r = Some x" for x
    using that c(4) by (auto split: list.splits)
  have many: "cr_comparisons c \<noteq> []" if "writable_contexts ct' rq (cr_comparisons c)" for ct' :: "('c, 'd) controller"
    using that by (auto simp: writable_contexts_def)
  show ?thesis
    unfolding complete_run_def writer_free_simps multi Let_def c(1) option.case
    using w [OF _ one] w [OF many] by (auto split: option.split)
qed

text \<open>
  C17.  The writer sees only verified values: two writers that agree on the valid requests whose comparisons are all
  verified are interchangeable, so no other request ever reaches a writer, and in particular none before the review
  completes.
\<close>

theorem writer_sees_only_verified_values:
  assumes "\<forall>q w. verified_request q \<longrightarrow> wr_write b q w = wr_write a q w" and "wr_supports_multiple b = wr_supports_multiple a"
  shows "review (with_writer ct b) rq w = review (with_writer ct a) rq w"
proof -
  have v: "verified_run (with_writer ct b) rq criteria forms rules r = verified_run (with_writer ct a) rq criteria forms rules r"
    if "sound_review ct rq r" for criteria forms rules r
    using complete_run_agree [OF _ assms(2) that] assms(1) unfolding verified_run_def writer_free_simps by (auto intro!: ext)
  have d: "review_documents (with_writer ct b) rq criteria rules = review_documents (with_writer ct a) rq criteria rules" for criteria rules
    unfolding review_documents_def writer_free_simps Let_def
    by (rule seq_same, rule seq_same, rule seq_same, rule seq_same, rule seq_agree [OF review_facts_sound]) (auto simp: v split: option.split)
  have "review_request (with_writer ct b) rq = review_request (with_writer ct a) rq"
    unfolding review_request_def writer_free_simps d ..
  then show ?thesis unfolding review_def writer_free_simps by simp
qed

section \<open>The audit trail\<close>

definition numbered :: "string \<Rightarrow> audit_event list \<Rightarrow> bool" where
  "numbered i events = (map ae_sequence events = [1..<length events + 1] \<and> (\<forall>e \<in> set events. ae_case_id e = i))"

text \<open>Numbered events are only ever appended.\<close>

definition appended :: "string \<Rightarrow> 'w review_state \<Rightarrow> 'w review_state \<Rightarrow> bool" where
  "appended i s s' = (\<exists>new. rs_events s' = rs_events s @ new \<and> (numbered i (rs_events s) \<longrightarrow> numbered i (rs_events s')))"

lemma appended_same: "rs_events s' = rs_events s \<Longrightarrow> appended i s s'"
  by (simp add: appended_def)

interpretation trail: computation_preorder "appended i" for i
  by unfold_locales (auto simp: appended_def)

lemma moves_ask: "moves (appended i) (ask f)"
  by (simp add: moves_def ask_def call_def seq_def lift_result_def appended_same split: prod.split)

lemma moves_call: "moves (appended i) (call f)"
  by (simp add: moves_def call_def appended_same split: prod.split)

lemma moves_record: "moves (appended i) (record_event ct i t status tool rules details)"
proof -
  have one: "appended i s (s\<lparr>rs_events := rs_events s @ [e]\<rparr>)" if "ae_sequence e = length (rs_events s) + 1" "ae_case_id e = i" for s :: "'w review_state" and e
    using that by (auto simp: appended_def numbered_def)
  have "appended i s (snd (record_event ct i t status tool rules details s))" for s
    unfolding record_event_def Let_def
    by (cases "ct_audit ct") (auto intro!: one trail.trans [OF one moves_ask [unfolded moves_def, rule_format]])
  then show ?thesis by (simp add: moves_def)
qed

lemma moves_finished: "moves (appended i) (finished f)"
  by (simp add: moves_def finished_def events_so_far_def seq_def pure_def appended_same)

lemmas trail_rules = trail.moves_seq trail.moves_basic moves_ask moves_call moves_record moves_finished

lemma moves_parse: "moves (appended i) (parse_source ct uri role)"
  unfolding parse_source_def by (intro trail.moves_handle trail_rules)

lemma moves_source: "moves (appended i) (current_source ct primary d)"
  unfolding current_source_def
  by (intro trail.moves_seq trail_rules) (auto intro!: trail_rules moves_parse split: list.split option.split)

lemma moves_sources: "moves (appended i) (current_sources ct primary ds)"
  by (induction ds) (auto intro!: trail_rules moves_source)

lemma moves_review_facts: "moves (appended i) (review_facts ct rq criteria forms rules facts)"
proof -
  have "moves (appended i) (review_policy_case ct rq criteria forms pl cf)" for pl cf
    unfolding review_policy_case_def gather_sources_def by (auto intro!: trail_rules moves_sources)
  then show ?thesis unfolding review_facts_def by (auto intro!: trail_rules split: loaded_rules.split extracted_facts.split)
qed

lemma moves_complete: "moves (appended (aq_case_id rq)) (complete_run ct rq criteria forms rules r)"
proof -
  have f: "moves (appended (aq_case_id rq)) (pdf_failed ct rq r code)" for code
    unfolding pdf_failed_def by (intro trail_rules)
  have "moves (appended (aq_case_id rq)) (pdf_written ct rq r x)" for x
    unfolding pdf_written_def Let_def by (intro trail_rules)
  then have "moves (appended (aq_case_id rq)) (write_pdf ct rq criteria forms rules r writer destination template m xs)"
    for writer destination template m xs
    unfolding write_pdf_def by (auto intro!: trail_rules f split: sum.split)
  then show ?thesis unfolding complete_run_def Let_def by (auto intro!: trail_rules split: option.split)
qed

lemma moves_documents: "moves (appended (aq_case_id rq)) (review_documents ct rq criteria rules)"
proof -
  have "moves (appended (aq_case_id rq)) (verified_run ct rq criteria forms rules r)" for forms r
    unfolding verified_run_def record_evaluated_def Let_def by (auto intro!: trail_rules moves_complete)
  then show ?thesis
    unfolding review_documents_def Let_def by (auto intro!: trail_rules moves_parse moves_review_facts split: option.split)
qed

lemma moves_request: "moves (appended (aq_case_id rq)) (review_request ct rq)"
proof -
  have "moves (appended (aq_case_id rq)) (not_approved_run ct rq rs)" for rs
    unfolding not_approved_run_def by (intro trail_rules)
  then show ?thesis
    unfolding review_request_def Let_def record_rules_def by (auto intro!: trail_rules moves_parse moves_documents split: loaded_rules.split)
qed

text \<open>
  C18.  The audit trail is complete: whether a review returns or raises, its events are those of this case, numbered from one
  without a gap, and a returned run carries every one of them.
\<close>

theorem audit_trail_is_complete:
  assumes "review ct rq w = (r, s)"
  shows "map ae_sequence (rs_events s) = [1..<length (rs_events s) + 1] \<and> (\<forall>e \<in> set (rs_events s). ae_case_id e = aq_case_id rq)
    \<and> (\<forall>run. r = Inr run \<longrightarrow> ag_events run = rs_events s)"
proof -
  have "moves (appended (aq_case_id rq)) (source_binding_run ct rq)" unfolding source_binding_run_def by (intro trail_rules)
  then have "moves (appended (aq_case_id rq)) (handle (review_request ct rq)
      (\<lambda>e. if e = Source_Binding \<or> e = Pdf_Error Pdf_Unsupported_Uri then source_binding_run ct rq else throw e))"
    by (auto intro!: trail.moves_handle moves_request trail_rules)
  then have "appended (aq_case_id rq) \<lparr>rs_events = [], rs_world = w\<rparr> (snd (review ct rq w))" unfolding review_def moves_def by (rule spec)
  then have "appended (aq_case_id rq) \<lparr>rs_events = [], rs_world = w\<rparr> s" by (simp only: assms snd_conv)
  moreover have "numbered (aq_case_id rq) []" by (simp add: numbered_def)
  ultimately have "numbered (aq_case_id rq) (rs_events s)" by (simp add: appended_def)
  moreover have "ag_events run = rs_events s" if "r = Inr run" for run
    using review_sound [of ct rq w run s] assms that by (simp add: sound_run_def)
  ultimately show ?thesis by (simp add: numbered_def)
qed

section \<open>A template that cannot be read\<close>

text \<open>
  What an artifact request can lose: wherever the request without output returns a verified comparison, the one with output
  raises in the same state, because the address of its template is no document identity.
\<close>

definition loses :: "('w, agent_run) review_task \<Rightarrow> ('w, agent_run) review_task \<Rightarrow> bool" where
  "loses m m0 = (\<forall>s run s'. m0 s = (Inr run, s') \<and> ag_status run = W_VERIFIED \<and> ag_review run \<noteq> None
     \<longrightarrow> m s = (Inl (Pdf_Error Pdf_Unsupported_Uri), s'))"

lemma loses_seq: "returns Q m \<Longrightarrow> (\<And>x s. Q x s \<Longrightarrow> loses (f x) (g x)) \<Longrightarrow> loses (seq m f) (seq m g)"
  unfolding loses_def returns_def seq_Inr seq_Inl by blast

lemma loses_any: "(\<And>x. loses (f x) (g x)) \<Longrightarrow> loses (seq m f) (seq m g)"
  by (rule loses_seq [OF returns_any])

lemma loses_other:
  assumes "returns (\<lambda>run _. ag_status run = W_VERIFIED \<longrightarrow> ag_review run = None) m0"
  shows "loses m m0"
  unfolding loses_def
proof (intro allI impI, elim conjE)
  fix s run s'
  assume h: "m0 s = (Inr run, s')" "ag_status run = W_VERIFIED" "ag_review run \<noteq> None"
  from returnsD [OF assms h(1)] h(2,3) show "m s = (Inl (Pdf_Error Pdf_Unsupported_Uri), s')" by (elim notE) (rule mp)
qed

text \<open>The request without its output: everything before the artifact is the same.\<close>

abbreviation without_output :: "agent_request \<Rightarrow> agent_request" where
  "without_output rq \<equiv> rq\<lparr>aq_output_uri := None\<rparr>"

lemma without_output_facts: "review_facts ct (without_output rq) = review_facts ct rq"
proof -
  have "review_policy_case ct (without_output rq) = review_policy_case ct rq" by (simp add: fun_eq_iff review_policy_case_def)
  note p = this
  have r: "review_rule_set ct (without_output rq) = review_rule_set ct rq" by (simp add: fun_eq_iff review_rule_set_def)
  show ?thesis by (intro ext, unfold review_facts_def p r, rule refl)
qed

lemma parsed_identity:
  assumes "is_ok (document_identity uri)"
  shows "returns (\<lambda>p _. is_ok (document_identity (source_uri p))) (parse_source ct uri role)"
proof -
  have "is_ok (document_identity (source_uri p))" if b: "bind_source uri role q = Inr p" for p q
  proof (cases "pd_source q")
    case None
    then have "pd_document_uri q = uri" "p = q" using b by (auto simp: bind_source_def)
    then show ?thesis using assms None by (simp add: source_uri_def)
  next
    case (Some d)
    then have "is_ok (document_identity (sd_uri d))" "p = q" using b by (auto simp: bind_source_def split: if_splits)
    then show ?thesis using Some by (simp add: source_uri_def)
  qed
  then show ?thesis unfolding parse_source_def
    by (intro returns_handle returns_seq [OF returns_any]) (auto intro: returns_lift returns_throw)
qed

definition unreadable_template :: "('c, 'w) controller \<Rightarrow> agent_request \<Rightarrow> bool" where
  "unreadable_template ct rq =
     (aq_output_uri rq \<noteq> None \<and> aq_field_map rq \<noteq> None \<and> ct_writer ct \<noteq> None
      \<and> (case aq_template_uri rq of None \<Rightarrow> False | Some t \<Rightarrow> document_identity t = Inl (Pdf_Error Pdf_Unsupported_Uri)))"

lemma complete_run_loses:
  assumes "unreadable_template ct rq" and "is_ok (document_identity (source_uri criteria))"
  shows "loses (complete_run ct rq criteria forms rules r) (complete_run ct (without_output rq) criteria forms rules r)"
proof (cases "rw_result r")
  case None
  then show ?thesis
    by (intro loses_other) (auto simp: complete_run_def writable_contexts_def Let_def run_simps intro!: returns_finished)
next
  case (Some x)
  obtain destination m writer t where a: "aq_output_uri rq = Some destination" "aq_field_map rq = Some m" "ct_writer ct = Some writer"
      "aq_template_uri rq = Some t" "document_identity t = Inl (Pdf_Error Pdf_Unsupported_Uri)"
    using assms(1) by (auto simp: unreadable_template_def split: option.splits)
  obtain k where "document_identity (source_uri criteria) = Inr k" using assms(2) by (auto simp: is_ok_iff)
  then have "protected_sources criteria forms rules t = Inl (Pdf_Error Pdf_Unsupported_Uri)"
    using a(5) by (simp add: protected_sources_def other_document_def)
  then have "complete_run ct rq criteria forms rules r s = (Inl (Pdf_Error Pdf_Unsupported_Uri), s)" for s
    using Some a by (simp add: complete_run_def write_pdf_def lift_result_def seq_def)
  then show ?thesis
    using Some by (auto simp: loses_def complete_run_def finished_def events_so_far_def seq_Inr)
qed

lemma verified_run_loses:
  assumes "unreadable_template ct rq" and "is_ok (document_identity (source_uri criteria))"
  shows "loses (verified_run ct rq criteria forms rules r) (verified_run ct (without_output rq) criteria forms rules r)"
proof (cases "completes (rw_report r)")
  case True
  show ?thesis unfolding verified_run_def by (simp add: True) (intro loses_any complete_run_loses [OF assms])
next
  case False
  have "returns (\<lambda>run _. ag_status run = W_VERIFIED \<longrightarrow> ag_review run = None) (verified_run ct (without_output rq) criteria forms rules r)"
    unfolding verified_run_def by (intro returns_seq [OF returns_any]) (auto simp: False run_simps intro!: returns_finished)
  then show ?thesis by (rule loses_other)
qed

lemma review_documents_loses:
  assumes "unreadable_template ct rq" and "is_ok (document_identity (source_uri criteria))"
  shows "loses (review_documents ct rq criteria rules) (review_documents ct (without_output rq) criteria rules)"
proof -
  have "loses (finished f) (finished (\<lambda>events. (blank_run q W_NEEDS_REVIEW events)\<lparr>ag_verification := v\<rparr>))" for f q v
    by (intro loses_other returns_finished) (simp add: run_simps)
  then show ?thesis unfolding review_documents_def Let_def without_output_facts
    by simp (intro loses_any, auto intro: verified_run_loses [OF assms] split: option.split)
qed

lemma review_request_loses:
  assumes "unreadable_template ct rq" and "is_ok (document_identity (aq_criteria_uri rq))"
  shows "loses (review_request ct rq) (review_request ct (without_output rq))"
proof -
  have n: "loses (not_approved_run ct rq rs) (not_approved_run ct (without_output rq) rs)" for rs
    unfolding not_approved_run_def by (intro loses_other returns_seq [OF returns_any] returns_finished) (simp add: run_simps)
  have "loses (case rules of Loaded_Rule_Set rs \<Rightarrow> if frs_status rs \<noteq> Approved then not_approved_run ct rq rs else review_documents ct rq criteria rules
        | _ \<Rightarrow> review_documents ct rq criteria rules)
      (case rules of Loaded_Rule_Set rs \<Rightarrow> if frs_status rs \<noteq> Approved then not_approved_run ct (without_output rq) rs
          else review_documents ct (without_output rq) criteria rules
        | _ \<Rightarrow> review_documents ct (without_output rq) criteria rules)" if "is_ok (document_identity (source_uri criteria))" for criteria rules
    using n review_documents_loses [OF assms(1) that] by (auto split: loaded_rules.split)
  then show ?thesis unfolding review_request_def Let_def
    by simp (rule loses_any, rule loses_seq [OF parsed_identity [OF assms(2)]], intro loses_any)
qed

end
