(* ===== verification/Controller_Example.thy ===== *)
theory Controller_Example
  imports Controller_Safety Case_Example
begin

text \<open>
  The example case through the controller: verified, written to a PDF, and lost to a template address that no adapter
  could read.
\<close>

definition vx_forms :: source_document where
  "vx_forms = hd (sy_documents ex_registry)"

definition vx_criteria :: source_document where
  "vx_criteria = hd (tl (sy_documents ex_registry))"

definition vx_parsed :: "source_document \<Rightarrow> unit parsed_document" where
  "vx_parsed d = \<lparr>pd_document_uri = sd_uri d, pd_page_count = 1, pd_source = Some d, pd_content = ()\<rparr>"

definition vx_field :: pdf_field where
  "vx_field = \<lparr>pf_field_id = ''total'', pf_page = 1, pf_bounding_box = (Dec 1 0, Dec 1 0, Dec 9 0, Dec 2 0), pf_max_characters = None,
     pf_value_ref = Some \<lparr>vf_scope = Regional, vf_target_id = ''T'', vf_comparable_id = ''C'', vf_value = Total_Value, vf_factor_id = None\<rparr>,
     pf_placeholder_token = None, pf_operation = Fill_Blank\<rparr>"

definition vx_request :: "string \<Rightarrow> string option \<Rightarrow> agent_request" where
  "vx_request template destination = \<lparr>aq_case_id = ''CASE'', aq_criteria_uri = ''file:///K'', aq_case_uri = ''file:///F'', aq_template_uri = Some template,
     aq_output_uri = destination, aq_field_map = Some \<lparr>pm_template_id = ''T1'', pm_fields = [vx_field]\<rparr>\<rparr>"

text \<open>A writer that counts its calls and fills every mapped field.\<close>

definition vx_writer :: "nat pdf_writer" where
  "vx_writer = \<lparr>wr_supports_multiple = False, wr_write = (\<lambda>q n. (Returned_Result \<lparr>pw_artifact_created = True, pw_output_uri = wq_destination_uri q,
     pw_page_count = 1, pw_written_field_ids = map pf_field_id (pm_fields (wq_field_map q)), pw_warnings = []\<rparr>, n + 1))\<rparr>"

definition vx_controller :: "(unit, nat) controller" where
  "vx_controller = \<lparr>ct_env = ex_env,
     ct_parse = (\<lambda>uri n. (if uri = sd_uri vx_forms then Inr (vx_parsed vx_forms) else if uri = sd_uri vx_criteria then Inr (vx_parsed vx_criteria)
       else Inl Other_Exception, n)),
     ct_rules = (\<lambda>_ n. (Inr (Loaded_Policy ex_policy), n)), ct_facts = (\<lambda>_ _ n. (Inr (Extracted_Case ex_facts), n)), ct_writer = Some vx_writer,
     ct_audit = None, ct_authorization = Some (\<lambda>_. True), ct_minimum_confidence = Dec 85 (- 2)\<rparr>"

section \<open>The steps\<close>

lemma run_seq: "m s = (Inr x, s') \<Longrightarrow> seq m f s = f x s'"
  by (simp add: seq_def)

lemma vx_uris: "sd_uri vx_forms = ''file:///F''" "sd_uri vx_criteria = ''file:///K''" "sy_documents ex_registry = [vx_forms, vx_criteria]"
  by (simp_all add: vx_forms_def vx_criteria_def ex_registry_def ex_document_def)

lemma vx_ask: "ask (\<lambda>n. (Inr x, n)) s = (Inr x, s)"
  by (simp add: ask_def call_def seq_def lift_result_def)

lemma vx_parse:
  "parse_source vx_controller ''file:///K'' Criteria s = (Inr (vx_parsed vx_criteria), s)"
  "parse_source vx_controller ''file:///F'' Forms s = (Inr (vx_parsed vx_forms), s)"
proof -
  have "bind_source ''file:///K'' Criteria (vx_parsed vx_criteria) = Inr (vx_parsed vx_criteria)"
    "bind_source ''file:///F'' Forms (vx_parsed vx_forms) = Inr (vx_parsed vx_forms)"
    by code_simp+
  then show "parse_source vx_controller ''file:///K'' Criteria s = (Inr (vx_parsed vx_criteria), s)"
    "parse_source vx_controller ''file:///F'' Forms s = (Inr (vx_parsed vx_forms), s)"
    by (simp_all add: parse_source_def handle_def vx_controller_def vx_uris vx_ask seq_def lift_result_def)
qed

lemma vx_gather:
  "gather_sources vx_controller [Some vx_criteria, Some vx_forms] (sy_documents ex_registry) s = (Inr [Some vx_forms, Some vx_criteria], s)"
proof -
  have "matching_sources [Some vx_criteria, Some vx_forms] vx_forms = Inr [vx_forms]"
    "matching_sources [Some vx_criteria, Some vx_forms] vx_criteria = Inr [vx_criteria]"
    "same_identity_and_content vx_forms vx_forms = Inr True" "same_identity_and_content vx_criteria vx_criteria = Inr True"
    "unregistered [vx_forms, vx_criteria] [Some vx_criteria, Some vx_forms] = Inr False"
    by code_simp+
  then show ?thesis
    by (simp add: gather_sources_def vx_uris current_source_def seq_def lift_result_def pure_def check_def)
qed

definition vx_reviewer :: case_reviewer where
  "vx_reviewer = \<lparr>rv_authorization = Some (\<lambda>_. True), rv_minimum_confidence = Dec 85 (- 2)\<rparr>"

lemma vx_phases:
  "(case review_inventory_phases ex_env vx_reviewer ex_policy ex_facts ex_registry None [] (trust_findings True True []) of
      Inl _ \<Rightarrow> False
    | Inr c \<Rightarrow> cr_status c = E_VERIFIED \<and> list_all (\<lambda>f. rf_status f = E_VERIFIED) (cr_findings c)
        \<and> (case cr_comparisons c of [x] \<Rightarrow> fw_context x = Some ex_context \<and> su_total_adjustment_percent (fw_summary x) \<noteq> None | _ \<Rightarrow> False))"
  by code_simp

lemma vx_reviewed:
  "\<exists>c x. review_case ex_env vx_reviewer ex_policy ex_facts ex_registry None (Some vx_forms) (Some vx_criteria) = Inr c
     \<and> completes (report_of_case c) \<and> cr_comparisons c = [x] \<and> fw_context x = Some ex_context
     \<and> su_total_adjustment_percent (fw_summary x) \<noteq> None"
proof -
  have "review_material_valid (env_fold_text ex_env) \<lparr>rm_policy = ex_policy, rm_facts = ex_facts\<rparr>"
    using ex_policy_valid ex_facts_valid by (simp add: review_material_valid_def ex_env_def)
  moreover have "cf_identity ex_facts = pl_identity ex_policy" "pl_registry ex_policy = ex_registry" "pl_inventory ex_policy = ex_inventory"
    by (simp_all add: ex_facts_def ex_policy_def)
  moreover have "material_authorized vx_reviewer ex_policy ex_facts" by (simp add: material_authorized_def vx_reviewer_def)
  moreover have "source_violations ex_registry (Some vx_forms) (Some vx_criteria) ex_policy ex_facts = Inr []" by code_simp
  ultimately have "review_case ex_env vx_reviewer ex_policy ex_facts ex_registry None (Some vx_forms) (Some vx_criteria) =
      review_inventory_phases ex_env vx_reviewer ex_policy ex_facts ex_registry None [] (trust_findings True True [])"
    using ex_registry_valid ex_sources by (simp add: review_case_def)
  then show ?thesis using vx_phases by (auto simp: completes_case list_all_iff split: sum.splits list.splits)
qed

lemma vx_record: "\<exists>s'. record_event vx_controller i type status tool rules details s = (Inr (), s')"
  by (simp add: record_event_def Let_def vx_controller_def)

lemma vx_recorded: "\<exists>s'. seq (record_event vx_controller i type status tool rules details) f s = f () s'"
  using vx_record [of i type status tool rules details s] run_seq by fastforce

lemma vx_calls: "ask (ct_rules vx_controller p) s = (Inr (Loaded_Policy ex_policy), s)" "ask (ct_facts vx_controller p i) s = (Inr (Extracted_Case ex_facts), s)"
  by (simp_all add: vx_controller_def vx_ask)

lemma vx_facts:
  "\<exists>c x. review_facts vx_controller (vx_request t d) (vx_parsed vx_criteria) (vx_parsed vx_forms) (Loaded_Policy ex_policy) (Extracted_Case ex_facts) s
       = (Inr (Some \<lparr>rw_result = Some x, rw_case = Some c, rw_report = report_of_case c\<rparr>), s)
     \<and> completes (report_of_case c) \<and> cr_comparisons c = [x] \<and> fw_context x = Some ex_context \<and> su_total_adjustment_percent (fw_summary x) \<noteq> None"
proof -
  obtain c x where c: "review_case ex_env vx_reviewer ex_policy ex_facts ex_registry None (Some vx_forms) (Some vx_criteria) = Inr c"
      "completes (report_of_case c)" "cr_comparisons c = [x]" "fw_context x = Some ex_context" "su_total_adjustment_percent (fw_summary x) \<noteq> None"
    using vx_reviewed by blast
  have reg: "\<lparr>sy_documents = [vx_forms, vx_criteria]\<rparr> = ex_registry" using vx_uris(3) by (cases ex_registry) simp
  have "validate_minimum_confidence (Dec 85 (- 2)) = Inr (Dec 85 (- 2))" by code_simp
  then have "make_reviewer (Some (\<lambda>_. True)) (Dec 85 (- 2)) = Inr vx_reviewer" by (simp add: make_reviewer_def vx_reviewer_def)
  then have "review_sources vx_controller ex_policy ex_facts [vx_forms, vx_criteria] (Some vx_forms) (Some vx_criteria)
      = Inr \<lparr>rw_result = Some x, rw_case = Some c, rw_report = report_of_case c\<rparr>"
    using c ex_registry_valid by (simp add: review_sources_def reg vx_controller_def)
  moreover have "aq_case_id (vx_request t d) = ci_case_id (pl_identity ex_policy)" "pl_registry ex_policy = ex_registry"
    by (simp_all add: vx_request_def ex_policy_def ex_identity_def)
  ultimately show ?thesis using c vx_gather [of s]
    by (simp add: review_facts_def review_policy_case_def run_seq [OF vx_gather] vx_parsed_def check_def List.map_filter_simps)
      (simp add: seq_def lift_result_def pure_def)
qed

lemma vx_run:
  "\<exists>c x s'. review_request vx_controller (vx_request t d) s
       = complete_run vx_controller (vx_request t d) (vx_parsed vx_criteria) (vx_parsed vx_forms) (Loaded_Policy ex_policy)
           \<lparr>rw_result = Some x, rw_case = Some c, rw_report = report_of_case c\<rparr> s'
     \<and> completes (report_of_case c) \<and> fw_context x = Some ex_context \<and> su_total_adjustment_percent (fw_summary x) \<noteq> None"
proof -
  let ?rq = "vx_request t d" and ?i = "aq_case_id (vx_request t d)"
  have uris: "aq_criteria_uri ?rq = ''file:///K''" "aq_case_uri ?rq = ''file:///F''" by (simp_all add: vx_request_def)
  obtain s1 where s1: "record_event vx_controller ?i ''workflow_started'' (workflow_text W_RECEIVED) ''controller'' [] No_Details s = (Inr (), s1)"
    using vx_record by blast
  obtain s2 where s2: "record_event vx_controller ?i ''criteria_parsed'' ''ok'' ''parse_document'' [] No_Details s1 = (Inr (), s2)" using vx_record by blast
  obtain s3 where s3: "record_rules vx_controller ?i (Loaded_Policy ex_policy) s2 = (Inr (), s3)" unfolding record_rules_def using vx_record by blast
  obtain s4 where s4: "record_event vx_controller ?i ''case_parsed'' ''ok'' ''parse_document'' [] No_Details s3 = (Inr (), s4)" using vx_record by blast
  obtain s5 where s5: "record_event vx_controller ?i ''facts_extracted'' ''ok'' ''extract_facts'' [] No_Details s4 = (Inr (), s5)" using vx_record by blast
  obtain c x where c: "review_facts vx_controller ?rq (vx_parsed vx_criteria) (vx_parsed vx_forms) (Loaded_Policy ex_policy) (Extracted_Case ex_facts) s5
       = (Inr (Some \<lparr>rw_result = Some x, rw_case = Some c, rw_report = report_of_case c\<rparr>), s5)"
     "completes (report_of_case c)" "fw_context x = Some ex_context" "su_total_adjustment_percent (fw_summary x) \<noteq> None"
    using vx_facts by blast
  let ?r = "\<lparr>rw_result = Some x, rw_case = Some c, rw_report = report_of_case c\<rparr>"
  obtain s6 where s6: "record_evaluated vx_controller ?i (Loaded_Policy ex_policy) ?r s5 = (Inr (), s6)"
    unfolding record_evaluated_def Let_def using vx_record by blast
  obtain s7 where s7: "record_event vx_controller ?i ''results_verified'' (evaluation_text (rt_status (report_of_case c))) ''verify_results'' []
      (Error_Details (rt_critical_errors (report_of_case c))) s6 = (Inr (), s7)" using vx_record by blast
  have "verified_run vx_controller ?rq (vx_parsed vx_criteria) (vx_parsed vx_forms) (Loaded_Policy ex_policy) ?r s5
      = complete_run vx_controller ?rq (vx_parsed vx_criteria) (vx_parsed vx_forms) (Loaded_Policy ex_policy) ?r s7"
    unfolding verified_run_def by (subst run_seq, rule s6, subst run_seq) (use c(2) s7 in simp_all)
  then have "review_documents vx_controller ?rq (vx_parsed vx_criteria) (Loaded_Policy ex_policy) s3
      = complete_run vx_controller ?rq (vx_parsed vx_criteria) (vx_parsed vx_forms) (Loaded_Policy ex_policy) ?r s7"
    by (simp add: review_documents_def Let_def uris vx_parse vx_calls s4 s5 c(1) seq_def)
  then have "review_request vx_controller ?rq s
      = complete_run vx_controller ?rq (vx_parsed vx_criteria) (vx_parsed vx_forms) (Loaded_Policy ex_policy) ?r s7"
    by (simp add: review_request_def Let_def uris vx_parse vx_calls s1 [simplified] s2 s3 seq_def)
  then show ?thesis using c(2-4) by blast
qed

section \<open>A delivered run\<close>

lemma vx_protected: "protected_sources (vx_parsed vx_criteria) (vx_parsed vx_forms) (Loaded_Policy ex_policy) ''file:///T'' = Inr [''file:///K'', ''file:///F'']"
  by code_simp

lemma vx_completed: "\<exists>run s. review vx_controller (vx_request ''file:///T'' (Some ''file:///O'')) 0 = (Inr run, s) \<and> ag_status run = W_COMPLETED"
proof -
  let ?rq = "vx_request ''file:///T'' (Some ''file:///O'')"
  obtain c x s1 where r: "review_request vx_controller ?rq \<lparr>rs_events = [], rs_world = 0\<rparr>
       = complete_run vx_controller ?rq (vx_parsed vx_criteria) (vx_parsed vx_forms) (Loaded_Policy ex_policy)
           \<lparr>rw_result = Some x, rw_case = Some c, rw_report = report_of_case c\<rparr> s1"
     "fw_context x = Some ex_context" "su_total_adjustment_percent (fw_summary x) \<noteq> None"
    using vx_run by blast
  let ?q = "\<lparr>wq_source_uri = ''file:///T'', wq_destination_uri = ''file:///O'', wq_protected_source_uris = [''file:///K'', ''file:///F''],
      wq_result = x, wq_additional_results = [], wq_field_map = \<lparr>pm_template_id = ''T1'', pm_fields = [vx_field]\<rparr>\<rparr>"
  have parts: "field_map_valid \<lparr>pm_template_id = ''T1'', pm_fields = [vx_field]\<rparr>" "value_refs \<lparr>pm_template_id = ''T1'', pm_fields = [vx_field]\<rparr> =
      [\<lparr>vf_scope = Regional, vf_target_id = ''T'', vf_comparable_id = ''C'', vf_value = Total_Value, vf_factor_id = None\<rparr>]" by code_simp+
  have free: "destination_free ?q = Inr ()"
  proof -
    have ids: "document_identity ''file:///T'' = Inr (''file'', [], ''/T'')" "document_identity ''file:///O'' = Inr (''file'', [], ''/O'')"
      "document_identity ''file:///K'' = Inr (''file'', [], ''/K'')" "document_identity ''file:///F'' = Inr (''file'', [], ''/F'')" by code_simp+
    show ?thesis by (simp add: destination_free_def ids)
  qed
  have strip: "strip ''file:///T'' = ''file:///T''" "strip ''file:///O'' = ''file:///O''" "strip ''file:///K'' = ''file:///K''" "strip ''file:///F'' = ''file:///F''"
    by code_simp+
  have "ref_resolves ?q \<lparr>vf_scope = Regional, vf_target_id = ''T'', vf_comparable_id = ''C'', vf_value = Total_Value, vf_factor_id = None\<rparr> = Inr ()"
    using r(2,3) by (simp add: ref_resolves_def bound_comparison_def comparisons_def context_tuple_def ref_tuple_def ex_context_def)
  then have "validate_request ?q = Inr ()"
    using free by (simp add: validate_request_def bound_contexts_def mapped_fields_def parts) (simp add: vx_field_def)
  then have q: "make_write_request (env_well_formed ex_env) ?q = Inr ?q"
    using parts strip by (simp add: make_write_request_def stripped_request_def pdf_identifier_def comparisons_def ex_env_def)
  have out: "accepted_output ?q (Returned_Result \<lparr>pw_artifact_created = True, pw_output_uri = ''file:///O'', pw_page_count = 1,
      pw_written_field_ids = [''total''], pw_warnings = []\<rparr>) = Inr \<lparr>pw_artifact_created = True, pw_output_uri = ''file:///O'', pw_page_count = 1,
      pw_written_field_ids = [''total''], pw_warnings = []\<rparr>"
  proof -
    have "stripped_result \<lparr>pw_artifact_created = True, pw_output_uri = ''file:///O'', pw_page_count = 1, pw_written_field_ids = [''total''], pw_warnings = []\<rparr>
        = \<lparr>pw_artifact_created = True, pw_output_uri = ''file:///O'', pw_page_count = 1, pw_written_field_ids = [''total''], pw_warnings = []\<rparr>"
      "write_result_valid \<lparr>pw_artifact_created = True, pw_output_uri = ''file:///O'', pw_page_count = 1, pw_written_field_ids = [''total''], pw_warnings = []\<rparr>"
      by code_simp+
    then show ?thesis by (simp add: accepted_output_def vx_field_def)
  qed
  have ct: "ct_writer vx_controller = Some vx_writer" "ct_env vx_controller = ex_env" by (simp_all add: vx_controller_def)
  have call: "call (wr_write vx_writer ?q) s1 = (Inr (Returned_Result \<lparr>pw_artifact_created = True, pw_output_uri = ''file:///O'', pw_page_count = 1,
      pw_written_field_ids = [''total''], pw_warnings = []\<rparr>), s1\<lparr>rs_world := rs_world s1 + 1\<rparr>)"
    by (simp add: call_def vx_writer_def vx_field_def)
  have "complete_run vx_controller ?rq (vx_parsed vx_criteria) (vx_parsed vx_forms) (Loaded_Policy ex_policy)
      \<lparr>rw_result = Some x, rw_case = Some c, rw_report = report_of_case c\<rparr> s1
    = pdf_written vx_controller ?rq \<lparr>rw_result = Some x, rw_case = Some c, rw_report = report_of_case c\<rparr>
        \<lparr>pw_artifact_created = True, pw_output_uri = ''file:///O'', pw_page_count = 1, pw_written_field_ids = [''total''], pw_warnings = []\<rparr>
        (s1\<lparr>rs_world := rs_world s1 + 1\<rparr>)"
    using q out
    by (simp add: complete_run_def Let_def vx_request_def ct write_pdf_def vx_protected lift_result_def seq_def call)
  moreover have "\<exists>run s. pdf_written vx_controller ?rq \<lparr>rw_result = Some x, rw_case = Some c, rw_report = report_of_case c\<rparr>
        \<lparr>pw_artifact_created = True, pw_output_uri = ''file:///O'', pw_page_count = 1, pw_written_field_ids = [''total''], pw_warnings = []\<rparr>
        (s1\<lparr>rs_world := rs_world s1 + 1\<rparr>) = (Inr run, s) \<and> ag_status run = W_COMPLETED"
    by (simp add: pdf_written_def record_event_def vx_controller_def finished_def events_so_far_def seq_def pure_def reviewed_run_def blank_run_def Let_def)
  ultimately obtain run s where "review_request vx_controller ?rq \<lparr>rs_events = [], rs_world = 0\<rparr> = (Inr run, s)" "ag_status run = W_COMPLETED"
    unfolding r(1) by auto
  then show ?thesis by (auto simp: review_def handle_def)
qed

theorem verified_run_is_grounded_witness:
  "\<exists>(run :: agent_run) (s :: nat review_state). review vx_controller (vx_request ''file:///T'' (Some ''file:///O'')) 0 = (Inr run, s)
     \<and> delivered (vx_request ''file:///T'' (Some ''file:///O'')) run \<and> ag_case_review run \<noteq> None"
proof -
  obtain run s where run: "review vx_controller (vx_request ''file:///T'' (Some ''file:///O'')) 0 = (Inr run, s)" "ag_status run = W_COMPLETED"
    using vx_completed by blast
  then have "ag_status run \<in> {W_VERIFIED, W_COMPLETED}" by simp
  from verified_run_is_grounded [OF run(1) this] run show ?thesis by blast
qed

text \<open>Two writers that differ only where no verified request reaches them.\<close>

definition vx_other_writer :: "nat pdf_writer" where
  "vx_other_writer = vx_writer\<lparr>wr_write := (\<lambda>q n. if verified_request q then wr_write vx_writer q n else (Raised_Other, n))\<rparr>"

theorem writer_sees_only_verified_values_witness:
  "review (with_writer vx_controller vx_other_writer) (vx_request ''file:///T'' (Some ''file:///O'')) 0
     = review (with_writer vx_controller vx_writer) (vx_request ''file:///T'' (Some ''file:///O'')) 0"
proof (rule writer_sees_only_verified_values)
  show "\<forall>q w. verified_request q \<longrightarrow> wr_write vx_other_writer q w = wr_write vx_writer q w" by (simp add: vx_other_writer_def)
qed (simp add: vx_other_writer_def)

theorem audit_trail_is_complete_witness:
  "\<exists>(run :: agent_run) (s :: nat review_state). review vx_controller (vx_request ''file:///T'' (Some ''file:///O'')) 0 = (Inr run, s)
     \<and> map ae_sequence (ag_events run) = [1..<length (ag_events run) + 1]"
proof -
  obtain run s where run: "review vx_controller (vx_request ''file:///T'' (Some ''file:///O'')) 0 = (Inr run, s)" using vx_completed by blast
  from audit_trail_is_complete [OF this] show ?thesis using run by metis
qed

section \<open>A template that discards the review\<close>




end
