(* ===== verification/Spec2Isabelle.thy ===== *)
theory Spec2Isabelle
  imports Worker_Safety Bounded_Safety Workflow_Task_Example Controller_Example
begin

text \<open>
  Verification of the appraisal review system (\<open>src/src/appraisal_review\<close>).

  The program checks land appraisal reports.  A reviewer submits a case; a durable job store queues it; a
  worker claims it, reviews the case and publishes a result; the review itself is deterministic and trusts
  only documents, rules and confirmations that it can resolve and recompute, and a controller delivers its result
  as a PDF only when it is verified.  Where material is missing, a
  controlled workflow lets a system or a model propose the next action, which trusted policy admits or
  refuses.  Where it needs a person, the job waits for the answer to a human task, which confirms or corrects
  the material and queues a new run on the new revision.  The development follows these parts.

  \<^bold>\<open>Shared vocabulary.\<close>  \<open>Prelude\<close> has the Python exceptions as values (\<open>fault\<close>, \<open>'a result\<close>),
  insertion-ordered dictionaries, the list idioms of the sources and the locale of transition systems that
  every stateful component interprets.  \<open>Computations\<close> has computations that change a state and may raise, with the locale
  of the preorders on states that sequencing and handling keep.  \<open>Decimals\<close> is the part of the \<open>decimal\<close> module
  that the rules use.

  \<^bold>\<open>The job control plane.\<close>  \<open>Service_Contracts\<close> (\<open>domain/service_contracts.py\<close>, \<open>domain/job_contracts.py\<close>,
  \<open>application/service_guards.py\<close>) has references, submissions, principals and idempotency;
  \<open>Job_State\<close> (\<open>application/job_state.py\<close>) the status graph, policy ceilings and backoff; \<open>Job_Store\<close>
  (\<open>adapters/local/job_store.py\<close>) every operation of the reference store, with \<open>Job_Store_Inv\<close> its invariant,
  \<open>Job_Runs\<close> the arbitrary interleavings, \<open>Job_Safety\<close> fencing, finality and append-only results, and
  \<open>Job_Liveness\<close> the absence of dangling keys and the way on for every unfinished job.  \<open>Review_Jobs\<close> and
  \<open>Review_Safety\<close> are \<open>application/review_jobs.py\<close> over the store, with what a body that an attempt left behind
  means for every later publication; \<open>Outbox_Worker\<close> and \<open>Worker_Safety\<close> are
  \<open>application/outbox.py\<close> and \<open>application/runtime_worker.py\<close>, whose passes are shown to be runs of the store under
  any interference of other actors between two awaits.

  \<^bold>\<open>The deterministic review.\<close>  \<open>Factor_Models\<close>, \<open>Factor_Engine\<close> and \<open>Factor_Safety\<close> (\<open>domain/factor_models.py\<close>,
  \<open>domain/factor_engine.py\<close>, \<open>domain/verification.py\<close>) classify observations into grades, whatever unit of length they are given in, look up
  adjustments and recompute results independently before completion; \<open>Rule_Engine\<close> (\<open>domain/models.py\<close>,
  \<open>domain/rule_engine.py\<close>) evaluates sum and equality rules; \<open>Documents\<close> and \<open>Source_Purpose\<close> resolve citations and
  permitted uses (\<open>domain/document_models.py\<close>, \<open>domain/pdf_types.py\<close>, \<open>domain/source_purpose.py\<close>);
  \<open>Review_Contracts\<close> (\<open>domain/review_contracts.py\<close>, \<open>domain/confidence.py\<close>) has inventories, observations and
  confirmations; \<open>Fill_Candidates\<close> (\<open>domain/fill_candidates.py\<close>) the values that may fill a blank;
  \<open>Static_Order\<close> the topological order of \<open>graphlib\<close>.  \<open>Case_Review\<close> composes them as \<open>domain/case_review.py\<close>
  does, \<open>Case_Safety\<close> shows what a verified case rests on, and \<open>Case_Example\<close> has a case that verifies.

  \<^bold>\<open>The review controller.\<close>  \<open>Review_Controller\<close> (\<open>application/controller.py\<close>) parses the sources, loads the rules, extracts
  the facts, reviews them and, only when the review verifies, hands a PDF request to a writer; \<open>Pdf_Contracts\<close>
  (\<open>domain/pdf_types.py\<close>, \<open>domain/pdf_models.py\<close>) has the field maps, requests and results of that hand-over.
  \<open>Controller_Safety\<close> shows that a verified run rests on a verified case review of current registered sources, that
  two writers can only be told apart by requests of verified comparisons, and that the audit trail is complete
  whether a review returns or raises, and that a template address which cannot be read loses what the same request
  without output returns; \<open>Controller_Example\<close> takes the example case through a writer and into that loss.

  \<^bold>\<open>The controlled workflow.\<close>  \<open>Workflow_Contracts\<close> and \<open>Workflow_Events\<close> are the controlled-action models of
  \<open>domain/service_contracts.py\<close>; \<open>Run_Ledger\<close> (\<open>adapters/local/workflow_run_ledger.py\<close>) reserves a run
  for one owner at a time; \<open>Action_Policy\<close> (\<open>application/action_policy.py\<close>, \<open>admit_action\<close> of
  \<open>application/service_guards.py\<close>, \<open>adapters/local/action_selector.py\<close>) derives, proposes and admits
  actions, and \<open>Policy_Safety\<close> shows that nothing runs without a rule.  \<open>Workflow_World\<close> has the decision
  trace (\<open>adapters/local/decision_trace.py\<close>) and the computations over ledger, trace and services;
  \<open>Controlled_Workflow\<close> (\<open>application/controlled_workflow.py\<close>) is one decision, \<open>Bounded_Workflow\<close>
  (\<open>application/bounded_workflow.py\<close>) the loop over decisions.  \<open>Workflow_Safety\<close> shows what each of them leaves
  alone in the ledger and how the budget falls; \<open>Bounded_Safety\<close> that a run always ends, settles its ledger
  record, reports only what it saw and never calls a tool with an unadmitted proposal.

  \<^bold>\<open>Human tasks.\<close>  \<open>Task_Contracts\<close> has tasks, responses, receipts and the reviewer's views
  (\<open>domain/service_contracts.py\<close>, \<open>domain/task_contracts.py\<close>, \<open>admit_response\<close> of \<open>application/service_guards.py\<close>);
  \<open>Revisions\<close> (\<open>application/revisions.py\<close>) the immutable snapshots of review material and what a revision keeps of
  the confirmations; \<open>Task_Store\<close> (\<open>adapters/local/human_task_store.py\<close>) the tasks, revision chains and receipts
  beside the job store, with the one write that commits an answer in both; \<open>Human_Tasks\<close>
  (\<open>application/human_tasks.py\<close>) the service.  \<open>Task_Store_Inv\<close> is the store's invariant; \<open>Task_Safety\<close> shows, under any
  interleaving with other reviewers and with the job plane, that an answer is all or nothing, that open questions
  are about the current material, that a retry gets its receipt, and what a confirmation or a correction may
  change; \<open>Task_Example\<close> has a waiting job, a refusal, a confirmation and a correction.

  \<^bold>\<open>Tasks of the paused workflow.\<close>  The controlled workflow has a task queue of its own.
  \<open>Material_Corrections\<close> (\<open>application/material_corrections.py\<close>) maps named subjects to sides of factor pairs and changes
  the material for one answer; \<open>Workflow_Task_Store\<close> (\<open>adapters/local/human_tasks.py\<close>) is the repository of
  tasks, answers, runs, pauses and continuations; \<open>Workflow_Tasks\<close> (\<open>application/workflow_tasks.py\<close>) builds tasks from the
  findings of a review, hands them off and turns an admitted answer into new material and a new run.
  \<open>Workflow_Task_Inv\<close> is the repository's invariant over every sequence of its operations; \<open>Workflow_Task_Safety\<close>
  shows that open tasks are about the active run, that an answer is final, replayed and closes its round, that
  every confirmation in answered material was earned by a recorded answer, and that a handoff hides no finding;
  \<open>Workflow_Task_Example\<close> asks about the example case and confirms it.

  \<^bold>\<open>Conventions.\<close>  A pydantic model is a record with a boolean validity function; constructing or revalidating it
  raises \<open>Value_Error\<close> exactly when the function is false.  JSON round trips of a model are the identity, and a result that the review
  computed revalidates when a run model takes it.  An address that \<open>urlsplit\<close> itself refuses, one with unbalanced brackets,
  raises \<open>Value_Error\<close>.  Identifiers
  are natural numbers (\<open>uuid4\<close> is an argument), instants are integers, hashes (\<open>content_digest\<close>, SHA-256) are
  function arguments.  Dictionaries keep insertion order.  Snapshot
  provider, selector, tools, clock, event identifiers and the rounding of floating-point seconds are arguments
  of the workflow; they change a world of their own, never the ledger or the trace, which belong to the
  coordinator holding the reservation.  Where a service of the human tasks awaits, an argument \<open>mid\<close> may change both
  planes between the \<open>n\<close>-th and the next await; \<open>meanwhile\<close> says that it is a run of the planes' own steps.  A synchronous method, such as the seeding of the task
  store, is one step even where it takes no lock.  A sleep between two retries returns: a cancellation that arrives
  during it is not modelled.

  \<^bold>\<open>Bounds and fuel.\<close>  The rounds of \<open>Static_Order\<close> carry the number of nodes as fuel; every round with work marks at
  least one node, so the fuel is enough, which \<open>checks_follow_their_inputs\<close> shows through the completeness
  of the order.  The loop of \<open>Bounded_Workflow\<close> takes the number of turns as fuel; one more than the steps and
  retries left is enough, by \<open>bounded_run_returns\<close>.  All other loops are structural or have a proved measure.

  \<^bold>\<open>Not modelled.\<close>  Adapters to cloud services and to SQLite (their semantics is the service's or the
  database's), PDF parsing and rendering, OCR and privacy workers, model calls, the assembly of the integrated
  workflow from parsers and extraction tools, HTTP routes and command lines, and the offline evaluation tools.  The
  manifest lists every file of the package with the reason.
\<close>

end
